(* ===== verification/Prelude.thy ===== *)
theory Prelude
  imports Complex_Main "HOL-Library.AList" "HOL-Library.Multiset"
begin

text \<open>
  What the components share: JavaScript arrays read by index, the insertion-ordered
  \<open>Map\<close> of JavaScript, stable sorting by a numeric key, runs of a partial step
  function, and the interfaces (locales) that several components are clients of.

  Conventions of the whole development:
  \<^item> \<open>Date.now()\<close> is a parameter \<open>now\<close> (milliseconds, \<open>int\<close>), timestamps that the
    code keeps as ISO strings are kept as the millisecond they denote;
  \<^item> integers of the code (terms, indices, counters) are \<open>int\<close> or \<open>nat\<close>: the code
    never leaves the range in which a JavaScript number is an exact integer;
  \<^item> quantities the code computes with fractions are \<open>rat\<close>, so rounding of IEEE
    doubles is not modelled; where the code can divide by zero the result is an
    option, with \<open>None\<close> for the infinities and NaN;
  \<^item> a value that travels through \<open>JSON.stringify\<close> and \<open>JSON.parse\<close> is the value
    itself; unparsable text is an explicit case where the code handles it;
  \<^item> log messages are left out.
\<close>

named_theorems js_simps \<open>characteristic equations of the JavaScript library model\<close>

section \<open>Arrays\<close>

text \<open>\<open>xs[i]\<close>: reading outside the array gives \<open>undefined\<close>.\<close>

definition js_at :: "'a list \<Rightarrow> int \<Rightarrow> 'a option" where
  "js_at xs i = (if 0 \<le> i \<and> i < int (length xs) then Some (xs ! nat i) else None)"

text \<open>The position an argument of \<open>slice\<close> denotes: negative ones count from the end.\<close>

definition js_rel :: "int \<Rightarrow> nat \<Rightarrow> nat" where
  "js_rel i n = (if i < 0 then nat (int n + i) else min (nat i) n)"

text \<open>\<open>xs.slice(a, b)\<close> and \<open>xs.splice(a)\<close> (delete everything from \<open>a\<close> on).\<close>

definition js_slice :: "'a list \<Rightarrow> int \<Rightarrow> int \<Rightarrow> 'a list" where
  "js_slice xs a b =
     (let i = js_rel a (length xs); j = js_rel b (length xs) in take (j - i) (drop i xs))"

definition js_splice_from :: "'a list \<Rightarrow> int \<Rightarrow> 'a list" where
  "js_splice_from xs a = take (js_rel a (length xs)) xs"

lemma js_at_SomeD: "js_at xs i = Some x \<Longrightarrow> 0 \<le> i \<and> i < int (length xs) \<and> x = xs ! nat i"
  by (auto simp: js_at_def split: if_splits)

lemma js_at_nth [js_simps]: "i < length xs \<Longrightarrow> js_at xs (int i) = Some (xs ! i)"
  by (simp add: js_at_def)

lemma js_at_None_iff: "js_at xs i = None \<longleftrightarrow> i < 0 \<or> int (length xs) \<le> i"
  by (auto simp: js_at_def)

lemma js_at_in_set: "js_at xs i = Some x \<Longrightarrow> x \<in> set xs"
  by (auto dest!: js_at_SomeD)

lemma js_slice_nonneg [js_simps]:
  "0 \<le> a \<Longrightarrow> js_slice xs a (a + int m) = take m (drop (nat a) xs)"
  by (cases "nat a \<le> length xs") (auto simp: js_slice_def js_rel_def Let_def min_def nat_add_distrib)

lemma js_splice_from_nonneg [js_simps]: "0 \<le> a \<Longrightarrow> js_splice_from xs a = take (nat a) xs"
  by (auto simp: js_splice_from_def js_rel_def min_def)

section \<open>Insertion-ordered maps\<close>

text \<open>
  A JavaScript \<open>Map\<close> keeps its keys in insertion order: \<open>set\<close> on a key that is
  present replaces the value in place, on a new key appends.
\<close>

type_synonym ('k, 'v) jsmap = "('k \<times> 'v) list"

definition jm_get :: "('k, 'v) jsmap \<Rightarrow> 'k \<Rightarrow> 'v option" where
  "jm_get m k = map_of m k"

definition jm_set :: "'k \<Rightarrow> 'v \<Rightarrow> ('k, 'v) jsmap \<Rightarrow> ('k, 'v) jsmap" where
  "jm_set k v m = AList.update k v m"

definition jm_delete :: "'k \<Rightarrow> ('k, 'v) jsmap \<Rightarrow> ('k, 'v) jsmap" where
  "jm_delete k m = AList.delete k m"

definition jm_has :: "('k, 'v) jsmap \<Rightarrow> 'k \<Rightarrow> bool" where
  "jm_has m k \<longleftrightarrow> jm_get m k \<noteq> None"

definition jm_keys :: "('k, 'v) jsmap \<Rightarrow> 'k list" where
  "jm_keys m = map fst m"

definition jm_values :: "('k, 'v) jsmap \<Rightarrow> 'v list" where
  "jm_values m = map snd m"

definition jm_size :: "('k, 'v) jsmap \<Rightarrow> nat" where
  "jm_size m = length m"

text \<open>Mutating an object that is a value of the map, through a reference to it.\<close>

definition jm_modify :: "'k \<Rightarrow> ('v \<Rightarrow> 'v) \<Rightarrow> ('k, 'v) jsmap \<Rightarrow> ('k, 'v) jsmap" where
  "jm_modify k f m = map (\<lambda>(k', v). (k', if k' = k then f v else v)) m"

text \<open>Mutating every value in a loop over \<open>values()\<close>.\<close>

definition jm_map :: "('v \<Rightarrow> 'v) \<Rightarrow> ('k, 'v) jsmap \<Rightarrow> ('k, 'v) jsmap" where
  "jm_map f m = map (\<lambda>(k, v). (k, f v)) m"

definition jm_wf :: "('k, 'v) jsmap \<Rightarrow> bool" where
  "jm_wf m \<longleftrightarrow> distinct (map fst m)"

text \<open>The map interface the components are written against.\<close>

locale keyed_store =
  fixes get :: "'m \<Rightarrow> 'k \<Rightarrow> 'v option"
    and put :: "'k \<Rightarrow> 'v \<Rightarrow> 'm \<Rightarrow> 'm"
    and del :: "'k \<Rightarrow> 'm \<Rightarrow> 'm"
    and keys :: "'m \<Rightarrow> 'k list"
    and size_of :: "'m \<Rightarrow> nat"
    and wf :: "'m \<Rightarrow> bool"
  assumes get_put: "get (put k v m) k' = (if k' = k then Some v else get m k')"
    and get_del: "get (del k m) k' = (if k' = k then None else get m k')"
    and keys_get: "k \<in> set (keys m) \<longleftrightarrow> get m k \<noteq> None"
    and size_keys: "size_of m = length (keys m)"
    and wf_keys: "wf m \<Longrightarrow> distinct (keys m)"
    and wf_put: "wf m \<Longrightarrow> wf (put k v m)"
    and wf_del: "wf m \<Longrightarrow> wf (del k m)"
begin

lemma keys_put: "set (keys (put k v m)) = insert k (set (keys m))"
  by (auto simp: keys_get get_put split: if_splits)

lemma keys_del: "set (keys (del k m)) = set (keys m) - {k}"
  by (auto simp: keys_get get_del split: if_splits)

lemma size_card: "wf m \<Longrightarrow> size_of m = card (set (keys m))"
  by (simp add: size_keys distinct_card wf_keys)

lemma size_put: "wf m \<Longrightarrow> size_of (put k v m) = (if get m k = None then Suc (size_of m) else size_of m)"
  by (auto simp: size_card wf_put keys_put card_insert_if keys_get)

lemma size_del: "wf m \<Longrightarrow> size_of (del k m) = (if get m k = None then size_of m else size_of m - 1)"
  by (auto simp: size_card wf_del keys_del keys_get card_Diff_singleton_if)

lemma put_commute_get:
  "k \<noteq> k' \<Longrightarrow> get (put k v (put k' v' m)) = get (put k' v' (put k v m))"
  by (rule ext) (simp add: get_put)

end

interpretation jm: keyed_store jm_get jm_set jm_delete jm_keys jm_size jm_wf
proof unfold_locales
  show "jm_get (jm_set k v m) k' = (if k' = k then Some v else jm_get m k')" for k k' :: 'k and v :: 'v and m
    by (simp add: jm_get_def jm_set_def update_conv')
  show "jm_get (jm_delete k m) k' = (if k' = k then None else jm_get m k')" for k k' :: 'k and m :: "('k, 'v) jsmap"
    by (simp add: jm_get_def jm_delete_def delete_conv')
  show "k \<in> set (jm_keys m) \<longleftrightarrow> jm_get m k \<noteq> None" for k :: 'k and m :: "('k, 'v) jsmap"
    by (simp add: jm_keys_def jm_get_def map_of_eq_None_iff)
  show "jm_size m = length (jm_keys m)" for m :: "('k, 'v) jsmap"
    by (simp add: jm_size_def jm_keys_def)
  show "jm_wf m \<Longrightarrow> distinct (jm_keys m)" for m :: "('k, 'v) jsmap"
    by (simp add: jm_wf_def jm_keys_def)
  show "jm_wf m \<Longrightarrow> jm_wf (jm_set k v m)" for k :: 'k and v :: 'v and m
    by (simp add: jm_wf_def jm_set_def distinct_update)
  show "jm_wf m \<Longrightarrow> jm_wf (jm_delete k m)" for k :: 'k and m :: "('k, 'v) jsmap"
    by (simp add: jm_wf_def jm_delete_def distinct_delete)
qed

lemmas jm_laws = jm.get_put jm.get_del jm.wf_put jm.wf_del

declare jm_laws [simp]

lemma jm_get_modify [simp]: "jm_get (jm_modify k f m) k' = (if k' = k then map_option f (jm_get m k) else jm_get m k')"
  by (induction m) (auto simp: jm_get_def jm_modify_def)

lemma jm_get_map [simp]: "jm_get (jm_map f m) k = map_option f (jm_get m k)"
  by (induction m) (auto simp: jm_get_def jm_map_def)

lemma jm_keys_modify [simp]: "jm_keys (jm_modify k f m) = jm_keys m"
  by (simp add: jm_keys_def jm_modify_def case_prod_unfold)

lemma jm_keys_map [simp]: "jm_keys (jm_map f m) = jm_keys m"
  by (simp add: jm_keys_def jm_map_def case_prod_unfold)

lemma jm_wf_keys: "jm_wf m \<longleftrightarrow> distinct (jm_keys m)"
  by (simp add: jm_wf_def jm_keys_def)

lemma jm_wf_modify [simp]: "jm_wf (jm_modify k f m) = jm_wf m"
  by (simp add: jm_wf_keys)

lemma jm_wf_map [simp]: "jm_wf (jm_map f m) = jm_wf m"
  by (simp add: jm_wf_keys)

lemma jm_wf_Nil [simp]: "jm_wf []"
  by (simp add: jm_wf_def)

lemma jm_get_Nil [simp]: "jm_get [] k = None"
  by (simp add: jm_get_def)

lemma jm_get_in_values: "jm_get m k = Some v \<Longrightarrow> v \<in> set (jm_values m)"
  by (auto simp: jm_get_def jm_values_def dest: map_of_SomeD intro: rev_image_eqI)

lemma jm_values_get: "jm_wf m \<Longrightarrow> v \<in> set (jm_values m) \<longleftrightarrow> (\<exists>k. jm_get m k = Some v)"
  by (force simp: jm_wf_def jm_get_def jm_values_def image_iff)

lemma jm_values_modify_other:
  "jm_get m k = None \<Longrightarrow> jm_modify k f m = m"
  by (induction m) (auto simp: jm_get_def jm_modify_def split: if_splits)

section \<open>Runs of a partial step function\<close>

text \<open>
  A component driven from outside is a partial function of an action and a state:
  \<open>None\<close> where the action's guard fails. A run performs a list of actions.
\<close>

fun run :: "('a \<Rightarrow> 's \<Rightarrow> 's option) \<Rightarrow> 'a list \<Rightarrow> 's \<Rightarrow> 's option" where
  "run step [] s = Some s"
| "run step (a # as) s = (case step a s of None \<Rightarrow> None | Some s' \<Rightarrow> run step as s')"

lemma run_append: "run step (as @ bs) s = Option.bind (run step as s) (run step bs)"
  by (induction as arbitrary: s) (auto split: option.splits)

locale invariant_of =
  fixes step :: "'a \<Rightarrow> 's \<Rightarrow> 's option"
    and inv :: "'s \<Rightarrow> bool"
  assumes step_inv: "inv s \<Longrightarrow> step a s = Some s' \<Longrightarrow> inv s'"
begin

lemma run_inv: "inv s \<Longrightarrow> run step as s = Some s' \<Longrightarrow> inv s'"
  by (induction as arbitrary: s) (auto split: option.splits intro: step_inv)

end

text \<open>A measure that no step decreases grows along a run.\<close>

locale monotone_of =
  fixes step :: "'a \<Rightarrow> 's \<Rightarrow> 's option"
    and val :: "'s \<Rightarrow> 'b::preorder"
  assumes step_mono: "step a s = Some s' \<Longrightarrow> val s \<le> val s'"
begin

lemma run_mono: "run step as s = Some s' \<Longrightarrow> val s \<le> val s'"
proof (induction as arbitrary: s)
  case (Cons a as)
  then obtain t where "step a s = Some t" and "run step as t = Some s'"
    by (auto split: option.splits)
  then show ?case using Cons.IH step_mono order_trans by blast
qed simp

end

section \<open>Strings\<close>

text \<open>Truthiness of an optional string: neither missing nor empty.\<close>

definition truthy :: "string option \<Rightarrow> bool" where
  "truthy s \<longleftrightarrow> (case s of None \<Rightarrow> False | Some x \<Rightarrow> x \<noteq> [])"

text \<open>\<open>a || b\<close> on an optional string.\<close>

definition orElse :: "string option \<Rightarrow> string option \<Rightarrow> string option" where
  "orElse a b = (if truthy a then a else b)"

text \<open>\<open>x ?? d\<close>: the default only for a missing value.\<close>

definition nullish :: "'a option \<Rightarrow> 'a \<Rightarrow> 'a" where
  "nullish x d = (case x of None \<Rightarrow> d | Some v \<Rightarrow> v)"

text \<open>\<open>toString()\<close> of an integer, in template literals too.\<close>

fun show_nat :: "nat \<Rightarrow> string" where
  "show_nat n = (if n < 10 then [char_of (48 + n)] else show_nat (n div 10) @ [char_of (48 + n mod 10)])"

declare show_nat.simps [simp del]

definition show_int :: "int \<Rightarrow> string" where
  "show_int i = (if i < 0 then CHR ''-'' # show_nat (nat (- i)) else show_nat (nat i))"

definition is_space :: "char \<Rightarrow> bool" where
  "is_space c \<longleftrightarrow> (of_char c :: nat) \<in> {9, 10, 11, 12, 13, 32}"

definition trim :: "string \<Rightarrow> string" where
  "trim s = rev (dropWhile is_space (rev (dropWhile is_space s)))"

lemma trim_Nil [simp]: "trim [] = []"
  by (simp add: trim_def)

lemma trim_fixed: "\<not> is_space (hd s) \<Longrightarrow> \<not> is_space (last s) \<Longrightarrow> trim s = s"
proof (cases "s = []")
  case False
  assume "\<not> is_space (hd s)" "\<not> is_space (last s)"
  with False have "dropWhile is_space s = s" "dropWhile is_space (rev s) = rev s"
    by (auto simp: dropWhile_eq_self_iff hd_rev)
  then show ?thesis by (simp add: trim_def)
qed simp

lemma trim_ends: "trim s \<noteq> [] \<Longrightarrow> \<not> is_space (hd (trim s)) \<and> \<not> is_space (last (trim s))"
proof -
  assume ne: "trim s \<noteq> []"
  let ?u = "dropWhile is_space s"
  let ?w = "dropWhile is_space (rev ?u)"
  have w: "?w \<noteq> []" using ne by (simp add: trim_def)
  have "\<not> is_space (hd ?w)" using w hd_dropWhile [of is_space "rev ?u"] by (simp add: dropWhile_eq_Nil_conv)
  moreover obtain ps where "rev ?u = ps @ ?w" by (metis takeWhile_dropWhile_id)
  then have u: "?u = rev ?w @ rev ps" by (metis rev_append rev_rev_ident)
  then have "?u \<noteq> []" "hd ?u = last ?w" using w by (metis append_is_Nil_conv rev_is_Nil_conv, metis hd_append2 hd_rev rev_is_Nil_conv)
  moreover have "\<not> is_space (hd ?u)" using hd_dropWhile [of is_space s] \<open>?u \<noteq> []\<close> by (simp add: dropWhile_eq_Nil_conv)
  ultimately show ?thesis using w by (simp add: trim_def hd_rev last_rev)
qed

lemma trim_idem [simp]: "trim (trim s) = trim s"
  using trim_ends [of s] by (cases "trim s = []") (simp_all add: trim_fixed)

definition endsWith :: "string \<Rightarrow> string \<Rightarrow> bool" where
  "endsWith s t \<longleftrightarrow> length t \<le> length s \<and> drop (length s - length t) s = t"

section \<open>Sorting\<close>

text \<open>
  \<open>sort((a, b) => b.k - a.k)\<close>: stable, largest key first.
\<close>

definition sort_desc :: "('a \<Rightarrow> 'k::linordered_ab_group_add) \<Rightarrow> 'a list \<Rightarrow> 'a list" where
  "sort_desc k xs = sort_key (\<lambda>x. - k x) xs"

lemma set_sort_desc [simp]: "set (sort_desc k xs) = set xs"
  by (simp add: sort_desc_def)

lemma mset_sort_desc [simp]: "mset (sort_desc k xs) = mset xs"
  by (simp add: sort_desc_def)

lemma length_sort_desc [simp]: "length (sort_desc k xs) = length xs"
  by (simp add: sort_desc_def)

lemma sort_desc_Nil [simp]: "sort_desc k xs = [] \<longleftrightarrow> xs = []"
  using length_sort_desc [of k xs] by (metis length_0_conv)

lemma sorted_sort_desc: "sorted (map (\<lambda>x. - k x) (sort_desc k xs))"
  by (simp add: sort_desc_def)

lemma hd_sort_desc:
  assumes "xs \<noteq> []"
  shows "hd (sort_desc k xs) \<in> set xs" and "x \<in> set xs \<Longrightarrow> k x \<le> k (hd (sort_desc k xs))"
proof -
  obtain y ys where s: "sort_desc k xs = y # ys" using assms by (cases "sort_desc k xs") auto
  show "hd (sort_desc k xs) \<in> set xs" using s set_sort_desc [of k xs] by (metis list.sel(1) list.set_intros(1))
  assume "x \<in> set xs"
  then have "x = y \<or> x \<in> set ys" using s set_sort_desc [of k xs] by auto
  then show "k x \<le> k (hd (sort_desc k xs))"
    using sorted_sort_desc [of k xs] s by auto
qed

section \<open>Replicated state machines\<close>

text \<open>
  Replicas act the same entries, each in its own environment (clock, random
  identifiers, own name). \<open>view\<close> is the part of the state they are meant to share;
  an entry is deterministic when its effect on the view depends on the view alone.
\<close>

locale replicated_machine =
  fixes act :: "'env \<Rightarrow> 'e \<Rightarrow> 's \<Rightarrow> 's"
    and view :: "'s \<Rightarrow> 'v"
    and det :: "'e \<Rightarrow> bool"
  assumes apply_view: "det e \<Longrightarrow> view s = view s' \<Longrightarrow> view (act x e s) = view (act y e s')"
begin

lemma replay_view:
  "map snd xs = map snd ys \<Longrightarrow> list_all det (map snd xs) \<Longrightarrow> view s = view s' \<Longrightarrow>
   view (fold (\<lambda>(x, e). act x e) xs s) = view (fold (\<lambda>(x, e). act x e) ys s')"
proof (induction xs arbitrary: ys s s')
  case (Cons a xs)
  then obtain b bs where ys: "ys = b # bs" "snd a = snd b" "map snd xs = map snd bs" by (cases ys) auto
  have "view (act (fst a) (snd a) s) = view (act (fst b) (snd a) s')"
    using Cons.prems by (intro apply_view) auto
  with Cons.IH [OF ys(3)] Cons.prems ys show ?case by (simp add: case_prod_unfold)
qed simp

end

section \<open>Numbers as text\<close>

text \<open>
  \<open>parseInt(s)\<close> for decimal text: white space, a sign, then the longest run of digits;
  \<open>None\<close> is NaN. (The prefix \<open>0x\<close>, which selects base 16, does not occur in the texts
  the components parse.)
\<close>

definition is_digit :: "char \<Rightarrow> bool" where
  "is_digit c \<longleftrightarrow> 48 \<le> (of_char c :: nat) \<and> (of_char c :: nat) \<le> 57"

definition digits_value :: "string \<Rightarrow> nat" where
  "digits_value ds = foldl (\<lambda>acc c. 10 * acc + (of_char c - 48)) 0 ds"

definition parseDigits :: "string \<Rightarrow> nat option" where
  "parseDigits s = (let ds = takeWhile is_digit s in if ds = [] then None else Some (digits_value ds))"

definition parseInt :: "string \<Rightarrow> int option" where
  "parseInt s =
     (let t = dropWhile is_space s
      in case t of [] \<Rightarrow> None
         | c # cs \<Rightarrow>
             if c = CHR ''-'' then map_option (\<lambda>k. - int k) (parseDigits cs)
             else if c = CHR ''+'' then map_option int (parseDigits cs)
             else map_option int (parseDigits t))"

lemma of_char_digit [simp]: "d < 10 \<Longrightarrow> of_char (char_of (48 + d :: nat) :: char) = (48 + d :: nat)"
  by simp

lemma digits_value_snoc: "digits_value (ds @ [c]) = 10 * digits_value ds + (of_char c - 48)"
  by (simp add: digits_value_def)

lemma show_nat_digits: "list_all is_digit (show_nat n) \<and> show_nat n \<noteq> [] \<and> digits_value (show_nat n) = n"
proof (induction n rule: show_nat.induct)
  case (1 n)
  have d: "is_digit (char_of (48 + n mod 10))" "of_char (char_of (48 + n mod 10) :: char) - 48 = n mod 10"
    by (simp_all add: is_digit_def)
  show ?case
  proof (cases "n < 10")
    case True
    then show ?thesis by (simp add: show_nat.simps [of n] digits_value_def is_digit_def)
  next
    case False
    with 1 d show ?thesis by (simp add: show_nat.simps [of n] digits_value_snoc)
  qed
qed

lemma parseDigits_show: "parseDigits (show_nat n) = Some n"
  using show_nat_digits [of n] by (simp add: parseDigits_def takeWhile_eq_all_conv [THEN iffD2] list_all_iff)

lemma parseInt_show: "parseInt (show_int i) = Some i"
proof (cases "i < 0")
  case True
  then show ?thesis by (simp add: parseInt_def show_int_def is_space_def parseDigits_show)
next
  case False
  obtain c cs where s: "show_nat (nat i) = c # cs" and c: "is_digit c"
    using show_nat_digits [of "nat i"] by (cases "show_nat (nat i)") auto
  then have "\<not> is_space c" "c \<noteq> CHR ''-''" "c \<noteq> CHR ''+''"
    by (auto simp: is_digit_def is_space_def)
  then show ?thesis
    using False parseDigits_show [of "nat i"] by (simp add: parseInt_def show_int_def s)
qed

text \<open>ASCII case and the first occurrence of a piece of text.\<close>

definition asciiLower :: "char \<Rightarrow> char" where
  "asciiLower c = (if 65 \<le> (of_char c :: nat) \<and> (of_char c :: nat) \<le> 90 then char_of ((of_char c :: nat) + 32) else c)"

definition asciiUpper :: "char \<Rightarrow> char" where
  "asciiUpper c = (if 97 \<le> (of_char c :: nat) \<and> (of_char c :: nat) \<le> 122 then char_of ((of_char c :: nat) - 32) else c)"

fun replaceFirst :: "string \<Rightarrow> string \<Rightarrow> string \<Rightarrow> string" where
  "replaceFirst pat rep [] = (if pat = [] then rep else [])"
| "replaceFirst pat rep (c # cs) =
     (if take (length pat) (c # cs) = pat then rep @ drop (length pat) (c # cs)
      else c # replaceFirst pat rep cs)"

lemma replaceFirst_prefix: "replaceFirst p [] (p @ s) = s"
proof (cases "p @ s")
  case (Cons c cs)
  have "take (length p) (p @ s) = p" "drop (length p) (p @ s) = s" by simp_all
  then show ?thesis unfolding Cons by simp
qed simp

section \<open>Rounding, joining and prefixes\<close>

text \<open>\<open>Math.round\<close>, \<open>x.toFixed(d)\<close> with at least one digit, \<open>xs.join(sep)\<close>, \<open>s.startsWith(p)\<close>, \<open>s.split('-')[0]\<close>.\<close>

definition js_round :: "rat \<Rightarrow> int" where
  "js_round x = floor (x + 1 / 2)"

definition toFixed :: "nat \<Rightarrow> rat \<Rightarrow> string" where
  "toFixed d x =
     (let n = nat (js_round (\<bar>x\<bar> * 10 ^ d)); frac = show_nat (n mod 10 ^ d)
      in (if x < 0 then ''-'' else []) @ show_nat (n div 10 ^ d) @ ''.'' @ replicate (d - length frac) CHR ''0'' @ frac)"

definition join_with :: "string \<Rightarrow> string list \<Rightarrow> string" where
  "join_with sep xs = concat (case xs of [] \<Rightarrow> [] | y # ys \<Rightarrow> y # map (\<lambda>z. sep @ z) ys)"

definition startsWith :: "string \<Rightarrow> string \<Rightarrow> bool" where
  "startsWith s p \<longleftrightarrow> take (length p) s = p"

definition short_name :: "string \<Rightarrow> string" where
  "short_name s = takeWhile (\<lambda>c. c \<noteq> CHR ''-'') s"

text \<open>\<open>s.includes(t)\<close> on strings.\<close>

definition str_includes :: "string \<Rightarrow> string \<Rightarrow> bool" where
  "str_includes s t \<longleftrightarrow> list_ex (\<lambda>k. take (length t) (drop k s) = t) [0..<Suc (length s)]"

lemma startsWith_iff: "startsWith s p \<longleftrightarrow> (\<exists>t. s = p @ t)"
  by (metis startsWith_def append_eq_conv_conj append_take_drop_id)

end
