(* ===== verification/Quorum.thy ===== *)
theory Quorum
  imports Prelude
begin

text \<open>
  The arithmetic of majorities used by elections (\<open>startElection\<close> in
  \<open>src/cluster/raft.ts\<close>), by the health monitor and by the rolling updater, and the
  quorum interface that the election-safety argument is a client of.
\<close>

section \<open>The size of a majority\<close>

text \<open>\<open>Math.floor(n / 2) + 1\<close> for \<open>n\<close> voting members.\<close>

definition majority :: "nat \<Rightarrow> nat" where
  "majority n = n div 2 + 1"

lemma majority_pos [simp]: "0 < majority n"
  by (simp add: majority_def)

lemma majority_overlap: "majority n \<le> a \<Longrightarrow> majority n \<le> b \<Longrightarrow> n < a + b"
  by (simp add: majority_def)

lemma majority_le: "0 < n \<Longrightarrow> majority n \<le> n"
  by (simp add: majority_def)

section \<open>Quorum systems\<close>

locale quorum_system =
  fixes members :: "'n set"
    and quorum :: "'n set \<Rightarrow> bool"
  assumes quorum_members: "quorum Q \<Longrightarrow> Q \<subseteq> members"
    and quorum_meet: "quorum P \<Longrightarrow> quorum Q \<Longrightarrow> P \<inter> Q \<noteq> {}"
begin

text \<open>
  A ballot records who voted for whom in which term. If no member votes for two
  candidates in a term, two candidates that both have a quorum in it are the same.
\<close>

lemma unique_winner:
  assumes once: "\<And>v c c'. (v, t, c) \<in> ballots \<Longrightarrow> (v, t, c') \<in> ballots \<Longrightarrow> c = c'"
    and c: "quorum P" "\<forall>v\<in>P. (v, t, c) \<in> ballots"
    and c': "quorum Q" "\<forall>v\<in>Q. (v, t, c') \<in> ballots"
  shows "c = c'"
proof -
  obtain v where "v \<in> P" "v \<in> Q" using quorum_meet c(1) c'(1) by blast
  then show ?thesis using once c(2) c'(2) by blast
qed

lemma quorum_nonempty: "quorum Q \<Longrightarrow> Q \<noteq> {}"
  using quorum_meet by blast

end

definition is_majority :: "'n set \<Rightarrow> 'n set \<Rightarrow> bool" where
  "is_majority V Q \<longleftrightarrow> finite V \<and> Q \<subseteq> V \<and> majority (card V) \<le> card Q"

lemma majorities_meet:
  assumes "is_majority V P" and "is_majority V Q"
  shows "P \<inter> Q \<noteq> {}"
proof
  assume disj: "P \<inter> Q = {}"
  have fin: "finite V" "P \<union> Q \<subseteq> V" using assms by (auto simp: is_majority_def)
  then have "card P + card Q = card (P \<union> Q)"
    using disj by (metis card_Un_disjoint finite_Un finite_subset)
  also have "\<dots> \<le> card V" using fin by (intro card_mono)
  finally show False
    using assms majority_overlap [of "card V" "card P" "card Q"] by (auto simp: is_majority_def)
qed

interpretation majorities: quorum_system V "is_majority V" for V
proof unfold_locales
  show "is_majority V Q \<Longrightarrow> Q \<subseteq> V" for Q by (simp add: is_majority_def)
  show "is_majority V P \<Longrightarrow> is_majority V Q \<Longrightarrow> P \<inter> Q \<noteq> {}" for P Q by (rule majorities_meet)
qed

end
