(* ===== verification/Raft.thy ===== *)
theory Raft
  imports Quorum
begin

text \<open>
  One node of the consensus protocol, \<open>RaftNode\<close> of \<open>src/cluster/raft.ts\<close>: its state
  as a record, every handler, state transition, timer operation and persistence
  operation as a function on it.

  \<^item> Timers are kept as armed or not: \<open>electionTimeout\<close> is true while a pending
    \<open>setTimeout\<close> will fire, and \<open>electionTimerFires\<close> is that callback. The random
    length of the timeout is not modelled.
  \<^item> Events given to \<open>emit\<close> are appended to \<open>emitted\<close>; the components that listen
    (membership, task engine, memory replicator) are driven by that list.
  \<^item> An \<open>async\<close> function is cut at its \<open>await\<close>s: \<open>startElection\<close> into the part that
    sends the requests, \<open>onVoteReply\<close> for one reply and \<open>finishElection\<close> after
    \<open>Promise.all\<close>; \<open>replicateToPeer\<close> into the request it sends and \<open>onAppendReply\<close>.
    Other handlers may run between the parts.
  \<^item> \<open>replicateToPeer\<close> keeps the peer object it was called with across its \<open>await\<close>, while
    \<open>addPeer\<close> puts a new object under the same id and \<open>removePeer\<close> takes it out of the map.
    \<open>p_object\<close> is the identity of the object, drawn from the counter \<open>peerObjects\<close>; a reply
    changes the map only while the object it belongs to is still there.
  \<^item> The state file of \<open>saveState\<close> and \<open>loadState\<close> is the field \<open>stateFile\<close>;
    \<open>c_writable\<close> says whether writing it succeeds (a failure is only logged).
\<close>

section \<open>Data\<close>

datatype RaftState = Follower | Candidate | Leader

datatype LogEntryType = Noop | ConfigChange | TaskSubmit | TaskComplete | NodeJoin | NodeLeave
  | ContextUpdate | MemoryWrite | TaskAssign | TaskStarted | TaskFailed | TaskCancel
  | TaskRetry | TaskDeadLetter | WorkflowSubmit | WorkflowAdvance

type_synonym nid = string

record LogEntry =
  e_term :: int
  e_index :: int
  e_type :: LogEntryType
  e_data :: string

record PeerInfo =
  p_nodeId :: nid
  p_address :: string
  nextIndex :: int
  matchIndex :: int
  votingMember :: bool
  p_object :: nat

record RaftConfig =
  c_nodeId :: nid
  c_maxLogEntriesPerAppend :: "nat option"
  c_nonVoting :: bool
  c_dataDir :: "string option"
  c_writable :: bool

text \<open>What \<open>raft-state.json\<close> holds: no file, text that does not parse, or an object.\<close>

datatype StateFile = NoFile | Unparsable | StateJson "int option" "nid option"

datatype RaftEvent = StateChange RaftState int | LeaderElected nid | LeaderChanged nid
  | EntryCommitted LogEntry

record RaftNode =
  config :: RaftConfig
  state :: RaftState
  currentTerm :: int
  votedFor :: "nid option"
  rlog :: "LogEntry list"
  commitIndex :: int
  lastApplied :: int
  leaderId :: "nid option"
  peers :: "(nid, PeerInfo) jsmap"
  peerObjects :: nat
  lastAppendEntriesAt :: int
  electionTimeout :: bool
  heartbeatInterval :: bool
  maxEntriesPerAppend :: nat
  running :: bool
  electionsPaused :: bool
  stateFile :: StateFile
  emitted :: "RaftEvent list"

definition new_RaftNode :: "RaftConfig \<Rightarrow> StateFile \<Rightarrow> RaftNode" where
  "new_RaftNode cfg file =
     \<lparr>config = cfg, state = Follower, currentTerm = 0, votedFor = None, rlog = [],
      commitIndex = 0, lastApplied = 0, leaderId = None, peers = [], peerObjects = 0,
      lastAppendEntriesAt = 0, electionTimeout = False, heartbeatInterval = False,
      maxEntriesPerAppend = (case c_maxLogEntriesPerAppend cfg of None \<Rightarrow> 100 | Some m \<Rightarrow> m),
      running = False, electionsPaused = False, stateFile = file, emitted = []\<rparr>"

definition self :: "RaftNode \<Rightarrow> nid" where
  "self n = c_nodeId (config n)"

definition emit :: "RaftEvent \<Rightarrow> RaftNode \<Rightarrow> RaftNode" where
  "emit e n = n\<lparr>emitted := emitted n @ [e]\<rparr>"

section \<open>Accessors and peers\<close>

definition isLeader :: "RaftNode \<Rightarrow> bool" where
  "isLeader n \<longleftrightarrow> state n = Leader"

definition getLastLogIndex :: "RaftNode \<Rightarrow> int" where
  "getLastLogIndex n = (if rlog n = [] then 0 else e_index (last (rlog n)))"

definition getLastLogTerm :: "RaftNode \<Rightarrow> int" where
  "getLastLogTerm n = (if rlog n = [] then 0 else e_term (last (rlog n)))"

definition addPeer :: "nid \<Rightarrow> string \<Rightarrow> bool \<Rightarrow> RaftNode \<Rightarrow> RaftNode" where
  "addPeer i addr voting n =
     (if i = self n then n
      else n\<lparr>peers := jm_set i \<lparr>p_nodeId = i, p_address = addr,
               nextIndex = getLastLogIndex n + 1, matchIndex = 0,
               votingMember = voting, p_object = peerObjects n\<rparr> (peers n),
             peerObjects := peerObjects n + 1\<rparr>)"

definition removePeer :: "nid \<Rightarrow> RaftNode \<Rightarrow> RaftNode" where
  "removePeer i n = n\<lparr>peers := jm_delete i (peers n)\<rparr>"

definition getPeers :: "RaftNode \<Rightarrow> PeerInfo list" where
  "getPeers n = jm_values (peers n)"

definition votingPeers :: "RaftNode \<Rightarrow> PeerInfo list" where
  "votingPeers n = filter votingMember (getPeers n)"

section \<open>Persistence\<close>

definition saveState :: "RaftNode \<Rightarrow> RaftNode" where
  "saveState n =
     (if \<not> truthy (c_dataDir (config n)) \<or> \<not> c_writable (config n) then n
      else n\<lparr>stateFile := StateJson (Some (currentTerm n)) (votedFor n)\<rparr>)"

definition loadState :: "RaftNode \<Rightarrow> RaftNode" where
  "loadState n =
     (if \<not> truthy (c_dataDir (config n)) then n
      else case stateFile n of
        StateJson (Some t) v \<Rightarrow>
          (if t > currentTerm n then n\<lparr>currentTerm := t, votedFor := v\<rparr> else n)
      | _ \<Rightarrow> n)"

section \<open>Timers\<close>

definition clearElectionTimeout :: "RaftNode \<Rightarrow> RaftNode" where
  "clearElectionTimeout n = n\<lparr>electionTimeout := False\<rparr>"

definition clearTimers :: "RaftNode \<Rightarrow> RaftNode" where
  "clearTimers n = (clearElectionTimeout n)\<lparr>heartbeatInterval := False\<rparr>"

definition resetElectionTimeout :: "RaftNode \<Rightarrow> RaftNode" where
  "resetElectionTimeout n =
     (let n1 = clearElectionTimeout n
      in if c_nonVoting (config n1) then n1
         else if electionsPaused n1 then n1
         else n1\<lparr>electionTimeout := True\<rparr>)"

definition delayNextElection :: "RaftNode \<Rightarrow> RaftNode" where
  "delayNextElection n = (clearElectionTimeout n)\<lparr>electionTimeout := True\<rparr>"

section \<open>State transitions\<close>

definition becomeFollower :: "int \<Rightarrow> RaftNode \<Rightarrow> RaftNode" where
  "becomeFollower t n =
     emit (StateChange Follower t)
       (saveState (clearTimers (n\<lparr>state := Follower, currentTerm := t, votedFor := None\<rparr>)))"

definition start :: "RaftNode \<Rightarrow> RaftNode" where
  "start n =
     (if running n then n
      else let n1 = loadState (n\<lparr>running := True\<rparr>);
               n2 = becomeFollower (currentTerm n1) n1
           in resetElectionTimeout n2)"

definition stop :: "RaftNode \<Rightarrow> RaftNode" where
  "stop n = clearTimers (n\<lparr>running := False\<rparr>)"

section \<open>The RequestVote handler\<close>

record VoteRequest =
  vq_term :: int
  vq_candidateId :: nid
  vq_lastLogIndex :: int
  vq_lastLogTerm :: int

record VoteReply =
  vr_term :: int
  voteGranted :: bool

definition logOk :: "VoteRequest \<Rightarrow> RaftNode \<Rightarrow> bool" where
  "logOk q n \<longleftrightarrow> vq_lastLogTerm q > getLastLogTerm n
     \<or> (vq_lastLogTerm q = getLastLogTerm n \<and> vq_lastLogIndex q \<ge> getLastLogIndex n)"

definition canVote :: "VoteRequest \<Rightarrow> RaftNode \<Rightarrow> bool" where
  "canVote q n \<longleftrightarrow> votedFor n = None \<or> votedFor n = Some (vq_candidateId q)"

definition handleRequestVote :: "VoteRequest \<Rightarrow> RaftNode \<Rightarrow> RaftNode \<times> VoteReply" where
  "handleRequestVote q n =
     (let n1 = (if vq_term q > currentTerm n then becomeFollower (vq_term q) n else n)
      in if vq_term q \<ge> currentTerm n1 \<and> logOk q n1 \<and> canVote q n1
         then let n2 = resetElectionTimeout (saveState (n1\<lparr>votedFor := Some (vq_candidateId q)\<rparr>))
              in (n2, \<lparr>vr_term = currentTerm n2, voteGranted = True\<rparr>)
         else (n1, \<lparr>vr_term = currentTerm n1, voteGranted = False\<rparr>))"

section \<open>Applying committed entries\<close>

text \<open>The \<open>while\<close> loop: one iteration per index up to the commit index.\<close>

function applyCommittedEntries :: "RaftNode \<Rightarrow> RaftNode" where
  "applyCommittedEntries n =
     (if lastApplied n < commitIndex n
      then let n1 = n\<lparr>lastApplied := lastApplied n + 1\<rparr>
           in applyCommittedEntries
                (case js_at (rlog n1) (lastApplied n1 - 1) of
                   Some e \<Rightarrow> emit (EntryCommitted e) n1
                 | None \<Rightarrow> n1)
      else n)"
  by pat_completeness auto
termination
  by (relation "measure (\<lambda>n. nat (commitIndex n - lastApplied n))")
     (auto simp: emit_def split: option.splits)

declare applyCommittedEntries.simps [simp del]

section \<open>The AppendEntries handler\<close>

record AppendRequest =
  aq_term :: int
  aq_leaderId :: nid
  prevLogIndex :: int
  prevLogTerm :: int
  aq_entries :: "LogEntry list"
  leaderCommit :: int

record AppendReply =
  ar_term :: int
  ar_success :: bool
  ar_matchIndex :: int

definition consistent :: "AppendRequest \<Rightarrow> LogEntry list \<Rightarrow> bool" where
  "consistent q lg \<longleftrightarrow> prevLogIndex q > 0 \<longrightarrow>
     (case js_at lg (prevLogIndex q - 1) of None \<Rightarrow> False | Some e \<Rightarrow> e_term e = prevLogTerm q)"

text \<open>The loop over \<open>request.entries\<close>; \<open>index\<close> is the counter before the increment.\<close>

fun appendLoop :: "int \<Rightarrow> LogEntry list \<Rightarrow> LogEntry list \<Rightarrow> LogEntry list" where
  "appendLoop index [] lg = lg"
| "appendLoop index (entry # es) lg =
     (let index' = index + 1
      in appendLoop index' es
           (case js_at lg (index' - 1) of
              None \<Rightarrow> lg @ [entry]
            | Some existing \<Rightarrow>
                (if e_term existing \<noteq> e_term entry
                 then js_splice_from lg (index' - 1) @ [entry]
                 else lg)))"

definition handleAppendEntries :: "int \<Rightarrow> AppendRequest \<Rightarrow> RaftNode \<Rightarrow> RaftNode \<times> AppendReply" where
  "handleAppendEntries now q n =
     (let n1 = (if aq_term q > currentTerm n then becomeFollower (aq_term q) n else n)
      in if aq_term q < currentTerm n1
         then (n1, \<lparr>ar_term = currentTerm n1, ar_success = False, ar_matchIndex = 0\<rparr>)
         else
           let n2 = resetElectionTimeout
                      (n1\<lparr>leaderId := Some (aq_leaderId q), lastAppendEntriesAt := now\<rparr>);
               n3 = (if leaderId n1 \<noteq> Some (aq_leaderId q)
                     then emit (LeaderChanged (aq_leaderId q)) n2 else n2)
           in if \<not> consistent q (rlog n3)
              then (n3, \<lparr>ar_term = currentTerm n3, ar_success = False, ar_matchIndex = 0\<rparr>)
              else
                let n4 = n3\<lparr>rlog := appendLoop (prevLogIndex q) (aq_entries q) (rlog n3)\<rparr>;
                    n5 = (if leaderCommit q > commitIndex n4
                          then applyCommittedEntries
                                 (n4\<lparr>commitIndex := min (leaderCommit q) (getLastLogIndex n4)\<rparr>)
                          else n4)
                in (n5, \<lparr>ar_term = currentTerm n5, ar_success = True,
                        ar_matchIndex = getLastLogIndex n5\<rparr>))"

section \<open>Replication\<close>

text \<open>The request \<open>replicateToPeer\<close> sends to one peer.\<close>

definition replicateToPeer :: "RaftNode \<Rightarrow> PeerInfo \<Rightarrow> AppendRequest" where
  "replicateToPeer n p =
     (let prev = nextIndex p - 1
      in \<lparr>aq_term = currentTerm n, aq_leaderId = self n, prevLogIndex = prev,
          prevLogTerm = (if prev > 0 then (case js_at (rlog n) (prev - 1) of None \<Rightarrow> 0 | Some e \<Rightarrow> e_term e)
                         else 0),
          aq_entries = js_slice (rlog n) (nextIndex p - 1) (nextIndex p - 1 + int (maxEntriesPerAppend n)),
          leaderCommit = commitIndex n\<rparr>)"

definition replicateToFollowers :: "RaftNode \<Rightarrow> (nid \<times> AppendRequest) list" where
  "replicateToFollowers n = map (\<lambda>p. (p_nodeId p, replicateToPeer n p)) (getPeers n)"

text \<open>The callback of \<open>startHeartbeats\<close>.\<close>

definition heartbeatFires :: "RaftNode \<Rightarrow> (nid \<times> AppendRequest) list" where
  "heartbeatFires n = (if state n = Leader then replicateToFollowers n else [])"

text \<open>
  The rest of \<open>replicateToPeer\<close>, when the reply of the peer \<open>i\<close> has arrived: \<open>ob\<close> is the
  object the call had captured.
\<close>

definition captured :: "nat \<Rightarrow> (PeerInfo \<Rightarrow> PeerInfo) \<Rightarrow> PeerInfo \<Rightarrow> PeerInfo" where
  "captured ob f p = (if p_object p = ob then f p else p)"

definition onAppendReply :: "nid \<Rightarrow> nat \<Rightarrow> AppendReply \<Rightarrow> RaftNode \<Rightarrow> RaftNode" where
  "onAppendReply i ob r n =
     (if ar_term r > currentTerm n then becomeFollower (ar_term r) n
      else if ar_success r
      then n\<lparr>peers := jm_modify i (captured ob (\<lambda>p. p\<lparr>matchIndex := ar_matchIndex r,
                                            nextIndex := ar_matchIndex r + 1\<rparr>)) (peers n)\<rparr>
      else n\<lparr>peers := jm_modify i (captured ob (\<lambda>p. p\<lparr>nextIndex := max 1 (nextIndex p - 1)\<rparr>))
                     (peers n)\<rparr>)"

text \<open>The last step of \<open>replicateToFollowers\<close>, after all replies.\<close>

definition matchIndices :: "RaftNode \<Rightarrow> int list" where
  "matchIndices n = rev (sort (getLastLogIndex n # map matchIndex (votingPeers n)))"

definition updateCommitIndex :: "RaftNode \<Rightarrow> RaftNode" where
  "updateCommitIndex n =
     (let ms = matchIndices n; newCommitIndex = ms ! (length ms div 2)
      in if newCommitIndex > commitIndex n
         then (case js_at (rlog n) (newCommitIndex - 1) of
                 Some e \<Rightarrow> (if e_term e = currentTerm n
                            then applyCommittedEntries (n\<lparr>commitIndex := newCommitIndex\<rparr>)
                            else n)
               | None \<Rightarrow> n)
         else n)"

text \<open>\<open>appendEntry\<close> up to the \<open>await\<close>: the new state, the result, the requests sent.\<close>

record AppendResult =
  success :: bool
  res_index :: int

definition appendEntry ::
  "LogEntryType \<Rightarrow> string \<Rightarrow> RaftNode \<Rightarrow> RaftNode \<times> AppendResult \<times> (nid \<times> AppendRequest) list" where
  "appendEntry t d n =
     (if state n \<noteq> Leader then (n, \<lparr>success = False, res_index = -1\<rparr>, [])
      else let entry = \<lparr>e_term = currentTerm n, e_index = getLastLogIndex n + 1, e_type = t, e_data = d\<rparr>;
               n1 = n\<lparr>rlog := rlog n @ [entry]\<rparr>
           in (n1, \<lparr>success = True, res_index = e_index entry\<rparr>, replicateToFollowers n1))"

section \<open>Elections\<close>

definition becomeLeader :: "RaftNode \<Rightarrow> RaftNode \<times> (nid \<times> AppendRequest) list" where
  "becomeLeader n =
     (let n1 = clearTimers (n\<lparr>state := Leader, leaderId := Some (self n)\<rparr>);
          n2 = n1\<lparr>peers := jm_map (\<lambda>p. p\<lparr>nextIndex := getLastLogIndex n1 + 1, matchIndex := 0\<rparr>) (peers n1)\<rparr>;
          n3 = emit (LeaderElected (self n2)) (emit (StateChange Leader (currentTerm n2)) n2);
          (n4, _, msgs) = appendEntry Noop '''' n3
      in (n4\<lparr>heartbeatInterval := True\<rparr>, msgs))"

text \<open>The requests of \<open>startElection\<close>, one per voting peer, sent with the current term.\<close>

definition voteRequest :: "RaftNode \<Rightarrow> VoteRequest" where
  "voteRequest n = \<lparr>vq_term = currentTerm n, vq_candidateId = self n,
     vq_lastLogIndex = getLastLogIndex n, vq_lastLogTerm = getLastLogTerm n\<rparr>"

definition votesNeeded :: "RaftNode \<Rightarrow> nat" where
  "votesNeeded n = (length (votingPeers n) + 1) div 2 + 1"

definition startElection :: "RaftNode \<Rightarrow> RaftNode \<times> (nid \<times> VoteRequest) list" where
  "startElection n =
     (let n1 = resetElectionTimeout n
      in (n1, map (\<lambda>p. (p_nodeId p, voteRequest n1)) (votingPeers n1)))"

text \<open>One reply: the boolean is what the mapped promise resolves to.\<close>

definition onVoteReply :: "VoteReply \<Rightarrow> RaftNode \<Rightarrow> RaftNode \<times> bool" where
  "onVoteReply r n =
     (if vr_term r > currentTerm n then (becomeFollower (vr_term r) n, False)
      else (n, voteGranted r))"

text \<open>After \<open>Promise.all\<close>: \<open>needed\<close> was computed when the election started.\<close>

definition finishElection :: "nat \<Rightarrow> bool list \<Rightarrow> RaftNode \<Rightarrow> RaftNode \<times> (nid \<times> AppendRequest) list" where
  "finishElection needed results n =
     (if state n \<noteq> Candidate then (n, [])
      else if 1 + length (filter id results) \<ge> needed then becomeLeader n
      else (n, []))"

definition becomeCandidate :: "RaftNode \<Rightarrow> RaftNode \<times> (nid \<times> VoteRequest) list" where
  "becomeCandidate n =
     (let n1 = saveState (n\<lparr>state := Candidate, currentTerm := currentTerm n + 1,
                             votedFor := Some (self n), leaderId := None\<rparr>);
          n2 = emit (StateChange Candidate (currentTerm n1)) n1
      in startElection n2)"

text \<open>The callback of the election timer; it is only run while the timer is armed.\<close>

definition electionTimerFires :: "RaftNode \<Rightarrow> RaftNode \<times> (nid \<times> VoteRequest) list" where
  "electionTimerFires n =
     (let n1 = n\<lparr>electionTimeout := False\<rparr>
      in if running n1 \<and> state n1 \<noteq> Leader then becomeCandidate n1 else (n1, []))"

definition pauseElections :: "RaftNode \<Rightarrow> RaftNode" where
  "pauseElections n = clearElectionTimeout (n\<lparr>electionsPaused := True\<rparr>)"

definition resumeElections :: "RaftNode \<Rightarrow> RaftNode" where
  "resumeElections n =
     (let n1 = n\<lparr>electionsPaused := False\<rparr>
      in if running n1 \<and> state n1 \<noteq> Leader then resetElectionTimeout n1 else n1)"

definition triggerImmediateElection ::
  "RaftNode \<Rightarrow> RaftNode \<times> bool \<times> (nid \<times> VoteRequest) list" where
  "triggerImmediateElection n =
     (if state n = Leader then (n, False, [])
      else if c_nonVoting (config n) then (n, False, [])
      else let n1 = clearElectionTimeout n;
               n2 = saveState (n1\<lparr>state := Candidate, currentTerm := currentTerm n1 + 1,
                                   votedFor := Some (self n1), leaderId := None\<rparr>);
               n3 = emit (StateChange Candidate (currentTerm n2)) n2;
               (n4, msgs) = startElection n3
           in (n4, True, msgs))"

definition stepDown :: "RaftNode \<Rightarrow> RaftNode \<times> bool" where
  "stepDown n =
     (if state n \<noteq> Leader then (n, False)
      else (resetElectionTimeout (becomeFollower (currentTerm n) n), True))"

section \<open>Entry types on the wire\<close>

fun typeName :: "LogEntryType \<Rightarrow> string" where
  "typeName Noop = ''noop''"
| "typeName ConfigChange = ''config_change''"
| "typeName TaskSubmit = ''task_submit''"
| "typeName TaskComplete = ''task_complete''"
| "typeName NodeJoin = ''node_join''"
| "typeName NodeLeave = ''node_leave''"
| "typeName ContextUpdate = ''context_update''"
| "typeName MemoryWrite = ''memory_write''"
| "typeName TaskAssign = ''task_assign''"
| "typeName TaskStarted = ''task_started''"
| "typeName TaskFailed = ''task_failed''"
| "typeName TaskCancel = ''task_cancel''"
| "typeName TaskRetry = ''task_retry''"
| "typeName TaskDeadLetter = ''task_dead_letter''"
| "typeName WorkflowSubmit = ''workflow_submit''"
| "typeName WorkflowAdvance = ''workflow_advance''"

fun logEntryTypeToProto :: "LogEntryType \<Rightarrow> string" where
  "logEntryTypeToProto Noop = ''LOG_ENTRY_TYPE_NOOP''"
| "logEntryTypeToProto ConfigChange = ''LOG_ENTRY_TYPE_CONFIG_CHANGE''"
| "logEntryTypeToProto TaskSubmit = ''LOG_ENTRY_TYPE_TASK_SUBMIT''"
| "logEntryTypeToProto TaskComplete = ''LOG_ENTRY_TYPE_TASK_COMPLETE''"
| "logEntryTypeToProto NodeJoin = ''LOG_ENTRY_TYPE_NODE_JOIN''"
| "logEntryTypeToProto NodeLeave = ''LOG_ENTRY_TYPE_NODE_LEAVE''"
| "logEntryTypeToProto ContextUpdate = ''LOG_ENTRY_TYPE_CONTEXT_UPDATE''"
| "logEntryTypeToProto MemoryWrite = ''LOG_ENTRY_TYPE_MEMORY_WRITE''"
| "logEntryTypeToProto TaskAssign = ''LOG_ENTRY_TYPE_TASK_ASSIGN''"
| "logEntryTypeToProto TaskStarted = ''LOG_ENTRY_TYPE_TASK_STARTED''"
| "logEntryTypeToProto TaskFailed = ''LOG_ENTRY_TYPE_TASK_FAILED''"
| "logEntryTypeToProto TaskCancel = ''LOG_ENTRY_TYPE_TASK_CANCEL''"
| "logEntryTypeToProto TaskRetry = ''LOG_ENTRY_TYPE_TASK_RETRY''"
| "logEntryTypeToProto TaskDeadLetter = ''LOG_ENTRY_TYPE_TASK_DEAD_LETTER''"
| "logEntryTypeToProto WorkflowSubmit = ''LOG_ENTRY_TYPE_WORKFLOW_SUBMIT''"
| "logEntryTypeToProto WorkflowAdvance = ''LOG_ENTRY_TYPE_WORKFLOW_ADVANCE''"

end
