(* ===== verification/RaftLog.thy ===== *)
theory RaftLog
  imports Raft
begin

text \<open>
  The replicated log of one node: the follower's append loop against a reference
  definition, log matching between a leader and a follower, the commit rule of the
  leader, and the application of committed entries.
\<close>

section \<open>Frame lemmas\<close>

named_theorems raft_defs \<open>definitions that only set a few fields of a node\<close>

declare emit_def [raft_defs] clearElectionTimeout_def [raft_defs] clearTimers_def [raft_defs]
  resetElectionTimeout_def [raft_defs] delayNextElection_def [raft_defs] saveState_def [raft_defs]
  becomeFollower_def [raft_defs] self_def [raft_defs]

lemma becomeFollower_sel [simp]:
  "currentTerm (becomeFollower t n) = t" "state (becomeFollower t n) = Follower"
  "votedFor (becomeFollower t n) = None" "rlog (becomeFollower t n) = rlog n"
  "commitIndex (becomeFollower t n) = commitIndex n" "lastApplied (becomeFollower t n) = lastApplied n"
  "leaderId (becomeFollower t n) = leaderId n" "peers (becomeFollower t n) = peers n"
  "config (becomeFollower t n) = config n" "running (becomeFollower t n) = running n"
  "electionTimeout (becomeFollower t n) = False" "heartbeatInterval (becomeFollower t n) = False"
  "electionsPaused (becomeFollower t n) = electionsPaused n"
  "maxEntriesPerAppend (becomeFollower t n) = maxEntriesPerAppend n"
  "emitted (becomeFollower t n) = emitted n @ [StateChange Follower t]"
  by (auto simp: raft_defs)

lemma resetElectionTimeout_sel [simp]:
  "currentTerm (resetElectionTimeout n) = currentTerm n" "state (resetElectionTimeout n) = state n"
  "votedFor (resetElectionTimeout n) = votedFor n" "rlog (resetElectionTimeout n) = rlog n"
  "commitIndex (resetElectionTimeout n) = commitIndex n" "lastApplied (resetElectionTimeout n) = lastApplied n"
  "leaderId (resetElectionTimeout n) = leaderId n" "peers (resetElectionTimeout n) = peers n"
  "config (resetElectionTimeout n) = config n" "running (resetElectionTimeout n) = running n"
  "emitted (resetElectionTimeout n) = emitted n"
  "electionsPaused (resetElectionTimeout n) = electionsPaused n"
  "maxEntriesPerAppend (resetElectionTimeout n) = maxEntriesPerAppend n"
  "stateFile (resetElectionTimeout n) = stateFile n"
  "heartbeatInterval (resetElectionTimeout n) = heartbeatInterval n"
  by (auto simp: raft_defs Let_def)

lemma resetElectionTimeout_armed [simp]:
  "electionTimeout (resetElectionTimeout n) \<longleftrightarrow> \<not> c_nonVoting (config n) \<and> \<not> electionsPaused n"
  by (auto simp: raft_defs Let_def)

lemma saveState_sel [simp]:
  "currentTerm (saveState n) = currentTerm n" "state (saveState n) = state n"
  "votedFor (saveState n) = votedFor n" "rlog (saveState n) = rlog n"
  "commitIndex (saveState n) = commitIndex n" "lastApplied (saveState n) = lastApplied n"
  "leaderId (saveState n) = leaderId n" "peers (saveState n) = peers n"
  "config (saveState n) = config n" "running (saveState n) = running n"
  "emitted (saveState n) = emitted n" "electionTimeout (saveState n) = electionTimeout n"
  "electionsPaused (saveState n) = electionsPaused n"
  "heartbeatInterval (saveState n) = heartbeatInterval n"
  "maxEntriesPerAppend (saveState n) = maxEntriesPerAppend n"
  by (auto simp: saveState_def)

lemma clearTimers_sel [simp]:
  "currentTerm (clearTimers n) = currentTerm n" "state (clearTimers n) = state n"
  "votedFor (clearTimers n) = votedFor n" "rlog (clearTimers n) = rlog n"
  "commitIndex (clearTimers n) = commitIndex n" "lastApplied (clearTimers n) = lastApplied n"
  "leaderId (clearTimers n) = leaderId n" "peers (clearTimers n) = peers n"
  "config (clearTimers n) = config n" "emitted (clearTimers n) = emitted n"
  "electionTimeout (clearTimers n) = False" "heartbeatInterval (clearTimers n) = False"
  "running (clearTimers n) = running n" "electionsPaused (clearTimers n) = electionsPaused n"
  by (auto simp: raft_defs)

lemma emit_sel [simp]:
  "currentTerm (emit e n) = currentTerm n" "state (emit e n) = state n"
  "votedFor (emit e n) = votedFor n" "rlog (emit e n) = rlog n"
  "commitIndex (emit e n) = commitIndex n" "lastApplied (emit e n) = lastApplied n"
  "leaderId (emit e n) = leaderId n" "peers (emit e n) = peers n"
  "config (emit e n) = config n" "emitted (emit e n) = emitted n @ [e]"
  "electionTimeout (emit e n) = electionTimeout n" "running (emit e n) = running n"
  "electionsPaused (emit e n) = electionsPaused n" "heartbeatInterval (emit e n) = heartbeatInterval n"
  "stateFile (emit e n) = stateFile n"
  by (auto simp: emit_def)

section \<open>Well-formed logs\<close>

text \<open>Entries carry their position, counted from 1.\<close>

definition wf_log :: "LogEntry list \<Rightarrow> bool" where
  "wf_log lg \<longleftrightarrow> (\<forall>i < length lg. e_index (lg ! i) = int i + 1)"

lemma wf_log_Nil [simp]: "wf_log []"
  by (simp add: wf_log_def)

lemma wf_log_take [intro]: "wf_log lg \<Longrightarrow> wf_log (take k lg)"
  by (simp add: wf_log_def)

lemma wf_log_last: "wf_log lg \<Longrightarrow> lg \<noteq> [] \<Longrightarrow> e_index (last lg) = int (length lg)"
  by (cases lg rule: rev_cases) (auto simp: wf_log_def)

lemma getLastLogIndex_length [simp]: "wf_log (rlog n) \<Longrightarrow> getLastLogIndex n = int (length (rlog n))"
  by (auto simp: getLastLogIndex_def wf_log_last)

lemma wf_log_snoc [simp]: "wf_log (lg @ [e]) \<longleftrightarrow> wf_log lg \<and> e_index e = int (length lg) + 1"
proof
  assume h: "wf_log (lg @ [e])"
  then have "e_index (lg ! i) = int i + 1" if "i < length lg" for i
    using that by (auto simp: wf_log_def nth_append dest!: spec [of _ i])
  moreover have "e_index e = int (length lg) + 1"
    using h by (auto simp: wf_log_def dest!: spec [of _ "length lg"])
  ultimately show "wf_log lg \<and> e_index e = int (length lg) + 1" by (simp add: wf_log_def)
qed (auto simp: wf_log_def nth_append less_Suc_eq)

section \<open>The append loop\<close>

text \<open>
  The reference: walk the follower's tail beside the new entries; at the first term
  that differs, or at the end of the log, the rest of the new entries replaces it.
\<close>

fun mergeTail :: "LogEntry list \<Rightarrow> LogEntry list \<Rightarrow> LogEntry list" where
  "mergeTail ts [] = ts"
| "mergeTail [] es = es"
| "mergeTail (t # ts) (e # es) = (if e_term t \<noteq> e_term e then e # es else t # mergeTail ts es)"

lemma mergeTail_Nil [simp]: "mergeTail [] es = es"
  by (cases es) auto

lemma appendLoop_reference:
  "k \<le> length lg \<Longrightarrow> appendLoop (int k) es lg = take k lg @ mergeTail (drop k lg) es"
proof (induction es arbitrary: k lg)
  case Nil
  then show ?case by simp
next
  case (Cons e es)
  have Suc: "int k + 1 = int (Suc k)" "int (Suc k) - 1 = int k" by simp_all
  show ?case
  proof (cases "k < length lg")
    case True
    then have "drop k lg = lg ! k # drop (Suc k) lg" by (simp add: Cons_nth_drop_Suc)
    with True Cons.IH [of "Suc k" lg] Cons.IH [of "Suc k" "take k lg @ [e]"] show ?thesis
      by (simp add: Let_def js_simps Suc take_Suc_conv_app_nth del: of_nat_Suc)
  next
    case False
    with Cons.prems have "k = length lg" by simp
    with Cons.IH [of "Suc k" "lg @ [e]"] show ?thesis
      by (simp add: Let_def js_at_def add.commute)
  qed
qed

text \<open>A request as a leader sends it: the entries continue the index \<open>prevLogIndex\<close>.\<close>

definition wf_request :: "AppendRequest \<Rightarrow> bool" where
  "wf_request q \<longleftrightarrow> 0 \<le> prevLogIndex q \<and>
     (\<forall>i < length (aq_entries q). e_index (aq_entries q ! i) = prevLogIndex q + int i + 1)"

lemma wf_mergeTail:
  assumes "\<forall>i < length ts. e_index (ts ! i) = b + int i" and "\<forall>i < length es. e_index (es ! i) = b + int i"
    and "i < length (mergeTail ts es)"
  shows "e_index (mergeTail ts es ! i) = b + int i"
  using assms
proof (induction ts es arbitrary: i b rule: mergeTail.induct)
  case (3 t ts e es)
  show ?case
  proof (cases "e_term t = e_term e")
    case True
    have shift: "\<forall>i < length ts. e_index (ts ! i) = (b + 1) + int i" "\<forall>i < length es. e_index (es ! i) = (b + 1) + int i"
      using "3.prems"(1,2) by (simp_all add: All_less_Suc2 algebra_simps)
    show ?thesis
    proof (cases i)
      case 0
      with True "3.prems"(1) show ?thesis by (simp add: All_less_Suc2)
    next
      case (Suc j)
      with True "3.prems"(3) "3.IH" [of "b + 1" j] shift show ?thesis by simp
    qed
  next
    case False
    with "3.prems" show ?thesis by simp
  qed
qed auto

lemma consistent_length: "consistent q lg \<Longrightarrow> 0 \<le> prevLogIndex q \<Longrightarrow> nat (prevLogIndex q) \<le> length lg"
  by (auto simp: consistent_def split: option.splits dest!: js_at_SomeD)

lemma appendLoop_consistent:
  assumes "wf_request q" and "consistent q lg"
  shows "appendLoop (prevLogIndex q) (aq_entries q) lg =
         take (nat (prevLogIndex q)) lg @ mergeTail (drop (nat (prevLogIndex q)) lg) (aq_entries q)"
  using assms appendLoop_reference [OF consistent_length [OF assms(2)]]
  by (simp add: wf_request_def)

lemma wf_appendLoop:
  assumes "wf_log lg" and "wf_request q" and "consistent q lg"
  shows "wf_log (appendLoop (prevLogIndex q) (aq_entries q) lg)"
proof -
  let ?k = "nat (prevLogIndex q)"
  have k: "?k \<le> length lg" "int ?k = prevLogIndex q"
    using assms consistent_length by (auto simp: wf_request_def)
  have "e_index (mergeTail (drop ?k lg) (aq_entries q) ! i) = (int ?k + 1) + int i"
    if "i < length (mergeTail (drop ?k lg) (aq_entries q))" for i
    using that assms(1,2) k by (intro wf_mergeTail) (auto simp: wf_log_def wf_request_def)
  with k assms(1) show ?thesis
    by (auto simp: appendLoop_consistent [OF assms(2,3)] wf_log_def nth_append min_def)
qed

section \<open>Log matching\<close>

text \<open>Two logs that agree on the term of an index agree up to that index.\<close>

definition log_matching :: "LogEntry list \<Rightarrow> LogEntry list \<Rightarrow> bool" where
  "log_matching A B \<longleftrightarrow>
     (\<forall>i. i < length A \<and> i < length B \<and> e_term (A ! i) = e_term (B ! i) \<longrightarrow> take (Suc i) A = take (Suc i) B)"

lemma log_matching_nth:
  assumes "log_matching A B" "i < length A" "i < length B" "e_term (A ! i) = e_term (B ! i)"
  shows "A ! i = B ! i"
proof -
  from assms have "take (Suc i) A = take (Suc i) B" by (simp add: log_matching_def)
  then have "take (Suc i) A ! i = take (Suc i) B ! i" by (rule arg_cong)
  then show ?thesis by simp
qed

lemma log_matching_take: "log_matching (take k A) A"
  by (auto simp: log_matching_def min_def)

text \<open>Where the terms of two tails agree, so do the entries.\<close>

definition agree :: "LogEntry list \<Rightarrow> LogEntry list \<Rightarrow> bool" where
  "agree ts es \<longleftrightarrow>
     (\<forall>i. i < length ts \<and> i < length es \<and> e_term (ts ! i) = e_term (es ! i) \<longrightarrow> ts ! i = es ! i)"

lemma agree_Cons: "agree (t # ts) (e # es) \<Longrightarrow> (e_term t = e_term e \<longrightarrow> t = e) \<and> agree ts es"
proof
  assume h: "agree (t # ts) (e # es)"
  show "e_term t = e_term e \<longrightarrow> t = e" using h unfolding agree_def by (metis length_greater_0_conv list.discI nth_Cons_0)
  show "agree ts es" unfolding agree_def
  proof (intro allI impI)
    fix i assume "i < length ts \<and> i < length es \<and> e_term (ts ! i) = e_term (es ! i)"
    then show "ts ! i = es ! i" using h [unfolded agree_def, rule_format, of "Suc i"] by simp
  qed
qed

lemma take_mergeTail: "agree ts es \<Longrightarrow> take (length es) (mergeTail ts es) = es"
  by (induction ts es rule: mergeTail.induct) (auto dest: agree_Cons)

lemma mergeTail_cases: "agree ts es \<Longrightarrow> mergeTail ts es = ts \<or> mergeTail ts es = es"
  by (induction ts es rule: mergeTail.induct) (auto dest: agree_Cons)

text \<open>What a leader with log \<open>L\<close> sends: the previous term and a segment of its log.\<close>

definition request_from :: "LogEntry list \<Rightarrow> AppendRequest \<Rightarrow> bool" where
  "request_from L q \<longleftrightarrow> 0 \<le> prevLogIndex q \<and> nat (prevLogIndex q) \<le> length L
     \<and> (prevLogIndex q > 0 \<longrightarrow> prevLogTerm q = e_term (L ! nat (prevLogIndex q - 1)))
     \<and> (\<exists>m. aq_entries q = take m (drop (nat (prevLogIndex q)) L))"

lemma request_from_wf: "wf_log L \<Longrightarrow> request_from L q \<Longrightarrow> wf_request q"
  by (auto simp: request_from_def wf_request_def wf_log_def)

lemma replicateToPeer_from:
  assumes "1 \<le> nextIndex p" and "nextIndex p \<le> int (length (rlog n)) + 1"
  shows "request_from (rlog n) (replicateToPeer n p)"
  using assms
  by (auto simp: request_from_def replicateToPeer_def Let_def js_simps js_at_def nat_le_iff)

lemma consistent_prefix:
  assumes "request_from L q" and "consistent q F" and "log_matching F L"
  shows "take (nat (prevLogIndex q)) F = take (nat (prevLogIndex q)) L"
proof (cases "prevLogIndex q > 0")
  case True
  let ?i = "nat (prevLogIndex q - 1)"
  have i: "Suc ?i = nat (prevLogIndex q)" using True by simp
  from assms(2) True have "?i < length F" "e_term (F ! ?i) = prevLogTerm q"
    by (auto simp: consistent_def js_at_def split: if_splits)
  moreover have "?i < length L" "prevLogTerm q = e_term (L ! ?i)"
    using assms(1) True by (auto simp: request_from_def)
  ultimately show ?thesis using assms(3) i by (metis log_matching_def)
qed simp

lemma appendLoop_matches:
  assumes from_L: "request_from L q" and cons: "consistent q F" and lm: "log_matching F L" and wf: "wf_log L"
  defines "F' \<equiv> appendLoop (prevLogIndex q) (aq_entries q) F"
    and "k \<equiv> nat (prevLogIndex q) + length (aq_entries q)"
  shows "take k F' = take k L" and "F' = F \<or> F' = take k L"
proof -
  let ?p = "nat (prevLogIndex q)"
  let ?es = "aq_entries q" and ?ts = "drop ?p F"
  have pF: "?p \<le> length F" and pL: "?p \<le> length L"
    using cons from_L consistent_length by (auto simp: request_from_def)
  have pre: "take ?p F = take ?p L" by (rule consistent_prefix [OF from_L cons lm])
  have F': "F' = take ?p F @ mergeTail ?ts ?es"
    unfolding F'_def by (rule appendLoop_consistent [OF request_from_wf [OF wf from_L] cons])
  obtain m where es: "?es = take m (drop ?p L)" using from_L by (auto simp: request_from_def)
  have es': "?es = take (length ?es) (drop ?p L)" by (subst (1 2) es) (simp add: min_def)
  have eq: "agree ?ts ?es"
    using log_matching_nth [OF lm] pF pL by (auto simp: es agree_def)
  have kL: "take k L = take ?p L @ ?es"
    by (subst es') (simp add: k_def take_add)
  have "take (length ?es) (mergeTail ?ts ?es) = ?es" by (rule take_mergeTail [OF eq])
  then show "take k F' = take k L"
    using pF pL pre kL [unfolded k_def] by (simp add: F' k_def)
  show "F' = F \<or> F' = take k L"
    using mergeTail_cases [OF eq] pre F' kL append_take_drop_id [of ?p F] by metis
qed

section \<open>Applying committed entries\<close>

text \<open>The entries the loop emits: those at the indices between the two counters.\<close>

definition unapplied :: "RaftNode \<Rightarrow> LogEntry list" where
  "unapplied n = List.map_filter (js_at (rlog n)) [lastApplied n .. commitIndex n - 1]"

lemma applyCommittedEntries_eq:
  "applyCommittedEntries n =
     n\<lparr>lastApplied := max (lastApplied n) (commitIndex n),
       emitted := emitted n @ map EntryCommitted (unapplied n)\<rparr>"
proof (induction n rule: applyCommittedEntries.induct)
  case (1 n)
  show ?case
  proof (cases "lastApplied n < commitIndex n")
    case True
    then have "[lastApplied n .. commitIndex n - 1] = lastApplied n # [lastApplied n + 1 .. commitIndex n - 1]"
      by (simp add: upto_rec1)
    then show ?thesis using True "1.IH" [OF True refl]
      by (subst applyCommittedEntries.simps)
         (auto simp: Let_def unapplied_def emit_def List.map_filter_simps max_def split: option.splits)
  next
    case False
    then show ?thesis
      by (subst applyCommittedEntries.simps) (auto simp: unapplied_def List.map_filter_simps max_def)
  qed
qed

lemma applyCommittedEntries_sel [simp]:
  "currentTerm (applyCommittedEntries n) = currentTerm n" "state (applyCommittedEntries n) = state n"
  "votedFor (applyCommittedEntries n) = votedFor n" "rlog (applyCommittedEntries n) = rlog n"
  "commitIndex (applyCommittedEntries n) = commitIndex n"
  "lastApplied (applyCommittedEntries n) = max (lastApplied n) (commitIndex n)"
  "leaderId (applyCommittedEntries n) = leaderId n" "peers (applyCommittedEntries n) = peers n"
  "config (applyCommittedEntries n) = config n" "running (applyCommittedEntries n) = running n"
  "electionTimeout (applyCommittedEntries n) = electionTimeout n"
  "electionsPaused (applyCommittedEntries n) = electionsPaused n"
  "emitted (applyCommittedEntries n) = emitted n @ map EntryCommitted (unapplied n)"
  by (simp_all add: applyCommittedEntries_eq)

lemma map_filter_js_at_upto:
  assumes "0 \<le> a" and "b \<le> int (length xs)"
  shows "List.map_filter (js_at xs) [a .. b - 1] = take (nat (b - a)) (drop (nat a) xs)"
  using assms
proof (induction "nat (b - a)" arbitrary: a)
  case 0
  then show ?case by (simp add: List.map_filter_simps)
next
  case (Suc d)
  then have ab: "a < b" by simp
  from Suc.hyps(2) have d: "d = nat (b - (a + 1))" by simp
  have len: "nat a < length xs" using ab Suc.prems by linarith
  have "drop (nat a) xs = xs ! nat a # drop (nat (a + 1)) xs"
    using len Suc.prems by (simp add: Cons_nth_drop_Suc nat_add_distrib)
  moreover have "nat (b - a) = Suc (nat (b - (a + 1)))" using ab by simp
  moreover have "[a .. b - 1] = a # [a + 1 .. b - 1]" using ab by (simp add: upto_rec1)
  moreover have "js_at xs a = Some (xs ! nat a)" using len Suc.prems by (simp add: js_at_def)
  ultimately show ?case
    using Suc.hyps(1) [OF d] Suc.prems ab by (simp add: List.map_filter_simps)
qed

lemma unapplied_take:
  "0 \<le> lastApplied n \<Longrightarrow> commitIndex n \<le> int (length (rlog n)) \<Longrightarrow>
   unapplied n = take (nat (commitIndex n - lastApplied n)) (drop (nat (lastApplied n)) (rlog n))"
  by (simp add: unapplied_def map_filter_js_at_upto)

lemma wf_log_indices:
  assumes "wf_log lg" and "0 \<le> a" and "b \<le> int (length lg)"
  shows "map e_index (take (nat (b - a)) (drop (nat a) lg)) = [a + 1 .. b]"
proof (rule nth_equalityI)
  show "length (map e_index (take (nat (b - a)) (drop (nat a) lg))) = length [a + 1 .. b]"
    using assms(2,3) by auto
  fix i assume "i < length (map e_index (take (nat (b - a)) (drop (nat a) lg)))"
  then have i: "i < nat (b - a)" "nat a + i < length lg" by auto
  then show "map e_index (take (nat (b - a)) (drop (nat a) lg)) ! i = [a + 1 .. b] ! i"
    using assms by (simp add: wf_log_def nth_upto)
qed

section \<open>The leader's commit rule\<close>

text \<open>At least half of a descending list, and one more, is not below its middle element.\<close>

lemma sorted_middle:
  assumes "sorted (rev (ms :: int list))" and "ms \<noteq> []"
  shows "length ms div 2 < length (filter (\<lambda>m. ms ! (length ms div 2) \<le> m) ms)"
proof -
  let ?h = "length ms div 2" and ?P = "\<lambda>m. ms ! (length ms div 2) \<le> m"
  have h: "?h < length ms" using assms(2) by simp
  have "?P (ms ! i)" if "i \<le> ?h" for i
    using assms(1) that h by (simp add: sorted_rev_nth_mono)
  then have "filter ?P (take (Suc ?h) ms) = take (Suc ?h) ms"
    using h by (auto simp: filter_id_conv in_set_conv_nth)
  then have "Suc ?h = length (filter ?P (take (Suc ?h) ms))" using h by simp
  also have "\<dots> \<le> length (filter ?P ms)"
    by (metis append_take_drop_id filter_append le_add1 length_append)
  finally show ?thesis by simp
qed

text \<open>The replicas the leader knows to hold an index: itself and its voting peers.\<close>

definition holders :: "int \<Rightarrow> RaftNode \<Rightarrow> nat" where
  "holders i n = length (filter (\<lambda>m. i \<le> m) (getLastLogIndex n # map matchIndex (votingPeers n)))"

lemma mset_filter_length: "mset xs = mset ys \<Longrightarrow> length (filter P xs) = length (filter P ys)"
  by (metis mset_filter size_mset)

lemma matchIndices_holders:
  "votesNeeded n \<le> holders (matchIndices n ! (length (matchIndices n) div 2)) n"
proof -
  let ?ms = "matchIndices n"
  have len: "length ?ms = length (votingPeers n) + 1" by (simp add: matchIndices_def)
  then have "?ms \<noteq> []" by auto
  moreover have "sorted (rev ?ms)" by (simp only: matchIndices_def rev_rev_ident sorted_sort)
  ultimately have "length ?ms div 2 < length (filter (\<lambda>m. ?ms ! (length ?ms div 2) \<le> m) ?ms)"
    by (intro sorted_middle)
  also have "\<dots> = holders (?ms ! (length ?ms div 2)) n"
    unfolding holders_def by (rule mset_filter_length) (simp only: matchIndices_def mset_rev mset_sort)
  finally show ?thesis by (simp add: votesNeeded_def len)
qed

end
