(* ===== verification/RaftSafety.thy ===== *)
theory RaftSafety
  imports RaftLog
begin

text \<open>
  Replication and commitment: an accepted request makes the follower's log a copy of
  the leader's up to the last entry sent, commitment rests on a majority, and under
  every sequence of operations committed entries are applied once each and in order.
\<close>

section \<open>The operations of a node as one step function\<close>

datatype RaftOp = OpStart | OpStop | OpAddPeer nid string bool | OpRemovePeer nid
  | OpDelayNextElection | OpAppendEntry LogEntryType string | OpRequestVote VoteRequest
  | OpAppendEntries int AppendRequest | OpVoteReply VoteReply | OpFinishElection nat "bool list"
  | OpAppendReply nid nat AppendReply | OpUpdateCommitIndex | OpTimerFires | OpPause | OpResume
  | OpTriggerElection | OpStepDown

fun raft_op :: "RaftOp \<Rightarrow> RaftNode \<Rightarrow> RaftNode" where
  "raft_op OpStart n = start n"
| "raft_op OpStop n = stop n"
| "raft_op (OpAddPeer i a v) n = addPeer i a v n"
| "raft_op (OpRemovePeer i) n = removePeer i n"
| "raft_op OpDelayNextElection n = delayNextElection n"
| "raft_op (OpAppendEntry t d) n = fst (appendEntry t d n)"
| "raft_op (OpRequestVote q) n = fst (handleRequestVote q n)"
| "raft_op (OpAppendEntries now q) n = fst (handleAppendEntries now q n)"
| "raft_op (OpVoteReply r) n = fst (onVoteReply r n)"
| "raft_op (OpFinishElection k rs) n = fst (finishElection k rs n)"
| "raft_op (OpAppendReply i ob r) n = onAppendReply i ob r n"
| "raft_op OpUpdateCommitIndex n = updateCommitIndex n"
| "raft_op OpTimerFires n = (if electionTimeout n then fst (electionTimerFires n) else n)"
| "raft_op OpPause n = pauseElections n"
| "raft_op OpResume n = resumeElections n"
| "raft_op OpTriggerElection n = fst (triggerImmediateElection n)"
| "raft_op OpStepDown n = fst (stepDown n)"

text \<open>
  The environment may perform any operation, but the entries of an AppendEntries
  request continue its \<open>prevLogIndex\<close>, as \<open>replicateToPeer\<close> sends them.
\<close>

fun op_wf :: "RaftOp \<Rightarrow> bool" where
  "op_wf (OpAppendEntries now q) = wf_request q"
| "op_wf _ = True"

definition raft_step :: "RaftOp \<Rightarrow> RaftNode \<Rightarrow> RaftNode option" where
  "raft_step a n = (if op_wf a then Some (raft_op a n) else None)"

lemmas raft_op_defs = start_def stop_def addPeer_def removePeer_def delayNextElection_def
  appendEntry_def handleRequestVote_def onVoteReply_def finishElection_def becomeLeader_def
  onAppendReply_def captured_def electionTimerFires_def becomeCandidate_def startElection_def pauseElections_def
  resumeElections_def triggerImmediateElection_def stepDown_def clearElectionTimeout_def loadState_def

section \<open>What a successful AppendEntries did\<close>

lemma handleAppendEntries_success:
  assumes "handleAppendEntries now q n = (n', r)" and "ar_success r"
  shows "currentTerm n \<le> aq_term q" "consistent q (rlog n)"
    "rlog n' = appendLoop (prevLogIndex q) (aq_entries q) (rlog n)"
    "commitIndex n' = (if leaderCommit q > commitIndex n then min (leaderCommit q) (getLastLogIndex n') else commitIndex n)"
    "currentTerm n' = aq_term q" "leaderId n' = Some (aq_leaderId q)"
    "ar_matchIndex r = getLastLogIndex n'"
  using assms
  by (auto simp: handleAppendEntries_def Let_def getLastLogIndex_def split: if_splits)

lemma handleAppendEntries_failure:
  assumes "handleAppendEntries now q n = (n', r)" and "\<not> ar_success r"
  shows "rlog n' = rlog n \<and> commitIndex n' = commitIndex n \<and> lastApplied n' = lastApplied n
    \<and> (aq_term q < currentTerm n \<or> \<not> consistent q (rlog n))"
  using assms by (auto simp: handleAppendEntries_def Let_def split: if_splits)

text \<open>
  C2. Log matching is kept by replication: when a follower whose log matches the
  leader's accepts a request taken from the leader's log, its log afterwards equals
  the leader's up to the last entry sent, still matches it everywhere, and keeps its
  indices; the entries up to the request's end are never left stale.
\<close>

theorem replication_log_matching:
  assumes "wf_log L" and "wf_log (rlog n)" and "log_matching (rlog n) L" and "request_from L q"
    and "handleAppendEntries now q n = (n', r)" and "ar_success r"
  shows "take (nat (prevLogIndex q) + length (aq_entries q)) (rlog n')
       = take (nat (prevLogIndex q) + length (aq_entries q)) L
     \<and> log_matching (rlog n') L \<and> wf_log (rlog n')"
proof -
  note ok = handleAppendEntries_success [OF assms(5,6)]
  note m = appendLoop_matches [OF assms(4) ok(2) assms(3) assms(1)]
  have "wf_log (rlog n')"
    using wf_appendLoop [OF assms(2) request_from_wf [OF assms(1,4)] ok(2)] ok(3) by simp
  moreover have "log_matching (rlog n') L"
    using m(2) assms(3) log_matching_take ok(3) by metis
  ultimately show ?thesis using m(1) ok(3) by simp
qed

definition ex_entry :: "int \<Rightarrow> int \<Rightarrow> string \<Rightarrow> LogEntry" where
  "ex_entry t i d = \<lparr>e_term = t, e_index = i, e_type = Noop, e_data = d\<rparr>"

definition ex_config :: "nid \<Rightarrow> RaftConfig" where
  "ex_config i = \<lparr>c_nodeId = i, c_maxLogEntriesPerAppend = Some 1, c_nonVoting = False,
                  c_dataDir = Some ''d'', c_writable = True\<rparr>"

definition ex_node :: "nid \<Rightarrow> RaftNode" where
  "ex_node i = new_RaftNode (ex_config i) NoFile"

lemmas ex_defs = ex_entry_def ex_config_def ex_node_def new_RaftNode_def truthy_def

lemma log_matching_code [code]:
  "log_matching A B \<longleftrightarrow> list_all (\<lambda>i. i < length B \<longrightarrow> e_term (A ! i) = e_term (B ! i) \<longrightarrow>
      take (Suc i) A = take (Suc i) B) [0..<length A]"
  by (auto simp: log_matching_def list_all_iff)

definition ex_leaderLog :: "LogEntry list" where
  "ex_leaderLog = [ex_entry 1 1 ''a'', ex_entry 3 2 ''b'']"

definition ex_follower :: RaftNode where
  "ex_follower = (ex_node ''f'')\<lparr>rlog := [ex_entry 1 1 ''a'', ex_entry 2 2 ''x'', ex_entry 2 3 ''y'']\<rparr>"

definition ex_request :: AppendRequest where
  "ex_request = \<lparr>aq_term = 3, aq_leaderId = ''l'', prevLogIndex = 1, prevLogTerm = 1,
              aq_entries = [ex_entry 3 2 ''b''], leaderCommit = 0\<rparr>"

theorem replication_log_matching_witness:
  "ar_success (snd (handleAppendEntries 0 ex_request ex_follower))
   \<and> take 2 (rlog (fst (handleAppendEntries 0 ex_request ex_follower))) = ex_leaderLog"
proof -
  have s: "ar_success (snd (handleAppendEntries 0 ex_request ex_follower))"
    by (simp add: ex_request_def ex_follower_def ex_defs handleAppendEntries_def Let_def consistent_def js_at_def)
  have "wf_log ex_leaderLog" "wf_log (rlog ex_follower)" "log_matching (rlog ex_follower) ex_leaderLog"
    by (auto simp: ex_leaderLog_def ex_follower_def wf_log_def log_matching_code less_Suc_eq ex_defs upt_rec)
  moreover have "request_from ex_leaderLog ex_request"
    by (auto simp: request_from_def ex_leaderLog_def ex_request_def ex_defs intro!: exI [of _ 1])
  ultimately have "take (nat (prevLogIndex ex_request) + length (aq_entries ex_request))
        (rlog (fst (handleAppendEntries 0 ex_request ex_follower)))
      = take (nat (prevLogIndex ex_request) + length (aq_entries ex_request)) ex_leaderLog"
    using s replication_log_matching [of ex_leaderLog ex_follower ex_request 0] by (metis surjective_pairing)
  then show ?thesis using s by (simp add: ex_request_def ex_leaderLog_def numeral_2_eq_2)
qed

section \<open>Committed entries are applied once and in order\<close>

definition committed :: "RaftEvent list \<Rightarrow> LogEntry list" where
  "committed evs = List.map_filter (\<lambda>e. case e of EntryCommitted x \<Rightarrow> Some x | _ \<Rightarrow> None) evs"

lemma committed_simps [simp]:
  "committed [] = []" "committed (a @ b) = committed a @ committed b"
  "committed (map EntryCommitted es) = es" "committed (EntryCommitted e # a) = e # committed a"
  "committed (StateChange s t # a) = committed a" "committed (LeaderElected i # a) = committed a"
  "committed (LeaderChanged i # a) = committed a"
  by (simp_all add: committed_def List.map_filter_def comp_def)

definition applied :: "RaftNode \<Rightarrow> LogEntry list" where
  "applied n = committed (emitted n)"

definition raft_inv :: "RaftNode \<Rightarrow> bool" where
  "raft_inv n \<longleftrightarrow> wf_log (rlog n) \<and> 0 \<le> lastApplied n \<and> map e_index (applied n) = [1 .. lastApplied n]"

lemma raft_inv_frame:
  "rlog n' = rlog n \<Longrightarrow> lastApplied n' = lastApplied n \<Longrightarrow> applied n' = applied n \<Longrightarrow> raft_inv n' = raft_inv n"
  by (simp add: raft_inv_def)

lemma raft_inv_apply:
  assumes "raft_inv n" and "commitIndex n \<le> int (length (rlog n))"
  shows "raft_inv (applyCommittedEntries n)"
proof (cases "lastApplied n < commitIndex n")
  case True
  have "[1 .. lastApplied n] @ [lastApplied n + 1 .. commitIndex n] = [1 .. commitIndex n]"
    using assms True upto_split2 [of 1 "lastApplied n" "commitIndex n"]
    by (cases "lastApplied n = 0") (auto simp: raft_inv_def)
  then show ?thesis
    using assms True by (auto simp: raft_inv_def applied_def unapplied_take wf_log_indices)
next
  case False
  then have "unapplied n = []" by (simp add: unapplied_def List.map_filter_simps)
  with assms False show ?thesis by (auto simp: raft_inv_def applied_def max_def)
qed

lemma raft_inv_setCommit [simp]: "raft_inv (n\<lparr>commitIndex := m\<rparr>) = raft_inv n"
  by (simp add: raft_inv_def applied_def)

lemma updateCommitIndex_cases:
  "updateCommitIndex n = n \<or>
   (\<exists>m e. updateCommitIndex n = applyCommittedEntries (n\<lparr>commitIndex := m\<rparr>)
      \<and> m = matchIndices n ! (length (matchIndices n) div 2) \<and> commitIndex n < m
      \<and> js_at (rlog n) (m - 1) = Some e \<and> e_term e = currentTerm n)"
  by (simp add: updateCommitIndex_def Let_def split: option.split)

lemma raft_inv_updateCommitIndex:
  assumes "raft_inv n"
  shows "raft_inv (updateCommitIndex n)"
  using updateCommitIndex_cases [of n]
proof
  assume "\<exists>m e. updateCommitIndex n = applyCommittedEntries (n\<lparr>commitIndex := m\<rparr>)
      \<and> m = matchIndices n ! (length (matchIndices n) div 2) \<and> commitIndex n < m
      \<and> js_at (rlog n) (m - 1) = Some e \<and> e_term e = currentTerm n"
  then obtain m e where "updateCommitIndex n = applyCommittedEntries (n\<lparr>commitIndex := m\<rparr>)"
    and "js_at (rlog n) (m - 1) = Some e" by blast
  with assms show ?thesis by (auto dest!: js_at_SomeD intro!: raft_inv_apply)
qed (use assms in simp)

text \<open>The state of an accepting follower just before it looks at the commit index.\<close>

lemma handleAppendEntries_shape:
  assumes "handleAppendEntries now q n = (n', r)" and "ar_success r"
  obtains m where "rlog m = appendLoop (prevLogIndex q) (aq_entries q) (rlog n)" "lastApplied m = lastApplied n"
    "applied m = applied n" "commitIndex m = commitIndex n"
    "n' = (if leaderCommit q > commitIndex n
           then applyCommittedEntries (m\<lparr>commitIndex := min (leaderCommit q) (getLastLogIndex m)\<rparr>) else m)"
proof -
  define n1 where "n1 = (if aq_term q > currentTerm n then becomeFollower (aq_term q) n else n)"
  define n2 where "n2 = resetElectionTimeout (n1\<lparr>leaderId := Some (aq_leaderId q), lastAppendEntriesAt := now\<rparr>)"
  define n3 where "n3 = (if leaderId n1 \<noteq> Some (aq_leaderId q) then emit (LeaderChanged (aq_leaderId q)) n2 else n2)"
  define m where "m = n3\<lparr>rlog := appendLoop (prevLogIndex q) (aq_entries q) (rlog n3)\<rparr>"
  note ok = handleAppendEntries_success [OF assms]
  have n3: "rlog n3 = rlog n" "lastApplied n3 = lastApplied n" "applied n3 = applied n" "commitIndex n3 = commitIndex n"
    by (simp_all add: n3_def n2_def n1_def applied_def)
  have t: "currentTerm n1 = aq_term q" using ok(1) by (simp add: n1_def)
  have "n' = (if leaderCommit q > commitIndex n
      then applyCommittedEntries (m\<lparr>commitIndex := min (leaderCommit q) (getLastLogIndex m)\<rparr>) else m)"
    using assms ok(2) n3 t unfolding m_def
    by (simp add: handleAppendEntries_def Let_def n1_def [symmetric] n2_def [symmetric] n3_def [symmetric] split: if_splits)
  with n3 that [of m] show ?thesis by (simp add: m_def applied_def)
qed

lemma raft_inv_appendEntries:
  assumes inv: "raft_inv n" and wf: "wf_request q"
  shows "raft_inv (fst (handleAppendEntries now q n))"
proof (cases "handleAppendEntries now q n")
  case (Pair n' r)
  show ?thesis
  proof (cases "ar_success r")
    case False
    with Pair have "rlog n' = rlog n" "lastApplied n' = lastApplied n" "applied n' = applied n"
      by (auto simp: handleAppendEntries_def Let_def applied_def split: if_splits)
    with inv Pair show ?thesis by (simp add: raft_inv_def)
  next
    case True
    obtain m where m: "rlog m = appendLoop (prevLogIndex q) (aq_entries q) (rlog n)" "lastApplied m = lastApplied n"
        "applied m = applied n"
      and n': "n' = (if leaderCommit q > commitIndex n
           then applyCommittedEntries (m\<lparr>commitIndex := min (leaderCommit q) (getLastLogIndex m)\<rparr>) else m)"
      using handleAppendEntries_shape [OF Pair True] by metis
    have wf': "wf_log (rlog m)"
      using inv wf handleAppendEntries_success(2) [OF Pair True] m(1) wf_appendLoop by (simp add: raft_inv_def)
    then have b: "raft_inv m" using inv m by (simp add: raft_inv_def)
    then have "raft_inv (applyCommittedEntries (m\<lparr>commitIndex := min (leaderCommit q) (getLastLogIndex m)\<rparr>))"
      using wf' by (intro raft_inv_apply) (simp_all add: min_def)
    with b n' Pair show ?thesis by simp
  qed
qed

lemma raft_inv_op: "raft_inv n \<Longrightarrow> op_wf a \<Longrightarrow> raft_inv (raft_op a n)"
proof (cases a)
  case (OpAppendEntries now q)
  then show "raft_inv n \<Longrightarrow> op_wf a \<Longrightarrow> ?thesis" by (simp add: raft_inv_appendEntries)
next
  case OpUpdateCommitIndex
  then show "raft_inv n \<Longrightarrow> op_wf a \<Longrightarrow> ?thesis" by (simp add: raft_inv_updateCommitIndex)
qed (auto simp: raft_op_defs Let_def raft_inv_def applied_def split: if_splits StateFile.splits option.splits)

interpretation node_inv: invariant_of raft_step raft_inv
  by unfold_locales (auto simp: raft_step_def raft_inv_op split: if_splits)

lemma raft_inv_new [simp]: "raft_inv (new_RaftNode c f)"
  by (simp add: raft_inv_def new_RaftNode_def applied_def)

text \<open>
  C3. Whatever sequence of operations a node performs from its construction, the
  entries it has emitted as committed carry exactly the indices 1, 2, up to
  \<open>lastApplied\<close>: every index is applied once, in order, with none left out.
\<close>

theorem committed_once_in_order:
  assumes "run raft_step ops (new_RaftNode c f) = Some n"
  shows "map e_index (applied n) = [1 .. lastApplied n]"
  using node_inv.run_inv [OF raft_inv_new assms] by (simp add: raft_inv_def)

definition ex_ops :: "RaftOp list" where
  "ex_ops = [OpStart, OpAppendEntries 0 (ex_request\<lparr>prevLogIndex := 0, aq_entries := ex_leaderLog, leaderCommit := 2\<rparr>)]"

lemma ex_ops_run:
  "run raft_step ex_ops (ex_node ''f'') = Some (raft_op (ex_ops ! 1) (raft_op (ex_ops ! 0) (ex_node ''f'')))"
  by (auto simp: ex_ops_def raft_step_def wf_request_def ex_request_def ex_leaderLog_def ex_entry_def less_Suc_eq)

theorem committed_once_in_order_witness:
  "map e_index (applied (raft_op (ex_ops ! 1) (raft_op (ex_ops ! 0) (ex_node ''f'')))) = [1, 2]"
proof -
  have "lastApplied (raft_op (ex_ops ! 1) (raft_op (ex_ops ! 0) (ex_node ''f''))) = 2"
    by (simp add: ex_ops_def ex_request_def ex_leaderLog_def start_def loadState_def handleAppendEntries_def
        consistent_def js_at_def getLastLogIndex_def Let_def ex_defs)
  then show ?thesis
    using committed_once_in_order [OF ex_ops_run [unfolded ex_node_def]] by (simp add: ex_node_def upto_rec1)
qed

section \<open>The commit rule\<close>

text \<open>
  C4. The leader moves its commit index only forward, only to an entry of its own
  term in its log, and only when at least \<open>votesNeeded\<close> members (itself and voting
  peers, a majority) are known to hold that index.
\<close>

theorem leader_commits_majority:
  assumes "commitIndex (updateCommitIndex n) \<noteq> commitIndex n"
  shows "commitIndex n < commitIndex (updateCommitIndex n)
    \<and> votesNeeded n \<le> holders (commitIndex (updateCommitIndex n)) n
    \<and> (\<exists>e. js_at (rlog n) (commitIndex (updateCommitIndex n) - 1) = Some e \<and> e_term e = currentTerm n)"
  using updateCommitIndex_cases [of n] assms matchIndices_holders [of n] by auto

definition ex_leader :: RaftNode where
  "ex_leader = (ex_node ''l'')\<lparr>state := Leader, currentTerm := 3, rlog := ex_leaderLog,
     peers := [(''a'', \<lparr>p_nodeId = ''a'', p_address = '''', nextIndex = 3, matchIndex = 2, votingMember = True, p_object = 0\<rparr>),
               (''b'', \<lparr>p_nodeId = ''b'', p_address = '''', nextIndex = 1, matchIndex = 0, votingMember = True, p_object = 1\<rparr>)]\<rparr>"

lemma ex_leader_commit: "commitIndex (updateCommitIndex ex_leader) = 2"
  by (simp add: updateCommitIndex_def matchIndices_def votingPeers_def getPeers_def jm_values_def getLastLogIndex_def
      ex_leader_def ex_leaderLog_def js_at_def Let_def ex_defs)

theorem leader_commits_majority_witness:
  "commitIndex ex_leader < commitIndex (updateCommitIndex ex_leader) \<and> votesNeeded ex_leader \<le> holders 2 ex_leader"
proof -
  have "commitIndex (updateCommitIndex ex_leader) \<noteq> commitIndex ex_leader"
    by (simp add: ex_leader_commit) (simp add: ex_leader_def ex_defs)
  from leader_commits_majority [OF this] show ?thesis by (simp add: ex_leader_commit)
qed

text \<open>
  In a descending list, more than half of whose elements are at least \<open>i\<close>, the
  middle element is.
\<close>

lemma middle_of_majority:
  assumes "sorted (rev (ms :: int list))" and "length ms div 2 < length (filter (\<lambda>m. i \<le> m) ms)"
  shows "i \<le> ms ! (length ms div 2)"
proof (rule ccontr)
  let ?h = "length ms div 2"
  assume below: "\<not> i \<le> ms ! ?h"
  have h: "?h < length ms" using assms(2) length_filter_le [of "\<lambda>m. i \<le> m" ms] by linarith
  have "ms ! j < i" if "?h \<le> j" "j < length ms" for j
    using sorted_rev_nth_mono [OF assms(1) that] below by simp
  then have "filter (\<lambda>m. i \<le> m) (drop ?h ms) = []"
    using h by (auto simp: filter_empty_conv in_set_conv_nth not_le)
  then have "length (filter (\<lambda>m. i \<le> m) ms) = length (filter (\<lambda>m. i \<le> m) (take ?h ms))"
    by (metis append_Nil2 append_take_drop_id filter_append)
  also have "\<dots> \<le> ?h" using length_filter_le [of "\<lambda>m. i \<le> m" "take ?h ms"] by simp
  finally show False using assms(2) by simp
qed

text \<open>
  Progress of commitment: once a majority is known to hold an entry of the
  leader's own term, one \<open>updateCommitIndex\<close> commits it (the terms along the leader's
  log do not decrease, none exceeds its term, and no peer is recorded beyond the log).
\<close>

theorem majority_is_committed:
  assumes wf: "wf_log (rlog n)" and terms: "sorted (map e_term (rlog n))"
    and own: "\<forall>e\<in>set (rlog n). e_term e \<le> currentTerm n"
    and bound: "\<forall>p\<in>set (votingPeers n). matchIndex p \<le> getLastLogIndex n"
    and at: "js_at (rlog n) (i - 1) = Some e" "e_term e = currentTerm n"
    and held: "votesNeeded n \<le> holders i n"
  shows "i \<le> commitIndex (updateCommitIndex n)"
proof -
  let ?ms = "matchIndices n" let ?m = "?ms ! (length ?ms div 2)"
  have len: "length ?ms = length (votingPeers n) + 1" by (simp add: matchIndices_def)
  have mem: "set ?ms = insert (getLastLogIndex n) (matchIndex ` set (votingPeers n))"
    by (simp add: matchIndices_def set_insort_key)
  have srt: "sorted (rev ?ms)" by (simp only: matchIndices_def rev_rev_ident sorted_sort)
  have "length (filter (\<lambda>m. i \<le> m) ?ms) = holders i n"
    unfolding holders_def by (rule mset_filter_length) (simp only: matchIndices_def mset_rev mset_sort)
  then have im: "i \<le> ?m"
    using held by (intro middle_of_majority [OF srt]) (simp add: votesNeeded_def len)
  have "?m \<in> set ?ms" using len by (intro nth_mem) linarith
  then have mb: "?m \<le> int (length (rlog n))" using bound wf mem by auto
  have i: "0 \<le> i - 1" "e = rlog n ! nat (i - 1)" using js_at_SomeD [OF at(1)] by auto
  have lt: "nat (?m - 1) < length (rlog n)" using mb im i by linarith
  then have "e_term e \<le> e_term (rlog n ! nat (?m - 1))"
    using sorted_nth_mono [OF terms, of "nat (i - 1)" "nat (?m - 1)"] im i by simp
  then have "e_term (rlog n ! nat (?m - 1)) = currentTerm n"
    using own at(2) nth_mem [OF lt] by fastforce
  moreover have "js_at (rlog n) (?m - 1) = Some (rlog n ! nat (?m - 1))"
    using lt im i by (simp add: js_at_def)
  ultimately show ?thesis using im by (simp add: updateCommitIndex_def Let_def)
qed

theorem majority_is_committed_witness: "2 \<le> commitIndex (updateCommitIndex ex_leader)"
proof (rule majority_is_committed)
  show "js_at (rlog ex_leader) (2 - 1) = Some (ex_entry 3 2 ''b'')"
    by (simp add: ex_leader_def ex_leaderLog_def js_at_def)
  show "wf_log (rlog ex_leader)"
    by (auto simp: ex_leader_def ex_leaderLog_def wf_log_def less_Suc_eq ex_defs)
qed (auto simp: ex_leader_def ex_leaderLog_def votesNeeded_def holders_def votingPeers_def getPeers_def jm_values_def
        getLastLogIndex_def ex_defs)

text \<open>
  A follower whose log matches the leader's, and which the request brings up to
  the leader's commit index, has afterwards committed only entries of the leader's
  log: its log up to its commit index is the leader's.
\<close>

theorem follower_commits_leader_log:
  assumes "wf_log L" and "wf_log (rlog n)" and "log_matching (rlog n) L" and "request_from L q"
    and res: "handleAppendEntries now q n = (n', r)" "ar_success r"
    and sent: "commitIndex n < leaderCommit q" "leaderCommit q \<le> prevLogIndex q + int (length (aq_entries q))"
  shows "commitIndex n' = leaderCommit q \<and> take (nat (leaderCommit q)) (rlog n') = take (nat (leaderCommit q)) L"
proof -
  note ok = handleAppendEntries_success [OF res]
  let ?k = "nat (prevLogIndex q) + length (aq_entries q)"
  have pos: "0 \<le> prevLogIndex q" and kL: "?k \<le> length L" using assms(4) by (auto simp: request_from_def)
  have eq: "take ?k (rlog n') = take ?k L" "wf_log (rlog n')"
    using appendLoop_matches(1) [OF assms(4) ok(2) assms(3,1)] ok(3)
      wf_appendLoop [OF assms(2) request_from_wf [OF assms(1,4)] ok(2)] by simp_all
  have "length (take ?k (rlog n')) = ?k" using eq(1) kL by simp
  then have "?k \<le> length (rlog n')" by simp
  with sent pos ok(4) eq(2) have "commitIndex n' = leaderCommit q" by auto
  moreover have "nat (leaderCommit q) \<le> ?k" using sent pos by linarith
  then have "take (nat (leaderCommit q)) (rlog n') = take (nat (leaderCommit q)) L"
    using arg_cong [OF eq(1), of "take (nat (leaderCommit q))"] by (simp add: min_def)
  ultimately show ?thesis by simp
qed

definition ex_commitRequest :: AppendRequest where
  "ex_commitRequest = ex_request\<lparr>leaderCommit := 2\<rparr>"

lemma ex_logs [simp]:
  "wf_log ex_leaderLog" "wf_log (rlog ex_follower)" "log_matching (rlog ex_follower) ex_leaderLog"
  by (auto simp: ex_leaderLog_def ex_follower_def wf_log_def log_matching_code less_Suc_eq ex_defs upt_rec)

theorem follower_commits_leader_log_witness:
  "commitIndex (fst (handleAppendEntries 0 ex_commitRequest ex_follower)) = 2
   \<and> take 2 (rlog (fst (handleAppendEntries 0 ex_commitRequest ex_follower))) = ex_leaderLog"
proof -
  have s: "ar_success (snd (handleAppendEntries 0 ex_commitRequest ex_follower))"
    by (simp add: ex_commitRequest_def ex_request_def ex_follower_def ex_defs handleAppendEntries_def Let_def consistent_def js_at_def)
  have r: "request_from ex_leaderLog ex_commitRequest"
    by (auto simp: request_from_def ex_leaderLog_def ex_commitRequest_def ex_request_def ex_defs intro!: exI [of _ 1])
  have "leaderCommit ex_commitRequest \<le> prevLogIndex ex_commitRequest + int (length (aq_entries ex_commitRequest))"
    "commitIndex ex_follower < leaderCommit ex_commitRequest"
    by (simp_all add: ex_commitRequest_def ex_request_def ex_follower_def ex_defs)
  from follower_commits_leader_log [OF ex_logs r surjective_pairing s this(2,1)]
  show ?thesis by (simp add: ex_commitRequest_def ex_leaderLog_def)
qed

end
