(* ===== verification/RaftVote.thy ===== *)
theory RaftVote
  imports RaftSafety
begin

text \<open>
  Terms and votes of one node: the term never falls, a vote is granted exactly under
  the conditions of \<open>handleRequestVote\<close> and is kept for the rest of the term, an
  observer does not campaign, a restart finds the persisted term; and where the code
  departs from what its comments promise (the vote a restart or \<open>stepDown\<close> forgets,
  the timer a refused candidate leaves disarmed, the observer that a join delay arms).
\<close>

section \<open>Terms never fall\<close>

lemma currentTerm_appendEntries: "currentTerm n \<le> currentTerm (fst (handleAppendEntries now q n))"
  by (auto simp: handleAppendEntries_def Let_def)

lemma currentTerm_updateCommitIndex [simp]: "currentTerm (updateCommitIndex n) = currentTerm n"
  using updateCommitIndex_cases [of n] by auto

lemma currentTerm_op: "currentTerm n \<le> currentTerm (raft_op a n)"
proof (cases a)
  case (OpAppendEntries now q)
  then show ?thesis by (simp add: currentTerm_appendEntries)
qed (auto simp: raft_op_defs Let_def split: StateFile.splits option.splits)

interpretation term_mono: monotone_of raft_step currentTerm
  by unfold_locales (auto simp: raft_step_def currentTerm_op split: if_splits)

text \<open>
  No sequence of operations, stop and start included, lowers a node's term.
\<close>

theorem term_never_falls:
  assumes "run raft_step ops n = Some n'"
  shows "currentTerm n \<le> currentTerm n'"
  using assms by (rule term_mono.run_mono)

theorem term_never_falls_witness:
  "currentTerm (ex_node ''f'') \<le> currentTerm (raft_op (ex_ops ! 1) (raft_op (ex_ops ! 0) (ex_node ''f'')))"
  by (rule term_never_falls [OF ex_ops_run])

section \<open>Votes\<close>

lemma getLast_becomeFollower [simp]:
  "getLastLogIndex (becomeFollower t n) = getLastLogIndex n" "getLastLogTerm (becomeFollower t n) = getLastLogTerm n"
  by (simp_all add: getLastLogIndex_def getLastLogTerm_def)

text \<open>
  A vote is granted exactly when the candidate's term is not old, its log is at
  least as up to date as the voter's, and the voter has not voted for another in that
  term. A grant is recorded for the candidate's term, in memory and, with a writable
  data directory, on disk before the reply, and arms the timer of a voter whose
  elections are not paused; a refusal leaves no new vote.
\<close>

theorem vote_granted_iff:
  fixes q n
  defines "n' \<equiv> fst (handleRequestVote q n)" and "r \<equiv> snd (handleRequestVote q n)"
  shows "(voteGranted r \<longleftrightarrow> vq_term q \<ge> currentTerm n \<and> logOk q n
            \<and> (vq_term q > currentTerm n \<or> canVote q n))
    \<and> vr_term r = currentTerm n' \<and> currentTerm n' = max (currentTerm n) (vq_term q)
    \<and> (if voteGranted r then votedFor n' = Some (vq_candidateId q)
          \<and> (truthy (c_dataDir (config n)) \<and> c_writable (config n)
              \<longrightarrow> stateFile n' = StateJson (Some (vq_term q)) (Some (vq_candidateId q)))
          \<and> (electionTimeout n' \<longleftrightarrow> \<not> c_nonVoting (config n) \<and> \<not> electionsPaused n)
       else votedFor n' = (if vq_term q > currentTerm n then None else votedFor n))"
  unfolding n'_def r_def
  by (auto simp: handleRequestVote_def logOk_def canVote_def Let_def saveState_def max_def)

definition ex_voteRequest :: "nid \<Rightarrow> int \<Rightarrow> VoteRequest" where
  "ex_voteRequest c t = \<lparr>vq_term = t, vq_candidateId = c, vq_lastLogIndex = 0, vq_lastLogTerm = 0\<rparr>"

theorem vote_granted_iff_witness:
  "voteGranted (snd (handleRequestVote (ex_voteRequest ''a'' 1) (ex_node ''f'')))
   \<and> stateFile (fst (handleRequestVote (ex_voteRequest ''a'' 1) (ex_node ''f''))) = StateJson (Some 1) (Some ''a'')"
proof -
  note iff = vote_granted_iff [of "ex_voteRequest ''a'' 1" "ex_node ''f''"]
  have "voteGranted (snd (handleRequestVote (ex_voteRequest ''a'' 1) (ex_node ''f'')))"
    by (subst iff [THEN conjunct1]) (simp add: ex_voteRequest_def ex_defs logOk_def getLastLogIndex_def getLastLogTerm_def)
  with iff [THEN conjunct2] show ?thesis
    by (simp only: if_True) (simp add: ex_voteRequest_def ex_defs truthy_def)
qed

text \<open>Operations between restarts and apart from \<open>stepDown\<close> keep a vote for its term.\<close>

fun keeps_vote :: "RaftOp \<Rightarrow> bool" where
  "keeps_vote OpStart = False"
| "keeps_vote OpStepDown = False"
| "keeps_vote _ = True"

definition vote_step :: "RaftOp \<Rightarrow> RaftNode \<Rightarrow> RaftNode option" where
  "vote_step a n = (if keeps_vote a then raft_step a n else None)"

definition bound_to :: "int \<Rightarrow> nid \<Rightarrow> RaftNode \<Rightarrow> bool" where
  "bound_to t c n \<longleftrightarrow> t < currentTerm n \<or> (currentTerm n = t \<and> votedFor n = Some c)"

lemma bound_to_appendEntries:
  "bound_to t c n \<Longrightarrow> bound_to t c (fst (handleAppendEntries now q n))"
  by (auto simp: handleAppendEntries_def Let_def bound_to_def)

lemma votedFor_updateCommitIndex [simp]: "votedFor (updateCommitIndex n) = votedFor n"
  using updateCommitIndex_cases [of n] by auto

lemma bound_to_op: "bound_to t c n \<Longrightarrow> keeps_vote a \<Longrightarrow> bound_to t c (raft_op a n)"
proof (cases a)
  case (OpAppendEntries now q)
  then show "bound_to t c n \<Longrightarrow> keeps_vote a \<Longrightarrow> ?thesis" by (simp add: bound_to_appendEntries)
qed (auto simp: raft_op_defs Let_def bound_to_def canVote_def)

interpretation vote_inv: invariant_of vote_step "bound_to t c" for t c
  by unfold_locales (auto simp: vote_step_def raft_step_def bound_to_op split: if_splits)

text \<open>
  C5. One vote per term while the node runs: after granting its vote to a candidate,
  and whatever it does next short of a restart or \<open>stepDown\<close>, a node grants no vote
  of that term to another candidate.
\<close>

theorem one_vote_per_term:
  assumes grant: "handleRequestVote q n = (n1, r)" "voteGranted r"
    and run: "run vote_step ops n1 = Some n2"
    and other: "vq_term q' = vq_term q" "vq_candidateId q' \<noteq> vq_candidateId q"
  shows "\<not> voteGranted (snd (handleRequestVote q' n2))"
proof -
  have "bound_to (vq_term q) (vq_candidateId q) n1"
    using grant by (auto simp: handleRequestVote_def Let_def bound_to_def split: if_splits)
  with run have "bound_to (vq_term q) (vq_candidateId q) n2" by (rule vote_inv.run_inv [rotated])
  with other show ?thesis
    by (auto simp: handleRequestVote_def Let_def bound_to_def canVote_def)
qed

lemma ex_vote_granted: "voteGranted (snd (handleRequestVote (ex_voteRequest ''a'' 1) (ex_node ''f'')))"
  by (simp add: handleRequestVote_def ex_voteRequest_def ex_defs logOk_def canVote_def getLastLogIndex_def getLastLogTerm_def Let_def)

theorem one_vote_per_term_witness:
  "\<not> voteGranted (snd (handleRequestVote (ex_voteRequest ''b'' 1)
        (pauseElections (fst (handleRequestVote (ex_voteRequest ''a'' 1) (ex_node ''f''))))))"
proof (rule one_vote_per_term [OF surjective_pairing ex_vote_granted])
  show "run vote_step [OpPause] (fst (handleRequestVote (ex_voteRequest ''a'' 1) (ex_node ''f'')))
    = Some (pauseElections (fst (handleRequestVote (ex_voteRequest ''a'' 1) (ex_node ''f''))))"
    by (simp add: vote_step_def raft_step_def)
qed (simp_all add: ex_voteRequest_def)

text \<open>
  C40. A restart finds the persisted term but not the persisted vote: \<open>start\<close> loads
  both and then calls \<open>becomeFollower\<close>, which clears the vote and writes the cleared
  vote back. The restarted node grants a second candidate of the same term its vote.
\<close>

theorem restart_forgets_vote:
  assumes grant: "handleRequestVote q n = (n1, r)" "voteGranted r" "0 < vq_term q"
    and disk: "truthy (c_dataDir (config n))" "c_writable (config n)"
    and other: "vq_term q' = vq_term q" "vq_lastLogTerm q' \<ge> 0" "vq_lastLogIndex q' \<ge> 0"
  defines "n2 \<equiv> start (new_RaftNode (config n) (stateFile n1))"
  shows "stateFile n1 = StateJson (Some (vq_term q)) (Some (vq_candidateId q))
    \<and> currentTerm n2 = vq_term q \<and> votedFor n2 = None
    \<and> stateFile n2 = StateJson (Some (vq_term q)) None
    \<and> voteGranted (snd (handleRequestVote q' n2))"
proof -
  have f: "stateFile n1 = StateJson (Some (vq_term q)) (Some (vq_candidateId q))"
    using grant disk by (auto simp: handleRequestVote_def Let_def saveState_def max_def split: if_splits)
  then have n2: "currentTerm n2 = vq_term q" "votedFor n2 = None" "rlog n2 = []"
    "stateFile n2 = StateJson (Some (vq_term q)) None"
    using disk grant(3)
    by (auto simp: n2_def start_def loadState_def new_RaftNode_def Let_def becomeFollower_def saveState_def
        clearTimers_def clearElectionTimeout_def)
  then have "voteGranted (snd (handleRequestVote q' n2))"
    using other by (auto simp: handleRequestVote_def Let_def logOk_def canVote_def getLastLogIndex_def getLastLogTerm_def)
  with f n2 show ?thesis by simp
qed

theorem restart_forgets_vote_witness:
  "voteGranted (snd (handleRequestVote (ex_voteRequest ''b'' 1)
     (start (new_RaftNode (ex_config ''f'') (stateFile (fst (handleRequestVote (ex_voteRequest ''a'' 1) (ex_node ''f''))))))))"
proof -
  have c: "config (ex_node ''f'') = ex_config ''f''" by (simp add: ex_defs)
  have "truthy (c_dataDir (ex_config ''f''))" "c_writable (ex_config ''f'')"
    "0 < vq_term (ex_voteRequest ''a'' 1)" "vq_term (ex_voteRequest ''b'' 1) = vq_term (ex_voteRequest ''a'' 1)"
    "0 \<le> vq_lastLogTerm (ex_voteRequest ''b'' 1)" "0 \<le> vq_lastLogIndex (ex_voteRequest ''b'' 1)"
    by (simp_all add: ex_voteRequest_def ex_config_def truthy_def)
  from restart_forgets_vote [OF surjective_pairing ex_vote_granted this(3) this(1,2) [folded c] this(4-6)]
  show ?thesis unfolding c by blast
qed

text \<open>
  A leader that steps down forgets whom it voted for in the current term, itself,
  and may grant the vote of that term to another candidate.
\<close>

theorem stepDown_forgets_vote:
  assumes "state n = Leader" and "votedFor n = Some (self n)"
    and "vq_term q = currentTerm n" "vq_candidateId q \<noteq> self n" "logOk q n"
  shows "\<not> voteGranted (snd (handleRequestVote q n)) \<and> voteGranted (snd (handleRequestVote q (fst (stepDown n))))"
  using assms
  by (auto simp: stepDown_def handleRequestVote_def canVote_def logOk_def getLastLogIndex_def getLastLogTerm_def Let_def)

definition ex_elected :: RaftNode where
  "ex_elected = (ex_node ''l'')\<lparr>state := Leader, currentTerm := 1, votedFor := Some ''l''\<rparr>"

theorem stepDown_forgets_vote_witness:
  "voteGranted (snd (handleRequestVote (ex_voteRequest ''b'' 1) (fst (stepDown ex_elected))))"
  using stepDown_forgets_vote [of ex_elected "ex_voteRequest ''b'' 1"]
  by (simp add: ex_elected_def ex_voteRequest_def ex_defs logOk_def getLastLogIndex_def getLastLogTerm_def self_def)

section \<open>The election timer\<close>

text \<open>
  A candidate that is refused because its log is behind disarms the voter's
  election timer: the higher term makes the voter a follower, which clears the timer,
  and only a granted vote arms it again.
\<close>

theorem refused_candidate_disarms_timer:
  assumes "vq_term q > currentTerm n" and "\<not> logOk q n"
  shows "\<not> voteGranted (snd (handleRequestVote q n)) \<and> state (fst (handleRequestVote q n)) = Follower
    \<and> \<not> electionTimeout (fst (handleRequestVote q n))"
  using assms by (auto simp: handleRequestVote_def logOk_def Let_def)

theorem refused_candidate_disarms_timer_witness:
  "\<not> electionTimeout (fst (handleRequestVote (ex_voteRequest ''b'' 9) ex_follower))"
  using refused_candidate_disarms_timer [of ex_follower "ex_voteRequest ''b'' 9"]
  by (simp add: ex_follower_def ex_voteRequest_def ex_defs logOk_def getLastLogIndex_def getLastLogTerm_def)

text \<open>Operations of an observer other than the join delay.\<close>

definition observer_step :: "RaftOp \<Rightarrow> RaftNode \<Rightarrow> RaftNode option" where
  "observer_step a n = (if a = OpDelayNextElection then None else raft_step a n)"

definition dormant :: "RaftNode \<Rightarrow> bool" where
  "dormant n \<longleftrightarrow> c_nonVoting (config n) \<and> state n = Follower \<and> \<not> electionTimeout n"

lemma dormant_appendEntries: "dormant n \<Longrightarrow> dormant (fst (handleAppendEntries now q n))"
  by (auto simp: handleAppendEntries_def Let_def dormant_def)

lemma dormant_updateCommitIndex: "dormant n \<Longrightarrow> dormant (updateCommitIndex n)"
  using updateCommitIndex_cases [of n] by (auto simp: dormant_def)

lemma dormant_op: "dormant n \<Longrightarrow> a \<noteq> OpDelayNextElection \<Longrightarrow> dormant (raft_op a n)"
proof (cases a)
  case (OpAppendEntries now q)
  then show "dormant n \<Longrightarrow> a \<noteq> OpDelayNextElection \<Longrightarrow> ?thesis" by (simp add: dormant_appendEntries)
next
  case OpUpdateCommitIndex
  then show "dormant n \<Longrightarrow> a \<noteq> OpDelayNextElection \<Longrightarrow> ?thesis" by (simp add: dormant_updateCommitIndex)
qed (auto simp: raft_op_defs Let_def dormant_def split: StateFile.splits option.splits)

interpretation observer_inv: invariant_of observer_step dormant
  by unfold_locales (auto simp: observer_step_def raft_step_def dormant_op split: if_splits)

text \<open>
  A node configured as non-voting stays a follower with no election timer under
  every sequence of operations that does not contain the join delay.
\<close>

theorem observer_never_campaigns:
  assumes "run observer_step ops (new_RaftNode c f) = Some n" and "c_nonVoting c"
  shows "state n = Follower \<and> \<not> electionTimeout n"
proof -
  have "dormant (new_RaftNode c f)" using assms(2) by (simp add: dormant_def new_RaftNode_def)
  from observer_inv.run_inv [OF this assms(1)] show ?thesis by (simp add: dormant_def)
qed

definition ex_observer :: RaftNode where
  "ex_observer = new_RaftNode ((ex_config ''o'')\<lparr>c_nonVoting := True\<rparr>) NoFile"

theorem observer_never_campaigns_witness:
  "state (fst (triggerImmediateElection (start ex_observer))) = Follower"
proof -
  have "run observer_step [OpStart, OpTriggerElection] ex_observer
      = Some (fst (triggerImmediateElection (start ex_observer)))"
    by (simp add: observer_step_def raft_step_def)
  from observer_never_campaigns [OF this [unfolded ex_observer_def]] show ?thesis
    by (simp add: ex_config_def ex_observer_def)
qed

text \<open>
  The join delay arms the timer of every node, also of an observer and of a node
  whose elections are paused; when it fires, a running node campaigns.
\<close>

theorem delayed_observer_campaigns:
  assumes "running n" and "state n = Follower"
  shows "electionTimeout (delayNextElection n)
    \<and> state (fst (electionTimerFires (delayNextElection n))) = Candidate
    \<and> currentTerm (fst (electionTimerFires (delayNextElection n))) = currentTerm n + 1"
  using assms
  by (simp add: delayNextElection_def clearElectionTimeout_def electionTimerFires_def becomeCandidate_def startElection_def Let_def)

theorem delayed_observer_campaigns_witness:
  "c_nonVoting (config (start ex_observer))
   \<and> state (fst (electionTimerFires (delayNextElection (start ex_observer)))) = Candidate"
  using delayed_observer_campaigns [of "start ex_observer"]
  by (simp add: ex_observer_def ex_defs start_def loadState_def Let_def)

end
