(* ===== verification/RaftCluster.thy ===== *)
theory RaftCluster
  imports RaftVote
begin

text \<open>
  Elections across a cluster of voting nodes: every node runs the handlers of
  \<open>Raft\<close>, vote requests and replies travel one by one and may be delayed or lost,
  and other operations happen in between. The membership is fixed, every node lists all
  others as voting peers, and no node is restarted or asked to step down, which would
  make it forget its vote.

  Election safety holds when no node starts an election while an earlier one of its
  own still waits for replies. The code does not enforce that condition (the election
  timer stays armed while \<open>Promise.all\<close> waits, and the check afterwards looks at the
  state but not at the term), and without it two nodes can lead one term.
\<close>

section \<open>The cluster and its steps\<close>

text \<open>An election in progress: one activation of \<open>startElection\<close> after its requests.\<close>

record Election =
  el_cand :: nid
  el_request :: VoteRequest
  el_needed :: nat
  el_pending :: "nid list"
  el_replies :: "(nid, VoteReply) jsmap"
  el_results :: "(nid \<times> bool) list"

text \<open>\<open>ballots\<close> and \<open>elected\<close> are history: the votes cast and the elections won.\<close>

record Cluster =
  nodes :: "(nid, RaftNode) jsmap"
  elections :: "Election list"
  ballots :: "(nid \<times> int \<times> nid) list"
  elected :: "(nid \<times> int) list"

datatype ClusterAction = Timeout nid | TimeoutNow nid | DeliverRequest nat nid | DeliverReply nat nid
  | Lose nat nid | Finish nat | Local nid RaftOp

text \<open>Operations of a single node that are no part of an election and keep its peers.\<close>

fun local_op :: "RaftOp \<Rightarrow> bool" where
  "local_op OpStop = True"
| "local_op OpDelayNextElection = True"
| "local_op (OpAppendEntry t d) = True"
| "local_op (OpAppendEntries now q) = True"
| "local_op (OpAppendReply i ob r) = True"
| "local_op OpUpdateCommitIndex = True"
| "local_op OpPause = True"
| "local_op OpResume = True"
| "local_op _ = False"

definition outstanding :: "nid \<Rightarrow> Cluster \<Rightarrow> bool" where
  "outstanding i s \<longleftrightarrow> list_ex (\<lambda>el. el_cand el = i) (elections s)"

definition setNode :: "nid \<Rightarrow> RaftNode \<Rightarrow> Cluster \<Rightarrow> Cluster" where
  "setNode i n s = s\<lparr>nodes := jm_set i n (nodes s)\<rparr>"

text \<open>A node has started an election: its own vote and the requests that are under way.\<close>

definition campaign :: "nid \<Rightarrow> RaftNode \<times> (nid \<times> VoteRequest) list \<Rightarrow> Cluster \<Rightarrow> Cluster" where
  "campaign i res s =
     (let (n, msgs) = res
      in (setNode i n s)\<lparr>ballots := (i, currentTerm n, i) # ballots s,
           elections := elections s @ [\<lparr>el_cand = i, el_request = voteRequest n, el_needed = votesNeeded n,
              el_pending = map fst msgs, el_replies = [], el_results = []\<rparr>]\<rparr>)"

definition replaceNth :: "nat \<Rightarrow> Election \<Rightarrow> Cluster \<Rightarrow> Cluster" where
  "replaceNth k el s = s\<lparr>elections := (elections s)[k := el]\<rparr>"

definition deliverRequest :: "nat \<Rightarrow> nid \<Rightarrow> Cluster \<Rightarrow> Cluster option" where
  "deliverRequest k v s =
     (if k < length (elections s) \<and> v \<in> set (el_pending (elections s ! k))
      then case jm_get (nodes s) v of None \<Rightarrow> None
      | Some n \<Rightarrow>
          let el = elections s ! k; (n', r) = handleRequestVote (el_request el) n;
              s1 = replaceNth k (el\<lparr>el_pending := remove1 v (el_pending el),
                                     el_replies := (v, r) # el_replies el\<rparr>) (setNode v n' s)
          in Some (if voteGranted r
                   then s1\<lparr>ballots := (v, vq_term (el_request el), el_cand el) # ballots s1\<rparr> else s1)
      else None)"

definition deliverReply :: "nat \<Rightarrow> nid \<Rightarrow> Cluster \<Rightarrow> Cluster option" where
  "deliverReply k v s =
     (if k < length (elections s)
      then let el = elections s ! k
           in case (map_of (el_replies el) v, jm_get (nodes s) (el_cand el)) of
             (Some r, Some n) \<Rightarrow>
               (let (n', ok) = onVoteReply r n
                in Some (replaceNth k (el\<lparr>el_replies := remove1 (v, r) (el_replies el),
                                           el_results := (v, ok) # el_results el\<rparr>)
                           (setNode (el_cand el) n' s)))
           | _ \<Rightarrow> None
      else None)"

text \<open>A request or a reply that fails: the promise of that peer resolves to \<open>false\<close>.\<close>

definition lose :: "nat \<Rightarrow> nid \<Rightarrow> Cluster \<Rightarrow> Cluster option" where
  "lose k v s =
     (if k < length (elections s)
      then let el = elections s ! k
           in if v \<in> set (el_pending el)
              then Some (replaceNth k (el\<lparr>el_pending := remove1 v (el_pending el),
                                           el_results := (v, False) # el_results el\<rparr>) s)
              else (case map_of (el_replies el) v of
                      Some r \<Rightarrow> Some (replaceNth k (el\<lparr>el_replies := remove1 (v, r) (el_replies el),
                                                        el_results := (v, False) # el_results el\<rparr>) s)
                    | None \<Rightarrow> None)
      else None)"

definition finish :: "nat \<Rightarrow> Cluster \<Rightarrow> Cluster option" where
  "finish k s =
     (if k < length (elections s) \<and> el_pending (elections s ! k) = [] \<and> el_replies (elections s ! k) = []
      then let el = elections s ! k; c = el_cand el
           in case jm_get (nodes s) c of None \<Rightarrow> None
           | Some n \<Rightarrow>
               let n' = fst (finishElection (el_needed el) (map snd (el_results el)) n);
                   s1 = (setNode c n' s)\<lparr>elections := take k (elections s) @ drop (Suc k) (elections s)\<rparr>
               in Some (if state n \<noteq> Leader \<and> state n' = Leader
                        then s1\<lparr>elected := (c, currentTerm n') # elected s1\<rparr> else s1)
      else None)"

text \<open>
  One step. With \<open>overlap\<close>, as in the code, a node may start an election while an
  earlier one of its own is outstanding.
\<close>

fun cluster_exec :: "bool \<Rightarrow> ClusterAction \<Rightarrow> Cluster \<Rightarrow> Cluster option" where
  "cluster_exec overlap (Timeout i) s =
     (case jm_get (nodes s) i of None \<Rightarrow> None
      | Some n \<Rightarrow>
          if electionTimeout n \<and> running n \<and> state n \<noteq> Leader \<and> (overlap \<or> \<not> outstanding i s)
          then Some (campaign i (electionTimerFires n) s) else None)"
| "cluster_exec overlap (TimeoutNow i) s =
     (case jm_get (nodes s) i of None \<Rightarrow> None
      | Some n \<Rightarrow>
          if state n \<noteq> Leader \<and> \<not> c_nonVoting (config n) \<and> (overlap \<or> \<not> outstanding i s)
          then Some (let (n', _, msgs) = triggerImmediateElection n in campaign i (n', msgs) s) else None)"
| "cluster_exec overlap (DeliverRequest k v) s = deliverRequest k v s"
| "cluster_exec overlap (DeliverReply k v) s = deliverReply k v s"
| "cluster_exec overlap (Lose k v) s = lose k v s"
| "cluster_exec overlap (Finish k) s = finish k s"
| "cluster_exec overlap (Local i op) s =
     (case jm_get (nodes s) i of None \<Rightarrow> None
      | Some n \<Rightarrow> if local_op op then Some (setNode i (raft_op op n) s) else None)"

text \<open>The start: every member lists exactly the others as voting peers; no votes yet.\<close>

definition members :: "Cluster \<Rightarrow> nid list" where
  "members s = jm_keys (nodes s)"

definition knows :: "nid set \<Rightarrow> nid \<Rightarrow> RaftNode \<Rightarrow> bool" where
  "knows V i n \<longleftrightarrow> self n = i \<and> distinct (map p_nodeId (votingPeers n))
     \<and> set (map p_nodeId (votingPeers n)) = V - {i}"

definition cluster_init :: "Cluster \<Rightarrow> bool" where
  "cluster_init s \<longleftrightarrow> jm_wf (nodes s) \<and> elections s = [] \<and> ballots s = [] \<and> elected s = []
     \<and> list_all (\<lambda>(i, n). knows (set (members s)) i n \<and> state n \<noteq> Leader) (nodes s)"

section \<open>What one node may do between the events of an election\<close>

definition voterIds :: "RaftNode \<Rightarrow> nid list" where
  "voterIds n = map p_nodeId (votingPeers n)"

text \<open>Identity and voting peers stay, the term does not fall, a vote lasts its term.\<close>

definition evolves :: "RaftNode \<Rightarrow> RaftNode \<Rightarrow> bool" where
  "evolves n n' \<longleftrightarrow> self n' = self n \<and> voterIds n' = voterIds n \<and> currentTerm n \<le> currentTerm n'
     \<and> (currentTerm n' = currentTerm n \<longrightarrow> votedFor n = None \<or> votedFor n' = votedFor n)"

definition quiet :: "RaftNode \<Rightarrow> RaftNode \<Rightarrow> bool" where
  "quiet n n' \<longleftrightarrow> evolves n n'
     \<and> (state n' \<noteq> Follower \<longrightarrow> state n = state n' \<and> currentTerm n = currentTerm n')"

lemma voterIds_peers: "peers n' = peers n \<Longrightarrow> voterIds n' = voterIds n"
  by (simp add: voterIds_def votingPeers_def getPeers_def)

lemma voterIds_modify:
  assumes "\<And>p. p_nodeId (f p) = p_nodeId p \<and> votingMember (f p) = votingMember p"
  shows "voterIds (n\<lparr>peers := jm_modify k f (peers n)\<rparr>) = voterIds n"
proof -
  have "map p_nodeId (filter votingMember (jm_values (jm_modify k f m))) = map p_nodeId (filter votingMember (jm_values m))" for m
    by (induction m) (simp_all add: assms jm_values_def jm_modify_def case_prod_unfold)
  then show ?thesis by (simp add: voterIds_def votingPeers_def getPeers_def)
qed

lemma voterIds_map:
  assumes "\<And>p. p_nodeId (f p) = p_nodeId p \<and> votingMember (f p) = votingMember p"
  shows "voterIds (n\<lparr>peers := jm_map f (peers n)\<rparr>) = voterIds n"
proof -
  have "map p_nodeId (filter votingMember (jm_values (jm_map f m))) = map p_nodeId (filter votingMember (jm_values m))" for m
    by (induction m) (simp_all add: assms jm_values_def jm_map_def case_prod_unfold)
  then show ?thesis by (simp add: voterIds_def votingPeers_def getPeers_def)
qed

lemma knows_evolves: "knows V i n \<Longrightarrow> evolves n n' \<Longrightarrow> knows V i n'"
  by (simp add: knows_def evolves_def voterIds_def [symmetric])

lemma bound_to_evolves: "bound_to t c n \<Longrightarrow> evolves n n' \<Longrightarrow> bound_to t c n'"
  by (auto simp: bound_to_def evolves_def)

lemma evolvesI:
  assumes "config n' = config n" "peers n' = peers n" "currentTerm n \<le> currentTerm n'"
    "currentTerm n' = currentTerm n \<Longrightarrow> votedFor n = None \<or> votedFor n' = votedFor n"
  shows "evolves n n'"
  using assms voterIds_peers [OF assms(2)] by (simp add: evolves_def self_def)

lemma quiet_requestVote: "quiet n (fst (handleRequestVote q n))"
  by (auto simp: quiet_def handleRequestVote_def canVote_def Let_def intro!: evolvesI)

lemma quiet_voteReply: "quiet n (fst (onVoteReply r n))"
  by (auto simp: quiet_def onVoteReply_def intro!: evolvesI)

lemma handleAppendEntries_sel [simp]:
  "currentTerm (fst (handleAppendEntries now q n)) = max (currentTerm n) (aq_term q)"
  "votedFor (fst (handleAppendEntries now q n)) = (if aq_term q > currentTerm n then None else votedFor n)"
  "state (fst (handleAppendEntries now q n)) = (if aq_term q > currentTerm n then Follower else state n)"
  "peers (fst (handleAppendEntries now q n)) = peers n" "config (fst (handleAppendEntries now q n)) = config n"
  by (simp_all add: handleAppendEntries_def Let_def)

lemma quiet_appendEntries: "quiet n (fst (handleAppendEntries now q n))"
  by (auto simp: quiet_def max_def split: if_splits intro!: evolvesI)

lemma quiet_appendReply: "quiet n (onAppendReply i ob r n)"
proof (cases "ar_term r > currentTerm n")
  case True
  then show ?thesis by (auto simp: quiet_def onAppendReply_def intro!: evolvesI)
next
  case False
  then show ?thesis by (auto simp: quiet_def onAppendReply_def evolves_def self_def captured_def voterIds_modify)
qed

lemma quiet_updateCommitIndex: "quiet n (updateCommitIndex n)"
  using updateCommitIndex_cases [of n] by (auto simp: quiet_def intro!: evolvesI)

lemma quiet_local: "local_op op \<Longrightarrow> quiet n (raft_op op n)"
proof (cases op)
  case (OpAppendEntries now q)
  then show "local_op op \<Longrightarrow> ?thesis" by (simp add: quiet_appendEntries)
next
  case (OpAppendReply i ob r)
  then show "local_op op \<Longrightarrow> ?thesis" by (simp add: quiet_appendReply)
next
  case OpUpdateCommitIndex
  then show "local_op op \<Longrightarrow> ?thesis" by (simp add: quiet_updateCommitIndex)
qed (auto simp: raft_op_defs Let_def quiet_def intro!: evolvesI)

text \<open>An activation of \<open>startElection\<close>: a fresh term, voted for by the candidate itself.\<close>

definition campaigns :: "RaftNode \<Rightarrow> RaftNode \<times> (nid \<times> VoteRequest) list \<Rightarrow> bool" where
  "campaigns n res \<longleftrightarrow> (let (n', msgs) = res in evolves n n' \<and> currentTerm n' = currentTerm n + 1
     \<and> state n' = Candidate \<and> votedFor n' = Some (self n) \<and> map fst msgs = voterIds n')"

lemma campaigns_timer: "running n \<Longrightarrow> state n \<noteq> Leader \<Longrightarrow> campaigns n (electionTimerFires n)"
  by (auto simp: campaigns_def electionTimerFires_def becomeCandidate_def startElection_def Let_def self_def
      voterIds_def comp_def intro!: evolvesI)

lemma campaigns_trigger:
  "state n \<noteq> Leader \<Longrightarrow> \<not> c_nonVoting (config n) \<Longrightarrow> triggerImmediateElection n = (n', b, msgs) \<Longrightarrow> campaigns n (n', msgs)"
  by (auto simp: campaigns_def triggerImmediateElection_def clearElectionTimeout_def startElection_def Let_def self_def
      voterIds_def comp_def intro!: evolvesI)

section \<open>The invariant behind election safety\<close>

definition cast :: "Cluster \<Rightarrow> (nid \<times> int \<times> nid) set" where
  "cast s = set (ballots s)"

text \<open>Every vote counted in an election in progress has been cast, for its own term.\<close>

definition election_ok :: "nid set \<Rightarrow> (nid \<times> int \<times> nid) set \<Rightarrow> (nid \<Rightarrow> RaftNode option) \<Rightarrow> Election \<Rightarrow> bool" where
  "election_ok V B node el \<longleftrightarrow>
     (let c = el_cand el; t = vq_term (el_request el);
          asked = el_pending el @ map fst (el_replies el) @ map fst (el_results el)
      in c \<in> V \<and> vq_candidateId (el_request el) = c \<and> el_needed el = majority (card V) \<and> (c, t, c) \<in> B
         \<and> distinct asked \<and> set asked \<subseteq> V - {c}
         \<and> (\<forall>(v, r)\<in>set (el_replies el). voteGranted r \<longrightarrow> (v, t, c) \<in> B)
         \<and> (\<forall>(v, ok)\<in>set (el_results el). ok \<longrightarrow> (v, t, c) \<in> B)
         \<and> (\<forall>n. node c = Some n \<longrightarrow> state n = Candidate \<longrightarrow> currentTerm n = t))"

definition nodes_ok :: "nid set \<Rightarrow> Cluster \<Rightarrow> bool" where
  "nodes_ok V s \<longleftrightarrow> finite V \<and> set (members s) = V
     \<and> (\<forall>i n. jm_get (nodes s) i = Some n \<longrightarrow> knows V i n
          \<and> (state n = Leader \<longrightarrow> (i, currentTerm n) \<in> set (elected s)))"

definition ballots_ok :: "Cluster \<Rightarrow> bool" where
  "ballots_ok s \<longleftrightarrow>
     (\<forall>v t c. (v, t, c) \<in> cast s \<longrightarrow> (\<exists>n. jm_get (nodes s) v = Some n \<and> bound_to t c n))
   \<and> (\<forall>v t c c'. (v, t, c) \<in> cast s \<longrightarrow> (v, t, c') \<in> cast s \<longrightarrow> c = c')"

definition elected_ok :: "nid set \<Rightarrow> Cluster \<Rightarrow> bool" where
  "elected_ok V s \<longleftrightarrow> (\<forall>c t. (c, t) \<in> set (elected s) \<longrightarrow> (\<exists>Q. is_majority V Q \<and> (\<forall>v\<in>Q. (v, t, c) \<in> cast s)))"

definition cluster_inv :: "nid set \<Rightarrow> Cluster \<Rightarrow> bool" where
  "cluster_inv V s \<longleftrightarrow> nodes_ok V s \<and> ballots_ok s \<and> elected_ok V s
     \<and> (\<forall>el\<in>set (elections s). election_ok V (cast s) (jm_get (nodes s)) el)"

lemmas inv_defs = cluster_inv_def nodes_ok_def ballots_ok_def elected_ok_def cast_def

lemma inv_parts:
  assumes "cluster_inv V s"
  shows "nodes_ok V s" "ballots_ok s" "elected_ok V s"
    "el \<in> set (elections s) \<Longrightarrow> election_ok V (cast s) (jm_get (nodes s)) el"
  using assms by (simp_all add: cluster_inv_def)

lemma inv_nodeD:
  assumes "cluster_inv V s" and "jm_get (nodes s) i = Some n"
  shows "knows V i n" and "state n = Leader \<Longrightarrow> (i, currentTerm n) \<in> set (elected s)" and "i \<in> V"
  using assms jm.keys_get [of i "nodes s"] by (auto simp: cluster_inv_def nodes_ok_def members_def)

lemma inv_ballotD:
  assumes "cluster_inv V s" and "(v, t, c) \<in> cast s"
  shows "\<exists>n. jm_get (nodes s) v = Some n \<and> bound_to t c n" and "(v, t, c') \<in> cast s \<Longrightarrow> c = c'"
  using assms unfolding cluster_inv_def ballots_ok_def by blast+

lemma setNode_sel [simp]:
  "jm_get (nodes (setNode i n s)) = (jm_get (nodes s))(i := Some n)"
  "elections (setNode i n s) = elections s" "ballots (setNode i n s) = ballots s" "elected (setNode i n s) = elected s"
  by (auto simp: setNode_def)

lemma members_setNode: "jm_get (nodes s) i = Some n \<Longrightarrow> set (members (setNode i n' s)) = set (members s)"
  by (auto simp: members_def setNode_def jm.keys_put jm.keys_get)

lemma election_ok_mono:
  assumes "election_ok V B node el" and "B \<subseteq> B'"
    and "\<And>n'. node' (el_cand el) = Some n' \<Longrightarrow> state n' = Candidate \<Longrightarrow>
           \<exists>n. node (el_cand el) = Some n \<and> state n = Candidate \<and> currentTerm n = currentTerm n'"
  shows "election_ok V B' node' el"
  using assms unfolding election_ok_def Let_def by (fastforce dest: subsetD)

lemma elected_ok_mono:
  assumes "elected_ok V s" and "cast s \<subseteq> cast s'" and "elected s' = elected s"
  shows "elected_ok V s'"
  unfolding elected_ok_def
proof (intro allI impI)
  fix c t assume "(c, t) \<in> set (elected s')"
  then obtain Q where "is_majority V Q" "\<forall>v\<in>Q. (v, t, c) \<in> cast s"
    using assms(1,3) unfolding elected_ok_def by metis
  then show "\<exists>Q. is_majority V Q \<and> (\<forall>v\<in>Q. (v, t, c) \<in> cast s')" using assms(2) by blast
qed

lemma inv_quiet:
  assumes inv: "cluster_inv V s" and n: "jm_get (nodes s) i = Some n" and q: "quiet n n'"
  shows "cluster_inv V (setNode i n' s)"
proof -
  have ev: "evolves n n'" using q by (simp add: quiet_def)
  have "nodes_ok V (setNode i n' s)"
    using inv q members_setNode [OF n] knows_evolves [OF inv_nodeD(1) [OF inv n] ev] inv_nodeD(2) [OF inv n]
    by (auto simp: cluster_inv_def nodes_ok_def quiet_def)
  moreover have "ballots_ok (setNode i n' s)"
    using inv n bound_to_evolves [OF _ ev] by (fastforce simp: inv_defs)
  moreover have "elected_ok V (setNode i n' s)" using inv by (simp add: inv_defs)
  moreover have "election_ok V (cast (setNode i n' s)) (jm_get (nodes (setNode i n' s))) el"
    if "el \<in> set (elections s)" for el
  proof (rule election_ok_mono)
    show "election_ok V (cast s) (jm_get (nodes s)) el" using inv that by (simp add: cluster_inv_def)
  qed (use n q in \<open>auto simp: quiet_def cast_def split: if_splits\<close>)
  ultimately show ?thesis by (simp add: cluster_inv_def)
qed

lemma inv_update_election:
  assumes "cluster_inv V s" and "election_ok V (cast s) (jm_get (nodes s)) el"
  shows "cluster_inv V (replaceNth k el s)"
  using assms set_update_subset_insert [of "elections s" k el]
  by (auto simp: inv_defs replaceNth_def members_def)

text \<open>A vote of the voter's current term for the candidate it is bound to.\<close>

lemma inv_ballot:
  assumes inv: "cluster_inv V s" and n: "jm_get (nodes s) v = Some n"
    and vote: "currentTerm n = t" "votedFor n = Some c"
  shows "cluster_inv V (s\<lparr>ballots := (v, t, c) # ballots s\<rparr>)"
proof -
  let ?s = "s\<lparr>ballots := (v, t, c) # ballots s\<rparr>"
  have cast: "x \<in> cast ?s \<longleftrightarrow> x = (v, t, c) \<or> x \<in> cast s" for x by (simp add: cast_def)
  have b: "bound_to t c n" using vote by (simp add: bound_to_def)
  have same: "c' = c" if "(v, t, c') \<in> cast s" for c'
    using inv_ballotD(1) [OF inv that] n vote by (auto simp: bound_to_def)
  have "\<exists>m. jm_get (nodes ?s) v' = Some m \<and> bound_to t' c' m" if "(v', t', c') \<in> cast ?s" for v' t' c'
  proof (cases "(v', t', c') = (v, t, c)")
    case True
    with n b show ?thesis by simp
  next
    case False
    with that have "(v', t', c') \<in> cast s" unfolding cast by blast
    from inv_ballotD(1) [OF inv this] show ?thesis by simp
  qed
  moreover have "c1 = c2" if "(v', t', c1) \<in> cast ?s" "(v', t', c2) \<in> cast ?s" for v' t' c1 c2
    using that same inv_ballotD(2) [OF inv, of v' t' c1 c2] unfolding cast prod.inject by blast
  ultimately have "ballots_ok ?s" unfolding ballots_ok_def by blast
  moreover have "elected_ok V (s\<lparr>ballots := (v, t, c) # ballots s\<rparr>)"
    by (rule elected_ok_mono [OF inv_parts(3) [OF inv]]) (auto simp: cast_def)
  moreover have "election_ok V (cast (s\<lparr>ballots := (v, t, c) # ballots s\<rparr>)) (jm_get (nodes s)) el"
    if "el \<in> set (elections s)" for el
    by (rule election_ok_mono [OF inv_parts(4) [OF inv that]]) (auto simp: cast_def)
  ultimately show ?thesis using inv by (auto simp: cluster_inv_def nodes_ok_def members_def)
qed

section \<open>Every step keeps the invariant\<close>

lemma inv_campaign:
  assumes inv: "cluster_inv V s" and n: "jm_get (nodes s) i = Some n"
    and alone: "\<not> outstanding i s" and c: "campaigns n (n', msgs)"
  shows "cluster_inv V (campaign i (n', msgs) s)"
proof -
  let ?s1 = "setNode i n' s"
  let ?s2 = "?s1\<lparr>ballots := (i, currentTerm n', i) # ballots s\<rparr>"
  have k: "knows V i n'" using c knows_evolves [OF inv_nodeD(1) [OF inv n]] by (simp add: campaigns_def)
  have st: "state n' = Candidate" "votedFor n' = Some i" "map fst msgs = voterIds n'" and ev: "evolves n n'"
    using c inv_nodeD(1) [OF inv n] by (auto simp: campaigns_def knows_def)
  have "nodes_ok V ?s1"
    using inv k st members_setNode [OF n] by (auto simp: cluster_inv_def nodes_ok_def)
  moreover have "ballots_ok ?s1"
    using inv n bound_to_evolves [OF _ ev] by (fastforce simp: cluster_inv_def ballots_ok_def cast_def)
  moreover have "election_ok V (cast ?s1) (jm_get (nodes ?s1)) el" if "el \<in> set (elections s)" for el
  proof (rule election_ok_mono)
    show "election_ok V (cast s) (jm_get (nodes s)) el" using inv that by (simp add: cluster_inv_def)
    have "el_cand el \<noteq> i" using alone that by (auto simp: outstanding_def list_ex_iff)
    then show "jm_get (nodes ?s1) (el_cand el) = Some m \<Longrightarrow> state m = Candidate \<Longrightarrow>
        \<exists>n. jm_get (nodes s) (el_cand el) = Some n \<and> state n = Candidate \<and> currentTerm n = currentTerm m" for m
      by simp
  qed (simp add: cast_def)
  moreover have "elected_ok V ?s1" using inv by (simp add: cluster_inv_def elected_ok_def cast_def)
  ultimately have "cluster_inv V ?s1" by (simp add: cluster_inv_def)
  then have i2: "cluster_inv V ?s2" using inv_ballot [of V ?s1 i n'] st by simp
  define el where "el = \<lparr>el_cand = i, el_request = voteRequest n', el_needed = votesNeeded n',
    el_pending = map fst msgs, el_replies = [], el_results = []\<rparr>"
  have fin: "finite V" using inv by (simp add: cluster_inv_def nodes_ok_def)
  have ids: "distinct (voterIds n')" "set (voterIds n') = V - {i}" "self n' = i"
    using k by (simp_all add: knows_def voterIds_def)
  have "length (voterIds n') = card V - 1"
    using distinct_card [OF ids(1)] ids(2) inv_nodeD(3) [OF inv n] fin by simp
  then have "Suc (length (votingPeers n')) = card V"
    using inv_nodeD(3) [OF inv n] fin by (simp add: voterIds_def) (metis Suc_pred card_gt_0_iff empty_iff)
  then have "election_ok V (cast ?s2) (jm_get (nodes ?s2)) el"
    using ids st inv_nodeD(3) [OF inv n]
    by (simp add: election_ok_def Let_def el_def voteRequest_def votesNeeded_def majority_def cast_def)
  then have "cluster_inv V (?s2\<lparr>elections := elections s @ [el]\<rparr>)"
    using i2 by (auto simp: cluster_inv_def nodes_ok_def ballots_ok_def elected_ok_def cast_def members_def)
  then show ?thesis by (simp add: campaign_def el_def)
qed

lemma inv_deliverRequest:
  assumes inv: "cluster_inv V s" and step: "deliverRequest k v s = Some s'"
  shows "cluster_inv V s'"
proof -
  obtain n where k: "k < length (elections s)" and v: "v \<in> set (el_pending (elections s ! k))"
    and n: "jm_get (nodes s) v = Some n"
    using step by (auto simp: deliverRequest_def split: if_splits option.splits)
  define el where "el = elections s ! k"
  define n' where "n' = fst (handleRequestVote (el_request el) n)"
  define r where "r = snd (handleRequestVote (el_request el) n)"
  define el' where "el' = el\<lparr>el_pending := remove1 v (el_pending el), el_replies := (v, r) # el_replies el\<rparr>"
  define t where "t = vq_term (el_request el)"
  let ?s1 = "setNode v n' s"
  define s2 where "s2 = (if voteGranted r then ?s1\<lparr>ballots := (v, t, el_cand el) # ballots s\<rparr> else ?s1)"
  have s': "s' = replaceNth k el' s2"
    using step k v n by (auto simp: deliverRequest_def Let_def el'_def el_def n'_def r_def s2_def t_def replaceNth_def case_prod_unfold)
  have i1: "cluster_inv V ?s1" by (rule inv_quiet [OF inv n]) (simp add: n'_def quiet_requestVote)
  have el: "election_ok V (cast ?s1) (jm_get (nodes ?s1)) el"
    using i1 nth_mem [OF k] by (simp add: cluster_inv_def el_def)
  have g: "currentTerm n' = t \<and> votedFor n' = Some (el_cand el)" if "voteGranted r"
  proof -
    have "vq_candidateId (el_request el) = el_cand el" using el by (simp add: election_ok_def Let_def)
    with that show ?thesis
      by (auto simp: n'_def r_def t_def handleRequestVote_def Let_def split: if_splits)
  qed
  have i2: "cluster_inv V s2" using inv_ballot [OF i1, of v n'] g i1 by (simp add: s2_def)
  have sub: "cast ?s1 \<subseteq> cast s2" "nodes s2 = nodes ?s1" and new: "voteGranted r \<Longrightarrow> (v, t, el_cand el) \<in> cast s2"
    by (auto simp: s2_def cast_def)
  have "election_ok V (cast s2) (jm_get (nodes s2)) el"
    using el sub by (intro election_ok_mono [OF el]) auto
  then have "election_ok V (cast s2) (jm_get (nodes s2)) el'"
    using v new unfolding el_def [symmetric]
    by (auto simp: election_ok_def Let_def el'_def t_def distinct_remove1 set_remove1_eq)
  then show ?thesis unfolding s' by (rule inv_update_election [OF i2])
qed

text \<open>Moving one voter of an election from the replies, or the requests, to the results.\<close>

lemma map_fst_remove1:
  "distinct (map fst xs) \<Longrightarrow> (v, r) \<in> set xs \<Longrightarrow> map fst (remove1 (v, r) xs) = remove1 v (map fst xs)"
  by (induction xs) force+

lemma move_asked:
  assumes "distinct (P @ R @ S)" and "v \<in> set R"
  shows "distinct (P @ remove1 v R @ v # S)" and "set (P @ remove1 v R @ v # S) = set (P @ R @ S)"
  using assms by (auto simp: set_remove1_eq)

lemma election_ok_result:
  assumes el: "election_ok V B node el" and r: "map_of (el_replies el) v = Some r"
    and ok: "ok \<Longrightarrow> voteGranted r"
  shows "election_ok V B node (el\<lparr>el_replies := remove1 (v, r) (el_replies el), el_results := (v, ok) # el_results el\<rparr>)"
proof -
  have mem: "(v, r) \<in> set (el_replies el)" using r by (rule map_of_SomeD)
  have d: "distinct (map fst (el_replies el))" using el by (simp add: election_ok_def Let_def)
  have keys: "map fst (remove1 (v, r) (el_replies el)) = remove1 v (map fst (el_replies el))"
    by (rule map_fst_remove1 [OF d mem])
  have rep: "\<forall>(u, r')\<in>set (el_replies el). voteGranted r' \<longrightarrow> (u, vq_term (el_request el), el_cand el) \<in> B"
    using el by (simp add: election_ok_def Let_def)
  then have g: "ok \<longrightarrow> (v, vq_term (el_request el), el_cand el) \<in> B" using ok mem by blast
  have rep': "\<forall>(u, r')\<in>set (remove1 (v, r) (el_replies el)). voteGranted r' \<longrightarrow> (u, vq_term (el_request el), el_cand el) \<in> B"
    using rep set_remove1_subset [of "(v, r)" "el_replies el"] by blast
  have asked: "v \<in> set (map fst (el_replies el))" using mem by force
  have "distinct (el_pending el @ map fst (el_replies el) @ map fst (el_results el))"
    using el by (simp add: election_ok_def Let_def)
  from move_asked [OF this asked] show ?thesis
    using el g rep' unfolding election_ok_def Let_def by (simp add: keys)
qed

lemma inv_deliverReply:
  assumes inv: "cluster_inv V s" and step: "deliverReply k v s = Some s'"
  shows "cluster_inv V s'"
proof -
  define el where "el = elections s ! k"
  obtain r n where k: "k < length (elections s)" and r: "map_of (el_replies el) v = Some r"
    and n: "jm_get (nodes s) (el_cand el) = Some n"
    using step by (auto simp: deliverReply_def Let_def el_def split: if_splits option.splits)
  let ?n' = "fst (onVoteReply r n)" and ?ok = "snd (onVoteReply r n)"
  have s': "s' = replaceNth k (el\<lparr>el_replies := remove1 (v, r) (el_replies el),
      el_results := (v, ?ok) # el_results el\<rparr>) (setNode (el_cand el) ?n' s)"
    using step k r n by (simp add: deliverReply_def Let_def el_def case_prod_unfold)
  have i1: "cluster_inv V (setNode (el_cand el) ?n' s)"
    by (rule inv_quiet [OF inv n quiet_voteReply])
  then have "election_ok V (cast (setNode (el_cand el) ?n' s)) (jm_get (nodes (setNode (el_cand el) ?n' s))) el"
    by (rule inv_parts(4)) (simp add: el_def k)
  then show ?thesis
    unfolding s' by (intro inv_update_election [OF i1] election_ok_result)
      (use r in \<open>auto simp: onVoteReply_def split: if_splits\<close>)
qed

lemma inv_lose:
  assumes inv: "cluster_inv V s" and step: "lose k v s = Some s'"
  shows "cluster_inv V s'"
proof -
  define el where "el = elections s ! k"
  have k: "k < length (elections s)" using step by (simp add: lose_def split: if_splits)
  then have el: "election_ok V (cast s) (jm_get (nodes s)) el" using inv nth_mem inv_parts(4) el_def by metis
  show ?thesis
  proof (cases "v \<in> set (el_pending el)")
    case True
    then have s': "s' = replaceNth k (el\<lparr>el_pending := remove1 v (el_pending el), el_results := (v, False) # el_results el\<rparr>) s"
      using step k by (simp add: lose_def Let_def el_def)
    show ?thesis unfolding s' using el True
      by (intro inv_update_election [OF inv]) (auto simp: election_ok_def Let_def)
  next
    case False
    then obtain r where r: "map_of (el_replies el) v = Some r"
      and s': "s' = replaceNth k (el\<lparr>el_replies := remove1 (v, r) (el_replies el), el_results := (v, False) # el_results el\<rparr>) s"
      using step k by (auto simp: lose_def Let_def el_def split: option.splits)
    show ?thesis unfolding s' by (intro inv_update_election [OF inv] election_ok_result [OF el r]) simp
  qed
qed

text \<open>The winners of the counted votes and the candidate are a majority that voted for it.\<close>

lemma election_won:
  assumes el: "election_ok V B node el" and fin: "finite V"
    and won: "el_needed el \<le> 1 + length (filter id (map snd (el_results el)))"
  shows "\<exists>Q. is_majority V Q \<and> (\<forall>v\<in>Q. (v, vq_term (el_request el), el_cand el) \<in> B)"
proof -
  let ?yes = "map fst (filter snd (el_results el))"
  have d: "distinct ?yes" "set ?yes \<subseteq> V - {el_cand el}"
    using el by (auto simp: election_ok_def Let_def distinct_map_filter)
  have len: "length (filter id (map snd (el_results el))) = length ?yes"
    by (simp add: filter_map comp_def)
  have "card (insert (el_cand el) (set ?yes)) = 1 + length ?yes"
    using d distinct_card [OF d(1)] by (subst card_insert_disjoint) auto
  moreover have "el_needed el = majority (card V)" "el_cand el \<in> V"
    using el by (simp_all add: election_ok_def Let_def)
  ultimately have "is_majority V (insert (el_cand el) (set ?yes))"
    using won len d(2) fin by (auto simp: is_majority_def)
  moreover have "\<forall>v\<in>insert (el_cand el) (set ?yes). (v, vq_term (el_request el), el_cand el) \<in> B"
    using el by (auto simp: election_ok_def Let_def)
  ultimately show ?thesis by blast
qed

lemma finishElection_cases:
  "fst (finishElection k rs n) = n \<or>
   (state n = Candidate \<and> k \<le> 1 + length (filter id rs) \<and> state (fst (finishElection k rs n)) = Leader
     \<and> evolves n (fst (finishElection k rs n)) \<and> currentTerm (fst (finishElection k rs n)) = currentTerm n)"
proof -
  have "voterIds (clearTimers (n\<lparr>state := Leader, leaderId := Some (self n)\<rparr>)) = voterIds n"
    by (rule voterIds_peers) simp
  moreover have "voterIds (m\<lparr>peers := jm_map (\<lambda>p. p\<lparr>nextIndex := x, matchIndex := 0\<rparr>) (peers m)\<rparr>) = voterIds m" for m x
    by (rule voterIds_map) simp
  moreover have "evolves n m" if "m = fst (becomeLeader n)" for m
    unfolding evolves_def that becomeLeader_def
    by (simp add: Let_def appendEntry_def case_prod_unfold self_def voterIds_def votingPeers_def getPeers_def
        jm_values_def jm_map_def filter_map comp_def)
  ultimately show ?thesis
    by (auto simp: finishElection_def becomeLeader_def Let_def appendEntry_def)
qed

lemma inv_elect:
  assumes inv: "cluster_inv V s" and n: "jm_get (nodes s) c = Some n"
    and ev: "evolves n n'" "state n' = Leader" "currentTerm n' = currentTerm n"
    and won: "is_majority V Q" "\<forall>v\<in>Q. (v, currentTerm n, c) \<in> cast s"
  shows "cluster_inv V ((setNode c n' s)\<lparr>elected := (c, currentTerm n') # elected s\<rparr>)"
proof -
  let ?s1 = "setNode c n' s" let ?s2 = "?s1\<lparr>elected := (c, currentTerm n') # elected s\<rparr>"
  have b: "cast ?s2 = cast s" by (simp add: cast_def)
  have m: "members ?s2 = members ?s1" by (simp add: members_def)
  have "nodes_ok V ?s2"
    using inv_parts(1) [OF inv] members_setNode [OF n] knows_evolves [OF inv_nodeD(1) [OF inv n] ev(1)]
    unfolding nodes_ok_def m by auto
  moreover have "ballots_ok ?s2"
    using inv_parts(2) [OF inv] n bound_to_evolves [OF _ ev(1)] unfolding ballots_ok_def b by fastforce
  moreover have "elected_ok V ?s2"
    using inv_parts(3) [OF inv] won ev(3) unfolding elected_ok_def b by auto
  moreover have "election_ok V (cast ?s2) (jm_get (nodes ?s2)) el" if "el \<in> set (elections s)" for el
    by (rule election_ok_mono [OF inv_parts(4) [OF inv that]]) (use n ev in \<open>auto simp: cast_def split: if_splits\<close>)
  ultimately show ?thesis by (simp add: cluster_inv_def)
qed

lemma inv_drop_elections:
  assumes "cluster_inv V s" and "set es \<subseteq> set (elections s)"
  shows "cluster_inv V (s\<lparr>elections := es\<rparr>)"
  using assms by (auto simp: cluster_inv_def nodes_ok_def ballots_ok_def elected_ok_def cast_def members_def)

lemma inv_finish:
  assumes inv: "cluster_inv V s" and step: "finish k s = Some s'"
  shows "cluster_inv V s'"
proof -
  define el where "el = elections s ! k"
  define c where "c = el_cand el"
  obtain n where k: "k < length (elections s)" and n: "jm_get (nodes s) c = Some n"
    using step by (auto simp: finish_def Let_def el_def c_def split: if_splits option.splits)
  define n' where "n' = fst (finishElection (el_needed el) (map snd (el_results el)) n)"
  define es where "es = take k (elections s) @ drop (Suc k) (elections s)"
  define s2 where "s2 = (if state n \<noteq> Leader \<and> state n' = Leader
    then (setNode c n' s)\<lparr>elected := (c, currentTerm n') # elected s\<rparr> else setNode c n' s)"
  have s': "s' = s2\<lparr>elections := es\<rparr>"
    using step k n by (auto simp: finish_def Let_def el_def c_def n'_def s2_def es_def setNode_def split: if_splits)
  have el: "election_ok V (cast s) (jm_get (nodes s)) el" using inv_parts(4) [OF inv] k by (simp add: el_def)
  have "cluster_inv V s2"
  proof (cases "n' = n")
    case True
    have "quiet n n" by (simp add: quiet_def evolves_def)
    then show ?thesis using inv_quiet [OF inv n] True by (simp add: s2_def)
  next
    case False
    then have w: "state n = Candidate" "el_needed el \<le> 1 + length (filter id (map snd (el_results el)))"
      "state n' = Leader" "evolves n n'" "currentTerm n' = currentTerm n"
      using finishElection_cases [of "el_needed el" "map snd (el_results el)" n] by (auto simp: n'_def)
    have "currentTerm n = vq_term (el_request el)"
      using el n w(1) by (auto simp: election_ok_def Let_def c_def)
    moreover have "finite V" using inv_parts(1) [OF inv] by (simp add: nodes_ok_def)
    ultimately obtain Q where "is_majority V Q" "\<forall>v\<in>Q. (v, currentTerm n, c) \<in> cast s"
      using election_won [OF el _ w(2)] by (auto simp: c_def)
    from inv_elect [OF inv n w(4,3,5) this] show ?thesis using w by (simp add: s2_def)
  qed
  moreover have "set es \<subseteq> set (elections s2)"
    using set_take_subset [of k "elections s"] set_drop_subset [of "Suc k" "elections s"] by (auto simp: s2_def es_def)
  ultimately show ?thesis unfolding s' by (rule inv_drop_elections)
qed

lemma inv_exec: "cluster_inv V s \<Longrightarrow> cluster_exec False a s = Some s' \<Longrightarrow> cluster_inv V s'"
proof (cases a)
  case (Timeout i)
  then show "cluster_inv V s \<Longrightarrow> cluster_exec False a s = Some s' \<Longrightarrow> ?thesis"
    using campaigns_timer inv_campaign by (auto split: option.splits if_splits) (metis surjective_pairing)
next
  case (TimeoutNow i)
  then show "cluster_inv V s \<Longrightarrow> cluster_exec False a s = Some s' \<Longrightarrow> ?thesis"
    using campaigns_trigger inv_campaign by (auto split: option.splits if_splits prod.splits)
next
  case (Local i op)
  then show "cluster_inv V s \<Longrightarrow> cluster_exec False a s = Some s' \<Longrightarrow> ?thesis"
    using quiet_local inv_quiet by (auto split: option.splits if_splits)
qed (auto intro: inv_deliverRequest inv_deliverReply inv_lose inv_finish)

interpretation cluster: invariant_of "cluster_exec False" "cluster_inv V" for V
  by unfold_locales (rule inv_exec)

lemma inv_init: "cluster_init s \<Longrightarrow> cluster_inv (set (members s)) s"
  unfolding cluster_init_def cluster_inv_def nodes_ok_def ballots_ok_def elected_ok_def cast_def list_all_iff jm_get_def
  by (auto dest!: map_of_SomeD)

section \<open>Election safety\<close>

text \<open>
  C1. Election safety, for a cluster whose membership does not change, whose nodes are not
  restarted, do not step down on request, and start no election while an earlier one of
  their own waits for replies: from a start in which every member knows exactly the
  others as voting peers, and under every interleaving of timeouts, vote requests, their
  replies and losses, AppendEntries messages and replies and the other operations of a
  node, two members that both lead in the same term are the same. The exclusions are
  needed: a restart or a \<open>stepDown\<close> forgets the vote, and overlapping elections count old
  votes.
\<close>

theorem election_safety:
  assumes init: "cluster_init s0" and run: "run (cluster_exec False) as s0 = Some s"
    and l1: "jm_get (nodes s) i = Some n" "state n = Leader"
    and l2: "jm_get (nodes s) j = Some m" "state m = Leader"
    and same: "currentTerm n = currentTerm m"
  shows "i = j"
proof -
  let ?V = "set (members s0)"
  have inv: "cluster_inv ?V s" by (rule cluster.run_inv [OF inv_init [OF init] run])
  have "(i, currentTerm n) \<in> set (elected s)" "(j, currentTerm n) \<in> set (elected s)"
    using inv_nodeD(2) [OF inv l1] inv_nodeD(2) [OF inv l2] same by simp_all
  then obtain P Q where "is_majority ?V P" "\<forall>v\<in>P. (v, currentTerm n, i) \<in> cast s"
    and "is_majority ?V Q" "\<forall>v\<in>Q. (v, currentTerm n, j) \<in> cast s"
    using inv_parts(3) [OF inv] unfolding elected_ok_def by metis
  then show ?thesis using majorities.unique_winner inv_ballotD(2) [OF inv] by metis
qed

definition ex_member :: "nid list \<Rightarrow> nid \<Rightarrow> RaftNode" where
  "ex_member V i = start (foldr (\<lambda>j. addPeer j '''' True) V (ex_node i))"

definition ex_cluster :: Cluster where
  "ex_cluster = \<lparr>nodes = map (\<lambda>i. (i, ex_member [''a'', ''b'', ''c''] i)) [''a'', ''b'', ''c''],
     elections = [], ballots = [], elected = []\<rparr>"

definition leaders :: "Cluster option \<Rightarrow> (nid \<times> int) list" where
  "leaders s = (case s of None \<Rightarrow> []
     | Some c \<Rightarrow> map (\<lambda>(i, n). (i, currentTerm n)) (filter (\<lambda>(i, n). isLeader n) (nodes c)))"

definition ex_election :: "ClusterAction list" where
  "ex_election = [Timeout ''a'', DeliverRequest 0 ''b'', DeliverReply 0 ''b'', Lose 0 ''c'', Finish 0]"

lemma ex_cluster_init: "cluster_init ex_cluster"
  by code_simp

theorem election_safety_witness:
  "\<exists>s n. run (cluster_exec False) ex_election ex_cluster = Some s \<and> jm_get (nodes s) ''a'' = Some n \<and> state n = Leader
     \<and> (\<forall>j m. jm_get (nodes s) j = Some m \<and> state m = Leader \<and> currentTerm n = currentTerm m \<longrightarrow> ''a'' = j)"
proof -
  have "map_option (\<lambda>s. map_option state (jm_get (nodes s) ''a'')) (run (cluster_exec False) ex_election ex_cluster)
      = Some (Some Leader)"
    by code_simp
  then obtain s n where s: "run (cluster_exec False) ex_election ex_cluster = Some s"
    and n: "jm_get (nodes s) ''a'' = Some n" "state n = Leader"
    by auto
  show ?thesis using election_safety [OF ex_cluster_init s n] s n by blast
qed

definition ex_overlap :: "ClusterAction list" where
  "ex_overlap = [Timeout ''a'', DeliverRequest 0 ''b'', Timeout ''a'',
     Timeout ''c'', Timeout ''c'', DeliverRequest 3 ''b'', DeliverReply 3 ''b'', Lose 3 ''a'', Finish 3,
     DeliverReply 0 ''b'', Lose 0 ''c'', Finish 0]"

text \<open>
  Without the condition on elections, as the code runs, two members can lead one term: the
  election timer of a candidate fires while its first election still waits for a
  reply, the late votes of the first term then make it leader of the second, and
  another member has won the second term with real votes.
\<close>

theorem overlapping_elections_two_leaders:
  "cluster_init ex_cluster
   \<and> leaders (run (cluster_exec True) ex_overlap ex_cluster) = [(''a'', 2), (''c'', 2)]"
proof
  show "leaders (run (cluster_exec True) ex_overlap ex_cluster) = [(''a'', 2), (''c'', 2)]" by code_simp
qed (rule ex_cluster_init)

end
