(* ===== verification/RaftReplication.thy ===== *)
theory RaftReplication
  imports RaftSafety
begin

text \<open>
  Replication between a leader and one follower as a loop of rounds: the back-off of
  \<open>nextIndex\<close> ends with an accepted request. Also the names of the entry types on the
  wire, which the receiving handler turns back, and what a capped batch can do to a
  follower with a stale tail.
\<close>

section \<open>The back-off of \<open>nextIndex\<close>\<close>

text \<open>
  Rounds of \<open>replicateToPeer\<close>, the follower's handler and the leader's treatment of
  the reply, until a request is accepted; \<open>None\<close> when the rounds run out.
\<close>

fun catchUp :: "nat \<Rightarrow> int \<Rightarrow> nid \<Rightarrow> RaftNode \<Rightarrow> RaftNode \<Rightarrow> (RaftNode \<times> RaftNode) option" where
  "catchUp 0 now i l f = None"
| "catchUp (Suc k) now i l f =
     (case jm_get (peers l) i of None \<Rightarrow> None
      | Some p \<Rightarrow>
          let (f', r) = handleAppendEntries now (replicateToPeer l p) f; l' = onAppendReply i (p_object p) r l
          in if ar_success r then Some (l', f') else catchUp k now i l' f')"

lemma handleAppendEntries_current:
  assumes "currentTerm f \<le> aq_term q"
  shows "ar_success (snd (handleAppendEntries now q f)) \<longleftrightarrow> consistent q (rlog f)"
    and "ar_term (snd (handleAppendEntries now q f)) = aq_term q"
    and "currentTerm (fst (handleAppendEntries now q f)) = aq_term q"
    and "\<not> consistent q (rlog f) \<Longrightarrow> rlog (fst (handleAppendEntries now q f)) = rlog f"
  using assms by (auto simp: handleAppendEntries_def Let_def)

lemma replicateToPeer_term [simp]: "aq_term (replicateToPeer l p) = currentTerm l"
  by (simp add: replicateToPeer_def Let_def)

lemma replicateToPeer_first: "nextIndex p = 1 \<Longrightarrow> consistent (replicateToPeer l p) lg"
  by (simp add: replicateToPeer_def Let_def consistent_def)

lemma catchUp_success:
  assumes "wf_log (rlog l)" "wf_log (rlog f)" "log_matching (rlog f) (rlog l)" "currentTerm f \<le> currentTerm l"
    and p: "jm_get (peers l) i = Some p" "1 \<le> nextIndex p" "nextIndex p \<le> int (length (rlog l)) + 1"
    and cons: "consistent (replicateToPeer l p) (rlog f)"
  shows "\<exists>l' f'. catchUp (Suc k) now i l f = Some (l', f') \<and> rlog l' = rlog l \<and> wf_log (rlog f')
     \<and> log_matching (rlog f') (rlog l) \<and> map_option matchIndex (jm_get (peers l') i) = Some (int (length (rlog f')))"
proof -
  let ?q = "replicateToPeer l p"
  let ?f = "fst (handleAppendEntries now ?q f)" and ?r = "snd (handleAppendEntries now ?q f)"
  have cur: "currentTerm f \<le> aq_term ?q" using assms(4) by simp
  have s: "ar_success ?r" using handleAppendEntries_current(1) [OF cur] cons by simp
  note ok = handleAppendEntries_success [OF surjective_pairing s]
  have from_l: "request_from (rlog l) ?q" by (rule replicateToPeer_from [OF p(2,3)])
  have wf: "wf_log (rlog ?f)"
    using wf_appendLoop [OF assms(2) request_from_wf [OF assms(1) from_l] cons] ok(3) by simp
  moreover have "log_matching (rlog ?f) (rlog l)"
    using appendLoop_matches(2) [OF from_l cons assms(3,1)] assms(3) log_matching_take ok(3) by metis
  moreover have "onAppendReply i (p_object p) ?r l = l\<lparr>peers := jm_modify i (captured (p_object p) (\<lambda>p. p\<lparr>matchIndex := ar_matchIndex ?r,
      nextIndex := ar_matchIndex ?r + 1\<rparr>)) (peers l)\<rparr>"
    using s handleAppendEntries_current(2) [OF cur, of now] by (simp add: onAppendReply_def)
  ultimately show ?thesis using p(1) s ok(7) by (simp add: Let_def case_prod_unfold captured_def)
qed

text \<open>
  C27. The leader always finds an accepted request: for a follower whose log matches
  the leader's and whose term is not ahead, at most \<open>nextIndex\<close> rounds lead to an
  accepted AppendEntries. Afterwards the follower's log still matches the leader's,
  the leader's log is unchanged, and the leader has recorded the follower's last index.
\<close>

theorem backoff_reaches_match:
  assumes "wf_log (rlog l)" "wf_log (rlog f)" "log_matching (rlog f) (rlog l)" "currentTerm f \<le> currentTerm l"
    and "jm_get (peers l) i = Some p" "1 \<le> nextIndex p" "nextIndex p \<le> int (length (rlog l)) + 1"
  shows "\<exists>l' f'. catchUp (nat (nextIndex p)) now i l f = Some (l', f') \<and> rlog l' = rlog l \<and> wf_log (rlog f')
     \<and> log_matching (rlog f') (rlog l) \<and> map_option matchIndex (jm_get (peers l') i) = Some (int (length (rlog f')))"
  using assms
proof (induction "nat (nextIndex p)" arbitrary: p l f)
  case (Suc k)
  let ?q = "replicateToPeer l p"
  let ?f = "fst (handleAppendEntries now ?q f)" and ?r = "snd (handleAppendEntries now ?q f)"
  have k: "nat (nextIndex p) = Suc k" using Suc.hyps(2) by simp
  show ?case
  proof (cases "consistent ?q (rlog f)")
    case True
    then show ?thesis unfolding k by (intro catchUp_success [OF Suc.prems])
  next
    case False
    have cur: "currentTerm f \<le> aq_term ?q" using Suc.prems(4) by simp
    have nx: "1 < nextIndex p" using False replicateToPeer_first [of p l "rlog f"] Suc.prems(6) by linarith
    let ?p = "p\<lparr>nextIndex := nextIndex p - 1\<rparr>"
    let ?l = "onAppendReply i (p_object p) ?r l"
    have l: "?l = l\<lparr>peers := jm_modify i (captured (p_object p) (\<lambda>p. p\<lparr>nextIndex := max 1 (nextIndex p - 1)\<rparr>)) (peers l)\<rparr>"
      using False handleAppendEntries_current(1,2) [OF cur, of now] by (simp add: onAppendReply_def)
    have "\<exists>l' f'. catchUp (nat (nextIndex ?p)) now i ?l ?f = Some (l', f') \<and> rlog l' = rlog ?l \<and> wf_log (rlog f')
      \<and> log_matching (rlog f') (rlog ?l) \<and> map_option matchIndex (jm_get (peers l') i) = Some (int (length (rlog f')))"
      using Suc.prems nx False handleAppendEntries_current(3,4) [OF cur, of now] Suc.hyps(2)
      by (intro Suc.hyps(1)) (auto simp: l captured_def)
    moreover have "nat (nextIndex ?p) = k" using Suc.hyps(2) nx by simp
    ultimately show ?thesis
      using Suc.prems(5) False handleAppendEntries_current(1) [OF cur, of now]
      unfolding k by (simp add: Let_def case_prod_unfold l)
  qed
qed simp

theorem backoff_reaches_match_witness:
  "\<exists>l' f'. catchUp 3 0 ''a'' ex_leader ex_follower = Some (l', f') \<and> log_matching (rlog f') (rlog ex_leader)"
proof -
  have p: "jm_get (peers ex_leader) ''a'' = Some \<lparr>p_nodeId = ''a'', p_address = '''', nextIndex = 3, matchIndex = 2, votingMember = True, p_object = 0\<rparr>"
    by (simp add: ex_leader_def jm_get_def)
  have "wf_log (rlog ex_leader)" "log_matching (rlog ex_follower) (rlog ex_leader)"
    "currentTerm ex_follower \<le> currentTerm ex_leader"
    using ex_logs by (simp_all add: ex_leader_def ex_follower_def ex_defs)
  moreover have "int (length (rlog ex_leader)) = 2" by (simp add: ex_leader_def ex_leaderLog_def)
  ultimately show ?thesis
    using backoff_reaches_match [of ex_leader ex_follower, OF _ ex_logs(2) _ _ p, of 0] by auto
qed

section \<open>A capped batch and a stale tail\<close>

text \<open>
  A leader whose batch is capped at one entry, with everything committed, and a
  follower that has the first entry and a stale second one.
\<close>

definition ex_capped :: RaftNode where
  "ex_capped = ex_leader\<lparr>commitIndex := 2,
     peers := [(''f'', \<lparr>p_nodeId = ''f'', p_address = '''', nextIndex = 1, matchIndex = 0, votingMember = True, p_object = 0\<rparr>)]\<rparr>"

definition ex_stale :: RaftNode where
  "ex_stale = (ex_node ''f'')\<lparr>rlog := [ex_entry 1 1 ''a'', ex_entry 2 2 ''x'']\<rparr>"

text \<open>
  The follower commits up to the end of its own log instead of the end of what
  the request verified: it applies the stale entry at index 2 although the leader's
  committed entry there is another, and reports index 2 as matching, which the leader
  records as replicated.
\<close>

theorem capped_batch_commits_stale_entry:
  "log_matching (rlog ex_stale) (rlog ex_capped)
   \<and> (case handleAppendEntries 0 (hd (map snd (replicateToFollowers ex_capped))) ex_stale of (f', r) \<Rightarrow>
        ar_success r \<and> map e_data (applied f') = [''a'', ''x'']
        \<and> map_option matchIndex (jm_get (peers (onAppendReply ''f'' 0 r ex_capped)) ''f'') = Some 2)
   \<and> map e_data (rlog ex_capped) = [''a'', ''b'']"
  by code_simp

section \<open>Entry types on the wire\<close>

text \<open>
  The receiving handler: \<open>type.replace('LOG_ENTRY_TYPE_', '').toLowerCase()\<close>.
\<close>

definition protoToTypeName :: "string \<Rightarrow> string" where
  "protoToTypeName s = map asciiLower (replaceFirst ''LOG_ENTRY_TYPE_'' [] s)"

text \<open>
  The entry type survives the wire: what the receiving handler makes of the name
  the leader sends is the type's name, for every type.
\<close>

theorem entry_type_roundtrip: "protoToTypeName (logEntryTypeToProto t) = typeName t"
  by (cases t) (simp_all, code_simp+)

end
