(* ===== verification/TaskTypes.thy ===== *)
theory TaskTypes
  imports Prelude "HOL-Library.Product_Lexorder"
begin

text \<open>
  The data of the task engine (\<open>src/plugins/task-engine/types.ts\<close>) and its SQLite
  tables (\<open>migrations.ts\<close>) with the statements the state machine runs on them.

  A table is the list of its rows in insertion order. An \<open>INSERT\<close> that violates a
  primary key raises \<open>UniqueViolation\<close> and leaves the table alone; an \<open>UPDATE ... WHERE
  id = ?\<close> maps over the rows. Columns that hold JSON hold the value itself. Rows that
  an \<open>ORDER BY\<close> leaves tied come in insertion order.
\<close>

section \<open>Tasks and workflows\<close>

datatype TaskEngineState = Queued | Pending | Assigned | Running | Completed | Failed | Cancelled
  | Skipped | DeadLetter

datatype TaskType = Shell | Container | Subagent | K8sJob | ClaudeRelay

datatype WorkflowState = WfPending | WfRunning | WfCompleted | WfFailed | WfCancelled

datatype TaskEventType = EvSubmitted | EvAssigned | EvStarted | EvCompleted | EvFailed | EvRetried
  | EvCancelled | EvDeadLettered | EvSkipped

record TaskConstraints =
  requiresGpu :: bool
  avoidGaming :: bool
  minMemoryMb :: "rat option"
  minDiskGb :: "rat option"
  nodeLabels :: "string list option"
  targetNode :: "string option"

record RetryPolicy =
  maxRetries :: int
  backoffMs :: rat
  backoffMultiplier :: rat
  retryable :: bool

definition DEFAULT_RETRY_POLICY :: RetryPolicy where
  "DEFAULT_RETRY_POLICY = \<lparr>maxRetries = 3, backoffMs = 1000, backoffMultiplier = 2, retryable = True\<rparr>"

type_synonym json_object = "(string \<times> string) list"

record TaskResult =
  exitCode :: int
  stdout :: string
  stderr :: string
  contextUpdate :: "json_object option"

record TaskRecord =
  t_id :: string
  workflow_id :: "string option"
  task_key :: "string option"
  t_type :: TaskType
  t_state :: TaskEngineState
  priority :: int
  spec :: json_object
  constraints :: "TaskConstraints option"
  retry_policy :: "RetryPolicy option"
  assigned_node :: "string option"
  attempt :: nat
  t_result :: "TaskResult option"
  t_error :: "string option"
  scheduled_after :: "int option"
  created_at :: int
  assigned_at :: "int option"
  started_at :: "int option"
  completed_at :: "int option"
  dead_lettered_at :: "int option"

record WorkflowTaskDef =
  d_type :: TaskType
  d_spec :: json_object
  d_constraints :: "TaskConstraints option"
  d_retryPolicy :: "RetryPolicy option"
  d_priority :: "int option"
  dependsOn :: "string list option"
  d_condition :: "string option"

text \<open>\<open>def_tasks\<close> lists the entries in the order of \<open>Object.entries\<close>.\<close>

record WorkflowDefinition =
  def_name :: string
  def_tasks :: "(string \<times> WorkflowTaskDef) list"

record WorkflowRecord =
  w_id :: string
  w_name :: string
  w_state :: WorkflowState
  w_definition :: WorkflowDefinition
  w_context :: json_object
  w_created_at :: int
  w_completed_at :: "int option"

record TaskDependencyRecord =
  dep_workflow :: string
  dep_task_key :: string
  depends_on_key :: string
  dep_condition :: "string option"

text \<open>Texts of events; \<open>RetryDetail\<close> is the one formatted from the entry's values.\<close>

datatype EventDetail = Detail string | RetryDetail nat int

record TaskEventRecord =
  ev_task :: string
  ev_type :: TaskEventType
  ev_node :: string
  ev_detail :: "EventDetail option"
  ev_created_at :: int

section \<open>The payloads of the log entries\<close>

record TaskSubmitPayload =
  s_taskId :: string
  s_type :: TaskType
  s_spec :: json_object
  s_priority :: "int option"
  s_constraints :: "TaskConstraints option"
  s_retryPolicy :: "RetryPolicy option"
  s_workflowId :: "string option"
  s_taskKey :: "string option"
  submitterNode :: string

datatype TaskEntry =
    ETaskSubmit TaskSubmitPayload
  | ETaskAssign string string
  | ETaskStarted string string
  | ETaskComplete string TaskResult
  | ETaskFailed string string string
  | ETaskCancel string
  | ETaskRetry string nat int
  | ETaskDeadLetter string string
  | EWorkflowSubmit string WorkflowDefinition
  | EWorkflowAdvance string string
  | EOther

section \<open>The tables\<close>

record TaskDB =
  te_tasks :: "TaskRecord list"
  te_workflows :: "WorkflowRecord list"
  te_task_dependencies :: "TaskDependencyRecord list"
  te_task_events :: "TaskEventRecord list"

definition empty_db :: TaskDB where
  "empty_db = \<lparr>te_tasks = [], te_workflows = [], te_task_dependencies = [], te_task_events = []\<rparr>"

datatype TeError = UniqueViolation | RangeError

text \<open>\<open>PRIMARY KEY\<close> on insertion.\<close>

definition sql_insert :: "('r \<Rightarrow> 'k) \<Rightarrow> 'r \<Rightarrow> 'r list \<Rightarrow> TeError + 'r list" where
  "sql_insert key r rows = (if key r \<in> set (map key rows) then Inl UniqueViolation else Inr (rows @ [r]))"

definition sql_update :: "('r \<Rightarrow> 'k) \<Rightarrow> 'k \<Rightarrow> ('r \<Rightarrow> 'r) \<Rightarrow> 'r list \<Rightarrow> 'r list" where
  "sql_update key k f rows = map (\<lambda>r. if key r = k then f r else r) rows"

definition sql_get :: "('r \<Rightarrow> 'k) \<Rightarrow> 'k \<Rightarrow> 'r list \<Rightarrow> 'r option" where
  "sql_get key k rows = find (\<lambda>r. key r = k) rows"

text \<open>\<open>LIMIT\<close> and \<open>OFFSET\<close>: a negative limit means all rows, a negative offset none skipped.\<close>

definition sql_limit :: "int \<Rightarrow> int \<Rightarrow> 'r list \<Rightarrow> 'r list" where
  "sql_limit cnt off rows =
     (let rest = drop (nat off) rows in if cnt < 0 then rest else take (nat cnt) rest)"

definition unique :: "('r \<Rightarrow> 'k) \<Rightarrow> 'r list \<Rightarrow> bool" where
  "unique key rows \<longleftrightarrow> distinct (map key rows)"

text \<open>The contract of a table with a primary key, which the state machine relies on.\<close>

locale keyed_table =
  fixes ins :: "'r \<Rightarrow> 't \<Rightarrow> 'e + 't"
    and upd :: "'k \<Rightarrow> ('r \<Rightarrow> 'r) \<Rightarrow> 't \<Rightarrow> 't"
    and sel :: "'k \<Rightarrow> 't \<Rightarrow> 'r option"
    and key :: "'r \<Rightarrow> 'k"
    and ok :: "'t \<Rightarrow> bool"
  assumes ins_ok: "ok t \<Longrightarrow> ins r t = Inr t' \<Longrightarrow> ok t'"
    and ins_sel: "ins r t = Inr t' \<Longrightarrow> sel k t' = (if k = key r then Some r else sel k t)"
    and ins_dup: "(\<exists>e. ins r t = Inl e) \<longleftrightarrow> sel (key r) t \<noteq> None"
    and upd_ok: "ok t \<Longrightarrow> (\<And>r. key (f r) = key r) \<Longrightarrow> ok (upd k f t)"
    and upd_sel: "(\<And>r. key (f r) = key r) \<Longrightarrow>
        sel k' (upd k f t) = (if k' = k then map_option f (sel k t) else sel k' t)"
begin

lemma ins_fresh: "ins r t = Inr t' \<Longrightarrow> sel (key r) t = None"
  using ins_dup by (metis Inl_Inr_False)

lemma sel_other: "(\<And>r. key (f r) = key r) \<Longrightarrow> k' \<noteq> k \<Longrightarrow> sel k' (upd k f t) = sel k' t"
  by (simp add: upd_sel)

end

lemma sql_get_append: "sql_get key k (rows @ [r]) = (case sql_get key k rows of None \<Rightarrow> (if key r = k then Some r else None) | Some x \<Rightarrow> Some x)"
  by (induction rows) (auto simp: sql_get_def)

lemma sql_get_None: "sql_get key k rows = None \<longleftrightarrow> k \<notin> set (map key rows)"
  by (auto simp: sql_get_def find_None_iff)

lemma sql_get_Some: "sql_get key k rows = Some r \<Longrightarrow> r \<in> set rows \<and> key r = k"
  by (auto simp: sql_get_def find_Some_iff)

lemma sql_get_unique: "unique key rows \<Longrightarrow> r \<in> set rows \<Longrightarrow> sql_get key (key r) rows = Some r"
  by (induction rows) (auto simp: sql_get_def unique_def)

lemma sql_update_keys:
  assumes "\<And>r. key (f r) = key r"
  shows "map key (sql_update key k f rows) = map key rows"
  by (simp add: sql_update_def comp_def) (simp add: assms)

lemma sql_get_update:
  assumes "\<And>r. key (f r) = key r"
  shows "sql_get key k' (sql_update key k f rows) =
      (if k' = k then map_option f (sql_get key k rows) else sql_get key k' rows)"
  by (induction rows) (auto simp: sql_get_def sql_update_def assms)

interpretation table: keyed_table "sql_insert key" "sql_update key" "sql_get key" key "unique key" for key
proof unfold_locales
  show "unique key t \<Longrightarrow> sql_insert key r t = Inr t' \<Longrightarrow> unique key t'" for t t' r
    by (auto simp: sql_insert_def unique_def split: if_splits)
  show "sql_insert key r t = Inr t' \<Longrightarrow> sql_get key k t' = (if k = key r then Some r else sql_get key k t)"
    for t t' r k
    using sql_get_None [of key "key r" t]
    by (auto simp: sql_insert_def sql_get_append split: if_splits option.splits)
  show "(\<exists>e. sql_insert key r t = Inl e) \<longleftrightarrow> sql_get key (key r) t \<noteq> None" for r t
    by (auto simp: sql_insert_def sql_get_None)
  show "unique key t \<Longrightarrow> (\<And>r. key (f r) = key r) \<Longrightarrow> unique key (sql_update key k f t)" for t f k
    by (simp add: unique_def sql_update_keys)
  show "(\<And>r. key (f r) = key r) \<Longrightarrow>
      sql_get key k' (sql_update key k f t) = (if k' = k then map_option f (sql_get key k t) else sql_get key k' t)" for t f k k'
    by (rule sql_get_update)
qed

end
