(* ===== verification/TaskEngine.thy ===== *)
theory TaskEngine
  imports TaskTypes
begin

text \<open>
  The replicated state machine of the task engine: \<open>WorkflowEngine\<close>
  (\<open>workflow-engine.ts\<close>), \<open>evaluateCondition\<close> (\<open>condition-eval.ts\<close>) and
  \<open>TaskStateMachine\<close> (\<open>state-machine.ts\<close>) under \<open>src/plugins/task-engine\<close>.

  A handler takes the clock \<open>now\<close>, the replica's \<open>nodeId\<close> and the tables, and returns
  the tables with either the action for the leader or the exception it raised; what
  it wrote before the exception stays, as there is no transaction. \<open>vm\<close> stands for
  Node's \<open>vm.runInContext\<close> (\<open>None\<close>: it threw or timed out, \<open>Some b\<close>: the truth
  value of its result), \<open>uuid k\<close> for the k-th \<open>randomUUID()\<close> of a call.
\<close>

section \<open>Conditions\<close>

record ParentResult =
  pr_exitCode :: int
  pr_stdout :: string
  pr_stderr :: string
  pr_state :: TaskEngineState

type_synonym vm_eval = "string \<Rightarrow> (string, ParentResult) jsmap \<Rightarrow> json_object \<Rightarrow> bool option"

definition evaluateCondition :: "vm_eval \<Rightarrow> string option \<Rightarrow> (string, ParentResult) jsmap \<Rightarrow> json_object \<Rightarrow> bool" where
  "evaluateCondition vm condition parents ctx =
     (case condition of None \<Rightarrow> True
      | Some c \<Rightarrow>
          if trim c = [] then True
          else (case vm (''('' @ c @ '')'') parents ctx of None \<Rightarrow> False | Some b \<Rightarrow> b))"

section \<open>Evaluating a workflow\<close>

record WorkflowEvalResult =
  readyTasks :: "(string \<times> string) list"
  skippedTasks :: "(string \<times> string) list"
  workflowComplete :: bool
  workflowState :: WorkflowState

definition terminal :: "TaskEngineState \<Rightarrow> bool" where
  "terminal s \<longleftrightarrow> s \<in> {Completed, Skipped, Failed, Cancelled, DeadLetter}"

definition tasksOf :: "string \<Rightarrow> TaskDB \<Rightarrow> TaskRecord list" where
  "tasksOf wid db = filter (\<lambda>t. workflow_id t = Some wid) (te_tasks db)"

definition depsOf :: "string \<Rightarrow> TaskDB \<Rightarrow> TaskDependencyRecord list" where
  "depsOf wid db = filter (\<lambda>d. dep_workflow d = wid) (te_task_dependencies db)"

definition taskByKey :: "TaskRecord list \<Rightarrow> (string, TaskRecord) jsmap" where
  "taskByKey ts = fold (\<lambda>t m. if truthy (task_key t) then jm_set (the (task_key t)) t m else m) ts []"

definition parentResult :: "TaskRecord \<Rightarrow> ParentResult" where
  "parentResult t = (case t_result t of
     Some r \<Rightarrow> \<lparr>pr_exitCode = exitCode r, pr_stdout = stdout r, pr_stderr = stderr r, pr_state = t_state t\<rparr>
   | None \<Rightarrow> \<lparr>pr_exitCode = -1, pr_stdout = [], pr_stderr = [], pr_state = t_state t\<rparr>)"

definition parentResults :: "TaskRecord list \<Rightarrow> (string, ParentResult) jsmap" where
  "parentResults ts =
     fold (\<lambda>t m. if truthy (task_key t) then jm_set (the (task_key t)) (parentResult t) m else m) ts []"

definition depState :: "TaskRecord list \<Rightarrow> TaskDependencyRecord \<Rightarrow> TaskEngineState option" where
  "depState ts d = map_option t_state (jm_get (taskByKey ts) (depends_on_key d))"

definition allDepsTerminal :: "TaskRecord list \<Rightarrow> TaskDependencyRecord list \<Rightarrow> bool" where
  "allDepsTerminal ts taskDeps \<longleftrightarrow>
     list_all (\<lambda>d. case depState ts d of None \<Rightarrow> False | Some s \<Rightarrow> terminal s) taskDeps"

definition shouldRun :: "vm_eval \<Rightarrow> json_object \<Rightarrow> TaskRecord list \<Rightarrow> TaskDependencyRecord list \<Rightarrow> bool" where
  "shouldRun vm ctx ts taskDeps =
     (if taskDeps = [] then True
      else if list_ex (\<lambda>d. truthy (dep_condition d)) taskDeps
      then list_all (\<lambda>d. if \<not> truthy (dep_condition d) then depState ts d = Some Completed
                         else evaluateCondition vm (dep_condition d) (parentResults ts) ctx) taskDeps
      else list_all (\<lambda>d. depState ts d = Some Completed) taskDeps)"

text \<open>The entry of \<open>depMap\<close> for a task, and whether the loop considers the task at all.\<close>

definition taskDeps :: "TaskDependencyRecord list \<Rightarrow> TaskRecord \<Rightarrow> TaskDependencyRecord list" where
  "taskDeps deps t = filter (\<lambda>d. Some (dep_task_key d) = task_key t) deps"

definition evaluable :: "TaskRecord list \<Rightarrow> TaskDependencyRecord list \<Rightarrow> TaskRecord \<Rightarrow> bool" where
  "evaluable ts deps t \<longleftrightarrow> t_state t = Pending \<and> truthy (task_key t) \<and> allDepsTerminal ts (taskDeps deps t)"

definition workflowContext :: "string \<Rightarrow> TaskDB \<Rightarrow> json_object" where
  "workflowContext wid db = (case sql_get w_id wid (te_workflows db) of None \<Rightarrow> [] | Some w \<Rightarrow> w_context w)"

definition evaluateWorkflow :: "vm_eval \<Rightarrow> string \<Rightarrow> TaskDB \<Rightarrow> WorkflowEvalResult" where
  "evaluateWorkflow vm wid db =
     (let ts = tasksOf wid db; deps = depsOf wid db;
          ctx = workflowContext wid db;
          considered = filter (evaluable ts deps) ts;
          run = (\<lambda>t. shouldRun vm ctx ts (taskDeps deps t));
          allTerminal = list_all (\<lambda>t. terminal (t_state t)) ts;
          anyFailed = list_ex (\<lambda>t. t_state t = Failed \<or> t_state t = DeadLetter) ts
      in \<lparr>readyTasks = map (\<lambda>t. (the (task_key t), t_id t)) (filter run considered),
          skippedTasks = map (\<lambda>t. (the (task_key t), t_id t)) (filter (\<lambda>t. \<not> run t) considered),
          workflowComplete = allTerminal,
          workflowState = (if allTerminal then (if anyFailed then WfFailed else WfCompleted) else WfRunning)\<rparr>)"

section \<open>The state machine\<close>

datatype StateMachineAction = ARetry string nat int | ADeadLetter string string
  | ACancelRunning string string | ASchedule "string option" "int option" | AWorkflowAdvance string string

type_synonym te_result = "TaskDB \<times> (TeError + StateMachineAction option)"

definition insertEvent :: "string \<Rightarrow> TaskEventType \<Rightarrow> string \<Rightarrow> EventDetail option \<Rightarrow> int \<Rightarrow> TaskDB \<Rightarrow> TaskDB" where
  "insertEvent taskId eventType node detail createdAt db =
     db\<lparr>te_task_events := te_task_events db @
          [\<lparr>ev_task = taskId, ev_type = eventType, ev_node = node, ev_detail = detail, ev_created_at = createdAt\<rparr>]\<rparr>"

definition insertTask :: "TaskRecord \<Rightarrow> TaskDB \<Rightarrow> TeError + TaskDB" where
  "insertTask t db = (case sql_insert t_id t (te_tasks db) of Inl e \<Rightarrow> Inl e | Inr ts \<Rightarrow> Inr (db\<lparr>te_tasks := ts\<rparr>))"

definition updateTask :: "string \<Rightarrow> (TaskRecord \<Rightarrow> TaskRecord) \<Rightarrow> TaskDB \<Rightarrow> TaskDB" where
  "updateTask i f db = db\<lparr>te_tasks := sql_update t_id i f (te_tasks db)\<rparr>"

definition getTask :: "string \<Rightarrow> TaskDB \<Rightarrow> TaskRecord option" where
  "getTask i db = sql_get t_id i (te_tasks db)"

text \<open>The row of \<open>stmtInsertTask\<close>; columns it does not name are \<open>NULL\<close>.\<close>

definition newTask :: "string \<Rightarrow> string option \<Rightarrow> string option \<Rightarrow> TaskType \<Rightarrow> TaskEngineState \<Rightarrow> int
    \<Rightarrow> json_object \<Rightarrow> TaskConstraints option \<Rightarrow> RetryPolicy option \<Rightarrow> int \<Rightarrow> TaskRecord" where
  "newTask i wid key ty st prio sp cons pol now =
     \<lparr>t_id = i, workflow_id = wid, task_key = key, t_type = ty, t_state = st, priority = prio, spec = sp,
      constraints = cons, retry_policy = pol, assigned_node = None, attempt = 0, t_result = None, t_error = None,
      scheduled_after = None, created_at = now, assigned_at = None, started_at = None, completed_at = None,
      dead_lettered_at = None\<rparr>"

definition handleTaskSubmit :: "int \<Rightarrow> TaskSubmitPayload \<Rightarrow> TaskDB \<Rightarrow> te_result" where
  "handleTaskSubmit now p db =
     (let st = (if truthy (s_workflowId p) then Pending else Queued)
      in case insertTask (newTask (s_taskId p) (s_workflowId p) (s_taskKey p) (s_type p) st (nullish (s_priority p) 0)
                            (s_spec p) (s_constraints p) (s_retryPolicy p) now) db of
           Inl e \<Rightarrow> (db, Inl e)
         | Inr db1 \<Rightarrow> (insertEvent (s_taskId p) EvSubmitted (submitterNode p) None now db1, Inr None))"

definition handleTaskAssign :: "int \<Rightarrow> string \<Rightarrow> string \<Rightarrow> TaskDB \<Rightarrow> te_result" where
  "handleTaskAssign now i node db =
     (insertEvent i EvAssigned node None now
        (updateTask i (\<lambda>t. t\<lparr>t_state := Assigned, assigned_node := Some node, assigned_at := Some now\<rparr>) db), Inr None)"

definition handleTaskStarted :: "int \<Rightarrow> string \<Rightarrow> string \<Rightarrow> TaskDB \<Rightarrow> te_result" where
  "handleTaskStarted now i node db =
     (insertEvent i EvStarted node None now
        (updateTask i (\<lambda>t. t\<lparr>t_state := Running, started_at := Some now\<rparr>) db), Inr None)"

definition handleTaskComplete :: "int \<Rightarrow> string \<Rightarrow> string \<Rightarrow> TaskResult \<Rightarrow> TaskDB \<Rightarrow> te_result" where
  "handleTaskComplete now me i res db =
     (case getTask i db of None \<Rightarrow> (db, Inr None)
      | Some task \<Rightarrow>
          let db1 = updateTask i (\<lambda>t. t\<lparr>t_state := Completed, t_result := Some res, completed_at := Some now\<rparr>) db;
              db2 = insertEvent i EvCompleted (nullish (assigned_node task) me) None now db1
          in (db2, Inr (if truthy (workflow_id task) then Some (AWorkflowAdvance i (the (workflow_id task))) else None)))"

text \<open>
  \<open>new Date(ms).toISOString()\<close>: the number is truncated to an integer; beyond
  8.64e15 in either direction it throws a \<open>RangeError\<close>.
\<close>

definition toDate :: "rat \<Rightarrow> int option" where
  "toDate ms = (let i = (if ms < 0 then \<lceil>ms\<rceil> else \<lfloor>ms\<rfloor>) in if \<bar>i\<bar> \<le> 8640000000000000 then Some i else None)"

definition retryBackoff :: "RetryPolicy \<Rightarrow> nat \<Rightarrow> rat" where
  "retryBackoff p k = backoffMs p * backoffMultiplier p ^ k"

definition handleTaskFailed :: "int \<Rightarrow> string \<Rightarrow> string \<Rightarrow> string \<Rightarrow> TaskDB \<Rightarrow> te_result" where
  "handleTaskFailed now i err node db =
     (case getTask i db of None \<Rightarrow> (db, Inr None)
      | Some task \<Rightarrow>
          let db1 = updateTask i (\<lambda>t. t\<lparr>t_error := Some err\<rparr>) db;
              db2 = insertEvent i EvFailed node (Some (Detail err)) now db1;
              policy = nullish (retry_policy task) DEFAULT_RETRY_POLICY
          in if retryable policy \<and> int (attempt task) < maxRetries policy
             then (case toDate (of_int now + retryBackoff policy (attempt task)) of
                     None \<Rightarrow> (db2, Inl RangeError)
                   | Some after \<Rightarrow> (db2, Inr (Some (ARetry i (attempt task + 1) after))))
             else (db2, Inr (Some (ADeadLetter i
                    (''Max retries exhausted ('' @ show_int (maxRetries policy) @ '') or not retryable'')))))"

definition handleTaskCancel :: "int \<Rightarrow> string \<Rightarrow> string \<Rightarrow> TaskDB \<Rightarrow> te_result" where
  "handleTaskCancel now me i db =
     (case getTask i db of None \<Rightarrow> (db, Inr None)
      | Some task \<Rightarrow>
          let wasRunning = (t_state task = Running \<or> t_state task = Assigned);
              db1 = updateTask i (\<lambda>t. t\<lparr>t_state := Cancelled, completed_at := Some now\<rparr>) db;
              db2 = insertEvent i EvCancelled me None now db1
          in (db2, Inr (if wasRunning \<and> truthy (assigned_node task)
                        then Some (ACancelRunning i (the (assigned_node task))) else None)))"

definition handleTaskRetry :: "int \<Rightarrow> string \<Rightarrow> string \<Rightarrow> nat \<Rightarrow> int \<Rightarrow> TaskDB \<Rightarrow> te_result" where
  "handleTaskRetry now me i att after db =
     (insertEvent i EvRetried me (Some (RetryDetail att after)) now
        (updateTask i (\<lambda>t. t\<lparr>t_state := Queued, attempt := att, assigned_node := None, assigned_at := None,
            started_at := None, completed_at := None, t_error := None, t_result := None,
            scheduled_after := Some after\<rparr>) db),
      Inr (Some (ASchedule (Some i) (Some after))))"

definition handleTaskDeadLetter :: "int \<Rightarrow> string \<Rightarrow> string \<Rightarrow> string \<Rightarrow> TaskDB \<Rightarrow> te_result" where
  "handleTaskDeadLetter now me i reason db =
     (insertEvent i EvDeadLettered me (Some (Detail reason)) now
        (updateTask i (\<lambda>t. t\<lparr>t_state := DeadLetter, dead_lettered_at := Some now\<rparr>) db), Inr None)"

section \<open>Workflow entries\<close>

definition depKey :: "TaskDependencyRecord \<Rightarrow> string \<times> string \<times> string" where
  "depKey d = (dep_workflow d, dep_task_key d, depends_on_key d)"

fun insertDependencies :: "string \<Rightarrow> string \<Rightarrow> string option \<Rightarrow> string list \<Rightarrow> TaskDB \<Rightarrow> TaskDB \<times> (TeError + unit)" where
  "insertDependencies wid key c [] db = (db, Inr ())"
| "insertDependencies wid key c (d # ds) db =
     (case sql_insert depKey \<lparr>dep_workflow = wid, dep_task_key = key, depends_on_key = d, dep_condition = c\<rparr>
             (te_task_dependencies db) of
        Inl e \<Rightarrow> (db, Inl e)
      | Inr rows \<Rightarrow> insertDependencies wid key c ds (db\<lparr>te_task_dependencies := rows\<rparr>))"

definition isRoot :: "WorkflowTaskDef \<Rightarrow> bool" where
  "isRoot d \<longleftrightarrow> (case dependsOn d of None \<Rightarrow> True | Some ks \<Rightarrow> ks = [])"

text \<open>The second loop of \<open>handleWorkflowSubmit\<close>, over the entries with their task ids.\<close>

fun insertWorkflowTasks :: "int \<Rightarrow> string \<Rightarrow> string \<Rightarrow> ((string \<times> WorkflowTaskDef) \<times> string) list \<Rightarrow> TaskDB
    \<Rightarrow> TaskDB \<times> (TeError + unit)" where
  "insertWorkflowTasks now me wid [] db = (db, Inr ())"
| "insertWorkflowTasks now me wid (((key, d), i) # rest) db =
     (case insertTask (newTask i (Some wid) (Some key) (d_type d) (if isRoot d then Queued else Pending)
             (nullish (d_priority d) 0) (d_spec d) (d_constraints d) (d_retryPolicy d) now) db of
        Inl e \<Rightarrow> (db, Inl e)
      | Inr db1 \<Rightarrow>
          (case insertDependencies wid key (d_condition d) (nullish (dependsOn d) [])
                  (insertEvent i EvSubmitted me None now db1) of
             (db2, Inl e) \<Rightarrow> (db2, Inl e)
           | (db2, Inr _) \<Rightarrow> insertWorkflowTasks now me wid rest db2))"

definition handleWorkflowSubmit :: "(nat \<Rightarrow> string) \<Rightarrow> int \<Rightarrow> string \<Rightarrow> string \<Rightarrow> WorkflowDefinition \<Rightarrow> TaskDB \<Rightarrow> te_result" where
  "handleWorkflowSubmit uuid now me wid def db =
     (case sql_insert w_id \<lparr>w_id = wid, w_name = def_name def, w_state = WfRunning, w_definition = def,
              w_context = [], w_created_at = now, w_completed_at = None\<rparr> (te_workflows db) of
        Inl e \<Rightarrow> (db, Inl e)
      | Inr ws \<Rightarrow>
          let entries = def_tasks def;
              ids = map uuid [0..<length entries]
          in case insertWorkflowTasks now me wid (zip entries ids) (db\<lparr>te_workflows := ws\<rparr>) of
               (db1, Inl e) \<Rightarrow> (db1, Inl e)
             | (db1, Inr _) \<Rightarrow> (db1, Inr (Some (ASchedule None None))))"

text \<open>The loops over ready and skipped tasks, and the workflow's own row.\<close>

definition queueReady :: "int \<Rightarrow> string \<Rightarrow> string \<Rightarrow> (string \<times> string) list \<Rightarrow> TaskDB \<Rightarrow> TaskDB" where
  "queueReady now me detail rs db =
     fold (\<lambda>(k, i) d. insertEvent i EvSubmitted me (Some (Detail detail)) now
             (updateTask i (\<lambda>t. t\<lparr>t_state := Queued\<rparr>) d)) rs db"

definition skipTasks :: "int \<Rightarrow> string \<Rightarrow> string \<Rightarrow> (string \<times> string) list \<Rightarrow> TaskDB \<Rightarrow> TaskDB" where
  "skipTasks now me detail rs db =
     fold (\<lambda>(k, i) d. insertEvent i EvSkipped me (Some (Detail detail)) now
             (updateTask i (\<lambda>t. t\<lparr>t_state := Skipped, completed_at := Some now\<rparr>) d)) rs db"

definition finishWorkflow :: "int \<Rightarrow> string \<Rightarrow> WorkflowState \<Rightarrow> TaskDB \<Rightarrow> TaskDB" where
  "finishWorkflow now wid st db =
     db\<lparr>te_workflows := sql_update w_id wid (\<lambda>w. w\<lparr>w_state := st, w_completed_at := Some now\<rparr>) (te_workflows db)\<rparr>"

text \<open>The three steps that follow each evaluation, with the texts of its events.\<close>

definition applyEvaluation :: "int \<Rightarrow> string \<Rightarrow> string \<Rightarrow> string \<Rightarrow> string \<Rightarrow> WorkflowEvalResult \<Rightarrow> TaskDB \<Rightarrow> TaskDB" where
  "applyEvaluation now me wid readyText skipText res db =
     (let db1 = queueReady now me readyText (readyTasks res) db;
          db2 = skipTasks now me skipText (skippedTasks res) db1
      in if workflowComplete res then finishWorkflow now wid (workflowState res) db2 else db2)"

definition handleWorkflowAdvance :: "vm_eval \<Rightarrow> int \<Rightarrow> string \<Rightarrow> string \<Rightarrow> TaskDB \<Rightarrow> te_result" where
  "handleWorkflowAdvance vm now me wid db =
     (let res = evaluateWorkflow vm wid db;
          db1 = applyEvaluation now me wid ''workflow_advance: ready'' ''condition not met'' res db
      in if skippedTasks res \<noteq> [] \<and> \<not> workflowComplete res
         then let cas = evaluateWorkflow vm wid db1;
                  db2 = applyEvaluation now me wid ''workflow_advance: cascade ready''
                          ''cascade: condition not met'' cas db1
              in (db2, Inr (if readyTasks cas \<noteq> [] \<or> readyTasks res \<noteq> []
                            then Some (ASchedule None None) else None))
         else (db1, Inr (if readyTasks res \<noteq> [] then Some (ASchedule None None) else None)))"

section \<open>Applying an entry\<close>

fun applyEntry :: "vm_eval \<Rightarrow> (nat \<Rightarrow> string) \<Rightarrow> int \<Rightarrow> string \<Rightarrow> TaskEntry \<Rightarrow> TaskDB \<Rightarrow> te_result" where
  "applyEntry vm uuid now me (ETaskSubmit p) db = handleTaskSubmit now p db"
| "applyEntry vm uuid now me (ETaskAssign i n) db = handleTaskAssign now i n db"
| "applyEntry vm uuid now me (ETaskStarted i n) db = handleTaskStarted now i n db"
| "applyEntry vm uuid now me (ETaskComplete i r) db = handleTaskComplete now me i r db"
| "applyEntry vm uuid now me (ETaskFailed i e n) db = handleTaskFailed now i e n db"
| "applyEntry vm uuid now me (ETaskCancel i) db = handleTaskCancel now me i db"
| "applyEntry vm uuid now me (ETaskRetry i a s) db = handleTaskRetry now me i a s db"
| "applyEntry vm uuid now me (ETaskDeadLetter i r) db = handleTaskDeadLetter now me i r db"
| "applyEntry vm uuid now me (EWorkflowSubmit w d) db = handleWorkflowSubmit uuid now me w d db"
| "applyEntry vm uuid now me (EWorkflowAdvance w k) db = handleWorkflowAdvance vm now me w db"
| "applyEntry vm uuid now me EOther db = (db, Inr None)"

section \<open>Queries\<close>

definition byPriority :: "TaskRecord list \<Rightarrow> TaskRecord list" where
  "byPriority ts = sort_key (\<lambda>t. (- priority t, created_at t)) ts"

definition listTasks :: "TaskEngineState option \<Rightarrow> int option \<Rightarrow> int option \<Rightarrow> TaskDB \<Rightarrow> TaskRecord list" where
  "listTasks st cnt off db =
     sql_limit (nullish cnt 100) (nullish off 0)
       (byPriority (case st of None \<Rightarrow> te_tasks db | Some s \<Rightarrow> filter (\<lambda>t. t_state t = s) (te_tasks db)))"

definition due :: "int \<Rightarrow> TaskRecord \<Rightarrow> bool" where
  "due now t \<longleftrightarrow> t_state t = Queued \<and> (case scheduled_after t of None \<Rightarrow> True | Some s \<Rightarrow> s \<le> now)"

definition getQueuedTasks :: "int \<Rightarrow> TaskDB \<Rightarrow> TaskRecord list" where
  "getQueuedTasks now db = byPriority (filter (due now) (te_tasks db))"

definition onNode :: "string \<Rightarrow> TaskRecord \<Rightarrow> bool" where
  "onNode node t \<longleftrightarrow> assigned_node t = Some node \<and> (t_state t = Assigned \<or> t_state t = Running)"

definition getTasksOnNode :: "string \<Rightarrow> TaskDB \<Rightarrow> TaskRecord list" where
  "getTasksOnNode node db = byPriority (filter (onNode node) (te_tasks db))"

definition getDeadLetterTasks :: "TaskDB \<Rightarrow> TaskRecord list" where
  "getDeadLetterTasks db =
     sort_key (\<lambda>t. - nullish (dead_lettered_at t) 0) (filter (\<lambda>t. t_state t = DeadLetter) (te_tasks db))"

definition getTaskEvents :: "string \<Rightarrow> TaskDB \<Rightarrow> TaskEventRecord list" where
  "getTaskEvents i db = sort_key ev_created_at (filter (\<lambda>e. ev_task e = i) (te_task_events db))"

definition getWorkflow :: "string \<Rightarrow> TaskDB \<Rightarrow> WorkflowRecord option" where
  "getWorkflow wid db = sql_get w_id wid (te_workflows db)"

definition getWorkflowTasks :: "string \<Rightarrow> TaskDB \<Rightarrow> TaskRecord list" where
  "getWorkflowTasks wid db = sort_key created_at (tasksOf wid db)"

definition listWorkflows :: "WorkflowState option \<Rightarrow> int option \<Rightarrow> TaskDB \<Rightarrow> WorkflowRecord list" where
  "listWorkflows st cnt db =
     sql_limit (nullish cnt 100) 0 (sort_key (\<lambda>w. - w_created_at w)
       (case st of None \<Rightarrow> te_workflows db | Some s \<Rightarrow> filter (\<lambda>w. w_state w = s) (te_workflows db)))"

end
