(* ===== verification/TaskEngineProps.thy ===== *)
theory TaskEngineProps
  imports TaskEngine
begin

text \<open>
  Properties of the task state machine: the tables keep their keys under every entry,
  replicas with different clocks and names agree on everything but times and names
  as long as no workflow is submitted, and diverge when one is.
\<close>

section \<open>Reading tasks after a statement\<close>

lemma getTask_update [simp]:
  "(\<And>t. t_id (f t) = t_id t) \<Longrightarrow>
   getTask k (updateTask i f db) = (if k = i then map_option f (getTask i db) else getTask k db)"
  unfolding getTask_def updateTask_def by (simp add: table.upd_sel)

lemma getTask_insertEvent [simp]: "getTask k (insertEvent i e n d c db) = getTask k db"
  by (simp add: getTask_def insertEvent_def)

lemma getTask_id: "getTask i db = Some t \<Longrightarrow> t_id t = i"
  by (auto simp: getTask_def dest: sql_get_Some)

lemma insertEvent_sel [simp]:
  "te_tasks (insertEvent i e n d c db) = te_tasks db" "te_workflows (insertEvent i e n d c db) = te_workflows db"
  "te_task_dependencies (insertEvent i e n d c db) = te_task_dependencies db"
  by (simp_all add: insertEvent_def)

lemma updateTask_sel [simp]:
  "te_tasks (updateTask i f db) = sql_update t_id i f (te_tasks db)" "te_workflows (updateTask i f db) = te_workflows db"
  "te_task_dependencies (updateTask i f db) = te_task_dependencies db" "te_task_events (updateTask i f db) = te_task_events db"
  by (simp_all add: updateTask_def)

section \<open>The tables keep their keys\<close>

definition db_ok :: "TaskDB \<Rightarrow> bool" where
  "db_ok db \<longleftrightarrow> unique t_id (te_tasks db) \<and> unique w_id (te_workflows db) \<and> unique depKey (te_task_dependencies db)"

lemma db_ok_update [simp]: "db_ok db \<Longrightarrow> (\<And>t. t_id (f t) = t_id t) \<Longrightarrow> db_ok (updateTask i f db)"
  by (simp add: db_ok_def table.upd_ok)

lemma db_ok_event [simp]: "db_ok (insertEvent i e n d c db) = db_ok db"
  by (simp add: db_ok_def)

lemma db_ok_insertTask: "db_ok db \<Longrightarrow> insertTask t db = Inr db' \<Longrightarrow> db_ok db'"
  by (auto simp: insertTask_def db_ok_def split: sum.splits intro: table.ins_ok)

lemma db_ok_dependencies: "db_ok db \<Longrightarrow> db_ok (fst (insertDependencies w k c ds db))"
proof (induction w k c ds db rule: insertDependencies.induct)
  case (2 w key c d ds db)
  show ?case
  proof (cases "sql_insert depKey \<lparr>dep_workflow = w, dep_task_key = key, depends_on_key = d, dep_condition = c\<rparr> (te_task_dependencies db)")
    case (Inl e)
    with 2 show ?thesis by simp
  next
    case (Inr rows)
    with "2.prems" have "db_ok (db\<lparr>te_task_dependencies := rows\<rparr>)" by (auto simp: db_ok_def intro: table.ins_ok)
    with Inr "2.IH" show ?thesis by simp
  qed
qed simp

lemma db_ok_workflowTasks: "db_ok db \<Longrightarrow> db_ok (fst (insertWorkflowTasks now me w es db))"
proof (induction now me w es db rule: insertWorkflowTasks.induct)
  case (2 now me w key d i rest db)
  show ?case
  proof (cases "insertTask (newTask i (Some w) (Some key) (d_type d) (if isRoot d then Queued else Pending)
             (nullish (d_priority d) 0) (d_spec d) (d_constraints d) (d_retryPolicy d) now) db")
    case (Inl e)
    with 2 show ?thesis by simp
  next
    case (Inr db1)
    let ?r = "insertDependencies w key (d_condition d) (nullish (dependsOn d) []) (insertEvent i EvSubmitted me None now db1)"
    have "db_ok db1" using "2.prems" Inr by (rule db_ok_insertTask)
    then have ok: "db_ok (fst ?r)" by (simp add: db_ok_dependencies)
    obtain db2 res where r: "?r = (db2, res)" by fastforce
    show ?thesis
    proof (cases res)
      case (Inl e)
      with Inr r ok show ?thesis by simp
    next
      case [simp]: (Inr u)
      have "db_ok db2" using ok r by simp
      then show ?thesis using "2.IH" [OF \<open>insertTask _ db = Inr db1\<close> r [symmetric] Inr] \<open>insertTask _ db = Inr db1\<close> r by simp
    qed
  qed
qed simp

lemma db_ok_submitWorkflow: "db_ok db \<Longrightarrow> db_ok (fst (handleWorkflowSubmit uuid now me w d db))"
proof -
  assume ok: "db_ok db"
  have "db_ok (fst (insertWorkflowTasks now me w es (db\<lparr>te_workflows := ws\<rparr>)))"
    if "sql_insert w_id r (te_workflows db) = Inr ws" for es ws r
    using ok that by (intro db_ok_workflowTasks) (auto simp: db_ok_def intro: table.ins_ok)
  with ok show ?thesis
    by (auto simp: handleWorkflowSubmit_def Let_def split: sum.splits prod.splits) (metis fst_conv)+
qed

lemma db_ok_queueReady [simp]: "db_ok db \<Longrightarrow> db_ok (queueReady now me s rs db)"
  by (induction rs arbitrary: db) (auto simp: queueReady_def)

lemma db_ok_skipTasks [simp]: "db_ok db \<Longrightarrow> db_ok (skipTasks now me s rs db)"
  by (induction rs arbitrary: db) (auto simp: skipTasks_def)

lemma db_ok_finishWorkflow [simp]: "db_ok db \<Longrightarrow> db_ok (finishWorkflow now w s db)"
  by (simp add: finishWorkflow_def db_ok_def table.upd_ok)

lemma db_ok_advance: "db_ok db \<Longrightarrow> db_ok (fst (handleWorkflowAdvance vm now me w db))"
  by (simp add: handleWorkflowAdvance_def applyEvaluation_def Let_def)

lemma db_ok_apply: "db_ok db \<Longrightarrow> db_ok (fst (applyEntry vm uuid now me e db))"
proof (cases e)
  case (ETaskSubmit p)
  then show "db_ok db \<Longrightarrow> ?thesis"
    by (auto simp: handleTaskSubmit_def Let_def split: sum.splits dest: db_ok_insertTask)
qed (auto simp: handleTaskAssign_def handleTaskStarted_def handleTaskComplete_def handleTaskFailed_def
       handleTaskCancel_def handleTaskRetry_def handleTaskDeadLetter_def db_ok_submitWorkflow db_ok_advance Let_def
     split: option.splits)

text \<open>
  A replica applies its entries one after another; an exception is caught and logged
  (\<open>handleEntryCommitted\<close>), what was written before it stays. Each entry meets the
  replica's clock and random identifiers of that moment.
\<close>

definition applyLog :: "vm_eval \<Rightarrow> string \<Rightarrow> ((int \<times> (nat \<Rightarrow> string)) \<times> TaskEntry) list \<Rightarrow> TaskDB \<Rightarrow> TaskDB" where
  "applyLog vm me es db = fold (\<lambda>((now, uuid), e) d. fst (applyEntry vm uuid now me e d)) es db"

text \<open>
  The keys hold in the tables of every replica, so the properties below that assume
  \<open>db_ok\<close> apply to all of them.
\<close>

lemma db_ok_applyLog: "db_ok (applyLog vm me es empty_db)"
proof -
  have "db_ok db \<Longrightarrow> db_ok (applyLog vm me es db)" for db
    by (induction es arbitrary: db) (auto simp: applyLog_def db_ok_apply)
  moreover have "db_ok empty_db" by (simp add: db_ok_def empty_db_def unique_def)
  ultimately show ?thesis by blast
qed

section \<open>Replicas agree\<close>

text \<open>
  What replicas share: everything but the moments an entry was applied and the name
  of the replica that recorded an event.
\<close>

definition erase :: "TaskRecord \<Rightarrow> TaskRecord" where
  "erase t = t\<lparr>created_at := 0, assigned_at := None, started_at := None, completed_at := None, dead_lettered_at := None\<rparr>"

definition shared :: "TaskDB \<Rightarrow> TaskDB" where
  "shared db = \<lparr>te_tasks = map erase (te_tasks db),
     te_workflows = map (\<lambda>w. w\<lparr>w_created_at := 0, w_completed_at := None\<rparr>) (te_workflows db),
     te_task_dependencies = te_task_dependencies db,
     te_task_events = map (\<lambda>e. e\<lparr>ev_node := [], ev_created_at := 0\<rparr>) (te_task_events db)\<rparr>"

lemma erase_sel [simp]:
  "t_id (erase t) = t_id t" "workflow_id (erase t) = workflow_id t" "task_key (erase t) = task_key t"
  "t_state (erase t) = t_state t" "retry_policy (erase t) = retry_policy t" "assigned_node (erase t) = assigned_node t"
  "attempt (erase t) = attempt t" "t_result (erase t) = t_result t"
  by (simp_all add: erase_def)

lemma sql_get_map:
  "(\<And>r. key (f r) = key r) \<Longrightarrow> sql_get key k (map f rows) = map_option f (sql_get key k rows)"
  by (induction rows) (auto simp: sql_get_def)

lemma getTask_shared: "getTask i (shared db) = map_option erase (getTask i db)"
  by (simp add: getTask_def shared_def sql_get_map)

lemma shared_idem [simp]: "shared (shared db) = shared db"
  by (simp add: shared_def erase_def comp_def)

lemma shared_event: "shared (insertEvent i e n d c db) = shared (insertEvent i e n' d c' (shared db))"
  by (simp add: shared_def insertEvent_def erase_def comp_def)

lemma shared_update:
  assumes "\<And>t. erase (g (erase t)) = erase (f t)"
  shows "shared (updateTask i f db) = shared (updateTask i g (shared db))"
  using assms by (simp add: shared_def sql_update_def erase_def comp_def)

lemma shared_event_update:
  assumes "\<And>t. erase (g (erase t)) = erase (f t)"
  shows "shared (insertEvent i e n d c (updateTask i f db)) = shared (insertEvent i e n' d c' (updateTask i g (shared db)))"
  using shared_event [of i e n d c "updateTask i f db"] shared_event [of i e n' d c' "updateTask i g (shared db)"]
    shared_update [of g f, OF assms] by metis

lemma jm_map_set: "jm_map f (jm_set k v m) = jm_set k (f v) (jm_map f m)"
  by (induction m) (auto simp: jm_map_def jm_set_def)

lemma taskByKey_erase: "taskByKey (map erase ts) = jm_map erase (taskByKey ts)"
proof -
  have "fold (\<lambda>t m. if truthy (task_key t) then jm_set (the (task_key t)) t m else m) (map erase ts) (jm_map erase m)
      = jm_map erase (fold (\<lambda>t m. if truthy (task_key t) then jm_set (the (task_key t)) t m else m) ts m)" for m
    by (induction ts arbitrary: m) (auto simp: jm_map_set [symmetric])
  from this [of "[]"] show ?thesis by (simp add: taskByKey_def jm_map_def)
qed

lemma parentResults_erase: "parentResults (map erase ts) = parentResults ts"
proof -
  have "parentResult (erase t) = parentResult t" for t by (cases "t_result t") (simp_all add: parentResult_def)
  then show ?thesis by (simp add: parentResults_def fold_map comp_def cong: if_cong)
qed

lemma depState_erase: "depState (map erase ts) d = depState ts d"
  by (simp add: depState_def taskByKey_erase option.map_comp comp_def)

lemma evaluable_erase: "evaluable (map erase ts) deps (erase t) = evaluable ts deps t"
  by (simp add: evaluable_def allDepsTerminal_def depState_erase taskDeps_def)

lemma shouldRun_erase: "shouldRun vm ctx (map erase ts) ds = shouldRun vm ctx ts ds"
  by (simp add: shouldRun_def depState_erase parentResults_erase)

lemma evaluateWorkflow_shared: "evaluateWorkflow vm w (shared db) = evaluateWorkflow vm w db"
proof -
  have ts: "tasksOf w (shared db) = map erase (tasksOf w db)"
    by (simp add: tasksOf_def shared_def filter_map comp_def)
  have deps: "depsOf w (shared db) = depsOf w db" by (simp add: depsOf_def shared_def)
  have ctx: "workflowContext w (shared db) = workflowContext w db"
    by (simp add: workflowContext_def shared_def sql_get_map split: option.splits)
  have td: "taskDeps ds (erase t) = taskDeps ds t" for ds t by (simp add: taskDeps_def)
  show ?thesis
    by (simp add: evaluateWorkflow_def Let_def ts deps ctx filter_map comp_def evaluable_erase shouldRun_erase td
        list_all_iff list_ex_iff)
qed

lemma shared_step:
  assumes "\<And>t. erase (g (erase t)) = erase (f t)" and "\<And>t. erase (g (erase t)) = erase (g t)" and "shared d = shared d'"
  shows "shared (insertEvent i e n x c (updateTask i f d)) = shared (insertEvent i e n' x c' (updateTask i g d'))"
  using shared_event_update [of g f, OF assms(1)] shared_event_update [of g g, OF assms(2)] assms(3) by metis

lemma shared_fold:
  assumes "\<And>x d d'. shared d = shared d' \<Longrightarrow> shared (f x d) = shared (g x d')" and "shared d = shared d'"
  shows "shared (fold f xs d) = shared (fold g xs d')"
  using assms(2) by (induction xs arbitrary: d d') (simp_all add: assms(1))

lemma shared_queueReady: "shared d = shared d' \<Longrightarrow> shared (queueReady now me s rs d) = shared (queueReady now' me' s rs d')"
  unfolding queueReady_def
  by (rule shared_fold) (auto simp: erase_def intro!: shared_step)

lemma shared_skipTasks: "shared d = shared d' \<Longrightarrow> shared (skipTasks now me s rs d) = shared (skipTasks now' me' s rs d')"
  unfolding skipTasks_def
  by (rule shared_fold) (auto simp: erase_def intro!: shared_step)

lemma shared_finishWorkflow:
  "shared d = shared d' \<Longrightarrow> shared (finishWorkflow now w s d) = shared (finishWorkflow now' w s d')"
proof -
  have "shared (finishWorkflow n w s d) = (shared d)\<lparr>te_workflows := sql_update w_id w (\<lambda>x. x\<lparr>w_state := s\<rparr>) (te_workflows (shared d))\<rparr>" for n d
    by (simp add: shared_def finishWorkflow_def sql_update_def comp_def)
  then show "shared d = shared d' \<Longrightarrow> ?thesis" by simp
qed

lemma shared_applyEvaluation:
  "shared d = shared d' \<Longrightarrow> shared (applyEvaluation now me w s1 s2 r d) = shared (applyEvaluation now' me' w s1 s2 r d')"
  by (simp add: applyEvaluation_def Let_def shared_finishWorkflow shared_skipTasks shared_queueReady)

lemma shared_advance:
  assumes "shared d = shared d'"
  shows "shared (fst (handleWorkflowAdvance vm now me w d)) = shared (fst (handleWorkflowAdvance vm now' me' w d'))"
proof -
  have ev: "evaluateWorkflow vm w x = evaluateWorkflow vm w y" if "shared x = shared y" for x y
    using that evaluateWorkflow_shared by metis
  define r where "r = evaluateWorkflow vm w d'"
  have a: "shared (applyEvaluation now me w s1 s2 r d) = shared (applyEvaluation now' me' w s1 s2 r d')" for s1 s2
    by (rule shared_applyEvaluation [OF assms])
  show ?thesis
    using shared_applyEvaluation [OF a] ev [OF a]
    unfolding handleWorkflowAdvance_def Let_def ev [OF assms] r_def [symmetric] by (simp add: a)
qed

lemma shared_get: "shared d = shared d' \<Longrightarrow> map_option erase (getTask i d) = map_option erase (getTask i d')"
  using getTask_shared by metis

lemma shared_insertTask:
  assumes "shared d = shared d'" and "erase t = erase t'"
  shows "rel_sum (\<lambda>e e'. e = e') (\<lambda>x y. shared x = shared y) (insertTask t d) (insertTask t' d')"
proof -
  have ids: "map t_id (te_tasks d) = map t_id (te_tasks d')"
    using arg_cong [OF assms(1), of "\<lambda>x. map t_id (te_tasks x)"] by (simp add: shared_def comp_def)
  have id: "t_id t = t_id t'" using arg_cong [OF assms(2), of t_id] by simp
  show ?thesis
    using assms by (simp add: insertTask_def sql_insert_def ids id shared_def)
qed

text \<open>An entry whose effect on the shared part does not depend on the replica.\<close>

fun replicable :: "TaskEntry \<Rightarrow> bool" where
  "replicable (EWorkflowSubmit w d) = False"
| "replicable _ = True"

lemma shared_apply:
  assumes "replicable e" and "shared d = shared d'"
  shows "shared (fst (applyEntry vm uuid now me e d)) = shared (fst (applyEntry vm uuid' now' me' e d'))"
proof (cases e)
  case (ETaskSubmit p)
  let ?t = "\<lambda>n. newTask (s_taskId p) (s_workflowId p) (s_taskKey p) (s_type p)
    (if truthy (s_workflowId p) then Pending else Queued) (nullish (s_priority p) 0) (s_spec p) (s_constraints p) (s_retryPolicy p) n"
  have "erase (?t now) = erase (?t now')" by (simp add: erase_def newTask_def)
  from shared_insertTask [OF assms(2) this] show ?thesis
    using assms(2) shared_event unfolding ETaskSubmit applyEntry.simps handleTaskSubmit_def Let_def
    by (cases "insertTask (?t now) d"; cases "insertTask (?t now') d'") (simp_all, metis)
next
  case (ETaskComplete i r)
  then show ?thesis using assms(2) shared_get [OF assms(2), of i]
    by (cases "getTask i d"; cases "getTask i d'") (auto simp: handleTaskComplete_def Let_def erase_def intro!: shared_step)
next
  case (ETaskFailed i err n)
  then show ?thesis using assms(2) shared_get [OF assms(2), of i]
    by (cases "getTask i d"; cases "getTask i d'")
       (auto simp: handleTaskFailed_def Let_def erase_def split: option.splits intro!: shared_step)
next
  case (ETaskCancel i)
  then show ?thesis using assms(2) shared_get [OF assms(2), of i]
    by (cases "getTask i d"; cases "getTask i d'") (auto simp: handleTaskCancel_def Let_def erase_def intro!: shared_step)
next
  case (EWorkflowAdvance w k)
  then show ?thesis using shared_advance [OF assms(2)] by simp
qed (use assms in \<open>auto simp: handleTaskAssign_def handleTaskStarted_def handleTaskRetry_def handleTaskDeadLetter_def erase_def
       intro!: shared_step\<close>)

interpretation tasks: replicated_machine "\<lambda>(me, now, uuid) e d. fst (applyEntry vm uuid now me e d)" shared replicable for vm
  by unfold_locales (auto intro: shared_apply)

lemma applyLog_replay:
  "applyLog vm me xs db = fold (\<lambda>(x, e). (\<lambda>(me, now, uuid) e d. fst (applyEntry vm uuid now me e d)) x e)
     (map (\<lambda>((now, uuid), e). ((me, now, uuid), e)) xs) db"
  by (simp add: applyLog_def fold_map comp_def case_prod_unfold)

lemma applyLog_agree:
  assumes "map snd xs = map snd ys" and "list_all replicable (map snd xs)" and "shared db = shared db'"
  shows "shared (applyLog vm me xs db) = shared (applyLog vm me' ys db')"
proof -
  have snd: "map snd (map (\<lambda>((now, uuid), e). ((m, now, uuid), e)) zs) = map snd zs"
    for m :: string and zs :: "((int \<times> (nat \<Rightarrow> string)) \<times> TaskEntry) list"
    by (simp add: comp_def case_prod_unfold)
  show ?thesis
    unfolding applyLog_replay by (rule tasks.replay_view) (use assms in \<open>simp_all only: snd\<close>)
qed

text \<open>
  C6. Replicas agree: two replicas that apply the same entries from empty tables, each
  with its own clock, name and random identifiers, end with the same tasks, states,
  assignments, attempts, results, errors, dependencies, workflow states and events, as
  long as the entries contain no \<open>workflow_submit\<close>. They may differ only in the times
  at which they applied an entry and in the replica named in an event.
\<close>

theorem replicas_agree:
  assumes "map snd xs = map snd ys" and "list_all replicable (map snd xs)"
  shows "shared (applyLog vm me xs empty_db) = shared (applyLog vm me' ys empty_db)"
  using assms by (intro applyLog_agree) simp_all

definition ex_submit :: "string \<Rightarrow> TaskEntry" where
  "ex_submit i = ETaskSubmit \<lparr>s_taskId = i, s_type = Shell, s_spec = [], s_priority = None, s_constraints = None,
     s_retryPolicy = None, s_workflowId = None, s_taskKey = None, submitterNode = ''n''\<rparr>"

theorem replicas_agree_witness:
  "shared (applyLog (\<lambda>_ _ _. None) ''a'' [((1, \<lambda>_. ''x''), ex_submit ''t''), ((2, \<lambda>_. ''x''), ETaskCancel ''t'')] empty_db)
   = shared (applyLog (\<lambda>_ _ _. None) ''b'' [((7, \<lambda>_. ''y''), ex_submit ''t''), ((9, \<lambda>_. ''y''), ETaskCancel ''t'')] empty_db)"
  by (rule replicas_agree) (simp_all add: ex_submit_def)

text \<open>One task without dependencies, submitted as a workflow.\<close>

definition ex_taskDef :: "string list option \<Rightarrow> WorkflowTaskDef" where
  "ex_taskDef deps = \<lparr>d_type = Shell, d_spec = [], d_constraints = None, d_retryPolicy = None, d_priority = None,
     dependsOn = deps, d_condition = None\<rparr>"

definition ex_single :: TaskEntry where
  "ex_single = EWorkflowSubmit ''w'' \<lparr>def_name = ''w'', def_tasks = [(''A'', ex_taskDef None)]\<rparr>"

definition task_states :: "TaskDB \<Rightarrow> (string \<times> TaskEngineState) list" where
  "task_states db = map (\<lambda>t. (t_id t, t_state t)) (te_tasks db)"

text \<open>
  A \<open>workflow_submit\<close> makes replicas diverge: the handler draws the task ids with
  \<open>randomUUID()\<close> while it applies the entry, so leader and follower give the same task
  different ids, and the leader's later assignment finds no row on the follower.
\<close>

theorem workflow_submit_diverges:
  "task_states (applyLog (\<lambda>_ _ _. None) ''l'' [((0, \<lambda>_. ''u''), ex_single), ((0, \<lambda>_. ''''), ETaskAssign ''u'' ''n'')] empty_db)
     = [(''u'', Assigned)]
   \<and> task_states (applyLog (\<lambda>_ _ _. None) ''f'' [((0, \<lambda>_. ''v''), ex_single), ((0, \<lambda>_. ''''), ETaskAssign ''u'' ''n'')] empty_db)
     = [(''v'', Queued)]"
  by code_simp

end
