(* ===== verification/NodeTypes.thy ===== *)
theory NodeTypes
  imports Prelude
begin

text \<open>
  The description of a cluster member that membership, both schedulers and the health
  monitor share (the interfaces at the head of \<open>src/cluster/membership.ts\<close>).
  Percentages are rationals, byte counts integers.
\<close>

text \<open>
  The code casts the strings of a peer's message to these types without a check, so
  any other string may occur.
\<close>

datatype NodeRole = RoleLeader | RoleFollower | RoleCandidate | RoleWorker | RoleOther string

datatype NodeStatus = PendingApproval | Active | Draining | Offline | StatusOther string

record GpuInfo =
  gpu_name :: string
  gpu_memoryBytes :: int
  gpu_memoryAvailableBytes :: int
  utilizationPercent :: rat
  inUseForGaming :: bool

record NodeResources =
  cpuCores :: int
  memoryBytes :: int
  memoryAvailableBytes :: int
  gpus :: "GpuInfo list"
  diskBytes :: int
  diskAvailableBytes :: int
  cpuUsagePercent :: rat
  gamingDetected :: bool

record NodeInfo =
  nodeId :: string
  hostname :: string
  tailscaleIp :: string
  grpcPort :: int
  role :: NodeRole
  status :: NodeStatus
  resources :: "NodeResources option"
  tags :: "string list"
  joinedAt :: int
  lastSeen :: int

text \<open>\<open>`${node.tailscaleIp}:${node.grpcPort}`\<close>.\<close>

definition address_of :: "string \<Rightarrow> int \<Rightarrow> string" where
  "address_of ip port = ip @ '':'' @ show_int port"

section \<open>Picking the best candidate\<close>

text \<open>
  Both schedulers pick the first element of the candidates sorted by falling score.
  The interface: a filter that keeps only admissible candidates and a choice among
  what it keeps; the clients rely on the choice being admissible and of greatest score.
\<close>

locale best_choice =
  fixes candidates :: "'t \<Rightarrow> 'n list"
    and score :: "'t \<Rightarrow> 'n \<Rightarrow> 'k::linorder"
    and pick :: "'t \<Rightarrow> 'n option"
    and admissible :: "'t \<Rightarrow> 'n \<Rightarrow> bool"
  assumes pick_None: "pick t = None \<longleftrightarrow> candidates t = []"
    and pick_mem: "pick t = Some n \<Longrightarrow> n \<in> set (candidates t)"
    and pick_max: "pick t = Some n \<Longrightarrow> m \<in> set (candidates t) \<Longrightarrow> score t m \<le> score t n"
    and candidates_ok: "n \<in> set (candidates t) \<longleftrightarrow> admissible t n"
begin

lemma pick_sound: "pick t = Some n \<Longrightarrow> admissible t n"
  using pick_mem candidates_ok by blast

lemma pick_best: "pick t = Some n \<Longrightarrow> admissible t m \<Longrightarrow> score t m \<le> score t n"
  using pick_max candidates_ok by blast

lemma pick_complete: "(\<exists>n. pick t = Some n) \<longleftrightarrow> (\<exists>n. admissible t n)"
  using pick_None [of t] candidates_ok [of _ t] pick_mem by (metis not_None_eq ex_in_conv set_empty)

end

end
