(* ===== verification/ResourceScheduler.thy ===== *)
theory ResourceScheduler
  imports TaskTypes NodeTypes
begin

text \<open>
  \<open>ResourceAwareScheduler\<close> of \<open>src/plugins/task-engine/scheduler.ts\<close>: the filter of
  nodes by the constraints of a task, their scores, and the choice. The active nodes
  are those \<open>membership.getActiveNodes()\<close> returns.
\<close>

record SchedulerWeights =
  cpuHeadroom :: rat
  memoryHeadroom :: rat
  diskIoHeadroom :: rat
  networkHeadroom :: rat
  gpuHeadroom :: rat
  taskCountPenalty :: rat

definition DEFAULT_SCHEDULER_WEIGHTS :: SchedulerWeights where
  "DEFAULT_SCHEDULER_WEIGHTS = \<lparr>cpuHeadroom = 3/10, memoryHeadroom = 3/10, diskIoHeadroom = 15/100,
     networkHeadroom = 1/10, gpuHeadroom = 15/100, taskCountPenalty = 5\<rparr>"

text \<open>\<open>runningTaskCounts\<close>.\<close>

type_synonym counts = "(string, nat) jsmap"

definition setRunningTaskCount :: "string \<Rightarrow> nat \<Rightarrow> counts \<Rightarrow> counts" where
  "setRunningTaskCount n c m = jm_set n c m"

definition availableMemory :: "NodeInfo \<Rightarrow> int" where
  "availableMemory n = (case resources n of None \<Rightarrow> 0 | Some r \<Rightarrow> memoryAvailableBytes r)"

definition availableDisk :: "NodeInfo \<Rightarrow> int" where
  "availableDisk n = (case resources n of None \<Rightarrow> 0 | Some r \<Rightarrow> diskAvailableBytes r)"

definition filterNodes :: "TaskConstraints option \<Rightarrow> NodeInfo list \<Rightarrow> NodeInfo list" where
  "filterNodes c active =
     (case c of None \<Rightarrow> active
      | Some k \<Rightarrow>
          let ns1 = (if requiresGpu k
                     then filter (\<lambda>n. case resources n of None \<Rightarrow> False
                                   | Some r \<Rightarrow> list_ex (\<lambda>g. \<not> inUseForGaming g) (gpus r)) active
                     else active);
              ns2 = (if avoidGaming k
                     then filter (\<lambda>n. case resources n of None \<Rightarrow> True | Some r \<Rightarrow> \<not> gamingDetected r) ns1
                     else ns1);
              ns3 = (case minMemoryMb k of
                       Some m \<Rightarrow> if m \<noteq> 0 then filter (\<lambda>n. m * 1000000 \<le> of_int (availableMemory n)) ns2 else ns2
                     | None \<Rightarrow> ns2);
              ns4 = (case minDiskGb k of
                       Some m \<Rightarrow> if m \<noteq> 0 then filter (\<lambda>n. m * 1000000000 \<le> of_int (availableDisk n)) ns3 else ns3
                     | None \<Rightarrow> ns3)
          in case nodeLabels k of
               Some ls \<Rightarrow> if ls \<noteq> [] then filter (\<lambda>n. list_ex (\<lambda>l. l \<in> set (tags n)) ls) ns4 else ns4
             | None \<Rightarrow> ns4)"

definition percent :: "int \<Rightarrow> int \<Rightarrow> rat" where
  "percent part whole = (if whole > 0 then of_int part / of_int whole * 100 else 0)"

definition scoreNode :: "SchedulerWeights \<Rightarrow> counts \<Rightarrow> TaskConstraints option \<Rightarrow> NodeInfo \<Rightarrow> rat" where
  "scoreNode w m c n =
     (case resources n of None \<Rightarrow> 0
      | Some r \<Rightarrow>
          (100 - cpuUsagePercent r) * cpuHeadroom w
          + percent (memoryAvailableBytes r) (memoryBytes r) * memoryHeadroom w
          + percent (diskAvailableBytes r) (diskBytes r) * diskIoHeadroom w
          + (if (case c of None \<Rightarrow> False | Some k \<Rightarrow> requiresGpu k)
             then (case find (\<lambda>g. \<not> inUseForGaming g) (gpus r) of None \<Rightarrow> 0
                   | Some g \<Rightarrow> (100 - utilizationPercent g) * gpuHeadroom w)
             else 0)
          - (if gamingDetected r then 40 else 0)
          - of_nat (nullish (jm_get m (nodeId n)) 0) * taskCountPenalty w)"

text \<open>The pin of a task to a node, and the choice when there is none.\<close>

definition pinned :: "TaskConstraints option \<Rightarrow> string option" where
  "pinned c = (case c of None \<Rightarrow> None | Some k \<Rightarrow> if truthy (targetNode k) then targetNode k else None)"

definition pickScored :: "SchedulerWeights \<Rightarrow> counts \<Rightarrow> NodeInfo list \<Rightarrow> TaskConstraints option \<Rightarrow> NodeInfo option" where
  "pickScored w m active c =
     (let candidates = filterNodes c active
      in if candidates = [] then None else Some (hd (sort_desc (scoreNode w m c) candidates)))"

definition pickNode :: "SchedulerWeights \<Rightarrow> counts \<Rightarrow> NodeInfo list \<Rightarrow> TaskConstraints option \<Rightarrow> NodeInfo option" where
  "pickNode w m active c =
     (case pinned c of
        Some target \<Rightarrow> find (\<lambda>n. nodeId n = target \<or> hostname n = target) active
      | None \<Rightarrow> pickScored w m active c)"

section \<open>What a chosen node satisfies\<close>

text \<open>The constraints of a task, stated of one node.\<close>

definition satisfies :: "TaskConstraints \<Rightarrow> NodeInfo \<Rightarrow> bool" where
  "satisfies k n \<longleftrightarrow>
     (requiresGpu k \<longrightarrow> (\<exists>r. resources n = Some r \<and> (\<exists>g\<in>set (gpus r). \<not> inUseForGaming g)))
   \<and> (avoidGaming k \<longrightarrow> (\<forall>r. resources n = Some r \<longrightarrow> \<not> gamingDetected r))
   \<and> (\<forall>m. minMemoryMb k = Some m \<longrightarrow> m = 0 \<or> m * 1000000 \<le> of_int (availableMemory n))
   \<and> (\<forall>m. minDiskGb k = Some m \<longrightarrow> m = 0 \<or> m * 1000000000 \<le> of_int (availableDisk n))
   \<and> (\<forall>ls. nodeLabels k = Some ls \<longrightarrow> ls = [] \<or> set ls \<inter> set (tags n) \<noteq> {})"

definition admissible :: "NodeInfo list \<Rightarrow> TaskConstraints option \<Rightarrow> NodeInfo \<Rightarrow> bool" where
  "admissible active c n \<longleftrightarrow> n \<in> set active \<and> (\<forall>k. c = Some k \<longrightarrow> satisfies k n)"

lemma filterNodes_iff: "n \<in> set (filterNodes c active) \<longleftrightarrow> admissible active c n"
proof (cases c)
  case None
  then show ?thesis by (simp add: filterNodes_def admissible_def)
next
  case (Some k)
  have labels: "list_ex (\<lambda>l. l \<in> set (tags n)) ls \<longleftrightarrow> set ls \<inter> set (tags n) \<noteq> {}" for ls
    by (auto simp: list_ex_iff)
  show ?thesis
    unfolding Some filterNodes_def admissible_def satisfies_def Let_def
    by (cases "resources n"; cases "minMemoryMb k"; cases "minDiskGb k"; cases "nodeLabels k")
       (auto simp: labels list_ex_iff)
qed

interpretation resource_pick: best_choice "\<lambda>c. filterNodes c active" "scoreNode w m" "pickScored w m active" "admissible active"
  for w m active
proof unfold_locales
  show "pickScored w m active c = None \<longleftrightarrow> filterNodes c active = []" for c
    by (simp add: pickScored_def Let_def)
  show "pickScored w m active c = Some n \<Longrightarrow> n \<in> set (filterNodes c active)" for c n
    using hd_sort_desc(1) by (auto simp: pickScored_def Let_def split: if_splits)
  show "pickScored w m active c = Some n \<Longrightarrow> x \<in> set (filterNodes c active) \<Longrightarrow> scoreNode w m c x \<le> scoreNode w m c n" for c n x
    using hd_sort_desc(2) by (auto simp: pickScored_def Let_def split: if_splits)
  show "n \<in> set (filterNodes c active) \<longleftrightarrow> admissible active c n" for c n
    by (rule filterNodes_iff)
qed

text \<open>
  The node chosen for a task that is not pinned is active and meets every
  constraint of the task, no other such node scores higher, and a node is chosen
  whenever one meets the constraints.
\<close>

theorem pickNode_best:
  assumes "pinned c = None"
  shows "(pickNode w m active c = None \<longleftrightarrow> (\<forall>n. \<not> admissible active c n))
    \<and> (\<forall>n. pickNode w m active c = Some n \<longrightarrow>
         admissible active c n \<and> (\<forall>n'. admissible active c n' \<longrightarrow> scoreNode w m c n' \<le> scoreNode w m c n))"
proof -
  have p: "pickNode w m active c = pickScored w m active c" using assms by (simp add: pickNode_def)
  have "pickScored w m active c = None \<longleftrightarrow> (\<forall>n. \<not> admissible active c n)"
    using resource_pick.pick_complete [of w m active c] by auto
  then show ?thesis
    using resource_pick.pick_sound resource_pick.pick_best unfolding p by blast
qed

definition ex_nodeInfo :: "string \<Rightarrow> bool \<Rightarrow> NodeInfo" where
  "ex_nodeInfo i gaming = \<lparr>nodeId = i, hostname = i, tailscaleIp = ''10.0.0.1'', grpcPort = 50051, role = RoleFollower,
     status = Active, resources = Some \<lparr>cpuCores = 4, memoryBytes = 8, memoryAvailableBytes = 4, gpus = [],
       diskBytes = 0, diskAvailableBytes = 0, cpuUsagePercent = 20, gamingDetected = gaming\<rparr>,
     tags = [], joinedAt = 0, lastSeen = 0\<rparr>"

definition ex_avoid :: TaskConstraints where
  "ex_avoid = \<lparr>requiresGpu = False, avoidGaming = True, minMemoryMb = None, minDiskGb = None, nodeLabels = None, targetNode = None\<rparr>"

definition ex_active :: "NodeInfo list" where
  "ex_active = [ex_nodeInfo ''g'' True, ex_nodeInfo ''h'' False]"

theorem pickNode_best_witness:
  "pickNode DEFAULT_SCHEDULER_WEIGHTS [] ex_active (Some ex_avoid) = Some (ex_nodeInfo ''h'' False)
   \<and> admissible ex_active (Some ex_avoid) (ex_nodeInfo ''h'' False)"
proof -
  have "pinned (Some ex_avoid) = None"
    "pickNode DEFAULT_SCHEDULER_WEIGHTS [] ex_active (Some ex_avoid) = Some (ex_nodeInfo ''h'' False)"
    by (simp_all add: pickNode_def pinned_def truthy_def pickScored_def filterNodes_def ex_avoid_def ex_active_def
        ex_nodeInfo_def sort_desc_def Let_def)
  with pickNode_best [of "Some ex_avoid" DEFAULT_SCHEDULER_WEIGHTS "[]" ex_active] show ?thesis by blast
qed

end
