(* ===== verification/TaskPlugin.thy ===== *)
theory TaskPlugin
  imports TaskEngineProps ResourceScheduler Raft
begin

text \<open>
  \<open>TaskEnginePlugin\<close> of \<open>src/plugins/task-engine/index.ts\<close>: the tool handlers, the
  reaction to committed entries, the scheduling cycle, the dispatch of a task to a node
  and the re-queueing of the tasks of a node that went offline.

  The plugin sees the log through \<open>raft.isLeader()\<close> and \<open>raft.appendEntry\<close>; the
  interface \<open>entry_log\<close> below states what it relies on, and both the consensus module
  and the plugin's own view of it (the list of entries it has proposed) satisfy it.
  A handler that awaits \<open>appendEntry\<close> in a loop is one step of the model.
\<close>

section \<open>The log as the plugin sees it\<close>

locale entry_log =
  fixes append_entry :: "'e \<Rightarrow> 's \<Rightarrow> 's \<times> bool"
    and entries_of :: "'s \<Rightarrow> 'e list"
    and is_leader :: "'s \<Rightarrow> bool"
  assumes append_leader: "is_leader s \<Longrightarrow> append_entry e s = (s', ok) \<Longrightarrow>
      ok \<and> entries_of s' = entries_of s @ [e] \<and> is_leader s'"
    and append_other: "\<not> is_leader s \<Longrightarrow> append_entry e s = (s, False)"
begin

fun append_each :: "'e list \<Rightarrow> 's \<Rightarrow> 's \<times> nat" where
  "append_each [] s = (s, 0)"
| "append_each (e # es) s =
     (let (s1, ok) = append_entry e s; (s2, k) = append_each es s1 in (s2, if ok then Suc k else k))"

lemma append_each_leader:
  "is_leader s \<Longrightarrow> entries_of (fst (append_each es s)) = entries_of s @ es \<and> snd (append_each es s) = length es"
proof (induction es arbitrary: s)
  case (Cons e es)
  obtain s1 ok where a: "append_entry e s = (s1, ok)" by fastforce
  with append_leader [OF Cons.prems a] Cons.IH [of s1] show ?case by (simp add: case_prod_unfold Let_def)
qed simp

lemma append_each_other: "\<not> is_leader s \<Longrightarrow> append_each es s = (s, 0)"
  by (induction es) (simp_all add: append_other)

end

interpretation raft_log: entry_log "\<lambda>(t, d) n. let (n', r, _) = appendEntry t d n in (n', success r)"
  "\<lambda>n. map (\<lambda>e. (e_type e, e_data e)) (rlog n)" isLeader
  by unfold_locales (auto simp: appendEntry_def isLeader_def Let_def split: prod.splits)

record TaskPlugin =
  tp_nodeId :: string
  tp_leader :: bool
  tp_proposed :: "TaskEntry list"
  tp_db :: TaskDB
  tp_counts :: counts

definition propose :: "TaskEntry \<Rightarrow> TaskPlugin \<Rightarrow> TaskPlugin \<times> bool" where
  "propose e p = (if tp_leader p then (p\<lparr>tp_proposed := tp_proposed p @ [e]\<rparr>, True) else (p, False))"

interpretation plugin_log: entry_log propose tp_proposed tp_leader
  by unfold_locales (auto simp: propose_def)

fun proposeAll :: "TaskEntry list \<Rightarrow> TaskPlugin \<Rightarrow> TaskPlugin \<times> nat" where
  "proposeAll [] p = (p, 0)"
| "proposeAll (e # es) p =
     (let (p1, ok) = propose e p; (p2, k) = proposeAll es p1 in (p2, if ok then Suc k else k))"

lemma proposeAll_each: "proposeAll es p = plugin_log.append_each es p"
  by (induction es arbitrary: p) simp_all

lemmas proposeAll_leader = plugin_log.append_each_leader [folded proposeAll_each]
lemmas proposeAll_other = plugin_log.append_each_other [folded proposeAll_each]

text \<open>The entry type under which a payload is appended.\<close>

fun entryType :: "TaskEntry \<Rightarrow> LogEntryType" where
  "entryType (ETaskSubmit p) = TaskSubmit"
| "entryType (ETaskAssign i n) = TaskAssign"
| "entryType (ETaskStarted i n) = TaskStarted"
| "entryType (ETaskComplete i r) = TaskComplete"
| "entryType (ETaskFailed i e n) = TaskFailed"
| "entryType (ETaskCancel i) = TaskCancel"
| "entryType (ETaskRetry i a s) = TaskRetry"
| "entryType (ETaskDeadLetter i r) = TaskDeadLetter"
| "entryType (EWorkflowSubmit w d) = WorkflowSubmit"
| "entryType (EWorkflowAdvance w k) = WorkflowAdvance"
| "entryType EOther = Noop"

section \<open>Tool handlers\<close>

text \<open>Arguments of \<open>submit_task\<close>; a missing boolean is false.\<close>

record SubmitArgs =
  a_type :: TaskType
  a_command :: "string option"
  a_image :: "string option"
  a_prompt :: "string option"
  a_workingDirectory :: "string option"
  a_contextSummary :: "string option"
  a_requiresGpu :: bool
  a_avoidGamingNodes :: bool
  a_targetNode :: "string option"
  a_retryable :: "bool option"
  a_maxRetries :: "int option"
  a_priority :: "int option"

datatype 'a reply = Accepted 'a | Refused string

definition specField :: "string \<Rightarrow> string option \<Rightarrow> json_object" where
  "specField k v = (if truthy v then [(k, the v)] else [])"

definition submitPayload :: "string \<Rightarrow> string \<Rightarrow> SubmitArgs \<Rightarrow> TaskSubmitPayload" where
  "submitPayload me taskId a =
     \<lparr>s_taskId = taskId, s_type = a_type a,
      s_spec = specField ''command'' (a_command a) @ specField ''image'' (a_image a) @ specField ''prompt'' (a_prompt a)
               @ specField ''workingDirectory'' (a_workingDirectory a) @ specField ''contextSummary'' (a_contextSummary a),
      s_priority = Some (nullish (a_priority a) 0),
      s_constraints = (if a_requiresGpu a \<or> a_avoidGamingNodes a \<or> truthy (a_targetNode a)
         then Some \<lparr>requiresGpu = a_requiresGpu a, avoidGaming = a_avoidGamingNodes a, minMemoryMb = None,
                    minDiskGb = None, nodeLabels = None, targetNode = a_targetNode a\<rparr>
         else None),
      s_retryPolicy = (if a_retryable a \<noteq> None \<or> a_maxRetries a \<noteq> None
         then Some \<lparr>maxRetries = nullish (a_maxRetries a) 3, backoffMs = 1000, backoffMultiplier = 2,
                    retryable = nullish (a_retryable a) True\<rparr>
         else None),
      s_workflowId = None, s_taskKey = None, submitterNode = me\<rparr>"

definition handleSubmitTask :: "string \<Rightarrow> SubmitArgs \<Rightarrow> TaskPlugin \<Rightarrow> TaskPlugin \<times> string reply" where
  "handleSubmitTask taskId a p =
     (let (p1, ok) = propose (ETaskSubmit (submitPayload (tp_nodeId p) taskId a)) p
      in if \<not> ok then (p1, Refused ''Failed to append Raft entry (not leader?)'') else (p1, Accepted taskId))"

definition handleGetTaskResult :: "string \<Rightarrow> TaskPlugin \<Rightarrow> TaskRecord reply" where
  "handleGetTaskResult i p =
     (case getTask i (tp_db p) of None \<Rightarrow> Refused (''Task '' @ i @ '' not found'') | Some t \<Rightarrow> Accepted t)"

definition handleListTasks :: "TaskEngineState option \<Rightarrow> int option \<Rightarrow> int option \<Rightarrow> string option \<Rightarrow> string option
    \<Rightarrow> TaskPlugin \<Rightarrow> TaskRecord list" where
  "handleListTasks st cnt off wid node p =
     (let ts = listTasks st (Some (nullish cnt 50)) (Some (nullish off 0)) (tp_db p);
          ts1 = (if truthy wid then filter (\<lambda>t. workflow_id t = wid) ts else ts)
      in if truthy node then filter (\<lambda>t. assigned_node t = node) ts1 else ts1)"

definition handleCancelTask :: "string \<Rightarrow> TaskPlugin \<Rightarrow> TaskPlugin \<times> string reply" where
  "handleCancelTask i p =
     (case getTask i (tp_db p) of None \<Rightarrow> (p, Refused (''Task '' @ i @ '' not found''))
      | Some t \<Rightarrow>
          if t_state t \<in> {Completed, Cancelled, DeadLetter} then (p, Refused (''Task '' @ i @ '' is in terminal state''))
          else let (p1, ok) = propose (ETaskCancel i) p
               in if \<not> ok then (p1, Refused ''Failed to append Raft entry'') else (p1, Accepted i))"

text \<open>\<open>tasks.slice(0, limit)\<close> and \<open>Math.min(tasks.length, limit)\<close>.\<close>

definition handleListDeadLetterTasks :: "int option \<Rightarrow> TaskPlugin \<Rightarrow> TaskRecord list \<times> int" where
  "handleListDeadLetterTasks cnt p =
     (let n = nullish cnt 50; ts = getDeadLetterTasks (tp_db p)
      in (js_slice ts 0 n, min (int (length ts)) n))"

definition handleRetryDeadLetterTask :: "int \<Rightarrow> string \<Rightarrow> TaskPlugin \<Rightarrow> TaskPlugin \<times> string reply" where
  "handleRetryDeadLetterTask now i p =
     (case getTask i (tp_db p) of None \<Rightarrow> (p, Refused (''Task '' @ i @ '' not found''))
      | Some t \<Rightarrow>
          if t_state t \<noteq> DeadLetter then (p, Refused (''Task '' @ i @ '' is not in dead_letter state''))
          else let (p1, ok) = propose (ETaskRetry i 0 now) p
               in if \<not> ok then (p1, Refused ''Failed to append Raft entry'') else (p1, Accepted i))"

definition requeueEntries :: "int \<Rightarrow> TaskRecord list \<Rightarrow> TaskEntry list" where
  "requeueEntries now ts = map (\<lambda>t. ETaskRetry (t_id t) (attempt t) now) ts"

definition handleDrainNodeTasks :: "int \<Rightarrow> string \<Rightarrow> TaskPlugin \<Rightarrow> TaskPlugin \<times> nat \<times> nat" where
  "handleDrainNodeTasks now node p =
     (let ts = getTasksOnNode node (tp_db p); (p1, requeued) = proposeAll (requeueEntries now ts) p
      in (p1, requeued, length ts))"

fun submitEach :: "(nat \<Rightarrow> string) \<Rightarrow> nat \<Rightarrow> (string \<Rightarrow> TaskSubmitPayload) list \<Rightarrow> TaskPlugin \<Rightarrow> TaskPlugin \<times> string list" where
  "submitEach uuid k [] p = (p, [])"
| "submitEach uuid k (f # fs) p =
     (let (p1, ok) = propose (ETaskSubmit (f (uuid k))) p; (p2, is) = submitEach uuid (Suc k) fs p1
      in (p2, if ok then uuid k # is else is))"

definition noConstraints :: TaskConstraints where
  "noConstraints = \<lparr>requiresGpu = False, avoidGaming = False, minMemoryMb = None, minDiskGb = None,
     nodeLabels = None, targetNode = None\<rparr>"

definition handleRunDistributed :: "(nat \<Rightarrow> string) \<Rightarrow> string \<Rightarrow> string list option \<Rightarrow> NodeInfo list \<Rightarrow> TaskPlugin
    \<Rightarrow> TaskPlugin \<times> (string list \<times> string list) reply" where
  "handleRunDistributed uuid command targets active p =
     (let nodes = (case targets of
            Some (t # ts) \<Rightarrow> filter (\<lambda>n. nodeId n \<in> set (t # ts) \<or> hostname n \<in> set (t # ts)) active
          | _ \<Rightarrow> active)
      in if nodes = [] then (p, Refused ''No matching active nodes found'')
         else let (p1, is) = submitEach uuid 0
                    (map (\<lambda>n i. \<lparr>s_taskId = i, s_type = Shell, s_spec = [(''command'', command)], s_priority = Some 5,
                            s_constraints = Some (noConstraints\<lparr>targetNode := Some (nodeId n)\<rparr>), s_retryPolicy = None,
                            s_workflowId = None, s_taskKey = None, submitterNode = tp_nodeId p\<rparr>) nodes) p
              in (p1, Accepted (map nodeId nodes, is)))"

definition handleDispatchSubagents :: "(nat \<Rightarrow> string) \<Rightarrow> string \<Rightarrow> nat \<Rightarrow> string option \<Rightarrow> TaskPlugin \<Rightarrow> TaskPlugin \<times> string list" where
  "handleDispatchSubagents uuid prompt cnt summary p =
     submitEach uuid 0 (replicate cnt (\<lambda>i. \<lparr>s_taskId = i, s_type = Subagent,
        s_spec = (''prompt'', prompt) # (case summary of None \<Rightarrow> [] | Some s \<Rightarrow> [(''contextSummary'', s)]),
        s_priority = Some 5, s_constraints = None, s_retryPolicy = None, s_workflowId = None, s_taskKey = None,
        submitterNode = tp_nodeId p\<rparr>)) p"

definition handleSubmitWorkflow :: "string \<Rightarrow> string \<Rightarrow> (string \<times> WorkflowTaskDef) list \<Rightarrow> TaskPlugin \<Rightarrow> TaskPlugin \<times> string reply" where
  "handleSubmitWorkflow wid name tasks p =
     (let (p1, ok) = propose (EWorkflowSubmit wid \<lparr>def_name = name, def_tasks = tasks\<rparr>) p
      in if \<not> ok then (p1, Refused ''Failed to append Raft entry (not leader?)'') else (p1, Accepted wid))"

definition handleListWorkflows :: "int option \<Rightarrow> WorkflowState option \<Rightarrow> TaskPlugin \<Rightarrow> WorkflowRecord list" where
  "handleListWorkflows cnt st p = listWorkflows st (Some (nullish cnt 50)) (tp_db p)"

definition handleGetWorkflowStatus :: "string \<Rightarrow> TaskPlugin \<Rightarrow> (WorkflowRecord \<times> (string, TaskRecord) jsmap) reply" where
  "handleGetWorkflowStatus wid p =
     (case getWorkflow wid (tp_db p) of None \<Rightarrow> Refused (''Workflow '' @ wid @ '' not found'')
      | Some w \<Rightarrow> Accepted (w, fold (\<lambda>t m. jm_set (nullish (task_key t) (t_id t)) t m) (getWorkflowTasks wid (tp_db p)) []))"

section \<open>Committed entries\<close>

text \<open>What the leader does with the action of an applied entry.\<close>

fun handleStateMachineAction :: "StateMachineAction \<Rightarrow> TaskPlugin \<Rightarrow> TaskPlugin" where
  "handleStateMachineAction (ARetry i a s) p = fst (propose (ETaskRetry i a s) p)"
| "handleStateMachineAction (ADeadLetter i r) p = fst (propose (ETaskDeadLetter i r) p)"
| "handleStateMachineAction (ACancelRunning i n) p = p"
| "handleStateMachineAction (ASchedule i s) p = p"
| "handleStateMachineAction (AWorkflowAdvance i w) p = p"

text \<open>\<open>payload\<close> is \<open>None\<close> when the entry's data does not parse.\<close>

definition handleEntryCommitted :: "vm_eval \<Rightarrow> (nat \<Rightarrow> string) \<Rightarrow> int \<Rightarrow> TaskEntry option \<Rightarrow> TaskPlugin \<Rightarrow> TaskPlugin" where
  "handleEntryCommitted vm uuid now payload p =
     (case payload of None \<Rightarrow> p
      | Some e \<Rightarrow>
          if e = EOther then p
          else let (db, res) = applyEntry vm uuid now (tp_nodeId p) e (tp_db p); p1 = p\<lparr>tp_db := db\<rparr>
               in case res of
                    Inr (Some action) \<Rightarrow> if tp_leader p1 then handleStateMachineAction action p1 else p1
                  | _ \<Rightarrow> p1)"

section \<open>Scheduling\<close>

fun assignLoop :: "NodeInfo list \<Rightarrow> TaskRecord list \<Rightarrow> TaskPlugin \<Rightarrow> TaskPlugin \<times> (string \<times> NodeInfo) list" where
  "assignLoop active [] p = (p, [])"
| "assignLoop active (t # ts) p =
     (case pickNode DEFAULT_SCHEDULER_WEIGHTS (tp_counts p) active (constraints t) of
        None \<Rightarrow> assignLoop active ts p
      | Some n \<Rightarrow>
          let (p1, ok) = propose (ETaskAssign (t_id t) (nodeId n)) p; (p2, ds) = assignLoop active ts p1
          in (p2, if ok then (t_id t, n) # ds else ds))"

definition updateCounts :: "NodeInfo list \<Rightarrow> TaskPlugin \<Rightarrow> TaskPlugin" where
  "updateCounts active p =
     p\<lparr>tp_counts := fold (\<lambda>n m. setRunningTaskCount (nodeId n) (length (getTasksOnNode (nodeId n) (tp_db p))) m)
                     active (tp_counts p)\<rparr>"

text \<open>The second component: the dispatches started, by task and node.\<close>

definition runSchedulingCycle :: "int \<Rightarrow> NodeInfo list \<Rightarrow> TaskPlugin \<Rightarrow> TaskPlugin \<times> (string \<times> NodeInfo) list" where
  "runSchedulingCycle now active p =
     (if \<not> tp_leader p then (p, [])
      else let queued = getQueuedTasks now (tp_db p)
           in if queued = [] then (p, []) else assignLoop active queued (updateCounts active p))"

text \<open>
  What the agent's stream yields: responses, then the end or an exception with its
  message. \<open>Some None\<close> is a status without an exit code.
\<close>

record ExecResponse =
  x_output :: "(bool \<times> string) option"
  x_status :: "int option option"

definition collect :: "ExecResponse list \<Rightarrow> TaskResult" where
  "collect rs = fold (\<lambda>r acc.
      let acc1 = (case x_output r of None \<Rightarrow> acc
            | Some (isErr, d) \<Rightarrow> if isErr then acc\<lparr>stderr := stderr acc @ d\<rparr> else acc\<lparr>stdout := stdout acc @ d\<rparr>)
      in case x_status r of None \<Rightarrow> acc1 | Some c \<Rightarrow> acc1\<lparr>exitCode := nullish c 0\<rparr>)
    rs \<lparr>exitCode = 0, stdout = [], stderr = [], contextUpdate = None\<rparr>"

datatype AgentSpec = ShellSpec string string | SubagentSpec string string | ContainerSpec string string | NoSpec

definition agentSpec :: "TaskRecord \<Rightarrow> AgentSpec" where
  "agentSpec t =
     (let g = (\<lambda>k. map_of (spec t) k)
      in if t_type t = Shell \<and> truthy (g ''command'') then ShellSpec (the (g ''command'')) (nullish (g ''workingDirectory'') [])
         else if t_type t = Subagent \<and> truthy (g ''prompt'') then SubagentSpec (the (g ''prompt'')) (nullish (g ''contextSummary'') [])
         else if t_type t = Container \<and> truthy (g ''image'') then ContainerSpec (the (g ''image'')) (nullish (g ''command'') [])
         else NoSpec)"

definition dispatchToNode :: "(AgentSpec \<Rightarrow> ExecResponse list \<times> string option) \<Rightarrow> string \<Rightarrow> string \<Rightarrow> TaskPlugin \<Rightarrow> TaskPlugin" where
  "dispatchToNode agent i node p =
     (case getTask i (tp_db p) of None \<Rightarrow> p
      | Some t \<Rightarrow>
          let p1 = fst (propose (ETaskStarted i node) p)
          in case agent (agentSpec t) of
               (rs, None) \<Rightarrow> fst (propose (ETaskComplete i (collect rs)) p1)
             | (rs, Some msg) \<Rightarrow> fst (propose (ETaskFailed i msg node) p1))"

definition handleNodeOffline :: "int \<Rightarrow> string \<Rightarrow> TaskPlugin \<Rightarrow> TaskPlugin" where
  "handleNodeOffline now node p =
     (if \<not> tp_leader p then p else fst (proposeAll (requeueEntries now (getTasksOnNode node (tp_db p))) p))"

end
