(* ===== verification/TaskWorkflow.thy ===== *)
theory TaskWorkflow
  imports TaskEngineProps
begin

text \<open>
  What \<open>workflow_advance\<close> does to a workflow: it decides exactly the waiting tasks
  whose dependencies have all ended, leaves every other task alone, and closes the
  workflow only when all its tasks have ended; and where its single re-evaluation is
  not enough to carry skips along a chain.
\<close>

section \<open>One evaluation and its effect\<close>

abbreviation ids :: "(string \<times> string) list \<Rightarrow> string set" where
  "ids rs \<equiv> snd ` set rs"

lemma getTask_queueReady:
  "getTask k (queueReady now me s rs db) =
     (if k \<in> ids rs then map_option (\<lambda>t. t\<lparr>t_state := Queued\<rparr>) (getTask k db) else getTask k db)"
proof (induction rs arbitrary: db)
  case (Cons r rs)
  obtain a i where "r = (a, i)" by fastforce
  with Cons show ?case
    by (auto simp: queueReady_def option.map_comp comp_def)
qed (simp add: queueReady_def)

lemma getTask_skipTasks:
  "getTask k (skipTasks now me s rs db) =
     (if k \<in> ids rs then map_option (\<lambda>t. t\<lparr>t_state := Skipped, completed_at := Some now\<rparr>) (getTask k db) else getTask k db)"
proof (induction rs arbitrary: db)
  case (Cons r rs)
  obtain a i where "r = (a, i)" by fastforce
  with Cons show ?case
    by (auto simp: skipTasks_def option.map_comp comp_def)
qed (simp add: skipTasks_def)

lemma getTask_finishWorkflow [simp]: "getTask k (finishWorkflow now w s db) = getTask k db"
  by (simp add: getTask_def finishWorkflow_def)

lemma getTask_applyEvaluation:
  "getTask k (applyEvaluation now me w s1 s2 r db) =
     (let queued = (if k \<in> ids (readyTasks r) then map_option (\<lambda>t. t\<lparr>t_state := Queued\<rparr>) (getTask k db) else getTask k db)
      in if k \<in> ids (skippedTasks r) then map_option (\<lambda>t. t\<lparr>t_state := Skipped, completed_at := Some now\<rparr>) queued else queued)"
  by (simp add: applyEvaluation_def Let_def getTask_queueReady getTask_skipTasks)

lemma getTask_mem: "db_ok db \<Longrightarrow> t \<in> set (te_tasks db) \<Longrightarrow> getTask (t_id t) db = Some t"
  by (simp add: db_ok_def getTask_def sql_get_unique)

lemma getTask_in: "getTask k db = Some t \<Longrightarrow> t \<in> set (te_tasks db) \<and> t_id t = k"
  unfolding getTask_def by (rule sql_get_Some)

text \<open>
  The specification of the decision on a task of the workflow: it waits for a decision
  when it is pending and every edge into it leads from a task that has ended; it runs
  when every edge permits it, by its condition if it has one and otherwise by the
  completion of its source.
\<close>

definition edges :: "string \<Rightarrow> TaskDB \<Rightarrow> TaskRecord \<Rightarrow> TaskDependencyRecord list" where
  "edges w db t = filter (\<lambda>d. dep_workflow d = w \<and> Some (dep_task_key d) = task_key t) (te_task_dependencies db)"

definition waits :: "string \<Rightarrow> TaskDB \<Rightarrow> TaskRecord \<Rightarrow> bool" where
  "waits w db t \<longleftrightarrow> workflow_id t = Some w \<and> t_state t = Pending \<and> truthy (task_key t)
     \<and> list_all (\<lambda>d. depState (tasksOf w db) d \<in> Some ` {Completed, Skipped, Failed, Cancelled, DeadLetter}) (edges w db t)"

definition permits :: "vm_eval \<Rightarrow> string \<Rightarrow> TaskDB \<Rightarrow> TaskDependencyRecord \<Rightarrow> bool" where
  "permits vm w db d =
     (if truthy (dep_condition d)
      then evaluateCondition vm (dep_condition d) (parentResults (tasksOf w db)) (workflowContext w db)
      else depState (tasksOf w db) d = Some Completed)"

definition runs :: "vm_eval \<Rightarrow> string \<Rightarrow> TaskDB \<Rightarrow> TaskRecord \<Rightarrow> bool" where
  "runs vm w db t \<longleftrightarrow> list_all (permits vm w db) (edges w db t)"

lemma edges_taskDeps: "taskDeps (depsOf w db) t = edges w db t"
  by (simp add: taskDeps_def depsOf_def edges_def conj_commute)

lemma waits_evaluable: "waits w db t \<longleftrightarrow> workflow_id t = Some w \<and> evaluable (tasksOf w db) (depsOf w db) t"
proof -
  have "x \<in> Some ` {Completed, Skipped, Failed, Cancelled, DeadLetter} \<longleftrightarrow> (case x of None \<Rightarrow> False | Some s \<Rightarrow> terminal s)" for x
    by (cases x) (auto simp: terminal_def)
  then show ?thesis by (simp add: waits_def evaluable_def allDepsTerminal_def edges_taskDeps)
qed

lemma runs_shouldRun: "runs vm w db t \<longleftrightarrow> shouldRun vm (workflowContext w db) (tasksOf w db) (taskDeps (depsOf w db) t)"
  unfolding runs_def shouldRun_def edges_taskDeps list_all_iff list_ex_iff permits_def by auto

lemma evaluated_ids:
  "ids (readyTasks (evaluateWorkflow vm w db)) = t_id ` {u \<in> set (te_tasks db). waits w db u \<and> runs vm w db u}"
  "ids (skippedTasks (evaluateWorkflow vm w db)) = t_id ` {u \<in> set (te_tasks db). waits w db u \<and> \<not> runs vm w db u}"
  by (auto simp: evaluateWorkflow_def Let_def tasksOf_def image_image waits_evaluable runs_shouldRun)

lemma id_image:
  assumes "db_ok db" and "t \<in> set (te_tasks db)"
  shows "t_id t \<in> t_id ` {u \<in> set (te_tasks db). P u} \<longleftrightarrow> P t"
proof
  assume "t_id t \<in> t_id ` {u \<in> set (te_tasks db). P u}"
  then obtain u where u: "u \<in> set (te_tasks db)" "P u" "t_id u = t_id t" by auto
  have "u = t" using getTask_mem [OF assms(1) u(1)] getTask_mem [OF assms] u(3) by (metis option.inject)
  then show "P t" using u(2) by simp
qed (use assms in auto)

lemma evaluation_effect:
  assumes "db_ok db" and "t \<in> set (te_tasks db)"
  shows "getTask (t_id t) (applyEvaluation now me w s1 s2 (evaluateWorkflow vm w db) db) =
    Some (if waits w db t then (if runs vm w db t then t\<lparr>t_state := Queued\<rparr> else t\<lparr>t_state := Skipped, completed_at := Some now\<rparr>)
          else t)"
  by (simp add: getTask_applyEvaluation evaluated_ids id_image [OF assms] getTask_mem [OF assms] Let_def)

lemma db_ok_applyEvaluation: "db_ok db \<Longrightarrow> db_ok (applyEvaluation now me w s1 s2 r db)"
  by (simp add: applyEvaluation_def Let_def)

lemma evaluation_settled:
  assumes "db_ok db" and "t \<in> set (te_tasks db)" and "t_state t \<noteq> Pending \<or> workflow_id t \<noteq> Some w"
  shows "getTask (t_id t) (applyEvaluation now me w s1 s2 (evaluateWorkflow vm w db) db) = Some t"
  using assms by (auto simp: evaluation_effect waits_def)

section \<open>Advancing a workflow\<close>

text \<open>
  C8. \<open>workflow_advance\<close> touches nothing but waiting tasks of its workflow: every task
  that is not pending, or belongs elsewhere, keeps its row. A pending task all of whose
  dependencies have ended is decided: it becomes queued when the conditions of its
  edges hold (with no conditions: when all dependencies completed) and skipped otherwise.
\<close>

theorem workflow_advance_decides:
  assumes ok: "db_ok db" and t: "t \<in> set (te_tasks db)"
  shows "(t_state t \<noteq> Pending \<or> workflow_id t \<noteq> Some w \<longrightarrow>
      getTask (t_id t) (fst (handleWorkflowAdvance vm now me w db)) = Some t)
    \<and> (waits w db t \<longrightarrow> map_option t_state (getTask (t_id t) (fst (handleWorkflowAdvance vm now me w db)))
         = Some (if runs vm w db t then Queued else Skipped))"
proof -
  define db' where "db' = fst (handleWorkflowAdvance vm now me w db)"
  let ?r = "evaluateWorkflow vm w db"
  let ?d1 = "applyEvaluation now me w ''workflow_advance: ready'' ''condition not met'' ?r db"
  let ?d2 = "applyEvaluation now me w ''workflow_advance: cascade ready'' ''cascade: condition not met'' (evaluateWorkflow vm w ?d1) ?d1"
  have db': "db' = ?d1 \<or> db' = ?d2" by (simp add: db'_def handleWorkflowAdvance_def Let_def)
  have keep: "getTask (t_id u) db' = Some u"
    if "getTask (t_id u) ?d1 = Some u" "t_state u \<noteq> Pending \<or> workflow_id u \<noteq> Some w" for u
    using db' that evaluation_settled [OF db_ok_applyEvaluation [OF ok]] getTask_in [OF that(1)] by auto
  show ?thesis unfolding db'_def [symmetric]
  proof (intro conjI impI)
    assume "t_state t \<noteq> Pending \<or> workflow_id t \<noteq> Some w"
    with keep evaluation_settled [OF ok t] show "getTask (t_id t) db' = Some t" by blast
  next
    assume "waits w db t"
    then show "map_option t_state (getTask (t_id t) db') = Some (if runs vm w db t then Queued else Skipped)"
      using evaluation_effect [OF ok t, of now me w "''workflow_advance: ready''" "''condition not met''" vm]
        keep [of "t\<lparr>t_state := Queued\<rparr>"] keep [of "t\<lparr>t_state := Skipped, completed_at := Some now\<rparr>"]
      by (auto split: if_splits)
  qed
qed

definition ex_uuid :: "nat \<Rightarrow> string" where
  "ex_uuid k = ''u'' @ show_nat k"

text \<open>A chain of tasks, each depending on the one before it, whose first task has ended.\<close>

definition ex_chain :: "TaskEntry \<Rightarrow> TaskDB" where
  "ex_chain e = applyLog (\<lambda>_ _ _. None) ''n''
     [((0, ex_uuid), EWorkflowSubmit ''w'' \<lparr>def_name = ''w'', def_tasks =
         [(''A'', ex_taskDef None), (''B'', ex_taskDef (Some [''A''])), (''C'', ex_taskDef (Some [''B'']))]\<rparr>),
      ((0, ex_uuid), e)] empty_db"

definition ex_done :: TaskDB where
  "ex_done = ex_chain (ETaskComplete ''u0'' \<lparr>exitCode = 0, stdout = [], stderr = [], contextUpdate = None\<rparr>)"

theorem workflow_advance_decides_witness:
  "map_option t_state (getTask (t_id (te_tasks ex_done ! 1)) (fst (handleWorkflowAdvance (\<lambda>_ _ _. None) 5 ''n'' ''w'' ex_done)))
   = Some Queued"
proof -
  have "db_ok ex_done" "1 < length (te_tasks ex_done)" by code_simp+
  moreover have "waits ''w'' ex_done (te_tasks ex_done ! 1)" "runs (\<lambda>_ _ _. None) ''w'' ex_done (te_tasks ex_done ! 1)"
    by code_simp+
  ultimately show ?thesis
    using workflow_advance_decides [of ex_done "te_tasks ex_done ! 1" "''w''" "\<lambda>_ _ _. None" 5 "''n''"] by simp
qed

lemma getWorkflow_applyEvaluation:
  "getWorkflow w (applyEvaluation now me w s1 s2 r db) =
     (if workflowComplete r then map_option (\<lambda>x. x\<lparr>w_state := workflowState r, w_completed_at := Some now\<rparr>) (getWorkflow w db)
      else getWorkflow w db)"
proof -
  have "te_workflows (queueReady now me s rs d) = te_workflows d" for s rs d
    by (induction rs arbitrary: d) (auto simp: queueReady_def)
  moreover have "te_workflows (skipTasks now me s rs d) = te_workflows d" for s rs d
    by (induction rs arbitrary: d) (auto simp: skipTasks_def)
  ultimately show ?thesis
    by (simp add: applyEvaluation_def Let_def getWorkflow_def finishWorkflow_def table.upd_sel)
qed

lemma complete_unchanged:
  assumes "workflowComplete (evaluateWorkflow vm w db)"
  shows "te_tasks (applyEvaluation now me w s1 s2 (evaluateWorkflow vm w db) db) = te_tasks db"
    and "\<forall>t\<in>set (tasksOf w db). terminal (t_state t)"
    and "workflowState (evaluateWorkflow vm w db) =
      (if \<exists>t\<in>set (tasksOf w db). t_state t \<in> {Failed, DeadLetter} then WfFailed else WfCompleted)"
proof -
  let ?r = "evaluateWorkflow vm w db"
  show all: "\<forall>t\<in>set (tasksOf w db). terminal (t_state t)"
    using assms by (simp add: evaluateWorkflow_def Let_def list_all_iff)
  then have "filter (evaluable (tasksOf w db) (depsOf w db)) (tasksOf w db) = []"
    by (auto simp: filter_empty_conv evaluable_def terminal_def)
  then have "readyTasks ?r = []" "skippedTasks ?r = []" by (simp_all add: evaluateWorkflow_def Let_def filter_empty_conv)
  then show "te_tasks (applyEvaluation now me w s1 s2 ?r db) = te_tasks db"
    by (simp add: applyEvaluation_def queueReady_def skipTasks_def finishWorkflow_def)
  show "workflowState ?r = (if \<exists>t\<in>set (tasksOf w db). t_state t \<in> {Failed, DeadLetter} then WfFailed else WfCompleted)"
    using all by (auto simp: evaluateWorkflow_def Let_def list_all_iff list_ex_iff)
qed

lemma tasksOf_cong: "te_tasks d = te_tasks d' \<Longrightarrow> tasksOf w d = tasksOf w d'"
  by (simp add: tasksOf_def)

text \<open>
  A workflow is closed only when it is over: if \<open>workflow_advance\<close> changes the
  state of its workflow, every task of the workflow has ended, and the new state is
  failed exactly when some task failed or was dead-lettered, and completed otherwise.
\<close>

theorem workflow_closed_only_when_over:
  assumes before: "getWorkflow w db = Some x"
    and after: "getWorkflow w (fst (handleWorkflowAdvance vm now me w db)) = Some y" and changed: "w_state y \<noteq> w_state x"
  shows "(\<forall>t\<in>set (tasksOf w (fst (handleWorkflowAdvance vm now me w db))). terminal (t_state t))
    \<and> w_state y = (if \<exists>t\<in>set (tasksOf w (fst (handleWorkflowAdvance vm now me w db))). t_state t \<in> {Failed, DeadLetter}
                   then WfFailed else WfCompleted)"
proof -
  define db' where "db' = fst (handleWorkflowAdvance vm now me w db)"
  let ?r = "evaluateWorkflow vm w db"
  let ?d1 = "applyEvaluation now me w ''workflow_advance: ready'' ''condition not met'' ?r db"
  let ?c = "evaluateWorkflow vm w ?d1"
  let ?d2 = "applyEvaluation now me w ''workflow_advance: cascade ready'' ''cascade: condition not met'' ?c ?d1"
  have closed: "w_state y = workflowState (evaluateWorkflow vm w d) \<and> workflowComplete (evaluateWorkflow vm w d)"
    if "getWorkflow w (applyEvaluation now me w s1 s2 (evaluateWorkflow vm w d) d) = Some y" "getWorkflow w d = Some x" for d s1 s2
    using that changed by (auto simp: getWorkflow_applyEvaluation split: if_splits)
  show ?thesis unfolding db'_def [symmetric]
  proof (cases "skippedTasks ?r \<noteq> [] \<and> \<not> workflowComplete ?r")
    case True
    then have db': "db' = ?d2" by (simp add: db'_def handleWorkflowAdvance_def Let_def)
    have "getWorkflow w ?d1 = Some x" using True before by (simp add: getWorkflow_applyEvaluation)
    with closed after db' have c: "w_state y = workflowState ?c" "workflowComplete ?c" by (auto simp: db'_def)
    show "(\<forall>t\<in>set (tasksOf w db'). terminal (t_state t)) \<and> w_state y =
        (if \<exists>t\<in>set (tasksOf w db'). t_state t \<in> {Failed, DeadLetter} then WfFailed else WfCompleted)"
      using complete_unchanged(2,3) [OF c(2)] tasksOf_cong [OF complete_unchanged(1) [OF c(2)]] c(1) unfolding db' by simp
  next
    case False
    then have db': "db' = ?d1" by (auto simp: db'_def handleWorkflowAdvance_def Let_def)
    with closed [OF _ before] after have c: "w_state y = workflowState ?r" "workflowComplete ?r" by (auto simp: db'_def)
    show "(\<forall>t\<in>set (tasksOf w db'). terminal (t_state t)) \<and> w_state y =
        (if \<exists>t\<in>set (tasksOf w db'). t_state t \<in> {Failed, DeadLetter} then WfFailed else WfCompleted)"
      using complete_unchanged(2,3) [OF c(2)] tasksOf_cong [OF complete_unchanged(1) [OF c(2)]] c(1) unfolding db' by simp
  qed
qed

definition ex_over :: TaskDB where
  "ex_over = applyLog (\<lambda>_ _ _. None) ''n'' [((0, ex_uuid), ex_single), ((0, ex_uuid), ETaskDeadLetter ''u0'' ''r'')] empty_db"

theorem workflow_closed_only_when_over_witness:
  "list_all (\<lambda>t. terminal (t_state t)) (tasksOf ''w'' (fst (handleWorkflowAdvance (\<lambda>_ _ _. None) 5 ''n'' ''w'' ex_over)))"
proof -
  let ?d = "fst (handleWorkflowAdvance (\<lambda>_ _ _. None) 5 ''n'' ''w'' ex_over)"
  have "map_option w_state (getWorkflow ''w'' ex_over) = Some WfRunning" "map_option w_state (getWorkflow ''w'' ?d) = Some WfFailed"
    by code_simp+
  then obtain x y where "getWorkflow ''w'' ex_over = Some x" "getWorkflow ''w'' ?d = Some y" "w_state y \<noteq> w_state x"
    by auto
  from workflow_closed_only_when_over [OF this] show ?thesis unfolding list_all_iff by blast
qed

text \<open>
  Skips do not travel far enough: in the chain A, B, C with A failed for good, one
  \<open>workflow_advance\<close> skips B and, in its single re-evaluation, C, so every task has
  ended; but the workflow's state was computed before the last skip and stays running,
  and no further entry is produced for it.
\<close>

theorem skip_chain_leaves_workflow_running:
  "(case handleWorkflowAdvance (\<lambda>_ _ _. None) 5 ''n'' ''w'' (ex_chain (ETaskDeadLetter ''u0'' ''r'')) of (db', res) \<Rightarrow>
      task_states db' = [(''u0'', DeadLetter), (''u1'', Skipped), (''u2'', Skipped)]
      \<and> map_option w_state (getWorkflow ''w'' db') = Some WfRunning \<and> res = Inr None)"
  by code_simp

end
