(* ===== verification/TaskPluginProps.thy ===== *)
theory TaskPluginProps
  imports TaskPlugin TaskWorkflow
begin

text \<open>
  Properties of the task engine around its state machine: the retry loop ends in a
  dead letter, a node that goes offline keeps no task, a scheduling cycle assigns each
  due task at most once and only to a suitable active node; and the places where the
  engine does not do what it is meant to do.
\<close>

section \<open>The retry loop\<close>

text \<open>
  One failure: the committed \<open>task_failed\<close>, and the entry the leader proposes in
  answer, committed next.
\<close>

definition failRound :: "vm_eval \<Rightarrow> (nat \<Rightarrow> string) \<Rightarrow> int \<Rightarrow> string \<Rightarrow> string \<Rightarrow> string \<Rightarrow> TaskPlugin \<Rightarrow> TaskPlugin" where
  "failRound vm uuid now i err node p =
     (let p1 = handleEntryCommitted vm uuid now (Some (ETaskFailed i err node)) p
      in handleEntryCommitted vm uuid now (Some (last (tp_proposed p1))) p1)"

definition policyOf :: "TaskRecord \<Rightarrow> RetryPolicy" where
  "policyOf t = nullish (retry_policy t) DEFAULT_RETRY_POLICY"

lemma failRound_retry:
  assumes "tp_leader p" and "getTask i (tp_db p) = Some t"
    and "retryable (policyOf t)" "int (attempt t) < maxRetries (policyOf t)"
    and "toDate (of_int now + retryBackoff (policyOf t) (attempt t)) = Some s"
  shows "tp_leader (failRound vm uuid now i err node p)"
    and "getTask i (tp_db (failRound vm uuid now i err node p)) =
      Some (t\<lparr>t_state := Queued, attempt := attempt t + 1, assigned_node := None, assigned_at := None, started_at := None,
              completed_at := None, t_error := None, t_result := None, scheduled_after := Some s\<rparr>)"
  using assms
  by (auto simp: failRound_def handleEntryCommitted_def handleTaskFailed_def handleTaskRetry_def policyOf_def propose_def Let_def)

lemma failRound_dead:
  assumes "tp_leader p" and "getTask i (tp_db p) = Some t"
    and "\<not> (retryable (policyOf t) \<and> int (attempt t) < maxRetries (policyOf t))"
  shows "map_option t_state (getTask i (tp_db (failRound vm uuid now i err node p))) = Some DeadLetter"
  using assms
  by (auto simp: failRound_def handleEntryCommitted_def handleTaskFailed_def handleTaskDeadLetter_def policyOf_def propose_def Let_def)

text \<open>Failures one after another, the k-th at time \<open>now k\<close>.\<close>

primrec failRounds :: "vm_eval \<Rightarrow> (nat \<Rightarrow> string) \<Rightarrow> (nat \<Rightarrow> int) \<Rightarrow> string \<Rightarrow> string \<Rightarrow> string \<Rightarrow> nat \<Rightarrow> TaskPlugin \<Rightarrow> TaskPlugin" where
  "failRounds vm uuid now i err node 0 p = p"
| "failRounds vm uuid now i err node (Suc k) p = failRound vm uuid (now k) i err node (failRounds vm uuid now i err node k p)"

lemma failRounds_retry:
  assumes "tp_leader p" and "getTask i (tp_db p) = Some t" "attempt t = 0" "retryable (policyOf t)"
    and "\<And>k. int k < maxRetries (policyOf t) \<Longrightarrow> toDate (of_int (now k) + retryBackoff (policyOf t) k) \<noteq> None"
    and "int k \<le> maxRetries (policyOf t)"
  shows "tp_leader (failRounds vm uuid now i err node k p)
    \<and> (\<exists>t'. getTask i (tp_db (failRounds vm uuid now i err node k p)) = Some t' \<and> attempt t' = k
         \<and> policyOf t' = policyOf t \<and> (0 < k \<longrightarrow> t_state t' = Queued))"
  using assms(6)
proof (induction k)
  case 0
  then show ?case using assms by simp
next
  case (Suc k)
  let ?p = "failRounds vm uuid now i err node k p"
  have le: "int k \<le> maxRetries (policyOf t)" using Suc.prems by simp
  obtain t' where t': "getTask i (tp_db ?p) = Some t'" "attempt t' = k" "policyOf t' = policyOf t" and l: "tp_leader ?p"
    using Suc.IH [OF le] by blast
  obtain s where s: "toDate (of_int (now k) + retryBackoff (policyOf t') (attempt t')) = Some s"
    using assms(5) [of k] Suc.prems t' by auto
  have r: "retryable (policyOf t')" "int (attempt t') < maxRetries (policyOf t')" using assms(4) Suc.prems t' by auto
  from failRound_retry [OF l t'(1) r s] t' show ?case by (simp add: policyOf_def)
qed

text \<open>
  C9. A task that keeps failing is retried exactly as often as its policy says and then
  dead-lettered: on the leader, after \<open>k\<close> failures with \<open>k\<close> at most \<open>maxRetries\<close> the
  task is queued again with attempt \<open>k\<close>, and the next failure after \<open>maxRetries\<close>
  makes it a dead letter (as long as the back-off times stay within the range of dates).
\<close>

theorem failing_task_dead_letters:
  assumes leader: "tp_leader p" and task: "getTask i (tp_db p) = Some t" "attempt t = 0"
    and pol: "retryable (policyOf t)" "maxRetries (policyOf t) = int m"
    and times: "\<And>k. k < m \<Longrightarrow> toDate (of_int (now k) + retryBackoff (policyOf t) k) \<noteq> None"
  shows "(\<forall>k. 0 < k \<and> k \<le> m \<longrightarrow>
        (\<exists>t'. getTask i (tp_db (failRounds vm uuid now i err node k p)) = Some t' \<and> t_state t' = Queued \<and> attempt t' = k))
    \<and> map_option t_state (getTask i (tp_db (failRounds vm uuid now i err node (m + 1) p))) = Some DeadLetter"
proof -
  note r = failRounds_retry [OF leader task pol(1), of now _ vm uuid err node]
  have dates: "int k < maxRetries (policyOf t) \<Longrightarrow> toDate (of_int (now k) + retryBackoff (policyOf t) k) \<noteq> None" for k
    using times pol(2) by simp
  obtain t' where "getTask i (tp_db (failRounds vm uuid now i err node m p)) = Some t'" "attempt t' = m" "policyOf t' = policyOf t"
    and "tp_leader (failRounds vm uuid now i err node m p)"
    using r [OF dates, of m] pol(2) by auto
  then have "map_option t_state (getTask i (tp_db (failRounds vm uuid now i err node (m + 1) p))) = Some DeadLetter"
    using failRound_dead [of "failRounds vm uuid now i err node m p" i t' vm uuid "now m" err node] pol(2) by simp
  moreover have "\<exists>t'. getTask i (tp_db (failRounds vm uuid now i err node k p)) = Some t' \<and> t_state t' = Queued \<and> attempt t' = k"
    if "0 < k" "k \<le> m" for k
    using r [OF dates, of k] that pol(2) by auto
  ultimately show ?thesis by blast
qed

definition ex_plugin :: "TaskDB \<Rightarrow> TaskPlugin" where
  "ex_plugin db = \<lparr>tp_nodeId = ''l'', tp_leader = True, tp_proposed = [], tp_db = db, tp_counts = []\<rparr>"

definition ex_task :: TaskRecord where
  "ex_task = newTask ''t'' None None Shell Running 0 [] None None 0"

definition ex_taskDB :: TaskDB where
  "ex_taskDB = empty_db\<lparr>te_tasks := [ex_task]\<rparr>"

lemma ex_task_defaults [simp]:
  "getTask ''t'' (tp_db (ex_plugin ex_taskDB)) = Some ex_task" "attempt ex_task = 0" "policyOf ex_task = DEFAULT_RETRY_POLICY"
  "tp_leader (ex_plugin db)" "t_state ex_task = Running"
  by (simp_all add: ex_plugin_def ex_taskDB_def empty_db_def getTask_def sql_get_def ex_task_def newTask_def policyOf_def nullish_def)

theorem failing_task_dead_letters_witness:
  "map_option t_state (getTask ''t'' (tp_db (failRounds (\<lambda>_ _ _. None) (\<lambda>_. '''') (\<lambda>k. 0) ''t'' ''boom'' ''n'' 4 (ex_plugin ex_taskDB))))
   = Some DeadLetter"
proof -
  have "k < 3 \<Longrightarrow> toDate (of_int 0 + retryBackoff (policyOf ex_task) k) \<noteq> None" for k
    by (auto simp: less_Suc_eq numeral_3_eq_3 toDate_def retryBackoff_def DEFAULT_RETRY_POLICY_def Let_def)
  from failing_task_dead_letters [of "ex_plugin ex_taskDB" "''t''" ex_task 3 "\<lambda>k. 0", OF _ _ _ _ _ this]
  show ?thesis by (simp add: DEFAULT_RETRY_POLICY_def)
qed

text \<open>
  Cancelling does not hold: when a cancelled task that was running reports a
  failure (its execution is not stopped), the leader retries it, and the cancelled task
  is queued again.
\<close>

theorem cancelled_task_revived:
  assumes "tp_leader p" and "getTask i (tp_db p) = Some t" "t_state t = Cancelled"
    and "retryable (policyOf t)" "int (attempt t) < maxRetries (policyOf t)"
    and "toDate (of_int now + retryBackoff (policyOf t) (attempt t)) \<noteq> None"
  shows "map_option t_state (getTask i (tp_db (failRound vm uuid now i err node p))) = Some Queued"
  using assms failRound_retry(2) [OF assms(1,2,4,5)] by fastforce

theorem cancelled_task_revived_witness:
  "map_option t_state (getTask ''t'' (tp_db (failRound (\<lambda>_ _ _. None) (\<lambda>_. '''') 0 ''t'' ''killed'' ''n''
     (handleEntryCommitted (\<lambda>_ _ _. None) (\<lambda>_. '''') 0 (Some (ETaskCancel ''t'')) (ex_plugin ex_taskDB))))) = Some Queued"
proof -
  let ?p = "handleEntryCommitted (\<lambda>_ _ _. None) (\<lambda>_. '''') 0 (Some (ETaskCancel ''t'')) (ex_plugin ex_taskDB)"
  let ?t = "ex_task\<lparr>t_state := Cancelled, completed_at := Some 0\<rparr>"
  have g: "getTask ''t'' (tp_db ?p) = Some ?t" "tp_leader ?p"
    using ex_task_defaults(1)
    by (auto simp: handleEntryCommitted_def handleTaskCancel_def ex_task_def newTask_def truthy_def Let_def)
  have pol: "policyOf ?t = DEFAULT_RETRY_POLICY" using ex_task_defaults(3) by (simp add: policyOf_def)
  have "toDate (of_int 0 + retryBackoff (policyOf ?t) (attempt ?t)) \<noteq> None"
    unfolding pol by (simp add: toDate_def retryBackoff_def DEFAULT_RETRY_POLICY_def)
  from cancelled_task_revived [OF g(2,1) _ _ _ this] show ?thesis
    by (simp add: pol DEFAULT_RETRY_POLICY_def)
qed

section \<open>A node that goes offline\<close>

definition requeued :: "int \<Rightarrow> TaskRecord \<Rightarrow> TaskRecord" where
  "requeued now t = t\<lparr>t_state := Queued, assigned_node := None, assigned_at := None, started_at := None,
     completed_at := None, t_error := None, t_result := None, scheduled_after := Some now\<rparr>"

lemma applyLog_simps [simp]:
  "applyLog vm me [] db = db"
  "applyLog vm me (((now, u), e) # es) db = applyLog vm me es (fst (applyEntry vm u now me e db))"
  by (simp_all add: applyLog_def)

lemma byPriority_set [simp]: "set (byPriority ts) = set ts"
  by (simp add: byPriority_def)

lemma requeued_id [simp]: "t_id (requeued s t) = t_id t"
  by (simp add: requeued_def)

lemma retry_requeued:
  "t\<lparr>t_state := Queued, attempt := a, assigned_node := None, assigned_at := None, started_at := None,
     completed_at := None, t_error := None, t_result := None, scheduled_after := Some s\<rparr> = (requeued s t)\<lparr>attempt := a\<rparr>"
  by (cases t) (simp add: requeued_def)

lemma getTask_retry:
  "getTask k (fst (handleTaskRetry now me i a s db)) =
     (if k = i then map_option (\<lambda>t. (requeued s t)\<lparr>attempt := a\<rparr>) (getTask i db) else getTask k db)"
  by (simp add: handleTaskRetry_def retry_requeued)

lemma getTask_requeue:
  assumes "\<forall>t\<in>set ts. getTask (t_id t) db = Some t"
  shows "getTask k (applyLog vm me (map (\<lambda>e. ((now, u), e)) (requeueEntries s ts)) db) =
    (if k \<in> t_id ` set ts then map_option (requeued s) (getTask k db) else getTask k db)"
  using assms
proof (induction ts arbitrary: db k rule: rev_induct)
  case (snoc t ts)
  let ?db = "applyLog vm me (map (\<lambda>e. ((now, u), e)) (requeueEntries s ts)) db"
  have IH: "getTask k ?db = (if k \<in> t_id ` set ts then map_option (requeued s) (getTask k db) else getTask k db)" for k
    using snoc by simp
  have t: "getTask (t_id t) db = Some t" using snoc.prems by simp
  have "requeued s (requeued s t) = requeued s t" "attempt (requeued s t) = attempt t" by (simp_all add: requeued_def)
  moreover have "(requeued s t)\<lparr>attempt := attempt t\<rparr> = requeued s t" by (simp add: requeued_def)
  ultimately have "getTask k (fst (handleTaskRetry now me (t_id t) (attempt t) s ?db)) =
    (if k \<in> t_id ` set (ts @ [t]) then map_option (requeued s) (getTask k db) else getTask k db)"
    using t by (auto simp: getTask_retry IH)
  then show ?case by (simp add: requeueEntries_def applyLog_def)
qed (simp add: requeueEntries_def)

text \<open>
  C10. When a node goes offline the leader re-queues exactly the tasks that were
  assigned to it or running on it: once the proposed entries are applied, each of them
  is queued, unassigned and has kept its attempt count, and every other task is as before.
\<close>

theorem offline_node_requeued:
  assumes leader: "tp_leader p" and ok: "db_ok (tp_db p)" and t: "t \<in> set (te_tasks (tp_db p))"
    and new: "tp_proposed (handleNodeOffline s node p) = tp_proposed p @ es"
  shows "getTask (t_id t) (applyLog vm me (map (\<lambda>e. ((now, u), e)) es) (tp_db p)) =
    Some (if onNode node t then requeued s t else t)"
proof -
  let ?ts = "getTasksOnNode node (tp_db p)"
  have es: "es = requeueEntries s ?ts"
    using new leader proposeAll_leader [OF leader] by (simp add: handleNodeOffline_def)
  have mem: "u \<in> set ?ts \<longleftrightarrow> u \<in> set (te_tasks (tp_db p)) \<and> onNode node u" for u
    by (auto simp: getTasksOnNode_def)
  have "\<forall>u\<in>set ?ts. getTask (t_id u) (tp_db p) = Some u" using getTask_mem [OF ok] mem by blast
  note g = getTask_requeue [OF this, of "t_id t" vm me now u s]
  have "t_id ` set ?ts = t_id ` {u \<in> set (te_tasks (tp_db p)). onNode node u}" using mem by auto
  with id_image [OF ok t, of "onNode node"] g getTask_mem [OF ok t] show ?thesis by (simp add: es)
qed

definition ex_assigned :: TaskDB where
  "ex_assigned = empty_db\<lparr>te_tasks := [ex_task\<lparr>assigned_node := Some ''n''\<rparr>]\<rparr>"

theorem offline_node_requeued_witness:
  "getTask ''t'' (applyLog (\<lambda>_ _ _. None) ''l'' [((0, \<lambda>_. ''''), ETaskRetry ''t'' 0 7)] ex_assigned)
   = Some (requeued 7 (ex_task\<lparr>assigned_node := Some ''n''\<rparr>))"
proof -
  let ?p = "ex_plugin ex_assigned"
  have "te_tasks (tp_db ?p) = [ex_task\<lparr>assigned_node := Some ''n''\<rparr>]" by (simp add: ex_plugin_def ex_assigned_def)
  moreover have "t_id ex_task = ''t''" by (simp add: ex_task_def newTask_def)
  ultimately have "db_ok (tp_db ?p)" "ex_task\<lparr>assigned_node := Some ''n''\<rparr> \<in> set (te_tasks (tp_db ?p))"
    "onNode ''n'' (ex_task\<lparr>assigned_node := Some ''n''\<rparr>)"
    "tp_proposed (handleNodeOffline 7 ''n'' ?p) = tp_proposed ?p @ [ETaskRetry ''t'' 0 7]"
    by (simp_all add: db_ok_def unique_def onNode_def handleNodeOffline_def getTasksOnNode_def byPriority_def
        requeueEntries_def propose_def ex_plugin_def ex_assigned_def empty_db_def)
  from offline_node_requeued [OF _ this(1,2,4), of "\<lambda>_ _ _. None" "''l''" 0 "\<lambda>_. ''''"] this(3)
  show ?thesis by (simp add: ex_plugin_def ex_task_def newTask_def)
qed

section \<open>A scheduling cycle\<close>

lemma propose_leader: "tp_leader p \<Longrightarrow> propose e p = (p\<lparr>tp_proposed := tp_proposed p @ [e]\<rparr>, True)"
  by (simp add: propose_def)

text \<open>The assignments a list of tasks gives: each task with the node chosen for it.\<close>

definition assignments :: "counts \<Rightarrow> NodeInfo list \<Rightarrow> TaskRecord list \<Rightarrow> (string \<times> NodeInfo) list" where
  "assignments m active ts =
     List.map_filter (\<lambda>t. map_option (\<lambda>n. (t_id t, n)) (pickNode DEFAULT_SCHEDULER_WEIGHTS m active (constraints t))) ts"

definition assignEntry :: "string \<times> NodeInfo \<Rightarrow> TaskEntry" where
  "assignEntry = (\<lambda>(i, n). ETaskAssign i (nodeId n))"

lemma assignLoop_leader:
  "tp_leader p \<Longrightarrow> assignLoop active ts p =
     (p\<lparr>tp_proposed := tp_proposed p @ map assignEntry (assignments (tp_counts p) active ts)\<rparr>, assignments (tp_counts p) active ts)"
proof (induction ts arbitrary: p)
  case (Cons t ts)
  then show ?case
    by (auto simp: propose_leader assignments_def assignEntry_def List.map_filter_simps split: option.splits)
qed (simp add: List.map_filter_simps assignments_def)

lemma scheduling_cycle_shape:
  "tp_proposed (fst (runSchedulingCycle now active p)) =
      tp_proposed p @ map assignEntry (snd (runSchedulingCycle now active p))
    \<and> snd (runSchedulingCycle now active p) =
        (if tp_leader p then assignments (tp_counts (updateCounts active p)) active (getQueuedTasks now (tp_db p)) else [])"
proof -
  have "tp_leader (updateCounts active p) = tp_leader p" "tp_proposed (updateCounts active p) = tp_proposed p"
    by (simp_all add: updateCounts_def)
  then show ?thesis
    unfolding runSchedulingCycle_def Let_def
    using assignLoop_leader [of "updateCounts active p" active "getQueuedTasks now (tp_db p)"]
    by (auto simp: assignments_def List.map_filter_simps)
qed

text \<open>
  A scheduling cycle of the leader proposes, in the order of the queue (priority
  first, then age), one assignment for each due task for which the scheduler finds a
  node, to that node, and starts exactly the dispatches that belong to them; it
  proposes nothing else, and a node that does not lead proposes nothing.
\<close>

theorem scheduling_cycle_assigns:
  "tp_proposed (fst (runSchedulingCycle now active p)) =
      tp_proposed p @ map assignEntry (snd (runSchedulingCycle now active p))
    \<and> snd (runSchedulingCycle now active p) =
        (if tp_leader p then assignments (tp_counts (updateCounts active p)) active (getQueuedTasks now (tp_db p)) else [])
    \<and> sorted (map (\<lambda>t. (- priority t, created_at t)) (getQueuedTasks now (tp_db p)))
    \<and> set (getQueuedTasks now (tp_db p)) = {t \<in> set (te_tasks (tp_db p)). due now t}"
proof -
  have "sorted (map (\<lambda>t. (- priority t, created_at t)) (getQueuedTasks now (tp_db p)))"
    by (simp add: getQueuedTasks_def byPriority_def)
  then show ?thesis using scheduling_cycle_shape [of now active p] by (auto simp: getQueuedTasks_def)
qed

section \<open>Workflows beyond their first tasks\<close>

datatype PluginOp = OpSubmit string SubmitArgs | OpCancel string | OpRetryDead int string | OpDrain int string
  | OpRunDistributed "nat \<Rightarrow> string" string "string list option" "NodeInfo list"
  | OpSubagents "nat \<Rightarrow> string" string nat "string option"
  | OpSubmitWorkflow string string "(string \<times> WorkflowTaskDef) list"
  | OpCommitted vm_eval "nat \<Rightarrow> string" int "TaskEntry option"
  | OpCycle int "NodeInfo list" | OpDispatch "AgentSpec \<Rightarrow> ExecResponse list \<times> string option" string string
  | OpOffline int string | OpLeadership bool

fun plugin_op :: "PluginOp \<Rightarrow> TaskPlugin \<Rightarrow> TaskPlugin" where
  "plugin_op (OpSubmit i a) p = fst (handleSubmitTask i a p)"
| "plugin_op (OpCancel i) p = fst (handleCancelTask i p)"
| "plugin_op (OpRetryDead now i) p = fst (handleRetryDeadLetterTask now i p)"
| "plugin_op (OpDrain now n) p = fst (handleDrainNodeTasks now n p)"
| "plugin_op (OpRunDistributed u c ts act) p = fst (handleRunDistributed u c ts act p)"
| "plugin_op (OpSubagents u pr k s) p = fst (handleDispatchSubagents u pr k s p)"
| "plugin_op (OpSubmitWorkflow w n ts) p = fst (handleSubmitWorkflow w n ts p)"
| "plugin_op (OpCommitted vm u now e) p = handleEntryCommitted vm u now e p"
| "plugin_op (OpCycle now act) p = fst (runSchedulingCycle now act p)"
| "plugin_op (OpDispatch ag i n) p = dispatchToNode ag i n p"
| "plugin_op (OpOffline now n) p = handleNodeOffline now n p"
| "plugin_op (OpLeadership b) p = p\<lparr>tp_leader := b\<rparr>"

fun is_advance :: "TaskEntry \<Rightarrow> bool" where
  "is_advance (EWorkflowAdvance w k) = True"
| "is_advance _ = False"

definition no_advance :: "TaskPlugin \<Rightarrow> bool" where
  "no_advance p \<longleftrightarrow> list_all (\<lambda>e. \<not> is_advance e) (tp_proposed p)"

lemma no_advance_propose [simp]: "no_advance p \<Longrightarrow> \<not> is_advance e \<Longrightarrow> no_advance (fst (propose e p))"
  by (simp add: no_advance_def propose_def)

lemma no_advance_proposeAll: "no_advance p \<Longrightarrow> list_all (\<lambda>e. \<not> is_advance e) es \<Longrightarrow> no_advance (fst (proposeAll es p))"
  by (cases "tp_leader p") (simp_all add: no_advance_def proposeAll_leader proposeAll_other)

lemma no_advance_submitEach: "no_advance p \<Longrightarrow> no_advance (fst (submitEach u k fs p))"
  by (induction fs arbitrary: k p) (simp_all add: case_prod_unfold Let_def)

lemma no_advance_requeue: "list_all (\<lambda>e. \<not> is_advance e) (requeueEntries now ts)"
  by (simp add: requeueEntries_def list_all_iff)

lemma no_advance_committed: "no_advance p \<Longrightarrow> no_advance (handleEntryCommitted vm u now e p)"
proof -
  have act: "no_advance q \<Longrightarrow> no_advance (handleStateMachineAction a q)" for a q
    by (cases a) simp_all
  have db: "no_advance (q\<lparr>tp_db := d\<rparr>) = no_advance q" for q d by (simp add: no_advance_def)
  show "no_advance p \<Longrightarrow> ?thesis"
    by (auto simp: handleEntryCommitted_def Let_def db act split: option.splits prod.splits sum.splits)
qed

lemma no_advance_cycle: "no_advance p \<Longrightarrow> no_advance (fst (runSchedulingCycle now active p))"
  using scheduling_cycle_shape [of now active p] by (auto simp: no_advance_def list_all_iff assignEntry_def)

lemma no_advance_op: "no_advance p \<Longrightarrow> no_advance (plugin_op a p)"
proof (cases a)
  case (OpRunDistributed u c ts act)
  then show "no_advance p \<Longrightarrow> ?thesis"
    by (simp add: handleRunDistributed_def Let_def case_prod_unfold no_advance_submitEach)
next
  case (OpCycle now act)
  then show "no_advance p \<Longrightarrow> ?thesis" by (simp add: no_advance_cycle)
next
  case (OpDispatch ag i n)
  then show "no_advance p \<Longrightarrow> ?thesis" by (auto simp: dispatchToNode_def Let_def split: option.splits prod.splits)
next
  case (OpLeadership b)
  then show "no_advance p \<Longrightarrow> ?thesis" by (simp add: no_advance_def)
qed (auto simp: handleSubmitTask_def handleCancelTask_def handleRetryDeadLetterTask_def handleDrainNodeTasks_def
      handleDispatchSubagents_def handleSubmitWorkflow_def handleNodeOffline_def no_advance_committed no_advance_submitEach
      no_advance_proposeAll no_advance_requeue Let_def case_prod_unfold split: option.splits)

interpretation plugin_inv: invariant_of "\<lambda>a p. Some (plugin_op a p)" no_advance
  by unfold_locales (auto intro: no_advance_op)

text \<open>
  C37. Workflows do not advance: whatever tools are called, entries committed, tasks
  dispatched and nodes lost, the plugin never proposes a \<open>workflow_advance\<close> entry (the
  action that asks for one is a stub), so tasks that depend on others stay pending.
\<close>

theorem workflow_never_advanced:
  assumes "run (\<lambda>a p. Some (plugin_op a p)) ops p = Some p'" and "tp_proposed p = []"
  shows "\<not> list_ex is_advance (tp_proposed p')"
proof -
  have "no_advance p" using assms(2) by (simp add: no_advance_def)
  from plugin_inv.run_inv [OF this assms(1)] show ?thesis by (auto simp: no_advance_def list_all_iff list_ex_iff)
qed

theorem workflow_never_advanced_witness:
  "\<not> list_ex is_advance (tp_proposed (plugin_op
       (OpCommitted (\<lambda>_ _ _. None) ex_uuid 0 (Some (ETaskComplete ''u0'' \<lparr>exitCode = 0, stdout = [], stderr = [], contextUpdate = None\<rparr>)))
       (plugin_op (OpCommitted (\<lambda>_ _ _. None) ex_uuid 0 (Some ex_single)) (ex_plugin empty_db))))"
  by (rule workflow_never_advanced [of "[OpCommitted (\<lambda>_ _ _. None) ex_uuid 0 (Some ex_single),
        OpCommitted (\<lambda>_ _ _. None) ex_uuid 0 (Some (ETaskComplete ''u0'' \<lparr>exitCode = 0, stdout = [], stderr = [], contextUpdate = None\<rparr>))]"
        "ex_plugin empty_db"]) (simp_all add: ex_plugin_def)

section \<open>Listing tasks\<close>

text \<open>Two running tasks on different nodes; the first has the higher priority.\<close>

definition ex_two :: TaskDB where
  "ex_two = empty_db\<lparr>te_tasks := [ex_task\<lparr>priority := 9, assigned_node := Some ''m''\<rparr>,
                                  ex_task\<lparr>t_id := ''s'', assigned_node := Some ''n''\<rparr>]\<rparr>"

text \<open>
  Listing the tasks of a node misses some: the limit is applied before the filter,
  so a request for one task of node \<open>n\<close> returns none although one is running there.
\<close>

theorem list_filters_after_limit:
  "handleListTasks None (Some 1) None None (Some ''n'') (ex_plugin ex_two) = []
   \<and> map t_id (getTasksOnNode ''n'' ex_two) = [''s'']"
  by code_simp

end
