(* ===== verification/Membership.thy ===== *)
theory Membership
  imports NodeTypes Raft
begin

text \<open>
  \<open>MembershipManager\<close> of \<open>src/cluster/membership.ts\<close>: who is in the cluster, who leads,
  who is alive. Its state contains the node's \<open>RaftNode\<close>, whose peers it maintains.

  Functions are cut at their \<open>await\<close>s; the answer of a remote call is an argument
  (\<open>None\<close>: the call failed). \<open>json\<close> stands for the text of a log entry's data. Events
  are appended to \<open>m_emitted\<close>. That \<open>selfNode\<close>, read before an \<open>await\<close>, might be a
  record that a committed entry has replaced meanwhile is not modelled.
\<close>

section \<open>State\<close>

datatype MembershipEvent = EvPendingApproval | EvJoined string | EvVersionCheck string string
  | EvNodeJoinRequest string | EvNodeDraining string | EvRejoinNeeded | EvNodeOffline string
  | EvNodeRecovered string | EvNodeJoined string | EvNodeLeft string

record MembershipManager =
  mc_nodeId :: string
  mc_hostname :: string
  mc_tailscaleIp :: string
  mc_grpcPort :: int
  autoApprove :: bool
  m_nodes :: "(string, NodeInfo) jsmap"
  pendingApprovals :: "(string, NodeInfo) jsmap"
  leaderAddress :: "string option"
  heartbeatTimeoutMs :: int
  consecutiveHeartbeatFailures :: nat
  rejoinInProgress :: bool
  intervals :: bool
  raft :: RaftNode
  m_emitted :: "MembershipEvent list"

definition REJOIN_FAILURE_THRESHOLD :: nat where
  "REJOIN_FAILURE_THRESHOLD = 3"

definition freshNode :: "int \<Rightarrow> string \<Rightarrow> string \<Rightarrow> string \<Rightarrow> int \<Rightarrow> string list \<Rightarrow> NodeInfo" where
  "freshNode now i host ip port ts =
     \<lparr>nodeId = i, hostname = host, tailscaleIp = ip, grpcPort = port, role = RoleFollower, status = Active,
      resources = None, tags = ts, joinedAt = now, lastSeen = now\<rparr>"

definition new_MembershipManager :: "int \<Rightarrow> string \<Rightarrow> string \<Rightarrow> string \<Rightarrow> int \<Rightarrow> int option \<Rightarrow> bool \<Rightarrow> RaftNode \<Rightarrow> MembershipManager" where
  "new_MembershipManager now i host ip port timeout auto r =
     \<lparr>mc_nodeId = i, mc_hostname = host, mc_tailscaleIp = ip, mc_grpcPort = port, autoApprove = auto,
      m_nodes = jm_set i (freshNode now i host ip port []) [], pendingApprovals = [], leaderAddress = None,
      heartbeatTimeoutMs = nullish timeout 15000, consecutiveHeartbeatFailures = 0, rejoinInProgress = False,
      intervals = False, raft = r, m_emitted = []\<rparr>"

definition m_emit :: "MembershipEvent \<Rightarrow> MembershipManager \<Rightarrow> MembershipManager" where
  "m_emit e m = m\<lparr>m_emitted := m_emitted m @ [e]\<rparr>"

definition m_start :: "MembershipManager \<Rightarrow> MembershipManager" where
  "m_start m = m\<lparr>intervals := True\<rparr>"

definition m_stop :: "MembershipManager \<Rightarrow> MembershipManager" where
  "m_stop m = m\<lparr>intervals := False\<rparr>"

section \<open>Queries\<close>

definition getNode :: "string \<Rightarrow> MembershipManager \<Rightarrow> NodeInfo option" where
  "getNode i m = jm_get (m_nodes m) i"

definition getAllNodes :: "MembershipManager \<Rightarrow> NodeInfo list" where
  "getAllNodes m = jm_values (m_nodes m)"

definition getActiveNodes :: "MembershipManager \<Rightarrow> NodeInfo list" where
  "getActiveNodes m = filter (\<lambda>n. status n = Active) (getAllNodes m)"

definition getPendingApprovals :: "MembershipManager \<Rightarrow> NodeInfo list" where
  "getPendingApprovals m = jm_values (pendingApprovals m)"

definition getSelfNode :: "MembershipManager \<Rightarrow> NodeInfo option" where
  "getSelfNode m = jm_get (m_nodes m) (mc_nodeId m)"

section \<open>Reactions to the consensus module\<close>

definition updateNodeRole :: "string \<Rightarrow> NodeRole \<Rightarrow> MembershipManager \<Rightarrow> MembershipManager" where
  "updateNodeRole i r m =
     (case jm_get (m_nodes m) i of None \<Rightarrow> m
      | Some n \<Rightarrow>
          let m1 = m\<lparr>m_nodes := jm_modify i (\<lambda>n. n\<lparr>role := r\<rparr>) (m_nodes m)\<rparr>
          in if r = RoleLeader then m1\<lparr>leaderAddress := Some (address_of (tailscaleIp n) (grpcPort n))\<rparr> else m1)"

fun raftRole :: "RaftState \<Rightarrow> NodeRole" where
  "raftRole Follower = RoleFollower"
| "raftRole Candidate = RoleCandidate"
| "raftRole Leader = RoleLeader"

definition onStateChange :: "RaftState \<Rightarrow> MembershipManager \<Rightarrow> MembershipManager" where
  "onStateChange s m = updateNodeRole (mc_nodeId m) (raftRole s) m"

text \<open>\<open>replace(/-[a-f0-9]+$/, '')\<close>.\<close>

definition is_hex :: "char \<Rightarrow> bool" where
  "is_hex c \<longleftrightarrow> is_digit c \<or> 97 \<le> (of_char c :: nat) \<and> (of_char c :: nat) \<le> 102"

definition stripHexSuffix :: "string \<Rightarrow> string" where
  "stripHexSuffix s =
     (let suf = takeWhile is_hex (rev s); rest = dropWhile is_hex (rev s)
      in if suf \<noteq> [] \<and> rest \<noteq> [] \<and> hd rest = CHR ''-'' then rev (tl rest) else s)"

text \<open>\<open>const [ip, portStr] = address.split(':')\<close> and \<open>parseInt(portStr) || 50051\<close>.\<close>

definition splitAddress :: "string \<Rightarrow> string \<times> string option" where
  "splitAddress a =
     (let ip = takeWhile (\<lambda>c. c \<noteq> CHR '':'') a; rest = dropWhile (\<lambda>c. c \<noteq> CHR '':'') a
      in (ip, if rest = [] then None else Some (takeWhile (\<lambda>c. c \<noteq> CHR '':'') (tl rest))))"

definition parsePort :: "string option \<Rightarrow> int" where
  "parsePort p = (case Option.bind p parseInt of None \<Rightarrow> 50051 | Some k \<Rightarrow> if k = 0 then 50051 else k)"

definition onLeaderElected :: "int \<Rightarrow> MembershipManager \<Rightarrow> MembershipManager" where
  "onLeaderElected now m =
     m\<lparr>m_nodes := fold (\<lambda>p ns.
         if jm_has ns (p_nodeId p) then ns
         else let (ip, portStr) = splitAddress (p_address p)
              in jm_set (p_nodeId p) (freshNode now (p_nodeId p) (stripHexSuffix (p_nodeId p)) ip (parsePort portStr) []) ns)
       (getPeers (raft m)) (m_nodes m)\<rparr>"

definition onLeaderChanged :: "string \<Rightarrow> MembershipManager \<Rightarrow> MembershipManager" where
  "onLeaderChanged l m =
     (let ns = jm_map (\<lambda>n. if role n = RoleLeader \<and> nodeId n \<noteq> mc_nodeId m then n\<lparr>role := RoleFollower\<rparr> else n) (m_nodes m)
      in case jm_get ns l of None \<Rightarrow> m\<lparr>m_nodes := ns\<rparr>
         | Some n \<Rightarrow> m\<lparr>m_nodes := jm_modify l (\<lambda>n. n\<lparr>role := RoleLeader\<rparr>) ns,
                      leaderAddress := Some (address_of (tailscaleIp n) (grpcPort n))\<rparr>)"

section \<open>Committed entries\<close>

record JoinData =
  j_nodeId :: string
  j_hostname :: string
  j_tailscaleIp :: string
  j_grpcPort :: int
  j_tags :: "string list"

datatype MembershipEntry = NodeJoinEntry JoinData | NodeLeaveEntry string | OtherEntry | UnparsableEntry

definition isVotingId :: "string \<Rightarrow> bool" where
  "isVotingId i \<longleftrightarrow> \<not> endsWith i ''-mcp''"

definition handleNodeJoinCommitted :: "int \<Rightarrow> JoinData \<Rightarrow> MembershipManager \<Rightarrow> MembershipManager" where
  "handleNodeJoinCommitted now d m =
     m_emit (EvNodeJoined (j_nodeId d))
       (m\<lparr>m_nodes := jm_set (j_nodeId d)
            (freshNode now (j_nodeId d) (j_hostname d) (j_tailscaleIp d) (j_grpcPort d) (j_tags d)) (m_nodes m),
          raft := addPeer (j_nodeId d) (address_of (j_tailscaleIp d) (j_grpcPort d)) (isVotingId (j_nodeId d)) (raft m)\<rparr>)"

definition handleNodeLeaveCommitted :: "string \<Rightarrow> MembershipManager \<Rightarrow> MembershipManager" where
  "handleNodeLeaveCommitted i m =
     (case jm_get (m_nodes m) i of None \<Rightarrow> m
      | Some n \<Rightarrow> m_emit (EvNodeLeft i) (m\<lparr>m_nodes := jm_delete i (m_nodes m), raft := removePeer i (raft m)\<rparr>))"

fun handleCommittedEntry :: "int \<Rightarrow> MembershipEntry \<Rightarrow> MembershipManager \<Rightarrow> MembershipManager" where
  "handleCommittedEntry now (NodeJoinEntry d) m = handleNodeJoinCommitted now d m"
| "handleCommittedEntry now (NodeLeaveEntry i) m = handleNodeLeaveCommitted i m"
| "handleCommittedEntry now OtherEntry m = m"
| "handleCommittedEntry now UnparsableEntry m = m"

section \<open>Joining and leaving\<close>

definition joinData :: "NodeInfo \<Rightarrow> JoinData" where
  "joinData n = \<lparr>j_nodeId = nodeId n, j_hostname = hostname n, j_tailscaleIp = tailscaleIp n, j_grpcPort = grpcPort n, j_tags = tags n\<rparr>"

definition approveNode :: "(MembershipEntry \<Rightarrow> string) \<Rightarrow> NodeInfo \<Rightarrow> MembershipManager \<Rightarrow> MembershipManager \<times> bool" where
  "approveNode json n m =
     (if \<not> isLeader (raft m) then (m, False)
      else let (r, res, _) = appendEntry NodeJoin (json (NodeJoinEntry (joinData n))) (raft m); m1 = m\<lparr>raft := r\<rparr>
           in if success res then (m1\<lparr>pendingApprovals := jm_delete (nodeId n) (pendingApprovals m1)\<rparr>, True) else (m1, False))"

definition removeNode :: "(MembershipEntry \<Rightarrow> string) \<Rightarrow> string \<Rightarrow> bool \<Rightarrow> MembershipManager \<Rightarrow> MembershipManager \<times> bool" where
  "removeNode json i graceful m =
     (if \<not> isLeader (raft m) then (m, False)
      else case jm_get (m_nodes m) i of None \<Rightarrow> (m, False)
        | Some n \<Rightarrow>
            let m1 = (if graceful
                      then m_emit (EvNodeDraining i) (m\<lparr>m_nodes := jm_modify i (\<lambda>n. n\<lparr>status := Draining\<rparr>) (m_nodes m)\<rparr>)
                      else m);
                (r, res, _) = appendEntry NodeLeave (json (NodeLeaveEntry i)) (raft m1)
            in (m1\<lparr>raft := r\<rparr>, success res))"

record JoinReply =
  jr_approved :: bool
  jr_pendingApproval :: bool
  jr_clusterId :: string
  jr_leaderAddress :: string
  jr_peers :: "NodeInfo list"

definition redirectAddress :: "NodeInfo \<Rightarrow> MembershipManager \<Rightarrow> string" where
  "redirectAddress n m =
     (let fresh = (case leaderId (raft m) of
            Some l \<Rightarrow> (if l \<noteq> [] \<and> l \<noteq> mc_nodeId m
                       then (case jm_get (m_nodes m) l of
                               Some x \<Rightarrow> if status x = Active then address_of (tailscaleIp x) (grpcPort x) else []
                             | None \<Rightarrow> [])
                       else [])
          | None \<Rightarrow> [])
      in if fresh = [] \<and> truthy (leaderAddress m) \<and> leaderAddress m \<noteq> Some (address_of (tailscaleIp n) (grpcPort n))
         then the (leaderAddress m) else fresh)"

definition ownAddress :: "MembershipManager \<Rightarrow> string" where
  "ownAddress m = address_of (mc_tailscaleIp m) (mc_grpcPort m)"

text \<open>The answer after an automatic approval, built once the \<open>await\<close> has returned.\<close>

definition joinApproved :: "MembershipManager \<Rightarrow> JoinReply" where
  "joinApproved m = \<lparr>jr_approved = True, jr_pendingApproval = False, jr_clusterId = mc_nodeId m,
     jr_leaderAddress = ownAddress m, jr_peers = filter (\<lambda>n. tailscaleIp n \<noteq> [] \<and> grpcPort n \<noteq> 0) (getAllNodes m)\<rparr>"

text \<open>\<open>None\<close> as reply: an automatic approval is under way, \<open>joinApproved\<close> answers it.\<close>

definition handleJoinRequest :: "(MembershipEntry \<Rightarrow> string) \<Rightarrow> NodeInfo \<Rightarrow> MembershipManager \<Rightarrow> MembershipManager \<times> JoinReply option" where
  "handleJoinRequest json n m =
     (if \<not> isLeader (raft m)
      then (m, Some \<lparr>jr_approved = False, jr_pendingApproval = False, jr_clusterId = [],
                     jr_leaderAddress = redirectAddress n m, jr_peers = []\<rparr>)
      else if autoApprove m then (fst (approveNode json n m), None)
      else (m_emit (EvNodeJoinRequest (nodeId n)) (m\<lparr>pendingApprovals := jm_set (nodeId n) n (pendingApprovals m)\<rparr>),
            Some \<lparr>jr_approved = False, jr_pendingApproval = True, jr_clusterId = [],
                  jr_leaderAddress = ownAddress m, jr_peers = []\<rparr>))"

definition updateNodeResources :: "int \<Rightarrow> string \<Rightarrow> NodeResources \<Rightarrow> MembershipManager \<Rightarrow> MembershipManager" where
  "updateNodeResources now i r m = m\<lparr>m_nodes := jm_modify i (\<lambda>n. n\<lparr>resources := Some r, lastSeen := now\<rparr>) (m_nodes m)\<rparr>"

section \<open>Messages\<close>

fun roleName :: "NodeRole \<Rightarrow> string" where
  "roleName RoleLeader = ''leader''"
| "roleName RoleFollower = ''follower''"
| "roleName RoleCandidate = ''candidate''"
| "roleName RoleWorker = ''worker''"
| "roleName (RoleOther s) = s"

fun statusName :: "NodeStatus \<Rightarrow> string" where
  "statusName PendingApproval = ''pending_approval''"
| "statusName Active = ''active''"
| "statusName Draining = ''draining''"
| "statusName Offline = ''offline''"
| "statusName (StatusOther s) = s"

definition nameRole :: "string \<Rightarrow> NodeRole" where
  "nameRole s = (if s = ''leader'' then RoleLeader else if s = ''follower'' then RoleFollower
     else if s = ''candidate'' then RoleCandidate else if s = ''worker'' then RoleWorker else RoleOther s)"

definition nameStatus :: "string \<Rightarrow> NodeStatus" where
  "nameStatus s = (if s = ''pending_approval'' then PendingApproval else if s = ''active'' then Active
     else if s = ''draining'' then Draining else if s = ''offline'' then Offline else StatusOther s)"

record GpuProto =
  gp_name :: string
  gp_memory_bytes :: string
  gp_memory_available_bytes :: string
  gp_utilization_percent :: rat
  gp_in_use_for_gaming :: bool

record ResourcesProto =
  rp_cpu_cores :: int
  rp_memory_bytes :: string
  rp_memory_available_bytes :: string
  rp_gpus :: "GpuProto list"
  rp_disk_bytes :: string
  rp_disk_available_bytes :: string
  rp_cpu_usage_percent :: rat
  rp_gaming_detected :: bool

record NodeProto =
  np_node_id :: string
  np_hostname :: string
  np_tailscale_ip :: string
  np_grpc_port :: int
  np_role :: string
  np_status :: string
  np_resources :: "ResourcesProto option"
  np_tags :: "string list"
  np_joined_at :: string
  np_last_seen :: string

definition resourcesToProto :: "NodeResources \<Rightarrow> ResourcesProto" where
  "resourcesToProto r =
     \<lparr>rp_cpu_cores = cpuCores r, rp_memory_bytes = show_int (memoryBytes r),
      rp_memory_available_bytes = show_int (memoryAvailableBytes r),
      rp_gpus = map (\<lambda>g. \<lparr>gp_name = gpu_name g, gp_memory_bytes = show_int (gpu_memoryBytes g),
          gp_memory_available_bytes = show_int (gpu_memoryAvailableBytes g),
          gp_utilization_percent = utilizationPercent g, gp_in_use_for_gaming = inUseForGaming g\<rparr>) (gpus r),
      rp_disk_bytes = show_int (diskBytes r), rp_disk_available_bytes = show_int (diskAvailableBytes r),
      rp_cpu_usage_percent = cpuUsagePercent r, rp_gaming_detected = gamingDetected r\<rparr>"

definition nodeToProto :: "NodeInfo \<Rightarrow> NodeProto" where
  "nodeToProto n =
     \<lparr>np_node_id = nodeId n, np_hostname = hostname n, np_tailscale_ip = tailscaleIp n, np_grpc_port = grpcPort n,
      np_role = ''NODE_ROLE_'' @ map asciiUpper (roleName (role n)),
      np_status = ''NODE_STATUS_'' @ map asciiUpper (statusName (status n)),
      np_resources = map_option resourcesToProto (resources n), np_tags = tags n,
      np_joined_at = show_int (joinedAt n), np_last_seen = show_int (lastSeen n)\<rparr>"

text \<open>An unparsable time is NaN in the code; \<open>None\<close> here.\<close>

definition protoToNode :: "NodeProto \<Rightarrow> NodeInfo option" where
  "protoToNode p =
     (case (parseInt (np_joined_at p), parseInt (np_last_seen p)) of
        (Some j, Some l) \<Rightarrow> Some
          \<lparr>nodeId = np_node_id p, hostname = np_hostname p, tailscaleIp = np_tailscale_ip p, grpcPort = np_grpc_port p,
           role = nameRole (map asciiLower (replaceFirst ''NODE_ROLE_'' [] (np_role p))),
           status = nameStatus (map asciiLower (replaceFirst ''NODE_STATUS_'' [] (np_status p))),
           resources = None, tags = np_tags p, joinedAt = j, lastSeen = l\<rparr>
      | _ \<Rightarrow> None)"

section \<open>Joining a cluster\<close>

record RegisterResponse =
  rr_pending_approval :: bool
  rr_approved :: bool
  rr_leader_address :: string
  rr_peers :: "NodeInfo list"
  rr_cluster_id :: string
  rr_build_hash :: string

definition setSelfStatus :: "NodeStatus \<Rightarrow> MembershipManager \<Rightarrow> MembershipManager" where
  "setSelfStatus s m = m\<lparr>m_nodes := jm_modify (mc_nodeId m) (\<lambda>n. n\<lparr>status := s\<rparr>) (m_nodes m)\<rparr>"

definition addJoinPeer :: "NodeInfo \<Rightarrow> MembershipManager \<Rightarrow> MembershipManager" where
  "addJoinPeer n m =
     (if nodeId n = mc_nodeId m then m
      else if tailscaleIp n = [] \<or> grpcPort n = 0 then m
      else m\<lparr>m_nodes := jm_set (nodeId n) n (m_nodes m),
             raft := addPeer (nodeId n) (address_of (tailscaleIp n) (grpcPort n)) (role n \<noteq> RoleWorker) (raft m)\<rparr>)"

text \<open>The answer to a registration; \<open>Inr a\<close> asks to try the leader at address \<open>a\<close>.\<close>

definition onRegisterResponse :: "string \<Rightarrow> RegisterResponse \<Rightarrow> MembershipManager \<Rightarrow> MembershipManager \<times> (bool + string)" where
  "onRegisterResponse seed r m =
     (if rr_pending_approval r then (m_emit EvPendingApproval (setSelfStatus PendingApproval m), Inl True)
      else if rr_approved r
      then let m1 = setSelfStatus Active (m\<lparr>leaderAddress := Some (rr_leader_address r)\<rparr>);
               m2 = fold addJoinPeer (rr_peers r) m1;
               m3 = m_emit (EvJoined (rr_cluster_id r)) (m2\<lparr>raft := delayNextElection (raft m2)\<rparr>)
           in (if rr_build_hash r \<noteq> [] then m_emit (EvVersionCheck (rr_build_hash r) (rr_leader_address r)) m3 else m3, Inl True)
      else if rr_leader_address r \<noteq> [] \<and> rr_leader_address r \<noteq> seed then (m, Inr (rr_leader_address r))
      else (m, Inl False))"

text \<open>\<open>rpc\<close> is what \<open>registerNode\<close> at an address answers.\<close>

fun joinClusterWithRedirect :: "(string \<Rightarrow> NodeProto \<Rightarrow> RegisterResponse option) \<Rightarrow> string \<Rightarrow> nat \<Rightarrow> MembershipManager
    \<Rightarrow> MembershipManager \<times> bool" where
  "joinClusterWithRedirect rpc seed 0 m = (m, False)"
| "joinClusterWithRedirect rpc seed (Suc k) m =
     (case getSelfNode m of None \<Rightarrow> (m, False)
      | Some me \<Rightarrow>
          (case rpc seed (nodeToProto me) of None \<Rightarrow> (m, False)
           | Some r \<Rightarrow>
               (case onRegisterResponse seed r m of
                  (m1, Inl ok) \<Rightarrow> (m1, ok)
                | (m1, Inr a) \<Rightarrow> joinClusterWithRedirect rpc a k m1)))"

definition joinCluster :: "(string \<Rightarrow> NodeProto \<Rightarrow> RegisterResponse option) \<Rightarrow> string \<Rightarrow> MembershipManager \<Rightarrow> MembershipManager \<times> bool" where
  "joinCluster rpc seed m = joinClusterWithRedirect rpc seed 3 m"

section \<open>Heartbeats and failure detection\<close>

record HeartbeatResponse =
  hr_acknowledged :: bool
  hr_leader_address :: string
  hr_leader_id :: string

definition touchSelf :: "int \<Rightarrow> MembershipManager \<Rightarrow> MembershipManager" where
  "touchSelf now m = m\<lparr>m_nodes := jm_modify (mc_nodeId m) (\<lambda>n. n\<lparr>lastSeen := now\<rparr>) (m_nodes m)\<rparr>"

text \<open>Whether \<open>sendHeartbeat\<close> gets as far as calling the leader.\<close>

definition sendsHeartbeat :: "MembershipManager \<Rightarrow> bool" where
  "sendsHeartbeat m \<longleftrightarrow> \<not> isLeader (raft m) \<and> truthy (leaderAddress m)"

definition heartbeatFailed :: "MembershipManager \<Rightarrow> MembershipManager" where
  "heartbeatFailed m =
     (let m1 = m\<lparr>consecutiveHeartbeatFailures := consecutiveHeartbeatFailures m + 1\<rparr>
      in if consecutiveHeartbeatFailures m1 \<ge> REJOIN_FAILURE_THRESHOLD \<and> \<not> rejoinInProgress m1
         then m_emit EvRejoinNeeded m1 else m1)"

definition heartbeatAnswered :: "int \<Rightarrow> HeartbeatResponse \<Rightarrow> MembershipManager \<Rightarrow> MembershipManager" where
  "heartbeatAnswered now r m =
     (if \<not> hr_acknowledged r then m
      else let m1 = (touchSelf now m)\<lparr>leaderAddress := (if hr_leader_address r \<noteq> [] then Some (hr_leader_address r) else leaderAddress m),
                      consecutiveHeartbeatFailures := 0\<rparr>
           in if hr_leader_id r = [] then m1
              else m1\<lparr>m_nodes := jm_modify (hr_leader_id r) (\<lambda>n. n\<lparr>role := RoleLeader\<rparr>)
                       (jm_map (\<lambda>n. if role n = RoleLeader \<and> nodeId n \<noteq> mc_nodeId m \<and> nodeId n \<noteq> hr_leader_id r
                                    then n\<lparr>role := RoleFollower\<rparr> else n) (m_nodes m1))\<rparr>)"

text \<open>
  \<open>sendHeartbeat\<close> with the leader's answer. A node that is no longer in its own list
  fails inside the \<open>try\<close>, which counts as a failed heartbeat; on the leader the
  exception is raised before anything is changed.
\<close>

definition sendHeartbeat :: "int \<Rightarrow> HeartbeatResponse option \<Rightarrow> MembershipManager \<Rightarrow> MembershipManager" where
  "sendHeartbeat now answer m =
     (if isLeader (raft m)
      then (if getSelfNode m = None then m else (touchSelf now m)\<lparr>consecutiveHeartbeatFailures := 0\<rparr>)
      else if \<not> truthy (leaderAddress m) then m\<lparr>consecutiveHeartbeatFailures := 0\<rparr>
      else if getSelfNode m = None then heartbeatFailed m
      else case answer of None \<Rightarrow> heartbeatFailed m | Some r \<Rightarrow> heartbeatAnswered now r m)"

definition resetHeartbeatFailures :: "MembershipManager \<Rightarrow> MembershipManager" where
  "resetHeartbeatFailures m = m\<lparr>consecutiveHeartbeatFailures := 0\<rparr>"

definition setRejoinInProgress :: "bool \<Rightarrow> MembershipManager \<Rightarrow> MembershipManager" where
  "setRejoinInProgress b m = m\<lparr>rejoinInProgress := b\<rparr>"

text \<open>One node of the leader's loop: its new record and the event, if any.\<close>

definition checkNode :: "int \<Rightarrow> MembershipManager \<Rightarrow> NodeInfo \<Rightarrow> NodeInfo \<times> MembershipEvent list" where
  "checkNode now m n =
     (if nodeId n = mc_nodeId m then (n, [])
      else if status n = Active \<and> now - lastSeen n > heartbeatTimeoutMs m then (n\<lparr>status := Offline\<rparr>, [EvNodeOffline (nodeId n)])
      else if status n = Offline \<and> now - lastSeen n \<le> heartbeatTimeoutMs m then (n\<lparr>status := Active\<rparr>, [EvNodeRecovered (nodeId n)])
      else (n, []))"

definition detectFailures :: "int \<Rightarrow> MembershipManager \<Rightarrow> MembershipManager" where
  "detectFailures now m =
     (if \<not> isLeader (raft m)
      then m\<lparr>m_nodes := jm_map (\<lambda>n. if nodeId n = mc_nodeId m then n else n\<lparr>lastSeen := now\<rparr>) (m_nodes m)\<rparr>
      else m\<lparr>m_nodes := jm_map (\<lambda>n. fst (checkNode now m n)) (m_nodes m),
             m_emitted := m_emitted m @ concat (map (\<lambda>n. snd (checkNode now m n)) (jm_values (m_nodes m)))\<rparr>)"

end
