(* ===== verification/ClusterScheduler.thy ===== *)
theory ClusterScheduler
  imports Membership
begin

text \<open>
  \<open>TaskScheduler\<close> of \<open>src/cluster/scheduler.ts\<close>, the in-memory scheduler of the
  leader: its queue, running tasks and statuses, submission, the choice of a node,
  dispatch, completion, failure and cancellation. It asks the membership (and through
  it the consensus module) for the active nodes and the leader.

  A score divides by the memory of the node; when that is zero the number is infinite
  or NaN, the comparison of scores is not an order any more, and which node comes first
  is up to the JavaScript engine: \<open>engine\<close> stands for that choice (an index).
\<close>

section \<open>Tasks\<close>

record ShellTaskSpec =
  sh_command :: string
  sh_workingDirectory :: "string option"
  sh_sandboxed :: "bool option"

record ContainerTaskSpec =
  co_image :: string
  co_command :: "string list option"
  co_args :: "string list option"
  co_labels :: "(string \<times> string) list option"
  co_mounts :: "(string \<times> string \<times> bool option) list option"

record SubagentTaskSpec =
  sa_prompt :: string
  sa_model :: "string option"
  sa_tools :: "string list option"
  sa_contextSummary :: "string option"
  sa_maxTurns :: "int option"

record ResourceRequirements =
  rq_cpuCores :: "rat option"
  rq_memoryBytes :: "int option"
  rq_requiresGpu :: bool
  rq_gpuMemoryBytes :: "int option"

record K8sJobTaskSpec =
  kj_clusterContext :: string
  kj_namespace :: "string option"
  kj_image :: string
  kj_command :: "string list option"

record ClaudeRelayTaskSpec =
  cr_targetSessionId :: string
  cr_prompt :: string
  cr_fullContext :: "string option"
  cr_awaitResponse :: "bool option"

record SchedConstraints =
  allowedNodes :: "string list option"
  excludedNodes :: "string list option"
  preferLocal :: bool
  avoidGamingNodes :: bool

record SchedTask =
  st_taskId :: string
  st_type :: string
  st_submitterNode :: string
  st_submitterSession :: "string option"
  st_shell :: "ShellTaskSpec option"
  st_container :: "ContainerTaskSpec option"
  st_subagent :: "SubagentTaskSpec option"
  st_k8sJob :: "K8sJobTaskSpec option"
  st_claudeRelay :: "ClaudeRelayTaskSpec option"
  st_requirements :: "ResourceRequirements option"
  st_constraints :: "SchedConstraints option"
  st_priority :: "int option"
  st_timeoutMs :: "int option"
  st_environment :: "(string \<times> string) list option"
  st_targetNodes :: "string list option"

record QueuedTask =
  q_spec :: SchedTask
  q_queuedAt :: int
  q_attempts :: nat

record RunningTask =
  r_spec :: SchedTask
  r_assignedNode :: string
  r_startedAt :: int

datatype SchedState = SQueued | SAssigned | SRunning | SCompleted | SFailed | SCancelled

record SchedStatus =
  ss_taskId :: string
  ss_state :: SchedState
  ss_assignedNode :: "string option"
  ss_startedAt :: "int option"
  ss_completedAt :: "int option"
  ss_exitCode :: "int option"
  ss_error :: "string option"

datatype SchedEvent = TaskSubmitted string | TaskAssigned string string | TaskCompleted string bool
  | TaskFailedEvent string string | StatusChanged string SchedState

record TaskScheduler =
  taskQueue :: "(string, QueuedTask) jsmap"
  runningTasks :: "(string, RunningTask) jsmap"
  taskStatuses :: "(string, SchedStatus) jsmap"
  schedulingInterval :: bool
  maxQueueSize :: nat
  sched_maxRetries :: nat
  membership :: MembershipManager
  sched_emitted :: "SchedEvent list"

definition new_TaskScheduler :: "nat option \<Rightarrow> nat option \<Rightarrow> MembershipManager \<Rightarrow> TaskScheduler" where
  "new_TaskScheduler q r m =
     \<lparr>taskQueue = [], runningTasks = [], taskStatuses = [], schedulingInterval = False,
      maxQueueSize = nullish q 1000, sched_maxRetries = nullish r 3, membership = m, sched_emitted = []\<rparr>"

definition sched_start :: "TaskScheduler \<Rightarrow> TaskScheduler" where
  "sched_start s = s\<lparr>schedulingInterval := True\<rparr>"

definition sched_stop :: "TaskScheduler \<Rightarrow> TaskScheduler" where
  "sched_stop s = s\<lparr>schedulingInterval := False\<rparr>"

definition sched_emit :: "SchedEvent \<Rightarrow> TaskScheduler \<Rightarrow> TaskScheduler" where
  "sched_emit e s = s\<lparr>sched_emitted := sched_emitted s @ [e]\<rparr>"

section \<open>Validation\<close>

definition validateTask :: "SchedTask \<Rightarrow> string option" where
  "validateTask t =
     (if st_taskId t = [] then Some ''Missing taskId''
      else if st_type t = [] then Some ''Missing task type''
      else if st_type t = ''shell'' then
        (if \<not> truthy (map_option sh_command (st_shell t)) then Some ''Shell task missing command'' else None)
      else if st_type t = ''container'' then
        (if \<not> truthy (map_option co_image (st_container t)) then Some ''Container task missing image'' else None)
      else if st_type t = ''subagent'' then
        (if \<not> truthy (map_option sa_prompt (st_subagent t)) then Some ''Subagent task missing prompt'' else None)
      else if st_type t = ''k8s_job'' then
        (if \<not> truthy (map_option kj_image (st_k8sJob t)) \<or> \<not> truthy (map_option kj_clusterContext (st_k8sJob t))
         then Some ''K8s job missing image or context'' else None)
      else if st_type t = ''claude_relay'' then
        (if \<not> truthy (map_option cr_targetSessionId (st_claudeRelay t)) \<or> \<not> truthy (map_option cr_prompt (st_claudeRelay t))
         then Some ''Claude relay missing target or prompt'' else None)
      else Some (''Unknown task type: '' @ st_type t))"

section \<open>Statuses\<close>

definition updateStatus :: "int \<Rightarrow> string \<Rightarrow> SchedState \<Rightarrow> string option \<Rightarrow> TaskScheduler \<Rightarrow> TaskScheduler" where
  "updateStatus now i st node s =
     (let old = (case jm_get (taskStatuses s) i of Some x \<Rightarrow> x
                 | None \<Rightarrow> \<lparr>ss_taskId = i, ss_state = st, ss_assignedNode = None, ss_startedAt = None,
                            ss_completedAt = None, ss_exitCode = None, ss_error = None\<rparr>);
          s1 = old\<lparr>ss_state := st\<rparr>;
          s2 = (if truthy node then s1\<lparr>ss_assignedNode := node\<rparr> else s1);
          s3 = (if st = SRunning then s2\<lparr>ss_startedAt := Some now\<rparr> else s2);
          s4 = (if st \<in> {SCompleted, SFailed, SCancelled} then s3\<lparr>ss_completedAt := Some now\<rparr> else s3)
      in sched_emit (StatusChanged i st) (s\<lparr>taskStatuses := jm_set i s4 (taskStatuses s)\<rparr>))"

definition getStatus :: "string \<Rightarrow> TaskScheduler \<Rightarrow> SchedStatus option" where
  "getStatus i s = jm_get (taskStatuses s) i"

definition getQueuedCount :: "TaskScheduler \<Rightarrow> nat" where
  "getQueuedCount s = jm_size (taskQueue s)"

definition getRunningCount :: "TaskScheduler \<Rightarrow> nat" where
  "getRunningCount s = jm_size (runningTasks s)"

section \<open>Choosing a node\<close>

definition listed :: "string list \<Rightarrow> NodeInfo \<Rightarrow> bool" where
  "listed xs n \<longleftrightarrow> nodeId n \<in> set xs \<or> hostname n \<in> set xs"

definition hasRequirements :: "ResourceRequirements \<Rightarrow> bool" where
  "hasRequirements r \<longleftrightarrow> nullish (rq_cpuCores r) 0 \<noteq> 0 \<or> nullish (rq_memoryBytes r) 0 \<noteq> 0 \<or> rq_requiresGpu r
     \<or> nullish (rq_gpuMemoryBytes r) 0 \<noteq> 0"

definition meetsRequirements :: "NodeInfo \<Rightarrow> ResourceRequirements \<Rightarrow> bool" where
  "meetsRequirements n q =
     (if \<not> hasRequirements q then True
      else case resources n of None \<Rightarrow> False
      | Some r \<Rightarrow>
          if nullish (rq_cpuCores q) 0 \<noteq> 0 \<and> of_int (cpuCores r) * (1 - cpuUsagePercent r / 100) < nullish (rq_cpuCores q) 0
          then False
          else if nullish (rq_memoryBytes q) 0 \<noteq> 0 \<and> memoryAvailableBytes r < nullish (rq_memoryBytes q) 0 then False
          else if rq_requiresGpu q
          then (case find (\<lambda>g. \<not> inUseForGaming g) (gpus r) of None \<Rightarrow> False
                | Some g \<Rightarrow> \<not> (nullish (rq_gpuMemoryBytes q) 0 \<noteq> 0 \<and> gpu_memoryAvailableBytes g < nullish (rq_gpuMemoryBytes q) 0))
          else True)"

definition getCandidateNodes :: "SchedTask \<Rightarrow> NodeInfo list \<Rightarrow> NodeInfo list" where
  "getCandidateNodes t active =
     (let c1 = (case st_targetNodes t of Some (x # xs) \<Rightarrow> filter (listed (x # xs)) active | _ \<Rightarrow> active);
          c2 = (case Option.bind (st_constraints t) allowedNodes of Some (x # xs) \<Rightarrow> filter (listed (x # xs)) c1 | _ \<Rightarrow> c1);
          c3 = (case Option.bind (st_constraints t) excludedNodes of Some (x # xs) \<Rightarrow> filter (\<lambda>n. \<not> listed (x # xs) n) c2 | _ \<Rightarrow> c2);
          c4 = (if (case st_constraints t of None \<Rightarrow> False | Some c \<Rightarrow> avoidGamingNodes c)
                then filter (\<lambda>n. case resources n of None \<Rightarrow> True | Some r \<Rightarrow> \<not> gamingDetected r) c3 else c3)
      in filter (\<lambda>n. case st_requirements t of None \<Rightarrow> True | Some q \<Rightarrow> meetsRequirements n q) c4)"

text \<open>\<open>None\<close>: a division by zero, the score is no finite number.\<close>

definition div_num :: "int \<Rightarrow> int \<Rightarrow> rat option" where
  "div_num a b = (if b = 0 then None else Some (of_int a / of_int b))"

definition sched_scoreNode :: "(string, RunningTask) jsmap \<Rightarrow> SchedTask \<Rightarrow> NodeInfo \<Rightarrow> rat option" where
  "sched_scoreNode rt t n =
     (case resources n of None \<Rightarrow> Some 0
      | Some r \<Rightarrow>
          Option.bind (div_num (memoryAvailableBytes r) (memoryBytes r)) (\<lambda>mem.
            let base = (1 - cpuUsagePercent r / 100) * 30 + mem * 30
                  + (if (case st_constraints t of None \<Rightarrow> False | Some c \<Rightarrow> preferLocal c) \<and> nodeId n = st_submitterNode t then 50 else 0)
                  - (if gamingDetected r then 40 else 0)
                  - of_nat (length (filter (\<lambda>x. str_includes (r_assignedNode x) (tailscaleIp n)) (jm_values rt))) * 10
            in if (case st_requirements t of None \<Rightarrow> False | Some q \<Rightarrow> rq_requiresGpu q)
               then (case find (\<lambda>g. \<not> inUseForGaming g) (gpus r) of None \<Rightarrow> Some base
                     | Some g \<Rightarrow> map_option (\<lambda>x. base + x * 20) (div_num (gpu_memoryAvailableBytes g) (gpu_memoryBytes g)))
               else Some base))"

definition bestNode :: "(NodeInfo list \<Rightarrow> nat) \<Rightarrow> (NodeInfo \<Rightarrow> rat option) \<Rightarrow> NodeInfo list \<Rightarrow> NodeInfo option" where
  "bestNode engine score cs =
     (if cs = [] then None
      else if list_all (\<lambda>n. score n \<noteq> None) cs then Some (hd (sort_desc (\<lambda>n. the (score n)) cs))
      else Some (cs ! (engine cs mod length cs)))"

definition scheduleTask :: "(NodeInfo list \<Rightarrow> nat) \<Rightarrow> SchedTask \<Rightarrow> TaskScheduler \<Rightarrow> string option" where
  "scheduleTask engine t s =
     map_option (\<lambda>n. address_of (tailscaleIp n) (grpcPort n))
       (bestNode engine (sched_scoreNode (runningTasks s) t) (getCandidateNodes t (getActiveNodes (membership s))))"

section \<open>Dispatch, completion, failure\<close>

text \<open>\<open>dispatchTask\<close> up to the first response of the agent's stream.\<close>

definition dispatchTask :: "int \<Rightarrow> SchedTask \<Rightarrow> string \<Rightarrow> TaskScheduler \<Rightarrow> TaskScheduler" where
  "dispatchTask now t addr s =
     (let s1 = s\<lparr>runningTasks := jm_set (st_taskId t) \<lparr>r_spec = t, r_assignedNode = addr, r_startedAt = now\<rparr> (runningTasks s)\<rparr>;
          s2 = sched_emit (TaskAssigned (st_taskId t) addr) (updateStatus now (st_taskId t) SAssigned (Some addr) s1)
      in updateStatus now (st_taskId t) SRunning (Some addr) s2)"

definition handleTaskCompletion :: "int \<Rightarrow> string \<Rightarrow> int option \<Rightarrow> string option \<Rightarrow> TaskScheduler \<Rightarrow> TaskScheduler" where
  "handleTaskCompletion now i code err s =
     (let ok = (code = Some 0);
          s1 = s\<lparr>runningTasks := jm_delete i (runningTasks s),
                 taskStatuses := jm_modify i (\<lambda>x. x\<lparr>ss_state := (if ok then SCompleted else SFailed),
                     ss_completedAt := Some now, ss_exitCode := Some (nullish code (-1)), ss_error := err\<rparr>) (taskStatuses s)\<rparr>
      in sched_emit (TaskCompleted i ok) s1)"

definition sched_handleTaskFailure :: "int \<Rightarrow> SchedTask \<Rightarrow> string \<Rightarrow> TaskScheduler \<Rightarrow> TaskScheduler" where
  "sched_handleTaskFailure now t err s =
     (let i = st_taskId t; s1 = s\<lparr>runningTasks := jm_delete i (runningTasks s)\<rparr>;
          attempts = (case jm_get (taskQueue s1) i of None \<Rightarrow> 0 | Some q \<Rightarrow> q_attempts q)
      in if attempts < sched_maxRetries s1
         then updateStatus now i SQueued None
                (s1\<lparr>taskQueue := jm_set i \<lparr>q_spec = t, q_queuedAt = now, q_attempts = attempts + 1\<rparr> (taskQueue s1)\<rparr>)
         else let s2 = updateStatus now i SFailed None s1
              in sched_emit (TaskFailedEvent i err)
                   (s2\<lparr>taskStatuses := jm_modify i (\<lambda>x. x\<lparr>ss_error := Some err\<rparr>) (taskStatuses s2)\<rparr>))"

section \<open>Submission, cancellation, the scheduling loop\<close>

text \<open>What \<open>forwardToLeader\<close> puts into the message to the leader.\<close>

definition forwardedSpec :: "SchedTask \<Rightarrow> SchedTask" where
  "forwardedSpec t = t\<lparr>st_container := map_option (\<lambda>c. c\<lparr>co_labels := None, co_mounts := None\<rparr>) (st_container t),
     st_subagent := None, st_k8sJob := None, st_claudeRelay := None, st_requirements := None,
     st_environment := None, st_targetNodes := None\<rparr>"

record SubmitReply =
  sr_accepted :: bool
  sr_taskId :: string
  sr_assignedNode :: "string option"
  sr_reason :: "string option"

definition rejected :: "SchedTask \<Rightarrow> string \<Rightarrow> SubmitReply" where
  "rejected t why = \<lparr>sr_accepted = False, sr_taskId = st_taskId t, sr_assignedNode = None, sr_reason = Some why\<rparr>"

text \<open>
  \<open>rpc\<close> is what \<open>submitTask\<close> at the leader's address answers. \<open>None\<close> as the reply:
  the promise is rejected, because the node is no longer in its own member list.
\<close>

definition forwardToLeader :: "(string \<Rightarrow> SchedTask \<Rightarrow> SubmitReply option) \<Rightarrow> SchedTask \<Rightarrow> TaskScheduler \<Rightarrow> SubmitReply option" where
  "forwardToLeader rpc t s =
     (if \<not> truthy (leaderAddress (membership s)) then Some (rejected t ''No leader available'')
      else case getSelfNode (membership s) of None \<Rightarrow> None
      | Some me \<Rightarrow>
          (if leaderAddress (membership s) = Some (address_of (tailscaleIp me) (grpcPort me))
           then Some (rejected t ''Cluster leader not available (self-reference)'')
           else case rpc (the (leaderAddress (membership s))) (forwardedSpec t) of
             None \<Rightarrow> Some (rejected t ''Failed to forward to leader'')
           | Some r \<Rightarrow> Some (r\<lparr>sr_assignedNode := orElse (sr_assignedNode r) None, sr_reason := orElse (sr_reason r) None\<rparr>)))"

text \<open>The part of \<open>submit\<close> after the entry has been appended.\<close>

definition enqueue :: "int \<Rightarrow> SchedTask \<Rightarrow> TaskScheduler \<Rightarrow> TaskScheduler" where
  "enqueue now t s =
     sched_emit (TaskSubmitted (st_taskId t))
       (s\<lparr>taskQueue := jm_set (st_taskId t) \<lparr>q_spec = t, q_queuedAt = now, q_attempts = 0\<rparr> (taskQueue s),
          taskStatuses := jm_set (st_taskId t) \<lparr>ss_taskId = st_taskId t, ss_state = SQueued, ss_assignedNode = None,
            ss_startedAt = None, ss_completedAt = None, ss_exitCode = None, ss_error = None\<rparr> (taskStatuses s)\<rparr>)"

definition submit :: "(SchedTask \<Rightarrow> string) \<Rightarrow> (string \<Rightarrow> SchedTask \<Rightarrow> SubmitReply option) \<Rightarrow> (NodeInfo list \<Rightarrow> nat)
    \<Rightarrow> int \<Rightarrow> SchedTask \<Rightarrow> TaskScheduler \<Rightarrow> TaskScheduler \<times> SubmitReply option" where
  "submit json rpc engine now t s =
     (case validateTask t of Some why \<Rightarrow> (s, Some (rejected t why))
      | None \<Rightarrow>
          if \<not> isLeader (raft (membership s)) then (s, forwardToLeader rpc t s)
          else if jm_size (taskQueue s) \<ge> maxQueueSize s then (s, Some (rejected t ''Queue full''))
          else let (r, res, _) = appendEntry TaskSubmit (json t) (raft (membership s));
                   s1 = s\<lparr>membership := (membership s)\<lparr>raft := r\<rparr>\<rparr>
               in if \<not> success res then (s1, Some (rejected t ''Failed to replicate task''))
                  else let s2 = enqueue now t s1
                       in (s2, Some \<lparr>sr_accepted = True, sr_taskId = st_taskId t,
                               sr_assignedNode = (if nullish (st_priority t) 0 > 5 then scheduleTask engine t s2 else None),
                               sr_reason = None\<rparr>))"

text \<open>\<open>stopped\<close>: whether the agent's \<open>cancelExecution\<close> succeeds.\<close>

definition cancel :: "bool \<Rightarrow> int \<Rightarrow> string \<Rightarrow> TaskScheduler \<Rightarrow> TaskScheduler \<times> bool" where
  "cancel stopped now i s =
     (if jm_has (taskQueue s) i then (updateStatus now i SCancelled None (s\<lparr>taskQueue := jm_delete i (taskQueue s)\<rparr>), True)
      else if jm_has (runningTasks s) i
      then (if stopped then (updateStatus now i SCancelled None s, True) else (s, False))
      else (s, False))"

definition sortedQueue :: "TaskScheduler \<Rightarrow> QueuedTask list" where
  "sortedQueue s = sort_key (\<lambda>q. - nullish (st_priority (q_spec q)) 0) (sort_key q_queuedAt (jm_values (taskQueue s)))"

fun scheduleLoop :: "(NodeInfo list \<Rightarrow> nat) \<Rightarrow> int \<Rightarrow> QueuedTask list \<Rightarrow> TaskScheduler \<Rightarrow> TaskScheduler" where
  "scheduleLoop engine now [] s = s"
| "scheduleLoop engine now (q # qs) s =
     scheduleLoop engine now qs
       (case scheduleTask engine (q_spec q) s of
          Some addr \<Rightarrow> (if addr \<noteq> [] then dispatchTask now (q_spec q) addr
              (s\<lparr>taskQueue := jm_delete (st_taskId (q_spec q)) (taskQueue s)\<rparr>) else s)
        | None \<Rightarrow> s)"

definition scheduleNext :: "(NodeInfo list \<Rightarrow> nat) \<Rightarrow> int \<Rightarrow> TaskScheduler \<Rightarrow> TaskScheduler" where
  "scheduleNext engine now s =
     (if \<not> isLeader (raft (membership s)) then s else scheduleLoop engine now (sortedQueue s) s)"

end
