(* ===== verification/ClusterSchedulerProps.thy ===== *)
theory ClusterSchedulerProps
  imports ClusterScheduler
begin

text \<open>
  Properties of the leader's in-memory scheduler: what a submission does, the node a
  task is given, and the retry count that never counts.
\<close>

section \<open>The node of a task\<close>

definition named :: "string list option \<Rightarrow> NodeInfo \<Rightarrow> bool" where
  "named xs n \<longleftrightarrow> (\<exists>ys. xs = Some ys \<and> (nodeId n \<in> set ys \<or> hostname n \<in> set ys))"

definition given :: "string list option \<Rightarrow> bool" where
  "given xs \<longleftrightarrow> (\<exists>ys. xs = Some ys \<and> ys \<noteq> [])"

text \<open>The constraints of a task, stated of one node.\<close>

definition fits :: "NodeInfo list \<Rightarrow> SchedTask \<Rightarrow> NodeInfo \<Rightarrow> bool" where
  "fits active t n \<longleftrightarrow> n \<in> set active
     \<and> (given (st_targetNodes t) \<longrightarrow> named (st_targetNodes t) n)
     \<and> (\<forall>c. st_constraints t = Some c \<longrightarrow>
          (given (allowedNodes c) \<longrightarrow> named (allowedNodes c) n) \<and> \<not> named (excludedNodes c) n
          \<and> (avoidGamingNodes c \<longrightarrow> (\<forall>r. resources n = Some r \<longrightarrow> \<not> gamingDetected r)))
     \<and> (\<forall>q. st_requirements t = Some q \<longrightarrow> meetsRequirements n q)"

lemma getCandidateNodes_iff: "n \<in> set (getCandidateNodes t active) \<longleftrightarrow> fits active t n"
proof -
  have inc: "(case xs of Some (y # ys) \<Rightarrow> filter (listed (y # ys)) l | _ \<Rightarrow> l)
      = filter (\<lambda>n. given xs \<longrightarrow> named xs n) l" for xs l
    by (auto simp: given_def named_def listed_def filter_id_conv split: option.splits list.splits intro!: filter_cong)
  have exc: "(case xs of Some (y # ys) \<Rightarrow> filter (\<lambda>n. \<not> listed (y # ys) n) l | _ \<Rightarrow> l) = filter (\<lambda>n. \<not> named xs n) l" for xs l
    by (auto simp: named_def listed_def filter_id_conv split: option.splits list.splits intro!: filter_cong)
  have none: "\<not> given None" "\<not> named None n" for n by (simp_all add: given_def named_def)
  show ?thesis
    unfolding getCandidateNodes_def Let_def inc exc fits_def
    by (cases "st_constraints t"; cases "st_requirements t"; cases "resources n") (auto simp: none)
qed

text \<open>The score that decides, when all candidates have one; otherwise none does.\<close>

definition decisive :: "(string, RunningTask) jsmap \<Rightarrow> NodeInfo list \<Rightarrow> SchedTask \<Rightarrow> NodeInfo \<Rightarrow> rat" where
  "decisive rt active t n =
     (if list_all (\<lambda>n. sched_scoreNode rt t n \<noteq> None) (getCandidateNodes t active) then the (sched_scoreNode rt t n) else 0)"

interpretation sched_pick: best_choice "\<lambda>t. getCandidateNodes t active" "decisive rt active"
  "\<lambda>t. bestNode engine (sched_scoreNode rt t) (getCandidateNodes t active)" "fits active" for rt active engine
proof unfold_locales
  fix t n m
  let ?cs = "getCandidateNodes t active" and ?b = "bestNode engine (sched_scoreNode rt t) (getCandidateNodes t active)"
  show "?b = None \<longleftrightarrow> ?cs = []" by (simp add: bestNode_def)
  show "?b = Some n \<Longrightarrow> n \<in> set ?cs"
    using hd_sort_desc(1) by (auto simp: bestNode_def split: if_splits)
  show "?b = Some n \<Longrightarrow> m \<in> set ?cs \<Longrightarrow> decisive rt active t m \<le> decisive rt active t n"
    using hd_sort_desc(2) [of ?cs m "\<lambda>n. the (sched_scoreNode rt t n)"] by (auto simp: bestNode_def decisive_def split: if_splits)
  show "n \<in> set ?cs \<longleftrightarrow> fits active t n" by (rule getCandidateNodes_iff)
qed

text \<open>
  The address a task is given belongs to an active node that satisfies the task's
  targets, exclusions, gaming and resource demands, and, when all such nodes report
  their memory, to one with the greatest score; no address is given only when no node
  satisfies them.
\<close>

theorem scheduleTask_best:
  "(scheduleTask engine t s = None \<longleftrightarrow> (\<forall>n. \<not> fits (getActiveNodes (membership s)) t n))
   \<and> (\<forall>a. scheduleTask engine t s = Some a \<longrightarrow>
        (\<exists>n. a = address_of (tailscaleIp n) (grpcPort n) \<and> fits (getActiveNodes (membership s)) t n
           \<and> ((\<forall>m. fits (getActiveNodes (membership s)) t m \<longrightarrow> sched_scoreNode (runningTasks s) t m \<noteq> None) \<longrightarrow>
              (\<forall>m. fits (getActiveNodes (membership s)) t m \<longrightarrow>
                 the (sched_scoreNode (runningTasks s) t m) \<le> the (sched_scoreNode (runningTasks s) t n)))))"
proof -
  let ?A = "getActiveNodes (membership s)" and ?rt = "runningTasks s"
  let ?b = "bestNode engine (sched_scoreNode ?rt t) (getCandidateNodes t ?A)"
  have none: "?b = None \<longleftrightarrow> (\<forall>n. \<not> fits ?A t n)"
    using sched_pick.pick_complete [of engine ?rt t ?A] by auto
  have best: "fits ?A t n \<and> ((\<forall>m. fits ?A t m \<longrightarrow> sched_scoreNode ?rt t m \<noteq> None) \<longrightarrow>
      (\<forall>m. fits ?A t m \<longrightarrow> the (sched_scoreNode ?rt t m) \<le> the (sched_scoreNode ?rt t n)))" if "?b = Some n" for n
    using sched_pick.pick_sound [OF that] sched_pick.pick_best [OF that]
    by (auto simp: decisive_def list_all_iff getCandidateNodes_iff)
  show ?thesis unfolding scheduleTask_def using none best by auto
qed

definition ex_sched :: "NodeInfo list \<Rightarrow> TaskScheduler" where
  "ex_sched ns = new_TaskScheduler None None
     \<lparr>mc_nodeId = ''a'', mc_hostname = ''a'', mc_tailscaleIp = ''1'', mc_grpcPort = 7, autoApprove = False,
      m_nodes = map (\<lambda>n. (nodeId n, n)) ns, pendingApprovals = [], leaderAddress = None, heartbeatTimeoutMs = 15000,
      consecutiveHeartbeatFailures = 0, rejoinInProgress = False, intervals = True,
      raft = (new_RaftNode \<lparr>c_nodeId = ''a'', c_maxLogEntriesPerAppend = None, c_nonVoting = False, c_dataDir = None, c_writable = False\<rparr> NoFile)\<lparr>state := Leader\<rparr>,
      m_emitted = []\<rparr>"

definition ex_shell :: "string \<Rightarrow> SchedTask" where
  "ex_shell i = \<lparr>st_taskId = i, st_type = ''shell'', st_submitterNode = ''a'', st_submitterSession = None,
     st_shell = Some \<lparr>sh_command = ''ls'', sh_workingDirectory = None, sh_sandboxed = None\<rparr>, st_container = None,
     st_subagent = None, st_k8sJob = None, st_claudeRelay = None, st_requirements = None, st_constraints = None,
     st_priority = None, st_timeoutMs = None, st_environment = None, st_targetNodes = None\<rparr>"

theorem scheduleTask_best_witness:
  "scheduleTask (\<lambda>_. 0) (ex_shell ''t'') (ex_sched [freshNode 0 ''b'' ''b'' ''h'' 7 []]) = Some (address_of ''h'' 7)
   \<and> (\<exists>n. address_of ''h'' 7 = address_of (tailscaleIp n) (grpcPort n)
        \<and> fits (getActiveNodes (membership (ex_sched [freshNode 0 ''b'' ''b'' ''h'' 7 []]))) (ex_shell ''t'') n)"
proof -
  have "scheduleTask (\<lambda>_. 0) (ex_shell ''t'') (ex_sched [freshNode 0 ''b'' ''b'' ''h'' 7 []]) = Some (address_of ''h'' 7)"
    by (simp add: scheduleTask_def bestNode_def sched_scoreNode_def getCandidateNodes_def getActiveNodes_def getAllNodes_def
        jm_values_def ex_sched_def new_TaskScheduler_def ex_shell_def freshNode_def sort_desc_def)
  with scheduleTask_best [of "\<lambda>_. 0" "ex_shell ''t''" "ex_sched [freshNode 0 ''b'' ''b'' ''h'' 7 []]"] show ?thesis by blast
qed

section \<open>Submission\<close>

lemma enqueue_sel [simp]:
  "taskQueue (enqueue now t s) = jm_set (st_taskId t) \<lparr>q_spec = t, q_queuedAt = now, q_attempts = 0\<rparr> (taskQueue s)"
  "membership (enqueue now t s) = membership s" "runningTasks (enqueue now t s) = runningTasks s"
  by (simp_all add: enqueue_def sched_emit_def)

text \<open>
  A submission to the leader is accepted exactly when the task is valid and the
  queue is not full; then the task is in the queue, with status queued, no attempt
  made, and its entry at the end of the log. Otherwise nothing changes. The queue never
  grows beyond its limit by a submission.
\<close>

theorem submit_on_leader:
  assumes "isLeader (raft (membership s))" and "jm_wf (taskQueue s)"
    and "submit json rpc engine now t s = (s', Some r)"
  shows "(sr_accepted r \<longleftrightarrow> validateTask t = None \<and> jm_size (taskQueue s) < maxQueueSize s)
    \<and> (sr_accepted r \<longrightarrow>
         jm_get (taskQueue s') (st_taskId t) = Some \<lparr>q_spec = t, q_queuedAt = now, q_attempts = 0\<rparr>
         \<and> map_option ss_state (getStatus (st_taskId t) s') = Some SQueued
         \<and> map e_data (rlog (raft (membership s'))) = map e_data (rlog (raft (membership s))) @ [json t])
    \<and> (\<not> sr_accepted r \<longrightarrow> s' = s)
    \<and> jm_size (taskQueue s') \<le> max (jm_size (taskQueue s)) (maxQueueSize s)"
  using assms
  by (auto simp: submit_def rejected_def appendEntry_def isLeader_def getStatus_def enqueue_def sched_emit_def jm.size_put
      Let_def split: option.splits if_splits)

theorem submit_on_leader_witness:
  "map_option sr_accepted (snd (submit (\<lambda>_. ''t'') (\<lambda>_ _. None) (\<lambda>_. 0) 5 (ex_shell ''t'') (ex_sched []))) = Some True"
proof -
  have v: "validateTask (ex_shell ''t'') = None" by (simp add: validateTask_def ex_shell_def truthy_def)
  have l: "isLeader (raft (membership (ex_sched [])))" "jm_wf (taskQueue (ex_sched []))"
    "jm_size (taskQueue (ex_sched [])) < maxQueueSize (ex_sched [])"
    by (simp_all add: ex_sched_def new_TaskScheduler_def isLeader_def jm_size_def nullish_def)
  obtain s' r where r: "submit (\<lambda>_. ''t'') (\<lambda>_ _. None) (\<lambda>_. 0) 5 (ex_shell ''t'') (ex_sched []) = (s', Some r)"
    using v l by (simp add: submit_def appendEntry_def isLeader_def Let_def)
  from submit_on_leader [OF l(1,2) r] v l(3) r show ?thesis by simp
qed

section \<open>Retries\<close>

text \<open>
  One round of a failing task: the body of the scheduling loop, which takes it from the
  queue and dispatches it, and then the failure of its execution.
\<close>

definition failingRound :: "int \<Rightarrow> string \<Rightarrow> string \<Rightarrow> SchedTask \<Rightarrow> TaskScheduler \<Rightarrow> TaskScheduler" where
  "failingRound now addr err t s =
     sched_handleTaskFailure now t err (dispatchTask now t addr (s\<lparr>taskQueue := jm_delete (st_taskId t) (taskQueue s)\<rparr>))"

lemma updateStatus_sel [simp]:
  "taskQueue (updateStatus now i st nd s) = taskQueue s" "sched_maxRetries (updateStatus now i st nd s) = sched_maxRetries s"
  "map_option ss_state (jm_get (taskStatuses (updateStatus now i st nd s)) i) = Some st"
  by (auto simp: updateStatus_def sched_emit_def Let_def)

lemma failingRound_requeues:
  assumes "0 < sched_maxRetries s"
  shows "sched_maxRetries (failingRound now addr err t s) = sched_maxRetries s"
    and "map_option q_attempts (jm_get (taskQueue (failingRound now addr err t s)) (st_taskId t)) = Some 1"
    and "map_option ss_state (getStatus (st_taskId t) (failingRound now addr err t s)) = Some SQueued"
  using assms
  by (simp_all add: failingRound_def sched_handleTaskFailure_def dispatchTask_def sched_emit_def Let_def getStatus_def)

text \<open>
  The retry limit is never reached: the failure handler looks for the number of
  attempts in the queue, from which the task was removed when it was dispatched. A task
  that fails every time is queued again after each of any number of failures, always
  with one attempt recorded.
\<close>

theorem failing_task_retried_forever:
  assumes "0 < sched_maxRetries s" and "0 < k"
  shows "map_option q_attempts (jm_get (taskQueue ((failingRound now addr err t ^^ k) s)) (st_taskId t)) = Some 1
    \<and> map_option ss_state (getStatus (st_taskId t) ((failingRound now addr err t ^^ k) s)) = Some SQueued"
proof -
  have "sched_maxRetries ((failingRound now addr err t ^^ j) s) = sched_maxRetries s" for j
    by (induction j) (use assms(1) in \<open>simp_all add: failingRound_requeues(1)\<close>)
  moreover obtain j where "k = Suc j" using assms(2) by (cases k) auto
  ultimately show ?thesis using assms(1) by (simp add: failingRound_requeues(2,3))
qed

theorem failing_task_retried_forever_witness:
  "map_option ss_state (getStatus ''t'' ((failingRound 0 ''h:7'' ''boom'' (ex_shell ''t'') ^^ 10) (ex_sched []))) = Some SQueued"
  using failing_task_retried_forever [of "ex_sched []" 10 0 "''h:7''" "''boom''" "ex_shell ''t''"]
  by (simp add: ex_sched_def new_TaskScheduler_def nullish_def ex_shell_def)

text \<open>
  A valid task of type \<open>subagent\<close> that is forwarded to the leader arrives there without
  its subagent part and is invalid.
\<close>

lemma forwarded_subagent_invalid:
  "st_type t = ''subagent'' \<Longrightarrow> validateTask t = None \<Longrightarrow> validateTask (forwardedSpec t) = Some ''Subagent task missing prompt''"
  by (simp add: validateTask_def forwardedSpec_def truthy_def split: if_splits)

end
