(* ===== verification/MemoryReplication.thy ===== *)
theory MemoryReplication
  imports Membership RaftSafety
begin

text \<open>
  \<open>MemoryReplicator\<close> of \<open>src/memory/replication.ts\<close>: writes to the shared SQLite database
  go through the replicated log; together with the two handlers of \<open>src/grpc/handlers.ts\<close>
  it talks to, \<open>ForwardMemoryWrite\<close> and \<open>RequestMemorySnapshot\<close>.

  The database engine is a parameter: \<open>sql_run sql params d\<close> is the error of a statement
  or the number of changed rows and the new database, \<open>class_of d table\<close> the row of
  \<open>_table_classification\<close>. So are the digest \<open>sha\<close>, the text \<open>json\<close> of a parameter list,
  and \<open>enc\<close>/\<open>dec\<close>, the text of a payload and its parsing (\<open>None\<close>: \<open>JSON.parse\<close> throws).
  \<open>forwardToLeader\<close> waits between its attempts; \<open>ms k\<close> is the membership at attempt \<open>k\<close>
  and \<open>rpc k\<close> the remote call then (\<open>None\<close>: it failed).
\<close>

section \<open>Data\<close>

datatype Classification = Public | Internal | LocalOnly

record 'p MemoryPayload =
  mw_sql :: string
  mw_params :: "'p list"
  mw_checksum :: string
  mw_classification :: "Classification option"
  mw_table :: "string option"

record WriteResult =
  wr_success :: bool
  wr_error :: "string option"
  wr_changes :: "nat option"

type_synonym bytes = "nat list"

record 'd MemoryReplicator =
  mr_membership :: MembershipManager
  mr_nodeId :: string
  mr_db :: 'd
  mr_open :: bool
  mr_file :: bytes
  mr_listening :: bool
  mr_integrity :: bool

definition new_MemoryReplicator :: "string option \<Rightarrow> 'd \<Rightarrow> bytes \<Rightarrow> MembershipManager \<Rightarrow> 'd MemoryReplicator" where
  "new_MemoryReplicator i d f m =
     \<lparr>mr_membership = m, mr_nodeId = nullish i ''unknown'', mr_db = d, mr_open = True, mr_file = f,
      mr_listening = True, mr_integrity = False\<rparr>"

section \<open>Writing\<close>

type_synonym ('p, 'd) sql_engine = "string \<Rightarrow> 'p list \<Rightarrow> 'd \<Rightarrow> string + nat \<times> 'd"

text \<open>\<open>SharedMemoryDB.run\<close>; a closed connection throws.\<close>

definition db_run :: "('p, 'd) sql_engine \<Rightarrow> string \<Rightarrow> 'p list \<Rightarrow> 'd MemoryReplicator \<Rightarrow> string + nat \<times> 'd MemoryReplicator" where
  "db_run sql_run sql ps r =
     (if \<not> mr_open r then Inl ''The database connection is not open''
      else case sql_run sql ps (mr_db r) of Inl e \<Rightarrow> Inl e | Inr (k, d) \<Rightarrow> Inr (k, r\<lparr>mr_db := d\<rparr>))"

definition applyLocally :: "('p, 'd) sql_engine \<Rightarrow> string \<Rightarrow> 'p list \<Rightarrow> 'd MemoryReplicator \<Rightarrow> 'd MemoryReplicator \<times> WriteResult" where
  "applyLocally sql_run sql ps r =
     (case db_run sql_run sql ps r of
        Inr (k, r') \<Rightarrow> (r', \<lparr>wr_success = True, wr_error = None, wr_changes = Some k\<rparr>)
      | Inl e \<Rightarrow> (r, \<lparr>wr_success = False, wr_error = Some e, wr_changes = None\<rparr>))"

definition getClassificationForTable :: "('d \<Rightarrow> string \<Rightarrow> Classification option) \<Rightarrow> string option \<Rightarrow> 'd MemoryReplicator \<Rightarrow> Classification" where
  "getClassificationForTable class_of t r =
     (if \<not> truthy t then Public else nullish (class_of (mr_db r) (the t)) Public)"

definition checksumOf :: "(string \<Rightarrow> string) \<Rightarrow> ('p list \<Rightarrow> string) \<Rightarrow> string \<Rightarrow> 'p list \<Rightarrow> string" where
  "checksumOf sha json sql ps = sha (sql @ json ps)"

definition writeAsLeader :: "('p MemoryPayload \<Rightarrow> string) \<Rightarrow> 'p MemoryPayload \<Rightarrow> 'd MemoryReplicator \<Rightarrow> 'd MemoryReplicator \<times> WriteResult" where
  "writeAsLeader enc p r =
     (let (n, res, _) = appendEntry MemoryWrite (enc p) (raft (mr_membership r));
          r' = r\<lparr>mr_membership := (mr_membership r)\<lparr>raft := n\<rparr>\<rparr>
      in if success res then (r', \<lparr>wr_success = True, wr_error = None, wr_changes = Some 0\<rparr>)
         else (r', \<lparr>wr_success = False, wr_error = Some ''Failed to append to Raft log'', wr_changes = None\<rparr>))"

definition resolveLeaderAddress :: "MembershipManager \<Rightarrow> string option" where
  "resolveLeaderAddress m =
     (if truthy (leaderAddress m) then leaderAddress m
      else if \<not> truthy (leaderId (raft m)) then None
      else case getNode (the (leaderId (raft m))) m of
             Some n \<Rightarrow> if tailscaleIp n \<noteq> [] \<and> grpcPort n \<noteq> 0 then Some (address_of (tailscaleIp n) (grpcPort n)) else None
           | None \<Rightarrow> None)"

record ForwardReply =
  fr_success :: bool
  fr_error :: string

definition failed :: "string \<Rightarrow> WriteResult" where
  "failed e = \<lparr>wr_success = False, wr_error = Some e, wr_changes = None\<rparr>"

text \<open>
  The retry loop from \<open>attempt\<close> on, with \<open>left\<close> attempts left; the results are the
  addresses whose connection was closed and the result of the write. \<open>why\<close> is the
  message of the exception of a failed call.
\<close>

fun forwardLoop :: "(nat \<Rightarrow> MembershipManager) \<Rightarrow> (nat \<Rightarrow> string \<Rightarrow> 'p MemoryPayload \<Rightarrow> ForwardReply option) \<Rightarrow> string
    \<Rightarrow> 'p MemoryPayload \<Rightarrow> nat \<Rightarrow> nat \<Rightarrow> string list \<times> WriteResult" where
  "forwardLoop ms rpc why p attempt 0 = ([], failed ''Forward to leader failed after retries'')"
| "forwardLoop ms rpc why p attempt (Suc left) =
     (case resolveLeaderAddress (ms attempt) of
        None \<Rightarrow>
          if \<not> truthy (leaderId (raft (ms attempt))) then ([], failed ''No leader available to forward write'')
          else if 0 < left then forwardLoop ms rpc why p (Suc attempt) left
          else ([], failed ''No leader available to forward write'')
      | Some a \<Rightarrow>
          (case rpc attempt a p of
             Some reply \<Rightarrow>
               if fr_success reply then ([], \<lparr>wr_success = True, wr_error = None, wr_changes = None\<rparr>)
               else if fr_error reply = ''Not the leader''
               then let (cs, res) = forwardLoop ms rpc why p (Suc attempt) left in (a # cs, res)
               else ([], \<lparr>wr_success = False, wr_error = orElse (Some (fr_error reply)) None, wr_changes = None\<rparr>)
           | None \<Rightarrow>
               if 0 < left
               then let (cs, res) = forwardLoop ms rpc why p (Suc attempt) left in (a # cs, res)
               else ([a], failed why)))"

definition mem_forwardToLeader :: "(nat \<Rightarrow> MembershipManager) \<Rightarrow> (nat \<Rightarrow> string \<Rightarrow> 'p MemoryPayload \<Rightarrow> ForwardReply option) \<Rightarrow> string
    \<Rightarrow> 'p MemoryPayload \<Rightarrow> string list \<times> WriteResult" where
  "mem_forwardToLeader ms rpc why p = forwardLoop ms rpc why p 0 3"

definition mem_write :: "('p, 'd) sql_engine \<Rightarrow> ('d \<Rightarrow> string \<Rightarrow> Classification option) \<Rightarrow> (string \<Rightarrow> string) \<Rightarrow> ('p list \<Rightarrow> string)
    \<Rightarrow> ('p MemoryPayload \<Rightarrow> string) \<Rightarrow> (nat \<Rightarrow> MembershipManager) \<Rightarrow> (nat \<Rightarrow> string \<Rightarrow> 'p MemoryPayload \<Rightarrow> ForwardReply option) \<Rightarrow> string
    \<Rightarrow> string \<Rightarrow> 'p list \<Rightarrow> Classification option \<Rightarrow> string option \<Rightarrow> 'd MemoryReplicator \<Rightarrow> 'd MemoryReplicator \<times> WriteResult" where
  "mem_write sql_run class_of sha json enc ms rpc why sql ps cls table r =
     (let c = nullish cls (getClassificationForTable class_of table r)
      in if c = LocalOnly then applyLocally sql_run sql ps r
         else let p = \<lparr>mw_sql = sql, mw_params = ps, mw_checksum = checksumOf sha json sql ps,
                       mw_classification = Some c, mw_table = table\<rparr>
              in if state (raft (mr_membership r)) = Leader then writeAsLeader enc p r
                 else (r, snd (mem_forwardToLeader ms rpc why p)))"

section \<open>Applying committed entries\<close>

definition mem_handleCommittedEntry :: "('p, 'd) sql_engine \<Rightarrow> (string \<Rightarrow> string) \<Rightarrow> ('p list \<Rightarrow> string) \<Rightarrow> (string \<Rightarrow> 'p MemoryPayload option)
    \<Rightarrow> LogEntry \<Rightarrow> 'd MemoryReplicator \<Rightarrow> 'd MemoryReplicator" where
  "mem_handleCommittedEntry sql_run sha json dec e r =
     (if \<not> mr_listening r \<or> e_type e \<noteq> MemoryWrite then r
      else case dec (e_data e) of None \<Rightarrow> r
           | Some p \<Rightarrow>
               if mw_checksum p \<noteq> checksumOf sha json (mw_sql p) (mw_params p) then r
               else (case db_run sql_run (mw_sql p) (mw_params p) r of Inl _ \<Rightarrow> r | Inr (_, r') \<Rightarrow> r'))"

text \<open>The leader's handler of a forwarded write; unparsable parameters are an exception.\<close>

definition ForwardMemoryWrite :: "(string \<Rightarrow> string) \<Rightarrow> ('p list \<Rightarrow> string) \<Rightarrow> ('p MemoryPayload \<Rightarrow> string) \<Rightarrow> 'p MemoryPayload \<Rightarrow> RaftNode
    \<Rightarrow> RaftNode \<times> ForwardReply" where
  "ForwardMemoryWrite sha json enc p n =
     (if state n \<noteq> Leader then (n, \<lparr>fr_success = False, fr_error = ''Not the leader''\<rparr>)
      else if mw_checksum p \<noteq> checksumOf sha json (mw_sql p) (mw_params p)
      then (n, \<lparr>fr_success = False, fr_error = ''Checksum verification failed''\<rparr>)
      else let (n', res, _) = appendEntry MemoryWrite (enc (p\<lparr>mw_table := orElse (mw_table p) None\<rparr>)) n
           in (n', \<lparr>fr_success = success res, fr_error = (if success res then [] else ''Failed to append to Raft log'')\<rparr>))"

section \<open>Integrity checks and life cycle\<close>

definition startIntegrityChecks :: "'d MemoryReplicator \<Rightarrow> 'd MemoryReplicator" where
  "startIntegrityChecks r = r\<lparr>mr_integrity := True\<rparr>"

definition stopIntegrityChecks :: "'d MemoryReplicator \<Rightarrow> 'd MemoryReplicator" where
  "stopIntegrityChecks r = r\<lparr>mr_integrity := False\<rparr>"

definition mem_stop :: "'d MemoryReplicator \<Rightarrow> 'd MemoryReplicator" where
  "mem_stop r = (stopIntegrityChecks r)\<lparr>mr_listening := False\<rparr>"

section \<open>Snapshots\<close>

record SnapshotChunk =
  ch_data :: bytes
  ch_offset :: string
  ch_total_size :: string
  ch_done :: bool
  ch_checksum :: string

definition CHUNK_SIZE :: nat where
  "CHUNK_SIZE = 64 * 1024"

text \<open>The chunks from \<open>offset\<close> on that the leader writes to the stream; an empty file has none.\<close>

function sendChunks :: "(bytes \<Rightarrow> string) \<Rightarrow> nat \<Rightarrow> bytes \<Rightarrow> nat \<Rightarrow> SnapshotChunk list" where
  "sendChunks digest csize file offset =
     (if csize = 0 \<or> length file \<le> offset then []
      else \<lparr>ch_data = take csize (drop offset file), ch_offset = show_nat offset, ch_total_size = show_nat (length file),
            ch_done = (length file \<le> offset + csize), ch_checksum = (if length file \<le> offset + csize then digest file else [])\<rparr>
           # sendChunks digest csize file (offset + csize))"
  by pat_completeness auto
termination
  by (relation "measure (\<lambda>(digest, csize, file, offset). length file - offset)") auto

declare sendChunks.simps [simp del]

definition RequestMemorySnapshot :: "(bytes \<Rightarrow> string) \<Rightarrow> bytes \<Rightarrow> SnapshotChunk list" where
  "RequestMemorySnapshot digest file = sendChunks digest CHUNK_SIZE file 0"

text \<open>
  \<open>chunk.data.copy(fileBuffer, offset)\<close>: what fits is copied, a negative offset throws;
  an offset that is not a number counts as zero.
\<close>

definition buf_copy :: "bytes \<Rightarrow> int option \<Rightarrow> bytes \<Rightarrow> bytes option" where
  "buf_copy d off buf =
     (let i = nullish off 0
      in if i < 0 then None
         else Some (take (nat i) buf @ take (length buf - nat i) d @ drop (nat i + length d) buf))"

fun copyChunks :: "SnapshotChunk list \<Rightarrow> bytes \<Rightarrow> bytes option" where
  "copyChunks [] buf = Some buf"
| "copyChunks (c # cs) buf = Option.bind (buf_copy (ch_data c) (parseInt (ch_offset c)) buf) (copyChunks cs)"

definition receivedChecksum :: "SnapshotChunk list \<Rightarrow> string" where
  "receivedChecksum cs = fold (\<lambda>c s. if ch_done c then ch_checksum c else s) cs []"

text \<open>\<open>Buffer.alloc(totalSize)\<close> of the last chunk's size; a negative or missing number throws.\<close>

definition assemble :: "SnapshotChunk list \<Rightarrow> bytes option" where
  "assemble cs =
     (case parseInt (ch_total_size (last cs)) of None \<Rightarrow> None
      | Some n \<Rightarrow> if n < 0 then None else copyChunks cs (replicate (nat n) 0))"

text \<open>
  \<open>requestSnapshot\<close>: \<open>stream\<close> is what arrives (\<open>None\<close>: the stream failed).
  The file is replaced and the connection closed; it is not opened again.
\<close>

definition requestSnapshot :: "(bytes \<Rightarrow> string) \<Rightarrow> (string \<Rightarrow> SnapshotChunk list option) \<Rightarrow> 'd MemoryReplicator \<Rightarrow> 'd MemoryReplicator \<times> bool" where
  "requestSnapshot digest stream r =
     (if \<not> truthy (leaderAddress (mr_membership r)) then (r, False)
      else case stream (the (leaderAddress (mr_membership r))) of None \<Rightarrow> (r, False)
           | Some cs \<Rightarrow>
               if cs = [] then (r, False)
               else (case assemble cs of None \<Rightarrow> (r, False)
                     | Some buf \<Rightarrow>
                         if receivedChecksum cs \<noteq> [] \<and> digest buf \<noteq> receivedChecksum cs then (r, False)
                         else (r\<lparr>mr_open := False, mr_file := buf\<rparr>, True)))"

end
