(* ===== verification/MemoryProps.thy ===== *)
theory MemoryProps
  imports MemoryReplication "HOL-Library.Countable"
begin

text \<open>
  Properties of the shared memory: when a forwarded write succeeds, that an acknowledged
  write is in the leader's log as an entry every replica executes, and that a snapshot
  arrives as it was sent.
\<close>

section \<open>Forwarding\<close>

definition answered :: "(nat \<Rightarrow> MembershipManager) \<Rightarrow> (nat \<Rightarrow> string \<Rightarrow> 'p MemoryPayload \<Rightarrow> ForwardReply option) \<Rightarrow> 'p MemoryPayload
    \<Rightarrow> nat \<Rightarrow> ForwardReply option" where
  "answered ms rpc p k = Option.bind (resolveLeaderAddress (ms k)) (\<lambda>a. rpc k a p)"

text \<open>Attempts after which the loop tries again.\<close>

definition transient :: "(nat \<Rightarrow> MembershipManager) \<Rightarrow> (nat \<Rightarrow> string \<Rightarrow> 'p MemoryPayload \<Rightarrow> ForwardReply option) \<Rightarrow> 'p MemoryPayload
    \<Rightarrow> nat \<Rightarrow> bool" where
  "transient ms rpc p k =
     (case answered ms rpc p k of
        Some reply \<Rightarrow> \<not> fr_success reply \<and> fr_error reply = ''Not the leader''
      | None \<Rightarrow> truthy (leaderId (raft (ms k))) \<or> resolveLeaderAddress (ms k) \<noteq> None)"

lemma forwardLoop_success:
  "wr_success (snd (forwardLoop ms rpc why p a left)) \<longleftrightarrow>
     (\<exists>k. a \<le> k \<and> k < a + left \<and> (\<exists>reply. answered ms rpc p k = Some reply \<and> fr_success reply)
        \<and> (\<forall>j. a \<le> j \<and> j < k \<longrightarrow> transient ms rpc p j))"
proof (induction left arbitrary: a)
  case (Suc left)
  let ?ok = "\<lambda>k. \<exists>reply. answered ms rpc p k = Some reply \<and> fr_success reply"
  have now_or_later: "(\<exists>k. a \<le> k \<and> k < a + Suc left \<and> ?ok k \<and> (\<forall>j. a \<le> j \<and> j < k \<longrightarrow> transient ms rpc p j)) \<longleftrightarrow>
      ?ok a \<or> transient ms rpc p a \<and> (\<exists>k. Suc a \<le> k \<and> k < Suc a + left \<and> ?ok k \<and> (\<forall>j. Suc a \<le> j \<and> j < k \<longrightarrow> transient ms rpc p j))"
    (is "?L \<longleftrightarrow> ?R")
  proof
    assume ?L
    then obtain k where k: "a \<le> k" "k < a + Suc left" "?ok k" "\<forall>j. a \<le> j \<and> j < k \<longrightarrow> transient ms rpc p j" by blast
    then show ?R by (cases "k = a") (auto intro!: exI [of _ k])
  next
    assume ?R
    then consider "?ok a" | k where "transient ms rpc p a" "Suc a \<le> k" "k < Suc a + left" "?ok k"
        "\<forall>j. Suc a \<le> j \<and> j < k \<longrightarrow> transient ms rpc p j" by blast
    then show ?L
    proof cases
      case 1 then show ?thesis by (intro exI [of _ a]) auto
    next
      case 2
      then have "\<forall>j. a \<le> j \<and> j < k \<longrightarrow> transient ms rpc p j" by (metis Suc_leI le_neq_implies_less)
      with 2 show ?thesis by (intro exI [of _ k]) auto
    qed
  qed
  show ?case unfolding now_or_later Suc.IH [symmetric]
    by (cases "left = 0")
       (auto simp: answered_def transient_def failed_def Let_def case_prod_unfold split: option.splits if_splits)
qed (simp add: failed_def)

text \<open>
  A forwarded write succeeds exactly when one of at most three attempts is answered
  with success and every attempt before it failed in a way that is retried: the leader
  is known but not its address, the call failed, or the node called no longer leads.
\<close>

theorem forward_success_iff:
  "wr_success (snd (mem_forwardToLeader ms rpc why p)) \<longleftrightarrow>
     (\<exists>k<3. (\<exists>reply. answered ms rpc p k = Some reply \<and> fr_success reply) \<and> (\<forall>j. j < k \<longrightarrow> transient ms rpc p j))"
  by (simp add: mem_forwardToLeader_def forwardLoop_success)

definition ex_member :: "string \<Rightarrow> MembershipManager" where
  "ex_member i = (new_MembershipManager 0 i ''h'' ''10.0.0.1'' 7 None True (new_RaftNode
     \<lparr>c_nodeId = i, c_maxLogEntriesPerAppend = None, c_nonVoting = False, c_dataDir = None, c_writable = True\<rparr> NoFile))
     \<lparr>leaderAddress := Some ''10.0.0.2:7''\<rparr>"

definition ex_write :: "nat MemoryPayload" where
  "ex_write = \<lparr>mw_sql = ''INSERT'', mw_params = [1], mw_checksum = ''INSERT'', mw_classification = Some Public, mw_table = None\<rparr>"

theorem forward_success_iff_witness:
  "wr_success (snd (mem_forwardToLeader (\<lambda>_. ex_member ''f'')
      (\<lambda>k a p. if k = 0 then None else Some \<lparr>fr_success = True, fr_error = []\<rparr>) ''timeout'' ex_write))"
  unfolding forward_success_iff
  by (intro exI [of _ 1]) (simp add: answered_def transient_def resolveLeaderAddress_def ex_member_def new_MembershipManager_def truthy_def)

section \<open>Acknowledged writes\<close>

text \<open>An entry whose application runs the statement, and nothing else, on every replica.\<close>

definition carries :: "('p, 'd) sql_engine \<Rightarrow> (string \<Rightarrow> string) \<Rightarrow> ('p list \<Rightarrow> string) \<Rightarrow> (string \<Rightarrow> 'p MemoryPayload option)
    \<Rightarrow> string \<Rightarrow> 'p list \<Rightarrow> LogEntry \<Rightarrow> bool" where
  "carries sql_run sha json dec sql ps e \<longleftrightarrow>
     (\<forall>r. mr_listening r \<and> mr_open r \<longrightarrow>
        mem_handleCommittedEntry sql_run sha json dec e r =
          (case sql_run sql ps (mr_db r) of Inl _ \<Rightarrow> r | Inr (k, d) \<Rightarrow> r\<lparr>mr_db := d\<rparr>))"

lemma carries_payload:
  assumes "dec (e_data e) = Some p" and "e_type e = MemoryWrite"
    and "mw_checksum p = checksumOf sha json (mw_sql p) (mw_params p)"
  shows "carries sql_run sha json dec (mw_sql p) (mw_params p) e"
  using assms by (auto simp: carries_def mem_handleCommittedEntry_def db_run_def split: sum.splits)

lemma forwarded_entry:
  assumes "\<And>p. dec (enc p) = Some p"
    and "fr_success (snd (ForwardMemoryWrite sha json enc p n))"
  shows "state n = Leader \<and> (\<exists>e. rlog (fst (ForwardMemoryWrite sha json enc p n)) = rlog n @ [e]
    \<and> carries sql_run sha json dec (mw_sql p) (mw_params p) e)"
proof -
  have n: "state n = Leader" "mw_checksum p = checksumOf sha json (mw_sql p) (mw_params p)"
    using assms(2) by (auto simp: ForwardMemoryWrite_def split: if_splits)
  let ?p = "p\<lparr>mw_table := orElse (mw_table p) None\<rparr>"
  let ?e = "\<lparr>e_term = currentTerm n, e_index = getLastLogIndex n + 1, e_type = MemoryWrite, e_data = enc ?p\<rparr>"
  have "rlog (fst (ForwardMemoryWrite sha json enc p n)) = rlog n @ [?e]"
    using n by (simp add: ForwardMemoryWrite_def appendEntry_def Let_def)
  moreover have "carries sql_run sha json dec (mw_sql p) (mw_params p) ?e"
    using carries_payload [of dec ?e ?p sha json sql_run] assms(1) [of ?p] n(2) by simp
  ultimately show ?thesis using n(1) by blast
qed

text \<open>The payload a follower forwards for a statement.\<close>

abbreviation payload_of :: "(string \<Rightarrow> string) \<Rightarrow> ('p list \<Rightarrow> string) \<Rightarrow> string \<Rightarrow> 'p list \<Rightarrow> Classification \<Rightarrow> string option \<Rightarrow> 'p MemoryPayload" where
  "payload_of sha json sql ps c table \<equiv>
     \<lparr>mw_sql = sql, mw_params = ps, mw_checksum = checksumOf sha json sql ps, mw_classification = Some c, mw_table = table\<rparr>"

text \<open>
  C26. An acknowledged write is in the leader's log. The calls of a follower's write meet
  the leader's handler at the nodes \<open>ls k a\<close> that answer attempt \<open>k\<close> at address \<open>a\<close>, or are
  lost, which may depend on what is sent. When the write succeeds, one of its at most
  three calls, at the leader's address known at that attempt and with a payload of
  exactly the statement and the parameters written, was not lost; the node it met was a
  leader, which appended an entry, and every replica that listens and handles this entry
  runs exactly that statement with those parameters.
\<close>

theorem acknowledged_write_logged:
  assumes json: "\<And>p. dec (enc p) = Some p"
    and handler: "\<And>k a p. rpc k a p = (if lost k a p then None else Some (snd (ForwardMemoryWrite sha json enc p (ls k a))))"
    and follower: "state (raft (mr_membership r)) \<noteq> Leader"
    and shared: "nullish cls (getClassificationForTable class_of table r) \<noteq> LocalOnly"
    and ack: "mem_write sql_run class_of sha json enc ms rpc why sql ps cls table r = (r', res)" "wr_success res"
  shows "\<exists>k a e. k < 3 \<and> resolveLeaderAddress (ms k) = Some a
    \<and> \<not> lost k a (payload_of sha json sql ps (nullish cls (getClassificationForTable class_of table r)) table)
    \<and> state (ls k a) = Leader
    \<and> rlog (fst (ForwardMemoryWrite sha json enc (payload_of sha json sql ps (nullish cls (getClassificationForTable class_of table r)) table) (ls k a)))
        = rlog (ls k a) @ [e]
    \<and> carries sql_run sha json dec sql ps e"
proof -
  let ?p = "payload_of sha json sql ps (nullish cls (getClassificationForTable class_of table r)) table"
  have "wr_success (snd (mem_forwardToLeader ms rpc why ?p))"
    using ack follower shared by (auto simp: mem_write_def Let_def)
  then obtain k reply where k: "k < 3" "answered ms rpc ?p k = Some reply" "fr_success reply"
    by (auto simp: mem_forwardToLeader_def forwardLoop_success)
  then obtain a where a: "resolveLeaderAddress (ms k) = Some a" "\<not> lost k a ?p"
    and ok: "fr_success (snd (ForwardMemoryWrite sha json enc ?p (ls k a)))"
    by (auto simp: answered_def handler bind_eq_Some_conv split: if_splits)
  from forwarded_entry [OF json ok, of sql_run] k(1) a show ?thesis by auto
qed

text \<open>A text of a payload that can be read back: the position of its fields in an enumeration.\<close>

definition ex_classes :: "Classification list" where
  "ex_classes = [Public, Internal, LocalOnly]"

definition ex_menc :: "('p::countable) MemoryPayload \<Rightarrow> string" where
  "ex_menc p = replicate (to_nat (mw_sql p, mw_params p, mw_checksum p,
     map_option (\<lambda>c. length (takeWhile (\<lambda>x. x \<noteq> c) ex_classes)) (mw_classification p), mw_table p)) CHR ''x''"

definition ex_mdec :: "string \<Rightarrow> ('p::countable) MemoryPayload option" where
  "ex_mdec s = (case from_nat (length s) of (sql, ps, chk, c, t) \<Rightarrow>
     Some \<lparr>mw_sql = sql, mw_params = ps, mw_checksum = chk, mw_classification = map_option (nth ex_classes) c, mw_table = t\<rparr>)"

lemma ex_roundtrip: "ex_mdec (ex_menc p) = Some p"
proof -
  have "ex_classes ! length (takeWhile (\<lambda>x. x \<noteq> c) ex_classes) = c" for c
    by (cases c) (simp_all add: ex_classes_def)
  then show ?thesis by (simp add: ex_mdec_def ex_menc_def option.map_comp comp_def option.map_ident)
qed

definition ex_leads :: RaftNode where
  "ex_leads = (raft (ex_member ''l''))\<lparr>state := Leader, currentTerm := 1\<rparr>"

theorem acknowledged_write_logged_witness:
  "\<exists>e. rlog (fst (ForwardMemoryWrite id (\<lambda>_. []) ex_menc (payload_of id (\<lambda>_. []) ''INSERT'' [5 :: nat] Public None) ex_leads)) = rlog ex_leads @ [e]
     \<and> carries (\<lambda>sql ps d. Inr (1, d + sum_list ps)) id (\<lambda>_. []) ex_mdec ''INSERT'' [5 :: nat] e"
proof -
  let ?rpc = "\<lambda>k a p. if k = (0::nat) then None else Some (snd (ForwardMemoryWrite id (\<lambda>_. []) ex_menc p ex_leads))"
  let ?r = "new_MemoryReplicator None (0::nat) [] (ex_member ''f'')"
  let ?w = "mem_write (\<lambda>sql ps d. Inr (1, d + sum_list ps)) (\<lambda>_ _. None) id (\<lambda>_. []) ex_menc (\<lambda>_. ex_member ''f'') ?rpc ''timeout''
      ''INSERT'' [5] None None ?r"
  have "state (raft (mr_membership ?r)) \<noteq> Leader"
    by (simp add: new_MemoryReplicator_def ex_member_def new_MembershipManager_def new_RaftNode_def)
  moreover have "nullish None (getClassificationForTable (\<lambda>_ _. None) None ?r) \<noteq> LocalOnly"
    by (simp add: nullish_def getClassificationForTable_def truthy_def)
  moreover have "wr_success (snd ?w)"
    by (simp add: mem_write_def nullish_def getClassificationForTable_def truthy_def new_MemoryReplicator_def ex_member_def ex_leads_def
        new_MembershipManager_def new_RaftNode_def mem_forwardToLeader_def numeral_3_eq_3 resolveLeaderAddress_def ForwardMemoryWrite_def
        appendEntry_def Let_def checksumOf_def)
  moreover have "nullish None (getClassificationForTable (\<lambda>_ _. None) None ?r) = Public"
    by (simp add: nullish_def getClassificationForTable_def truthy_def)
  ultimately show ?thesis
    using acknowledged_write_logged [OF ex_roundtrip refl, of ?r None "\<lambda>_ _. None" None "\<lambda>sql ps d. Inr (1, d + sum_list ps)" id "\<lambda>_. []"
        "\<lambda>_. ex_member ''f''" "\<lambda>k _ _. k = 0" "\<lambda>_ _. ex_leads" "''timeout''" "''INSERT''" "[5]" "fst ?w" "snd ?w"] by auto
qed

section \<open>Snapshots\<close>

lemma parseInt_show_nat: "parseInt (show_nat n) = Some (int n)"
  using parseInt_show [of "int n"] by (simp add: show_int_def)

lemma copyChunks_send:
  assumes "0 < csize" and "offset \<le> length file"
  shows "copyChunks (sendChunks digest csize file offset) (take offset file @ replicate (length file - offset) 0) = Some file"
  using assms(2)
proof (induction "length file - offset" arbitrary: offset rule: less_induct)
  case less
  show ?case
  proof (cases "length file \<le> offset")
    case True
    with less.prems show ?thesis by (subst sendChunks.simps) simp
  next
    case False
    let ?m = "min csize (length file - offset)"
    let ?next = "take (offset + csize) file @ replicate (length file - (offset + csize)) 0"
    have "buf_copy (take csize (drop offset file)) (Some (int offset)) (take offset file @ replicate (length file - offset) 0) = Some ?next"
      using False less.prems by (simp add: buf_copy_def nullish_def take_add min_def Let_def)
    moreover have "copyChunks (sendChunks digest csize file (offset + csize)) ?next = Some file"
    proof (cases "offset + csize \<le> length file")
      case True
      then show ?thesis using less.hyps [of "offset + csize"] assms(1) False by simp
    next
      case over: False
      then show ?thesis by (subst sendChunks.simps) simp
    qed
    ultimately show ?thesis using False assms(1)
      by (subst sendChunks.simps) (simp add: parseInt_show_nat)
  qed
qed

lemma sendChunks_last:
  assumes "0 < csize" and "offset < length file"
  shows "ch_total_size (last (sendChunks digest csize file offset)) = show_nat (length file)
    \<and> fold (\<lambda>c s. if ch_done c then ch_checksum c else s) (sendChunks digest csize file offset) s0 = digest file
    \<and> sendChunks digest csize file offset \<noteq> []"
  using assms(2)
proof (induction "length file - offset" arbitrary: offset s0 rule: less_induct)
  case less
  show ?case
  proof (cases "length file \<le> offset + csize")
    case True
    then have "sendChunks digest csize file (offset + csize) = []" by (subst sendChunks.simps) simp
    with True less.prems assms(1) show ?thesis by (subst (1 2 3) sendChunks.simps) simp
  next
    case False
    with less.hyps [of "offset + csize" s0] less.prems assms(1) show ?thesis
      by (subst (1 2 3) sendChunks.simps) simp
  qed
qed

text \<open>
  C38. A snapshot arrives as it was sent: a node that receives all chunks of a non-empty
  database file, whatever its size and whatever the digest function, stores exactly
  that file.
\<close>

theorem snapshot_roundtrip:
  assumes "truthy (leaderAddress (mr_membership r))" and "file \<noteq> []"
  shows "requestSnapshot digest (\<lambda>_. Some (RequestMemorySnapshot digest file)) r = (r\<lparr>mr_open := False, mr_file := file\<rparr>, True)"
proof -
  have size: "0 < CHUNK_SIZE" "0 < length file" using assms(2) by (simp_all add: CHUNK_SIZE_def)
  let ?cs = "RequestMemorySnapshot digest file"
  have "?cs \<noteq> []" "receivedChecksum ?cs = digest file" "ch_total_size (last ?cs) = show_nat (length file)"
    using sendChunks_last [OF size] by (simp_all add: RequestMemorySnapshot_def receivedChecksum_def)
  moreover from this(3) have "assemble ?cs = Some file"
    using copyChunks_send [OF size(1), of 0 "file"] by (simp add: assemble_def parseInt_show_nat RequestMemorySnapshot_def)
  ultimately show ?thesis using assms(1) by (simp add: requestSnapshot_def)
qed

theorem snapshot_roundtrip_witness:
  "requestSnapshot (\<lambda>b. show_nat (sum_list b)) (\<lambda>_. Some (RequestMemorySnapshot (\<lambda>b. show_nat (sum_list b)) [1, 2, 3]))
     (new_MemoryReplicator None () [] (ex_member ''f''))
   = ((new_MemoryReplicator None () [] (ex_member ''f''))\<lparr>mr_open := False, mr_file := [1, 2, 3]\<rparr>, True)"
  by (rule snapshot_roundtrip) (simp_all add: new_MemoryReplicator_def ex_member_def truthy_def)

text \<open>
  A snapshot that was damaged on the way is not taken: when a node accepts a
  snapshot whose last chunk is marked as the last and carries a checksum, the file it
  stores has that checksum; a refused snapshot changes nothing.
\<close>

theorem snapshot_accepted_checked:
  assumes "requestSnapshot digest (\<lambda>_. Some (cs @ [c])) r = (r', ok)" and "ch_done c" and "ch_checksum c \<noteq> []"
  shows "(ok \<longrightarrow> digest (mr_file r') = ch_checksum c) \<and> (\<not> ok \<longrightarrow> r' = r)"
  using assms by (auto simp: requestSnapshot_def receivedChecksum_def split: option.splits if_splits)

theorem snapshot_accepted_checked_witness:
  "\<exists>c r'. ch_done c \<and> requestSnapshot (\<lambda>b. show_nat (sum_list b)) (\<lambda>_. Some ([] @ [c]))
        (new_MemoryReplicator None () [] (ex_member ''f'')) = (r', True)
      \<and> show_nat (sum_list (mr_file r')) = ch_checksum c"
proof -
  let ?c = "\<lparr>ch_data = [1, 2], ch_offset = ''0'', ch_total_size = ''2'', ch_done = True, ch_checksum = ''3''\<rparr>"
  have "snd (requestSnapshot (\<lambda>b. show_nat (sum_list b)) (\<lambda>_. Some ([] @ [?c])) (new_MemoryReplicator None () [] (ex_member ''f'')))"
    by code_simp
  then show ?thesis
    using snapshot_accepted_checked [OF surjective_pairing, of ?c "\<lambda>b. show_nat (sum_list b)" "[]" "new_MemoryReplicator None () [] (ex_member ''f'')"]
    by (intro exI [of _ ?c] exI) (auto intro: prod_eqI)
qed

end
