(* ===== verification/Updater.thy ===== *)
theory Updater
  imports Membership Quorum
begin

text \<open>
  \<open>RollingUpdater\<close> of \<open>src/cluster/updater.ts\<close>: the checks before a rolling update, the
  upgrade of one follower (backup, copy, verify, restart, health check, stabilization,
  commit or rollback), and the loop over all followers with the leader's own restart.

  The outside world is a state \<open>'w\<close> with the operations of \<open>Env\<close>: a remote shell
  command answers with a stream of messages or throws (\<open>None\<close>), a health check answers
  or throws, and the membership is what it is at that moment. Every operation takes some
  time, and \<open>sleep(ms)\<close> at least \<open>ms\<close> milliseconds; \<open>u_now\<close> is \<open>Date.now()\<close>. What the
  updater does to the outside, and the progress it reports, is its trace. Messages of
  progress events and the pictograph of the notification are left out.
\<close>

section \<open>The outside world\<close>

datatype Phase = PhPreflight | PhAdd | PhActivate | PhStabilize | PhCommit | PhRollback | PhLeaderRestart | PhComplete | PhAborted

datatype ShellCmd = CmdBackup string | CmdRsync string string | CmdVerify string | CmdWall string
  | CmdRestart | CmdCommit string | CmdRestore string

text \<open>The command line each of them stands for.\<close>

fun cmdText :: "ShellCmd \<Rightarrow> string" where
  "cmdText (CmdBackup base) = ''cd '' @ base @ '' && rm -rf dist.bak && cp -a dist dist.bak''"
| "cmdText (CmdRsync ip dd) = ''rsync -az --delete '' @ ip @ '':'' @ dd @ ''/ '' @ dd @ ''/''"
| "cmdText (CmdVerify dd) = ''cat '' @ dd @ ''/version.json''"
| "cmdText (CmdWall msg) = ''wall '' @ [CHR 0x22] @ msg @ [CHR 0x22]"
| "cmdText CmdRestart = ''systemctl restart cortex''"
| "cmdText (CmdCommit base) = ''rm -rf '' @ base @ ''/dist.bak''"
| "cmdText (CmdRestore base) = ''cd '' @ base @ '' && rm -rf dist && mv dist.bak dist''"

record StreamMsg =
  sm_output :: "(string \<times> string) option"
  sm_status :: "int option option"

record ShellResult =
  sh_stdout :: string
  sh_stderr :: string
  sh_exitCode :: int

record 'w Env =
  env_shell :: "NodeInfo \<Rightarrow> string \<Rightarrow> 'w \<Rightarrow> 'w \<times> nat \<times> StreamMsg list option"
  env_health :: "NodeInfo \<Rightarrow> 'w \<Rightarrow> 'w \<times> nat \<times> bool option"
  env_sleep :: "int \<Rightarrow> 'w \<Rightarrow> 'w \<times> nat"
  env_members :: "'w \<Rightarrow> MembershipManager"
  env_notify :: "(string \<Rightarrow> string \<Rightarrow> 'w \<Rightarrow> 'w \<times> nat) option"
  env_squelch :: "(nat \<Rightarrow> 'w \<Rightarrow> 'w \<times> nat \<times> bool) option"

datatype UAct = DoShell string ShellCmd | DoClose string | DoNotify string | DoSquelch nat
  | DoProgress Phase string | DoLeaderRestart

record 'w Updater =
  u_selfNodeId :: string
  u_distDir :: string
  u_heartbeatMs :: int
  u_preRestartGraceMs :: int
  u_now :: int
  u_world :: 'w
  u_trace :: "UAct list"

definition new_Updater :: "string \<Rightarrow> string \<Rightarrow> int option \<Rightarrow> int option \<Rightarrow> int \<Rightarrow> 'w \<Rightarrow> 'w Updater" where
  "new_Updater i dd hb grace now w =
     \<lparr>u_selfNodeId = i, u_distDir = dd, u_heartbeatMs = nullish hb 5000, u_preRestartGraceMs = nullish grace 30000,
      u_now = now, u_world = w, u_trace = []\<rparr>"

definition act :: "UAct \<Rightarrow> 'w Updater \<Rightarrow> 'w Updater" where
  "act a u = u\<lparr>u_trace := u_trace u @ [a]\<rparr>"

definition progress :: "Phase \<Rightarrow> string \<Rightarrow> 'w Updater \<Rightarrow> 'w Updater" where
  "progress ph i u = act (DoProgress ph i) u"

definition sleepFor :: "'w Env \<Rightarrow> int \<Rightarrow> 'w Updater \<Rightarrow> 'w Updater" where
  "sleepFor env ms u = (let (w, extra) = env_sleep env ms (u_world u) in u\<lparr>u_world := w, u_now := u_now u + max 0 ms + int extra\<rparr>)"

definition allNodes :: "'w Env \<Rightarrow> 'w Updater \<Rightarrow> NodeInfo list" where
  "allNodes env u = getAllNodes (env_members env (u_world u))"

definition u_address :: "NodeInfo \<Rightarrow> string" where
  "u_address n = address_of (tailscaleIp n) (grpcPort n)"

text \<open>\<open>path.dirname\<close> of a path without a trailing slash.\<close>

definition dirname :: "string \<Rightarrow> string" where
  "dirname p = (let d = rev (dropWhile (\<lambda>c. c \<noteq> CHR ''/'') (rev p))
     in if d = [] then ''.'' else if length d = 1 then ''/'' else butlast d)"

section \<open>Remote shell\<close>

text \<open>The loop over the responses of \<open>executeTask\<close>; a status without exit code counts as \<open>-1\<close>.\<close>

definition collectShell :: "StreamMsg list \<Rightarrow> ShellResult" where
  "collectShell ms =
     (let (out, err, code) = fold (\<lambda>m (out, err, code).
            let (out, err) = (case sm_output m of None \<Rightarrow> (out, err)
                  | Some (t, d) \<Rightarrow> if t = ''stdout'' \<or> t = ''TASK_OUTPUT_STDOUT'' then (out @ d, err) else (out, err @ d))
            in (out, err, case sm_status m of None \<Rightarrow> code | Some c \<Rightarrow> nullish c (-1))) ms ([], [], -1)
      in \<lparr>sh_stdout = trim out, sh_stderr = trim err, sh_exitCode = code\<rparr>)"

definition runShellOnNode :: "'w Env \<Rightarrow> NodeInfo \<Rightarrow> ShellCmd \<Rightarrow> 'w Updater \<Rightarrow> 'w Updater \<times> ShellResult option" where
  "runShellOnNode env n c u =
     (let (w, t, ms) = env_shell env n (cmdText c) (u_world u)
      in (act (DoShell (nodeId n) c) (u\<lparr>u_world := w, u_now := u_now u + int t\<rparr>), map_option collectShell ms))"

definition closeConnection :: "NodeInfo \<Rightarrow> 'w Updater \<Rightarrow> 'w Updater" where
  "closeConnection n u = act (DoClose (u_address n)) u"

text \<open>A failing notification is only logged, a failing \<open>wall\<close> ignored.\<close>

definition notifyBeforeRestart :: "'w Env \<Rightarrow> NodeInfo \<Rightarrow> 'w Updater \<Rightarrow> 'w Updater" where
  "notifyBeforeRestart env n u =
     (let shortName = short_name (nodeId n);
          graceSec = js_round (of_int (u_preRestartGraceMs u) / 1000);
          msg = ''ISSU: '' @ shortName @ '' restarting in '' @ show_int graceSec
                @ ''s for rolling update. Wrap up any work on this node.'';
          u1 = (case env_notify env of None \<Rightarrow> u
                | Some f \<Rightarrow> let (w, t) = f (nodeId n) msg (u_world u) in act (DoNotify (nodeId n)) (u\<lparr>u_world := w, u_now := u_now u + int t\<rparr>));
          u2 = fst (runShellOnNode env n (CmdWall msg) u1)
      in sleepFor env (u_preRestartGraceMs u) (progress PhActivate (nodeId n) u2))"

section \<open>Preflight\<close>

record PreflightResult =
  pf_ok :: bool
  pf_reason :: "string option"
  pf_nodes :: "NodeInfo list"
  pf_followers :: "NodeInfo list"
  pf_quorumSize :: nat
  pf_votingCount :: nat

definition preflight :: "'w Env \<Rightarrow> 'w Updater \<Rightarrow> PreflightResult" where
  "preflight env u =
     (let m = env_members env (u_world u)
      in if \<not> isLeader (raft m)
         then \<lparr>pf_ok = False, pf_reason = Some ''Rolling update must be initiated from the leader node'',
               pf_nodes = [], pf_followers = [], pf_quorumSize = 0, pf_votingCount = 0\<rparr>
         else
           let all = getAllNodes m;
               followers = filter (\<lambda>n. nodeId n \<noteq> u_selfNodeId u) all;
               votingCount = length (votingPeers (raft m)) + 1;
               quorumSize = majority votingCount;
               canLose = int votingCount - int quorumSize;
               unhealthy = filter (\<lambda>n. status n \<noteq> Active) all;
               stale = filter (\<lambda>n. lastSeen n < u_now u - u_heartbeatMs u * 2) followers;
               verdict = (if canLose < 1
                          then Some (''Quorum unsafe: '' @ show_nat votingCount @ '' voting nodes, quorum='' @ show_nat quorumSize
                                     @ '', can lose '' @ show_int canLose @ '' (need at least 1)'')
                          else if unhealthy \<noteq> []
                          then Some (''Unhealthy nodes: '' @ join_with '', '' (map (\<lambda>n. nodeId n @ '' ('' @ statusName (status n) @ '')'') unhealthy))
                          else if stale \<noteq> []
                          then Some (''Nodes with stale heartbeats: '' @ join_with '', ''
                                 (map (\<lambda>n. nodeId n @ '' (stale '' @ show_int (js_round (of_int (u_now u - lastSeen n) / 1000)) @ ''s)'') stale))
                          else None)
           in \<lparr>pf_ok = (verdict = None), pf_reason = verdict, pf_nodes = all, pf_followers = followers,
               pf_quorumSize = quorumSize, pf_votingCount = votingCount\<rparr>)"

section \<open>Waiting for a node\<close>

function pollHealthCheck :: "'w Env \<Rightarrow> NodeInfo \<Rightarrow> int \<Rightarrow> 'w Updater \<Rightarrow> 'w Updater \<times> bool" where
  "pollHealthCheck env n deadline u =
     (if u_now u < deadline
      then let (w, t, healthy) = env_health env n (u_world u);
               u1 = u\<lparr>u_world := w, u_now := u_now u + int t\<rparr>
           in if healthy = Some True then (u1, True)
              else pollHealthCheck env n deadline (sleepFor env 2000 u1)
      else (u, False))"
  by pat_completeness auto
termination
  by (relation "measure (\<lambda>(env, n, deadline, u). nat (deadline - u_now u))") (auto simp: sleepFor_def split: prod.splits)

function waitForStabilization :: "'w Env \<Rightarrow> NodeInfo \<Rightarrow> int \<Rightarrow> 'w Updater \<Rightarrow> 'w Updater \<times> bool" where
  "waitForStabilization env n deadline u =
     (if u_now u < deadline
      then (case find (\<lambda>k. nodeId k = nodeId n) (allNodes env u) of
              Some k \<Rightarrow> if status k = Active \<and> u_now u - lastSeen k < u_heartbeatMs u * 2 then (u, True)
                        else waitForStabilization env n deadline (sleepFor env 1000 u)
            | None \<Rightarrow> waitForStabilization env n deadline (sleepFor env 1000 u))
      else (u, False))"
  by pat_completeness auto
termination
  by (relation "measure (\<lambda>(env, n, deadline, u). nat (deadline - u_now u))") (auto simp: sleepFor_def split: prod.splits)

declare pollHealthCheck.simps [simp del] waitForStabilization.simps [simp del]

section \<open>Upgrading one follower\<close>

text \<open>Exit codes of the restore command are not looked at; only an exception is.\<close>

definition rollbackNode :: "'w Env \<Rightarrow> NodeInfo \<Rightarrow> 'w Updater \<Rightarrow> 'w Updater" where
  "rollbackNode env n u =
     (let base = dirname (u_distDir u);
          restart = (\<lambda>v. closeConnection n (fst (runShellOnNode env n CmdRestart v)))
      in case runShellOnNode env n (CmdRestore base) u of
           (u1, Some _) \<Rightarrow> restart u1
         | (u1, None) \<Rightarrow>
             (case runShellOnNode env n (CmdRestore base) (closeConnection n u1) of
                (u2, Some _) \<Rightarrow> restart u2
              | (u2, None) \<Rightarrow> u2))"

record UpgradeOutcome =
  uf_success :: bool
  uf_rolledBack :: bool
  uf_error :: "string option"

definition rolledBackWith :: "'w Env \<Rightarrow> NodeInfo \<Rightarrow> string \<Rightarrow> 'w Updater \<Rightarrow> 'w Updater \<times> UpgradeOutcome" where
  "rolledBackWith env n e u =
     (rollbackNode env n (progress PhRollback (nodeId n) u), \<lparr>uf_success = False, uf_rolledBack = True, uf_error = Some e\<rparr>)"

definition leaderIp :: "'w Env \<Rightarrow> 'w Updater \<Rightarrow> string" where
  "leaderIp env u = (case find (\<lambda>k. nodeId k = u_selfNodeId u) (allNodes env u) of Some k \<Rightarrow> tailscaleIp k | None \<Rightarrow> ''127.0.0.1'')"

text \<open>
  The phases of \<open>upgradeFollower\<close>: activate and commit, then add. \<open>thrown\<close> is the
  message of an exception, which the \<open>catch\<close> turns into a rollback.
\<close>

definition commitFollower :: "'w Env \<Rightarrow> string \<Rightarrow> NodeInfo \<Rightarrow> 'w Updater \<Rightarrow> 'w Updater \<times> UpgradeOutcome" where
  "commitFollower env thrown n u =
     (case runShellOnNode env n (CmdCommit (dirname (u_distDir u))) (progress PhCommit (nodeId n) u) of
        (u1, None) \<Rightarrow> rolledBackWith env n thrown u1
      | (u1, Some _) \<Rightarrow> (progress PhComplete (nodeId n) u1, \<lparr>uf_success = True, uf_rolledBack = False, uf_error = None\<rparr>))"

definition activateFollower :: "'w Env \<Rightarrow> string \<Rightarrow> NodeInfo \<Rightarrow> 'w Updater \<Rightarrow> 'w Updater \<times> UpgradeOutcome" where
  "activateFollower env thrown n u =
     (let u1 = progress PhActivate (nodeId n) (notifyBeforeRestart env n u);
          (u2, r) = runShellOnNode env n CmdRestart u1;
          u3 = (if r = None then progress PhActivate (nodeId n) u2 else u2);
          u4 = progress PhActivate (nodeId n) (closeConnection n u3);
          (u5, healthy) = pollHealthCheck env n (u_now u4 + 60000) u4
      in if \<not> healthy then rolledBackWith env n ''Health check timed out after 60s'' u5
         else let u6 = progress PhStabilize (nodeId n) u5;
                  (u7, stable) = waitForStabilization env n (u_now u6 + u_heartbeatMs u6 * 4) u6
              in if \<not> stable then rolledBackWith env n ''Node did not stabilize after restart'' u7
                 else commitFollower env thrown n u7)"

definition upgradeFollower :: "'w Env \<Rightarrow> string \<Rightarrow> NodeInfo \<Rightarrow> 'w Updater \<Rightarrow> 'w Updater \<times> UpgradeOutcome" where
  "upgradeFollower env thrown n u =
     (let base = dirname (u_distDir u)
      in case runShellOnNode env n (CmdBackup base) (progress PhAdd (nodeId n) u) of
           (u1, None) \<Rightarrow> rolledBackWith env n thrown u1
         | (u1, Some backup) \<Rightarrow>
             if sh_exitCode backup \<noteq> 0
             then (u1, \<lparr>uf_success = False, uf_rolledBack = False, uf_error = Some (''Backup failed: '' @ sh_stderr backup)\<rparr>)
             else (case runShellOnNode env n (CmdRsync (leaderIp env u) (u_distDir u)) (progress PhAdd (nodeId n) u1) of
                     (u2, None) \<Rightarrow> rolledBackWith env n thrown u2
                   | (u2, Some rsync) \<Rightarrow>
                       if sh_exitCode rsync \<noteq> 0 then rolledBackWith env n (''Rsync failed: '' @ sh_stderr rsync) u2
                       else (case runShellOnNode env n (CmdVerify (u_distDir u)) (progress PhAdd (nodeId n) u2) of
                               (u3, None) \<Rightarrow> rolledBackWith env n thrown u3
                             | (u3, Some verify) \<Rightarrow>
                                 if sh_exitCode verify \<noteq> 0 then rolledBackWith env n (''Version verify failed: '' @ sh_stderr verify) u3
                                 else activateFollower env thrown n u3)))"

section \<open>The rolling update\<close>

text \<open>The call of \<open>squelchFn\<close> and whether it returned.\<close>

record UpdateResult =
  ur_success :: bool
  ur_nodesUpdated :: "string list"
  ur_nodesRolledBack :: "string list"
  ur_error :: "string option"

definition squelch :: "'w Env \<Rightarrow> nat \<Rightarrow> 'w Updater \<Rightarrow> 'w Updater \<times> bool" where
  "squelch env minutes u =
     (case env_squelch env of None \<Rightarrow> (u, False)
      | Some f \<Rightarrow> let (w, t, done) = f minutes (u_world u)
                  in (act (DoSquelch minutes) (u\<lparr>u_world := w, u_now := u_now u + int t\<rparr>), done))"

fun upgradeAll :: "'w Env \<Rightarrow> string \<Rightarrow> NodeInfo list \<Rightarrow> string list \<Rightarrow> string list \<Rightarrow> 'w Updater \<Rightarrow> 'w Updater \<times> UpdateResult" where
  "upgradeAll env thrown [] updated rolled u =
     (u, \<lparr>ur_success = True, ur_nodesUpdated = updated, ur_nodesRolledBack = rolled, ur_error = None\<rparr>)"
| "upgradeAll env thrown (f # fs) updated rolled u =
     (let (u1, out) = upgradeFollower env thrown f (progress PhAdd (nodeId f) u);
          rolled' = (if uf_rolledBack out then rolled @ [nodeId f] else rolled)
      in if \<not> uf_success out
         then (fst (squelch env 0 (progress PhAborted (u_selfNodeId u) u1)),
               \<lparr>ur_success = False, ur_nodesUpdated = updated, ur_nodesRolledBack = rolled',
                ur_error = Some (''Failed on '' @ nodeId f @ '': '' @ nullish (uf_error out) ''undefined'')\<rparr>)
         else upgradeAll env thrown fs (updated @ [nodeId f]) rolled' u1)"

text \<open>The leader's own restart; its backup is best effort and leaves no trace outside.\<close>

definition upgradeLeader :: "'w Env \<Rightarrow> 'w Updater \<Rightarrow> 'w Updater" where
  "upgradeLeader env u =
     (let u1 = (case find (\<lambda>k. nodeId k = u_selfNodeId u) (allNodes env u) of
                  None \<Rightarrow> u | Some k \<Rightarrow> notifyBeforeRestart env k u)
      in act DoLeaderRestart (progress PhLeaderRestart (u_selfNodeId u) u1))"

definition execute :: "'w Env \<Rightarrow> string \<Rightarrow> bool \<Rightarrow> 'w Updater \<Rightarrow> 'w Updater \<times> UpdateResult" where
  "execute env thrown dryRun u =
     (let u1 = progress PhPreflight (u_selfNodeId u) u;
          pf = preflight env u1
      in if \<not> pf_ok pf
         then (progress PhAborted (u_selfNodeId u) u1,
               \<lparr>ur_success = False, ur_nodesUpdated = [], ur_nodesRolledBack = [], ur_error = pf_reason pf\<rparr>)
         else let u2 = progress PhPreflight (u_selfNodeId u) u1
              in if dryRun then (u2, \<lparr>ur_success = True, ur_nodesUpdated = [], ur_nodesRolledBack = [], ur_error = None\<rparr>)
                 else let (u2', done) = squelch env (max 10 ((length (pf_followers pf) + 1) * 3)) u2;
                          u3 = (if done then progress PhPreflight (u_selfNodeId u) u2' else u2');
                          (u4, res) = upgradeAll env thrown (pf_followers pf) [] [] u3
                      in if ur_success res
                         then (upgradeLeader env (progress PhLeaderRestart (u_selfNodeId u) u4), res)
                         else (u4, res))"

end
