(* ===== verification/ClusterHealth.thy ===== *)
theory ClusterHealth
  imports Membership Quorum
begin

text \<open>
  \<open>ClusterHealthPlugin\<close> of \<open>src/plugins/cluster-health/index.ts\<close> (the leader's monitor of
  elections, peers, quorum and replication lag, with its alerts) and \<open>HealthReporter\<close> of
  \<open>src/agent/health-reporter.ts\<close> (a node's own health).

  The plugin reads the membership manager and its consensus node, which are arguments.
  One health check happens at one instant \<open>now\<close>; the alerts it hands to the
  \<open>messaging_notify\<close> tool are appended to \<open>h_sent\<close>. The row of \<open>timeline_context\<close> that
  keeps the squelch time is \<open>h_row\<close>; \<open>h_dbOk\<close> says whether database calls succeed.
\<close>

section \<open>State of the plugin\<close>

datatype AlertLevel = WarningLevel | CriticalLevel

record HealthAlert =
  al_level :: AlertLevel
  al_message :: string

record TermSample =
  ts_term :: int
  ts_timestamp :: int

record ClusterHealth =
  h_init :: bool
  h_interval :: bool
  termHistory :: "TermSample list"
  becameLeaderAt :: int
  peerLastAlive :: "(string, int) jsmap"
  alertedOfflinePeers :: "string list"
  squelchedUntil :: int
  h_intervalMs :: int
  termVelocityThreshold :: nat
  lastAlerts :: "(string, int) jsmap"
  h_row :: "string option"
  h_dbOk :: bool
  h_sent :: "(int \<times> HealthAlert) list"

definition peerGracePeriodMs :: int where "peerGracePeriodMs = 90000"
definition termWindowMs :: int where "termWindowMs = 300000"
definition alertCooldownMs :: int where "alertCooldownMs = 300000"
definition leaderGracePeriodMs :: int where "leaderGracePeriodMs = 60000"

definition new_ClusterHealth :: "string option \<Rightarrow> bool \<Rightarrow> ClusterHealth" where
  "new_ClusterHealth row ok =
     \<lparr>h_init = False, h_interval = False, termHistory = [], becameLeaderAt = 0, peerLastAlive = [], alertedOfflinePeers = [],
      squelchedUntil = 0, h_intervalMs = 15000, termVelocityThreshold = 5, lastAlerts = [], h_row = row, h_dbOk = ok, h_sent = []\<rparr>"

definition health_init :: "int option \<Rightarrow> nat option \<Rightarrow> ClusterHealth \<Rightarrow> ClusterHealth" where
  "health_init interval threshold h =
     h\<lparr>h_init := True,
       h_intervalMs := (if nullish interval 0 \<noteq> 0 then the interval else h_intervalMs h),
       termVelocityThreshold := (if nullish threshold 0 \<noteq> 0 then the threshold else termVelocityThreshold h)\<rparr>"

section \<open>Term velocity\<close>

definition recordTerm :: "int \<Rightarrow> int \<Rightarrow> ClusterHealth \<Rightarrow> ClusterHealth" where
  "recordTerm now t h =
     h\<lparr>termHistory := filter (\<lambda>s. ts_timestamp s \<ge> now - termWindowMs) (termHistory h @ [\<lparr>ts_term = t, ts_timestamp = now\<rparr>])\<rparr>"

definition elections :: "int \<Rightarrow> ClusterHealth \<Rightarrow> nat" where
  "elections now h =
     length (remdups (map ts_term (filter (\<lambda>s. ts_timestamp s \<ge> now - termWindowMs) (termHistory h)))) - 1"

definition termsPerMin :: "int \<Rightarrow> ClusterHealth \<Rightarrow> rat" where
  "termsPerMin now h = of_nat (elections now h) / (of_int termWindowMs / 60000)"

section \<open>Squelching\<close>

definition persistSquelch :: "int \<Rightarrow> ClusterHealth \<Rightarrow> ClusterHealth" where
  "persistSquelch untilMs h =
     (if \<not> h_init h \<or> \<not> h_dbOk h then h
      else h\<lparr>h_row := (if untilMs > 0 then Some (show_int untilMs) else None)\<rparr>)"

definition squelchAlerts :: "int \<Rightarrow> int option \<Rightarrow> ClusterHealth \<Rightarrow> ClusterHealth \<times> bool" where
  "squelchAlerts now minutes h =
     (let mins = nullish minutes 30
      in if mins \<le> 0 then (persistSquelch 0 (h\<lparr>squelchedUntil := 0\<rparr>), False)
         else let until = now + mins * 60000 in (persistSquelch until (h\<lparr>squelchedUntil := until\<rparr>), True))"

definition loadSquelch :: "int \<Rightarrow> ClusterHealth \<Rightarrow> ClusterHealth" where
  "loadSquelch now h =
     (if \<not> h_init h \<or> \<not> h_dbOk h then h
      else case h_row h of None \<Rightarrow> h
           | Some v \<Rightarrow> (case parseInt v of None \<Rightarrow> h
                | Some until \<Rightarrow> if until > now then h\<lparr>squelchedUntil := until\<rparr> else h))"

definition isSquelched :: "int \<Rightarrow> ClusterHealth \<Rightarrow> ClusterHealth \<times> bool" where
  "isSquelched now h =
     (if squelchedUntil h \<le> 0 then (h, False)
      else if now < squelchedUntil h then (h, True)
      else (h\<lparr>squelchedUntil := 0\<rparr>, False))"

definition health_start :: "int \<Rightarrow> int \<Rightarrow> ClusterHealth \<Rightarrow> ClusterHealth" where
  "health_start now term h =
     (if \<not> h_init h then h else (recordTerm now term (loadSquelch now h))\<lparr>h_interval := True\<rparr>)"

definition health_stop :: "ClusterHealth \<Rightarrow> ClusterHealth" where
  "health_stop h = h\<lparr>h_interval := False\<rparr>"

section \<open>Alerts\<close>

fun levelName :: "AlertLevel \<Rightarrow> string" where
  "levelName WarningLevel = ''warning''"
| "levelName CriticalLevel = ''critical''"

definition alertKey :: "HealthAlert \<Rightarrow> string" where
  "alertKey a = levelName (al_level a) @ '':'' @ take 50 (al_message a)"

definition sendAlert :: "int \<Rightarrow> HealthAlert \<Rightarrow> ClusterHealth \<Rightarrow> ClusterHealth" where
  "sendAlert now a h =
     (if \<not> h_init h then h
      else let (h1, squelched) = isSquelched now h
           in if squelched then h1
              else if now - nullish (jm_get (lastAlerts h1) (alertKey a)) 0 < alertCooldownMs then h1
              else h1\<lparr>lastAlerts := filter (\<lambda>(k, ts). \<not> now - ts > alertCooldownMs * 2) (jm_set (alertKey a) now (lastAlerts h1)),
                      h_sent := h_sent h1 @ [(now, a)]\<rparr>)"

definition warn :: "string \<Rightarrow> HealthAlert" where
  "warn m = \<lparr>al_level = WarningLevel, al_message = m\<rparr>"

definition critical :: "string \<Rightarrow> HealthAlert" where
  "critical m = \<lparr>al_level = CriticalLevel, al_message = m\<rparr>"

definition stormAlerts :: "int \<Rightarrow> ClusterHealth \<Rightarrow> HealthAlert list" where
  "stormAlerts now h =
     (if elections now h \<ge> termVelocityThreshold h
      then [critical (''Election storm: '' @ show_nat (elections now h) @ '' elections in ''
              @ show_int (js_round (of_int termWindowMs / 60000)) @ ''min ('' @ toFixed 1 (termsPerMin now h)
              @ ''/min). Cluster may be unstable.'')]
      else [])"

definition unresponsive :: "int \<Rightarrow> RaftNode \<Rightarrow> (string, int) jsmap \<Rightarrow> PeerInfo \<Rightarrow> bool" where
  "unresponsive now r alive p \<longleftrightarrow>
     \<not> (matchIndex p > 0 \<or> commitIndex r = 0) \<and> now - nullish (jm_get alive (p_nodeId p)) 0 > peerGracePeriodMs"

definition recovered :: "PeerInfo list \<Rightarrow> string \<Rightarrow> bool" where
  "recovered ps i = (case find (\<lambda>p. p_nodeId p = i) ps of Some p \<Rightarrow> matchIndex p > 0 | None \<Rightarrow> False)"

text \<open>The recoveries and new losses of a check, with the new set of peers reported offline.\<close>

definition peerAlerts :: "PeerInfo list \<Rightarrow> PeerInfo list \<Rightarrow> string list \<Rightarrow> string list \<times> HealthAlert list" where
  "peerAlerts ps lost alerted =
     (let back = filter (recovered ps) alerted;
          alerted1 = filter (\<lambda>i. \<not> recovered ps i) alerted;
          newly = filter (\<lambda>p. p_nodeId p \<notin> set alerted1) lost;
          alerts1 = map (\<lambda>i. warn (''Node recovered: '' @ short_name i @ '' is back online and replicating.'')) back
      in if newly = [] then (alerted1, alerts1)
         else (fold (\<lambda>p s. if p_nodeId p \<in> set s then s else s @ [p_nodeId p]) newly alerted1,
               alerts1 @ [warn (''Node'' @ (if length newly > 1 then ''s'' else []) @ '' went offline: ''
                 @ join_with '', '' (map (\<lambda>p. short_name (p_nodeId p)) newly)
                 @ '' ('' @ show_nat (length lost) @ ''/'' @ show_nat (length ps) @ '' not replicating)'')]))"

definition aliveVoting :: "RaftNode \<Rightarrow> nat" where
  "aliveVoting r = length (filter votingMember (filter (\<lambda>p. matchIndex p > 0) (getPeers r))) + 1"

definition totalVoting :: "RaftNode \<Rightarrow> nat" where
  "totalVoting r = length (filter votingMember (getPeers r)) + 1"

definition quorumAlerts :: "RaftNode \<Rightarrow> HealthAlert list" where
  "quorumAlerts r =
     (if aliveVoting r < majority (totalVoting r)
      then [critical (''Quorum at risk: '' @ show_nat (aliveVoting r) @ '' alive voting nodes, need ''
              @ show_nat (majority (totalVoting r)) @ '' for quorum ('' @ show_nat (totalVoting r) @ '' total)'')]
      else [])"

definition lagAlerts :: "RaftNode \<Rightarrow> HealthAlert list" where
  "lagAlerts r =
     map (\<lambda>p. warn (''Replication lag: '' @ p_nodeId p @ '' is '' @ show_int (commitIndex r - matchIndex p)
            @ '' entries behind (matchIndex='' @ show_int (matchIndex p) @ '', commitIndex='' @ show_int (commitIndex r) @ '')''))
       (filter (\<lambda>p. matchIndex p > 0 \<and> matchIndex p < commitIndex r - 10) (getPeers r))"

definition runHealthCheck :: "int \<Rightarrow> RaftNode \<Rightarrow> ClusterHealth \<Rightarrow> ClusterHealth" where
  "runHealthCheck now r h =
     (if \<not> h_init h then h
      else let h1 = recordTerm now (currentTerm r) h
           in if \<not> isLeader r then h1\<lparr>becameLeaderAt := 0\<rparr>
              else let h2 = (if becameLeaderAt h1 = 0 then h1\<lparr>becameLeaderAt := now\<rparr> else h1)
                   in if now - becameLeaderAt h2 < leaderGracePeriodMs then h2
                      else let ps = getPeers r;
                               alive = fold (\<lambda>p m. if matchIndex p > 0 then jm_set (p_nodeId p) now m else m) ps (peerLastAlive h2);
                               lost = filter (unresponsive now r alive) ps;
                               (alerted, pa) = peerAlerts ps lost (alertedOfflinePeers h2);
                               h3 = h2\<lparr>peerLastAlive := alive, alertedOfflinePeers := alerted\<rparr>
                           in fold (sendAlert now) (stormAlerts now h2 @ pa @ quorumAlerts r @ lagAlerts r) h3)"

section \<open>The report\<close>

datatype OverallStatus = Healthy | Degraded | CriticalStatus

definition computeOverallStatus :: "ClusterHealth \<Rightarrow> nat \<Rightarrow> nat \<Rightarrow> nat \<Rightarrow> nat \<Rightarrow> OverallStatus" where
  "computeOverallStatus h el lost alive needed =
     (if alive < needed then CriticalStatus
      else if el \<ge> termVelocityThreshold h then CriticalStatus
      else if lost > 0 then Degraded else Healthy)"

record HealthReport =
  hp_leaderView :: bool
  hp_squelched :: bool
  hp_elections :: nat
  hp_unresponsive :: "string list"
  hp_votingMembers :: nat
  hp_needed :: nat
  hp_quorumHealthy :: bool
  hp_overall :: OverallStatus

definition getHealthReport :: "int \<Rightarrow> RaftNode \<Rightarrow> ClusterHealth \<Rightarrow> HealthReport option" where
  "getHealthReport now r h =
     (if \<not> h_init h then None
      else let squelched = (squelchedUntil h > 0 \<and> now < squelchedUntil h); el = elections now h;
               needed = majority (totalVoting r)
           in if isLeader r
              then let lost = filter (\<lambda>p. matchIndex p = 0 \<and> commitIndex r > 0) (getPeers r)
                   in Some \<lparr>hp_leaderView = True, hp_squelched = squelched, hp_elections = el, hp_unresponsive = map p_nodeId lost,
                        hp_votingMembers = totalVoting r, hp_needed = needed, hp_quorumHealthy = (aliveVoting r \<ge> needed),
                        hp_overall = computeOverallStatus h el (length lost) (aliveVoting r) needed\<rparr>
              else let age = (if lastAppendEntriesAt r > 0 then now - lastAppendEntriesAt r else -1);
                       leaderAlive = (age \<ge> 0 \<and> age < 5000)
                   in Some \<lparr>hp_leaderView = False, hp_squelched = squelched, hp_elections = el, hp_unresponsive = [],
                        hp_votingMembers = totalVoting r, hp_needed = needed, hp_quorumHealthy = leaderAlive,
                        hp_overall = (if leaderAlive then (if el \<ge> termVelocityThreshold h then CriticalStatus else Healthy)
                                      else CriticalStatus)\<rparr>)"

section \<open>The health of a node\<close>

record ResourceSnapshot =
  rs_memoryUsed :: rat
  rs_cpuUsage :: rat
  rs_diskUsed :: rat
  rs_gaming :: bool

datatype Severity = SevWarning | SevError

record HealthIssue =
  hi_severity :: Severity
  hi_code :: string
  hi_message :: string
  hi_timestamp :: int

record NodeHealth =
  nh_healthy :: bool
  nh_message :: string
  nh_lastCheck :: int
  nh_uptime :: int
  nh_resources :: "ResourceSnapshot option"
  nh_activeTasks :: "string list"
  nh_issues :: "HealthIssue list"

record HealthReporter =
  hr_startTime :: int
  hr_running :: bool
  hr_lastStatus :: "NodeHealth option"
  memoryThreshold :: rat
  cpuThreshold :: rat
  diskThreshold :: rat

definition new_HealthReporter :: "int \<Rightarrow> rat option \<Rightarrow> rat option \<Rightarrow> rat option \<Rightarrow> HealthReporter" where
  "new_HealthReporter now mem cpu dsk =
     \<lparr>hr_startTime = now, hr_running = False, hr_lastStatus = None, memoryThreshold = nullish mem 90,
      cpuThreshold = nullish cpu 95, diskThreshold = nullish dsk 95\<rparr>"

definition usageIssue :: "int \<Rightarrow> string \<Rightarrow> string \<Rightarrow> rat \<Rightarrow> rat \<Rightarrow> rat \<Rightarrow> HealthIssue list" where
  "usageIssue now code what threshold limit used =
     (if used > threshold
      then [\<lparr>hi_severity = (if used > limit then SevError else SevWarning), hi_code = code,
             hi_message = what @ '' usage at '' @ toFixed 1 used @ ''%'', hi_timestamp = now\<rparr>]
      else [])"

definition checkIssues :: "int \<Rightarrow> ResourceSnapshot option \<Rightarrow> HealthReporter \<Rightarrow> HealthIssue list" where
  "checkIssues now res h =
     (case res of
        Some r \<Rightarrow> usageIssue now ''HIGH_MEMORY'' ''Memory'' (memoryThreshold h) 95 (rs_memoryUsed r)
          @ usageIssue now ''HIGH_CPU'' ''CPU'' (cpuThreshold h) 98 (rs_cpuUsage r)
          @ usageIssue now ''HIGH_DISK'' ''Disk'' (diskThreshold h) 98 (rs_diskUsed r)
          @ (if rs_gaming r then [\<lparr>hi_severity = SevWarning, hi_code = ''GAMING_ACTIVE'',
               hi_message = ''Gaming activity detected, GPU tasks may be migrated'', hi_timestamp = now\<rparr>] else [])
      | None \<Rightarrow> [\<lparr>hi_severity = SevWarning, hi_code = ''NO_RESOURCES'',
               hi_message = ''Resource monitoring data unavailable'', hi_timestamp = now\<rparr>])"

definition health_check :: "int \<Rightarrow> ResourceSnapshot option \<Rightarrow> string list \<Rightarrow> HealthReporter \<Rightarrow> HealthReporter" where
  "health_check now res tasks h =
     (let issues = checkIssues now res h;
          errors = filter (\<lambda>i. hi_severity i = SevError) issues;
          msg = (if errors \<noteq> [] then ''Node unhealthy: '' @ join_with ''; '' (map hi_message errors)
                 else if issues \<noteq> [] then ''Node operational with warnings: '' @ join_with '', '' (map hi_code issues)
                 else ''Node healthy'')
      in h\<lparr>hr_lastStatus := Some \<lparr>nh_healthy = (errors = [] \<and> res \<noteq> None), nh_message = msg, nh_lastCheck = now,
             nh_uptime = now - hr_startTime h, nh_resources = res, nh_activeTasks = tasks, nh_issues = issues\<rparr>\<rparr>)"

definition reporter_start :: "int \<Rightarrow> ResourceSnapshot option \<Rightarrow> string list \<Rightarrow> HealthReporter \<Rightarrow> HealthReporter" where
  "reporter_start now res tasks h = (health_check now res tasks h)\<lparr>hr_running := True\<rparr>"

definition reporter_stop :: "HealthReporter \<Rightarrow> HealthReporter" where
  "reporter_stop h = h\<lparr>hr_running := False\<rparr>"

definition reporter_getStatus :: "int \<Rightarrow> ResourceSnapshot option \<Rightarrow> string list \<Rightarrow> HealthReporter \<Rightarrow> HealthReporter" where
  "reporter_getStatus now res tasks h = (if hr_lastStatus h = None then health_check now res tasks h else h)"

definition isHealthy :: "HealthReporter \<Rightarrow> bool" where
  "isHealthy h = (case hr_lastStatus h of Some s \<Rightarrow> nh_healthy s | None \<Rightarrow> False)"

end
