(* ===== verification/HealthProps.thy ===== *)
theory HealthProps
  imports ClusterHealth RaftSafety
begin

text \<open>
  Properties of the health monitor: alerts are spaced, come from a settled leader only and
  respect the squelch; a node's health is a matter of fixed limits; and the loss of a
  peer that the monitor cannot see.
\<close>

section \<open>Spacing of alerts\<close>

datatype HealthOp = HCheck RaftNode | HSquelch "int option" | HTerm int | HLoad | HReport

fun health_op :: "int \<times> HealthOp \<Rightarrow> ClusterHealth \<Rightarrow> ClusterHealth" where
  "health_op (now, HCheck r) h = runHealthCheck now r h"
| "health_op (now, HSquelch m) h = fst (squelchAlerts now m h)"
| "health_op (now, HTerm t) h = recordTerm now t h"
| "health_op (now, HLoad) h = loadSquelch now h"
| "health_op (now, HReport) h = h"

definition spaced :: "(int \<times> HealthAlert) list \<Rightarrow> bool" where
  "spaced xs \<longleftrightarrow> (\<forall>i j. i < j \<and> j < length xs \<and> alertKey (snd (xs ! i)) = alertKey (snd (xs ! j)) \<longrightarrow>
     fst (xs ! i) + alertCooldownMs \<le> fst (xs ! j))"

text \<open>Every alert sent within the last cooldown is remembered under its key.\<close>

definition alert_inv :: "int \<Rightarrow> ClusterHealth \<Rightarrow> bool" where
  "alert_inv t h \<longleftrightarrow> spaced (h_sent h) \<and> (\<forall>(s, a)\<in>set (h_sent h). s \<le> t) \<and> jm_wf (lastAlerts h)
     \<and> (\<forall>(s, a)\<in>set (h_sent h). t - s < alertCooldownMs \<longrightarrow> (\<exists>s'. jm_get (lastAlerts h) (alertKey a) = Some s' \<and> s \<le> s'))"

lemma jm_get_filter:
  "jm_wf m \<Longrightarrow> jm_get (filter (\<lambda>(k, v). P v) m) k = (case jm_get m k of Some v \<Rightarrow> if P v then Some v else None | None \<Rightarrow> None)"
  by (induction m) (auto simp: jm_get_def jm_wf_def map_of_eq_None_iff split: option.splits)

lemma jm_wf_filter: "jm_wf m \<Longrightarrow> jm_wf (filter P m)"
  by (simp add: jm_wf_def distinct_map_filter)

lemma alert_inv_later:
  assumes "alert_inv t h" and "t \<le> t'"
  shows "alert_inv t' h"
  using assms unfolding alert_inv_def by (fastforce split: prod.splits)

lemma alert_inv_frame:
  assumes "alert_inv t h" and "h_sent h' = h_sent h" and "lastAlerts h' = lastAlerts h"
  shows "alert_inv t h'"
  using assms by (simp add: alert_inv_def)

lemma spaced_snoc:
  assumes "spaced xs" and "\<And>s a. (s, a) \<in> set xs \<Longrightarrow> alertKey a = alertKey b \<Longrightarrow> s + alertCooldownMs \<le> t"
  shows "spaced (xs @ [(t, b)])"
  unfolding spaced_def
proof (intro allI impI)
  fix i j assume ij: "i < j \<and> j < length (xs @ [(t, b)]) \<and> alertKey (snd ((xs @ [(t, b)]) ! i)) = alertKey (snd ((xs @ [(t, b)]) ! j))"
  show "fst ((xs @ [(t, b)]) ! i) + alertCooldownMs \<le> fst ((xs @ [(t, b)]) ! j)"
  proof (cases "j < length xs")
    case True
    with ij have at: "(xs @ [(t, b)]) ! i = xs ! i" "(xs @ [(t, b)]) ! j = xs ! j" by (simp_all add: nth_append)
    with ij True assms(1) show ?thesis unfolding spaced_def at by blast
  next
    case False
    with ij have "j = length xs" "i < length xs" by auto
    with ij assms(2) [of "fst (xs ! i)" "snd (xs ! i)"] show ?thesis by (simp add: nth_append)
  qed
qed

lemma alert_inv_send:
  assumes inv: "alert_inv t h"
  shows "alert_inv t (sendAlert t a h)"
proof -
  define h1 where "h1 = fst (isSquelched t h)"
  have h1: "h_sent h1 = h_sent h" "lastAlerts h1 = lastAlerts h" by (simp_all add: h1_def isSquelched_def)
  define h2 where "h2 = h1\<lparr>lastAlerts := filter (\<lambda>(k, ts). \<not> t - ts > alertCooldownMs * 2) (jm_set (alertKey a) t (lastAlerts h1)),
      h_sent := h_sent h1 @ [(t, a)]\<rparr>"
  have wf: "jm_wf (jm_set (alertKey a) t (lastAlerts h))" using inv by (simp add: alert_inv_def jm_laws)
  have inv2: "alert_inv t h2" if late: "\<not> t - nullish (jm_get (lastAlerts h) (alertKey a)) 0 < alertCooldownMs"
  proof -
    have "s + alertCooldownMs \<le> t" if "(s, b) \<in> set (h_sent h)" "alertKey b = alertKey a" for s b
    proof (rule ccontr)
      assume "\<not> s + alertCooldownMs \<le> t"
      with inv that obtain s' where "jm_get (lastAlerts h) (alertKey a) = Some s'" "s \<le> s'"
        unfolding alert_inv_def by fastforce
      with late \<open>\<not> s + alertCooldownMs \<le> t\<close> show False by (simp add: nullish_def)
    qed
    then have "spaced (h_sent h @ [(t, a)])" using inv by (intro spaced_snoc) (auto simp: alert_inv_def)
    moreover have "\<exists>s'. jm_get (lastAlerts h2) (alertKey b) = Some s' \<and> s \<le> s'"
      if b: "(s, b) \<in> set (h_sent h @ [(t, a)])" "t - s < alertCooldownMs" for s b
    proof -
      have "\<exists>s'. jm_get (jm_set (alertKey a) t (lastAlerts h)) (alertKey b) = Some s' \<and> s \<le> s'"
        using b inv unfolding alert_inv_def by (auto simp: jm_laws)
      with b(2) show ?thesis using wf by (auto simp: h2_def h1 jm_get_filter alertCooldownMs_def)
    qed
    ultimately show ?thesis
      using inv wf by (auto simp: alert_inv_def h2_def h1 jm_wf_filter)
  qed
  have "sendAlert t a h = h \<or> sendAlert t a h = h1
      \<or> (sendAlert t a h = h2 \<and> \<not> t - nullish (jm_get (lastAlerts h) (alertKey a)) 0 < alertCooldownMs)"
    by (simp add: sendAlert_def h2_def h1 case_prod_unfold Let_def flip: h1_def)
  with inv inv2 alert_inv_frame [OF inv h1] show ?thesis by metis
qed

lemma alert_inv_fold: "alert_inv t h \<Longrightarrow> alert_inv t (fold (sendAlert t) as h)"
  by (induction as arbitrary: h) (simp_all add: alert_inv_send)

lemma runHealthCheck_sends:
  "\<exists>h' as. runHealthCheck t r h = fold (sendAlert t) as h' \<and> h_sent h' = h_sent h \<and> lastAlerts h' = lastAlerts h"
proof -
  let ?h1 = "recordTerm t (currentTerm r) h"
  let ?h2 = "if becameLeaderAt ?h1 = 0 then ?h1\<lparr>becameLeaderAt := t\<rparr> else ?h1"
  have frame: "h_sent ?h1 = h_sent h" "lastAlerts ?h1 = lastAlerts h" by (simp_all add: recordTerm_def)
  show ?thesis
  proof (cases "\<not> h_init h \<or> \<not> isLeader r \<or> t - becameLeaderAt ?h2 < leaderGracePeriodMs")
    case True
    then have "runHealthCheck t r h \<in> {h, ?h1\<lparr>becameLeaderAt := 0\<rparr>, ?h2}" by (simp add: runHealthCheck_def Let_def)
    then show ?thesis using frame by (intro exI [of _ "runHealthCheck t r h"] exI [of _ "[]"]) auto
  next
    case False
    define ps where "ps = getPeers r"
    define alive where "alive = fold (\<lambda>p m. if matchIndex p > 0 then jm_set (p_nodeId p) t m else m) ps (peerLastAlive ?h2)"
    define pa where "pa = peerAlerts ps (filter (unresponsive t r alive) ps) (alertedOfflinePeers ?h2)"
    have "runHealthCheck t r h = fold (sendAlert t) (stormAlerts t ?h2 @ snd pa @ quorumAlerts r @ lagAlerts r)
        (?h2\<lparr>peerLastAlive := alive, alertedOfflinePeers := fst pa\<rparr>)"
      using False unfolding runHealthCheck_def Let_def pa_def alive_def ps_def by (simp add: case_prod_unfold)
    moreover have "h_sent (?h2\<lparr>peerLastAlive := alive, alertedOfflinePeers := fst pa\<rparr>) = h_sent h"
      "lastAlerts (?h2\<lparr>peerLastAlive := alive, alertedOfflinePeers := fst pa\<rparr>) = lastAlerts h" using frame by simp_all
    ultimately show ?thesis by blast
  qed
qed

lemma alert_inv_op:
  assumes "alert_inv t h"
  shows "alert_inv t (health_op (t, a) h)"
proof (cases a)
  case (HCheck r)
  from runHealthCheck_sends [of t r h]
  show ?thesis using HCheck alert_inv_fold alert_inv_frame [OF assms] by (metis health_op.simps(1))
qed (use assms in \<open>auto intro: alert_inv_frame simp: squelchAlerts_def persistSquelch_def recordTerm_def loadSquelch_def Let_def
      split: option.splits\<close>)

lemma alert_inv_run:
  assumes "alert_inv t h" and "sorted (map fst ops)" and "\<forall>(s, a)\<in>set ops. t \<le> s"
  shows "\<exists>t'. alert_inv t' (fold health_op ops h)"
  using assms
proof (induction ops arbitrary: t h)
  case (Cons x ops)
  obtain s a where x: "x = (s, a)" by fastforce
  have "alert_inv s (health_op x h)" using alert_inv_op [OF alert_inv_later [OF Cons.prems(1)]] Cons.prems(3) by (auto simp: x)
  moreover have "\<forall>(s', a)\<in>set ops. s \<le> s'" using Cons.prems(2) by (auto simp: x)
  ultimately show ?case using Cons.IH [of s] Cons.prems(2) by simp
qed auto

text \<open>
  Alerts are spaced: over every sequence of checks, squelches, term changes and
  reloads, at times that do not run backwards, two notifications with the same level
  and the same first fifty characters are at least the cooldown apart.
\<close>

theorem alerts_spaced:
  assumes "sorted (map fst ops)"
  shows "spaced (h_sent (fold health_op ops (new_ClusterHealth row ok)))"
proof -
  let ?h = "new_ClusterHealth row ok"
  let ?t = "if ops = [] then 0 else fst (hd ops)"
  have "alert_inv ?t ?h" by (simp add: alert_inv_def spaced_def new_ClusterHealth_def)
  moreover have "\<forall>(s, a)\<in>set ops. ?t \<le> s" using assms by (cases ops) auto
  ultimately obtain t where "alert_inv t (fold health_op ops ?h)" using alert_inv_run assms by blast
  then show ?thesis by (simp add: alert_inv_def)
qed

theorem alerts_spaced_witness:
  "spaced (h_sent (fold health_op [(0, HTerm 1), (700000, HLoad)] (new_ClusterHealth None True)))"
  by (rule alerts_spaced) simp

lemma sendAlert_silent:
  assumes "now < squelchedUntil h" and "0 < squelchedUntil h"
  shows "sendAlert now a h = h"
  using assms by (simp add: sendAlert_def isSquelched_def Let_def)

lemma sendAll_silent: "now < squelchedUntil h \<Longrightarrow> 0 < squelchedUntil h \<Longrightarrow> fold (sendAlert now) as h = h"
  by (induction as) (simp_all add: sendAlert_silent)

text \<open>
  Who alerts: a check sends nothing on a node that does not lead, within the first
  minute of its leadership, and during a squelch.
\<close>

theorem alerts_only_from_settled_leader:
  assumes "\<not> isLeader r \<or> (becameLeaderAt h \<noteq> 0 \<and> now - becameLeaderAt h < leaderGracePeriodMs) \<or> becameLeaderAt h = 0
    \<or> (0 < squelchedUntil h \<and> now < squelchedUntil h)"
  shows "h_sent (runHealthCheck now r h) = h_sent h"
proof -
  let ?h1 = "recordTerm now (currentTerm r) h"
  have frame: "h_sent ?h1 = h_sent h" "becameLeaderAt ?h1 = becameLeaderAt h" "squelchedUntil ?h1 = squelchedUntil h" "h_init ?h1 = h_init h"
    by (simp_all add: recordTerm_def)
  show ?thesis
    using assms unfolding runHealthCheck_def Let_def
    by (auto simp: frame leaderGracePeriodMs_def sendAll_silent split: prod.splits)
qed

definition ex_monitored :: RaftNode where
  "ex_monitored = (new_RaftNode
     \<lparr>c_nodeId = ''l'', c_maxLogEntriesPerAppend = None, c_nonVoting = False, c_dataDir = None, c_writable = True\<rparr> NoFile)
     \<lparr>state := Leader, commitIndex := 3,
      peers := [(''f'', \<lparr>p_nodeId = ''f'', p_address = ''f:1'', nextIndex = 4, matchIndex = 3, votingMember = True, p_object = 0\<rparr>)]\<rparr>"

theorem alerts_only_from_settled_leader_witness:
  "h_sent (runHealthCheck 1000 ex_monitored (health_init None None (new_ClusterHealth None True)))
   = h_sent (health_init None None (new_ClusterHealth None True))"
  by (rule alerts_only_from_settled_leader) (simp add: health_init_def new_ClusterHealth_def)

section \<open>The health of a node\<close>

text \<open>
  A node is healthy exactly when its resources are known and none of memory,
  processor and disk is beyond both its threshold and its fixed limit (95, 98 and 98
  per cent); a game, or a value between the two, is only a warning.
\<close>

theorem healthy_iff:
  "isHealthy (health_check now res tasks h) \<longleftrightarrow>
     (\<exists>r. res = Some r \<and> rs_memoryUsed r \<le> max (memoryThreshold h) 95 \<and> rs_cpuUsage r \<le> max (cpuThreshold h) 98
        \<and> rs_diskUsed r \<le> max (diskThreshold h) 98)"
  by (cases res) (auto simp: isHealthy_def health_check_def checkIssues_def usageIssue_def Let_def le_max_iff_disj not_less)

section \<open>A peer that falls silent\<close>

fun quiet_for :: "nid \<Rightarrow> RaftOp \<Rightarrow> bool" where
  "quiet_for i (OpAppendEntry t d) = True"
| "quiet_for i (OpAppendReply j ob r) = (j \<noteq> i)"
| "quiet_for i OpUpdateCommitIndex = True"
| "quiet_for i (OpAddPeer j a v) = (j \<noteq> i)"
| "quiet_for i (OpRemovePeer j) = (j \<noteq> i)"
| "quiet_for i OpPause = True"
| "quiet_for i OpResume = True"
| "quiet_for i _ = False"

lemma peers_updateCommitIndex: "peers (updateCommitIndex n) = peers n"
  by (simp add: updateCommitIndex_def Let_def split: option.splits)

lemma quiet_peer: "quiet_for i a \<Longrightarrow> jm_get (peers (raft_op a n)) i = jm_get (peers n) i"
  by (cases a) (auto simp: raft_op_defs peers_updateCommitIndex jm_laws Let_def split: option.splits)

lemma quiet_peers: "list_all (quiet_for i) ops \<Longrightarrow> jm_get (peers (fold raft_op ops n)) i = jm_get (peers n) i"
  by (induction ops arbitrary: n) (simp_all add: quiet_peer)

text \<open>
  The monitor cannot see a peer fall silent: a peer that has replicated once in the
  current leadership counts as alive after any number of unanswered heartbeats, appended
  entries and replies of others, at every later time.
\<close>

theorem silent_peer_counts_as_alive:
  assumes "jm_get (peers n) i = Some p" and "0 < matchIndex p" and "list_all (quiet_for i) ops"
  shows "jm_get (peers (fold raft_op ops n)) i = Some p \<and> \<not> unresponsive now (fold raft_op ops n) alive p"
  using assms by (simp add: quiet_peers unresponsive_def)

theorem silent_peer_counts_as_alive_witness:
  "\<exists>p. jm_get (peers (fold raft_op [OpAppendEntry Noop [], OpUpdateCommitIndex] ex_monitored)) ''f'' = Some p
     \<and> \<not> unresponsive 9000000 (fold raft_op [OpAppendEntry Noop [], OpUpdateCommitIndex] ex_monitored) [] p"
  using silent_peer_counts_as_alive [of ex_monitored "''f''" "snd (hd (peers ex_monitored))" "[OpAppendEntry Noop [], OpUpdateCommitIndex]" 9000000 "[]"]
  by (auto simp: ex_monitored_def jm_get_def)

end
