(* ===== verification/ClusterState.thy ===== *)
theory ClusterState
  imports Membership
begin

text \<open>
  \<open>ClusterStateManager\<close> of \<open>src/cluster/state.ts\<close>: the view of the cluster with its
  resources, the registered sessions, and the shared context entries with their
  visibility. \<open>getState\<close> corrects the roles of the nodes in place, so it returns the
  manager as well.
\<close>

section \<open>Data\<close>

datatype SessionMode = Normal | Invisible | Isolated

record ClaudeSession =
  sessionId :: string
  s_nodeId :: string
  s_project :: string
  workingDirectory :: string
  mode :: SessionMode
  startedAt :: int
  lastActive :: int
  contextSummary :: "string option"

datatype ContextType = ProjectSummary | Decision | ErrorSolution | FileChange | Learning

datatype ContextVisibility = VisCluster | VisProject | VisSession

record ContextEntry =
  entryId :: string
  ce_sessionId :: string
  ce_nodeId :: string
  ce_project :: string
  ce_type :: ContextType
  ce_key :: string
  ce_value :: string
  ce_timestamp :: int
  vectorClock :: int
  visibility :: ContextVisibility

record ClusterResources =
  cr_cpuCores :: rat
  cr_memoryBytes :: int
  cr_gpuCount :: nat
  cr_gpuMemoryBytes :: int

datatype StateEvent = StateChanged | SessionRegistered string | SessionUnregistered string
  | SessionContextUpdated string | ContextPublished string

record ClusterStateManager =
  clusterId :: string
  cs_membership :: MembershipManager
  sessions :: "(string, ClaudeSession) jsmap"
  contextStore :: "(string, ContextEntry) jsmap"
  activeTasks :: int
  queuedTasks :: int
  cs_emitted :: "StateEvent list"

definition new_ClusterStateManager :: "string \<Rightarrow> MembershipManager \<Rightarrow> ClusterStateManager" where
  "new_ClusterStateManager i m =
     \<lparr>clusterId = i, cs_membership = m, sessions = [], contextStore = [], activeTasks = 0, queuedTasks = 0, cs_emitted = []\<rparr>"

definition cs_emit :: "StateEvent \<Rightarrow> ClusterStateManager \<Rightarrow> ClusterStateManager" where
  "cs_emit e s = s\<lparr>cs_emitted := cs_emitted s @ [e]\<rparr>"

section \<open>Resources\<close>

definition noResources :: ClusterResources where
  "noResources = \<lparr>cr_cpuCores = 0, cr_memoryBytes = 0, cr_gpuCount = 0, cr_gpuMemoryBytes = 0\<rparr>"

definition addTotal :: "NodeInfo \<Rightarrow> ClusterResources \<Rightarrow> ClusterResources" where
  "addTotal n c =
     (case resources n of None \<Rightarrow> c
      | Some r \<Rightarrow> if status n \<noteq> Active then c
                  else \<lparr>cr_cpuCores = cr_cpuCores c + of_int (cpuCores r), cr_memoryBytes = cr_memoryBytes c + memoryBytes r,
                        cr_gpuCount = cr_gpuCount c + length (gpus r),
                        cr_gpuMemoryBytes = cr_gpuMemoryBytes c + fold (\<lambda>g s. s + gpu_memoryBytes g) (gpus r) 0\<rparr>)"

definition calculateTotalResources :: "NodeInfo list \<Rightarrow> ClusterResources" where
  "calculateTotalResources ns = fold addTotal ns noResources"

definition addGpu :: "GpuInfo \<Rightarrow> ClusterResources \<Rightarrow> ClusterResources" where
  "addGpu g c =
     (if inUseForGaming g then c
      else c\<lparr>cr_gpuCount := cr_gpuCount c + 1, cr_gpuMemoryBytes := cr_gpuMemoryBytes c + gpu_memoryAvailableBytes g\<rparr>)"

definition addAvailable :: "NodeInfo \<Rightarrow> ClusterResources \<Rightarrow> ClusterResources" where
  "addAvailable n c =
     (case resources n of None \<Rightarrow> c
      | Some r \<Rightarrow> if status n \<noteq> Active then c
                  else fold addGpu (gpus r)
                    (c\<lparr>cr_cpuCores := cr_cpuCores c + max 0 (of_int (cpuCores r) * (1 - cpuUsagePercent r / 100)),
                       cr_memoryBytes := cr_memoryBytes c + memoryAvailableBytes r\<rparr>))"

definition calculateAvailableResources :: "NodeInfo list \<Rightarrow> ClusterResources" where
  "calculateAvailableResources ns = fold addAvailable ns noResources"

section \<open>The state of the cluster\<close>

record ClusterView =
  cv_clusterId :: string
  cv_leaderId :: "string option"
  cv_term :: int
  cv_nodes :: "NodeInfo list"
  cv_total :: ClusterResources
  cv_available :: ClusterResources
  cv_activeTasks :: int
  cv_queuedTasks :: int

definition reconcileRole :: "string \<Rightarrow> NodeInfo \<Rightarrow> NodeInfo" where
  "reconcileRole l n =
     (if nodeId n = l then n\<lparr>role := RoleLeader\<rparr> else if role n = RoleLeader then n\<lparr>role := RoleFollower\<rparr> else n)"

definition getState :: "ClusterStateManager \<Rightarrow> ClusterStateManager \<times> ClusterView" where
  "getState s =
     (let m = cs_membership s; l = leaderId (raft m);
          m' = (if truthy l then m\<lparr>m_nodes := jm_map (reconcileRole (the l)) (m_nodes m)\<rparr> else m);
          ns = getAllNodes m'
      in (s\<lparr>cs_membership := m'\<rparr>,
          \<lparr>cv_clusterId = clusterId s, cv_leaderId = l, cv_term = currentTerm (raft m), cv_nodes = ns,
           cv_total = calculateTotalResources ns, cv_available = calculateAvailableResources ns,
           cv_activeTasks = activeTasks s, cv_queuedTasks = queuedTasks s\<rparr>))"

definition updateTaskCounts :: "int \<Rightarrow> int \<Rightarrow> ClusterStateManager \<Rightarrow> ClusterStateManager" where
  "updateTaskCounts a q s = cs_emit StateChanged (s\<lparr>activeTasks := a, queuedTasks := q\<rparr>)"

section \<open>Sessions\<close>

definition registerSession :: "ClaudeSession \<Rightarrow> ClusterStateManager \<Rightarrow> ClusterStateManager" where
  "registerSession x s =
     (if mode x = Isolated then s
      else cs_emit (SessionRegistered (sessionId x)) (s\<lparr>sessions := jm_set (sessionId x) x (sessions s)\<rparr>))"

definition unregisterSession :: "string \<Rightarrow> ClusterStateManager \<Rightarrow> ClusterStateManager" where
  "unregisterSession i s =
     (if jm_get (sessions s) i = None then s
      else cs_emit (SessionUnregistered i) (s\<lparr>sessions := jm_delete i (sessions s)\<rparr>))"

definition getSession :: "string \<Rightarrow> ClusterStateManager \<Rightarrow> ClaudeSession option" where
  "getSession i s = jm_get (sessions s) i"

definition getSessions :: "string option \<Rightarrow> string option \<Rightarrow> bool \<Rightarrow> ClusterStateManager \<Rightarrow> ClaudeSession list" where
  "getSessions project node excludeInvisible s =
     (let xs0 = jm_values (sessions s);
          xs1 = (if excludeInvisible then filter (\<lambda>x. mode x \<noteq> Invisible) xs0 else xs0);
          xs2 = (if truthy project then filter (\<lambda>x. Some (s_project x) = project) xs1 else xs1)
      in if truthy node then filter (\<lambda>x. Some (s_nodeId x) = node) xs2 else xs2)"

definition updateSessionActivity :: "int \<Rightarrow> string \<Rightarrow> ClusterStateManager \<Rightarrow> ClusterStateManager" where
  "updateSessionActivity now i s = s\<lparr>sessions := jm_modify i (\<lambda>x. x\<lparr>lastActive := now\<rparr>) (sessions s)\<rparr>"

definition updateSessionContext :: "string \<Rightarrow> string \<Rightarrow> ClusterStateManager \<Rightarrow> ClusterStateManager" where
  "updateSessionContext i summary s =
     (if jm_get (sessions s) i = None then s
      else cs_emit (SessionContextUpdated i) (s\<lparr>sessions := jm_modify i (\<lambda>x. x\<lparr>contextSummary := Some summary\<rparr>) (sessions s)\<rparr>))"

section \<open>Context\<close>

definition publishContext :: "ContextEntry \<Rightarrow> ClusterStateManager \<Rightarrow> ClusterStateManager" where
  "publishContext e s = cs_emit (ContextPublished (entryId e)) (s\<lparr>contextStore := jm_set (entryId e) e (contextStore s)\<rparr>)"

record ContextQuery =
  projectFilter :: "string option"
  typeFilter :: "ContextType list option"
  sinceTimestamp :: "int option"
  limit :: "int option"
  q_sessionId :: "string option"

definition seenBy :: "string option \<Rightarrow> ClaudeSession option \<Rightarrow> ContextEntry \<Rightarrow> bool" where
  "seenBy i x e =
     (if visibility e = VisCluster then True
      else if visibility e = VisProject \<and> (case x of Some y \<Rightarrow> ce_project e = s_project y | None \<Rightarrow> False) then True
      else visibility e = VisSession \<and> Some (ce_sessionId e) = i)"

definition queryContext :: "ContextQuery \<Rightarrow> ClusterStateManager \<Rightarrow> ContextEntry list" where
  "queryContext q s =
     (let es0 = jm_values (contextStore s);
          es1 = (if truthy (q_sessionId q)
                 then filter (seenBy (q_sessionId q) (jm_get (sessions s) (the (q_sessionId q)))) es0
                 else filter (\<lambda>e. visibility e = VisCluster) es0);
          es2 = (if truthy (projectFilter q) then filter (\<lambda>e. Some (ce_project e) = projectFilter q) es1 else es1);
          es3 = (case typeFilter q of Some ts \<Rightarrow> if ts \<noteq> [] then filter (\<lambda>e. ce_type e \<in> set ts) es2 else es2 | None \<Rightarrow> es2);
          es4 = (case sinceTimestamp q of Some t \<Rightarrow> if t \<noteq> 0 then filter (\<lambda>e. ce_timestamp e > t) es3 else es3 | None \<Rightarrow> es3);
          es5 = sort_desc ce_timestamp es4
      in case limit q of Some k \<Rightarrow> if k \<noteq> 0 then js_slice es5 0 k else es5 | None \<Rightarrow> es5)"

section \<open>The wire format\<close>

record TotalsProto =
  tp_cpu_cores :: rat
  tp_memory_bytes :: string
  tp_gpu_count :: nat
  tp_gpu_memory_bytes :: string

definition totalsToProto :: "ClusterResources \<Rightarrow> TotalsProto" where
  "totalsToProto c = \<lparr>tp_cpu_cores = cr_cpuCores c, tp_memory_bytes = show_int (cr_memoryBytes c),
     tp_gpu_count = cr_gpuCount c, tp_gpu_memory_bytes = show_int (cr_gpuMemoryBytes c)\<rparr>"

record ClusterProto =
  cp_cluster_id :: string
  cp_leader_id :: string
  cp_term :: string
  cp_nodes :: "NodeProto list"
  cp_total_resources :: TotalsProto
  cp_available_resources :: TotalsProto
  cp_active_tasks :: int
  cp_queued_tasks :: int

definition toProtoState :: "ClusterStateManager \<Rightarrow> ClusterStateManager \<times> ClusterProto" where
  "toProtoState s =
     (let (s', v) = getState s
      in (s', \<lparr>cp_cluster_id = cv_clusterId v, cp_leader_id = nullish (cv_leaderId v) [], cp_term = show_int (cv_term v),
               cp_nodes = map (\<lambda>n. (nodeToProto n)\<lparr>np_resources := None\<rparr>) (cv_nodes v),
               cp_total_resources = totalsToProto (cv_total v), cp_available_resources = totalsToProto (cv_available v),
               cp_active_tasks = cv_activeTasks v, cp_queued_tasks = cv_queuedTasks v\<rparr>))"

section \<open>Properties\<close>

text \<open>Who may see an entry.\<close>

definition visible :: "ClusterStateManager \<Rightarrow> string option \<Rightarrow> ContextEntry \<Rightarrow> bool" where
  "visible s i e \<longleftrightarrow> visibility e = VisCluster \<or> (\<exists>j. i = Some j \<and> j \<noteq> [] \<and>
     (visibility e = VisSession \<and> ce_sessionId e = j
      \<or> visibility e = VisProject \<and> (\<exists>x. getSession j s = Some x \<and> s_project x = ce_project e)))"

definition matches :: "ContextQuery \<Rightarrow> ContextEntry \<Rightarrow> bool" where
  "matches q e \<longleftrightarrow> (\<forall>p. projectFilter q = Some p \<and> p \<noteq> [] \<longrightarrow> ce_project e = p)
     \<and> (\<forall>ts. typeFilter q = Some ts \<and> ts \<noteq> [] \<longrightarrow> ce_type e \<in> set ts)
     \<and> (\<forall>t. sinceTimestamp q = Some t \<and> t \<noteq> 0 \<longrightarrow> t < ce_timestamp e)"

lemma seenBy_visible: "truthy i \<Longrightarrow> seenBy i (getSession (the i) s) e \<longleftrightarrow> visible s i e"
  by (cases "visibility e") (auto simp: seenBy_def visible_def truthy_def split: option.splits)

lemma queryContext_sorted:
  "\<exists>es. queryContext q s = (case limit q of Some k \<Rightarrow> if k \<noteq> 0 then js_slice es 0 k else es | None \<Rightarrow> es)
     \<and> sorted (map (\<lambda>e. - ce_timestamp e) es)
     \<and> set es = {e \<in> set (jm_values (contextStore s)). visible s (q_sessionId q) e \<and> matches q e}"
proof -
  let ?vis = "\<lambda>e. if truthy (q_sessionId q) then seenBy (q_sessionId q) (jm_get (sessions s) (the (q_sessionId q))) e else visibility e = VisCluster"
  have vis: "?vis e \<longleftrightarrow> visible s (q_sessionId q) e" for e
    using seenBy_visible [of "q_sessionId q" s e] by (auto simp: getSession_def visible_def truthy_def split: option.splits)
  define es where "es = sort_desc ce_timestamp (filter (\<lambda>e. ?vis e \<and> matches q e) (jm_values (contextStore s)))"
  have "queryContext q s = (case limit q of Some k \<Rightarrow> if k \<noteq> 0 then js_slice es 0 k else es | None \<Rightarrow> es)"
    unfolding queryContext_def es_def matches_def Let_def
    by (cases "projectFilter q"; cases "typeFilter q"; cases "sinceTimestamp q") (auto simp: truthy_def conj_commute conj_left_commute intro!: arg_cong2 [where f = js_slice] arg_cong [where f = "sort_desc ce_timestamp"] filter_cong split: option.splits)
  then show ?thesis unfolding es_def by (intro exI conjI) (auto simp: sorted_sort_desc vis)
qed

lemma set_js_slice: "set (js_slice xs a b) \<subseteq> set xs"
  unfolding js_slice_def Let_def by (meson order_trans set_drop_subset set_take_subset)

text \<open>
  A query returns only entries the asking session may see (cluster-wide ones, those
  of its own project when it is registered, and its own) that pass the query's
  filters, newest first; without a limit it returns all of them, and a positive limit
  bounds their number.
\<close>

theorem query_context_visible:
  "(\<forall>e\<in>set (queryContext q s). e \<in> set (jm_values (contextStore s)) \<and> visible s (q_sessionId q) e \<and> matches q e)
   \<and> (limit q = None \<longrightarrow> sorted (map (\<lambda>e. - ce_timestamp e) (queryContext q s))
        \<and> set (queryContext q s) = {e \<in> set (jm_values (contextStore s)). visible s (q_sessionId q) e \<and> matches q e})
   \<and> (\<forall>k>0. limit q = Some k \<longrightarrow> int (length (queryContext q s)) \<le> k)"
proof -
  obtain es where es: "queryContext q s = (case limit q of Some k \<Rightarrow> if k \<noteq> 0 then js_slice es 0 k else es | None \<Rightarrow> es)"
      "sorted (map (\<lambda>e. - ce_timestamp e) es)" "set es = {e \<in> set (jm_values (contextStore s)). visible s (q_sessionId q) e \<and> matches q e}"
    using queryContext_sorted by blast
  have sub: "set (queryContext q s) \<subseteq> set es"
    unfolding es(1) using set_js_slice [of es 0] by (simp split: option.splits)
  have "int (length (js_slice es 0 k)) \<le> k" if "0 < k" for k
    using that by (simp add: js_slice_def js_rel_def Let_def)
  then have "\<forall>k>0. limit q = Some k \<longrightarrow> int (length (queryContext q s)) \<le> k" by (simp add: es(1))
  moreover have "limit q = None \<longrightarrow> queryContext q s = es" by (simp add: es(1))
  ultimately show ?thesis using es(2,3) sub by blast
qed

definition ex_entry :: "string \<Rightarrow> ContextVisibility \<Rightarrow> ContextEntry" where
  "ex_entry i v = \<lparr>entryId = i, ce_sessionId = ''s1'', ce_nodeId = ''n'', ce_project = ''p'', ce_type = Learning, ce_key = ''k'',
     ce_value = ''v'', ce_timestamp = 5, vectorClock = 0, visibility = v\<rparr>"

definition ex_context :: "MembershipManager \<Rightarrow> ClusterStateManager" where
  "ex_context m = publishContext (ex_entry ''b'' VisSession) (publishContext (ex_entry ''a'' VisCluster) (new_ClusterStateManager ''c'' m))"

definition ex_query :: ContextQuery where
  "ex_query = \<lparr>projectFilter = None, typeFilter = None, sinceTimestamp = None, limit = None, q_sessionId = Some ''s2''\<rparr>"

theorem query_context_visible_witness:
  "\<exists>m. map entryId (queryContext ex_query (ex_context m)) = [''a'']
     \<and> list_all (visible (ex_context m) (Some ''s2'')) (queryContext ex_query (ex_context m))"
proof -
  define m where "m = new_MembershipManager 0 ''l'' ''h'' ''10.0.0.1'' 7 None True (new_RaftNode
     \<lparr>c_nodeId = ''l'', c_maxLogEntriesPerAppend = None, c_nonVoting = False, c_dataDir = None, c_writable = True\<rparr> NoFile)"
  have "map entryId (queryContext ex_query (ex_context m)) = [''a'']"
    by (simp add: queryContext_def ex_query_def ex_context_def publishContext_def new_ClusterStateManager_def cs_emit_def
        jm_values_def jm_set_def ex_entry_def truthy_def seenBy_def jm_get_def sort_desc_def Let_def)
  moreover have "list_all (visible (ex_context m) (Some ''s2'')) (queryContext ex_query (ex_context m))"
  proof -
    have "q_sessionId ex_query = Some ''s2''" by (simp add: ex_query_def)
    with query_context_visible [of ex_query "ex_context m", THEN conjunct1] show ?thesis by (metis list_all_iff)
  qed
  ultimately show ?thesis by (intro exI [of _ m] conjI)
qed

text \<open>
  The roles in the view agree with the consensus module: when it knows a leader, the
  nodes shown (and kept) with the role of leader are exactly those with its id, and
  nothing else about a node changes.
\<close>

theorem one_leader_in_view:
  assumes "getState s = (s', v)" and "leaderId (raft (cs_membership s)) = Some l" and "l \<noteq> []"
  shows "(\<forall>n\<in>set (cv_nodes v). role n = RoleLeader \<longleftrightarrow> nodeId n = l)
    \<and> map (\<lambda>n. n\<lparr>role := RoleFollower\<rparr>) (cv_nodes v) = map (\<lambda>n. n\<lparr>role := RoleFollower\<rparr>) (getAllNodes (cs_membership s))
    \<and> getAllNodes (cs_membership s') = cv_nodes v"
proof -
  have r: "s' = fst (getState s)" "v = snd (getState s)" using assms(1) by simp_all
  have v: "cv_nodes v = map (reconcileRole l) (getAllNodes (cs_membership s))"
    using assms(2,3) by (simp add: r getState_def Let_def truthy_def getAllNodes_def jm_values_def jm_map_def case_prod_unfold)
  have "getAllNodes (cs_membership s') = cv_nodes v" by (simp add: r getState_def Let_def)
  moreover have "role (reconcileRole l n) = RoleLeader \<longleftrightarrow> nodeId (reconcileRole l n) = l" for n by (simp add: reconcileRole_def)
  moreover have "(reconcileRole l n)\<lparr>role := RoleFollower\<rparr> = n\<lparr>role := RoleFollower\<rparr>" for n by (simp add: reconcileRole_def)
  ultimately show ?thesis by (auto simp: v)
qed

definition ex_view :: ClusterStateManager where
  "ex_view = new_ClusterStateManager ''c'' (new_MembershipManager 0 ''l'' ''h'' ''10.0.0.1'' 7 None True ((new_RaftNode
     \<lparr>c_nodeId = ''l'', c_maxLogEntriesPerAppend = None, c_nonVoting = False, c_dataDir = None, c_writable = True\<rparr> NoFile)\<lparr>leaderId := Some ''l''\<rparr>))"

theorem one_leader_in_view_witness:
  "map nodeId (cv_nodes (snd (getState ex_view))) = [''l''] \<and> map role (cv_nodes (snd (getState ex_view))) = [RoleLeader]"
proof -
  have l: "leaderId (raft (cs_membership ex_view)) = Some ''l''" by (simp add: ex_view_def new_ClusterStateManager_def new_MembershipManager_def)
  have "map nodeId (cv_nodes (snd (getState ex_view))) = [''l'']" by code_simp
  then obtain n where n: "cv_nodes (snd (getState ex_view)) = [n]" "nodeId n = ''l''" by (auto simp: map_eq_Cons_conv)
  moreover have "role n = RoleLeader"
    using one_leader_in_view [OF surjective_pairing l, THEN conjunct1] by (simp add: n)
  ultimately show ?thesis by simp
qed

section \<open>Bounds of the resources\<close>

definition plausible :: "NodeInfo \<Rightarrow> bool" where
  "plausible n = (case resources n of None \<Rightarrow> True
     | Some r \<Rightarrow> 0 \<le> cpuCores r \<and> 0 \<le> cpuUsagePercent r \<and> memoryAvailableBytes r \<le> memoryBytes r
        \<and> (\<forall>g\<in>set (gpus r). 0 \<le> gpu_memoryBytes g \<and> gpu_memoryAvailableBytes g \<le> gpu_memoryBytes g))"

definition no_more_than :: "ClusterResources \<Rightarrow> ClusterResources \<Rightarrow> bool" where
  "no_more_than a t \<longleftrightarrow> cr_cpuCores a \<le> cr_cpuCores t \<and> cr_memoryBytes a \<le> cr_memoryBytes t
     \<and> cr_gpuCount a \<le> cr_gpuCount t \<and> cr_gpuMemoryBytes a \<le> cr_gpuMemoryBytes t"

lemma fold_addGpu:
  assumes "\<forall>g\<in>set gs. 0 \<le> gpu_memoryBytes g \<and> gpu_memoryAvailableBytes g \<le> gpu_memoryBytes g"
  shows "cr_gpuCount (fold addGpu gs c) \<le> cr_gpuCount c + length gs
    \<and> cr_gpuMemoryBytes (fold addGpu gs c) \<le> cr_gpuMemoryBytes c + sum_list (map gpu_memoryBytes gs)
    \<and> cr_cpuCores (fold addGpu gs c) = cr_cpuCores c \<and> cr_memoryBytes (fold addGpu gs c) = cr_memoryBytes c"
  using assms
proof (induction gs arbitrary: c)
  case (Cons g gs)
  have "\<forall>g\<in>set gs. 0 \<le> gpu_memoryBytes g \<and> gpu_memoryAvailableBytes g \<le> gpu_memoryBytes g"
    and g: "0 \<le> gpu_memoryBytes g" "gpu_memoryAvailableBytes g \<le> gpu_memoryBytes g" using Cons.prems by auto
  from Cons.IH [OF this(1), of "addGpu g c"] g show ?case by (auto simp: addGpu_def split: if_splits)
qed simp

lemma within_add:
  assumes "no_more_than a t" and "plausible n"
  shows "no_more_than (addAvailable n a) (addTotal n t)"
proof (cases "resources n")
  case (Some r)
  have sum: "fold (\<lambda>g s. s + gpu_memoryBytes g) gs z = z + sum_list (map gpu_memoryBytes gs)" for gs z
    by (induction gs arbitrary: z) simp_all
  have cpu: "max 0 (of_int (cpuCores r) * (1 - cpuUsagePercent r / 100)) \<le> (of_int (cpuCores r) :: rat)"
    using assms(2) Some by (simp add: plausible_def mult_left_le)
  show ?thesis
    using assms Some cpu fold_addGpu [of "gpus r" "a\<lparr>cr_cpuCores := cr_cpuCores a + max 0 (of_int (cpuCores r) * (1 - cpuUsagePercent r / 100)),
        cr_memoryBytes := cr_memoryBytes a + memoryAvailableBytes r\<rparr>"]
    by (simp add: no_more_than_def addAvailable_def addTotal_def plausible_def sum add_mono)
qed (use assms in \<open>simp add: addAvailable_def addTotal_def\<close>)

text \<open>
  The available resources of the cluster never exceed its total resources, in
  cores, memory, graphics cards and their memory, as long as each node reports no more
  available memory than it has and no negative amounts.
\<close>

theorem available_within_total:
  assumes "list_all plausible ns"
  shows "no_more_than (calculateAvailableResources ns) (calculateTotalResources ns)"
proof -
  have "no_more_than (fold addAvailable ns a) (fold addTotal ns t)" if "no_more_than a t" for a t
    using assms that by (induction ns arbitrary: a t) (simp_all add: within_add)
  then show ?thesis by (simp add: calculateAvailableResources_def calculateTotalResources_def no_more_than_def)
qed

definition ex_equipped :: NodeInfo where
  "ex_equipped = (freshNode 0 ''a'' ''h'' ''i'' 1 [])\<lparr>resources := Some \<lparr>cpuCores = 8, memoryBytes = 64, memoryAvailableBytes = 32,
     gpus = [\<lparr>gpu_name = ''g'', gpu_memoryBytes = 8, gpu_memoryAvailableBytes = 4, utilizationPercent = 0, inUseForGaming = False\<rparr>],
     diskBytes = 100, diskAvailableBytes = 50, cpuUsagePercent = 25, gamingDetected = False\<rparr>\<rparr>"

theorem available_within_total_witness:
  "cr_gpuCount (calculateAvailableResources [ex_equipped]) = 1
   \<and> no_more_than (calculateAvailableResources [ex_equipped]) (calculateTotalResources [ex_equipped])"
proof
  show "cr_gpuCount (calculateAvailableResources [ex_equipped]) = 1"
    by (simp add: calculateAvailableResources_def addAvailable_def addGpu_def noResources_def ex_equipped_def freshNode_def)
  show "no_more_than (calculateAvailableResources [ex_equipped]) (calculateTotalResources [ex_equipped])"
    by (rule available_within_total) (simp add: plausible_def ex_equipped_def)
qed

end
