(* ===== verification/Handlers.thy ===== *)
theory Handlers
  imports ClusterScheduler ClusterState Updater RaftReplication
begin

text \<open>
  The gRPC services of \<open>src/grpc/handlers.ts\<close>: what each handler reads from its message,
  which operation of the node it calls, and what it answers. 64-bit integers travel as
  decimal strings and enumerations by name; the message layer between two nodes is the
  identity on such messages. A handler that reads a number returns \<open>None\<close> when the text
  is not one, which a message of the declared types never holds.
\<close>

section \<open>The Raft service\<close>

record VoteProto =
  vp_term :: string
  vp_candidate_id :: nid
  vp_last_log_index :: string
  vp_last_log_term :: string

record VoteReplyProto =
  vrp_term :: string
  vrp_vote_granted :: bool

text \<open>The message \<open>startElection\<close> builds, and what it reads from the answer.\<close>

definition voteToProto :: "VoteRequest \<Rightarrow> VoteProto" where
  "voteToProto q = \<lparr>vp_term = show_int (vq_term q), vp_candidate_id = vq_candidateId q,
     vp_last_log_index = show_int (vq_lastLogIndex q), vp_last_log_term = show_int (vq_lastLogTerm q)\<rparr>"

definition protoToVoteReply :: "VoteReplyProto \<Rightarrow> VoteReply option" where
  "protoToVoteReply p = map_option (\<lambda>t. \<lparr>vr_term = t, voteGranted = vrp_vote_granted p\<rparr>) (parseInt (vrp_term p))"

definition RequestVote :: "VoteProto \<Rightarrow> RaftNode \<Rightarrow> (RaftNode \<times> VoteReplyProto) option" where
  "RequestVote p n =
     (case (parseInt (vp_term p), parseInt (vp_last_log_index p), parseInt (vp_last_log_term p)) of
        (Some t, Some i, Some l) \<Rightarrow>
          (let (n', r) = handleRequestVote \<lparr>vq_term = t, vq_candidateId = vp_candidate_id p, vq_lastLogIndex = i, vq_lastLogTerm = l\<rparr> n
           in Some (n', \<lparr>vrp_term = show_int (vr_term r), vrp_vote_granted = voteGranted r\<rparr>))
      | _ \<Rightarrow> None)"

record EntryProto =
  ep_term :: string
  ep_index :: string
  ep_type :: string
  ep_data :: string

record AppendProto =
  ap_term :: string
  ap_leader_id :: nid
  ap_prev_log_index :: string
  ap_prev_log_term :: string
  ap_entries :: "EntryProto list"
  ap_leader_commit :: string

record AppendReplyProto =
  arp_term :: string
  arp_success :: bool
  arp_match_index :: string

definition entryToProto :: "LogEntry \<Rightarrow> EntryProto" where
  "entryToProto e = \<lparr>ep_term = show_int (e_term e), ep_index = show_int (e_index e),
     ep_type = logEntryTypeToProto (e_type e), ep_data = e_data e\<rparr>"

definition appendToProto :: "AppendRequest \<Rightarrow> AppendProto" where
  "appendToProto q = \<lparr>ap_term = show_int (aq_term q), ap_leader_id = aq_leaderId q,
     ap_prev_log_index = show_int (prevLogIndex q), ap_prev_log_term = show_int (prevLogTerm q),
     ap_entries = map entryToProto (aq_entries q), ap_leader_commit = show_int (leaderCommit q)\<rparr>"

definition protoToAppendReply :: "AppendReplyProto \<Rightarrow> AppendReply option" where
  "protoToAppendReply p =
     (case (parseInt (arp_term p), parseInt (arp_match_index p)) of
        (Some t, Some i) \<Rightarrow> Some \<lparr>ar_term = t, ar_success = arp_success p, ar_matchIndex = i\<rparr>
      | _ \<Rightarrow> None)"

text \<open>The type of a name (\<open>None\<close> for a name that no part of the program knows).\<close>

definition typeNamed :: "string \<Rightarrow> LogEntryType option" where
  "typeNamed s = find (\<lambda>t. typeName t = s) [Noop, ConfigChange, TaskSubmit, TaskComplete, NodeJoin, NodeLeave, ContextUpdate,
     MemoryWrite, TaskAssign, TaskStarted, TaskFailed, TaskCancel, TaskRetry, TaskDeadLetter, WorkflowSubmit, WorkflowAdvance]"

definition protoToEntry :: "EntryProto \<Rightarrow> LogEntry option" where
  "protoToEntry p =
     (case (parseInt (ep_term p), parseInt (ep_index p), typeNamed (protoToTypeName (ep_type p))) of
        (Some t, Some i, Some ty) \<Rightarrow> Some \<lparr>e_term = t, e_index = i, e_type = ty, e_data = ep_data p\<rparr>
      | _ \<Rightarrow> None)"

definition AppendEntries :: "int \<Rightarrow> AppendProto \<Rightarrow> RaftNode \<Rightarrow> (RaftNode \<times> AppendReplyProto) option" where
  "AppendEntries now p n =
     (case (parseInt (ap_term p), parseInt (ap_prev_log_index p), parseInt (ap_prev_log_term p),
            those (map protoToEntry (ap_entries p)), parseInt (ap_leader_commit p)) of
        (Some t, Some i, Some l, Some es, Some c) \<Rightarrow>
          (let (n', r) = handleAppendEntries now \<lparr>aq_term = t, aq_leaderId = ap_leader_id p, prevLogIndex = i, prevLogTerm = l,
                 aq_entries = es, leaderCommit = c\<rparr> n
           in Some (n', \<lparr>arp_term = show_int (ar_term r), arp_success = ar_success r, arp_match_index = show_int (ar_matchIndex r)\<rparr>))
      | _ \<Rightarrow> None)"

definition InstallSnapshot :: "RaftNode \<Rightarrow> RaftNode \<times> string" where
  "InstallSnapshot n = (n, ''0'')"

record TimeoutProto =
  tn_from_leader_id :: nid
  tn_term :: string

text \<open>A term that is not a number compares as not stale.\<close>

definition TimeoutNow :: "TimeoutProto \<Rightarrow> RaftNode \<Rightarrow> RaftNode \<times> bool \<times> (nid \<times> VoteRequest) list" where
  "TimeoutNow p n =
     (if (case parseInt (tn_term p) of Some t \<Rightarrow> t < currentTerm n | None \<Rightarrow> False) then (n, False, [])
      else triggerImmediateElection n)"

section \<open>The cluster service\<close>

datatype GrpcError = Unavailable string | NotFound string

record RegisterProto =
  rgp_approved :: bool
  rgp_pending_approval :: bool
  rgp_cluster_id :: string
  rgp_leader_address :: string
  rgp_peers :: "NodeProto list"
  rgp_build_hash :: string

text \<open>The record \<open>RegisterNode\<close> makes of the message; the rest of the message is ignored.\<close>

definition registering :: "int \<Rightarrow> NodeProto \<Rightarrow> NodeInfo" where
  "registering now p =
     \<lparr>nodeId = np_node_id p, hostname = np_hostname p, tailscaleIp = np_tailscale_ip p, grpcPort = np_grpc_port p,
      role = RoleFollower, status = PendingApproval, resources = None, tags = np_tags p, joinedAt = now, lastSeen = now\<rparr>"

definition registerReply :: "string \<Rightarrow> JoinReply \<Rightarrow> RegisterProto" where
  "registerReply build r =
     \<lparr>rgp_approved = jr_approved r, rgp_pending_approval = jr_pendingApproval r, rgp_cluster_id = jr_clusterId r,
      rgp_leader_address = jr_leaderAddress r, rgp_peers = map (\<lambda>n. (nodeToProto n)\<lparr>np_resources := None\<rparr>) (jr_peers r),
      rgp_build_hash = build\<rparr>"

text \<open>\<open>None\<close> as answer: the approval is under way, \<open>registerReply\<close> of \<open>joinApproved\<close> follows.\<close>

definition RegisterNode :: "(MembershipEntry \<Rightarrow> string) \<Rightarrow> string \<Rightarrow> int \<Rightarrow> NodeProto \<Rightarrow> MembershipManager
    \<Rightarrow> MembershipManager \<times> RegisterProto option" where
  "RegisterNode json build now p m = apsnd (map_option (registerReply build)) (handleJoinRequest json (registering now p) m)"

text \<open>What \<open>joinCluster\<close> reads from the answer.\<close>

definition protoToRegister :: "RegisterProto \<Rightarrow> RegisterResponse option" where
  "protoToRegister p =
     map_option (\<lambda>ns. \<lparr>rr_pending_approval = rgp_pending_approval p, rr_approved = rgp_approved p,
       rr_leader_address = rgp_leader_address p, rr_peers = ns, rr_cluster_id = rgp_cluster_id p, rr_build_hash = rgp_build_hash p\<rparr>)
     (those (map protoToNode (rgp_peers p)))"

definition DeregisterNode :: "(MembershipEntry \<Rightarrow> string) \<Rightarrow> string \<Rightarrow> bool option \<Rightarrow> MembershipManager \<Rightarrow> MembershipManager \<times> bool" where
  "DeregisterNode json i graceful m = removeNode json i (nullish graceful True) m"

definition protoToGpu :: "GpuProto \<Rightarrow> GpuInfo option" where
  "protoToGpu g =
     (case (parseInt (gp_memory_bytes g), parseInt (gp_memory_available_bytes g)) of
        (Some a, Some b) \<Rightarrow> Some \<lparr>gpu_name = gp_name g, gpu_memoryBytes = a, gpu_memoryAvailableBytes = b,
          utilizationPercent = gp_utilization_percent g, inUseForGaming = gp_in_use_for_gaming g\<rparr>
      | _ \<Rightarrow> None)"

definition protoToResources :: "ResourcesProto \<Rightarrow> NodeResources option" where
  "protoToResources r =
     (case (parseInt (rp_memory_bytes r), parseInt (rp_memory_available_bytes r), those (map protoToGpu (rp_gpus r)),
            parseInt (rp_disk_bytes r), parseInt (rp_disk_available_bytes r)) of
        (Some m, Some ma, Some gs, Some d, Some da) \<Rightarrow> Some
          \<lparr>cpuCores = rp_cpu_cores r, memoryBytes = m, memoryAvailableBytes = ma, gpus = gs, diskBytes = d,
           diskAvailableBytes = da, cpuUsagePercent = rp_cpu_usage_percent r, gamingDetected = rp_gaming_detected r\<rparr>
      | _ \<Rightarrow> None)"

text \<open>\<open>res\<close>: the resources of the message, if it has any.\<close>

definition Heartbeat :: "int \<Rightarrow> string \<Rightarrow> ResourcesProto option \<Rightarrow> MembershipManager \<Rightarrow> MembershipManager \<times> HeartbeatResponse" where
  "Heartbeat now i res m =
     (let m1 = m\<lparr>m_nodes := jm_modify i (\<lambda>n. n\<lparr>lastSeen := now, status := (if status n = Offline then Active else status n)\<rparr>) (m_nodes m)\<rparr>;
          m2 = (case Option.bind res protoToResources of Some r \<Rightarrow> updateNodeResources now i r m1 | None \<Rightarrow> m1)
      in (m2, \<lparr>hr_acknowledged = True, hr_leader_address = nullish (leaderAddress m2) [], hr_leader_id = nullish (leaderId (raft m2)) []\<rparr>))"

text \<open>The peers that count as alive for \<open>GetClusterState\<close>; empty on a node that does not lead.\<close>

definition raftAlive :: "RaftNode \<Rightarrow> nid list" where
  "raftAlive r =
     (if isLeader r then self r # map p_nodeId (filter (\<lambda>p. matchIndex p > 0 \<or> commitIndex r = 0) (getPeers r)) else [])"

definition GetClusterState :: "ClusterStateManager \<Rightarrow> ClusterStateManager \<times> ClusterProto" where
  "GetClusterState s =
     (let (s', v) = getState s; alive = raftAlive (raft (cs_membership s))
      in (s', \<lparr>cp_cluster_id = cv_clusterId v, cp_leader_id = nullish (cv_leaderId v) [], cp_term = show_int (cv_term v),
               cp_nodes = map (\<lambda>n. nodeToProto (if nodeId n \<in> set alive then n\<lparr>status := Active\<rparr> else n)) (cv_nodes v),
               cp_total_resources = totalsToProto (cv_total v), cp_available_resources = totalsToProto (cv_available v),
               cp_active_tasks = cv_activeTasks v, cp_queued_tasks = cv_queuedTasks v\<rparr>))"

text \<open>
  \<open>TransferLeadership\<close>: the new state, whether it succeeded, and the peer to which
  \<open>TimeoutNow\<close> is sent (a delivery that fails is only logged). \<open>pool\<close>: whether the
  handlers have a client pool.
\<close>

definition TransferLeadership :: "bool \<Rightarrow> string \<Rightarrow> RaftNode \<Rightarrow> RaftNode \<times> bool \<times> (PeerInfo \<times> TimeoutProto) option" where
  "TransferLeadership pool target n =
     (if \<not> isLeader n then (n, False, None)
      else if target \<noteq> [] \<and> pool
      then (case find (\<lambda>p. p_nodeId p = target \<or> startsWith (p_nodeId p) target) (getPeers n) of
              None \<Rightarrow> (n, False, None)
            | Some p \<Rightarrow> (fst (Raft.stepDown n), True,
                Some (p, \<lparr>tn_from_leader_id = self n, tn_term = show_int (currentTerm n)\<rparr>)))
      else (fst (Raft.stepDown n), snd (Raft.stepDown n), None))"

abbreviation legacyDisabled :: GrpcError where
  "legacyDisabled \<equiv> Unavailable ''Legacy TaskScheduler disabled - use the task-engine plugin instead''"

record SubmitProto =
  sp_task_id :: string
  sp_accepted :: bool
  sp_assigned_node :: string
  sp_rejection_reason :: string

text \<open>
  The task \<open>SubmitTask\<close> makes of the message: it copies the fields that
  \<open>forwardToLeader\<close> sends and no others, and turns the name of the type.
\<close>

definition submittedSpec :: "SchedTask \<Rightarrow> SchedTask" where
  "submittedSpec t = (forwardedSpec t)\<lparr>st_type := map asciiLower (replaceFirst ''TASK_TYPE_'' [] (st_type t))\<rparr>"

definition SubmitTask :: "(SchedTask \<Rightarrow> TaskScheduler \<Rightarrow> TaskScheduler \<times> SubmitReply option) \<Rightarrow> SchedTask
    \<Rightarrow> TaskScheduler option \<Rightarrow> TaskScheduler option \<times> (GrpcError + SubmitProto option)" where
  "SubmitTask sub spec sched =
     (case sched of None \<Rightarrow> (None, Inl legacyDisabled)
      | Some s \<Rightarrow> (let (s', r) = sub (submittedSpec spec) s
          in (Some s', Inr (map_option (\<lambda>r. \<lparr>sp_task_id = sr_taskId r, sp_accepted = sr_accepted r,
               sp_assigned_node = nullish (sr_assignedNode r) [], sp_rejection_reason = nullish (sr_reason r) []\<rparr>) r))))"

fun schedStateName :: "SchedState \<Rightarrow> string" where
  "schedStateName SQueued = ''QUEUED''"
| "schedStateName SAssigned = ''ASSIGNED''"
| "schedStateName SRunning = ''RUNNING''"
| "schedStateName SCompleted = ''COMPLETED''"
| "schedStateName SFailed = ''FAILED''"
| "schedStateName SCancelled = ''CANCELLED''"

record TaskStatusProto =
  ts_task_id :: string
  ts_state :: string
  ts_assigned_node :: string
  ts_started_at :: string
  ts_completed_at :: string
  ts_exit_code :: int
  ts_error :: string

definition GetTaskStatus :: "string \<Rightarrow> TaskScheduler option \<Rightarrow> GrpcError + TaskStatusProto" where
  "GetTaskStatus i sched =
     (case sched of None \<Rightarrow> Inl legacyDisabled
      | Some s \<Rightarrow>
          (case getStatus i s of None \<Rightarrow> Inl (NotFound (''Task not found: '' @ i))
           | Some t \<Rightarrow> Inr \<lparr>ts_task_id = ss_taskId t, ts_state = ''TASK_STATE_'' @ schedStateName (ss_state t),
               ts_assigned_node = nullish (ss_assignedNode t) [], ts_started_at = (case ss_startedAt t of Some x \<Rightarrow> show_int x | None \<Rightarrow> []),
               ts_completed_at = (case ss_completedAt t of Some x \<Rightarrow> show_int x | None \<Rightarrow> []),
               ts_exit_code = nullish (ss_exitCode t) 0, ts_error = nullish (ss_error t) []\<rparr>))"

definition CancelTask :: "bool \<Rightarrow> int \<Rightarrow> string \<Rightarrow> TaskScheduler option \<Rightarrow> TaskScheduler option \<times> (GrpcError + bool)" where
  "CancelTask stopped now i sched =
     (case sched of None \<Rightarrow> (None, Inl legacyDisabled)
      | Some s \<Rightarrow> (let (s', b) = cancel stopped now i s in (Some s', Inr b)))"

text \<open>The session and context calls are placeholders: they answer and change nothing.\<close>

definition RegisterSession :: "ClaudeSession \<Rightarrow> ClusterStateManager \<Rightarrow> ClusterStateManager \<times> bool \<times> ClaudeSession list" where
  "RegisterSession x s = (s, True, [])"

definition QuerySessions :: "ClusterStateManager \<Rightarrow> ClusterStateManager \<times> ClaudeSession list" where
  "QuerySessions s = (s, [])"

definition PublishContext :: "ContextEntry \<Rightarrow> ClusterStateManager \<Rightarrow> ClusterStateManager \<times> bool" where
  "PublishContext e s = (s, True)"

definition QueryContext :: "ContextQuery \<Rightarrow> ClusterStateManager \<Rightarrow> ClusterStateManager \<times> ContextEntry list" where
  "QueryContext q s = (s, [])"

section \<open>The agent service\<close>

record ExecSpec =
  xs_taskId :: string
  xs_type :: string
  xs_shell :: "ShellTaskSpec option"

record ExecResult =
  xr_success :: bool
  xr_exitCode :: int
  xr_stdout :: string
  xr_stderr :: string
  xr_error :: "string option"

text \<open>
  \<open>ExecuteTask\<close> with what the executor did (\<open>Inl\<close>: it threw): the messages written to the
  stream, each a status with its state, exit code and error.
\<close>

definition ExecuteTask :: "(ExecSpec \<Rightarrow> 'w \<Rightarrow> 'w \<times> (string + ExecResult)) \<Rightarrow> string \<Rightarrow> string \<Rightarrow> ShellTaskSpec option \<Rightarrow> 'w
    \<Rightarrow> 'w \<times> (string \<times> int option \<times> string) list" where
  "ExecuteTask exec i ty sh w =
     (case exec \<lparr>xs_taskId = i, xs_type = map asciiLower (replaceFirst ''TASK_TYPE_'' [] ty), xs_shell = sh\<rparr> w of
        (w', Inr r) \<Rightarrow> (w', [(if xr_success r then ''TASK_STATE_COMPLETED'' else ''TASK_STATE_FAILED'', Some (xr_exitCode r), nullish (xr_error r) [])])
      | (w', Inl e) \<Rightarrow> (w', [(''TASK_STATE_FAILED'', None, e)]))"

definition HealthCheck :: "ResourcesProto option \<Rightarrow> bool \<times> string \<times> ResourcesProto option" where
  "HealthCheck res = (True, ''OK'', res)"

text \<open>
  \<open>CancelExecution\<close> does not await the executor: the field \<open>cancelled\<close> of its answer is a
  promise of the executor's answer, not the answer.
\<close>

datatype 'a Promise = Promise 'a

definition CancelExecution :: "(string \<Rightarrow> 'w \<Rightarrow> 'w \<times> bool) \<Rightarrow> string \<Rightarrow> 'w \<Rightarrow> 'w \<times> bool Promise" where
  "CancelExecution cancelExec i w = (let (w', b) = cancelExec i w in (w', Promise b))"

end
