(* ===== verification/HandlersProps.thy ===== *)
theory HandlersProps
  imports Handlers MembershipProps
begin

text \<open>
  Properties of the services: a Raft call over the wire is the call of the operation
  itself; a transfer of leadership reaches its target, which then has the old leader's
  vote; a joining node ends with the leader's member list; a heartbeat keeps a node from
  being declared offline. At the end, two flaws of the handlers.
\<close>

section \<open>The Raft service\<close>

lemma typeNamed_typeName: "typeNamed (typeName t) = Some t"
  by (cases t) (simp_all add: typeNamed_def)

lemma protoToEntry_toProto: "protoToEntry (entryToProto e) = Some e"
  by (simp add: protoToEntry_def entryToProto_def parseInt_show entry_type_roundtrip typeNamed_typeName)

lemma those_map_Some: "list_all (\<lambda>x. f (g x) = Some (h x)) xs \<Longrightarrow> those (map f (map g xs)) = Some (map h xs)"
  by (induction xs) simp_all

lemma those_entries: "those (map protoToEntry (map entryToProto es)) = Some es"
  using those_map_Some [of protoToEntry entryToProto "\<lambda>e. e" es] by (simp add: protoToEntry_toProto list_all_iff)

lemma wire_records:
  "\<lparr>vq_term = vq_term q, vq_candidateId = vq_candidateId q, vq_lastLogIndex = vq_lastLogIndex q, vq_lastLogTerm = vq_lastLogTerm q\<rparr> = q"
  "\<lparr>vr_term = vr_term v, voteGranted = voteGranted v\<rparr> = v"
  "\<lparr>aq_term = aq_term a, aq_leaderId = aq_leaderId a, prevLogIndex = prevLogIndex a, prevLogTerm = prevLogTerm a,
     aq_entries = aq_entries a, leaderCommit = leaderCommit a\<rparr> = a"
  "\<lparr>ar_term = ar_term r, ar_success = ar_success r, ar_matchIndex = ar_matchIndex r\<rparr> = r"
  by (cases q; cases v; cases a; cases r; simp)+

text \<open>
  C24. A Raft call over the wire is a call of the operation: for every request the receiving
  handler understands the message the sender builds, leaves the node exactly as the
  operation on the request does, and the sender reads back exactly its reply.
\<close>

theorem raft_wire_exact:
  "(\<exists>p. RequestVote (voteToProto q) n = Some (fst (handleRequestVote q n), p) \<and> protoToVoteReply p = Some (snd (handleRequestVote q n)))
   \<and> (\<exists>p. AppendEntries now (appendToProto a) n = Some (fst (handleAppendEntries now a n), p)
          \<and> protoToAppendReply p = Some (snd (handleAppendEntries now a n)))"
  by (simp add: RequestVote_def voteToProto_def protoToVoteReply_def AppendEntries_def appendToProto_def protoToAppendReply_def
      parseInt_show those_entries wire_records case_prod_unfold Let_def del: map_map)

section \<open>Handing over leadership\<close>

definition up_to_date :: "RaftNode \<Rightarrow> RaftNode \<Rightarrow> bool" where
  "up_to_date t l \<longleftrightarrow> getLastLogTerm l < getLastLogTerm t
     \<or> getLastLogTerm l = getLastLogTerm t \<and> getLastLogIndex l \<le> getLastLogIndex t"

lemma last_log_frame: "rlog n' = rlog n \<Longrightarrow> getLastLogTerm n' = getLastLogTerm n \<and> getLastLogIndex n' = getLastLogIndex n"
  by (simp add: getLastLogTerm_def getLastLogIndex_def)

lemma triggered:
  assumes "state t \<noteq> Leader" and "\<not> c_nonVoting (config t)" and "triggerImmediateElection t = (t', b, msgs)"
  shows "b \<and> state t' = Candidate \<and> currentTerm t' = currentTerm t + 1 \<and> rlog t' = rlog t \<and> self t' = self t
    \<and> peers t' = peers t \<and> msgs = map (\<lambda>p. (p_nodeId p, voteRequest t')) (votingPeers t)"
  using assms by (auto simp: triggerImmediateElection_def startElection_def votingPeers_def getPeers_def raft_defs Let_def)

text \<open>
  C25. Leadership is handed over: when a leader passes it to a voting follower of its term
  whose log is up to date, the leader has become a follower, the target accepts the
  \<open>TimeoutNow\<close> the leader sends and campaigns in the next term, the old leader grants it
  its vote, and in a cluster of at most three voting members that vote makes it leader,
  whatever the others answer.
\<close>

theorem leadership_handed_over:
  assumes "TransferLeadership True target l = (l', ok, Some (p, msg))"
    and "currentTerm t = currentTerm l" and "state t \<noteq> Leader" and "\<not> c_nonVoting (config t)" and "up_to_date t l"
    and "TimeoutNow msg t = (t', accepted, msgs)"
  shows "state l' = Follower \<and> accepted \<and> state t' = Candidate \<and> currentTerm t' = currentTerm l + 1
    \<and> list_all (\<lambda>(i, q). voteGranted (snd (handleRequestVote q l'))) msgs
    \<and> (length (votingPeers t) \<le> 2 \<longrightarrow> state (fst (finishElection (votesNeeded t) (True # others) t')) = Leader)"
proof -
  have l: "isLeader l" "l' = fst (Raft.stepDown l)" "tn_term msg = show_int (currentTerm l)"
    using assms(1) by (auto simp: TransferLeadership_def split: if_splits option.splits)
  then have l': "state l' = Follower" "currentTerm l' = currentTerm l" "votedFor l' = None" "rlog l' = rlog l"
    by (auto simp: Raft.stepDown_def isLeader_def)
  have "triggerImmediateElection t = (t', accepted, msgs)"
    using assms(2,6) l(3) by (simp add: TimeoutNow_def parseInt_show)
  note t = triggered [OF assms(3,4) this]
  have "logOk (voteRequest t') n" if "rlog n = rlog l" for n
    using assms(5) t last_log_frame [of t' t] last_log_frame [OF that] by (auto simp: logOk_def voteRequest_def up_to_date_def)
  then have "voteGranted (snd (handleRequestVote (voteRequest t') l'))"
    using t l' assms(2) by (simp add: handleRequestVote_def Let_def voteRequest_def [of t'] canVote_def)
  moreover have "state (fst (finishElection (votesNeeded t) (True # others) t')) = Leader" if "length (votingPeers t) \<le> 2"
    using t that by (auto simp: finishElection_def votesNeeded_def becomeLeader_def appendEntry_def raft_defs Let_def)
  ultimately show ?thesis using t l' assms(2) by (auto simp: list_all_iff)
qed

definition ex_voter :: "nid \<Rightarrow> nid \<Rightarrow> RaftNode" where
  "ex_voter i j = (addPeer j ''x'' True (new_RaftNode \<lparr>c_nodeId = i, c_maxLogEntriesPerAppend = None, c_nonVoting = False,
     c_dataDir = None, c_writable = True\<rparr> NoFile))\<lparr>currentTerm := 4\<rparr>"

abbreviation ex_boss :: RaftNode where
  "ex_boss \<equiv> (ex_voter ''a'' ''b'')\<lparr>state := Leader\<rparr>"

theorem leadership_handed_over_witness:
  "\<exists>l' p msg t' msgs. TransferLeadership True ''b'' ex_boss = (l', True, Some (p, msg)) \<and> state l' = Follower
     \<and> TimeoutNow msg (ex_voter ''b'' ''a'') = (t', True, msgs) \<and> currentTerm t' = 5
     \<and> state (fst (finishElection (votesNeeded (ex_voter ''b'' ''a'')) [True] t')) = Leader"
proof -
  let ?t = "ex_voter ''b'' ''a''"
  obtain p where p: "find (\<lambda>p. p_nodeId p = ''b'' \<or> startsWith (p_nodeId p) ''b'') (getPeers ex_boss) = Some p"
    by (simp add: ex_voter_def addPeer_def new_RaftNode_def getPeers_def jm_values_def jm_set_def self_def)
  have transfer: "TransferLeadership True ''b'' ex_boss = (fst (Raft.stepDown ex_boss), True,
      Some (p, \<lparr>tn_from_leader_id = self ex_boss, tn_term = show_int 4\<rparr>))"
    using p by (simp add: TransferLeadership_def isLeader_def ex_voter_def [of "''a''"])
  have t: "currentTerm ?t = currentTerm ex_boss" "state ?t \<noteq> Leader" "\<not> c_nonVoting (config ?t)" "up_to_date ?t ex_boss" "length (votingPeers ?t) \<le> 2"
    by (simp_all add: ex_voter_def addPeer_def new_RaftNode_def up_to_date_def getLastLogTerm_def getLastLogIndex_def
        votingPeers_def getPeers_def jm_values_def jm_set_def self_def)
  obtain t' accepted msgs where now: "TimeoutNow \<lparr>tn_from_leader_id = self ex_boss, tn_term = show_int 4\<rparr> ?t = (t', accepted, msgs)"
    by (metis prod_cases3)
  from leadership_handed_over [OF transfer t(1-4) now, of "[]"] transfer now t(5) show ?thesis
    by (auto simp: ex_voter_def)
qed

section \<open>Joining\<close>

definition known :: "NodeInfo \<Rightarrow> bool" where
  "known n \<longleftrightarrow> (case role n of RoleOther _ \<Rightarrow> False | _ \<Rightarrow> True) \<and> (case status n of StatusOther _ \<Rightarrow> False | _ \<Rightarrow> True)"

definition reachable_at :: "NodeInfo \<Rightarrow> bool" where
  "reachable_at n \<longleftrightarrow> tailscaleIp n \<noteq> [] \<and> grpcPort n \<noteq> 0"

lemma protoToNode_resources: "protoToNode (p\<lparr>np_resources := r\<rparr>) = protoToNode p"
  by (auto simp: protoToNode_def split: option.splits)

lemma proto_known: "known n \<Longrightarrow> protoToNode ((nodeToProto n)\<lparr>np_resources := None\<rparr>) = Some (n\<lparr>resources := None\<rparr>)"
  unfolding protoToNode_resources by (rule node_proto_roundtrip) (auto simp: known_def)

lemma registered_peers:
  assumes "list_all known (jr_peers r)"
  shows "protoToRegister (registerReply build r) = Some \<lparr>rr_pending_approval = jr_pendingApproval r, rr_approved = jr_approved r,
    rr_leader_address = jr_leaderAddress r, rr_peers = map (resources_update (\<lambda>_. None)) (jr_peers r), rr_cluster_id = jr_clusterId r, rr_build_hash = build\<rparr>"
  using those_map_Some [of protoToNode "\<lambda>n. (nodeToProto n)\<lparr>np_resources := None\<rparr>" "resources_update (\<lambda>_. None)" "jr_peers r"] assms
  by (simp add: protoToRegister_def registerReply_def list_all_iff proto_known del: map_map)

lemma addJoinPeer_fold:
  "distinct (map nodeId ns) \<Longrightarrow> i \<noteq> mc_nodeId m \<Longrightarrow>
   jm_get (m_nodes (fold addJoinPeer ns m)) i = (case find (\<lambda>n. nodeId n = i \<and> reachable_at n) ns of Some n \<Rightarrow> Some n | None \<Rightarrow> jm_get (m_nodes m) i)
   \<and> leaderAddress (fold addJoinPeer ns m) = leaderAddress m"
proof (induction ns arbitrary: m)
  case (Cons n ns)
  have one: "jm_get (m_nodes (addJoinPeer n m)) i = (if nodeId n = i \<and> reachable_at n then Some n else jm_get (m_nodes m) i)"
    "leaderAddress (addJoinPeer n m) = leaderAddress m" "mc_nodeId (addJoinPeer n m) = mc_nodeId m"
    using Cons.prems(2) by (auto simp: addJoinPeer_def reachable_at_def)
  have "nodeId n = i \<Longrightarrow> find (\<lambda>n. nodeId n = i \<and> reachable_at n) ns = None"
    using Cons.prems(1) by (auto simp: find_None_iff image_iff)
  then show ?case using Cons one by (auto split: option.splits)
qed simp

text \<open>The leader's list: records under their own ids, with roles and states of the program.\<close>

definition tidy :: "MembershipManager \<Rightarrow> bool" where
  "tidy m \<longleftrightarrow> jm_wf (m_nodes m) \<and> list_all (\<lambda>(i, n). nodeId n = i \<and> known n) (m_nodes m)"

lemma find_SomeD: "find P xs = Some x \<Longrightarrow> x \<in> set xs \<and> P x"
  by (auto simp: find_Some_iff)

lemma tidy_nodes:
  assumes "tidy m"
  shows "distinct (map nodeId (getAllNodes m))" and "list_all known (getAllNodes m)"
    and "n \<in> set (getAllNodes m) \<and> nodeId n = i \<longleftrightarrow> jm_get (m_nodes m) i = Some n"
proof -
  have "map nodeId (getAllNodes m) = jm_keys (m_nodes m)"
    using assms by (auto simp: tidy_def getAllNodes_def jm_values_def jm_keys_def list_all_iff)
  then show "distinct (map nodeId (getAllNodes m))"
    using assms by (simp add: tidy_def jm_wf_keys)
  show "list_all known (getAllNodes m)"
    using assms by (auto simp: tidy_def getAllNodes_def jm_values_def list_all_iff)
  have "n \<in> set (getAllNodes m) \<longleftrightarrow> (\<exists>k. jm_get (m_nodes m) k = Some n)"
    using assms by (simp add: tidy_def getAllNodes_def jm_values_get)
  moreover have "nodeId n = k" if "jm_get (m_nodes m) k = Some n" for k
    using that assms by (auto simp: tidy_def jm_get_def list_all_iff dest!: map_of_SomeD)
  ultimately show "n \<in> set (getAllNodes m) \<and> nodeId n = i \<longleftrightarrow> jm_get (m_nodes m) i = Some n"
    by blast
qed

lemma find_listed:
  assumes "tidy m"
  shows "find (\<lambda>n. nodeId n = i \<and> reachable_at n) (map (resources_update (\<lambda>_. None)) (filter reachable_at (getAllNodes m)))
    = (case jm_get (m_nodes m) i of Some n \<Rightarrow> if reachable_at n then Some (n\<lparr>resources := None\<rparr>) else None | None \<Rightarrow> None)" (is "?f = _")
proof (cases ?f)
  case None
  then have "\<not> (n \<in> set (getAllNodes m) \<and> nodeId n = i \<and> reachable_at n)" for n
    by (auto simp: find_None_iff reachable_at_def)
  with None show ?thesis using tidy_nodes(3) [OF assms] by (auto split: option.split)
next
  case (Some x)
  then obtain n where n: "x = n\<lparr>resources := None\<rparr>" "n \<in> set (getAllNodes m)" "reachable_at n" "nodeId n = i"
    using find_SomeD by fastforce
  then have "jm_get (m_nodes m) i = Some n" using tidy_nodes(3) [OF assms] by blast
  with Some n show ?thesis by simp
qed

text \<open>
  A node that joins ends up with the leader's member list: when the leader's answer
  after the approval reaches it, the join succeeds, the leader's address is stored, and
  for every other node it holds the leader's record without the resources if that record
  has an address, and what it held before otherwise.
\<close>

theorem joined_node_knows_members:
  assumes "getSelfNode j \<noteq> None" and "tidy m" and "i \<noteq> mc_nodeId j"
    and "joinCluster (\<lambda>_ _. protoToRegister (registerReply build (joinApproved m))) seed j = (j', ok)"
  shows "ok \<and> leaderAddress j' = Some (ownAddress m) \<and> jm_get (m_nodes j') i =
    (case jm_get (m_nodes m) i of Some n \<Rightarrow> if reachable_at n then Some (n\<lparr>resources := None\<rparr>) else jm_get (m_nodes j) i
     | None \<Rightarrow> jm_get (m_nodes j) i)"
proof -
  let ?ns = "map (resources_update (\<lambda>_. None)) (filter reachable_at (getAllNodes m))"
  have dist: "distinct (map nodeId ?ns)"
    using tidy_nodes(1) [OF assms(2)] by (simp add: comp_def distinct_map_filter)
  have "jr_peers (joinApproved m) = filter reachable_at (getAllNodes m)"
    by (simp add: joinApproved_def reachable_at_def cong: filter_cong)
  then have answer: "protoToRegister (registerReply build (joinApproved m)) = Some \<lparr>rr_pending_approval = False, rr_approved = True,
      rr_leader_address = ownAddress m, rr_peers = ?ns, rr_cluster_id = mc_nodeId m, rr_build_hash = build\<rparr>"
    using registered_peers [of "joinApproved m" build] tidy_nodes(2) [OF assms(2)] by (simp add: joinApproved_def list_all_iff)
  let ?j1 = "setSelfStatus Active (j\<lparr>leaderAddress := Some (ownAddress m)\<rparr>)"
  have j1: "i \<noteq> mc_nodeId ?j1" "leaderAddress ?j1 = Some (ownAddress m)" "jm_get (m_nodes ?j1) i = jm_get (m_nodes j) i"
    using assms(3) by (simp_all add: setSelfStatus_def)
  have "ok \<and> m_nodes j' = m_nodes (fold addJoinPeer ?ns ?j1) \<and> leaderAddress j' = leaderAddress (fold addJoinPeer ?ns ?j1)"
    using assms(1,4) answer by (auto simp: joinCluster_def numeral_3_eq_3 onRegisterResponse_def Let_def m_emit_def split: if_splits)
  then show ?thesis
    using addJoinPeer_fold [OF dist j1(1)] j1(2,3) find_listed [OF assms(2), of i] by (cases "jm_get (m_nodes m) i") auto
qed

abbreviation ex_chief :: MembershipManager where
  "ex_chief \<equiv> new_MembershipManager 5 ''a'' ''ha'' ''10.0.0.1'' 7 None True ex_boss"

abbreviation ex_newcomer :: MembershipManager where
  "ex_newcomer \<equiv> new_MembershipManager 6 ''b'' ''hb'' ''10.0.0.2'' 7 None True (ex_voter ''b'' ''c'')"

theorem joined_node_knows_members_witness:
  "\<exists>j'. joinCluster (\<lambda>_ _. protoToRegister (registerReply ''v1'' (joinApproved ex_chief))) ''10.0.0.1:7'' ex_newcomer = (j', True)
     \<and> jm_get (m_nodes j') ''a'' = jm_get (m_nodes ex_chief) ''a''"
proof -
  have chief: "jm_get (m_nodes ex_chief) ''a'' = Some (freshNode 5 ''a'' ''ha'' ''10.0.0.1'' 7 [])" "tidy ex_chief"
    by (simp_all add: new_MembershipManager_def tidy_def jm_set_def jm_get_def jm_wf_def freshNode_def known_def)
  have newcomer: "getSelfNode ex_newcomer \<noteq> None" "''a'' \<noteq> mc_nodeId ex_newcomer"
    by (simp_all add: new_MembershipManager_def getSelfNode_def)
  obtain j' ok where join: "joinCluster (\<lambda>_ _. protoToRegister (registerReply ''v1'' (joinApproved ex_chief))) ''10.0.0.1:7'' ex_newcomer = (j', ok)"
    by fastforce
  from joined_node_knows_members [OF newcomer(1) chief(2) newcomer(2) join] join chief(1) show ?thesis
    by (simp add: freshNode_def reachable_at_def)
qed

section \<open>Heartbeats\<close>

lemma protoToResources_toProto: "protoToResources (resourcesToProto r) = Some r"
proof -
  have "protoToGpu \<lparr>gp_name = gpu_name g, gp_memory_bytes = show_int (gpu_memoryBytes g),
      gp_memory_available_bytes = show_int (gpu_memoryAvailableBytes g), gp_utilization_percent = utilizationPercent g,
      gp_in_use_for_gaming = inUseForGaming g\<rparr> = Some g" for g
    by (cases g) (simp add: protoToGpu_def parseInt_show)
  then have "those (map protoToGpu (rp_gpus (resourcesToProto r))) = Some (gpus r)"
    using those_map_Some [of protoToGpu _ "\<lambda>g. g" "gpus r"] by (simp add: resourcesToProto_def list_all_iff del: map_map)
  then show ?thesis
    by (cases r) (simp add: protoToResources_def resourcesToProto_def parseInt_show del: map_map)
qed

text \<open>
  A heartbeat keeps a node alive and its resources current: after the leader has handled
  the message that an active or offline node builds of its own resources, if it has any,
  failure detection at any time up to the timeout later leaves the node active, seen at
  the time of the heartbeat, and with exactly those resources.
\<close>

theorem heartbeat_keeps_node_active:
  assumes "jm_get (m_nodes m) i = Some n" and "status n = Active \<or> status n = Offline" and "nodeId n = i"
    and "isLeader (raft m)" and "later \<le> now + heartbeatTimeoutMs m"
  shows "jm_get (m_nodes (detectFailures later (fst (Heartbeat now i (map_option resourcesToProto own) m)))) i
    = Some (n\<lparr>status := Active, lastSeen := now, resources := (case own of Some r \<Rightarrow> Some r | None \<Rightarrow> resources n)\<rparr>)"
proof -
  let ?m = "fst (Heartbeat now i (map_option resourcesToProto own) m)"
  let ?n = "n\<lparr>status := Active, lastSeen := now, resources := (case own of Some r \<Rightarrow> Some r | None \<Rightarrow> resources n)\<rparr>"
  have "jm_get (m_nodes ?m) i = Some ?n"
    using assms(1-2) by (cases n) (auto simp: Heartbeat_def updateNodeResources_def Let_def protoToResources_toProto split: option.splits)
  moreover have "isLeader (raft ?m)" "mc_nodeId ?m = mc_nodeId m" "heartbeatTimeoutMs ?m = heartbeatTimeoutMs m"
    using assms(4) by (simp_all add: Heartbeat_def updateNodeResources_def Let_def split: option.splits)
  moreover have "fst (checkNode later m' ?n) = ?n" if "heartbeatTimeoutMs m' = heartbeatTimeoutMs m" for m'
    using that assms(5) by (simp add: checkNode_def)
  ultimately show ?thesis by (simp add: detectFailures_def)
qed

theorem heartbeat_keeps_node_active_witness:
  "jm_get (m_nodes (detectFailures 90000 (fst (Heartbeat 80000 ''a'' None ex_chief)))) ''a''
     = Some ((freshNode 5 ''a'' ''ha'' ''10.0.0.1'' 7 [])\<lparr>lastSeen := 80000\<rparr>)"
proof -
  have "jm_get (m_nodes ex_chief) ''a'' = Some (freshNode 5 ''a'' ''ha'' ''10.0.0.1'' 7 [])"
    by (simp add: new_MembershipManager_def jm_set_def jm_get_def)
  from heartbeat_keeps_node_active [OF this, of 90000 80000 None] show ?thesis
    by (simp add: freshNode_def isLeader_def new_MembershipManager_def nullish_def)
qed

section \<open>Two flaws\<close>

text \<open>
  A transfer aimed at one node can go to another: the peers are searched for one whose id
  starts with the target, and an exact match further on does not count.
\<close>

lemma transfer_hits_prefix:
  assumes "isLeader n" and "getPeers n = p # ps" and "startsWith (p_nodeId p) target" and "target \<noteq> []"
  shows "map_option fst (snd (snd (TransferLeadership True target n))) = Some p"
  using assms by (simp add: TransferLeadership_def)

text \<open>
  The rolling updater never sees the output of its commands, because the agent's
  handler writes only a status message.
\<close>

definition executed :: "(string \<times> int option \<times> string) list \<Rightarrow> StreamMsg list" where
  "executed ms = map (\<lambda>(_, code, _). \<lparr>sm_output = None, sm_status = Some code\<rparr>) ms"

lemma updater_sees_no_output:
  "sh_stdout (collectShell (executed (snd (ExecuteTask exec i ty sh w)))) = []
   \<and> sh_stderr (collectShell (executed (snd (ExecuteTask exec i ty sh w)))) = []"
  by (auto simp: ExecuteTask_def executed_def collectShell_def trim_def split: prod.split sum.split)

end
