(* ===== verification/ResourceMonitor.thy ===== *)
theory ResourceMonitor
  imports ClusterHealth Handlers
begin

text \<open>
  The resource monitor of \<open>src/agent/resource-monitor.ts\<close>: the snapshots it takes, the
  detection of games with its events and cool-down, and the message it makes of a snapshot.
  What the system reports (package \<open>systeminformation\<close> and \<open>nvidia-smi\<close>) is given as an
  argument, \<open>None\<close> for a call that throws.
\<close>

section \<open>Data\<close>

record CpuInfo =
  ci_cores :: int
  ci_usagePercent :: rat
  ci_loadAverage :: "rat list"

record MemoryInfo =
  mi_totalBytes :: int
  mi_availableBytes :: int
  mi_usedPercent :: rat

record GpuReading =
  gr_index :: int
  gr_name :: string
  gr_memoryTotalBytes :: int
  gr_memoryAvailableBytes :: int
  gr_utilizationPercent :: rat
  gr_inUseForGaming :: bool

record DiskInfo =
  di_totalBytes :: int
  di_availableBytes :: int
  di_usedPercent :: rat

record MonitorSnapshot =
  ms_timestamp :: int
  ms_cpu :: CpuInfo
  ms_memory :: MemoryInfo
  ms_gpus :: "GpuReading list"
  ms_disk :: DiskInfo
  ms_gamingDetected :: bool

datatype GamingEvent = GamingStarted | GamingEnded

record ResourceMonitor =
  rm_polling :: bool
  rm_lastSnapshot :: "MonitorSnapshot option"
  gamingStartedAt :: "int option"
  gamingEndedAt :: "int option"
  gamingProcesses :: "string list"
  gpuThreshold :: rat
  cooldownMs :: int
  rm_events :: "GamingEvent list"

definition DEFAULT_GAMING_PROCESSES :: "string list" where
  "DEFAULT_GAMING_PROCESSES = [''steam'', ''steamwebhelper'', ''wine'', ''wine64'', ''wineserver'', ''proton'', ''pressure-vessel'',
     ''gamescope'', ''gamemode'', ''lutris'', ''heroic'', ''mangohud'', ''UE4'', ''UnrealEngine'', ''Unity'']"

definition new_ResourceMonitor :: "string list option \<Rightarrow> rat option \<Rightarrow> int option \<Rightarrow> ResourceMonitor" where
  "new_ResourceMonitor procs threshold cooldown =
     \<lparr>rm_polling = False, rm_lastSnapshot = None, gamingStartedAt = None, gamingEndedAt = None,
      gamingProcesses = remdups (map (map asciiLower) (nullish procs DEFAULT_GAMING_PROCESSES)),
      gpuThreshold = nullish threshold 70, cooldownMs = nullish cooldown 30000, rm_events = []\<rparr>"

section \<open>What the system reports\<close>

definition getCpuInfo :: "int \<Rightarrow> rat \<Rightarrow> rat option \<Rightarrow> CpuInfo" where
  "getCpuInfo cores currentLoad avgLoad =
     \<lparr>ci_cores = cores, ci_usagePercent = currentLoad,
      ci_loadAverage = (case avgLoad of Some a \<Rightarrow> if a \<noteq> 0 then [a, 0, 0] else [0, 0, 0] | None \<Rightarrow> [0, 0, 0])\<rparr>"

text \<open>A machine reports a positive amount of memory.\<close>

definition getMemoryInfo :: "int \<Rightarrow> int \<Rightarrow> int \<Rightarrow> MemoryInfo" where
  "getMemoryInfo tot available used =
     \<lparr>mi_totalBytes = tot, mi_availableBytes = available, mi_usedPercent = of_int used / of_int tot * 100\<rparr>"

text \<open>A controller: model, megabytes of memory, utilization.\<close>

definition getGpuInfo :: "GpuReading list option \<Rightarrow> (string option \<times> int option \<times> rat option) list option \<Rightarrow> GpuReading list" where
  "getGpuInfo nvidia controllers =
     (if nullish nvidia [] \<noteq> [] then the nvidia
      else case controllers of None \<Rightarrow> []
        | Some cs \<Rightarrow> map (\<lambda>(i, model, vram, util).
            \<lparr>gr_index = int i, gr_name = (if truthy model then the model else ''Unknown GPU''),
             gr_memoryTotalBytes = nullish vram 0 * 1024 * 1024, gr_memoryAvailableBytes = nullish vram 0 * 1024 * 1024,
             gr_utilizationPercent = nullish util 0, gr_inUseForGaming = False\<rparr>) (zip [0..<length cs] cs))"

text \<open>A file system: mount point, size, available bytes, used per cent.\<close>

definition getDiskInfo :: "(string \<times> int \<times> int \<times> rat) list \<Rightarrow> DiskInfo" where
  "getDiskInfo fss =
     (case (case find (\<lambda>(mount, _). mount = ''/'') fss of Some f \<Rightarrow> Some f | None \<Rightarrow> (case fss of [] \<Rightarrow> None | f # _ \<Rightarrow> Some f)) of
        None \<Rightarrow> \<lparr>di_totalBytes = 0, di_availableBytes = 0, di_usedPercent = 0\<rparr>
      | Some (_, tot, available, used) \<Rightarrow> \<lparr>di_totalBytes = tot, di_availableBytes = available, di_usedPercent = used\<rparr>)"

definition getRunningProcesses :: "string list option \<Rightarrow> string list" where
  "getRunningProcesses procs = (case procs of Some ps \<Rightarrow> map (map asciiLower) ps | None \<Rightarrow> [])"

section \<open>Games\<close>

definition detectGamingByProcesses :: "string list \<Rightarrow> ResourceMonitor \<Rightarrow> bool" where
  "detectGamingByProcesses procs m \<longleftrightarrow>
     list_ex (\<lambda>p. p \<in> set (gamingProcesses m) \<or> list_ex (str_includes p) (gamingProcesses m)) procs"

definition detectGamingByGpu :: "GpuReading list \<Rightarrow> ResourceMonitor \<Rightarrow> bool" where
  "detectGamingByGpu gs m \<longleftrightarrow> list_ex (\<lambda>g. gr_utilizationPercent g > gpuThreshold m) gs"

definition isGamingActive :: "ResourceMonitor \<Rightarrow> bool" where
  "isGamingActive m = (case rm_lastSnapshot m of None \<Rightarrow> False | Some s \<Rightarrow> ms_gamingDetected s)"

text \<open>A recorded time of zero counts as none.\<close>

definition isInGamingCooldown :: "int \<Rightarrow> ResourceMonitor \<Rightarrow> bool" where
  "isInGamingCooldown now m = (case gamingEndedAt m of None \<Rightarrow> False | Some t \<Rightarrow> t \<noteq> 0 \<and> now - t < cooldownMs m)"

type_synonym readings = "CpuInfo \<times> MemoryInfo \<times> GpuReading list \<times> DiskInfo \<times> string list"

text \<open>\<open>None\<close>: one of the readings failed.\<close>

definition poll :: "int \<Rightarrow> readings option \<Rightarrow> ResourceMonitor \<Rightarrow> ResourceMonitor" where
  "poll now reading m =
     (case reading of None \<Rightarrow> m
      | Some (cpu, mem, gs, dsk, procs) \<Rightarrow>
          let gaming = (detectGamingByProcesses procs m \<or> detectGamingByGpu gs m);
              was = isGamingActive m;
              m1 = (if gaming \<and> \<not> was
                    then m\<lparr>gamingStartedAt := Some now, gamingEndedAt := None, rm_events := rm_events m @ [GamingStarted]\<rparr>
                    else if \<not> gaming \<and> was then m\<lparr>gamingEndedAt := Some now, rm_events := rm_events m @ [GamingEnded]\<rparr>
                    else m)
          in m1\<lparr>rm_lastSnapshot := Some \<lparr>ms_timestamp = now, ms_cpu = cpu, ms_memory = mem,
               ms_gpus = map (\<lambda>g. g\<lparr>gr_inUseForGaming := (gaming \<and> gr_utilizationPercent g > gpuThreshold m)\<rparr>) gs,
               ms_disk = dsk, ms_gamingDetected = gaming\<rparr>\<rparr>)"

definition monitor_start :: "int \<Rightarrow> readings option \<Rightarrow> ResourceMonitor \<Rightarrow> ResourceMonitor" where
  "monitor_start now reading m = (poll now reading m)\<lparr>rm_polling := True\<rparr>"

definition monitor_stop :: "ResourceMonitor \<Rightarrow> ResourceMonitor" where
  "monitor_stop m = m\<lparr>rm_polling := False\<rparr>"

section \<open>Messages\<close>

definition toProtoResources :: "ResourceMonitor \<Rightarrow> ResourcesProto option" where
  "toProtoResources m =
     map_option (\<lambda>s. \<lparr>rp_cpu_cores = ci_cores (ms_cpu s), rp_memory_bytes = show_int (mi_totalBytes (ms_memory s)),
       rp_memory_available_bytes = show_int (mi_availableBytes (ms_memory s)),
       rp_gpus = map (\<lambda>g. \<lparr>gp_name = gr_name g, gp_memory_bytes = show_int (gr_memoryTotalBytes g),
           gp_memory_available_bytes = show_int (gr_memoryAvailableBytes g),
           gp_utilization_percent = gr_utilizationPercent g, gp_in_use_for_gaming = gr_inUseForGaming g\<rparr>) (ms_gpus s),
       rp_disk_bytes = show_int (di_totalBytes (ms_disk s)), rp_disk_available_bytes = show_int (di_availableBytes (ms_disk s)),
       rp_cpu_usage_percent = ci_usagePercent (ms_cpu s), rp_gaming_detected = ms_gamingDetected s\<rparr>) (rm_lastSnapshot m)"

section \<open>Properties\<close>

text \<open>The events come in turn, a start first.\<close>

fun alternating :: "GamingEvent list \<Rightarrow> bool" where
  "alternating [] = True"
| "alternating [e] = (e = GamingStarted)"
| "alternating (e # f # es) = (e = GamingStarted \<and> f = GamingEnded \<and> alternating es)"

lemma alternating_snoc: "alternating (es @ [e]) \<longleftrightarrow> alternating es \<and> (e = GamingStarted \<longleftrightarrow> even (length es))"
  by (induction es rule: alternating.induct) (auto intro: GamingEvent.exhaust [of e])

definition gaming_inv :: "ResourceMonitor \<Rightarrow> bool" where
  "gaming_inv m \<longleftrightarrow> alternating (rm_events m) \<and> isGamingActive m = odd (length (rm_events m))
     \<and> (isGamingActive m \<longrightarrow> gamingEndedAt m = None)
     \<and> (\<forall>s g. rm_lastSnapshot m = Some s \<and> g \<in> set (ms_gpus s) \<longrightarrow> gr_inUseForGaming g = (gr_utilizationPercent g > gpuThreshold m))"

lemma gaming_inv_poll: "gaming_inv m \<Longrightarrow> gaming_inv (poll now r m)"
  by (auto simp: gaming_inv_def poll_def isGamingActive_def alternating_snoc detectGamingByGpu_def list_ex_iff Let_def
      split: option.splits prod.splits)

interpretation monitor: invariant_of "\<lambda>(now, r) m. Some (poll now r m)" gaming_inv
  by unfold_locales (auto simp: gaming_inv_poll)

text \<open>
  Over every sequence of polls, failed ones included, the gaming events come in turn,
  a start first; a game counts as running exactly between a start and the end that
  follows; no cool-down runs meanwhile; and a card is marked as used for gaming exactly
  when its utilization is above the threshold.
\<close>

theorem gaming_events_alternate:
  assumes "run (\<lambda>(now, r) m. Some (poll now r m)) polls (new_ResourceMonitor procs threshold cooldown) = Some m"
  shows "alternating (rm_events m) \<and> isGamingActive m = odd (length (rm_events m))
    \<and> (isGamingActive m \<longrightarrow> \<not> isInGamingCooldown now m)
    \<and> (\<forall>s g. rm_lastSnapshot m = Some s \<and> g \<in> set (ms_gpus s) \<longrightarrow> gr_inUseForGaming g = (gr_utilizationPercent g > gpuThreshold m))"
proof -
  have "gaming_inv (new_ResourceMonitor procs threshold cooldown)"
    by (simp add: gaming_inv_def new_ResourceMonitor_def isGamingActive_def)
  from monitor.run_inv [OF this assms] show ?thesis
    by (auto simp: gaming_inv_def isInGamingCooldown_def)
qed

definition ex_reading :: "rat \<Rightarrow> readings" where
  "ex_reading util = (getCpuInfo 8 10 None, getMemoryInfo 100 50 50,
     [\<lparr>gr_index = 0, gr_name = ''g'', gr_memoryTotalBytes = 8, gr_memoryAvailableBytes = 4, gr_utilizationPercent = util, gr_inUseForGaming = False\<rparr>],
     getDiskInfo [], [])"

theorem gaming_events_alternate_witness:
  "alternating (rm_events (poll 2 (Some (ex_reading 5)) (poll 1 (Some (ex_reading 90)) (new_ResourceMonitor None None None))))
   \<and> length (rm_events (poll 2 (Some (ex_reading 5)) (poll 1 (Some (ex_reading 90)) (new_ResourceMonitor None None None)))) = 2"
proof -
  let ?m = "poll 2 (Some (ex_reading 5)) (poll 1 (Some (ex_reading 90)) (new_ResourceMonitor None None None))"
  have "run (\<lambda>(now, r) m. Some (poll now r m)) [(1, Some (ex_reading 90)), (2, Some (ex_reading 5))] (new_ResourceMonitor None None None) = Some ?m"
    by simp
  from gaming_events_alternate [OF this, of 0] show ?thesis
    by (simp add: poll_def ex_reading_def detectGamingByGpu_def detectGamingByProcesses_def new_ResourceMonitor_def nullish_def isGamingActive_def)
qed

end
