(* ===== verification/Plugins.thy ===== *)
theory Plugins
  imports Membership "HOL-Library.Sublist"
begin

text \<open>
  The plugin loader (\<open>src/plugins/loader.ts\<close>) and the announcements of nodes that come
  and go (\<open>src/cluster/announcements.ts\<close>). Plugins act on an outside world \<open>'w\<close>; each of
  their calls says whether it succeeded or threw.
\<close>

section \<open>Plugins\<close>

record PluginEntry =
  pe_enabled :: bool
  pe_config :: "(string \<times> string) list"

record ('w, 't) Plugin =
  pl_name :: string
  pl_init :: "PluginEntry \<Rightarrow> 'w \<Rightarrow> 'w \<times> bool"
  pl_start :: "'w \<Rightarrow> 'w \<times> bool"
  pl_stop :: "'w \<Rightarrow> 'w \<times> bool"
  pl_getTools :: "(string, 't) jsmap option"
  pl_getResources :: "(string, 't) jsmap option"

text \<open>A factory gives a plugin or throws (\<open>None\<close>).\<close>

type_synonym ('w, 't) registry = "string \<Rightarrow> ('w \<Rightarrow> 'w \<times> ('w, 't) Plugin option) option"

text \<open>One entry of the configuration.\<close>

definition loadOne :: "('w, 't) registry \<Rightarrow> string \<times> PluginEntry \<Rightarrow> ('w, 't) Plugin list \<times> 'w \<Rightarrow> ('w, 't) Plugin list \<times> 'w" where
  "loadOne reg = (\<lambda>(i, e) (ps, w).
     if \<not> pe_enabled e then (ps, w)
     else case reg i of None \<Rightarrow> (ps, w)
       | Some factory \<Rightarrow>
           (case factory w of
              (w1, None) \<Rightarrow> (ps, w1)
            | (w1, Some p) \<Rightarrow> (let (w2, ok) = pl_init p e w1 in (if ok then ps @ [p] else ps, w2))))"

definition loadAll :: "('w, 't) registry \<Rightarrow> (string \<times> PluginEntry) list \<Rightarrow> ('w, 't) Plugin list \<times> 'w \<Rightarrow> ('w, 't) Plugin list \<times> 'w" where
  "loadAll reg cfg s = fold (loadOne reg) cfg s"

definition getAllTools :: "('w, 't) Plugin list \<Rightarrow> (string, 't) jsmap" where
  "getAllTools ps = fold (\<lambda>p m. fold (\<lambda>(i, h) m. jm_set i h m) (nullish (pl_getTools p) []) m) ps []"

definition getAllResources :: "('w, 't) Plugin list \<Rightarrow> (string, 't) jsmap" where
  "getAllResources ps = fold (\<lambda>p m. fold (\<lambda>(i, h) m. jm_set i h m) (nullish (pl_getResources p) []) m) ps []"

text \<open>A failure is logged only.\<close>

definition startAll :: "('w, 't) Plugin list \<Rightarrow> 'w \<Rightarrow> 'w" where
  "startAll ps w = fold (\<lambda>p w. fst (pl_start p w)) ps w"

definition stopAll :: "('w, 't) Plugin list \<Rightarrow> 'w \<Rightarrow> 'w" where
  "stopAll ps w = fold (\<lambda>p w. fst (pl_stop p w)) (rev ps) w"

section \<open>Announcements\<close>

datatype AnnouncementType = AnJoin | AnLeave | AnStatus | AnMessage

record ResourceSummary =
  rsu_cpuCores :: int
  rsu_memoryGB :: int
  rsu_gpus :: "string list"
  rsu_gamingActive :: bool

record ClusterAnnouncement =
  an_type :: AnnouncementType
  an_fromNode :: string
  an_fromHostname :: string
  an_message :: string
  an_timestamp :: int
  an_resources :: "ResourceSummary option"

text \<open>\<open>ca_sent\<close>: the addresses and announcements for which \<open>publishContext\<close> was called.\<close>

record ClusterAnnouncer =
  ca_nodeId :: string
  ca_hostname :: string
  ca_invisible :: bool
  announcementLog :: "ClusterAnnouncement list"
  ca_emitted :: "ClusterAnnouncement list"
  ca_sent :: "(string \<times> ClusterAnnouncement) list"

definition maxLogSize :: nat where
  "maxLogSize = 100"

definition new_ClusterAnnouncer :: "string \<Rightarrow> string \<Rightarrow> bool \<Rightarrow> ClusterAnnouncer" where
  "new_ClusterAnnouncer i host invisible =
     \<lparr>ca_nodeId = i, ca_hostname = host, ca_invisible = invisible, announcementLog = [], ca_emitted = [], ca_sent = []\<rparr>"

definition summarizeResources :: "NodeResources option \<Rightarrow> ResourceSummary" where
  "summarizeResources res =
     (case res of
        None \<Rightarrow> \<lparr>rsu_cpuCores = 0, rsu_memoryGB = 0, rsu_gpus = [], rsu_gamingActive = False\<rparr>
      | Some r \<Rightarrow> \<lparr>rsu_cpuCores = cpuCores r, rsu_memoryGB = js_round (of_int (memoryBytes r) / (1024 * 1024 * 1024)),
                  rsu_gpus = map gpu_name (gpus r), rsu_gamingActive = gamingDetected r\<rparr>)"

definition formatResourceSummary :: "ResourceSummary \<Rightarrow> string" where
  "formatResourceSummary r =
     (let parts = (if rsu_cpuCores r > 0 then [show_int (rsu_cpuCores r) @ '' cores''] else [])
                @ (if rsu_memoryGB r > 0 then [show_int (rsu_memoryGB r) @ '' GB RAM''] else [])
                @ (if rsu_gpus r \<noteq> [] then [join_with '', '' (rsu_gpus r)] else [])
                @ (if rsu_gamingActive r then [''(gaming in progress)''] else [])
      in if parts \<noteq> [] then ''['' @ join_with '' | '' parts @ '']'' else ''[resources unknown]'')"

definition formatTimeAgo :: "int \<Rightarrow> int \<Rightarrow> string" where
  "formatTimeAgo now t =
     (let seconds = (now - t) div 1000
      in if seconds < 60 then show_int seconds @ ''s ago''
         else if seconds < 3600 then show_int (seconds div 60) @ ''m ago''
         else if seconds < 86400 then show_int (seconds div 3600) @ ''h ago''
         else show_int (seconds div 86400) @ ''d ago'')"

definition createJoinAnnouncement :: "int \<Rightarrow> NodeInfo \<Rightarrow> ClusterAnnouncement" where
  "createJoinAnnouncement now n =
     \<lparr>an_type = AnJoin, an_fromNode = nodeId n, an_fromHostname = hostname n,
      an_message = ''Hey Claude! Node '' @ hostname n @ '' reporting in! '' @ formatResourceSummary (summarizeResources (resources n)),
      an_timestamp = now, an_resources = Some (summarizeResources (resources n))\<rparr>"

definition logAnnouncement :: "ClusterAnnouncement \<Rightarrow> ClusterAnnouncer \<Rightarrow> ClusterAnnouncer" where
  "logAnnouncement a c =
     (let l = announcementLog c @ [a]
      in c\<lparr>announcementLog := (if length l > maxLogSize then js_slice l (- int maxLogSize) (int (length l)) else l)\<rparr>)"

definition announce :: "ClusterAnnouncement \<Rightarrow> ClusterAnnouncer \<Rightarrow> ClusterAnnouncer" where
  "announce a c = (let c1 = logAnnouncement a c in c1\<lparr>ca_emitted := ca_emitted c1 @ [a]\<rparr>)"

text \<open>The other active nodes to which an announcement is published, one after the other.\<close>

definition publish :: "string \<Rightarrow> NodeInfo list \<Rightarrow> ClusterAnnouncement \<Rightarrow> ClusterAnnouncer \<Rightarrow> ClusterAnnouncer" where
  "publish me ns a c =
     c\<lparr>ca_sent := ca_sent c @ map (\<lambda>n. (address_of (tailscaleIp n) (grpcPort n), a)) (filter (\<lambda>n. nodeId n \<noteq> me \<and> status n = Active) ns)\<rparr>"

definition onNodeJoined :: "int \<Rightarrow> NodeInfo \<Rightarrow> ClusterAnnouncer \<Rightarrow> ClusterAnnouncer" where
  "onNodeJoined now n c = announce (createJoinAnnouncement now n) c"

definition onNodeLeft :: "int \<Rightarrow> NodeInfo \<Rightarrow> ClusterAnnouncer \<Rightarrow> ClusterAnnouncer" where
  "onNodeLeft now n c =
     announce \<lparr>an_type = AnLeave, an_fromNode = nodeId n, an_fromHostname = hostname n,
       an_message = ''Node '' @ hostname n @ '' has left the cluster gracefully. Goodbye!'', an_timestamp = now, an_resources = None\<rparr> c"

definition onNodeOffline :: "int \<Rightarrow> NodeInfo \<Rightarrow> ClusterAnnouncer \<Rightarrow> ClusterAnnouncer" where
  "onNodeOffline now n c =
     announce \<lparr>an_type = AnLeave, an_fromNode = nodeId n, an_fromHostname = hostname n,
       an_message = ''Node '' @ hostname n @ '' has gone offline. Last seen: '' @ formatTimeAgo now (lastSeen n),
       an_timestamp = now, an_resources = None\<rparr> c"

text \<open>\<open>None\<close> as own record: \<open>showClusterStatus\<close> throws.\<close>

definition onSelfJoined :: "int \<Rightarrow> MembershipManager \<Rightarrow> ClusterAnnouncer \<Rightarrow> ClusterAnnouncer" where
  "onSelfJoined now m c =
     (case getSelfNode m of None \<Rightarrow> c
      | Some me \<Rightarrow> if ca_invisible c then c else publish (nodeId me) (getAllNodes m) (createJoinAnnouncement now me) c)"

definition getRecentAnnouncements :: "int option \<Rightarrow> ClusterAnnouncer \<Rightarrow> ClusterAnnouncement list" where
  "getRecentAnnouncements k c = js_slice (announcementLog c) (- nullish k 10) (int (length (announcementLog c)))"

definition broadcast :: "int \<Rightarrow> string \<Rightarrow> MembershipManager \<Rightarrow> ClusterAnnouncer \<Rightarrow> ClusterAnnouncer" where
  "broadcast now msg m c =
     (let a = \<lparr>an_type = AnMessage, an_fromNode = ca_nodeId c, an_fromHostname = ca_hostname c,
               an_message = ca_hostname c @ '': '' @ msg, an_timestamp = now, an_resources = None\<rparr>
      in publish (ca_nodeId c) (getAllNodes m) a (announce a c))"

text \<open>\<open>parsed\<close>: what \<open>JSON.parse\<close> gives (\<open>None\<close>: it throws).\<close>

definition handleIncomingAnnouncement :: "ClusterAnnouncement option \<Rightarrow> ClusterAnnouncer \<Rightarrow> ClusterAnnouncer" where
  "handleIncomingAnnouncement parsed c = (case parsed of None \<Rightarrow> c | Some a \<Rightarrow> announce a c)"

section \<open>Properties\<close>

text \<open>The plugin comes from the factory of the entry and its initialization succeeded.\<close>

definition loaded_from :: "('w, 't) registry \<Rightarrow> string \<times> PluginEntry \<Rightarrow> ('w, 't) Plugin \<Rightarrow> bool" where
  "loaded_from reg ie p \<longleftrightarrow> (\<exists>factory w1 w2 w3. reg (fst ie) = Some factory \<and> factory w1 = (w2, Some p) \<and> pl_init p (snd ie) w2 = (w3, True))"

lemma loadOne_cases:
  "fst (loadOne reg ie (ps, w)) = ps
   \<or> pe_enabled (snd ie) \<and> (\<exists>p. loaded_from reg ie p \<and> fst (loadOne reg ie (ps, w)) = ps @ [p])"
  by (cases ie) (auto simp: loadOne_def loaded_from_def split: option.splits prod.splits)

text \<open>
  Plugins are loaded in the order of the configuration: each comes from an enabled entry of
  its own that has a factory, whatever throws in between, and its initialization succeeded.
\<close>

theorem plugins_in_config_order:
  "\<exists>ies. subseq ies (filter (\<lambda>ie. pe_enabled (snd ie)) cfg) \<and> list_all2 (loaded_from reg) ies (fst (loadAll reg cfg ([], w)))"
proof -
  have "\<exists>rs ies. fst (fold (loadOne reg) cfg (qs, w)) = qs @ rs \<and> subseq ies (filter (\<lambda>ie. pe_enabled (snd ie)) cfg)
      \<and> list_all2 (loaded_from reg) ies rs" for qs
  proof (induction cfg arbitrary: qs w)
    case (Cons ie cfg)
    obtain qs1 w1 where one: "loadOne reg ie (qs, w) = (qs1, w1)" by fastforce
    obtain rs ies where rest: "fst (fold (loadOne reg) cfg (qs1, w1)) = qs1 @ rs" "subseq ies (filter (\<lambda>ie. pe_enabled (snd ie)) cfg)"
      "list_all2 (loaded_from reg) ies rs"
      using Cons by blast
    from loadOne_cases [of reg ie qs w] one consider "qs1 = qs" | p where "pe_enabled (snd ie)" "loaded_from reg ie p" "qs1 = qs @ [p]"
      by auto
    then show ?case
    proof cases
      case 1
      with one rest show ?thesis by (auto intro!: exI [of _ rs] exI [of _ ies])
    next
      case 2
      with one rest show ?thesis by (auto intro!: exI [of _ "p # rs"] exI [of _ "ie # ies"])
    qed
  qed auto
  from this [of "[]"] show ?thesis by (auto simp: loadAll_def)
qed

lemma jm_get_merge:
  "jm_wf ts \<Longrightarrow> jm_get (fold (\<lambda>(i, h) m. jm_set i h m) ts m) i = (case jm_get ts i of Some h \<Rightarrow> Some h | None \<Rightarrow> jm_get m i)"
proof (induction ts arbitrary: m)
  case (Cons t ts)
  obtain j h where t: "t = (j, h)" by fastforce
  have "jm_wf ts" "jm_get ts j = None" using Cons.prems t by (auto simp: jm_wf_def jm_get_def map_of_eq_None_iff)
  moreover have "jm_get (t # ts) i = (if i = j then Some h else jm_get ts i)" using t by (simp add: jm_get_def)
  ultimately show ?case using Cons.IH [of "jm_set j h m"] t by (auto split: option.splits)
qed simp

text \<open>
  When several plugins offer a tool of one name, the merged table holds that of the plugin
  loaded last.
\<close>

theorem last_plugin_wins:
  assumes "list_all (\<lambda>p. jm_wf (nullish (pl_getTools p) [])) ps"
  shows "jm_get (getAllTools ps) i = (case find (\<lambda>p. jm_has (nullish (pl_getTools p) []) i) (rev ps) of
     Some p \<Rightarrow> jm_get (nullish (pl_getTools p) []) i | None \<Rightarrow> None)"
proof -
  show ?thesis
    using assms unfolding getAllTools_def
    by (induction ps rule: rev_induct) (auto simp: jm_get_merge jm_has_def split: option.splits)
qed

section \<open>The log of announcements\<close>

definition log_inv :: "ClusterAnnouncer \<Rightarrow> bool" where
  "log_inv c \<longleftrightarrow> announcementLog c = drop (length (ca_emitted c) - maxLogSize) (ca_emitted c)"

lemma log_inv_announce: "log_inv c \<Longrightarrow> log_inv (announce a c)"
  by (auto simp: log_inv_def announce_def logAnnouncement_def js_slice_def js_rel_def maxLogSize_def Let_def Suc_diff_le)

datatype AnnouncerOp = AnnJoined int NodeInfo | AnnLeft int NodeInfo | AnnOffline int NodeInfo | AnnSelf int MembershipManager
  | AnnBroadcast int string MembershipManager | AnnIncoming "ClusterAnnouncement option"

fun announcer_op :: "AnnouncerOp \<Rightarrow> ClusterAnnouncer \<Rightarrow> ClusterAnnouncer" where
  "announcer_op (AnnJoined now n) c = onNodeJoined now n c"
| "announcer_op (AnnLeft now n) c = onNodeLeft now n c"
| "announcer_op (AnnOffline now n) c = onNodeOffline now n c"
| "announcer_op (AnnSelf now m) c = onSelfJoined now m c"
| "announcer_op (AnnBroadcast now msg m) c = broadcast now msg m c"
| "announcer_op (AnnIncoming p) c = handleIncomingAnnouncement p c"

interpretation announcer: invariant_of "\<lambda>a c. Some (announcer_op a c)" log_inv
proof unfold_locales
  fix c c' a assume "log_inv c" and "Some (announcer_op a c) = Some c'"
  moreover have "log_inv (publish i ns x d) = log_inv d" for i ns x d by (simp add: publish_def log_inv_def)
  ultimately show "log_inv c'"
    by (cases a) (auto simp: onNodeJoined_def onNodeLeft_def onNodeOffline_def onSelfJoined_def broadcast_def
        handleIncomingAnnouncement_def Let_def log_inv_announce split: option.splits if_splits)
qed

text \<open>
  The log of announcements always holds the last hundred announcements that were emitted,
  all of them as long as there are no more.
\<close>

theorem announcement_log_recent:
  assumes "run (\<lambda>a c. Some (announcer_op a c)) ops (new_ClusterAnnouncer i host invisible) = Some c"
  shows "announcementLog c = drop (length (ca_emitted c) - 100) (ca_emitted c)"
proof -
  have "log_inv (new_ClusterAnnouncer i host invisible)" by (simp add: log_inv_def new_ClusterAnnouncer_def)
  from announcer.run_inv [OF this assms] show ?thesis by (simp add: log_inv_def maxLogSize_def)
qed

theorem announcement_log_recent_witness:
  "announcementLog (onNodeLeft 1 (freshNode 0 ''b'' ''h'' ''i'' 1 []) (new_ClusterAnnouncer ''a'' ''h'' False))
   = ca_emitted (onNodeLeft 1 (freshNode 0 ''b'' ''h'' ''i'' 1 []) (new_ClusterAnnouncer ''a'' ''h'' False))"
proof -
  let ?c = "onNodeLeft 1 (freshNode 0 ''b'' ''h'' ''i'' 1 []) (new_ClusterAnnouncer ''a'' ''h'' False)"
  have "run (\<lambda>a c. Some (announcer_op a c)) [AnnLeft 1 (freshNode 0 ''b'' ''h'' ''i'' 1 [])] (new_ClusterAnnouncer ''a'' ''h'' False) = Some ?c"
    by simp
  from announcement_log_recent [OF this] show ?thesis
    by (simp add: onNodeLeft_def announce_def logAnnouncement_def new_ClusterAnnouncer_def Let_def)
qed

end
