(* ===== verification/Access.thy ===== *)
theory Access
  imports NodeTypes
begin

text \<open>
  Who may join and who may act: \<open>ApprovalWorkflow\<close> of \<open>src/discovery/approval.ts\<close>, the join
  tokens of \<open>AuthManager\<close> and the policies of \<open>AuthzManager\<close> of \<open>src/security/auth.ts\<close>.

  A request that waits for a decision is a member of \<open>ap_waiting\<close>; the decision its promise
  resolves with is appended to \<open>ap_resolved\<close>. \<open>hmac key text\<close> and the text \<open>enc\<close>/\<open>dec\<close> of a
  token (JSON in base 64) are parameters; a token that decodes has the fields of
  \<open>AuthToken\<close> with numeric times. Keys and certificates, which the code marks as
  placeholders, are not modelled.
\<close>

section \<open>Approval of joining nodes\<close>

record ApprovalRequest =
  requestId :: string
  ar_node :: NodeInfo
  requestedAt :: int
  expiresAt :: int
  ephemeral :: bool

record ApprovalDecision =
  d_requestId :: string
  d_approved :: bool
  decidedBy :: string
  decidedAt :: int
  d_reason :: "string option"

datatype ApprovalEvent = ApprovalRequired string | ApprovalExpired string | ApprovalCancelled string
  | ApprovalGiven string | ApprovalRejected string

record ApprovalWorkflow =
  requestTimeoutMs :: int
  maxPending :: nat
  autoApproveEphemeral :: bool
  autoApproveTags :: "string list option"
  hasCallback :: bool
  pendingRequests :: "(string, ApprovalRequest) jsmap"
  ap_cleanup :: bool
  ap_waiting :: "string list"
  ap_resolved :: "(string \<times> ApprovalDecision) list"
  ap_events :: "ApprovalEvent list"

definition new_ApprovalWorkflow :: "int option \<Rightarrow> bool \<Rightarrow> string list option \<Rightarrow> nat option \<Rightarrow> ApprovalWorkflow" where
  "new_ApprovalWorkflow timeout eph tgs mx =
     \<lparr>requestTimeoutMs = nullish timeout (5 * 60 * 1000), maxPending = nullish mx 100, autoApproveEphemeral = eph,
      autoApproveTags = tgs, hasCallback = False, pendingRequests = [], ap_cleanup = False, ap_waiting = [], ap_resolved = [], ap_events = []\<rparr>"

definition approval_start :: "ApprovalWorkflow \<Rightarrow> ApprovalWorkflow" where
  "approval_start w = w\<lparr>ap_cleanup := True\<rparr>"

definition approval_stop :: "ApprovalWorkflow \<Rightarrow> ApprovalWorkflow" where
  "approval_stop w = w\<lparr>ap_cleanup := False\<rparr>"

definition setApprovalCallback :: "ApprovalWorkflow \<Rightarrow> ApprovalWorkflow" where
  "setApprovalCallback w = w\<lparr>hasCallback := True\<rparr>"

definition ap_emit :: "ApprovalEvent \<Rightarrow> ApprovalWorkflow \<Rightarrow> ApprovalWorkflow" where
  "ap_emit e w = w\<lparr>ap_events := ap_events w @ [e]\<rparr>"

definition checkAutoApproval :: "NodeInfo \<Rightarrow> ApprovalWorkflow \<Rightarrow> string option" where
  "checkAutoApproval n w =
     (if autoApproveEphemeral w \<and> ''ephemeral'' \<in> set (tags n) then Some ''Ephemeral node auto-approved''
      else case autoApproveTags w of None \<Rightarrow> None
           | Some ts \<Rightarrow> map_option (\<lambda>t. ''Tag '' @ t @ '' auto-approved'') (find (\<lambda>t. t \<in> set (tags n)) ts))"

text \<open>
  The part of \<open>requestApproval\<close> before its first wait: a decision, or the request whose
  callback is called, or the request that waits for \<open>decide\<close>.
\<close>

datatype ApprovalStep = Decided ApprovalDecision | CallsBack string | Waits string

definition requestApproval :: "int \<Rightarrow> NodeInfo \<Rightarrow> ApprovalWorkflow \<Rightarrow> ApprovalWorkflow \<times> ApprovalStep" where
  "requestApproval now n w =
     (let rid = nodeId n @ ''-'' @ show_int now
      in case checkAutoApproval n w of
           Some why \<Rightarrow> (w, Decided \<lparr>d_requestId = rid, d_approved = True, decidedBy = ''auto'', decidedAt = now, d_reason = Some why\<rparr>)
         | None \<Rightarrow>
             if jm_size (pendingRequests w) \<ge> maxPending w
             then (w, Decided \<lparr>d_requestId = rid, d_approved = False, decidedBy = ''system'', decidedAt = now,
                               d_reason = Some ''Too many pending requests''\<rparr>)
             else let req = \<lparr>requestId = rid, ar_node = n, requestedAt = now, expiresAt = now + requestTimeoutMs w,
                             ephemeral = (''ephemeral'' \<in> set (tags n))\<rparr>;
                      w1 = ap_emit (ApprovalRequired rid) (w\<lparr>pendingRequests := jm_set rid req (pendingRequests w)\<rparr>)
                  in if hasCallback w then (w1, CallsBack rid) else (w1\<lparr>ap_waiting := rid # ap_waiting w1\<rparr>, Waits rid))"

text \<open>\<open>decide\<close>; its event resolves every promise that waits for the request.\<close>

definition decide :: "int \<Rightarrow> string \<Rightarrow> bool \<Rightarrow> string \<Rightarrow> string option \<Rightarrow> ApprovalWorkflow \<Rightarrow> ApprovalWorkflow \<times> ApprovalDecision" where
  "decide now rid approved who why w =
     (case jm_get (pendingRequests w) rid of
        None \<Rightarrow> (w, \<lparr>d_requestId = rid, d_approved = False, decidedBy = ''system'', decidedAt = now, d_reason = Some ''Request not found''\<rparr>)
      | Some _ \<Rightarrow>
          let dec = \<lparr>d_requestId = rid, d_approved = approved, decidedBy = who, decidedAt = now, d_reason = why\<rparr>;
              w1 = w\<lparr>pendingRequests := jm_delete rid (pendingRequests w),
                     ap_waiting := filter (\<lambda>i. i \<noteq> rid) (ap_waiting w),
                     ap_resolved := ap_resolved w @ map (\<lambda>i. (i, dec)) (filter (\<lambda>i. i = rid) (ap_waiting w))\<rparr>
          in (ap_emit (if approved then ApprovalGiven rid else ApprovalRejected rid) w1, dec))"

text \<open>The end of a request with a callback; \<open>None\<close>: the callback threw.\<close>

definition onCallback :: "int \<Rightarrow> string \<Rightarrow> bool option \<Rightarrow> ApprovalWorkflow \<Rightarrow> ApprovalWorkflow \<times> ApprovalDecision" where
  "onCallback now rid answer w =
     (case answer of Some ok \<Rightarrow> decide now rid ok ''callback'' None w
      | None \<Rightarrow> (w, \<lparr>d_requestId = rid, d_approved = False, decidedBy = ''system'', decidedAt = now, d_reason = Some ''Callback error''\<rparr>))"

text \<open>The interval of a waiting promise.\<close>

definition checkWaiting :: "int \<Rightarrow> string \<Rightarrow> ApprovalWorkflow \<Rightarrow> ApprovalWorkflow" where
  "checkWaiting now rid w =
     (if rid \<notin> set (ap_waiting w) then w
      else case jm_get (pendingRequests w) rid of
             None \<Rightarrow> w\<lparr>ap_waiting := remove1 rid (ap_waiting w), ap_resolved := ap_resolved w
                   @ [(rid, \<lparr>d_requestId = rid, d_approved = False, decidedBy = ''unknown'', decidedAt = now, d_reason = None\<rparr>)]\<rparr>
           | Some req \<Rightarrow>
               if now > expiresAt req
               then ap_emit (ApprovalExpired rid) (w\<lparr>pendingRequests := jm_delete rid (pendingRequests w),
                   ap_waiting := remove1 rid (ap_waiting w), ap_resolved := ap_resolved w
                   @ [(rid, \<lparr>d_requestId = rid, d_approved = False, decidedBy = ''timeout'', decidedAt = now,
                             d_reason = Some ''Request expired''\<rparr>)]\<rparr>)
               else w)"

definition getPendingRequests :: "ApprovalWorkflow \<Rightarrow> ApprovalRequest list" where
  "getPendingRequests w = jm_values (pendingRequests w)"

definition getRequest :: "string \<Rightarrow> ApprovalWorkflow \<Rightarrow> ApprovalRequest option" where
  "getRequest rid w = jm_get (pendingRequests w) rid"

definition cancelRequest :: "string \<Rightarrow> ApprovalWorkflow \<Rightarrow> ApprovalWorkflow \<times> bool" where
  "cancelRequest rid w =
     (if jm_get (pendingRequests w) rid = None then (w, False)
      else (ap_emit (ApprovalCancelled rid) (w\<lparr>pendingRequests := jm_delete rid (pendingRequests w)\<rparr>), True))"

definition cleanupExpired :: "int \<Rightarrow> ApprovalWorkflow \<Rightarrow> ApprovalWorkflow" where
  "cleanupExpired now w =
     fold (\<lambda>(rid, req) w. if now > expiresAt req
            then ap_emit (ApprovalExpired rid) (w\<lparr>pendingRequests := jm_delete rid (pendingRequests w)\<rparr>) else w)
       (pendingRequests w) w"

text \<open>\<open>formatBytes\<close>: the unit with the largest power of 1024 not above the value, terabytes at most.\<close>

fun formatLoop :: "rat \<Rightarrow> string list \<Rightarrow> rat \<times> string" where
  "formatLoop v [] = (v, [])"
| "formatLoop v [u] = (v, u)"
| "formatLoop v (u # u' # us) = (if v \<ge> 1024 then formatLoop (v / 1024) (u' # us) else (v, u))"

definition formatBytes :: "rat \<Rightarrow> string" where
  "formatBytes b = (let (v, u) = formatLoop b [''B'', ''KB'', ''MB'', ''GB'', ''TB''] in toFixed 1 v @ '' '' @ u)"

section \<open>Join tokens\<close>

record AuthToken =
  at_nodeId :: string
  at_issuedAt :: int
  at_expiresAt :: int
  at_signature :: string

record AuthManager =
  clusterSecret :: string
  tokens :: "(string, AuthToken) jsmap"

definition tokenData :: "string \<Rightarrow> int \<Rightarrow> int \<Rightarrow> string" where
  "tokenData i issued expires = i @ '':'' @ show_int issued @ '':'' @ show_int expires"

definition generateJoinToken :: "(string \<Rightarrow> string \<Rightarrow> string) \<Rightarrow> (AuthToken \<Rightarrow> string) \<Rightarrow> int \<Rightarrow> string \<Rightarrow> int option \<Rightarrow> AuthManager
    \<Rightarrow> AuthManager \<times> string" where
  "generateJoinToken hmac enc now i validity m =
     (let expires = now + nullish validity 3600000;
          t = \<lparr>at_nodeId = i, at_issuedAt = now, at_expiresAt = expires,
               at_signature = hmac (clusterSecret m) (tokenData i now expires)\<rparr>
      in (m\<lparr>tokens := jm_set i t (tokens m)\<rparr>, enc t))"

datatype TokenVerdict = TokenValid string | TokenExpired | InvalidSignature | InvalidFormat

definition validateJoinToken :: "(string \<Rightarrow> string \<Rightarrow> string) \<Rightarrow> (string \<Rightarrow> AuthToken option) \<Rightarrow> int \<Rightarrow> string \<Rightarrow> AuthManager \<Rightarrow> TokenVerdict" where
  "validateJoinToken hmac dec now s m =
     (case dec s of None \<Rightarrow> InvalidFormat
      | Some t \<Rightarrow>
          if now > at_expiresAt t then TokenExpired
          else if at_signature t \<noteq> hmac (clusterSecret m) (tokenData (at_nodeId t) (at_issuedAt t) (at_expiresAt t)) then InvalidSignature
          else TokenValid (at_nodeId t))"

section \<open>Policies\<close>

record AuthzPolicy =
  po_name :: string
  po_subjects :: "string list"
  po_actions :: "string list"
  po_resources :: "string list"

definition defaultPolicies :: "AuthzPolicy list" where
  "defaultPolicies =
     [\<lparr>po_name = ''cluster-read'', po_subjects = [''*''], po_actions = [''read''],
       po_resources = [''cluster:state'', ''cluster:nodes'', ''cluster:sessions'']\<rparr>,
      \<lparr>po_name = ''task-submit'', po_subjects = [''*''], po_actions = [''submit''], po_resources = [''task:*'']\<rparr>,
      \<lparr>po_name = ''leader-only'', po_subjects = [''role:leader''], po_actions = [''approve'', ''remove'', ''scale''],
       po_resources = [''node:*'', ''cluster:*'']\<rparr>]"

definition addPolicy :: "AuthzPolicy \<Rightarrow> AuthzPolicy list \<Rightarrow> AuthzPolicy list" where
  "addPolicy p ps = ps @ [p]"

fun removePolicy :: "string \<Rightarrow> AuthzPolicy list \<Rightarrow> AuthzPolicy list \<times> bool" where
  "removePolicy n [] = ([], False)"
| "removePolicy n (p # ps) = (if po_name p = n then (ps, True) else let (qs, b) = removePolicy n ps in (p # qs, b))"

definition subjectMatches :: "string \<Rightarrow> string option \<Rightarrow> string \<Rightarrow> bool" where
  "subjectMatches subject rl s =
     (if s = ''*'' then True
      else if startsWith s ''role:'' \<and> rl = Some (drop 5 s) then True
      else s = subject)"

definition resourceMatches :: "string \<Rightarrow> string \<Rightarrow> bool" where
  "resourceMatches resource r =
     (if r = ''*'' then True
      else if endsWith r '':*'' then startsWith resource (butlast r)
      else r = resource)"

fun isAuthorized :: "AuthzPolicy list \<Rightarrow> string \<Rightarrow> string \<Rightarrow> string \<Rightarrow> string option \<Rightarrow> bool" where
  "isAuthorized [] subject action resource rl = False"
| "isAuthorized (p # ps) subject action resource rl =
     (if list_ex (subjectMatches subject rl) (po_subjects p)
         \<and> (action \<in> set (po_actions p) \<or> ''*'' \<in> set (po_actions p))
         \<and> list_ex (resourceMatches resource) (po_resources p)
      then True else isAuthorized ps subject action resource rl)"

end
