(* ===== verification/AccessProps.thy ===== *)
theory AccessProps
  imports Access "HOL-Library.Countable"
begin

text \<open>
  Properties of joining and acting: the number of pending requests is bounded, a waiting
  request is approved only by a decision, a join token is good for its node until it
  expires and for nothing else, and what the default policies allow.
\<close>

section \<open>Runs of the approval workflow\<close>

datatype ApprovalOp = ARequest int NodeInfo | ADecide int string bool string "string option" | ACallback int string "bool option"
  | ACheck int string | ACancel string | ACleanup int | ASetCallback | AStart | AStop

fun approval_op :: "ApprovalOp \<Rightarrow> ApprovalWorkflow \<Rightarrow> ApprovalWorkflow" where
  "approval_op (ARequest now n) w = fst (requestApproval now n w)"
| "approval_op (ADecide now i ok who why) w = fst (decide now i ok who why w)"
| "approval_op (ACallback now i ans) w = fst (onCallback now i ans w)"
| "approval_op (ACheck now i) w = checkWaiting now i w"
| "approval_op (ACancel i) w = fst (cancelRequest i w)"
| "approval_op (ACleanup now) w = cleanupExpired now w"
| "approval_op ASetCallback w = setApprovalCallback w"
| "approval_op AStart w = approval_start w"
| "approval_op AStop w = approval_stop w"

lemmas approval_defs = requestApproval_def decide_def onCallback_def checkWaiting_def cancelRequest_def ap_emit_def
  setApprovalCallback_def approval_start_def approval_stop_def

definition pending_inv :: "nat \<Rightarrow> ApprovalWorkflow \<Rightarrow> bool" where
  "pending_inv k w \<longleftrightarrow> maxPending w = k \<and> jm_wf (pendingRequests w) \<and> jm_size (pendingRequests w) \<le> k"

lemma pending_inv_delete: "pending_inv k w \<Longrightarrow> pending_inv k (w\<lparr>pendingRequests := jm_delete i (pendingRequests w)\<rparr>)"
  by (auto simp: pending_inv_def jm_laws jm.size_del)

lemma pending_inv_frame:
  "pending_inv k w \<Longrightarrow> pendingRequests w' = pendingRequests w \<Longrightarrow> maxPending w' = maxPending w \<Longrightarrow> pending_inv k w'"
  by (simp add: pending_inv_def)

lemma pending_inv_cleanup:
  "pending_inv k w \<Longrightarrow> pending_inv k (fold (\<lambda>(rid, req) w. if now > expiresAt req
      then ap_emit (ApprovalExpired rid) (w\<lparr>pendingRequests := jm_delete rid (pendingRequests w)\<rparr>) else w) xs w)"
proof (induction xs arbitrary: w)
  case (Cons x xs)
  obtain i r where x: "x = (i, r)" by fastforce
  have "pending_inv k (ap_emit (ApprovalExpired i) (w\<lparr>pendingRequests := jm_delete i (pendingRequests w)\<rparr>))"
    by (rule pending_inv_frame [OF pending_inv_delete [OF Cons.prems, of i]]) (simp_all add: ap_emit_def)
  with Cons show ?case by (simp add: x)
qed simp

lemma pending_inv_op:
  assumes "pending_inv k w"
  shows "pending_inv k (approval_op a w)"
proof (cases a)
  case (ACleanup now)
  then show ?thesis using pending_inv_cleanup [OF assms] by (simp add: cleanupExpired_def)
next
  case (ARequest now n)
  then show ?thesis using assms
    by (auto simp: pending_inv_def approval_defs jm_laws jm.size_put Let_def split: option.splits)
qed (use assms in \<open>auto simp: pending_inv_def approval_defs jm_laws jm.size_del Let_def split: option.splits\<close>)

interpretation approval_inv: invariant_of "\<lambda>a w. Some (approval_op a w)" "pending_inv k" for k
  by unfold_locales (auto simp: pending_inv_op)

text \<open>
  However many nodes ask to join, and whatever is decided, cancelled, expired or
  cleaned up in between, the number of pending approval requests never exceeds its
  configured limit.
\<close>

theorem pending_requests_bounded:
  assumes "run (\<lambda>a w. Some (approval_op a w)) ops (new_ApprovalWorkflow timeout eph tgs mx) = Some w"
  shows "jm_size (pendingRequests w) \<le> nullish mx 100"
proof -
  have "pending_inv (nullish mx 100) (new_ApprovalWorkflow timeout eph tgs mx)"
    by (simp add: pending_inv_def new_ApprovalWorkflow_def jm_size_def)
  from approval_inv.run_inv [OF this assms] show ?thesis by (simp add: pending_inv_def)
qed

definition ex_joiner_info :: NodeInfo where
  "ex_joiner_info = \<lparr>nodeId = ''n'', hostname = ''h'', tailscaleIp = ''i'', grpcPort = 1, role = RoleFollower, status = PendingApproval,
     resources = None, tags = [], joinedAt = 0, lastSeen = 0\<rparr>"

abbreviation ex_workflow :: ApprovalWorkflow where
  "ex_workflow \<equiv> new_ApprovalWorkflow None False None (Some 1)"

theorem pending_requests_bounded_witness:
  "\<exists>w. run (\<lambda>a w. Some (approval_op a w)) [ARequest 1 ex_joiner_info, ARequest 2 ex_joiner_info] ex_workflow = Some w
     \<and> map requestId (getPendingRequests w) = [''n-1''] \<and> jm_size (pendingRequests w) \<le> 1"
proof -
  define w where "w = approval_op (ARequest 2 ex_joiner_info) (approval_op (ARequest 1 ex_joiner_info) ex_workflow)"
  have r: "run (\<lambda>a w. Some (approval_op a w)) [ARequest 1 ex_joiner_info, ARequest 2 ex_joiner_info] ex_workflow = Some w"
    by (simp add: w_def)
  moreover have "map requestId (getPendingRequests w) = [''n-1'']" unfolding w_def by code_simp
  ultimately show ?thesis using pending_requests_bounded [OF r] by (simp add: nullish_def)
qed

fun approves :: "string \<Rightarrow> ApprovalOp \<Rightarrow> bool" where
  "approves i (ADecide now j ok who why) = (ok \<and> j = i)"
| "approves i (ACallback now j ans) = (ans = Some True \<and> j = i)"
| "approves i _ = False"

lemma resolved_cleanup:
  "ap_resolved (fold (\<lambda>(rid, req) w. if now > expiresAt req
      then ap_emit (ApprovalExpired rid) (w\<lparr>pendingRequests := jm_delete rid (pendingRequests w)\<rparr>) else w) xs w) = ap_resolved w"
  by (induction xs arbitrary: w) (auto simp: ap_emit_def)

lemma resolved_op:
  assumes "(i, d) \<in> set (ap_resolved (approval_op a w))" and "d_approved d"
  shows "(i, d) \<in> set (ap_resolved w) \<or> approves i a"
proof (cases a)
  case (ACleanup now)
  then show ?thesis using assms by (simp add: cleanupExpired_def resolved_cleanup)
qed (use assms in \<open>auto simp: approval_defs Let_def split: option.splits if_splits\<close>)

text \<open>
  A waiting request is approved only by someone: a promise resolves with an
  approval only if \<open>decide\<close> approved that very request (or its callback did) at some
  point; expiry, cancellation and cleaning up never approve.
\<close>

theorem approval_needs_decision:
  assumes "(i, d) \<in> set (ap_resolved (fold approval_op ops (new_ApprovalWorkflow timeout eph tgs mx)))" and "d_approved d"
  shows "list_ex (approves i) ops"
proof -
  have "(i, d) \<in> set (ap_resolved (fold approval_op ops w)) \<Longrightarrow> (i, d) \<in> set (ap_resolved w) \<or> list_ex (approves i) ops" for w
  proof (induction ops arbitrary: w)
    case (Cons a ops)
    then show ?case using resolved_op [OF _ assms(2), of i a w] by auto
  qed simp
  from this [OF assms(1)] show ?thesis by (simp add: new_ApprovalWorkflow_def)
qed

theorem approval_needs_decision_witness:
  "list_ex (approves ''n-1'') [ARequest 1 ex_joiner_info, ADecide 2 ''n-1'' True ''admin'' None]"
proof -
  have "(''n-1'', \<lparr>d_requestId = ''n-1'', d_approved = True, decidedBy = ''admin'', decidedAt = 2, d_reason = None\<rparr>)
      \<in> set (ap_resolved (fold approval_op [ARequest 1 ex_joiner_info, ADecide 2 ''n-1'' True ''admin'' None] ex_workflow))"
    by code_simp
  then show ?thesis by (rule approval_needs_decision) simp
qed

section \<open>Join tokens\<close>

lemma show_nat_no_colon: "CHR '':'' \<notin> set (show_nat n)"
  using show_nat_digits [of n] by (auto simp: list_all_iff is_digit_def)

lemma show_int_no_colon: "CHR '':'' \<notin> set (show_int k)"
  using show_nat_no_colon by (auto simp: show_int_def)

lemma split_last_colon:
  assumes "a @ CHR '':'' # x = b @ CHR '':'' # y" and "CHR '':'' \<notin> set x" and "CHR '':'' \<notin> set y"
  shows "a = b \<and> x = y"
proof -
  have first: "takeWhile (\<lambda>c. c \<noteq> CHR '':'') (rev z @ CHR '':'' # r) = rev z" if "CHR '':'' \<notin> set z" for z r :: string
    using that by (subst takeWhile_append2) auto
  have eq: "rev x @ CHR '':'' # rev a = rev y @ CHR '':'' # rev b" using arg_cong [OF assms(1), of rev] by simp
  then have "rev x = rev y" using first [OF assms(2)] first [OF assms(3)] by metis
  then show ?thesis using eq by simp
qed

lemma show_int_inj: "show_int a = show_int b \<Longrightarrow> a = b"
  using parseInt_show by (metis option.inject)

lemma tokenData_inj: "tokenData i a b = tokenData j c d \<Longrightarrow> i = j \<and> a = c \<and> b = d"
proof -
  assume "tokenData i a b = tokenData j c d"
  then have "(i @ '':'' @ show_int a) @ CHR '':'' # show_int b = (j @ '':'' @ show_int c) @ CHR '':'' # show_int d"
    by (simp add: tokenData_def)
  from split_last_colon [OF this show_int_no_colon show_int_no_colon]
  have b: "show_int b = show_int d" and ia: "i @ CHR '':'' # show_int a = j @ CHR '':'' # show_int c" by simp_all
  from split_last_colon [OF ia show_int_no_colon show_int_no_colon] b show ?thesis by (auto dest: show_int_inj)
qed

text \<open>
  A join token is accepted for its node until it expires and not after, by every
  manager with the same cluster secret.
\<close>

theorem token_valid_until_expiry:
  assumes "\<And>t. dec (enc t) = Some t" and "clusterSecret m' = clusterSecret m"
  shows "validateJoinToken hmac dec later (snd (generateJoinToken hmac enc now i validity m)) m' =
    (if later \<le> now + nullish validity 3600000 then TokenValid i else TokenExpired)"
  using assms by (simp add: generateJoinToken_def validateJoinToken_def Let_def)

text \<open>
  A signature is good for one node and one period only: unless the texts of two
  different tokens have the same code under the secret, a token that is accepted with the signature that was issued
  for node \<open>i\<close> from \<open>a\<close> to \<open>b\<close> names node \<open>i\<close>, and is not accepted after \<open>b\<close>.
\<close>

theorem token_unforgeable:
  assumes "validateJoinToken hmac dec now s m = TokenValid j" and "dec s = Some t"
    and "at_signature t = hmac (clusterSecret m) (tokenData i a b)"
    and "hmac (clusterSecret m) (tokenData i a b) = hmac (clusterSecret m) (tokenData (at_nodeId t) (at_issuedAt t) (at_expiresAt t))
      \<longrightarrow> tokenData i a b = tokenData (at_nodeId t) (at_issuedAt t) (at_expiresAt t)"
  shows "j = i \<and> now \<le> b"
proof -
  have t: "\<not> now > at_expiresAt t" "j = at_nodeId t"
    "at_signature t = hmac (clusterSecret m) (tokenData (at_nodeId t) (at_issuedAt t) (at_expiresAt t))"
    using assms(1,2) by (auto simp: validateJoinToken_def split: if_splits)
  have "tokenData (at_nodeId t) (at_issuedAt t) (at_expiresAt t) = tokenData i a b"
    using assms(3,4) t(3) by metis
  from tokenData_inj [OF this] t show ?thesis by simp
qed

definition ex_token :: AuthToken where
  "ex_token = \<lparr>at_nodeId = ''n'', at_issuedAt = 1, at_expiresAt = 9, at_signature = ''k'' @ tokenData ''n'' 1 9\<rparr>"

abbreviation ex_auth :: AuthManager where
  "ex_auth \<equiv> \<lparr>clusterSecret = ''k'', tokens = []\<rparr>"

text \<open>A text of a token that can be read back.\<close>

definition ex_tenc :: "AuthToken \<Rightarrow> string" where
  "ex_tenc t = replicate (to_nat (at_nodeId t, at_issuedAt t, at_expiresAt t, at_signature t)) CHR ''x''"

definition ex_tdec :: "string \<Rightarrow> AuthToken option" where
  "ex_tdec s = (case from_nat (length s) of (i, a, b, g) \<Rightarrow>
     Some \<lparr>at_nodeId = i, at_issuedAt = a, at_expiresAt = b, at_signature = g\<rparr>)"

lemma ex_token_text: "ex_tdec (ex_tenc t) = Some t"
  by (simp add: ex_tdec_def ex_tenc_def)

theorem token_valid_until_expiry_witness:
  "validateJoinToken (\<lambda>k x. k @ x) ex_tdec 5 (snd (generateJoinToken (\<lambda>k x. k @ x) ex_tenc 1 ''n'' (Some 10) ex_auth)) ex_auth = TokenValid ''n''
   \<and> validateJoinToken (\<lambda>k x. k @ x) ex_tdec 12 (snd (generateJoinToken (\<lambda>k x. k @ x) ex_tenc 1 ''n'' (Some 10) ex_auth)) ex_auth = TokenExpired"
  by (simp add: token_valid_until_expiry [OF ex_token_text refl] nullish_def)

theorem token_unforgeable_witness:
  "validateJoinToken (\<lambda>k x. k @ x) (\<lambda>s. Some ex_token) 5 ''t'' ex_auth = TokenValid ''n'' \<and> (5::int) \<le> 9"
proof -
  have v: "validateJoinToken (\<lambda>k x. k @ x) (\<lambda>s. Some ex_token) 5 ''t'' ex_auth = TokenValid ''n''"
    by (simp add: validateJoinToken_def ex_token_def)
  from token_unforgeable [OF v refl, of "''n''" 1 9] v show ?thesis by (simp add: ex_token_def)
qed

section \<open>Policies\<close>

lemma isAuthorized_append: "isAuthorized (ps @ qs) s a r rl \<longleftrightarrow> isAuthorized ps s a r rl \<or> isAuthorized qs s a r rl"
  by (induction ps) auto

text \<open>
  What the default policies allow: everyone may read the three cluster resources
  and submit tasks; approving, removing and scaling nodes and the cluster is for the
  leader (a subject of the literal name \<open>role:leader\<close> counts as one); nothing else.
\<close>

theorem default_policies_exact:
  "isAuthorized defaultPolicies subject action resource rl \<longleftrightarrow>
     action = ''read'' \<and> resource \<in> {''cluster:state'', ''cluster:nodes'', ''cluster:sessions''}
     \<or> action = ''submit'' \<and> startsWith resource ''task:''
     \<or> action \<in> {''approve'', ''remove'', ''scale''} \<and> (rl = Some ''leader'' \<or> subject = ''role:leader'')
        \<and> (startsWith resource ''node:'' \<or> startsWith resource ''cluster:'')"
  by (auto simp: defaultPolicies_def subjectMatches_def resourceMatches_def endsWith_def startsWith_def)

end
