(* ===== verification/Messaging.thy ===== *)
theory Messaging
  imports Prelude "HOL-Library.Sublist"
begin

text \<open>
  The messaging side of the program: chunking of long texts (\<open>src/messaging/format.ts\<close>),
  the conversation with a language model and its tools (\<open>conversation.ts\<close>, with the store
  of \<open>persistence.ts\<close>), the inbox (\<open>inbox.ts\<close>), the gateway that is active on the leader
  (\<open>gateway.ts\<close>), and the routing of requests to providers (\<open>src/providers/router.ts\<close>).

  Remote services act on an outside world \<open>'w\<close>: \<open>chat\<close> is a provider, \<open>tool\<close> the handlers by
  name. \<open>error_json m\<close> is the text \<open>JSON.stringify\<close> gives for an object with that error.
\<close>

section \<open>Chunking\<close>

abbreviation newline :: char where
  "newline \<equiv> CHR 0x0A"

text \<open>\<open>s.lastIndexOf(p, from)\<close>: the last position up to \<open>from\<close> at which \<open>p\<close> occurs.\<close>

definition lastIndexOf :: "string \<Rightarrow> string \<Rightarrow> nat \<Rightarrow> int" where
  "lastIndexOf s p from =
     (case filter (\<lambda>i. i + length p \<le> length s \<and> startsWith (drop i s) p) (rev [0..<Suc from]) of
        [] \<Rightarrow> -1 | i # _ \<Rightarrow> int i)"

text \<open>\<open>text.split('\n\n')\<close>.\<close>

fun splitParagraphs :: "string \<Rightarrow> string list" where
  "splitParagraphs (c # d # s) =
     (if c = newline \<and> d = newline then [] # splitParagraphs s
      else case splitParagraphs (d # s) of p # ps \<Rightarrow> (c # p) # ps | [] \<Rightarrow> [[c]])"
| "splitParagraphs s = [s]"

definition splitPoint :: "string \<Rightarrow> nat \<Rightarrow> nat" where
  "splitPoint r mx =
     (let a = lastIndexOf r [newline, newline] mx;
          b = (if 2 * a < int mx then lastIndexOf r [newline] mx else a)
      in if 2 * b < int mx then mx else nat b)"

partial_function (option) chunkLoop :: "nat \<Rightarrow> string \<Rightarrow> string list option" where
  "chunkLoop mx r =
     (if r = [] then Some []
      else if length r \<le> mx then Some [r]
      else Option.bind (chunkLoop mx (dropWhile (\<lambda>c. c = newline) (drop (splitPoint r mx) r)))
             (\<lambda>cs. Some (take (splitPoint r mx) r # cs)))"

definition smartChunk :: "string \<Rightarrow> nat \<Rightarrow> string list option" where
  "smartChunk text mx =
     (let ps = splitParagraphs text
      in if 4 * length text > 3 * mx \<and> sublist [newline, newline] text \<and> length ps > 1 \<and> list_all (\<lambda>p. length p \<le> mx) ps
         then Some ps
         else if length text \<le> mx then Some [text]
         else chunkLoop mx text)"

text \<open>\<open>escapeHtml\<close>.\<close>

fun escapeChar :: "char \<Rightarrow> string" where
  "escapeChar c =
     (if c = CHR ''&'' then ''&amp;'' else if c = CHR ''<'' then ''&lt;'' else if c = CHR ''>'' then ''&gt;''
      else if c = CHR 0x22 then ''&quot;'' else [c])"

definition escapeHtml :: "string \<Rightarrow> string" where
  "escapeHtml s = concat (map escapeChar s)"

section \<open>Conversations\<close>

datatype ChatRole = UserRole | AssistantRole | SystemRole

datatype ContentBlock = TextBlock string | ToolUse string string string | ToolResultBlock string string

datatype Content = PlainText string | Blocks "ContentBlock list"

record ChatMessage =
  cm_role :: ChatRole
  cm_content :: Content

record ToolCall =
  tc_id :: string
  tc_name :: string
  tc_input :: string

record ChatResponse =
  rp_content :: string
  rp_toolCalls :: "ToolCall list"

type_synonym history = "ChatMessage list"

text \<open>A world with the model's answers (\<open>None\<close>: it threw) and the tools (\<open>Inl\<close>: they threw).\<close>

record 'w Services =
  sv_chat :: "history \<Rightarrow> 'w \<Rightarrow> 'w \<times> ChatResponse option"
  sv_tool :: "string \<Rightarrow> (string \<Rightarrow> 'w \<Rightarrow> 'w \<times> (string + string)) option"
  sv_error :: "string \<Rightarrow> string"

record ConversationHandler =
  histories :: "(string, history) jsmap"
  maxHistory :: nat
  maxToolIterations :: nat
  cv_store :: "(string, history) jsmap option"

definition new_ConversationHandler :: "nat option \<Rightarrow> nat option \<Rightarrow> (string, history) jsmap option \<Rightarrow> ConversationHandler" where
  "new_ConversationHandler mh mi store =
     \<lparr>histories = [], maxHistory = nullish mh 20, maxToolIterations = nullish mi 5, cv_store = store\<rparr>"

definition MAX_TOOL_RESULT_LENGTH :: nat where
  "MAX_TOOL_RESULT_LENGTH = 4000"

definition truncateResult :: "string \<Rightarrow> string" where
  "truncateResult s = (if length s > MAX_TOOL_RESULT_LENGTH then take MAX_TOOL_RESULT_LENGTH s @ ''... [truncated]'' else s)"

definition executeTool :: "'w Services \<Rightarrow> ToolCall \<Rightarrow> 'w \<Rightarrow> 'w \<times> string" where
  "executeTool sv tc w =
     (case sv_tool sv (tc_name tc) of
        None \<Rightarrow> (w, sv_error sv (''Unknown tool: '' @ tc_name tc))
      | Some f \<Rightarrow> (case f (tc_input tc) w of (w', Inr r) \<Rightarrow> (w', r)
                   | (w', Inl e) \<Rightarrow> (w', sv_error sv (''Tool execution failed: '' @ e))))"

fun executeAll :: "'w Services \<Rightarrow> ToolCall list \<Rightarrow> 'w \<Rightarrow> 'w \<times> ContentBlock list" where
  "executeAll sv [] w = (w, [])"
| "executeAll sv (tc # tcs) w =
     (let (w1, r) = executeTool sv tc w; (w2, bs) = executeAll sv tcs w1
      in (w2, ToolResultBlock (tc_id tc) (truncateResult r) # bs))"

definition assistantMessage :: "ChatResponse \<Rightarrow> ChatMessage" where
  "assistantMessage r =
     \<lparr>cm_role = AssistantRole, cm_content = Blocks ((if rp_content r \<noteq> [] then [TextBlock (rp_content r)] else [])
        @ map (\<lambda>tc. ToolUse (tc_id tc) (tc_name tc) (tc_input tc)) (rp_toolCalls r))\<rparr>"

text \<open>
  The loop with \<open>left\<close> iterations left; besides the history and the last response
  (\<open>None\<close>: the provider threw) it returns the requests sent to the provider.
\<close>

fun toolLoop :: "'w Services \<Rightarrow> nat \<Rightarrow> history \<Rightarrow> ChatResponse \<Rightarrow> 'w \<Rightarrow> 'w \<times> history list \<times> (history \<times> ChatResponse) option" where
  "toolLoop sv 0 h r w = (w, [], Some (h, r))"
| "toolLoop sv (Suc left) h r w =
     (if rp_toolCalls r = [] then (w, [], Some (h, r))
      else let (w1, bs) = executeAll sv (rp_toolCalls r) w;
               h1 = h @ [assistantMessage r, \<lparr>cm_role = UserRole, cm_content = Blocks bs\<rparr>]
           in case sv_chat sv h1 w1 of
                (w2, None) \<Rightarrow> (w2, [h1], None)
              | (w2, Some r1) \<Rightarrow> (let (w3, qs, res) = toolLoop sv left h1 r1 w2 in (w3, h1 # qs, res)))"

definition isToolResult :: "ChatMessage \<Rightarrow> bool" where
  "isToolResult m = (case cm_content m of PlainText _ \<Rightarrow> False
     | Blocks bs \<Rightarrow> list_ex (\<lambda>b. case b of ToolResultBlock _ _ \<Rightarrow> True | _ \<Rightarrow> False) bs)"

definition trimHistoryArray :: "nat \<Rightarrow> history \<Rightarrow> history" where
  "trimHistoryArray mx h =
     (if length h \<le> mx then h
      else dropWhile (\<lambda>m. cm_role m \<noteq> UserRole \<or> isToolResult m) (drop (length h - mx) h))"

definition loadHistory :: "string \<Rightarrow> ConversationHandler \<Rightarrow> ConversationHandler \<times> history" where
  "loadHistory chat c =
     (case cv_store c of
        Some st \<Rightarrow> (c, nullish (jm_get st chat) [])
      | None \<Rightarrow> (case jm_get (histories c) chat of Some h \<Rightarrow> (c, h)
                 | None \<Rightarrow> (c\<lparr>histories := jm_set chat [] (histories c)\<rparr>, [])))"

definition saveHistory :: "string \<Rightarrow> history \<Rightarrow> ConversationHandler \<Rightarrow> ConversationHandler" where
  "saveHistory chat h c =
     (case cv_store c of
        Some st \<Rightarrow> c\<lparr>cv_store := Some (jm_set chat h st)\<rparr>
      | None \<Rightarrow> c\<lparr>histories := jm_set chat h (histories c)\<rparr>)"

definition handleMessage :: "'w Services \<Rightarrow> string \<Rightarrow> string \<Rightarrow> ConversationHandler \<Rightarrow> 'w
    \<Rightarrow> ConversationHandler \<times> 'w \<times> history list \<times> string option" where
  "handleMessage sv chat msg c w =
     (let (c1, h0) = loadHistory chat c;
          h = h0 @ [\<lparr>cm_role = UserRole, cm_content = PlainText msg\<rparr>]
      in case sv_chat sv h w of
           (w1, None) \<Rightarrow> (c1, w1, [h], None)
         | (w1, Some r) \<Rightarrow>
             (case toolLoop sv (maxToolIterations c1) h r w1 of
                (w2, qs, None) \<Rightarrow> (c1, w2, h # qs, None)
              | (w2, qs, Some (h1, r1)) \<Rightarrow>
                  (saveHistory chat (trimHistoryArray (maxHistory c1)
                     (h1 @ [\<lparr>cm_role = AssistantRole, cm_content = PlainText (rp_content r1)\<rparr>])) c1,
                   w2, h # qs, Some (rp_content r1))))"

definition clearHistory :: "string \<Rightarrow> ConversationHandler \<Rightarrow> ConversationHandler" where
  "clearHistory chat c = c\<lparr>histories := jm_delete chat (histories c), cv_store := map_option (jm_delete chat) (cv_store c)\<rparr>"

section \<open>The inbox\<close>

datatype MessageStatus = NewMessage | ReadMessage | ArchivedMessage

datatype MessageType = InfoMessage | QuestionMessage | TaskMessage | ResponseMessage | ErrorMessage

datatype MsgPriority = NormalPriority | HighPriority | UrgentPriority

type_synonym MessageContext = "string option \<times> MsgPriority option"

record InboxMessage =
  im_id :: string
  im_from :: string
  im_to :: string
  im_content :: string
  im_type :: MessageType
  im_status :: MessageStatus
  im_timestamp :: int
  im_threadId :: "string option"
  im_context :: "MessageContext option"

text \<open>The files of the inbox and of the archive, by message id; \<open>None\<close>: a file that does not parse.\<close>

record Inbox =
  ib_files :: "(string, InboxMessage option) jsmap"
  ib_archive :: "(string, InboxMessage) jsmap"

record WriteMessageInput =
  wi_from :: string
  wi_to :: string
  wi_content :: string
  wi_type :: MessageType
  wi_threadId :: "string option"
  wi_context :: "MessageContext option"

text \<open>\<open>now\<close> and \<open>stamp\<close> are the two readings of the clock, \<open>hex\<close> the random digits of the id.\<close>

definition writeMessage :: "int \<Rightarrow> int \<Rightarrow> string \<Rightarrow> WriteMessageInput \<Rightarrow> Inbox \<Rightarrow> Inbox \<times> string" where
  "writeMessage now stamp hex inp ib =
     (let i = show_int now @ ''-'' @ hex
      in (ib\<lparr>ib_files := jm_set i (Some \<lparr>im_id = i, im_from = wi_from inp, im_to = wi_to inp, im_content = wi_content inp,
            im_type = wi_type inp, im_status = NewMessage, im_timestamp = stamp, im_threadId = wi_threadId inp,
            im_context = wi_context inp\<rparr>) (ib_files ib)\<rparr>, i))"

datatype ReadError = MessageNotFound string | UnreadableMessage

definition readMessage :: "string \<Rightarrow> Inbox \<Rightarrow> ReadError + InboxMessage" where
  "readMessage i ib = (case jm_get (ib_files ib) i of None \<Rightarrow> Inl (MessageNotFound i)
     | Some None \<Rightarrow> Inl UnreadableMessage | Some (Some m) \<Rightarrow> Inr m)"

definition listMessages :: "Inbox \<Rightarrow> string list" where
  "listMessages ib = jm_keys (ib_files ib)"

definition getNewMessages :: "Inbox \<Rightarrow> InboxMessage list" where
  "getNewMessages ib =
     List.map_filter (\<lambda>i. case readMessage i ib of Inr m \<Rightarrow> if im_status m = NewMessage then Some m else None | Inl _ \<Rightarrow> None) (listMessages ib)"

definition markRead :: "string \<Rightarrow> Inbox \<Rightarrow> Inbox \<times> (ReadError + unit)" where
  "markRead i ib = (case readMessage i ib of Inl e \<Rightarrow> (ib, Inl e)
     | Inr m \<Rightarrow> (ib\<lparr>ib_files := jm_set i (Some (m\<lparr>im_status := ReadMessage\<rparr>)) (ib_files ib)\<rparr>, Inr ()))"

definition archiveOne :: "int \<Rightarrow> string \<Rightarrow> Inbox \<times> nat \<Rightarrow> Inbox \<times> nat" where
  "archiveOne cutoff i = (\<lambda>(ib, k). case readMessage i ib of Inl _ \<Rightarrow> (ib, k)
     | Inr m \<Rightarrow> if im_timestamp m < cutoff
                then (ib\<lparr>ib_archive := jm_set i (m\<lparr>im_status := ArchivedMessage\<rparr>) (ib_archive ib),
                         ib_files := jm_delete i (ib_files ib)\<rparr>, k + 1)
                else (ib, k))"

definition archiveOlderThan :: "int \<Rightarrow> int \<Rightarrow> Inbox \<Rightarrow> Inbox \<times> nat" where
  "archiveOlderThan now days ib = fold (archiveOne (now - days * 24 * 60 * 60 * 1000)) (listMessages ib) (ib, 0)"

section \<open>Providers\<close>

text \<open>\<open>ProviderRouter.chat\<close> over the primary and the fallback providers (\<open>Inl\<close>: the message of the error).\<close>

fun tryProviders :: "('w \<Rightarrow> 'w \<times> (string + 'r)) list \<Rightarrow> string list \<Rightarrow> 'w \<Rightarrow> 'w \<times> (string + 'r)" where
  "tryProviders [] errors w = (w, Inl (''All providers failed: '' @ join_with ''; '' errors))"
| "tryProviders (p # ps) errors w =
     (case p w of (w1, Inr r) \<Rightarrow> (w1, Inr r) | (w1, Inl e) \<Rightarrow> tryProviders ps (errors @ [e]) w1)"

definition router_chat :: "('w \<Rightarrow> 'w \<times> (string + 'r)) \<Rightarrow> ('w \<Rightarrow> 'w \<times> (string + 'r)) list \<Rightarrow> 'w \<Rightarrow> 'w \<times> (string + 'r)" where
  "router_chat primary fallback w = tryProviders (primary # fallback) [] w"

text \<open>
  \<open>ProviderRouter.stream\<close>: a provider gives the chunks it yields and the error it ends with,
  if any; the chunks of a provider that fails have been passed on already.
\<close>

fun streamProviders :: "('w \<Rightarrow> 'w \<times> 'r list \<times> string option) list \<Rightarrow> string list \<Rightarrow> 'w \<Rightarrow> 'w \<times> 'r list \<times> string option" where
  "streamProviders [] errors w = (w, [], Some (''All providers failed: '' @ join_with ''; '' errors))"
| "streamProviders (p # ps) errors w =
     (case p w of
        (w1, cs, None) \<Rightarrow> (w1, cs, None)
      | (w1, cs, Some e) \<Rightarrow> (let (w2, ds, res) = streamProviders ps (errors @ [e]) w1 in (w2, cs @ ds, res)))"

definition router_stream :: "('w \<Rightarrow> 'w \<times> 'r list \<times> string option) \<Rightarrow> ('w \<Rightarrow> 'w \<times> 'r list \<times> string option) list \<Rightarrow> 'w
    \<Rightarrow> 'w \<times> 'r list \<times> string option" where
  "router_stream primary fallback w = streamProviders (primary # fallback) [] w"

definition router_isAvailable :: "bool \<Rightarrow> bool list \<Rightarrow> bool" where
  "router_isAvailable primary fallback = list_ex id (primary # fallback)"

definition listProviders :: "('p \<Rightarrow> string) \<Rightarrow> 'p \<Rightarrow> 'p list \<Rightarrow> string list" where
  "listProviders nm primary fallback = nm primary # map nm fallback"

definition router_models :: "(string + string list) list \<Rightarrow> string list" where
  "router_models answers = concat (map (\<lambda>a. case a of Inr ms \<Rightarrow> ms | Inl _ \<Rightarrow> []) answers)"

definition router_getProvider :: "('p \<Rightarrow> string) \<Rightarrow> string \<Rightarrow> 'p \<Rightarrow> 'p list \<Rightarrow> 'p option" where
  "router_getProvider nm n primary fallback = (if nm primary = n then Some primary else find (\<lambda>p. nm p = n) fallback)"

section \<open>The gateway\<close>

record Adapter =
  ad_name :: string
  ad_connected :: bool

record MessagingGateway =
  adapters :: "Adapter list"
  gw_active :: bool

text \<open>\<open>ok\<close> says which adapters' connections succeed, failures being ignored.\<close>

definition activate :: "(string \<Rightarrow> bool) \<Rightarrow> MessagingGateway \<Rightarrow> MessagingGateway" where
  "activate ok g =
     (if gw_active g then g
      else g\<lparr>gw_active := True, adapters := map (\<lambda>a. a\<lparr>ad_connected := ad_connected a \<or> ok (ad_name a)\<rparr>) (adapters g)\<rparr>)"

definition deactivate :: "(string \<Rightarrow> bool) \<Rightarrow> MessagingGateway \<Rightarrow> MessagingGateway" where
  "deactivate ok g =
     (if \<not> gw_active g then g
      else g\<lparr>gw_active := False, adapters := map (\<lambda>a. a\<lparr>ad_connected := ad_connected a \<and> \<not> ok (ad_name a)\<rparr>) (adapters g)\<rparr>)"

definition gw_onStateChange :: "(string \<Rightarrow> bool) \<Rightarrow> bool \<Rightarrow> MessagingGateway \<Rightarrow> MessagingGateway" where
  "gw_onStateChange ok leads g = (if leads then activate ok g else if gw_active g then deactivate ok g else g)"

definition gw_stop :: "(string \<Rightarrow> bool) \<Rightarrow> MessagingGateway \<Rightarrow> MessagingGateway" where
  "gw_stop ok g = deactivate ok g"

record GatewayStatus =
  gs_agentName :: string
  gs_isActive :: bool
  gs_channels :: "(string \<times> bool) list"

definition gw_getStatus :: "string \<Rightarrow> MessagingGateway \<Rightarrow> GatewayStatus" where
  "gw_getStatus agent g =
     \<lparr>gs_agentName = agent, gs_isActive = gw_active g, gs_channels = map (\<lambda>a. (ad_name a, ad_connected a)) (adapters g)\<rparr>"

end
