(* ===== verification/MessagingProps.thy ===== *)
theory MessagingProps
  imports Messaging
begin

text \<open>
  Properties of the messaging side: long texts are cut into chunks of bounded length and
  nothing but line breaks is lost; the histories that are sent and stored follow the turn
  grammar of the model's interface and stay bounded; archiving neither loses nor
  duplicates a message.
\<close>

section \<open>Chunks\<close>

lemma lastIndexOf_le: "lastIndexOf s p from \<le> int from"
proof (cases "filter (\<lambda>i. i + length p \<le> length s \<and> startsWith (drop i s) p) (rev [0..<Suc from])")
  case (Cons i rest)
  then have "i \<in> set (filter (\<lambda>i. i + length p \<le> length s \<and> startsWith (drop i s) p) (rev [0..<Suc from]))" by simp
  then have "i \<le> from" by (auto split: if_splits)
  with Cons show ?thesis by (simp only: lastIndexOf_def list.case of_nat_le_iff)
qed (simp add: lastIndexOf_def del: upt_Suc)

lemma splitPoint_bounds: "0 < mx \<Longrightarrow> 0 < splitPoint r mx \<and> splitPoint r mx \<le> mx"
  using lastIndexOf_le [of r "[newline, newline]" mx] lastIndexOf_le [of r "[newline]" mx]
  by (auto simp: splitPoint_def Let_def)

abbreviation inked :: "string \<Rightarrow> string" where
  "inked \<equiv> filter (\<lambda>c. c \<noteq> newline)"

lemma inked_dropWhile: "inked (dropWhile (\<lambda>c. c = newline) s) = inked s"
  by (induction s) auto

lemma splitParagraphs_nonempty: "splitParagraphs s \<noteq> []"
  by (induction s rule: splitParagraphs.induct) (auto split: list.splits)

lemma inked_paragraphs: "inked (concat (splitParagraphs s)) = inked s"
proof (induction s rule: splitParagraphs.induct)
  case (1 c d s)
  obtain p ps where "splitParagraphs (d # s) = p # ps"
    using splitParagraphs_nonempty by (metis neq_Nil_conv)
  with 1 show ?case by auto
qed simp_all

lemma chunkLoop_returns:
  assumes "0 < mx"
  shows "\<exists>cs. chunkLoop mx r = Some cs \<and> list_all (\<lambda>c. length c \<le> mx) cs \<and> inked (concat cs) = inked r"
proof (induction r rule: length_induct)
  case (1 r)
  let ?k = "splitPoint r mx" and ?rest = "dropWhile (\<lambda>c. c = newline) (drop (splitPoint r mx) r)"
  show ?case
  proof (cases "r = [] \<or> length r \<le> mx")
    case True
    then show ?thesis by (auto simp: chunkLoop.simps [of mx r])
  next
    case False
    then have "length ?rest < length r"
      using splitPoint_bounds [OF assms, of r] by (simp add: le_less_trans [OF length_dropWhile_le])
    with 1 obtain cs where "chunkLoop mx ?rest = Some cs" "list_all (\<lambda>c. length c \<le> mx) cs" "inked (concat cs) = inked ?rest"
      by blast
    moreover have "inked (take ?k r) @ inked (drop ?k r) = inked r"
      by (simp flip: filter_append)
    ultimately show ?thesis
      using False splitPoint_bounds [OF assms, of r] by (simp add: chunkLoop.simps [of mx r] inked_dropWhile)
  qed
qed

lemma smartChunk_returns:
  assumes "0 < mx"
  shows "\<exists>cs. smartChunk body mx = Some cs \<and> list_all (\<lambda>c. length c \<le> mx) cs \<and> inked (concat cs) = inked body"
  using chunkLoop_returns [OF assms, of body] inked_paragraphs [of body] by (simp add: smartChunk_def Let_def)

text \<open>
  For every positive limit the splitter of outgoing messages terminates, no chunk is
  longer than the limit, and apart from line breaks the chunks together are the text.
\<close>

theorem smart_chunk:
  assumes "0 < mx"
  shows "\<exists>cs. smartChunk body mx = Some cs \<and> list_all (\<lambda>c. length c \<le> mx) cs
    \<and> filter (\<lambda>c. c \<noteq> newline) (concat cs) = filter (\<lambda>c. c \<noteq> newline) body"
  using smartChunk_returns [OF assms] .

theorem smart_chunk_witness:
  "\<exists>cs. smartChunk ''ab'' 1 = Some cs \<and> list_all (\<lambda>c. length c \<le> 1) cs
    \<and> filter (\<lambda>c. c \<noteq> newline) (concat cs) = ''ab''"
  using smart_chunk [of 1 "''ab''"] by simp

section \<open>Turns of a conversation\<close>

text \<open>
  The turn grammar of the model's interface as an automaton: a plain user message opens a
  turn; the model answers plainly, which closes it, or asks for tools; then the results
  for exactly those requests follow, in order.
\<close>

datatype Expects = Opening | Answer | Results "string list"

definition toolUses :: "ContentBlock list \<Rightarrow> string list" where
  "toolUses bs = List.map_filter (\<lambda>b. case b of ToolUse i _ _ \<Rightarrow> Some i | _ \<Rightarrow> None) bs"

definition toolResults :: "ContentBlock list \<Rightarrow> string list" where
  "toolResults bs = List.map_filter (\<lambda>b. case b of ToolResultBlock i _ \<Rightarrow> Some i | _ \<Rightarrow> None) bs"

fun next_turn :: "Expects \<Rightarrow> ChatMessage \<Rightarrow> Expects option" where
  "next_turn Opening m = (case (cm_role m, cm_content m) of (UserRole, PlainText _) \<Rightarrow> Some Answer | _ \<Rightarrow> None)"
| "next_turn Answer m =
     (case (cm_role m, cm_content m) of
        (AssistantRole, PlainText _) \<Rightarrow> Some Opening
      | (AssistantRole, Blocks bs) \<Rightarrow> if toolUses bs \<noteq> [] then Some (Results (toolUses bs)) else None
      | _ \<Rightarrow> None)"
| "next_turn (Results ids) m =
     (case (cm_role m, cm_content m) of
        (UserRole, Blocks bs) \<Rightarrow> if toolResults bs = ids \<and> length bs = length ids then Some Answer else None
      | _ \<Rightarrow> None)"

fun turns :: "Expects \<Rightarrow> history \<Rightarrow> Expects option" where
  "turns e [] = Some e"
| "turns e (m # ms) = Option.bind (next_turn e m) (\<lambda>e'. turns e' ms)"

lemma turns_append: "turns e (xs @ ys) = Option.bind (turns e xs) (\<lambda>e'. turns e' ys)"
  by (induction xs arbitrary: e) (auto simp: bind_assoc)

definition whole_turns :: "history \<Rightarrow> bool" where
  "whole_turns h \<longleftrightarrow> turns Opening h = Some Opening"

definition awaiting_answer :: "history \<Rightarrow> bool" where
  "awaiting_answer h \<longleftrightarrow> turns Opening h = Some Answer"

lemma complete_Nil [simp]: "whole_turns []"
  by (simp add: whole_turns_def)

lemma awaiting_user: "whole_turns h \<Longrightarrow> awaiting_answer (h @ [\<lparr>cm_role = UserRole, cm_content = PlainText t\<rparr>])"
  by (simp add: whole_turns_def awaiting_answer_def turns_append)

lemma complete_answer: "awaiting_answer h \<Longrightarrow> whole_turns (h @ [\<lparr>cm_role = AssistantRole, cm_content = PlainText t\<rparr>])"
  by (simp add: whole_turns_def awaiting_answer_def turns_append)

lemma toolUses_assistant: "cm_content (assistantMessage r) = Blocks bs \<Longrightarrow> toolUses bs = map tc_id (rp_toolCalls r)"
  by (auto simp: assistantMessage_def toolUses_def List.map_filter_def comp_def)

lemma executeAll_results: "executeAll sv tcs w = (w', bs) \<Longrightarrow> toolResults bs = map tc_id tcs \<and> length bs = length tcs"
  by (induction tcs arbitrary: w w' bs) (auto simp: toolResults_def List.map_filter_def split: prod.splits)

lemma awaiting_results:
  assumes "awaiting_answer h" and "rp_toolCalls r \<noteq> []" and "executeAll sv (rp_toolCalls r) w = (w', bs)"
  shows "awaiting_answer (h @ [assistantMessage r, \<lparr>cm_role = UserRole, cm_content = Blocks bs\<rparr>])"
proof -
  have "toolResults bs = map tc_id (rp_toolCalls r)" "length bs = length (rp_toolCalls r)"
    using executeAll_results [OF assms(3)] by simp_all
  moreover obtain us where "cm_content (assistantMessage r) = Blocks us" "toolUses us = map tc_id (rp_toolCalls r)"
    using toolUses_assistant by (auto simp: assistantMessage_def)
  moreover have "cm_role (assistantMessage r) = AssistantRole" by (simp add: assistantMessage_def)
  ultimately show ?thesis using assms(1,2) by (simp add: awaiting_answer_def turns_append)
qed

lemma toolLoop_requests:
  "awaiting_answer h \<Longrightarrow> toolLoop sv n h r w = (w', qs, res) \<Longrightarrow>
     length qs \<le> n \<and> list_all awaiting_answer qs \<and> pred_option (\<lambda>x. awaiting_answer (fst x)) res"
proof (induction sv n h r w arbitrary: w' qs res rule: toolLoop.induct)
  case (2 sv n h r w)
  obtain w1 bs where run: "executeAll sv (rp_toolCalls r) w = (w1, bs)" by fastforce
  show ?case
  proof (cases "rp_toolCalls r = []")
    case False
    note h1 = awaiting_results [OF "2.prems"(1) False run]
    obtain w2 r1 where chat: "sv_chat sv (h @ [assistantMessage r, \<lparr>cm_role = UserRole, cm_content = Blocks bs\<rparr>]) w1 = (w2, r1)"
      by fastforce
    show ?thesis
    proof (cases r1)
      case None
      with "2.prems" False run chat h1 show ?thesis by auto
    next
      case (Some a)
      obtain w3 qs' res' where rec: "toolLoop sv n (h @ [assistantMessage r, \<lparr>cm_role = UserRole, cm_content = Blocks bs\<rparr>]) a w2 = (w3, qs', res')"
        by (metis prod_cases3)
      from "2.IH" [OF False run [symmetric] refl refl chat [symmetric] Some h1 rec]
      show ?thesis using "2.prems" False run chat Some h1 rec by auto
    qed
  qed (use "2.prems" in auto)
qed auto

lemma turns_dropWhile:
  "turns e h = Some Opening \<Longrightarrow> e \<noteq> Results [] \<Longrightarrow> whole_turns (dropWhile (\<lambda>m. cm_role m \<noteq> UserRole \<or> isToolResult m) h)"
proof (induction h arbitrary: e)
  case (Cons m h)
  then obtain e' where e': "next_turn e m = Some e'" "turns e' h = Some Opening"
    by (auto simp: bind_eq_Some_conv)
  then have "e' \<noteq> Results []"
    by (cases e) (auto split: ChatRole.splits Content.splits if_splits)
  note IH = Cons.IH [OF e'(2) this]
  have "toolResults bs \<noteq> [] \<Longrightarrow> list_ex (\<lambda>b. case b of ToolResultBlock _ _ \<Rightarrow> True | _ \<Rightarrow> False) bs" for bs
    by (induction bs) (auto simp: toolResults_def List.map_filter_def split: ContentBlock.splits)
  then have "cm_role m = UserRole \<Longrightarrow> \<not> isToolResult m \<Longrightarrow> e = Opening"
    using e' Cons.prems(2) by (cases e) (auto simp: isToolResult_def split: Content.splits ChatRole.splits if_splits)
  with IH e' show ?case by (auto simp: whole_turns_def)
qed simp

lemma turns_drop: "turns e h = Some e'' \<Longrightarrow> e \<noteq> Results [] \<Longrightarrow> \<exists>e'. turns e' (drop n h) = Some e'' \<and> e' \<noteq> Results []"
proof (induction h arbitrary: e n)
  case (Cons m h)
  then obtain e' where e': "next_turn e m = Some e'" "turns e' h = Some e''"
    by (auto simp: bind_eq_Some_conv)
  then have "e' \<noteq> Results []"
    by (cases e) (auto split: ChatRole.splits Content.splits if_splits)
  from Cons.IH [OF e'(2) this] Cons.prems show ?case by (cases n) auto
qed auto

lemma complete_trim: "whole_turns h \<Longrightarrow> whole_turns (trimHistoryArray mx h)"
  using turns_drop [of Opening h Opening "length h - mx"] turns_dropWhile
  by (auto simp: trimHistoryArray_def whole_turns_def [of h])

lemma length_trim: "length (trimHistoryArray mx h) \<le> mx"
  by (auto simp: trimHistoryArray_def intro: order_trans [OF length_dropWhile_le])

definition kept_ok :: "nat \<Rightarrow> (string, history) jsmap \<Rightarrow> bool" where
  "kept_ok mx st \<longleftrightarrow> (\<forall>chat h. jm_get st chat = Some h \<longrightarrow> whole_turns h \<and> length h \<le> mx)"

definition conv_inv :: "nat \<Rightarrow> nat \<Rightarrow> ConversationHandler \<Rightarrow> bool" where
  "conv_inv mx it c \<longleftrightarrow> maxHistory c = mx \<and> maxToolIterations c = it
     \<and> kept_ok mx (histories c) \<and> pred_option (kept_ok mx) (cv_store c)"

lemma kept_ok_ops:
  "kept_ok mx []"
  "kept_ok mx st \<Longrightarrow> whole_turns h \<Longrightarrow> length h \<le> mx \<Longrightarrow> kept_ok mx (jm_set chat h st)"
  "kept_ok mx st \<Longrightarrow> kept_ok mx (jm_delete chat st)"
  by (auto simp: kept_ok_def)

lemma loadHistory_ok: "conv_inv mx it c \<Longrightarrow> loadHistory chat c = (c1, h) \<Longrightarrow> conv_inv mx it c1 \<and> whole_turns h"
  by (auto simp: loadHistory_def conv_inv_def kept_ok_ops kept_ok_def nullish_def split: option.splits if_splits)

lemma saveHistory_ok: "conv_inv mx it c \<Longrightarrow> whole_turns h \<Longrightarrow> conv_inv mx it (saveHistory chat (trimHistoryArray mx h) c)"
  by (auto simp: saveHistory_def conv_inv_def complete_trim length_trim intro!: kept_ok_ops split: option.splits)

lemma handleMessage_ok:
  assumes "conv_inv mx it c" and run: "handleMessage sv chat msg c w = (c', w', qs, ans)"
  shows "conv_inv mx it c' \<and> length qs \<le> Suc it \<and> list_all awaiting_answer qs"
proof -
  obtain c1 h0 where load: "loadHistory chat c = (c1, h0)" by fastforce
  let ?h = "h0 @ [\<lparr>cm_role = UserRole, cm_content = PlainText msg\<rparr>]"
  have c1: "conv_inv mx it c1" and h: "awaiting_answer ?h"
    using loadHistory_ok [OF assms(1) load] awaiting_user by auto
  then have mx: "maxHistory c1 = mx" "maxToolIterations c1 = it" by (simp_all add: conv_inv_def)
  obtain w1 r where chat: "sv_chat sv ?h w = (w1, r)" by fastforce
  show ?thesis
  proof (cases r)
    case None
    with run load chat c1 h show ?thesis by (auto simp: handleMessage_def)
  next
    case (Some r0)
    obtain w2 ps res where tools: "toolLoop sv it ?h r0 w1 = (w2, ps, res)" by (metis prod_cases3)
    with toolLoop_requests [OF h tools] Some run load chat c1 h mx show ?thesis
      by (cases res) (auto simp: handleMessage_def intro!: saveHistory_ok complete_answer)
  qed
qed

datatype ConvOp = Incoming string string | Forget string

definition conv_op :: "'w Services \<Rightarrow> ConvOp \<Rightarrow> ConversationHandler \<times> 'w \<Rightarrow> ConversationHandler \<times> 'w" where
  "conv_op sv a cw = (case a of
      Incoming chat msg \<Rightarrow> (let (c, w, _, _) = handleMessage sv chat msg (fst cw) (snd cw) in (c, w))
    | Forget chat \<Rightarrow> (clearHistory chat (fst cw), snd cw))"

interpretation conversation: invariant_of "\<lambda>a s. Some (conv_op sv a s)" "\<lambda>s. conv_inv mx it (fst s)" for sv mx it
proof unfold_locales
  fix s s' :: "ConversationHandler \<times> 'a" and a
  assume inv: "conv_inv mx it (fst s)" and "Some (conv_op sv a s) = Some s'"
  then have s': "s' = conv_op sv a s" by simp
  show "conv_inv mx it (fst s')"
  proof (cases a)
    case (Incoming chat msg)
    obtain c w qs ans where run: "handleMessage sv chat msg (fst s) (snd s) = (c, w, qs, ans)" by (metis prod_cases4)
    with handleMessage_ok [OF inv run] Incoming s' show ?thesis by (simp add: conv_op_def)
  next
    case (Forget chat)
    with inv s' show ?thesis
      by (auto simp: conv_op_def clearHistory_def conv_inv_def option.pred_map comp_def intro!: kept_ok_ops
          elim!: option.pred_mono_strong)
  qed
qed

lemma reachable_conversation:
  assumes "run (\<lambda>a s. Some (conv_op sv a s)) ops (new_ConversationHandler mh mi st, w) = Some (c, w')" and "st = None \<or> st = Some []"
  shows "conv_inv (nullish mh 20) (nullish mi 5) c"
proof -
  have "conv_inv (nullish mh 20) (nullish mi 5) (fst (new_ConversationHandler mh mi st, w))"
    using assms(2) by (auto simp: conv_inv_def new_ConversationHandler_def kept_ok_ops)
  from conversation.run_inv [OF this assms(1)] show ?thesis by simp
qed

text \<open>
  C31. Whatever messages come in, whatever the model answers, whichever tools it calls and
  wherever provider or tools fail, every history that is kept, in memory or in the store,
  consists of complete turns, each tool request followed by its results, and has no more
  messages than configured.
\<close>

theorem stored_history_complete:
  assumes "run (\<lambda>a s. Some (conv_op sv a s)) ops (new_ConversationHandler mh mi st, w) = Some (c, w')" and "st \<in> {None, Some []}"
    and "jm_get (nullish (cv_store c) (histories c)) chat = Some h"
  shows "whole_turns h \<and> length h \<le> nullish mh 20"
proof -
  have "conv_inv (nullish mh 20) (nullish mi 5) c" using reachable_conversation [OF assms(1)] assms(2) by blast
  then have "kept_ok (nullish mh 20) (nullish (cv_store c) (histories c))"
    by (cases "cv_store c") (auto simp: conv_inv_def nullish_def)
  then show ?thesis using assms(3) by (auto simp: kept_ok_def)
qed

text \<open>
  Handling one message sends the model at most one request more than the configured
  number of tool rounds, and every one of them ends where an answer of the model is due:
  no request carries a tool call without its result or a result without its call.
\<close>

theorem requests_bounded_and_well_formed:
  assumes "run (\<lambda>a s. Some (conv_op sv a s)) ops (new_ConversationHandler mh mi st, w) = Some (c, w')" and "st \<in> {None, Some []}"
    and "handleMessage sv chat msg c w' = (c'', w'', requests, answer)"
  shows "length requests \<le> nullish mi 5 + 1 \<and> list_all awaiting_answer requests"
proof -
  have "conv_inv (nullish mh 20) (nullish mi 5) c" using reachable_conversation [OF assms(1)] assms(2) by blast
  from handleMessage_ok [OF this assms(3)] show ?thesis by simp
qed

text \<open>A model that asks for one tool first and then answers, and a tool that fails.\<close>

definition ex_services :: "nat Services" where
  "ex_services = \<lparr>sv_chat = (\<lambda>h n. (n + 1, Some (if even n
       then \<lparr>rp_content = [], rp_toolCalls = [\<lparr>tc_id = ''t'', tc_name = ''ls'', tc_input = []\<rparr>]\<rparr>
       else \<lparr>rp_content = ''done'', rp_toolCalls = []\<rparr>))),
     sv_tool = (\<lambda>_. Some (\<lambda>_ n. (n, Inl ''no''))), sv_error = (\<lambda>m. m)\<rparr>"

abbreviation ex_handled :: "ConversationHandler \<times> nat" where
  "ex_handled \<equiv> conv_op ex_services (Incoming ''c'' ''hi'') (new_ConversationHandler (Some 4) None None, 0)"

lemmas ex_conversation =
  conv_op_def handleMessage_def new_ConversationHandler_def loadHistory_def saveHistory_def ex_services_def
  numeral_eq_Suc executeTool_def assistantMessage_def truncateResult_def MAX_TOOL_RESULT_LENGTH_def nullish_def trimHistoryArray_def Let_def

theorem stored_history_complete_witness:
  "\<exists>h. jm_get (histories (fst ex_handled)) ''c'' = Some h \<and> length h = 4 \<and> whole_turns h \<and> length h \<le> 4"
proof -
  have store: "cv_store (fst ex_handled) = None" by (simp add: ex_conversation)
  have run: "run (\<lambda>a s. Some (conv_op ex_services a s)) [Incoming ''c'' ''hi''] (new_ConversationHandler (Some 4) None None, 0)
      = Some (fst ex_handled, snd ex_handled)"
    by simp
  obtain h where h: "jm_get (nullish (cv_store (fst ex_handled)) (histories (fst ex_handled))) ''c'' = Some h" "length h = 4"
    by (simp add: ex_conversation)
  from stored_history_complete [OF run _ h(1)] h store show ?thesis by (auto simp: nullish_def)
qed

theorem requests_bounded_and_well_formed_witness:
  "\<exists>c w requests answer. handleMessage ex_services ''c'' ''again'' (fst ex_handled) (snd ex_handled) = (c, w, requests, answer)
     \<and> length requests \<le> 6 \<and> list_all awaiting_answer requests"
proof -
  have run: "run (\<lambda>a s. Some (conv_op ex_services a s)) [Incoming ''c'' ''hi''] (new_ConversationHandler (Some 4) None None, 0)
      = Some (fst ex_handled, snd ex_handled)"
    by simp
  obtain c w requests answer where "handleMessage ex_services ''c'' ''again'' (fst ex_handled) (snd ex_handled) = (c, w, requests, answer)"
    by (metis prod_cases4)
  with requests_bounded_and_well_formed [OF run _ this] show ?thesis by (auto simp: nullish_def)
qed

section \<open>The inbox\<close>

definition outdated :: "int \<Rightarrow> Inbox \<Rightarrow> string \<Rightarrow> InboxMessage option" where
  "outdated cutoff ib i = (case jm_get (ib_files ib) i of Some (Some m) \<Rightarrow> if im_timestamp m < cutoff then Some m else None | _ \<Rightarrow> None)"

lemma archiveOne_get:
  assumes "archiveOne cutoff i (ib, k) = (ib', k')"
  shows "jm_get (ib_files ib') j = (if j = i \<and> outdated cutoff ib i \<noteq> None then None else jm_get (ib_files ib) j)"
    and "jm_get (ib_archive ib') j = (if j = i \<and> outdated cutoff ib i \<noteq> None
           then map_option (im_status_update (\<lambda>_. ArchivedMessage)) (outdated cutoff ib i) else jm_get (ib_archive ib) j)"
    and "k' = k + (if outdated cutoff ib i \<noteq> None then 1 else 0)"
  using assms by (auto simp: archiveOne_def outdated_def readMessage_def split: option.splits if_splits)

lemma archive_fold:
  "fold (archiveOne cutoff) is (ib, k) = (ib', k') \<Longrightarrow> distinct is \<Longrightarrow>
     jm_get (ib_files ib') j = (if j \<in> set is \<and> outdated cutoff ib j \<noteq> None then None else jm_get (ib_files ib) j)
   \<and> jm_get (ib_archive ib') j = (if j \<in> set is \<and> outdated cutoff ib j \<noteq> None
        then map_option (im_status_update (\<lambda>_. ArchivedMessage)) (outdated cutoff ib j) else jm_get (ib_archive ib) j)
   \<and> k' = k + length (filter (\<lambda>i. outdated cutoff ib i \<noteq> None) is)"
proof (induction "is" arbitrary: ib k)
  case (Cons i rest)
  obtain ib1 k1 where one: "archiveOne cutoff i (ib, k) = (ib1, k1)" by fastforce
  note first = archiveOne_get [OF one]
  have same: "outdated cutoff ib1 a = outdated cutoff ib a" if "a \<in> set rest" for a
    using first(1) [of a] that Cons.prems(2) by (auto simp: outdated_def)
  then have "filter (\<lambda>i. outdated cutoff ib1 i \<noteq> None) rest = filter (\<lambda>i. outdated cutoff ib i \<noteq> None) rest"
    by (simp cong: filter_cong)
  moreover have "fold (archiveOne cutoff) rest (ib1, k1) = (ib', k')" using Cons.prems(1) one by simp
  ultimately show ?case
    using Cons.IH [of ib1 k1] Cons.prems(2) first(1,2) [of j] first(3) same [of j] by auto
qed simp

text \<open>
  Archiving moves exactly the readable messages older than the cutoff: each is gone from
  the inbox and is in the archive with its text and the status archived, every other
  message, unreadable ones included, is where it was, and the count is that of the moved ones.
\<close>

theorem archive_moves_exactly:
  assumes "archiveOlderThan now days ib = (ib', k)" and "jm_wf (ib_files ib)"
  defines "old \<equiv> outdated (now - days * 86400000) ib"
  shows "jm_get (ib_files ib') i = (if old i \<noteq> None then None else jm_get (ib_files ib) i)
    \<and> jm_get (ib_archive ib') i = (if old i \<noteq> None then map_option (im_status_update (\<lambda>_. ArchivedMessage)) (old i)
         else jm_get (ib_archive ib) i)
    \<and> k = length (filter (\<lambda>i. old i \<noteq> None) (listMessages ib))"
proof -
  have "fold (archiveOne (now - days * 86400000)) (jm_keys (ib_files ib)) (ib, 0) = (ib', k)"
    using assms(1) by (simp add: archiveOlderThan_def listMessages_def mult.assoc)
  moreover have "old i \<noteq> None \<Longrightarrow> i \<in> set (jm_keys (ib_files ib))"
    by (auto simp: old_def outdated_def jm.keys_get split: option.splits)
  ultimately show ?thesis
    using archive_fold [of _ "jm_keys (ib_files ib)" ib 0 ib' k] assms(2)
    by (auto simp: old_def listMessages_def jm_wf_keys)
qed

definition ex_inbox :: Inbox where
  "ex_inbox = \<lparr>ib_files = [(''a'', Some \<lparr>im_id = ''a'', im_from = ''x'', im_to = ''y'', im_content = ''t'', im_type = InfoMessage,
     im_status = NewMessage, im_timestamp = 5, im_threadId = None, im_context = None\<rparr>), (''b'', None)], ib_archive = []\<rparr>"

theorem archive_moves_exactly_witness:
  "snd (archiveOlderThan 86400010 1 ex_inbox) = 1 \<and> jm_get (ib_files (fst (archiveOlderThan 86400010 1 ex_inbox))) ''a'' = None"
proof -
  let ?r = "archiveOlderThan 86400010 1 ex_inbox"
  have "?r = (fst ?r, snd ?r)" by simp
  moreover have "jm_wf (ib_files ex_inbox)" by (simp add: ex_inbox_def jm_wf_def)
  ultimately have "jm_get (ib_files (fst ?r)) ''a'' = (if outdated (86400010 - 1 * 86400000) ex_inbox ''a'' \<noteq> None then None
        else jm_get (ib_files ex_inbox) ''a'')"
    and "snd ?r = length (filter (\<lambda>i. outdated (86400010 - 1 * 86400000) ex_inbox i \<noteq> None) (listMessages ex_inbox))"
    using archive_moves_exactly by blast+
  then show ?thesis by (simp add: ex_inbox_def outdated_def listMessages_def jm_keys_def jm_get_def)
qed

section \<open>Providers and gateway\<close>

definition disconnected :: "(string \<Rightarrow> bool) \<Rightarrow> MessagingGateway \<Rightarrow> bool" where
  "disconnected ok g \<longleftrightarrow> list_all (\<lambda>a. ok (ad_name a) \<longrightarrow> \<not> ad_connected a) (adapters g)"

lemma disconnected_change: "gw_active g \<or> disconnected ok g \<Longrightarrow> l \<or> disconnected ok (gw_onStateChange ok l g)"
  by (auto simp: gw_onStateChange_def activate_def deactivate_def disconnected_def list_all_iff)

lemma active_change: "gw_active (gw_onStateChange ok l g) = l"
  by (simp add: gw_onStateChange_def activate_def deactivate_def)

text \<open>
  After any sequence of changes of the Raft state the messaging gateway is active
  exactly when the last change made this node the leader, and if disconnecting succeeds no
  channel stays connected on a node that lost leadership.
\<close>

theorem gateway_active_iff_leader:
  assumes "changes \<noteq> []" and "g = fold (gw_onStateChange ok) changes \<lparr>adapters = as, gw_active = False\<rparr>"
    and "list_all (\<lambda>a. \<not> ad_connected a) as"
  shows "gw_active g = last changes \<and> (\<not> last changes \<longrightarrow> disconnected ok g)"
proof -
  have "gw_active h \<or> disconnected ok h \<Longrightarrow> cs \<noteq> [] \<Longrightarrow> gw_active (fold (gw_onStateChange ok) cs h) = last cs
      \<and> (last cs \<or> disconnected ok (fold (gw_onStateChange ok) cs h))" for cs h
  proof (induction cs arbitrary: h)
    case (Cons l cs)
    then show ?case
      using disconnected_change [OF Cons.prems(1), of l] active_change [of ok l h] by (cases "cs = []") auto
  qed simp
  moreover have "disconnected ok \<lparr>adapters = as, gw_active = False\<rparr>"
    using assms(3) by (auto simp: disconnected_def list_all_iff)
  ultimately show ?thesis using assms(1,2) by blast
qed

theorem gateway_active_iff_leader_witness:
  "let g = fold (gw_onStateChange (\<lambda>_. True)) [True, False] \<lparr>adapters = [\<lparr>ad_name = ''t'', ad_connected = False\<rparr>], gw_active = False\<rparr>
   in gw_active g = False \<and> disconnected (\<lambda>_. True) g"
  using gateway_active_iff_leader [of "[True, False]", OF _ refl, of "[\<lparr>ad_name = ''t'', ad_connected = False\<rparr>]" "\<lambda>_. True"]
  by (simp add: Let_def)

end
