(* ===== verification/Secrets.thy ===== *)
theory Secrets
  imports Prelude
begin

text \<open>
  The secrets store of \<open>src/security/secrets.ts\<close>. The cipher is a parameter: \<open>seal k iv p\<close>
  gives the tag and the bytes that AES-256-GCM produces (\<open>None\<close>: the cipher throws, as it
  does for a key that has not 32 bytes), \<open>unseal k iv tag c\<close> the plain text (\<open>None\<close>: it
  throws). Bytes are characters; the hexadecimal texts of keys, vectors, tags and ciphers
  are written and read as \<open>Buffer\<close> does. The directory is part of the state: the key file
  and the parsed \<open>secrets.json\<close> (\<open>None\<close>: no file, or one that does not parse). \<open>iv i\<close> are the
  random bytes drawn for the secret \<open>i\<close>.
\<close>

section \<open>Data\<close>

record Secret =
  sec_name :: string
  sec_value :: string
  sec_encrypted :: bool
  sec_createdAt :: int
  sec_updatedAt :: int

record SecretsManager =
  masterKey :: "string option"
  secrets :: "(string, Secret) jsmap"
  sec_loaded :: bool
  keyFile :: "string option"
  secretsFile :: "(string, Secret) jsmap option"

definition new_SecretsManager :: "string option \<Rightarrow> (string, Secret) jsmap option \<Rightarrow> SecretsManager" where
  "new_SecretsManager key stored = \<lparr>masterKey = None, secrets = [], sec_loaded = False, keyFile = key, secretsFile = stored\<rparr>"

type_synonym sealing = "string \<Rightarrow> string \<Rightarrow> string \<Rightarrow> (string \<times> string) option"

type_synonym unsealing = "string \<Rightarrow> string \<Rightarrow> string \<Rightarrow> string \<Rightarrow> string option"

section \<open>Encryption\<close>

text \<open>\<open>split(':')\<close>.\<close>

fun splitColon :: "string \<Rightarrow> string list" where
  "splitColon [] = [[]]"
| "splitColon (c # s) =
     (if c = CHR '':'' then [] # splitColon s
      else case splitColon s of p # ps \<Rightarrow> (c # p) # ps | [] \<Rightarrow> [[c]])"

text \<open>
  \<open>toString('hex')\<close>, and \<open>Buffer.from(s, 'hex')\<close>: pairs of digits up to the first pair that is
  not one; a single last digit is dropped.
\<close>

definition hexDigits :: string where
  "hexDigits = ''0123456789abcdef''"

definition toHex :: "string \<Rightarrow> string" where
  "toHex bs = concat (map (\<lambda>c. let n = (of_char c :: nat) in [hexDigits ! (n div 16), hexDigits ! (n mod 16)]) bs)"

definition hexValue :: "char \<Rightarrow> nat option" where
  "hexValue c =
     (let n = (of_char c :: nat)
      in if 48 \<le> n \<and> n \<le> 57 then Some (n - 48)
         else if 97 \<le> n \<and> n \<le> 102 then Some (n - 87)
         else if 65 \<le> n \<and> n \<le> 70 then Some (n - 55) else None)"

fun fromHex :: "string \<Rightarrow> string" where
  "fromHex (a # b # s) =
     (case (hexValue a, hexValue b) of (Some x, Some y) \<Rightarrow> char_of (16 * x + y) # fromHex s | _ \<Rightarrow> [])"
| "fromHex _ = []"

definition encrypt :: "sealing \<Rightarrow> string \<Rightarrow> string \<Rightarrow> string \<Rightarrow> string option" where
  "encrypt seal k iv p = map_option (\<lambda>(tag, c). toHex iv @ '':'' @ toHex tag @ '':'' @ toHex c) (seal k iv p)"

text \<open>Missing parts are \<open>undefined\<close>, on which \<open>Buffer.from\<close> or the cipher throws; more than three are ignored.\<close>

definition decrypt :: "unsealing \<Rightarrow> string \<Rightarrow> string \<Rightarrow> string option" where
  "decrypt unseal k s = (case splitColon s of iv # tag # c # _ \<Rightarrow> unseal k (fromHex iv) (fromHex tag) (fromHex c) | _ \<Rightarrow> None)"

section \<open>Loading and saving\<close>

text \<open>The loop of \<open>loadSecrets\<close>; it ends at the first secret whose decryption throws.\<close>

fun loadLoop :: "unsealing \<Rightarrow> string option \<Rightarrow> (string, Secret) jsmap \<Rightarrow> (string, Secret) jsmap \<Rightarrow> (string, Secret) jsmap" where
  "loadLoop unseal key [] acc = acc"
| "loadLoop unseal key ((i, x) # rest) acc =
     (case (sec_encrypted x, key) of
        (True, Some k) \<Rightarrow>
          (case decrypt unseal k (sec_value x) of
             None \<Rightarrow> acc
           | Some v \<Rightarrow> loadLoop unseal key rest (jm_set i (x\<lparr>sec_value := v\<rparr>) acc))
      | _ \<Rightarrow> loadLoop unseal key rest (jm_set i x acc))"

definition loadSecrets :: "unsealing \<Rightarrow> SecretsManager \<Rightarrow> SecretsManager" where
  "loadSecrets unseal m =
     m\<lparr>secrets := (case secretsFile m of None \<Rightarrow> secrets m | Some f \<Rightarrow> loadLoop unseal (masterKey m) f (secrets m)), sec_loaded := True\<rparr>"

text \<open>
  \<open>env\<close>: the value of the environment variable, read as hexadecimal; \<open>fresh\<close>: the 32 random
  bytes drawn if there is no other key. The size of the key is not looked at.
\<close>

definition sec_initialize :: "unsealing \<Rightarrow> string option \<Rightarrow> string \<Rightarrow> SecretsManager \<Rightarrow> SecretsManager" where
  "sec_initialize unseal env fresh m =
     loadSecrets unseal
       (if truthy env then m\<lparr>masterKey := Some (fromHex (the env))\<rparr>
        else case keyFile m of Some k \<Rightarrow> m\<lparr>masterKey := Some k\<rparr> | None \<Rightarrow> m\<lparr>masterKey := Some fresh, keyFile := Some fresh\<rparr>)"

text \<open>
  One property of the object that is stored; \<open>None\<close>: the cipher throws. Assigning the name
  \<open>__proto__\<close> sets the prototype of the object, which is not written out.
\<close>

fun storeLoop :: "sealing \<Rightarrow> (string \<Rightarrow> string) \<Rightarrow> string option \<Rightarrow> (string, Secret) jsmap \<Rightarrow> (string, Secret) jsmap option" where
  "storeLoop seal iv key [] = Some []"
| "storeLoop seal iv key ((i, x) # rest) =
     (case (case key of Some k \<Rightarrow> encrypt seal k (iv i) (sec_value x) | None \<Rightarrow> Some (sec_value x)) of
        None \<Rightarrow> None
      | Some v \<Rightarrow> map_option (\<lambda>f. if i = ''__proto__'' then f else (i, x\<lparr>sec_value := v, sec_encrypted := (key \<noteq> None)\<rparr>) # f)
                    (storeLoop seal iv key rest))"

text \<open>The flag tells whether the promise is fulfilled.\<close>

definition saveSecrets :: "sealing \<Rightarrow> (string \<Rightarrow> string) \<Rightarrow> SecretsManager \<Rightarrow> SecretsManager \<times> bool" where
  "saveSecrets seal iv m =
     (case storeLoop seal iv (masterKey m) (secrets m) of None \<Rightarrow> (m, False) | Some f \<Rightarrow> (m\<lparr>secretsFile := Some f\<rparr>, True))"

section \<open>Operations\<close>

definition sec_set :: "sealing \<Rightarrow> (string \<Rightarrow> string) \<Rightarrow> int \<Rightarrow> string \<Rightarrow> string \<Rightarrow> SecretsManager \<Rightarrow> SecretsManager \<times> bool" where
  "sec_set seal iv now i v m =
     saveSecrets seal iv (m\<lparr>secrets := jm_set i \<lparr>sec_name = i, sec_value = v, sec_encrypted = (masterKey m \<noteq> None),
       sec_createdAt = (case jm_get (secrets m) i of Some x \<Rightarrow> sec_createdAt x | None \<Rightarrow> now), sec_updatedAt = now\<rparr> (secrets m)\<rparr>)"

definition sec_get :: "string \<Rightarrow> SecretsManager \<Rightarrow> string option" where
  "sec_get i m = map_option sec_value (jm_get (secrets m) i)"

text \<open>\<open>None\<close>: saving has failed.\<close>

definition sec_delete :: "sealing \<Rightarrow> (string \<Rightarrow> string) \<Rightarrow> string \<Rightarrow> SecretsManager \<Rightarrow> SecretsManager \<times> bool option" where
  "sec_delete seal iv i m =
     (if jm_has (secrets m) i
      then let (m', ok) = saveSecrets seal iv (m\<lparr>secrets := jm_delete i (secrets m)\<rparr>) in (m', if ok then Some True else None)
      else (m, Some False))"

definition sec_list :: "SecretsManager \<Rightarrow> string list" where
  "sec_list m = jm_keys (secrets m)"

definition sec_has :: "string \<Rightarrow> SecretsManager \<Rightarrow> bool" where
  "sec_has i m = jm_has (secrets m) i"

section \<open>Environment variables\<close>

text \<open>The replacement of every match of \<open>/\$\{([^}]+)\}/g\<close>.\<close>

function interpolate :: "(string \<Rightarrow> string option) \<Rightarrow> string \<Rightarrow> string" where
  "interpolate get s =
     (case s of
        [] \<Rightarrow> []
      | c # s' \<Rightarrow>
          (if startsWith s ''${''
           then let name = takeWhile (\<lambda>d. d \<noteq> CHR ''}'') (drop 2 s); rest = drop (2 + length name) s
                in if name \<noteq> [] \<and> rest \<noteq> []
                   then (case get name of Some v \<Rightarrow> v | None \<Rightarrow> ''${'' @ name @ ''}'') @ interpolate get (tl rest)
                   else c # interpolate get s'
           else c # interpolate get s'))"
  by pat_completeness auto
termination
  by (relation "measure (\<lambda>(get, s). length s)") auto

declare interpolate.simps [simp del]

definition injectSecrets :: "SecretsManager \<Rightarrow> (string \<times> string) list \<Rightarrow> (string \<times> string) list" where
  "injectSecrets m env = map (\<lambda>(k, v). (k, interpolate (\<lambda>i. sec_get i m) v)) env"

definition getSecretsAsEnv :: "string option \<Rightarrow> SecretsManager \<Rightarrow> (string, string) jsmap" where
  "getSecretsAsEnv prefix m =
     fold (\<lambda>i env. if truthy (sec_get i m) then jm_set (nullish prefix ''SECRET_'' @ map asciiUpper i) (the (sec_get i m)) env else env)
       (sec_list m) []"

text \<open>Password hashes: \<open>kdf\<close> is PBKDF2; a comparison of texts of different lengths throws (\<open>None\<close>).\<close>

definition sec_hash :: "(string \<Rightarrow> string \<Rightarrow> string) \<Rightarrow> string \<Rightarrow> string option \<Rightarrow> string \<Rightarrow> string \<times> string" where
  "sec_hash kdf random salt v = (let s = nullish salt random in (kdf v s, s))"

definition verifyHash :: "(string \<Rightarrow> string \<Rightarrow> string) \<Rightarrow> string \<Rightarrow> string \<Rightarrow> string \<Rightarrow> bool option" where
  "verifyHash kdf v h salt = (if length (kdf v salt) = length h then Some (kdf v salt = h) else None)"

end
