(* ===== verification/SecretsProps.thy ===== *)
theory SecretsProps
  imports Secrets "HOL-Library.Countable"
begin

text \<open>
  Properties of the secrets store: what was set is read back after restarts with the
  same key of 32 bytes, and nothing is stored with a key of another size; placeholders in environment variables are replaced once; and one secret that
  cannot be decrypted costs all those after it.
\<close>

section \<open>Encryption\<close>

definition colon_free :: "string \<Rightarrow> bool" where
  "colon_free s \<longleftrightarrow> CHR '':'' \<notin> set s"

lemma splitColon_free: "colon_free a \<Longrightarrow> splitColon a = [a]"
  by (induction a) (auto simp: colon_free_def)

lemma splitColon_append: "colon_free a \<Longrightarrow> splitColon (a @ CHR '':'' # s) = a # splitColon s"
  by (induction a) (auto simp: colon_free_def)

lemma hexDigits_value: "n < 16 \<Longrightarrow> hexValue (hexDigits ! n) = Some n \<and> hexDigits ! n \<noteq> CHR '':''"
proof -
  have "list_all (\<lambda>n. hexValue (hexDigits ! n) = Some n \<and> hexDigits ! n \<noteq> CHR '':'') [0..<16]" by code_simp
  then show "n < 16 \<Longrightarrow> ?thesis" by (simp add: list_all_iff)
qed

lemma toHex_Cons: "toHex (c # s) = hexDigits ! ((of_char c :: nat) div 16) # hexDigits ! ((of_char c :: nat) mod 16) # toHex s"
  by (simp add: toHex_def Let_def)

lemma byte_div: "(of_char c :: nat) div 16 < 16"
  by (rule less_mult_imp_div_less) simp

lemma fromHex_toHex [simp]: "fromHex (toHex bs) = bs"
proof (induction bs)
  case (Cons c bs)
  have "char_of (16 * ((of_char c :: nat) div 16) + (of_char c :: nat) mod 16) = c" by simp
  with Cons hexDigits_value [OF byte_div [of c]] hexDigits_value [of "(of_char c :: nat) mod 16"] show ?case by (simp add: toHex_Cons)
qed (simp add: toHex_def)

lemma colon_free_toHex [simp]: "colon_free (toHex bs)"
proof (induction bs)
  case (Cons c bs)
  then show ?case using hexDigits_value [OF byte_div [of c]] hexDigits_value [of "(of_char c :: nat) mod 16"]
    by (auto simp: colon_free_def toHex_Cons)
qed (simp add: colon_free_def toHex_def)

text \<open>
  What the store relies on of AES-256-GCM: with a key of 32 bytes and a vector that is not
  empty the cipher succeeds and deciphering gives the text back; with a key of any other
  size it throws.
\<close>

definition sound_cipher :: "sealing \<Rightarrow> unsealing \<Rightarrow> bool" where
  "sound_cipher seal unseal \<longleftrightarrow>
     (\<forall>k iv p. length k = 32 \<and> iv \<noteq> [] \<longrightarrow> (\<exists>tag c. seal k iv p = Some (tag, c) \<and> unseal k iv tag c = Some p))
   \<and> (\<forall>k iv p. length k \<noteq> 32 \<longrightarrow> seal k iv p = None)"

lemma decrypt_encrypt:
  assumes "sound_cipher seal unseal" and "length k = 32" and "iv \<noteq> []"
  shows "\<exists>s. encrypt seal k iv p = Some s \<and> decrypt unseal k s = Some p"
proof -
  obtain tag c where "seal k iv p = Some (tag, c)" "unseal k iv tag c = Some p"
    using assms unfolding sound_cipher_def by blast
  then show ?thesis by (simp add: encrypt_def decrypt_def splitColon_append splitColon_free)
qed

section \<open>Restart\<close>

lemma store_load:
  assumes "sound_cipher seal unseal" and "\<And>i. iv i \<noteq> []" and "distinct (map fst xs)" and "length k = 32"
  shows "\<exists>f. storeLoop seal iv (Some k) xs = Some f \<and> (\<forall>acc i. i \<noteq> ''__proto__'' \<longrightarrow>
    map_option sec_value (jm_get (loadLoop unseal (Some k) f acc) i)
      = (case map_of xs i of Some x \<Rightarrow> Some (sec_value x) | None \<Rightarrow> map_option sec_value (jm_get acc i)))"
  using assms(3)
proof (induction xs)
  case (Cons ix xs)
  obtain i x where ix: "ix = (i, x)" by fastforce
  obtain f where f: "storeLoop seal iv (Some k) xs = Some f" "\<And>acc j. j \<noteq> ''__proto__'' \<Longrightarrow>
      map_option sec_value (jm_get (loadLoop unseal (Some k) f acc) j)
        = (case map_of xs j of Some y \<Rightarrow> Some (sec_value y) | None \<Rightarrow> map_option sec_value (jm_get acc j))"
    using Cons by auto
  obtain s where s: "encrypt seal k (iv i) (sec_value x) = Some s" "decrypt unseal k s = Some (sec_value x)"
    using decrypt_encrypt [OF assms(1,4,2)] by blast
  have "map_of xs i = None" using Cons.prems ix by (simp add: map_of_eq_None_iff)
  with f s ix show ?case by (auto split: option.splits)
qed simp

definition saved :: "unsealing \<Rightarrow> string \<Rightarrow> SecretsManager \<Rightarrow> bool" where
  "saved unseal k m \<longleftrightarrow> masterKey m = Some k \<and> jm_wf (secrets m) \<and> (\<forall>i. i \<noteq> ''__proto__'' \<longrightarrow>
     map_option sec_value (jm_get (case secretsFile m of Some f \<Rightarrow> loadLoop unseal (Some k) f [] | None \<Rightarrow> []) i) = sec_get i m)"

lemma saved_save:
  assumes "sound_cipher seal unseal" and "\<And>i. iv i \<noteq> []" and "masterKey m = Some k" and "jm_wf (secrets m)" and "length k = 32"
  shows "saved unseal k (fst (saveSecrets seal iv m)) \<and> snd (saveSecrets seal iv m) \<and> keyFile (fst (saveSecrets seal iv m)) = keyFile m"
proof -
  have "distinct (map fst (secrets m))" using assms(4) by (simp add: jm_wf_def)
  from store_load [where iv = iv and k = k, OF assms(1,2) this assms(5)] obtain f where f: "storeLoop seal iv (Some k) (secrets m) = Some f"
    "\<forall>acc i. i \<noteq> ''__proto__'' \<longrightarrow> map_option sec_value (jm_get (loadLoop unseal (Some k) f acc) i)
        = (case map_of (secrets m) i of Some x \<Rightarrow> Some (sec_value x) | None \<Rightarrow> map_option sec_value (jm_get acc i))"
    by metis
  then have "map_option sec_value (jm_get (loadLoop unseal (Some k) f []) i) = sec_get i m" if "i \<noteq> ''__proto__''" for i
    using that by (simp add: sec_get_def jm_get_def split: option.splits)
  with f(1) assms(3,4) show ?thesis by (simp add: saveSecrets_def saved_def sec_get_def)
qed

text \<open>
  What happens to a store: secrets are set and deleted, with the vectors \<open>iv\<close> drawn then, and
  the process is restarted, with the key \<open>fresh\<close> drawn in case there is none.
\<close>

datatype SecOp = SetSecret "string \<Rightarrow> string" int string string | DeleteSecret "string \<Rightarrow> string" string | Restart string

fun op_vectors :: "SecOp \<Rightarrow> bool" where
  "op_vectors (SetSecret iv _ _ _) \<longleftrightarrow> (\<forall>i. length (iv i) = 16)"
| "op_vectors (DeleteSecret iv _) \<longleftrightarrow> (\<forall>i. length (iv i) = 16)"
| "op_vectors (Restart _) \<longleftrightarrow> True"

definition restarted :: "unsealing \<Rightarrow> string option \<Rightarrow> string \<Rightarrow> SecretsManager \<Rightarrow> SecretsManager" where
  "restarted unseal env fresh m = sec_initialize unseal env fresh (new_SecretsManager (keyFile m) (secretsFile m))"

fun sec_op :: "sealing \<Rightarrow> unsealing \<Rightarrow> string option \<Rightarrow> SecOp \<Rightarrow> SecretsManager \<Rightarrow> SecretsManager" where
  "sec_op seal unseal env (SetSecret iv now i v) m = fst (sec_set seal iv now i v m)"
| "sec_op seal unseal env (DeleteSecret iv i) m = fst (sec_delete seal iv i m)"
| "sec_op seal unseal env (Restart fresh) m = restarted unseal env fresh m"

text \<open>The key of the first start: the environment's, the stored one, or the fresh one.\<close>

definition firstKey :: "string option \<Rightarrow> string option \<Rightarrow> string \<Rightarrow> string" where
  "firstKey env stored fresh = (if truthy env then fromHex (the env) else nullish stored fresh)"

definition store_inv :: "unsealing \<Rightarrow> string option \<Rightarrow> string \<Rightarrow> SecretsManager \<Rightarrow> bool" where
  "store_inv unseal env k m \<longleftrightarrow> saved unseal k m \<and> (if truthy env then fromHex (the env) = k else keyFile m = Some k)"

lemma wf_loadLoop: "jm_wf acc \<Longrightarrow> jm_wf (loadLoop unseal key f acc)"
  by (induction unseal key f acc rule: loadLoop.induct) (auto split: option.splits bool.splits)

lemma restart_reads:
  assumes "store_inv unseal env k m"
  shows "store_inv unseal env k (restarted unseal env fresh m)" and "i \<noteq> ''__proto__'' \<Longrightarrow> sec_get i (restarted unseal env fresh m) = sec_get i m"
proof -
  have k: "masterKey (restarted unseal env fresh m) = Some k" "secretsFile (restarted unseal env fresh m) = secretsFile m"
    "if truthy env then fromHex (the env) = k else keyFile (restarted unseal env fresh m) = Some k"
    "secrets (restarted unseal env fresh m) = (case secretsFile m of Some f \<Rightarrow> loadLoop unseal (Some k) f [] | None \<Rightarrow> [])"
    using assms by (auto simp: restarted_def sec_initialize_def loadSecrets_def new_SecretsManager_def store_inv_def split: option.splits if_splits)
  moreover have "jm_wf (case secretsFile m of Some f \<Rightarrow> loadLoop unseal (Some k) f [] | None \<Rightarrow> [])"
    by (auto simp: jm_wf_def intro: wf_loadLoop [unfolded jm_wf_def] split: option.split)
  ultimately show "store_inv unseal env k (restarted unseal env fresh m)" by (simp add: store_inv_def saved_def sec_get_def)
  show "i \<noteq> ''__proto__'' \<Longrightarrow> sec_get i (restarted unseal env fresh m) = sec_get i m"
    using assms k(4) by (simp add: store_inv_def saved_def sec_get_def)
qed

lemma vector_nonempty: "length (v :: string) = 16 \<Longrightarrow> v \<noteq> []"
  by auto

lemma store_inv_op:
  assumes "sound_cipher seal unseal" and "length k = 32" and "op_vectors a" and "store_inv unseal env k m"
  shows "store_inv unseal env k (sec_op seal unseal env a m)"
proof (cases a)
  case (SetSecret iv now i v)
  let ?m = "m\<lparr>secrets := jm_set i \<lparr>sec_name = i, sec_value = v, sec_encrypted = (masterKey m \<noteq> None),
    sec_createdAt = (case jm_get (secrets m) i of Some x \<Rightarrow> sec_createdAt x | None \<Rightarrow> now), sec_updatedAt = now\<rparr> (secrets m)\<rparr>"
  have "masterKey ?m = Some k" "jm_wf (secrets ?m)" "iv j \<noteq> []" for j
    using assms(3,4) SetSecret vector_nonempty [of "iv j"] by (auto simp: store_inv_def saved_def)
  from saved_save [OF assms(1) this(3,1,2) assms(2)] assms(4) SetSecret show ?thesis by (simp add: sec_set_def store_inv_def)
next
  case (DeleteSecret iv i)
  have "masterKey (m\<lparr>secrets := jm_delete i (secrets m)\<rparr>) = Some k" "jm_wf (secrets (m\<lparr>secrets := jm_delete i (secrets m)\<rparr>))" "iv j \<noteq> []" for j
    using assms(3,4) DeleteSecret vector_nonempty [of "iv j"] by (auto simp: store_inv_def saved_def)
  from saved_save [OF assms(1) this(3,1,2) assms(2)] assms(4) DeleteSecret show ?thesis
    by (simp add: sec_delete_def store_inv_def case_prod_unfold Let_def)
next
  case (Restart fresh)
  with restart_reads(1) [OF assms(4)] show ?thesis by simp
qed

lemma store_inv_run:
  "sound_cipher seal unseal \<Longrightarrow> length k = 32 \<Longrightarrow> list_all op_vectors ops \<Longrightarrow> store_inv unseal env k m \<Longrightarrow>
     store_inv unseal env k (fold (sec_op seal unseal env) ops m)"
  by (induction ops arbitrary: m) (auto intro: store_inv_op)

text \<open>
  C35. Secrets survive a restart. On a store that began without secrets, with a key of 32
  bytes (64 hexadecimal digits in the environment variable, the stored key, or a fresh
  one) and the same environment throughout: after any sequence of setting and deleting
  secrets and of restarts, a new process finds the same key and reads back every value,
  and no other. The name \<open>__proto__\<close> is left out, since it is not written to the file; of the
  cipher it is assumed that it succeeds and can be undone for such keys.
\<close>

theorem secrets_survive_restart:
  assumes "sound_cipher seal unseal" and "length (firstKey env stored fresh) = 32" and "list_all op_vectors ops"
    and "m = fold (sec_op seal unseal env) ops (sec_initialize unseal env fresh (new_SecretsManager stored None))" and "i \<noteq> ''__proto__''"
  shows "sec_get i (sec_initialize unseal env fresh' (new_SecretsManager (keyFile m) (secretsFile m))) = sec_get i m"
proof -
  let ?m0 = "sec_initialize unseal env fresh (new_SecretsManager stored None)"
  have "store_inv unseal env (firstKey env stored fresh) ?m0"
    by (auto simp: store_inv_def saved_def firstKey_def nullish_def sec_initialize_def loadSecrets_def new_SecretsManager_def sec_get_def split: option.splits)
  from store_inv_run [OF assms(1-3) this] have "store_inv unseal env (firstKey env stored fresh) m" unfolding assms(4) .
  from restart_reads(2) [OF this assms(5), of fresh'] show ?thesis by (simp add: restarted_def)
qed

definition ex_seal :: sealing where
  "ex_seal k iv p = (if length k = 32 then Some (''t'', replicate (to_nat p) CHR ''0'') else None)"

definition ex_unseal :: unsealing where
  "ex_unseal k iv tag c = (if length k = 32 then Some (from_nat (length c)) else None)"

lemma ex_sound: "sound_cipher ex_seal ex_unseal"
  by (auto simp: sound_cipher_def ex_seal_def ex_unseal_def)

definition ex_key :: string where
  "ex_key = replicate 64 CHR ''a''"

lemma ex_key_size: "length (firstKey (Some ex_key) None fresh) = 32"
proof -
  have "length (fromHex ex_key) = 32" by code_simp
  moreover have "ex_key \<noteq> []" by (simp add: ex_key_def)
  ultimately show ?thesis by (simp add: firstKey_def truthy_def)
qed

theorem secrets_survive_restart_witness:
  "let m = fold (sec_op ex_seal ex_unseal (Some ex_key)) [SetSecret (\<lambda>_. replicate 16 CHR ''v'') 1 ''db'' ''pw'']
             (sec_initialize ex_unseal (Some ex_key) [] (new_SecretsManager None None))
   in sec_get ''db'' (sec_initialize ex_unseal (Some ex_key) ''other'' (new_SecretsManager (keyFile m) (secretsFile m))) = Some ''pw''"
proof -
  let ?ops = "[SetSecret (\<lambda>_. replicate 16 CHR ''v'') 1 ''db'' ''pw'']"
  let ?m = "fold (sec_op ex_seal ex_unseal (Some ex_key)) ?ops (sec_initialize ex_unseal (Some ex_key) [] (new_SecretsManager None None))"
  have ops: "list_all op_vectors ?ops" by simp
  have m: "sec_get ''db'' ?m = Some ''pw''"
    by (simp add: sec_set_def saveSecrets_def sec_get_def split: option.split)
  have "sec_get ''db'' (sec_initialize ex_unseal (Some ex_key) ''other'' (new_SecretsManager (keyFile ?m) (secretsFile ?m))) = sec_get ''db'' ?m"
    by (rule secrets_survive_restart [OF ex_sound ex_key_size ops refl]) simp
  then show ?thesis unfolding m Let_def by simp
qed

lemma jm_set_nonempty: "jm_set i x s \<noteq> []"
  by (cases s) (auto simp: jm_set_def)

text \<open>
  With a key of any other size, which the environment variable can hold, nothing is ever
  stored: every secret that is set stays in memory only, and the promise is rejected.
\<close>

theorem bad_key_stores_nothing:
  assumes "sound_cipher seal unseal" and "truthy env" and "length (fromHex (the env)) \<noteq> 32"
    and "m = sec_initialize unseal env fresh (new_SecretsManager stored file)"
  shows "snd (sec_set seal iv now i v m) = False \<and> secretsFile (fst (sec_set seal iv now i v m)) = file \<and> sec_get i (fst (sec_set seal iv now i v m)) = Some v"
proof -
  have m: "masterKey m = Some (fromHex (the env))" "secretsFile m = file"
    using assms(2) by (simp_all add: assms(4) sec_initialize_def loadSecrets_def new_SecretsManager_def)
  have fails: "storeLoop seal iv (Some (fromHex (the env))) xs = None" if "xs \<noteq> []" for xs
    using that assms(1,3) by (cases xs) (auto simp: encrypt_def sound_cipher_def)
  from fails [OF jm_set_nonempty] m show ?thesis by (simp add: sec_set_def saveSecrets_def sec_get_def)
qed

section \<open>A secret that cannot be decrypted\<close>

text \<open>
  One bad secret costs the others: if the first stored secret does not decrypt under the
  present key, loading stops there without an error, and the next secret that is set
  replaces the file by one that holds nothing but it.
\<close>

theorem undecryptable_secret_loses_rest:
  assumes "secretsFile m = Some ((i, x) # rest)" and "sec_encrypted x" and "secrets m = []" and "truthy env"
    and "decrypt unseal (fromHex (the env)) (sec_value x) = None" and "sec_set seal iv now j v (sec_initialize unseal env fresh m) = (m', True)"
  shows "sec_list m' = [j] \<and> (\<exists>f. secretsFile m' = Some f \<and> set (jm_keys f) \<subseteq> {j})"
proof -
  have "secrets (sec_initialize unseal env fresh m) = []" "masterKey (sec_initialize unseal env fresh m) = Some (fromHex (the env))"
    using assms(1-5) by (cases env; auto simp: sec_initialize_def loadSecrets_def truthy_def)+
  then have "secrets m' = [(j, \<lparr>sec_name = j, sec_value = v, sec_encrypted = True, sec_createdAt = now, sec_updatedAt = now\<rparr>)]"
    and "\<exists>f. secretsFile m' = Some f \<and> storeLoop seal iv (Some (fromHex (the env))) (secrets m') = Some f"
    using assms(6) by (auto simp: sec_set_def saveSecrets_def jm_set_def split: option.splits)
  then show ?thesis by (auto simp: sec_list_def jm_keys_def split: option.splits if_splits)
qed

theorem undecryptable_secret_loses_rest_witness:
  "sec_list (fst (sec_set ex_seal (\<lambda>_. replicate 16 CHR ''v'') 2 ''new'' ''v'' (sec_initialize ex_unseal (Some ex_key) ''k''
     (new_SecretsManager None (Some [(''bad'', \<lparr>sec_name = ''bad'', sec_value = ''xyz'', sec_encrypted = True, sec_createdAt = 0, sec_updatedAt = 0\<rparr>),
       (''db'', \<lparr>sec_name = ''db'', sec_value = ''0f:aa:0'', sec_encrypted = True, sec_createdAt = 0, sec_updatedAt = 0\<rparr>)]))))) = [''new'']"
proof -
  let ?bad = "\<lparr>sec_name = ''bad'', sec_value = ''xyz'', sec_encrypted = True, sec_createdAt = 0, sec_updatedAt = 0\<rparr>"
  let ?rest = "[(''db'', \<lparr>sec_name = ''db'', sec_value = ''0f:aa:0'', sec_encrypted = True, sec_createdAt = 0, sec_updatedAt = 0\<rparr>)]"
  let ?m = "new_SecretsManager None (Some ((''bad'', ?bad) # ?rest))"
  let ?r = "sec_set ex_seal (\<lambda>_. replicate 16 CHR ''v'') 2 ''new'' ''v'' (sec_initialize ex_unseal (Some ex_key) ''k'' ?m)"
  have start: "secretsFile ?m = Some ((''bad'', ?bad) # ?rest)" "sec_encrypted ?bad" "secrets ?m = []" "truthy (Some ex_key)"
    "decrypt ex_unseal (fromHex (the (Some ex_key))) (sec_value ?bad) = None"
    by (simp_all add: new_SecretsManager_def truthy_def decrypt_def ex_key_def)
  have "length (fromHex ex_key) = 32" "ex_key \<noteq> []" by code_simp+
  then have "?r = (fst ?r, True)"
    by (simp add: sec_set_def saveSecrets_def encrypt_def ex_seal_def sec_initialize_def loadSecrets_def new_SecretsManager_def decrypt_def truthy_def jm_set_def)
  from undecryptable_secret_loses_rest [OF start this] show ?thesis by simp
qed

section \<open>Placeholders\<close>

lemma interpolate_skip: "CHR ''$'' \<noteq> c \<Longrightarrow> interpolate get (c # s) = c # interpolate get s"
  by (subst interpolate.simps) (auto simp: startsWith_def)

lemma interpolate_plain: "CHR ''$'' \<notin> set a \<Longrightarrow> interpolate get (a @ s) = a @ interpolate get s"
  by (induction a) (simp_all add: interpolate_skip)

text \<open>
  A placeholder is replaced by its secret, or kept when there is none; the text put in is
  not searched for placeholders again.
\<close>

lemma interpolate_placeholder:
  assumes "CHR ''$'' \<notin> set a" and "n \<noteq> []" and "CHR ''}'' \<notin> set n"
  shows "interpolate get (a @ ''${'' @ n @ ''}'' @ b) = a @ (case get n of Some v \<Rightarrow> v | None \<Rightarrow> ''${'' @ n @ ''}'') @ interpolate get b"
proof -
  have "takeWhile (\<lambda>d. d \<noteq> CHR ''}'') (n @ ''}'' @ b) = n" using assms(3) by (subst takeWhile_append2) auto
  then have "interpolate get (''${'' @ n @ ''}'' @ b) = (case get n of Some v \<Rightarrow> v | None \<Rightarrow> ''${'' @ n @ ''}'') @ interpolate get b"
    using assms(2) by (subst interpolate.simps) (simp add: startsWith_def Let_def)
  with interpolate_plain [OF assms(1)] show ?thesis by simp
qed

end
