(* ===== verification/Subagent.thy ===== *)
theory Subagent
  imports MessagingProps ClusterScheduler
begin

text \<open>
  The agent that carries out a subagent task (\<open>src/agent/subagent-executor.ts\<close>): it talks
  to the model's interface turn by turn, runs the tools the model asks for and sends their
  results back, until the model ends its turn or the turns are used up.

  The interface of the model and the tools are outside code acting on a world \<open>'w\<close>:
  \<open>se_api\<close> answers a request or throws (\<open>Inl\<close>), the handlers of \<open>se_availableTools\<close>
  likewise; \<open>se_clock\<close> reads \<open>Date.now()\<close>. Inputs and schemas of tools are opaque texts.
\<close>

section \<open>JSON texts\<close>

text \<open>\<open>JSON.stringify\<close> of a string, and of an object with the one field \<open>error\<close>.\<close>

definition hexDigit :: "nat \<Rightarrow> char" where
  "hexDigit n = (if n < 10 then char_of (48 + n) else char_of (87 + n))"

definition jsonChar :: "char \<Rightarrow> string" where
  "jsonChar c =
     (let n = (of_char c :: nat); bs = CHR 0x5C
      in if n = 34 \<or> n = 92 then [bs, c]
         else if n = 8 then [bs, CHR ''b''] else if n = 9 then [bs, CHR ''t''] else if n = 10 then [bs, CHR ''n'']
         else if n = 12 then [bs, CHR ''f''] else if n = 13 then [bs, CHR ''r'']
         else if n < 32 then [bs, CHR ''u'', CHR ''0'', CHR ''0'', hexDigit (n div 16), hexDigit (n mod 16)]
         else [c])"

definition jsonString :: "string \<Rightarrow> string" where
  "jsonString s = [CHR 0x22] @ concat (map jsonChar s) @ [CHR 0x22]"

definition jsonError :: "string \<Rightarrow> string" where
  "jsonError m = ''{'' @ jsonString ''error'' @ '':'' @ jsonString m @ ''}''"

section \<open>Data\<close>

record ToolCallRecord =
  tr_name :: string
  tr_input :: string
  tr_output :: string
  tr_timestamp :: int

record SubagentResult =
  sr_success :: bool
  sr_response :: string
  sr_toolCalls :: "ToolCallRecord list"
  sr_turns :: int
  sr_inputTokens :: int
  sr_outputTokens :: int
  sr_error :: "string option"

record 'w ToolDefinition =
  td_name :: string
  td_description :: string
  td_inputSchema :: string
  td_handler :: "string \<Rightarrow> 'w \<Rightarrow> 'w \<times> (string + string)"

record ApiTool =
  at_name :: string
  at_description :: string
  at_input_schema :: string

record ApiRequest =
  rq_model :: string
  rq_max_tokens :: int
  rq_system :: string
  rq_messages :: history
  rq_tools :: "ApiTool list option"

record ApiResponse =
  as_content :: "ContentBlock list"
  as_stop_reason :: string
  as_input_tokens :: int
  as_output_tokens :: int

datatype SubEvent = TurnEvent int int | TextEvent string | ToolCallEvent string string | ToolResultEvent string string

record 'w SubagentExecutor =
  se_defaultModel :: string
  se_maxTurns :: int
  se_availableTools :: "(string, 'w ToolDefinition) jsmap option"
  se_api :: "ApiRequest \<Rightarrow> 'w \<Rightarrow> 'w \<times> (string + ApiResponse)"
  se_clock :: "'w \<Rightarrow> int"

definition new_SubagentExecutor :: "string option \<Rightarrow> int option \<Rightarrow> (string, 'w ToolDefinition) jsmap option
    \<Rightarrow> (ApiRequest \<Rightarrow> 'w \<Rightarrow> 'w \<times> (string + ApiResponse)) \<Rightarrow> ('w \<Rightarrow> int) \<Rightarrow> 'w SubagentExecutor" where
  "new_SubagentExecutor m mt tools api clock =
     \<lparr>se_defaultModel = nullish m ''claude-sonnet-4-20250514'', se_maxTurns = nullish mt 10,
      se_availableTools = tools, se_api = api, se_clock = clock\<rparr>"

section \<open>Tools\<close>

definition getToolsForSpec :: "'w SubagentExecutor \<Rightarrow> SubagentTaskSpec \<Rightarrow> ApiTool list" where
  "getToolsForSpec se spec =
     (case (sa_tools spec, se_availableTools se) of
        (Some names, Some tools) \<Rightarrow>
          map (\<lambda>d. \<lparr>at_name = td_name d, at_description = td_description d, at_input_schema = td_inputSchema d\<rparr>)
            (List.map_filter (jm_get tools) names)
      | _ \<Rightarrow> [])"

definition sub_executeTool :: "'w SubagentExecutor \<Rightarrow> string \<Rightarrow> string \<Rightarrow> 'w \<Rightarrow> 'w \<times> string" where
  "sub_executeTool se name inp w =
     (case Option.bind (se_availableTools se) (\<lambda>t. jm_get t name) of
        None \<Rightarrow> (w, jsonError (''Tool '' @ [CHR 0x27] @ name @ [CHR 0x27] @ '' not found''))
      | Some d \<Rightarrow> (case td_handler d inp w of (w', Inr r) \<Rightarrow> (w', r) | (w', Inl e) \<Rightarrow> (w', jsonError e)))"

text \<open>
  \<open>withClusterTools\<close>: a cluster tool answers a string or another value, which
  \<open>stringify\<close> (\<open>JSON.stringify\<close>) turns into text.
\<close>

definition clusterToolDefinition :: "('v \<Rightarrow> string) \<Rightarrow> string
    \<Rightarrow> string \<times> string \<times> (string \<Rightarrow> 'w \<Rightarrow> 'w \<times> (string + (string + 'v))) \<Rightarrow> 'w ToolDefinition" where
  "clusterToolDefinition stringify name t =
     (case t of (descr, schema, h) \<Rightarrow>
        \<lparr>td_name = name, td_description = descr, td_inputSchema = schema,
         td_handler = (\<lambda>inp w. case h inp w of
            (w', Inl e) \<Rightarrow> (w', Inl e)
          | (w', Inr (Inl s)) \<Rightarrow> (w', Inr s)
          | (w', Inr (Inr v)) \<Rightarrow> (w', Inr (stringify v)))\<rparr>)"

definition withClusterTools :: "('v \<Rightarrow> string) \<Rightarrow> string option \<Rightarrow> int option
    \<Rightarrow> (string, string \<times> string \<times> (string \<Rightarrow> 'w \<Rightarrow> 'w \<times> (string + (string + 'v)))) jsmap
    \<Rightarrow> (ApiRequest \<Rightarrow> 'w \<Rightarrow> 'w \<times> (string + ApiResponse)) \<Rightarrow> ('w \<Rightarrow> int) \<Rightarrow> 'w SubagentExecutor" where
  "withClusterTools stringify m mt tools api clock =
     new_SubagentExecutor m mt
       (Some (fold (\<lambda>(name, t) acc. jm_set name (clusterToolDefinition stringify name t) acc) tools [])) api clock"

section \<open>The loop\<close>

definition subSystemPrompt :: "SubagentTaskSpec \<Rightarrow> string" where
  "subSystemPrompt spec =
     ''You are a helpful AI assistant executing a task as part of a distributed compute cluster.''
     @ (if truthy (sa_contextSummary spec)
        then [newline, newline] @ ''Context from the requesting session:'' @ [newline] @ nullish (sa_contextSummary spec) [] else [])"

text \<open>The local variables of \<open>execute\<close>, with the events emitted and the requests sent so far.\<close>

record SubVars =
  sv_messages :: history
  sv_toolCalls :: "ToolCallRecord list"
  sv_turns :: int
  sv_inputTokens :: int
  sv_outputTokens :: int
  sv_events :: "SubEvent list"
  sv_requests :: "ApiRequest list"

datatype SubOutcome = Answered string | TurnsUsedUp | ApiThrew string

text \<open>The loop over the tool requests of one response.\<close>

fun runToolUses :: "'w SubagentExecutor \<Rightarrow> ContentBlock list \<Rightarrow> 'w
    \<Rightarrow> 'w \<times> ToolCallRecord list \<times> ContentBlock list \<times> SubEvent list" where
  "runToolUses se (ToolUse i name inp # bs) w =
     (let (w1, r) = sub_executeTool se name inp w;
          (w2, calls, results, evs) = runToolUses se bs w1
      in (w2, \<lparr>tr_name = name, tr_input = inp, tr_output = r, tr_timestamp = se_clock se w1\<rparr> # calls,
          ToolResultBlock i r # results, ToolCallEvent name inp # ToolResultEvent name r # evs))"
| "runToolUses se (_ # bs) w = runToolUses se bs w"
| "runToolUses se [] w = (w, [], [], [])"

definition textBlocks :: "ContentBlock list \<Rightarrow> string list" where
  "textBlocks bs = List.map_filter (\<lambda>b. case b of TextBlock t \<Rightarrow> Some t | _ \<Rightarrow> None) bs"

definition subRequest :: "'w SubagentExecutor \<Rightarrow> SubagentTaskSpec \<Rightarrow> history \<Rightarrow> ApiRequest" where
  "subRequest se spec h =
     \<lparr>rq_model = nullish (sa_model spec) (se_defaultModel se), rq_max_tokens = 4096, rq_system = subSystemPrompt spec,
      rq_messages = h, rq_tools = (let ts = getToolsForSpec se spec in if ts \<noteq> [] then Some ts else None)\<rparr>"

text \<open>One request and what the loop does with the response before it looks at \<open>stop_reason\<close>.\<close>

definition subTurn :: "'w SubagentExecutor \<Rightarrow> SubagentTaskSpec \<Rightarrow> int \<Rightarrow> SubVars \<Rightarrow> 'w \<Rightarrow> 'w \<times> SubVars \<times> (string + ApiResponse)" where
  "subTurn se spec mx v w =
     (let q = subRequest se spec (sv_messages v);
          v1 = v\<lparr>sv_turns := sv_turns v + 1, sv_events := sv_events v @ [TurnEvent (sv_turns v + 1) mx],
                 sv_requests := sv_requests v @ [q]\<rparr>
      in case se_api se q w of
           (w1, Inl e) \<Rightarrow> (w1, v1, Inl e)
         | (w1, Inr r) \<Rightarrow>
             (w1, v1\<lparr>sv_inputTokens := sv_inputTokens v1 + as_input_tokens r,
                     sv_outputTokens := sv_outputTokens v1 + as_output_tokens r,
                     sv_events := sv_events v1 @ map TextEvent (textBlocks (as_content r))\<rparr>, Inr r))"

text \<open>The branch for \<open>stop_reason === 'tool_use'\<close>.\<close>

definition subUseTools :: "'w SubagentExecutor \<Rightarrow> ApiResponse \<Rightarrow> SubVars \<Rightarrow> 'w \<Rightarrow> 'w \<times> SubVars" where
  "subUseTools se r v w =
     (let (w1, calls, results, evs) = runToolUses se (as_content r) w
      in (w1, v\<lparr>sv_messages := sv_messages v @ [\<lparr>cm_role = AssistantRole, cm_content = Blocks (as_content r)\<rparr>,
                                                \<lparr>cm_role = UserRole, cm_content = Blocks results\<rparr>],
                sv_toolCalls := sv_toolCalls v @ calls, sv_events := sv_events v @ evs\<rparr>))"

text \<open>\<open>while (turns < maxTurns)\<close>: \<open>left\<close> is what is left of \<open>maxTurns - turns\<close>.\<close>

fun subLoop :: "'w SubagentExecutor \<Rightarrow> SubagentTaskSpec \<Rightarrow> int \<Rightarrow> nat \<Rightarrow> SubVars \<Rightarrow> 'w \<Rightarrow> 'w \<times> SubVars \<times> SubOutcome" where
  "subLoop se spec mx 0 v w = (w, v, TurnsUsedUp)"
| "subLoop se spec mx (Suc left) v w =
     (case subTurn se spec mx v w of
        (w1, v1, Inl e) \<Rightarrow> (w1, v1, ApiThrew e)
      | (w1, v1, Inr r) \<Rightarrow>
          if as_stop_reason r = ''tool_use''
          then (let (w2, v2) = subUseTools se r v1 w1 in subLoop se spec mx left v2 w2)
          else (w1, v1, Answered (join_with [newline] (textBlocks (as_content r)))))"

definition subStart :: "SubagentTaskSpec \<Rightarrow> SubVars" where
  "subStart spec = \<lparr>sv_messages = [\<lparr>cm_role = UserRole, cm_content = PlainText (sa_prompt spec)\<rparr>], sv_toolCalls = [], sv_turns = 0,
     sv_inputTokens = 0, sv_outputTokens = 0, sv_events = [], sv_requests = []\<rparr>"

definition lastContent :: "history \<Rightarrow> string" where
  "lastContent h = (case cm_content (last h) of PlainText t \<Rightarrow> t | Blocks _ \<Rightarrow> ''Max turns reached without completion'')"

definition subResult :: "int \<Rightarrow> SubVars \<Rightarrow> SubOutcome \<Rightarrow> SubagentResult" where
  "subResult mx v out =
     (let r = \<lparr>sr_success = False, sr_response = [], sr_toolCalls = sv_toolCalls v, sr_turns = sv_turns v,
               sr_inputTokens = sv_inputTokens v, sr_outputTokens = sv_outputTokens v, sr_error = None\<rparr>
      in case out of
           Answered t \<Rightarrow> r\<lparr>sr_success := True, sr_response := t\<rparr>
         | TurnsUsedUp \<Rightarrow> r\<lparr>sr_response := lastContent (sv_messages v),
             sr_error := Some (''Max turns ('' @ show_int mx @ '') reached without completion'')\<rparr>
         | ApiThrew e \<Rightarrow> r\<lparr>sr_error := Some e\<rparr>)"

definition sub_execute :: "'w SubagentExecutor \<Rightarrow> SubagentTaskSpec \<Rightarrow> 'w \<Rightarrow> 'w \<times> SubVars \<times> SubagentResult" where
  "sub_execute se spec w =
     (let mx = nullish (sa_maxTurns spec) (se_maxTurns se);
          (w', v, out) = subLoop se spec mx (nat mx) (subStart spec) w
      in (w', v, subResult mx v out))"

end
