(* ===== verification/SubagentProps.thy ===== *)
theory SubagentProps
  imports Subagent
begin

text \<open>
  What a subagent run sends and returns: the number and the form of its requests, and
  which response comes back on each of the three ways the loop can end.
\<close>

section \<open>Tool rounds\<close>

lemma runToolUses_results:
  "runToolUses se bs w = (w', calls, results, evs) \<Longrightarrow>
     toolResults results = toolUses bs \<and> length results = length (toolUses bs) \<and> length calls = length (toolUses bs)"
proof (induction se bs w arbitrary: w' calls results evs rule: runToolUses.induct)
  case (1 se i name inp bs w)
  obtain w1 r where "sub_executeTool se name inp w = (w1, r)" by fastforce
  moreover obtain w2 c rs es where "runToolUses se bs w1 = (w2, c, rs, es)" by (metis prod_cases4)
  ultimately show ?case using 1 by (auto simp: toolResults_def toolUses_def List.map_filter_def)
qed (auto simp: toolResults_def toolUses_def List.map_filter_def)

text \<open>The documented answer of the model's interface: who stops to use tools names one.\<close>

definition names_tools :: "'w SubagentExecutor \<Rightarrow> bool" where
  "names_tools se \<longleftrightarrow> (\<forall>q w w' r. se_api se q w = (w', Inr r) \<longrightarrow> as_stop_reason r = ''tool_use'' \<longrightarrow> toolUses (as_content r) \<noteq> [])"

definition sub_inv :: "'w SubagentExecutor \<Rightarrow> SubagentTaskSpec \<Rightarrow> SubVars \<Rightarrow> bool" where
  "sub_inv se spec v \<longleftrightarrow>
     sv_turns v = int (length (sv_requests v))
   \<and> list_all (\<lambda>q. awaiting_answer (rq_messages q) \<and> prefix (rq_messages q) (sv_messages v)
        \<and> q = subRequest se spec (rq_messages q)) (sv_requests v)
   \<and> sorted_wrt (\<lambda>p q. prefix (rq_messages p) (rq_messages q)) (sv_requests v)"

definition sub_ready :: "'w SubagentExecutor \<Rightarrow> SubagentTaskSpec \<Rightarrow> SubVars \<Rightarrow> bool" where
  "sub_ready se spec v \<longleftrightarrow> sub_inv se spec v \<and> awaiting_answer (sv_messages v)"

lemma sub_ready_start: "sub_ready se spec (subStart spec)"
  by (simp add: sub_ready_def sub_inv_def subStart_def awaiting_answer_def)

lemma subTurn_inv:
  assumes "sub_ready se spec v" and "subTurn se spec mx v w = (w1, v1, out)"
  shows "sub_ready se spec v1" "length (sv_requests v1) = Suc (length (sv_requests v))" "sv_messages v1 = sv_messages v"
  using assms by (auto simp: sub_ready_def sub_inv_def subTurn_def Let_def subRequest_def list_all_iff sorted_wrt_append
      split: prod.splits sum.splits)

lemma subUseTools_inv:
  assumes "sub_ready se spec v" and "toolUses (as_content r) \<noteq> []" and run: "subUseTools se r v w = (w1, v1)"
  shows "sub_ready se spec v1" "sv_requests v1 = sv_requests v"
proof -
  obtain w2 calls rs evs where t: "runToolUses se (as_content r) w = (w2, calls, rs, evs)" by (metis prod_cases4)
  then have "awaiting_answer (sv_messages v @ [\<lparr>cm_role = AssistantRole, cm_content = Blocks (as_content r)\<rparr>,
      \<lparr>cm_role = UserRole, cm_content = Blocks rs\<rparr>])"
    using runToolUses_results [OF t] assms(1,2) by (simp add: sub_ready_def awaiting_answer_def turns_append)
  with t run assms(1) show "sub_ready se spec v1" "sv_requests v1 = sv_requests v"
    by (auto simp: sub_ready_def sub_inv_def subUseTools_def list_all_iff)
qed

lemma subLoop_inv:
  assumes "names_tools se"
  shows "sub_ready se spec v \<Longrightarrow> subLoop se spec mx n v w = (w', v', out) \<Longrightarrow>
    sub_inv se spec v' \<and> length (sv_requests v') \<le> length (sv_requests v) + n
    \<and> (out = TurnsUsedUp \<longrightarrow> length (sv_requests v') = length (sv_requests v) + n)"
proof (induction n arbitrary: v w)
  case 0
  then show ?case by (simp add: sub_ready_def)
next
  case (Suc n)
  obtain w1 v1 o1 where turn: "subTurn se spec mx v w = (w1, v1, o1)" by (metis prod_cases3)
  note v1 = subTurn_inv [OF Suc.prems(1) turn]
  show ?case
  proof (cases o1)
    case (Inl e)
    with Suc.prems(2) turn v1 show ?thesis by (auto simp: sub_ready_def)
  next
    case (Inr r)
    show ?thesis
    proof (cases "as_stop_reason r = ''tool_use''")
      case True
      obtain w2 v2 where use: "subUseTools se r v1 w1 = (w2, v2)" by fastforce
      have "toolUses (as_content r) \<noteq> []"
        using assms turn Inr True unfolding names_tools_def
        by (auto simp: subTurn_def Let_def split: prod.splits sum.splits)
      note v2 = subUseTools_inv [OF v1(1) this use]
      with Suc.prems(2) turn Inr True use have "subLoop se spec mx n v2 w2 = (w', v', out)" by simp
      from Suc.IH [OF v2(1) this] v2(2) v1(2) show ?thesis by auto
    next
      case False
      with Suc.prems(2) turn Inr v1 show ?thesis by (auto simp: sub_ready_def)
    qed
  qed
qed

section \<open>The conversation\<close>

text \<open>
  What one request hands to the next: the model, asked with \<open>p\<close> in the world \<open>w\<close>, stops to
  use tools; they are run, each giving one result, and the next request \<open>q\<close> carries
  the messages of \<open>p\<close>, then the whole answer of the model, then the results.
\<close>

definition handsOn :: "'w SubagentExecutor \<Rightarrow> ApiRequest \<Rightarrow> 'w \<Rightarrow> ApiRequest \<Rightarrow> 'w \<Rightarrow> bool" where
  "handsOn se p w q w' \<longleftrightarrow> (\<exists>w1 r calls results evs. se_api se p w = (w1, Inr r) \<and> as_stop_reason r = ''tool_use''
     \<and> runToolUses se (as_content r) w1 = (w', calls, results, evs) \<and> toolResults results = toolUses (as_content r)
     \<and> rq_messages q = rq_messages p @ [\<lparr>cm_role = AssistantRole, cm_content = Blocks (as_content r)\<rparr>,
                                        \<lparr>cm_role = UserRole, cm_content = Blocks results\<rparr>])"

text \<open>Requests sent one after another, the first in the world \<open>w\<close>.\<close>

fun chained :: "'w SubagentExecutor \<Rightarrow> 'w \<Rightarrow> ApiRequest list \<Rightarrow> bool" where
  "chained se w (p # q # qs) \<longleftrightarrow> (\<exists>w'. handsOn se p w q w' \<and> chained se w' (q # qs))"
| "chained se w _ \<longleftrightarrow> True"

lemma subUseTools_handsOn:
  assumes "se_api se (subRequest se spec h) w = (w1, Inr r)" and "as_stop_reason r = ''tool_use''"
    and "subUseTools se r v w1 = (w2, v2)" and "sv_messages v = h"
  shows "handsOn se (subRequest se spec h) w (subRequest se spec (sv_messages v2)) w2" "sv_requests v2 = sv_requests v"
proof -
  obtain w' calls rs evs where t: "runToolUses se (as_content r) w1 = (w', calls, rs, evs)" by (metis prod_cases4)
  with assms(3) have "w' = w2" by (simp add: subUseTools_def)
  with t assms(3,4) runToolUses_results [OF t]
  show "handsOn se (subRequest se spec h) w (subRequest se spec (sv_messages v2)) w2" "sv_requests v2 = sv_requests v"
    unfolding handsOn_def by (auto simp: subUseTools_def subRequest_def assms(1,2) [unfolded subRequest_def])
qed

lemma subLoop_chained:
  "subLoop se spec mx n v w = (w', v', out) \<Longrightarrow>
     \<exists>qs. sv_requests v' = sv_requests v @ qs \<and> chained se w qs \<and> (qs \<noteq> [] \<longrightarrow> hd qs = subRequest se spec (sv_messages v))"
proof (induction n arbitrary: v w)
  case (Suc n)
  let ?q = "subRequest se spec (sv_messages v)"
  obtain w1 v1 o1 where turn: "subTurn se spec mx v w = (w1, v1, o1)" by (metis prod_cases3)
  then have v1: "sv_requests v1 = sv_requests v @ [?q]" "sv_messages v1 = sv_messages v"
    by (auto simp: subTurn_def Let_def split: prod.splits sum.splits)
  show ?case
  proof (cases "\<exists>r. o1 = Inr r \<and> as_stop_reason r = ''tool_use''")
    case False
    with Suc.prems turn v1 have "sv_requests v' = sv_requests v @ [?q]" by (auto split: sum.splits if_splits)
    then show ?thesis by (intro exI [of _ "[?q]"]) simp
  next
    case True
    then obtain r where r: "o1 = Inr r" "as_stop_reason r = ''tool_use''" by blast
    with turn have api: "se_api se ?q w = (w1, Inr r)" by (auto simp: subTurn_def Let_def split: prod.splits sum.splits)
    obtain w2 v2 where use: "subUseTools se r v1 w1 = (w2, v2)" by fastforce
    note on = subUseTools_handsOn [OF api r(2) use v1(2)]
    from Suc.prems turn r use have "subLoop se spec mx n v2 w2 = (w', v', out)" by simp
    from Suc.IH [OF this] obtain qs where qs: "sv_requests v' = sv_requests v2 @ qs" "chained se w2 qs"
      "qs \<noteq> [] \<longrightarrow> hd qs = subRequest se spec (sv_messages v2)" by blast
    then have "chained se w (?q # qs)" using on(1) by (cases qs) auto
    with qs(1) on(2) v1(1) show ?thesis by (intro exI [of _ "?q # qs"]) simp
  qed
qed simp

section \<open>The run\<close>

definition turnLimit :: "'w SubagentExecutor \<Rightarrow> SubagentTaskSpec \<Rightarrow> int" where
  "turnLimit se spec = nullish (sa_maxTurns spec) (se_maxTurns se)"

lemma sub_executeE:
  assumes "sub_execute se spec w = (w', v, r)"
  obtains out where "subLoop se spec (turnLimit se spec) (nat (turnLimit se spec)) (subStart spec) w = (w', v, out)"
    and "r = subResult (turnLimit se spec) v out"
  using assms by (auto simp: sub_execute_def turnLimit_def Let_def split: prod.splits)

text \<open>
  C19. A subagent run ends after at most the configured number of requests to the model,
  and reports that number. The first request carries the prompt alone; every further one
  carries the whole conversation so far: the messages of the request before it, then the
  complete answer the model gave to that request, then one result, in order, for each
  tool the answer asked for. So each request is a well-formed dialogue that waits for the
  model. The run is a success exactly when it reports no error; a failure with a response
  has used up all turns. A model that stops to use tools is taken to name at least one.
\<close>

theorem subagent_run_bounded:
  assumes "names_tools se" and "sub_execute se spec w = (w', v, r)"
  shows "sr_turns r = int (length (sv_requests v)) \<and> length (sv_requests v) \<le> nat (nullish (sa_maxTurns spec) (se_maxTurns se))
    \<and> (sv_requests v \<noteq> [] \<longrightarrow> rq_messages (hd (sv_requests v)) = [\<lparr>cm_role = UserRole, cm_content = PlainText (sa_prompt spec)\<rparr>])
    \<and> chained se w (sv_requests v)
    \<and> list_all (\<lambda>q. awaiting_answer (rq_messages q) \<and> q = subRequest se spec (rq_messages q)) (sv_requests v)
    \<and> (sr_success r \<longleftrightarrow> sr_error r = None)
    \<and> (\<not> sr_success r \<and> sr_response r \<noteq> [] \<longrightarrow> int (length (sv_requests v)) = max 0 (nullish (sa_maxTurns spec) (se_maxTurns se)))"
proof -
  obtain out where run: "subLoop se spec (turnLimit se spec) (nat (turnLimit se spec)) (subStart spec) w = (w', v, out)"
    and r: "r = subResult (turnLimit se spec) v out" using sub_executeE [OF assms(2)] .
  have start: "sv_requests (subStart spec) = []" by (simp add: subStart_def)
  have "chained se w (sv_requests v)"
    and "sv_requests v \<noteq> [] \<longrightarrow> rq_messages (hd (sv_requests v)) = [\<lparr>cm_role = UserRole, cm_content = PlainText (sa_prompt spec)\<rparr>]"
    using subLoop_chained [OF run] by (auto simp: subStart_def subRequest_def)
  with subLoop_inv [OF assms(1) sub_ready_start run] r show ?thesis
    by (cases out) (auto simp: start sub_inv_def subResult_def Let_def turnLimit_def list_all_iff)
qed

text \<open>A model that asks for one tool first and answers then, with the world counting its calls.\<close>

definition demoApi :: "ApiRequest \<Rightarrow> nat \<Rightarrow> nat \<times> (string + ApiResponse)" where
  "demoApi q n = (Suc n, Inr (if n = 0
     then \<lparr>as_content = [TextBlock ''looking'', ToolUse ''t1'' ''ls'' ''{}''], as_stop_reason = ''tool_use'', as_input_tokens = 7, as_output_tokens = 3\<rparr>
     else \<lparr>as_content = [TextBlock ''done''], as_stop_reason = ''end_turn'', as_input_tokens = 9, as_output_tokens = 2\<rparr>))"

definition demoSub :: "nat SubagentExecutor" where
  "demoSub = new_SubagentExecutor None None (Some [(''ls'', \<lparr>td_name = ''ls'', td_description = [], td_inputSchema = [],
     td_handler = (\<lambda>i n. (n, Inr ''a.txt''))\<rparr>)]) demoApi int"

definition demoSpec :: "int option \<Rightarrow> SubagentTaskSpec" where
  "demoSpec mt = \<lparr>sa_prompt = ''list'', sa_model = None, sa_tools = Some [''ls''], sa_contextSummary = None, sa_maxTurns = mt\<rparr>"

lemma demo_names_tools: "names_tools demoSub"
  by (auto simp: names_tools_def demoSub_def new_SubagentExecutor_def demoApi_def toolUses_def List.map_filter_def)

lemma demo_runs:
  "sr_success (snd (snd (sub_execute demoSub (demoSpec None) 0)))"
  "sr_response (snd (snd (sub_execute demoSub (demoSpec None) 0))) = ''done''"
  "length (sv_requests (fst (snd (sub_execute demoSub (demoSpec None) 0)))) = 2"
  by code_simp+

theorem subagent_run_bounded_witness:
  "sr_turns (snd (snd (sub_execute demoSub (demoSpec None) 0))) = 2 \<and> sr_error (snd (snd (sub_execute demoSub (demoSpec None) 0))) = None
   \<and> chained demoSub 0 (sv_requests (fst (snd (sub_execute demoSub (demoSpec None) 0))))"
proof -
  obtain w' v r where run: "sub_execute demoSub (demoSpec None) 0 = (w', v, r)" by (metis prod_cases3)
  from subagent_run_bounded [OF demo_names_tools this] demo_runs run show ?thesis by simp
qed

text \<open>
  When the turns are used up the response is never a text of the model: it is a fixed
  sentence, or the prompt itself when not a single turn was allowed.
\<close>

lemma subLoop_blocks:
  "subLoop se spec mx n v w = (w', v', TurnsUsedUp) \<Longrightarrow> n > 0 \<Longrightarrow> \<exists>bs. cm_content (last (sv_messages v')) = Blocks bs"
proof (induction n arbitrary: v w)
  case (Suc n)
  obtain w1 v1 o1 where turn: "subTurn se spec mx v w = (w1, v1, o1)" by (metis prod_cases3)
  with Suc.prems(1) obtain r where r: "o1 = Inr r" "as_stop_reason r = ''tool_use''" by (auto split: sum.splits if_splits)
  obtain w2 v2 where use: "subUseTools se r v1 w1 = (w2, v2)" by fastforce
  have v2: "\<exists>bs. cm_content (last (sv_messages v2)) = Blocks bs"
    using use by (auto simp: subUseTools_def split: prod.splits)
  from Suc.prems turn r use have "subLoop se spec mx n v2 w2 = (w', v', TurnsUsedUp)" by simp
  with Suc.IH v2 show ?case by (cases n) auto
qed simp

theorem used_up_turns_lose_text:
  assumes "sub_execute se spec w = (w', v, r)" and "\<not> sr_success r" and "sr_response r \<noteq> []"
  shows "sr_response r = (if nullish (sa_maxTurns spec) (se_maxTurns se) \<le> 0 then sa_prompt spec
     else ''Max turns reached without completion'')"
proof -
  obtain out where run: "subLoop se spec (turnLimit se spec) (nat (turnLimit se spec)) (subStart spec) w = (w', v, out)"
    and r: "r = subResult (turnLimit se spec) v out" using sub_executeE [OF assms(1)] .
  with assms(2,3) have out: "out = TurnsUsedUp" by (cases out) (auto simp: subResult_def)
  show ?thesis
  proof (cases "turnLimit se spec \<le> 0")
    case True
    with run out r show ?thesis by (auto simp: subResult_def Let_def lastContent_def subStart_def turnLimit_def)
  next
    case False
    with subLoop_blocks [OF run [unfolded out]] out r show ?thesis
      by (auto simp: subResult_def Let_def lastContent_def turnLimit_def)
  qed
qed

end
