(* ===== verification/TaskExecution.thy ===== *)
theory TaskExecution
  imports Subagent
begin

text \<open>
  The executor of an agent node (\<open>src/agent/task-executor.ts\<close>). Every call of \<open>execute\<close>
  makes one \<open>RunningTask\<close> object, which its listeners keep for as long as they live, while
  the map \<open>runningTasks\<close> refers to it under the task's id: objects have addresses
  (positions in \<open>tx_objects\<close>) and the map holds addresses, so that two calls with one id
  are what they are in the program. \<open>ru_phase\<close> says which answer a call waits for.

  The outside world acts through the actions of \<open>exec_step\<close>: processes write, exit and
  close, timers fire, the container engine answers (with an error where its promise is
  rejected) and sends output, a subagent emits events and ends. An action whose cause is
  not there (no process, no timer) is \<open>None\<close>. \<open>tx_outputs\<close> are the \<open>output\<close> events emitted.
  A buffer is a string, whose characters are bytes. A promise settles and its \<open>finally\<close>
  block runs in one step.
\<close>

section \<open>Data\<close>

record ExecTask =
  xt_taskId :: string
  xt_type :: string
  xt_shell :: "ShellTaskSpec option"
  xt_container :: "ContainerTaskSpec option"
  xt_subagent :: "SubagentTaskSpec option"
  xt_environment :: "(string, string) jsmap option"
  xt_timeoutMs :: "int option"

record TaskResult =
  er_taskId :: string
  er_success :: bool
  er_exitCode :: int
  er_stdout :: string
  er_stderr :: string
  er_error :: "string option"
  er_startedAt :: int
  er_completedAt :: int

datatype OutputType = OutStdout | OutStderr | OutStatus

text \<open>The data of an output event: bytes, or the JSON object of a status update.\<close>

datatype OutputData = OutBytes string | SubagentStarted "string option" nat | SubagentTurn int int
  | ToolCallStatus string string | ToolResultStatus string string | SubagentCompleted bool int int int nat

datatype ProcSignal = SIGTERM | SIGKILL

text \<open>
  A child process as Node.js shows it: \<open>killed\<close> is set once a signal was sent to it
  successfully, which needs a process that still runs.
\<close>

record ChildProcess =
  cp_command :: string
  cp_args :: "string list"
  cp_cwd :: "string option"
  cp_env :: "(string, string) jsmap"
  cp_alive :: bool
  cp_killed :: bool
  cp_received :: "ProcSignal list"

definition kill :: "ProcSignal \<Rightarrow> ChildProcess \<Rightarrow> ChildProcess" where
  "kill sg p = (if cp_alive p then p\<lparr>cp_killed := True, cp_received := cp_received p @ [sg]\<rparr> else p)"

datatype ExecPhase = AwaitProcess | AwaitInspect | AwaitPull | AwaitCreate | AwaitAttach | AwaitStart | AwaitExit
  | AwaitSubagent | Settled "string + TaskResult"

record ExecRunning =
  ru_spec :: ExecTask
  ru_process :: "ChildProcess option"
  ru_containerId :: "string option"
  ru_startedAt :: int
  ru_stdout :: "string list"
  ru_stderr :: "string list"
  ru_cancelled :: bool
  ru_phase :: ExecPhase
  ru_timer :: bool
  ru_attached :: bool

record ContainerOptions =
  op_Image :: string
  op_Cmd :: "string list option"
  op_Entrypoint :: "string list option"
  op_Labels :: "(string \<times> string) list option"
  op_Env :: "string list"
  op_Binds :: "string list option"
  op_AutoRemove :: bool

record TaskExecutor =
  tx_objects :: "ExecRunning list"
  tx_runningTasks :: "(string, nat) jsmap"
  tx_maxConcurrent :: nat
  tx_docker :: bool
  tx_subagentExecutor :: bool
  tx_sandboxCommand :: "string option"
  tx_processEnv :: "(string, string) jsmap"
  tx_killTimers :: "nat list"
  tx_listeners :: "nat list"
  tx_outputs :: "(string \<times> OutputType \<times> OutputData) list"
  tx_created :: "ContainerOptions list"
  tx_stopped :: "string list"
  tx_uncaught :: "string list"

text \<open>The constructor: \<open>dock\<close> says whether a Docker client could be made, \<open>key\<close> is the API key found.\<close>

definition new_TaskExecutor :: "nat option \<Rightarrow> bool \<Rightarrow> string option \<Rightarrow> string option \<Rightarrow> (string, string) jsmap \<Rightarrow> TaskExecutor" where
  "new_TaskExecutor mx dock key sandbox env =
     \<lparr>tx_objects = [], tx_runningTasks = [], tx_maxConcurrent = nullish mx 10, tx_docker = dock,
      tx_subagentExecutor = truthy key, tx_sandboxCommand = sandbox, tx_processEnv = env, tx_killTimers = [],
      tx_listeners = [], tx_outputs = [], tx_created = [], tx_stopped = [], tx_uncaught = []\<rparr>"

abbreviation obj :: "TaskExecutor \<Rightarrow> nat \<Rightarrow> ExecRunning" where
  "obj ex a \<equiv> tx_objects ex ! a"

text \<open>Mutating the object at an address.\<close>

definition upd :: "nat \<Rightarrow> (ExecRunning \<Rightarrow> ExecRunning) \<Rightarrow> TaskExecutor \<Rightarrow> TaskExecutor" where
  "upd a f ex = ex\<lparr>tx_objects := (tx_objects ex)[a := f (obj ex a)]\<rparr>"

definition emitOutput :: "string \<Rightarrow> OutputType \<Rightarrow> OutputData \<Rightarrow> TaskExecutor \<Rightarrow> TaskExecutor" where
  "emitOutput i t d ex = ex\<lparr>tx_outputs := tx_outputs ex @ [(i, t, d)]\<rparr>"

section \<open>Results\<close>

text \<open>
  The promise of a call settles (\<open>Inl\<close>: it is rejected) and \<open>execute\<close> takes the task's id
  out of the map. A promise settles once.
\<close>

definition settle :: "nat \<Rightarrow> string + TaskResult \<Rightarrow> TaskExecutor \<Rightarrow> TaskExecutor" where
  "settle a r ex =
     (case ru_phase (obj ex a) of
        Settled _ \<Rightarrow> ex
      | _ \<Rightarrow> (upd a (\<lambda>u. u\<lparr>ru_phase := Settled r\<rparr>) ex)
               \<lparr>tx_runningTasks := jm_delete (xt_taskId (ru_spec (obj ex a))) (tx_runningTasks ex)\<rparr>)"

definition failedResult :: "ExecRunning \<Rightarrow> string \<Rightarrow> string \<Rightarrow> string \<Rightarrow> int \<Rightarrow> TaskResult" where
  "failedResult u out err msg now =
     \<lparr>er_taskId = xt_taskId (ru_spec u), er_success = False, er_exitCode = -1, er_stdout = out, er_stderr = err,
      er_error = Some msg, er_startedAt = ru_startedAt u, er_completedAt = now\<rparr>"

text \<open>The result of a process or a container that ended with an exit code.\<close>

definition exitResult :: "ExecRunning \<Rightarrow> int \<Rightarrow> int \<Rightarrow> TaskResult" where
  "exitResult u code now =
     \<lparr>er_taskId = xt_taskId (ru_spec u), er_success = (code = 0 \<and> \<not> ru_cancelled u), er_exitCode = code,
      er_stdout = concat (ru_stdout u), er_stderr = concat (ru_stderr u),
      er_error = (if ru_cancelled u then Some ''Task cancelled'' else None),
      er_startedAt = ru_startedAt u, er_completedAt = now\<rparr>"

definition typeError :: "string \<Rightarrow> string" where
  "typeError field = ''Cannot read properties of undefined (reading '' @ [CHR 0x27] @ field @ [CHR 0x27] @ '')''"

section \<open>Shell tasks\<close>

text \<open>The arguments of \<open>spawn\<close>; \<open>spawned\<close> says whether the process could be started.\<close>

definition spawnFor :: "TaskExecutor \<Rightarrow> ExecTask \<Rightarrow> ShellTaskSpec \<Rightarrow> bool \<Rightarrow> ChildProcess" where
  "spawnFor ex spec sh spawned =
     (let boxed = (nullish (sh_sandboxed sh) False \<and> truthy (tx_sandboxCommand ex))
      in \<lparr>cp_command = (if boxed then nullish (tx_sandboxCommand ex) [] else ''/bin/sh''),
          cp_args = (if boxed then [sh_command sh] else [''-c'', sh_command sh]),
          cp_cwd = sh_workingDirectory sh,
          cp_env = fold (\<lambda>(k, v) m. jm_set k v m) (nullish (xt_environment spec) []) (tx_processEnv ex),
          cp_alive = spawned, cp_killed = False, cp_received = []\<rparr>)"

definition executeShell :: "bool \<Rightarrow> nat \<Rightarrow> TaskExecutor \<Rightarrow> TaskExecutor" where
  "executeShell spawned a ex =
     (let spec = ru_spec (obj ex a)
      in case xt_shell spec of
           None \<Rightarrow> settle a (Inl (typeError ''sandboxed'')) ex
         | Some sh \<Rightarrow> upd a (\<lambda>u. u\<lparr>ru_process := Some (spawnFor ex spec sh spawned), ru_phase := AwaitProcess,
                                   ru_timer := (case xt_timeoutMs spec of None \<Rightarrow> False | Some t \<Rightarrow> t \<noteq> 0)\<rparr>) ex)"

text \<open>The listeners on the process.\<close>

definition procData :: "nat \<Rightarrow> bool \<Rightarrow> string \<Rightarrow> TaskExecutor \<Rightarrow> TaskExecutor" where
  "procData a err d ex =
     emitOutput (xt_taskId (ru_spec (obj ex a))) (if err then OutStderr else OutStdout) (OutBytes d)
       (upd a (\<lambda>u. if err then u\<lparr>ru_stderr := ru_stderr u @ [d]\<rparr> else u\<lparr>ru_stdout := ru_stdout u @ [d]\<rparr>) ex)"

definition exitCodeOf :: "int option \<Rightarrow> bool \<Rightarrow> int" where
  "exitCodeOf code signalled = nullish code (if signalled then 128 else -1)"

definition onClose :: "nat \<Rightarrow> int option \<Rightarrow> bool \<Rightarrow> int \<Rightarrow> TaskExecutor \<Rightarrow> TaskExecutor" where
  "onClose a code signalled now ex =
     (let ex1 = upd a (\<lambda>u. u\<lparr>ru_timer := False\<rparr>) ex
      in settle a (Inr (exitResult (obj ex1 a) (exitCodeOf code signalled) now)) ex1)"

definition onError :: "nat \<Rightarrow> string \<Rightarrow> int \<Rightarrow> TaskExecutor \<Rightarrow> TaskExecutor" where
  "onError a msg now ex =
     (let ex1 = upd a (\<lambda>u. u\<lparr>ru_timer := False\<rparr>) ex; u = obj ex1 a
      in settle a (Inr (failedResult u (concat (ru_stdout u)) (concat (ru_stderr u)) msg now)) ex1)"

definition onProcess :: "(ChildProcess \<Rightarrow> ChildProcess) \<Rightarrow> nat \<Rightarrow> TaskExecutor \<Rightarrow> TaskExecutor" where
  "onProcess f a ex = upd a (\<lambda>u. u\<lparr>ru_process := map_option f (ru_process u)\<rparr>) ex"

text \<open>The timeout: terminate, and look again five seconds later.\<close>

definition onTimeout :: "nat \<Rightarrow> TaskExecutor \<Rightarrow> TaskExecutor" where
  "onTimeout a ex =
     (let ex1 = upd a (\<lambda>u. u\<lparr>ru_timer := False\<rparr>) ex
      in case ru_process (obj ex1 a) of
           Some p \<Rightarrow> if \<not> cp_killed p then (onProcess (kill SIGTERM) a ex1)\<lparr>tx_killTimers := tx_killTimers ex @ [a]\<rparr> else ex1
         | None \<Rightarrow> ex1)"

definition onKillTimer :: "nat \<Rightarrow> TaskExecutor \<Rightarrow> TaskExecutor" where
  "onKillTimer a ex =
     (let ex1 = ex\<lparr>tx_killTimers := remove1 a (tx_killTimers ex)\<rparr>
      in case ru_process (obj ex1 a) of
           Some p \<Rightarrow> if \<not> cp_killed p then onProcess (kill SIGKILL) a ex1 else ex1
         | None \<Rightarrow> ex1)"

definition cancelTask :: "string \<Rightarrow> TaskExecutor \<Rightarrow> TaskExecutor \<times> bool" where
  "cancelTask i ex =
     (case jm_get (tx_runningTasks ex) i of
        None \<Rightarrow> (ex, False)
      | Some a \<Rightarrow>
          (let ex1 = upd a (\<lambda>u. u\<lparr>ru_cancelled := True\<rparr>) ex;
               ex2 = (case ru_process (obj ex1 a) of
                        None \<Rightarrow> ex1
                      | Some _ \<Rightarrow> (onProcess (kill SIGTERM) a ex1)\<lparr>tx_killTimers := tx_killTimers ex @ [a]\<rparr>);
               ex3 = (case ru_containerId (obj ex2 a) of
                        None \<Rightarrow> ex2
                      | Some c \<Rightarrow> if c \<noteq> [] \<and> tx_docker ex2 then ex2\<lparr>tx_stopped := tx_stopped ex2 @ [c]\<rparr> else ex2)
           in (ex3, True)))"

definition getRunningTaskIds :: "TaskExecutor \<Rightarrow> string list" where
  "getRunningTaskIds ex = jm_keys (tx_runningTasks ex)"

section \<open>Container tasks\<close>

text \<open>\<open>data.readUInt32BE(o)\<close>: throws (\<open>None\<close>) when fewer than four bytes are left.\<close>

definition readUInt32BE :: "string \<Rightarrow> nat \<Rightarrow> nat option" where
  "readUInt32BE d o1 = (if o1 + 4 \<le> length d
     then Some (foldl (\<lambda>n c. 256 * n + of_char c) 0 (take 4 (drop o1 d))) else None)"

text \<open>
  The loop of \<open>demux\<close> from an offset on: the payloads with the byte that names their
  stream, and whether it ended without an exception.
\<close>

function demuxFrom :: "string \<Rightarrow> nat \<Rightarrow> (nat \<times> string) list \<times> bool" where
  "demuxFrom d off =
     (if off < length d
      then (case readUInt32BE d (off + 4) of
              None \<Rightarrow> ([], False)
            | Some n \<Rightarrow> (let (fs, ok) = demuxFrom d (off + 8 + n)
                          in ((of_char (d ! off), take n (drop (off + 8) d)) # fs, ok)))
      else ([], True))"
  by pat_completeness auto
termination by (relation "measure (\<lambda>(d, off). length d - off)") auto

declare demuxFrom.simps [simp del]

definition demux :: "string \<Rightarrow> (nat \<times> string) list \<times> bool" where
  "demux d = demuxFrom d 0"

text \<open>What the loop does with one payload.\<close>

definition onFrame :: "nat \<Rightarrow> nat \<times> string \<Rightarrow> TaskExecutor \<Rightarrow> TaskExecutor" where
  "onFrame a f ex = (if fst f = 1 then procData a False (snd f) ex else if fst f = 2 then procData a True (snd f) ex else ex)"

text \<open>The listener on the attached stream; an exception in it is an uncaught exception of the process.\<close>

definition onAttached :: "nat \<Rightarrow> string \<Rightarrow> TaskExecutor \<Rightarrow> TaskExecutor" where
  "onAttached a d ex =
     (let (fs, ok) = demux d; ex1 = fold (onFrame a) fs ex
      in if ok then ex1 else ex1\<lparr>tx_uncaught := tx_uncaught ex1 @ [''ERR_OUT_OF_RANGE'']\<rparr>)"

definition containerOptions :: "ExecTask \<Rightarrow> ContainerTaskSpec \<Rightarrow> ContainerOptions" where
  "containerOptions spec co =
     \<lparr>op_Image = co_image co, op_Cmd = co_command co, op_Entrypoint = co_args co, op_Labels = co_labels co,
      op_Env = map (\<lambda>(k, v). k @ ''='' @ v) (nullish (xt_environment spec) []),
      op_Binds = map_option (map (\<lambda>(h, c, ro). h @ '':'' @ c @ '':'' @ (if nullish ro False then ''ro'' else ''rw''))) (co_mounts co),
      op_AutoRemove = True\<rparr>"

text \<open>An answer of the container engine; \<open>EngineError\<close> is the message of a rejected call.\<close>

datatype EngineReply = EngineOk | EngineId string | EngineStatus int | EngineError string

definition setPhase :: "nat \<Rightarrow> ExecPhase \<Rightarrow> TaskExecutor \<Rightarrow> TaskExecutor" where
  "setPhase a ph ex = upd a (\<lambda>u. u\<lparr>ru_phase := ph\<rparr>) ex"

text \<open>The call of \<open>createContainer\<close>.\<close>

definition createContainer :: "nat \<Rightarrow> TaskExecutor \<Rightarrow> TaskExecutor" where
  "createContainer a ex =
     (case xt_container (ru_spec (obj ex a)) of
        None \<Rightarrow> ex
      | Some co \<Rightarrow> setPhase a AwaitCreate (ex\<lparr>tx_created := tx_created ex @ [containerOptions (ru_spec (obj ex a)) co]\<rparr>))"

definition containerFailed :: "nat \<Rightarrow> string \<Rightarrow> int \<Rightarrow> TaskExecutor \<Rightarrow> TaskExecutor" where
  "containerFailed a msg now ex =
     (let u = obj ex a in settle a (Inr (failedResult u (concat (ru_stdout u)) (concat (ru_stderr u)) msg now)) ex)"

definition executeContainer :: "int \<Rightarrow> nat \<Rightarrow> TaskExecutor \<Rightarrow> TaskExecutor" where
  "executeContainer now a ex =
     (if \<not> tx_docker ex then settle a (Inr (failedResult (obj ex a) [] [] ''Docker not available'' now)) ex
      else case xt_container (ru_spec (obj ex a)) of
             None \<Rightarrow> containerFailed a (typeError ''image'') now ex
           | Some co \<Rightarrow> setPhase a AwaitInspect ex)"

text \<open>The awaits of \<open>executeContainer\<close> in order, each with what follows its answer.\<close>

fun afterEngine :: "ExecPhase \<Rightarrow> EngineReply \<Rightarrow> nat \<Rightarrow> int \<Rightarrow> TaskExecutor \<Rightarrow> TaskExecutor option" where
  "afterEngine AwaitInspect EngineOk a now ex = Some (createContainer a ex)"
| "afterEngine AwaitInspect (EngineError e) a now ex = Some (setPhase a AwaitPull ex)"
| "afterEngine AwaitPull EngineOk a now ex = Some (createContainer a ex)"
| "afterEngine AwaitPull (EngineError e) a now ex = Some (containerFailed a e now ex)"
| "afterEngine AwaitCreate (EngineId c) a now ex = Some (setPhase a AwaitAttach (upd a (\<lambda>u. u\<lparr>ru_containerId := Some c\<rparr>) ex))"
| "afterEngine AwaitCreate (EngineError e) a now ex = Some (containerFailed a e now ex)"
| "afterEngine AwaitAttach EngineOk a now ex = Some (setPhase a AwaitStart (upd a (\<lambda>u. u\<lparr>ru_attached := True\<rparr>) ex))"
| "afterEngine AwaitAttach (EngineError e) a now ex = Some (containerFailed a e now ex)"
| "afterEngine AwaitStart EngineOk a now ex = Some (setPhase a AwaitExit ex)"
| "afterEngine AwaitStart (EngineError e) a now ex = Some (containerFailed a e now ex)"
| "afterEngine AwaitExit (EngineStatus c) a now ex = Some (settle a (Inr (exitResult (obj ex a) c now)) ex)"
| "afterEngine AwaitExit (EngineError e) a now ex = Some (containerFailed a e now ex)"
| "afterEngine _ _ a now ex = None"

section \<open>Subagent tasks\<close>

definition executeSubagent :: "int \<Rightarrow> nat \<Rightarrow> TaskExecutor \<Rightarrow> TaskExecutor" where
  "executeSubagent now a ex =
     (if \<not> tx_subagentExecutor ex
      then settle a (Inr (failedResult (obj ex a) [] [] ''Subagent executor not configured (missing ANTHROPIC_API_KEY)'' now)) ex
      else case xt_subagent (ru_spec (obj ex a)) of
             None \<Rightarrow> settle a (Inl (typeError ''prompt'')) ex
           | Some sa \<Rightarrow>
               (let ex1 = emitOutput (xt_taskId (ru_spec (obj ex a))) OutStatus
                      (SubagentStarted (sa_model sa) (length (nullish (sa_tools sa) []))) ex
                in setPhase a AwaitSubagent (ex1\<lparr>tx_listeners := tx_listeners ex1 @ [a]\<rparr>)))"

text \<open>One listener's reaction to an event of the subagent executor, which all calls share.\<close>

definition forwardEvent :: "SubEvent \<Rightarrow> nat \<Rightarrow> TaskExecutor \<Rightarrow> TaskExecutor" where
  "forwardEvent ev b ex =
     (let i = xt_taskId (ru_spec (obj ex b))
      in case ev of
           TextEvent t \<Rightarrow> emitOutput i OutStdout (OutBytes t) ex
         | TurnEvent n mx \<Rightarrow> emitOutput i OutStatus (SubagentTurn n mx) ex
         | ToolCallEvent name inp \<Rightarrow> emitOutput i OutStatus (ToolCallStatus name inp) ex
         | ToolResultEvent name r \<Rightarrow> emitOutput i OutStatus (ToolResultStatus name r) ex)"

definition onSubEvent :: "SubEvent \<Rightarrow> TaskExecutor \<Rightarrow> TaskExecutor" where
  "onSubEvent ev ex = fold (forwardEvent ev) (tx_listeners ex) ex"

definition afterSubagent :: "nat \<Rightarrow> SubagentResult \<Rightarrow> int \<Rightarrow> TaskExecutor \<Rightarrow> TaskExecutor" where
  "afterSubagent a r now ex =
     (let u = obj ex a;
          ex1 = emitOutput (xt_taskId (ru_spec u)) OutStatus
                  (SubagentCompleted (sr_success r) (sr_turns r) (sr_inputTokens r) (sr_outputTokens r) (length (sr_toolCalls r))) ex;
          ex2 = ex1\<lparr>tx_listeners := remove1 a (tx_listeners ex1)\<rparr>
      in settle a (Inr \<lparr>er_taskId = xt_taskId (ru_spec u), er_success = sr_success r, er_exitCode = (if sr_success r then 0 else 1),
           er_stdout = sr_response r, er_stderr = nullish (sr_error r) [], er_error = sr_error r,
           er_startedAt = ru_startedAt u, er_completedAt = now\<rparr>) ex2)"

section \<open>Execution\<close>

definition newRunning :: "int \<Rightarrow> ExecTask \<Rightarrow> ExecRunning" where
  "newRunning now spec = \<lparr>ru_spec = spec, ru_process = None, ru_containerId = None, ru_startedAt = now, ru_stdout = [], ru_stderr = [],
     ru_cancelled = False, ru_phase = AwaitProcess, ru_timer = False, ru_attached = False\<rparr>"

text \<open>The part of \<open>execute\<close> up to its first await (\<open>Inl\<close>: it throws at once).\<close>

definition dispatch :: "int \<Rightarrow> bool \<Rightarrow> nat \<Rightarrow> TaskExecutor \<Rightarrow> TaskExecutor" where
  "dispatch now spawned a ex =
     (let ty = xt_type (ru_spec (obj ex a))
      in if ty = ''shell'' then executeShell spawned a ex
         else if ty = ''container'' then executeContainer now a ex
         else if ty = ''subagent'' then executeSubagent now a ex
         else settle a (Inl (''Unsupported task type: '' @ ty)) ex)"

definition register :: "int \<Rightarrow> ExecTask \<Rightarrow> TaskExecutor \<Rightarrow> TaskExecutor" where
  "register now spec ex = ex\<lparr>tx_objects := tx_objects ex @ [newRunning now spec],
     tx_runningTasks := jm_set (xt_taskId spec) (length (tx_objects ex)) (tx_runningTasks ex)\<rparr>"

definition execute :: "int \<Rightarrow> ExecTask \<Rightarrow> bool \<Rightarrow> TaskExecutor \<Rightarrow> TaskExecutor \<times> (string + nat)" where
  "execute now spec spawned ex =
     (if jm_size (tx_runningTasks ex) \<ge> tx_maxConcurrent ex
      then (ex, Inl (''Max concurrent tasks ('' @ show_nat (tx_maxConcurrent ex) @ '') reached''))
      else let a = length (tx_objects ex) in (dispatch now spawned a (register now spec ex), Inr a))"

datatype ExecAct = Execute int ExecTask bool | CancelTask string
  | ProcData nat bool string | ProcExit nat | ProcClose nat "int option" bool int | ProcError nat string int
  | TimeoutFires nat | KillTimerFires nat | EngineAnswers nat EngineReply int | AttachedData nat string
  | SubagentEmits nat SubEvent | SubagentEnds nat SubagentResult int

fun exec_step :: "ExecAct \<Rightarrow> TaskExecutor \<Rightarrow> TaskExecutor option" where
  "exec_step (Execute now spec spawned) ex = Some (fst (execute now spec spawned ex))"
| "exec_step (CancelTask i) ex = Some (fst (cancelTask i ex))"
| "exec_step (ProcData a err d) ex =
     (if a < length (tx_objects ex) \<and> ru_process (obj ex a) \<noteq> None then Some (procData a err d ex) else None)"
| "exec_step (ProcExit a) ex =
     (if a < length (tx_objects ex) \<and> ru_process (obj ex a) \<noteq> None
      then Some (onProcess (\<lambda>p. p\<lparr>cp_alive := False\<rparr>) a ex) else None)"
| "exec_step (ProcClose a code sg now) ex =
     (if a < length (tx_objects ex) \<and> (case ru_process (obj ex a) of Some p \<Rightarrow> \<not> cp_alive p | None \<Rightarrow> False)
      then Some (onClose a code sg now ex) else None)"
| "exec_step (ProcError a msg now) ex =
     (if a < length (tx_objects ex) \<and> ru_process (obj ex a) \<noteq> None then Some (onError a msg now ex) else None)"
| "exec_step (TimeoutFires a) ex =
     (if a < length (tx_objects ex) \<and> ru_timer (obj ex a) then Some (onTimeout a ex) else None)"
| "exec_step (KillTimerFires a) ex = (if a \<in> set (tx_killTimers ex) then Some (onKillTimer a ex) else None)"
| "exec_step (EngineAnswers a r now) ex =
     (if a < length (tx_objects ex) then afterEngine (ru_phase (obj ex a)) r a now ex else None)"
| "exec_step (AttachedData a d) ex =
     (if a < length (tx_objects ex) \<and> ru_attached (obj ex a) then Some (onAttached a d ex) else None)"
| "exec_step (SubagentEmits a ev) ex =
     (if a < length (tx_objects ex) \<and> ru_phase (obj ex a) = AwaitSubagent then Some (onSubEvent ev ex) else None)"
| "exec_step (SubagentEnds a r now) ex =
     (if a < length (tx_objects ex) \<and> ru_phase (obj ex a) = AwaitSubagent then Some (afterSubagent a r now ex) else None)"

end
