(* ===== verification/TaskExecutionProps.thy ===== *)
theory TaskExecutionProps
  imports TaskExecution
begin

text \<open>
  What holds of the executor under every interleaving of its own calls with the events of
  processes, timers, the container engine and subagents.
\<close>

section \<open>What an action leaves alone\<close>

text \<open>A projection of the objects that a mutation preserves.\<close>

lemma map_upd [simp]: "(\<And>u. g (f u) = g u) \<Longrightarrow> map g (tx_objects (upd a f ex)) = map g (tx_objects ex)"
  by (cases "a < length (tx_objects ex)") (simp_all add: upd_def map_update list_update_same_conv list_update_beyond)

lemma upd_frame [simp]:
  "tx_runningTasks (upd a f ex) = tx_runningTasks ex" "tx_maxConcurrent (upd a f ex) = tx_maxConcurrent ex"
  "tx_killTimers (upd a f ex) = tx_killTimers ex" "length (tx_objects (upd a f ex)) = length (tx_objects ex)"
  "tx_docker (upd a f ex) = tx_docker ex" "tx_listeners (upd a f ex) = tx_listeners ex" "tx_outputs (upd a f ex) = tx_outputs ex"
  by (simp_all add: upd_def)

lemma obj_upd [simp]: "a < length (tx_objects ex) \<Longrightarrow> obj (upd a f ex) a = f (obj ex a)"
  by (simp add: upd_def)

lemma obj_upd_other [simp]: "b \<noteq> a \<Longrightarrow> obj (upd a f ex) b = obj ex b"
  by (simp add: upd_def)

lemma emitOutput_frame [simp]:
  "tx_objects (emitOutput i t d ex) = tx_objects ex" "tx_runningTasks (emitOutput i t d ex) = tx_runningTasks ex"
  "tx_maxConcurrent (emitOutput i t d ex) = tx_maxConcurrent ex" "tx_killTimers (emitOutput i t d ex) = tx_killTimers ex"
  "tx_listeners (emitOutput i t d ex) = tx_listeners ex" "tx_docker (emitOutput i t d ex) = tx_docker ex"
  by (simp_all add: emitOutput_def)

text \<open>The parts of the state that the invariants below speak of.\<close>

definition active :: "ExecRunning \<Rightarrow> bool" where
  "active u \<longleftrightarrow> (case ru_phase u of Settled _ \<Rightarrow> False | _ \<Rightarrow> True)"

abbreviation tag :: "ExecRunning \<Rightarrow> string \<times> bool" where
  "tag u \<equiv> (xt_taskId (ru_spec u), active u)"

definition tags :: "TaskExecutor \<Rightarrow> (string \<times> bool) list" where
  "tags ex = map tag (tx_objects ex)"

definition procs :: "TaskExecutor \<Rightarrow> ChildProcess option list" where
  "procs ex = map ru_process (tx_objects ex)"

definition chunks :: "TaskExecutor \<Rightarrow> (bool \<times> string list \<times> string list) list" where
  "chunks ex = map (\<lambda>u. (ru_process u = None, ru_stdout u, ru_stderr u)) (tx_objects ex)"

definition book_frame :: "TaskExecutor \<Rightarrow> TaskExecutor \<Rightarrow> bool" where
  "book_frame ex ex' \<longleftrightarrow> tags ex' = tags ex \<and> tx_runningTasks ex' = tx_runningTasks ex \<and> tx_maxConcurrent ex' = tx_maxConcurrent ex"

definition proc_frame :: "TaskExecutor \<Rightarrow> TaskExecutor \<Rightarrow> bool" where
  "proc_frame ex ex' \<longleftrightarrow> procs ex' = procs ex \<and> tx_killTimers ex' = tx_killTimers ex"

lemmas frame_defs = book_frame_def proc_frame_def tags_def procs_def chunks_def active_def

lemma procs_nth: "a < length (tx_objects ex) \<Longrightarrow> procs ex ! a = ru_process (obj ex a)"
  by (simp add: procs_def)

lemma procData_frame: "book_frame ex (procData a err d ex)" "proc_frame ex (procData a err d ex)"
  by (cases err; simp add: procData_def frame_defs)+

lemma onProcess_frame: "book_frame ex (onProcess f a ex)" "chunks (onProcess f a ex) = chunks ex"
  by (simp_all add: onProcess_def frame_defs)

lemma onTimeout_frame: "book_frame ex (onTimeout a ex)" "chunks (onTimeout a ex) = chunks ex"
  by (simp_all add: onTimeout_def onProcess_def frame_defs Let_def split: option.splits)

lemma onKillTimer_frame: "book_frame ex (onKillTimer a ex)" "chunks (onKillTimer a ex) = chunks ex"
  by (simp_all add: onKillTimer_def onProcess_def frame_defs Let_def split: option.splits)

lemma cancelTask_frame: "book_frame ex (fst (cancelTask i ex))" "chunks (fst (cancelTask i ex)) = chunks ex"
  by (simp_all add: cancelTask_def onProcess_def frame_defs Let_def split: option.splits)

lemma onFrame_frame: "book_frame ex (fold (onFrame a) fs ex) \<and> proc_frame ex (fold (onFrame a) fs ex)"
proof (induction fs arbitrary: ex)
  case (Cons f fs)
  have "book_frame ex (onFrame a f ex) \<and> proc_frame ex (onFrame a f ex)"
    by (simp add: onFrame_def procData_frame) (simp add: frame_defs)
  with Cons [of "onFrame a f ex"] show ?case by (simp add: book_frame_def proc_frame_def)
qed (simp add: frame_defs)

lemma onAttached_frame: "book_frame ex (onAttached a d ex)" "proc_frame ex (onAttached a d ex)"
  using onFrame_frame [of ex a "fst (demux d)"]
  by (auto simp: onAttached_def book_frame_def proc_frame_def tags_def procs_def Let_def split: prod.splits)

lemma onSubEvent_frame: "tx_objects (onSubEvent ev ex) = tx_objects ex \<and> tx_runningTasks (onSubEvent ev ex) = tx_runningTasks ex
    \<and> tx_maxConcurrent (onSubEvent ev ex) = tx_maxConcurrent ex \<and> tx_killTimers (onSubEvent ev ex) = tx_killTimers ex"
proof -
  have "tx_objects (fold (forwardEvent ev) bs ex) = tx_objects ex \<and> tx_runningTasks (fold (forwardEvent ev) bs ex) = tx_runningTasks ex
    \<and> tx_maxConcurrent (fold (forwardEvent ev) bs ex) = tx_maxConcurrent ex \<and> tx_killTimers (fold (forwardEvent ev) bs ex) = tx_killTimers ex" for bs
    by (induction bs arbitrary: ex) (simp_all add: forwardEvent_def Let_def split: SubEvent.split)
  then show ?thesis by (simp add: onSubEvent_def)
qed

lemma settle_simps:
  "\<not> active (obj ex a) \<Longrightarrow> settle a r ex = ex"
  "active (obj ex a) \<Longrightarrow> settle a r ex = (upd a (\<lambda>u. u\<lparr>ru_phase := Settled r\<rparr>) ex)
     \<lparr>tx_runningTasks := jm_delete (xt_taskId (ru_spec (obj ex a))) (tx_runningTasks ex)\<rparr>"
  by (auto simp: settle_def active_def split: ExecPhase.splits)

lemma settle_frame: "proc_frame ex (settle a r ex)" "chunks (settle a r ex) = chunks ex"
  by (cases "active (obj ex a)"; simp add: settle_simps; simp add: frame_defs)+

section \<open>Processes are never killed\<close>

definition kill_inv :: "TaskExecutor \<Rightarrow> bool" where
  "kill_inv ex \<longleftrightarrow>
     (\<forall>a \<in> set (tx_killTimers ex). a < length (procs ex))
   \<and> (\<forall>a < length (procs ex). \<forall>p. procs ex ! a = Some p \<longrightarrow>
        SIGKILL \<notin> set (cp_received p) \<and> (a \<in> set (tx_killTimers ex) \<longrightarrow> cp_killed p \<or> \<not> cp_alive p))"

lemma kill_inv_frame: "proc_frame ex ex' \<Longrightarrow> kill_inv ex' = kill_inv ex"
  by (simp add: proc_frame_def kill_inv_def)

lemma procs_onProcess: "procs (onProcess f a ex) = (procs ex)[a := map_option f (procs ex ! a)]"
  by (cases "a < length (tx_objects ex)") (simp_all add: onProcess_def procs_def upd_def map_update list_update_beyond)

lemma kill_inv_onProcess:
  assumes "kill_inv ex" and "ts = tx_killTimers ex \<or> (ts = tx_killTimers ex @ [a] \<and> f = kill SIGTERM)"
    and "\<forall>p. cp_killed p \<or> \<not> cp_alive p \<longrightarrow> cp_killed (f p) \<or> \<not> cp_alive (f p)"
    and "\<forall>p. SIGKILL \<notin> set (cp_received p) \<longrightarrow> SIGKILL \<notin> set (cp_received (f p))"
    and "a < length (tx_objects ex)"
  shows "kill_inv ((onProcess f a ex)\<lparr>tx_killTimers := ts\<rparr>)"
proof -
  have p: "procs ((onProcess f a ex)\<lparr>tx_killTimers := ts\<rparr>) = (procs ex)[a := map_option f (procs ex ! a)]"
    using procs_onProcess [of f a ex] by (simp add: procs_def)
  have l: "length (procs ex) = length (tx_objects ex)" by (simp add: procs_def)
  show ?thesis
    unfolding kill_inv_def p using assms l by (auto simp: kill_inv_def nth_list_update kill_def split: if_splits) blast+
qed

lemma kill_term: "cp_killed p \<or> \<not> cp_alive p \<Longrightarrow> cp_killed (kill sg p) \<or> \<not> cp_alive (kill sg p)"
  "SIGKILL \<notin> set (cp_received p) \<Longrightarrow> SIGKILL \<notin> set (cp_received (kill SIGTERM p))"
  by (auto simp: kill_def)

lemma killTimers_id: "onProcess f a ex = (onProcess f a ex)\<lparr>tx_killTimers := tx_killTimers ex\<rparr>"
  by (simp add: onProcess_def upd_def)

lemma dispatchI:
  "P (executeShell spawned a ex) \<Longrightarrow> P (executeContainer now a ex) \<Longrightarrow> P (executeSubagent now a ex) \<Longrightarrow> (\<And>r. P (settle a r ex))
     \<Longrightarrow> P (dispatch now spawned a ex)"
  by (simp add: dispatch_def Let_def)

lemma register_obj [simp]:
  "obj (register now spec ex) (length (tx_objects ex)) = newRunning now spec"
  "tx_objects (register now spec ex) = tx_objects ex @ [newRunning now spec]"
  "tx_killTimers (register now spec ex) = tx_killTimers ex"
  "tx_runningTasks (register now spec ex) = jm_set (xt_taskId spec) (length (tx_objects ex)) (tx_runningTasks ex)"
  "tx_maxConcurrent (register now spec ex) = tx_maxConcurrent ex"
  by (simp_all add: register_def)

lemma newRunning_sel [simp]: "ru_spec (newRunning now spec) = spec" "ru_process (newRunning now spec) = None" "active (newRunning now spec)"
  by (simp_all add: newRunning_def active_def)

lemma kill_inv_register: "kill_inv ex \<Longrightarrow> kill_inv (register now spec ex)"
  by (auto simp: kill_inv_def procs_def nth_append less_Suc_eq)

lemma kill_inv_shell:
  assumes "kill_inv ex"
  shows "kill_inv (executeShell spawned (length (tx_objects ex)) (register now spec ex))"
proof (cases "xt_shell spec")
  case None
  then show ?thesis
    using kill_inv_register [OF assms] kill_inv_frame [OF settle_frame(1)] by (simp add: executeShell_def)
next
  case (Some sh)
  define p where "p = spawnFor (register now spec ex) spec sh spawned"
  have ps: "procs (executeShell spawned (length (tx_objects ex)) (register now spec ex)) = procs ex @ [Some p]"
    "tx_killTimers (executeShell spawned (length (tx_objects ex)) (register now spec ex)) = tx_killTimers ex"
    using Some by (simp_all add: executeShell_def procs_def upd_def p_def)
  have "cp_received p = []" by (simp add: p_def spawnFor_def Let_def)
  with assms show ?thesis unfolding kill_inv_def ps by (auto simp: nth_append less_Suc_eq)
qed

lemma start_proc_frame: "proc_frame ex (executeContainer now a ex)" "proc_frame ex (executeSubagent now a ex)"
proof -
  note f = settle_frame(1) [of ex a, unfolded proc_frame_def procs_def]
  show "proc_frame ex (executeContainer now a ex)"
    using f by (simp add: executeContainer_def containerFailed_def setPhase_def Let_def proc_frame_def procs_def split: option.split)
  show "proc_frame ex (executeSubagent now a ex)"
    using f by (simp add: executeSubagent_def setPhase_def Let_def proc_frame_def procs_def split: option.split)
qed

lemma kill_inv_execute: "kill_inv ex \<Longrightarrow> kill_inv (fst (execute now spec spawned ex))"
  using kill_inv_frame [OF start_proc_frame(1)] kill_inv_frame [OF start_proc_frame(2)] kill_inv_frame [OF settle_frame(1)]
  by (auto simp: execute_def Let_def kill_inv_register intro!: dispatchI [where P = kill_inv] kill_inv_shell)

lemma afterEngine_proc_frame: "afterEngine ph r a now ex = Some ex' \<Longrightarrow> proc_frame ex ex'"
  using settle_frame(1)
  by (induction ph r a now ex rule: afterEngine.induct)
     (auto simp: setPhase_def createContainer_def containerFailed_def Let_def proc_frame_def procs_def split: option.splits)

lemma settle_upd_frame: "(\<And>u. ru_process (f u) = ru_process u) \<Longrightarrow> proc_frame ex (settle a r (upd a f ex))"
  using settle_frame(1) [of "upd a f ex" a r] by (simp add: proc_frame_def procs_def)

lemma procs_settle [simp]: "procs (settle a r ex) = procs ex" "tx_killTimers (settle a r ex) = tx_killTimers ex"
  using settle_frame(1) [of ex a r] by (simp_all add: proc_frame_def)

lemma afterSubagent_proc_frame: "proc_frame ex (afterSubagent a r now ex)"
  unfolding afterSubagent_def Let_def by (simp add: proc_frame_def) (simp add: procs_def)

lemma kill_inv_cong: "procs ex' = procs ex \<Longrightarrow> tx_killTimers ex' = tx_killTimers ex \<Longrightarrow> kill_inv ex' = kill_inv ex"
  by (simp add: kill_inv_def)

lemma kill_inv_stopped [simp]: "kill_inv (ex\<lparr>tx_stopped := x\<rparr>) = kill_inv ex"
  by (simp add: kill_inv_def procs_def)

lemma kill_inv_cancel:
  assumes "kill_inv ex" and "\<And>i a. jm_get (tx_runningTasks ex) i = Some a \<Longrightarrow> a < length (tx_objects ex)"
  shows "kill_inv (fst (cancelTask i ex))"
proof (cases "jm_get (tx_runningTasks ex) i")
  case None
  with assms(1) show ?thesis by (simp add: cancelTask_def)
next
  case (Some a)
  let ?ex1 = "upd a (\<lambda>u. u\<lparr>ru_cancelled := True\<rparr>) ex"
  have a: "a < length (tx_objects ?ex1)" using assms(2) [OF Some] by simp
  have "kill_inv ?ex1" using assms(1) by (subst kill_inv_cong [of _ ex]) (simp_all add: procs_def)
  note sig = kill_inv_onProcess [OF this, of "tx_killTimers ex @ [a]" a "kill SIGTERM"] kill_term
  then have "kill_inv ((onProcess (kill SIGTERM) a ?ex1)\<lparr>tx_killTimers := tx_killTimers ex @ [a]\<rparr>)" using a by simp
  with \<open>kill_inv ?ex1\<close> show ?thesis
    using Some by (simp add: cancelTask_def Let_def split: option.split)
qed

text \<open>The map holds addresses of objects.\<close>

definition addr_inv :: "TaskExecutor \<Rightarrow> bool" where
  "addr_inv ex \<longleftrightarrow> (\<forall>i a. jm_get (tx_runningTasks ex) i = Some a \<longrightarrow> a < length (tx_objects ex))"

lemma addr_book_frame: "book_frame ex ex' \<Longrightarrow> addr_inv ex' = addr_inv ex"
proof -
  assume f: "book_frame ex ex'"
  then have "length (tx_objects ex') = length (tx_objects ex)" by (metis book_frame_def length_map tags_def)
  with f show ?thesis by (simp add: addr_inv_def book_frame_def)
qed

lemma addr_settle: "addr_inv ex \<Longrightarrow> addr_inv (settle a r ex)"
  by (cases "active (obj ex a)") (auto simp: settle_simps addr_inv_def split: if_splits)

lemma addr_upd [simp]: "addr_inv (upd a f ex) = addr_inv ex"
  by (simp add: addr_inv_def)

lemma addr_emit [simp]: "addr_inv (emitOutput i t d ex) = addr_inv ex"
  by (simp add: addr_inv_def)

lemma addr_listeners [simp]: "addr_inv (ex\<lparr>tx_listeners := l\<rparr>) = addr_inv ex" "addr_inv (ex\<lparr>tx_created := c\<rparr>) = addr_inv ex"
  by (simp_all add: addr_inv_def)

lemma addr_register: "addr_inv ex \<Longrightarrow> addr_inv (register now spec ex)"
  by (auto simp: addr_inv_def split: if_splits intro: less_SucI)

lemma addr_start:
  assumes "addr_inv ex"
  shows "addr_inv (executeShell spawned a ex)" "addr_inv (executeContainer now a ex)" "addr_inv (executeSubagent now a ex)"
  using assms addr_settle
  by (simp_all add: executeShell_def executeContainer_def executeSubagent_def containerFailed_def setPhase_def Let_def split: option.split)

lemma addr_execute: "addr_inv ex \<Longrightarrow> addr_inv (fst (execute now spec spawned ex))"
  by (auto simp: execute_def Let_def intro!: dispatchI [where P = addr_inv] addr_start addr_register addr_settle)

lemma addr_engine: "afterEngine ph r a now ex = Some ex' \<Longrightarrow> addr_inv ex \<Longrightarrow> addr_inv ex'"
  using addr_settle
  by (induction ph r a now ex rule: afterEngine.induct)
     (auto simp: setPhase_def createContainer_def containerFailed_def Let_def split: option.splits)

lemma addr_events:
  assumes "addr_inv ex"
  shows "addr_inv (onClose a code sg now ex)" "addr_inv (onError a msg now ex)" "addr_inv (afterSubagent a r now ex)" "addr_inv (onSubEvent ev ex)"
  using assms onSubEvent_frame [of ev ex]
  by (simp_all add: onClose_def onError_def afterSubagent_def Let_def addr_settle) (simp add: addr_inv_def)

lemma addr_step: "exec_step act ex = Some ex' \<Longrightarrow> addr_inv ex \<Longrightarrow> addr_inv ex'"
  by (induction act ex rule: exec_step.induct)
     (auto simp: addr_execute addr_book_frame [OF cancelTask_frame(1)] addr_book_frame [OF procData_frame(1)]
        addr_book_frame [OF onProcess_frame(1)] addr_book_frame [OF onTimeout_frame(1)] addr_book_frame [OF onKillTimer_frame(1)]
        addr_book_frame [OF onAttached_frame(1)] addr_engine addr_events split: if_splits)

lemma kill_inv_timeout:
  assumes "kill_inv ex" and a: "a < length (tx_objects ex)"
  shows "kill_inv (onTimeout a ex)"
proof -
  let ?ex1 = "upd a (\<lambda>u. u\<lparr>ru_timer := False\<rparr>) ex"
  have ex1: "kill_inv ?ex1" using assms(1) by (subst kill_inv_cong [of _ ex]) (simp_all add: procs_def)
  have "kill_inv ((onProcess (kill SIGTERM) a ?ex1)\<lparr>tx_killTimers := tx_killTimers ex @ [a]\<rparr>)"
    using kill_inv_onProcess [OF ex1, of "tx_killTimers ex @ [a]" a "kill SIGTERM"] kill_term a by simp
  with ex1 show ?thesis by (simp add: onTimeout_def Let_def split: option.split)
qed

text \<open>When the second timer fires, the process got a signal already or is gone.\<close>

lemma kill_inv_killTimer:
  assumes "kill_inv ex" and a: "a \<in> set (tx_killTimers ex)"
  shows "kill_inv (onKillTimer a ex)"
proof -
  let ?ex1 = "ex\<lparr>tx_killTimers := remove1 a (tx_killTimers ex)\<rparr>"
  have ex1: "kill_inv ?ex1" using assms(1) notin_set_remove1 by (fastforce simp: kill_inv_def procs_def)
  have al: "a < length (tx_objects ex)" using assms by (auto simp: kill_inv_def procs_def)
  show ?thesis
  proof (cases "ru_process (obj ex a)")
    case (Some p)
    then have p: "cp_killed p \<or> \<not> cp_alive p" using assms al by (auto simp: kill_inv_def procs_def)
    show ?thesis
    proof (cases "cp_killed p")
      case False
      with p have "onProcess (kill SIGKILL) a ?ex1 = ?ex1"
        using Some al by (simp add: onProcess_def upd_def kill_def list_update_same_conv)
      with ex1 Some False show ?thesis by (simp add: onKillTimer_def Let_def)
    qed (use ex1 Some in \<open>simp add: onKillTimer_def Let_def\<close>)
  qed (use ex1 in \<open>simp add: onKillTimer_def Let_def\<close>)
qed

lemma kill_inv_exit:
  "kill_inv ex \<Longrightarrow> a < length (tx_objects ex) \<Longrightarrow> kill_inv (onProcess (\<lambda>p. p\<lparr>cp_alive := False\<rparr>) a ex)"
  using kill_inv_onProcess [of ex "tx_killTimers ex" a "\<lambda>p. p\<lparr>cp_alive := False\<rparr>"] killTimers_id [of _ a ex] by simp

lemma kill_inv_settle_upd [simp]:
  "kill_inv (settle a r ex) = kill_inv ex"
  "(\<And>u. ru_process (f u) = ru_process u) \<Longrightarrow> kill_inv (upd a f ex) = kill_inv ex"
  using procs_settle [of a r ex] by (auto intro!: kill_inv_cong simp: procs_def)

lemma kill_inv_events [simp]:
  "kill_inv (onClose a code sg now ex) = kill_inv ex" "kill_inv (onError a msg now ex) = kill_inv ex"
  "kill_inv (onSubEvent ev ex) = kill_inv ex"
  by (simp_all add: onClose_def onError_def Let_def) (simp add: kill_inv_def procs_def onSubEvent_frame)

lemmas kill_inv_frames = kill_inv_frame [OF procData_frame(2)] kill_inv_frame [OF onAttached_frame(2)]
  kill_inv_frame [OF afterSubagent_proc_frame] kill_inv_frame [OF afterEngine_proc_frame]

lemma kill_step: "exec_step act ex = Some ex' \<Longrightarrow> kill_inv ex \<Longrightarrow> addr_inv ex \<Longrightarrow> kill_inv ex'"
  by (induction act ex rule: exec_step.induct)
     (auto simp: kill_inv_execute kill_inv_frames kill_inv_timeout kill_inv_killTimer kill_inv_exit kill_inv_events addr_inv_def
       intro!: kill_inv_cancel split: if_splits)

interpretation kill_run: invariant_of exec_step "\<lambda>ex. kill_inv ex \<and> addr_inv ex"
  by unfold_locales (auto intro: kill_step addr_step)

lemma new_executor_inv: "kill_inv (new_TaskExecutor mx dock key sandbox env) \<and> addr_inv (new_TaskExecutor mx dock key sandbox env)"
  by (simp add: new_TaskExecutor_def kill_inv_def addr_inv_def procs_def)

text \<open>
  C22. Whatever tasks run, time out and are cancelled, no process of a task is ever sent
  SIGKILL: five seconds after the SIGTERM the executor asks whether the process was
  \<open>killed\<close>, which is true from the moment a signal could be sent, so a process that
  ignores SIGTERM is never killed.
\<close>

theorem sigkill_never_sent:
  assumes "run exec_step acts (new_TaskExecutor mx dock key sandbox env) = Some ex" and "a < length (tx_objects ex)"
    and "ru_process (tx_objects ex ! a) = Some p"
  shows "SIGKILL \<notin> set (cp_received p)"
  using kill_run.run_inv [OF new_executor_inv assms(1)] assms(2,3) by (auto simp: kill_inv_def procs_def)

definition stubborn :: ExecTask where
  "stubborn = \<lparr>xt_taskId = ''t1'', xt_type = ''shell'', xt_shell = Some \<lparr>sh_command = ''trap : TERM; sleep 999'', sh_workingDirectory = None, sh_sandboxed = None\<rparr>,
     xt_container = None, xt_subagent = None, xt_environment = None, xt_timeoutMs = Some 1000\<rparr>"

definition stubbornRun :: "TaskExecutor option" where
  "stubbornRun = run exec_step [Execute 0 stubborn True, TimeoutFires 0, KillTimerFires 0, CancelTask ''t1'', KillTimerFires 0]
     (new_TaskExecutor None True None None [])"

lemma stubborn_survives:
  "map_option (\<lambda>ex. map (map_option (\<lambda>p. (cp_alive p, cp_received p))) (procs ex)) stubbornRun = Some [Some (True, [SIGTERM, SIGTERM])]"
  by code_simp

theorem sigkill_never_sent_witness:
  "\<exists>ex p. stubbornRun = Some ex \<and> procs ex ! 0 = Some p \<and> cp_alive p \<and> SIGKILL \<notin> set (cp_received p)"
proof -
  obtain ex where ex: "stubbornRun = Some ex" "map (map_option (\<lambda>p. (cp_alive p, cp_received p))) (procs ex) = [Some (True, [SIGTERM, SIGTERM])]"
    using stubborn_survives by auto
  then obtain p where p: "procs ex = [Some p]" "cp_alive p" by (auto simp: map_eq_Cons_conv)
  then have "0 < length (tx_objects ex)" "ru_process (tx_objects ex ! 0) = Some p" by (auto simp: procs_def map_eq_Cons_conv)
  from sigkill_never_sent [OF ex(1) [unfolded stubbornRun_def] this] p ex(1) show ?thesis by auto
qed

section \<open>Bookkeeping\<close>

text \<open>The map of running tasks lists exactly the calls that have not settled.\<close>

definition book_inv :: "TaskExecutor \<Rightarrow> bool" where
  "book_inv ex \<longleftrightarrow> jm_wf (tx_runningTasks ex) \<and> jm_size (tx_runningTasks ex) \<le> tx_maxConcurrent ex
     \<and> (\<forall>i a. jm_get (tx_runningTasks ex) i = Some a \<longleftrightarrow> a < length (tags ex) \<and> tags ex ! a = (i, True))"

lemma book_inv_frame: "book_frame ex ex' \<Longrightarrow> book_inv ex' = book_inv ex"
  by (simp add: book_frame_def book_inv_def)

lemma book_inv_cong:
  "tags ex' = tags ex \<Longrightarrow> tx_runningTasks ex' = tx_runningTasks ex \<Longrightarrow> tx_maxConcurrent ex' = tx_maxConcurrent ex \<Longrightarrow> book_inv ex' = book_inv ex"
  by (simp add: book_inv_def)

lemma book_inv_upd:
  "(\<And>u. tag (f u) = tag u) \<Longrightarrow> book_inv (upd a f ex) = book_inv ex"
  by (intro book_inv_cong) (simp_all add: tags_def)

lemma tags_settle: "active (obj ex a) \<Longrightarrow> a < length (tx_objects ex) \<Longrightarrow>
    tags (settle a r ex) = (tags ex)[a := (xt_taskId (ru_spec (obj ex a)), False)]"
  by (simp add: settle_simps tags_def upd_def map_update active_def)

lemma book_settle:
  assumes "book_inv ex" and a: "a < length (tx_objects ex)"
  shows "book_inv (settle a r ex)"
proof (cases "active (obj ex a)")
  case True
  let ?i = "xt_taskId (ru_spec (obj ex a))" and ?rt = "tx_runningTasks ex"
  have ta: "tags ex ! a = (?i, True)" "a < length (tags ex)" using True a by (simp_all add: tags_def)
  then have get: "jm_get ?rt ?i = Some a" using assms(1) by (simp add: book_inv_def)
  have rt: "tx_runningTasks (settle a r ex) = jm_delete ?i ?rt" "tx_maxConcurrent (settle a r ex) = tx_maxConcurrent ex"
    using True by (simp_all add: settle_simps)
  have "jm_size (jm_delete ?i ?rt) \<le> tx_maxConcurrent ex"
    using assms(1) jm.size_del [of ?rt ?i] by (auto simp: book_inv_def)
  moreover have "jm_get (jm_delete ?i ?rt) i = Some b \<longleftrightarrow> b < length (tags ex) \<and> (tags ex)[a := (?i, False)] ! b = (i, True)" for i b
    using assms(1) get ta by (auto simp: book_inv_def nth_list_update split: if_splits) (metis option.inject)
  ultimately show ?thesis
    using assms(1) unfolding book_inv_def rt tags_settle [OF True a] by simp
qed (use assms in \<open>simp add: settle_simps\<close>)

lemma book_register:
  assumes "book_inv ex" and "\<not> jm_size (tx_runningTasks ex) \<ge> tx_maxConcurrent ex" and "jm_get (tx_runningTasks ex) (xt_taskId spec) = None"
  shows "book_inv (register now spec ex)"
proof -
  have t: "tags (register now spec ex) = tags ex @ [(xt_taskId spec, True)]" "length (tags ex) = length (tx_objects ex)"
    by (simp_all add: tags_def)
  have "jm_size (jm_set (xt_taskId spec) (length (tx_objects ex)) (tx_runningTasks ex)) \<le> tx_maxConcurrent ex"
    using assms jm.size_put [of "tx_runningTasks ex"] by (simp add: book_inv_def)
  with assms(1,3) t(2) show ?thesis unfolding book_inv_def t(1) by (auto simp: nth_append less_Suc_eq) (metis option.distinct(1))
qed

lemma book_inv_at:
  assumes "active (f (obj ex a)) = active (obj ex a)" and "xt_taskId (ru_spec (f (obj ex a))) = xt_taskId (ru_spec (obj ex a))"
  shows "book_inv (upd a f ex) = book_inv ex"
  using assms
  by (intro book_inv_cong) (cases "a < length (tx_objects ex)";
      simp add: tags_def upd_def map_update list_update_same_conv list_update_beyond)+

lemma book_other [simp]:
  "book_inv (ex\<lparr>tx_listeners := l\<rparr>) = book_inv ex" "book_inv (ex\<lparr>tx_created := c\<rparr>) = book_inv ex"
  "book_inv (emitOutput i t d ex) = book_inv ex"
  by (simp_all add: book_inv_def tags_def)

definition waiting :: "ExecPhase \<Rightarrow> bool" where
  "waiting ph \<longleftrightarrow> (\<forall>r. ph \<noteq> Settled r)"

lemma active_waiting: "active u \<longleftrightarrow> waiting (ru_phase u)"
  by (simp add: active_def waiting_def split: ExecPhase.split)

lemma waiting_simps [simp]: "waiting AwaitProcess" "waiting AwaitInspect" "waiting AwaitPull" "waiting AwaitCreate" "waiting AwaitAttach"
  "waiting AwaitStart" "waiting AwaitExit" "waiting AwaitSubagent" "\<not> waiting (Settled r)"
  by (simp_all add: waiting_def)

lemma book_setPhase: "active (obj ex a) \<Longrightarrow> waiting ph \<Longrightarrow> book_inv (setPhase a ph ex) = book_inv ex"
  unfolding setPhase_def by (rule book_inv_at) (simp_all add: active_waiting)

lemma book_start:
  assumes "book_inv ex" and "active (obj ex a)" and a: "a < length (tx_objects ex)"
  shows "book_inv (executeShell spawned a ex)" "book_inv (executeContainer now a ex)" "book_inv (executeSubagent now a ex)"
proof -
  have "book_inv (upd a (\<lambda>u. u\<lparr>ru_process := p, ru_phase := AwaitProcess, ru_timer := t\<rparr>) ex)" for p t
    using assms by (subst book_inv_at) (simp_all add: active_waiting)
  then show "book_inv (executeShell spawned a ex)"
    using book_settle [OF assms(1) a] by (simp add: executeShell_def Let_def split: option.split)
  show "book_inv (executeContainer now a ex)"
    using book_settle [OF assms(1) a] book_setPhase [OF assms(2)] assms(1)
    by (simp add: executeContainer_def containerFailed_def Let_def split: option.split)
  have "book_inv (setPhase a AwaitSubagent ((emitOutput i t d ex)\<lparr>tx_listeners := l\<rparr>))" for i t d l
    using assms by (subst book_setPhase) (simp_all)
  then show "book_inv (executeSubagent now a ex)"
    using book_settle [OF assms(1) a] by (simp add: executeSubagent_def Let_def split: option.split)
qed

lemma book_execute:
  assumes "book_inv ex" and "jm_get (tx_runningTasks ex) (xt_taskId spec) = None"
  shows "book_inv (fst (execute now spec spawned ex))"
proof (cases "jm_size (tx_runningTasks ex) \<ge> tx_maxConcurrent ex")
  case False
  note reg = book_register [OF assms(1) False assms(2)]
  have "book_inv (dispatch now spawned (length (tx_objects ex)) (register now spec ex))"
    by (rule dispatchI) (auto intro!: book_start book_settle reg)
  with False show ?thesis by (simp add: execute_def Let_def)
qed (use assms in \<open>simp add: execute_def\<close>)

lemma book_engine:
  assumes "afterEngine ph r a now ex = Some ex'" and "ph = ru_phase (obj ex a)" and "book_inv ex" and a: "a < length (tx_objects ex)"
  shows "book_inv ex'"
proof (cases "active (obj ex a)")
  case True
  have cf: "book_inv (containerFailed a e now ex)" for e
    unfolding containerFailed_def Let_def by (rule book_settle [OF assms(3) a])
  have cc: "book_inv (createContainer a ex)"
    using True assms(3) by (simp add: createContainer_def book_setPhase split: option.split)
  have up: "book_inv (setPhase a ph (upd a f ex))" if "\<And>u. ru_phase (f u) = ru_phase u" "\<And>u. ru_spec (f u) = ru_spec u" "waiting ph" for f ph
    using True assms(3) that a by (subst book_setPhase) (simp_all add: active_waiting book_inv_at)
  have "waiting ph" using True assms(2) by (simp add: active_waiting)
  with assms(1,3) a True show ?thesis
    by (cases ph; cases r) (auto simp: cf cc up book_setPhase intro!: book_settle)
next
  case False
  then obtain x where "ru_phase (obj ex a) = Settled x" by (auto simp: active_def split: ExecPhase.splits)
  with assms(1,2) show ?thesis by simp
qed

lemma book_events:
  assumes "book_inv ex" and "a < length (tx_objects ex)"
  shows "book_inv (onClose a code sg now ex)" "book_inv (onError a msg now ex)" "book_inv (afterSubagent a r now ex)"
  unfolding onClose_def onError_def afterSubagent_def Let_def
  using assms by (auto intro!: book_settle simp: book_inv_at active_waiting)

text \<open>Callers that do not reuse the id of a task that is still running.\<close>

fun fresh_step :: "ExecAct \<Rightarrow> TaskExecutor \<Rightarrow> TaskExecutor option" where
  "fresh_step (Execute now spec spawned) ex =
     (if jm_has (tx_runningTasks ex) (xt_taskId spec) then None else exec_step (Execute now spec spawned) ex)"
| "fresh_step act ex = exec_step act ex"

lemmas book_frames = book_inv_frame [OF cancelTask_frame(1)] book_inv_frame [OF procData_frame(1)] book_inv_frame [OF onProcess_frame(1)]
  book_inv_frame [OF onTimeout_frame(1)] book_inv_frame [OF onKillTimer_frame(1)] book_inv_frame [OF onAttached_frame(1)]

lemma book_subEvent: "book_inv (onSubEvent ev ex) = book_inv ex"
  by (rule book_inv_cong) (simp_all add: tags_def onSubEvent_frame)

lemma book_step: "fresh_step act ex = Some ex' \<Longrightarrow> book_inv ex \<Longrightarrow> book_inv ex'"
  by (induction act ex rule: fresh_step.induct)
     (auto simp: book_execute jm_has_def book_frames book_subEvent book_events intro: book_engine split: if_splits)

interpretation book_run: invariant_of fresh_step book_inv
  by unfold_locales (rule book_step)

lemma book_new: "book_inv (new_TaskExecutor mx dock key sandbox env)"
  by (simp add: new_TaskExecutor_def book_inv_def tags_def jm_size_def)

text \<open>The limit is fixed.\<close>

lemma limit_settle [simp]: "tx_maxConcurrent (settle a r ex) = tx_maxConcurrent ex"
  by (cases "active (obj ex a)") (simp_all add: settle_simps)

lemma limit_start [simp]:
  "tx_maxConcurrent (executeShell spawned a ex) = tx_maxConcurrent ex" "tx_maxConcurrent (executeContainer now a ex) = tx_maxConcurrent ex"
  "tx_maxConcurrent (executeSubagent now a ex) = tx_maxConcurrent ex"
  by (simp_all add: executeShell_def executeContainer_def executeSubagent_def containerFailed_def setPhase_def Let_def split: option.split)

lemma limit_execute [simp]: "tx_maxConcurrent (fst (execute now spec spawned ex)) = tx_maxConcurrent ex"
  using dispatchI [of "\<lambda>x. tx_maxConcurrent x = tx_maxConcurrent ex"] by (simp add: execute_def Let_def)

lemma limit_engine: "afterEngine ph r a now ex = Some ex' \<Longrightarrow> tx_maxConcurrent ex' = tx_maxConcurrent ex"
  by (induction ph r a now ex rule: afterEngine.induct)
     (auto simp: setPhase_def createContainer_def containerFailed_def Let_def split: option.splits)

lemmas limit_frames = cancelTask_frame(1) procData_frame(1) onProcess_frame(1) onTimeout_frame(1) onKillTimer_frame(1) onAttached_frame(1)

lemma limit_step: "fresh_step act ex = Some ex' \<Longrightarrow> tx_maxConcurrent ex' = tx_maxConcurrent ex"
  using limit_frames [unfolded book_frame_def]
  by (induction act ex rule: fresh_step.induct)
     (auto simp: onSubEvent_frame onClose_def onError_def afterSubagent_def Let_def dest: limit_engine split: if_splits)

interpretation limit_run: invariant_of fresh_step "\<lambda>ex. tx_maxConcurrent ex = m"
  by unfold_locales (auto dest: limit_step)

text \<open>
  C11. As long as no caller reuses the id of a task that is still running, whatever
  processes, containers, timers and subagents do and whatever is cancelled: the ids
  reported as running are distinct and are exactly those of the calls that have not
  settled yet, and never more calls than the configured number are unsettled at once.
\<close>

theorem running_tasks_exact:
  assumes "run fresh_step acts (new_TaskExecutor mx dock key sandbox env) = Some ex"
  shows "distinct (getRunningTaskIds ex)
    \<and> set (getRunningTaskIds ex) = {xt_taskId (ru_spec u) | u. u \<in> set (tx_objects ex) \<and> active u}
    \<and> length (filter active (tx_objects ex)) \<le> nullish mx 10"
proof -
  let ?rt = "tx_runningTasks ex"
  have inv: "book_inv ex" using book_run.run_inv [OF book_new assms] .
  have lim: "tx_maxConcurrent ex = nullish mx 10"
    using limit_run.run_inv [OF _ assms] by (simp add: new_TaskExecutor_def)
  have get: "jm_get ?rt i = Some a \<longleftrightarrow> a < length (tx_objects ex) \<and> xt_taskId (ru_spec (obj ex a)) = i \<and> active (obj ex a)" for i a
    using inv by (auto simp: book_inv_def tags_def)
  have "i \<in> set (jm_keys ?rt) \<longleftrightarrow> (\<exists>u \<in> set (tx_objects ex). active u \<and> xt_taskId (ru_spec u) = i)" for i
  proof -
    have "i \<in> set (jm_keys ?rt) \<longleftrightarrow> (\<exists>a. jm_get ?rt i = Some a)" by (simp add: jm.keys_get)
    then show ?thesis unfolding get by (metis in_set_conv_nth)
  qed
  moreover have "{a. a < length (tx_objects ex) \<and> active (obj ex a)} \<subseteq> set (jm_values ?rt)"
    using get by (auto intro: jm_get_in_values)
  then have "card {a. a < length (tx_objects ex) \<and> active (obj ex a)} \<le> length (jm_values ?rt)"
    using card_mono card_length le_trans by (metis List.finite_set)
  then have "length (filter active (tx_objects ex)) \<le> jm_size ?rt"
    by (simp add: length_filter_conv_card jm_values_def jm_size_def)
  ultimately show ?thesis
    using inv lim by (auto simp: getRunningTaskIds_def book_inv_def jm.wf_keys)
qed

definition echoTask :: "string \<Rightarrow> ExecTask" where
  "echoTask i = stubborn\<lparr>xt_taskId := i, xt_timeoutMs := None\<rparr>"

definition echoActs :: "ExecAct list" where
  "echoActs = [Execute 0 (echoTask ''a'') True, Execute 0 (echoTask ''b'') True, ProcExit 0, ProcClose 0 (Some 0) False 5,
     Execute 6 (echoTask ''c'') True]"

lemma echo_runs:
  "map_option getRunningTaskIds (run fresh_step echoActs (new_TaskExecutor (Some 2) True None None [])) = Some [''b'', ''c'']"
  by code_simp

theorem running_tasks_exact_witness:
  "\<exists>ex. run fresh_step echoActs (new_TaskExecutor (Some 2) True None None []) = Some ex
   \<and> getRunningTaskIds ex = [''b'', ''c''] \<and> length (filter active (tx_objects ex)) \<le> 2"
proof -
  obtain ex where ex: "run fresh_step echoActs (new_TaskExecutor (Some 2) True None None []) = Some ex" "getRunningTaskIds ex = [''b'', ''c'']"
    using echo_runs by auto
  from running_tasks_exact [OF ex(1)] ex show ?thesis by (auto simp: nullish_def)
qed

text \<open>
  With a reused id the second call replaces the first in the map and whichever ends first
  removes the entry of the other: with a limit of one task, two run at once while the
  executor reports none.
\<close>

theorem reused_id_breaks_limit:
  "\<exists>ex. run exec_step [Execute 0 (echoTask ''a'') True, Execute 1 (echoTask ''b'') True, Execute 2 (echoTask ''a'') True,
       ProcExit 0, ProcClose 0 (Some 0) False 3, Execute 4 (echoTask ''c'') True] (new_TaskExecutor (Some 3) True None None []) = Some ex
   \<and> getRunningTaskIds ex = [''b'', ''c''] \<and> length (filter active (tx_objects ex)) = 3
   \<and> snd (cancelTask ''a'' ex) = False"
proof -
  let ?r = "run exec_step [Execute 0 (echoTask ''a'') True, Execute 1 (echoTask ''b'') True, Execute 2 (echoTask ''a'') True,
       ProcExit 0, ProcClose 0 (Some 0) False 3, Execute 4 (echoTask ''c'') True] (new_TaskExecutor (Some 3) True None None [])"
  have "map_option (\<lambda>ex. (getRunningTaskIds ex, length (filter active (tx_objects ex)), snd (cancelTask ''a'' ex))) ?r
      = Some ([''b'', ''c''], 3, False)"
    by code_simp
  then show ?thesis by auto
qed

section \<open>What a shell task returns\<close>

text \<open>A call has a process or talks to the container engine, never both.\<close>

definition kind_ok :: "ExecRunning \<Rightarrow> bool" where
  "kind_ok u \<longleftrightarrow> (ru_process u \<noteq> None \<longrightarrow> \<not> ru_attached u \<and> (ru_phase u = AwaitProcess \<or> \<not> active u))"

definition kinds_ok :: "TaskExecutor \<Rightarrow> bool" where
  "kinds_ok ex \<longleftrightarrow> list_all kind_ok (tx_objects ex)"

lemma kinds_upd: "kinds_ok ex \<Longrightarrow> (kind_ok (obj ex a) \<Longrightarrow> kind_ok (f (obj ex a))) \<Longrightarrow> kinds_ok (upd a f ex)"
  by (cases "a < length (tx_objects ex)")
     (auto simp: kinds_ok_def upd_def list_all_length nth_list_update list_update_beyond)

lemma kinds_other [simp]:
  "kinds_ok (ex\<lparr>tx_runningTasks := m\<rparr>) = kinds_ok ex" "kinds_ok (ex\<lparr>tx_killTimers := k\<rparr>) = kinds_ok ex"
  "kinds_ok (ex\<lparr>tx_listeners := l\<rparr>) = kinds_ok ex" "kinds_ok (ex\<lparr>tx_created := c\<rparr>) = kinds_ok ex"
  "kinds_ok (ex\<lparr>tx_stopped := t\<rparr>) = kinds_ok ex" "kinds_ok (ex\<lparr>tx_uncaught := t\<rparr>) = kinds_ok ex" "kinds_ok (emitOutput i t' d ex) = kinds_ok ex"
  by (simp_all add: kinds_ok_def)

lemma kinds_settle: "kinds_ok ex \<Longrightarrow> kinds_ok (settle a r ex)"
  by (cases "active (obj ex a)") (auto simp: settle_simps kind_ok_def active_waiting intro!: kinds_upd)

lemma kinds_onProcess: "kinds_ok ex \<Longrightarrow> kinds_ok (onProcess f a ex)"
  unfolding onProcess_def by (erule kinds_upd) (simp add: kind_ok_def active_waiting)

lemma kinds_timer: "kinds_ok ex \<Longrightarrow> kinds_ok (upd a (\<lambda>u. u\<lparr>ru_timer := False\<rparr>) ex)"
  by (erule kinds_upd) (simp add: kind_ok_def active_waiting)

lemma kinds_procData: "kinds_ok ex \<Longrightarrow> kinds_ok (procData a err d ex)"
  unfolding procData_def by (simp, erule kinds_upd) (simp add: kind_ok_def active_waiting)

lemma kinds_onFrames: "kinds_ok ex \<Longrightarrow> kinds_ok (fold (onFrame a) fs ex)"
  by (induction fs arbitrary: ex) (simp_all add: onFrame_def kinds_procData)

lemma kinds_setPhase: "kinds_ok ex \<Longrightarrow> ru_process (obj ex a) = None \<Longrightarrow> kinds_ok (setPhase a ph ex)"
  unfolding setPhase_def by (erule kinds_upd) (simp add: kind_ok_def)

lemma kinds_cancel: "kinds_ok ex \<Longrightarrow> kinds_ok (fst (cancelTask i ex))"
proof -
  assume k: "kinds_ok ex"
  then have "kinds_ok (upd a (\<lambda>u. u\<lparr>ru_cancelled := True\<rparr>) ex)" for a
    by (rule kinds_upd) (simp add: kind_ok_def active_waiting)
  with k show ?thesis by (simp add: cancelTask_def Let_def kinds_onProcess split: option.split)
qed

lemma kinds_start:
  assumes "kinds_ok ex" and "ru_process (obj ex a) = None" and "\<not> ru_attached (obj ex a)"
  shows "kinds_ok (executeShell spawned a ex)" "kinds_ok (executeContainer now a ex)" "kinds_ok (executeSubagent now a ex)"
proof -
  have "kinds_ok (upd a (\<lambda>u. u\<lparr>ru_process := p, ru_phase := AwaitProcess, ru_timer := t\<rparr>) ex)" for p t
    using assms(1) by (rule kinds_upd) (simp add: kind_ok_def assms)
  then show "kinds_ok (executeShell spawned a ex)"
    using assms(1) by (simp add: executeShell_def Let_def kinds_settle split: option.split)
  show "kinds_ok (executeContainer now a ex)" "kinds_ok (executeSubagent now a ex)"
    using assms by (simp_all add: executeContainer_def executeSubagent_def containerFailed_def Let_def kinds_settle kinds_setPhase split: option.split)
qed

lemma kinds_register: "kinds_ok ex \<Longrightarrow> kinds_ok (register now spec ex)"
  by (simp add: kinds_ok_def kind_ok_def)

lemma kinds_execute: "kinds_ok ex \<Longrightarrow> kinds_ok (fst (execute now spec spawned ex))"
  by (auto simp: execute_def Let_def newRunning_def intro!: dispatchI [where P = kinds_ok] kinds_start kinds_register kinds_settle)

lemma kinds_engine:
  assumes "afterEngine ph r a now ex = Some ex'" and "ph = ru_phase (obj ex a)" and k: "kinds_ok ex" and a: "a < length (tx_objects ex)"
  shows "kinds_ok ex'"
proof -
  have "kind_ok (obj ex a)" using k a by (simp add: kinds_ok_def list_all_length)
  moreover have "active (obj ex a)" "ru_phase (obj ex a) \<noteq> AwaitProcess"
    using assms(1,2) by (cases r; auto simp: active_def split: ExecPhase.splits)+
  ultimately have p: "ru_process (obj ex a) = None" by (auto simp: kind_ok_def)
  have up: "kinds_ok (setPhase a q (upd a f ex))" if "\<And>u. ru_process (f u) = ru_process u" for f q
    using that p a by (intro kinds_setPhase kinds_upd k) (auto simp: kind_ok_def)
  have cc: "kinds_ok (createContainer a ex)"
    using k p by (simp add: createContainer_def kinds_setPhase split: option.split)
  from assms(1) k p show ?thesis
    by (cases ph; cases r) (auto simp: containerFailed_def Let_def up cc kinds_settle kinds_setPhase)
qed

lemma kinds_events:
  assumes "kinds_ok ex"
  shows "kinds_ok (onClose a code sg now ex)" "kinds_ok (onError a msg now ex)" "kinds_ok (afterSubagent a r now ex)"
    "kinds_ok (onTimeout a ex)" "kinds_ok (onKillTimer a ex)" "kinds_ok (onAttached a d ex)" "kinds_ok (onSubEvent ev ex)"
  using assms onSubEvent_frame [of ev ex]
  by (simp_all add: onClose_def onError_def afterSubagent_def onTimeout_def onKillTimer_def onAttached_def Let_def kinds_settle kinds_timer
      kinds_onProcess kinds_onFrames split: option.split prod.split) (simp add: kinds_ok_def)

lemma kinds_step: "exec_step act ex = Some ex' \<Longrightarrow> kinds_ok ex \<Longrightarrow> kinds_ok ex'"
  by (induction act ex rule: exec_step.induct)
     (auto simp: kinds_execute kinds_cancel kinds_procData kinds_onProcess kinds_events intro: kinds_engine split: if_splits)

interpretation kinds_run: invariant_of exec_step kinds_ok
  by unfold_locales (rule kinds_step)

end
