(* ===== verification/TaskOutput.thy ===== *)
theory TaskOutput
  imports TaskExecutionProps
begin

text \<open>
  What the executor returns of a task's output: the bytes a process wrote, the streams of
  a container taken apart again, and the events of subagents.
\<close>

section \<open>Shell tasks\<close>

text \<open>What an action makes the process of a call write to one of its streams.\<close>

fun writes :: "nat \<Rightarrow> bool \<Rightarrow> ExecAct \<Rightarrow> string list" where
  "writes a err (ProcData b e d) = (if b = a \<and> e = err then [d] else [])"
| "writes a err _ = []"

definition written :: "nat \<Rightarrow> bool \<Rightarrow> ExecAct list \<Rightarrow> string list" where
  "written a err acts = concat (map (writes a err) acts)"

lemma written_snoc: "written a err (acts @ [act]) = written a err acts @ writes a err act"
  by (simp add: written_def)

lemma chunks_nth: "a < length (tx_objects ex) \<Longrightarrow> chunks ex ! a = (ru_process (obj ex a) = None, ru_stdout (obj ex a), ru_stderr (obj ex a))"
  by (simp add: chunks_def)

lemma length_chunks [simp]: "length (chunks ex) = length (tx_objects ex)"
  by (simp add: chunks_def)

lemma chunks_upd: "(\<And>u. (ru_process (f u) = None, ru_stdout (f u), ru_stderr (f u)) = (ru_process u = None, ru_stdout u, ru_stderr u)) \<Longrightarrow>
    chunks (upd a f ex) = chunks ex"
  unfolding chunks_def by (rule map_upd)

lemma chunks_other [simp]:
  "chunks (ex\<lparr>tx_listeners := l\<rparr>) = chunks ex" "chunks (ex\<lparr>tx_created := c\<rparr>) = chunks ex" "chunks (emitOutput i t d ex) = chunks ex"
  "chunks (settle a r ex) = chunks ex"
  by (simp_all add: settle_frame) (simp_all add: chunks_def)

lemma chunks_setPhase [simp]: "chunks (setPhase a ph ex) = chunks ex"
  unfolding setPhase_def by (rule chunks_upd) simp

lemma chunks_engine: "afterEngine ph r a now ex = Some ex' \<Longrightarrow> chunks ex' = chunks ex"
  by (induction ph r a now ex rule: afterEngine.induct)
     (auto simp: createContainer_def containerFailed_def Let_def chunks_upd split: option.splits)

lemma chunks_events:
  "chunks (onClose a code sg now ex) = chunks ex" "chunks (onError a msg now ex) = chunks ex" "chunks (afterSubagent a r now ex) = chunks ex"
  "chunks (onSubEvent ev ex) = chunks ex"
  by (simp_all add: onClose_def onError_def afterSubagent_def Let_def chunks_upd) (simp add: chunks_def onSubEvent_frame)

lemma chunks_execute:
  "\<exists>b. chunks (fst (execute now spec spawned ex)) = chunks ex \<or> chunks (fst (execute now spec spawned ex)) = chunks ex @ [(b, [], [])]"
proof -
  let ?a = "length (tx_objects ex)" and ?ex1 = "register now spec ex"
  have reg: "chunks ?ex1 = chunks ex @ [(True, [], [])]" by (simp add: chunks_def newRunning_def)
  have "\<exists>b. chunks (dispatch now spawned ?a ?ex1) = chunks ex @ [(b, [], [])]"
  proof (rule dispatchI)
    show "\<exists>b. chunks (executeShell spawned ?a ?ex1) = chunks ex @ [(b, [], [])]"
      using reg by (simp add: executeShell_def Let_def split: option.split) (auto simp: chunks_def upd_def newRunning_def)
  qed (auto simp: executeContainer_def executeSubagent_def containerFailed_def Let_def reg split: option.split)
  then show ?thesis by (auto simp: execute_def Let_def)
qed

lemma chunks_procData:
  assumes "a < length (tx_objects ex)"
  shows "chunks (procData a err d ex) = (chunks ex)[a := (case chunks ex ! a of (n, xs, ys) \<Rightarrow>
    (n, xs @ writes a False (ProcData a err d), ys @ writes a True (ProcData a err d)))]"
  using assms by (cases err) (simp_all add: procData_def chunks_def upd_def map_update)

text \<open>The chunks a call with a process has collected are those its process wrote.\<close>

definition collected :: "ExecAct list \<Rightarrow> TaskExecutor \<Rightarrow> bool" where
  "collected acts ex \<longleftrightarrow> (\<forall>a. if a < length (chunks ex) \<and> \<not> fst (chunks ex ! a)
      then snd (chunks ex ! a) = (written a False acts, written a True acts)
      else written a False acts = [] \<and> written a True acts = [])"

lemma collected_same: "chunks ex' = chunks ex \<Longrightarrow> (\<And>a e. writes a e act = []) \<Longrightarrow> collected acts ex \<Longrightarrow> collected (acts @ [act]) ex'"
  by (simp add: collected_def written_snoc)

lemma collected_new:
  assumes "chunks ex' = chunks ex @ [(b, [], [])]" and "\<And>a e. writes a e act = []" and "collected acts ex"
  shows "collected (acts @ [act]) ex'"
  using assms(3) unfolding collected_def assms(1) written_snoc assms(2)
  by (auto simp: nth_append less_Suc_eq split: if_splits)

definition payloads :: "nat \<Rightarrow> (nat \<times> string) list \<Rightarrow> string list" where
  "payloads t fs = map snd (filter (\<lambda>f. fst f = t) fs)"

lemma onFrame_length [simp]: "length (tx_objects (onFrame a f ex)) = length (tx_objects ex)"
  by (simp add: onFrame_def procData_def)

lemma chunks_frames:
  "a < length (tx_objects ex) \<Longrightarrow> chunks (fold (onFrame a) fs ex) = (chunks ex)[a := (case chunks ex ! a of (n, xs, ys) \<Rightarrow>
     (n, xs @ payloads 1 fs, ys @ payloads 2 fs))]"
proof (induction fs arbitrary: ex)
  case Nil
  then show ?case by (simp add: payloads_def case_prod_unfold)
next
  case (Cons f fs)
  have "chunks (onFrame a f ex) = (chunks ex)[a := (case chunks ex ! a of (n, xs, ys) \<Rightarrow>
     (n, xs @ payloads 1 [f], ys @ payloads 2 [f]))]"
    using Cons.prems by (simp add: onFrame_def chunks_procData payloads_def case_prod_unfold)
  with Cons.IH [of "onFrame a f ex"] Cons.prems show ?case
    by (simp add: payloads_def case_prod_unfold)
qed

lemma chunks_onAttached:
  "a < length (tx_objects ex) \<Longrightarrow> chunks (onAttached a d ex) = (chunks ex)[a := (case chunks ex ! a of (n, xs, ys) \<Rightarrow>
     (n, xs @ payloads 1 (fst (demux d)), ys @ payloads 2 (fst (demux d))))]"
  using chunks_frames [of a ex "fst (demux d)"]
  by (simp add: onAttached_def Let_def case_prod_unfold) (simp add: chunks_def)

lemma collected_step:
  assumes step: "exec_step act ex = Some ex'" and "kinds_ok ex" and c: "collected acts ex"
  shows "collected (acts @ [act]) ex'"
proof (cases act)
  case (Execute now spec spawned)
  with step chunks_execute [of now spec spawned ex] c show ?thesis by (auto intro: collected_same collected_new)
next
  case (ProcData a err d)
  with step have a: "a < length (tx_objects ex)" "ru_process (obj ex a) \<noteq> None" "ex' = procData a err d ex" by (auto split: if_splits)
  then have *: "\<not> fst (chunks ex ! a)" by (simp add: chunks_nth)
  have "collected (acts @ [ProcData a err d]) ex'"
    using c * a(1) unfolding collected_def a(3) chunks_procData [OF a(1)] written_snoc
    by (auto simp: nth_list_update case_prod_unfold split: if_splits)
  with ProcData show ?thesis by simp
next
  case (AttachedData a d)
  with step have a: "a < length (tx_objects ex)" "ru_attached (obj ex a)" "ex' = onAttached a d ex" by (auto split: if_splits)
  then have *: "fst (chunks ex ! a)" using assms(2) by (auto simp: chunks_nth kinds_ok_def kind_ok_def list_all_length)
  have "collected (acts @ [AttachedData a d]) ex'"
    using c * a(1) unfolding collected_def a(3) chunks_onAttached [OF a(1)] written_snoc
    by (auto simp: nth_list_update case_prod_unfold split: if_splits)
  with AttachedData show ?thesis by simp
qed (use step chunks_engine in \<open>auto intro!: collected_same [OF _ _ c] simp: cancelTask_frame onProcess_frame onTimeout_frame onKillTimer_frame
      chunks_events split: if_splits\<close>)

lemma collected_run:
  "run exec_step acts (new_TaskExecutor mx dock key sandbox env) = Some ex \<Longrightarrow> collected acts ex \<and> kinds_ok ex"
proof (induction acts arbitrary: ex rule: rev_induct)
  case Nil
  then show ?case by (auto simp: new_TaskExecutor_def collected_def chunks_def written_def kinds_ok_def)
next
  case (snoc act acts)
  then obtain ex0 where "run exec_step acts (new_TaskExecutor mx dock key sandbox env) = Some ex0" "exec_step act ex0 = Some ex"
    by (auto simp: run_append bind_eq_Some_conv split: option.splits)
  with snoc.IH collected_step kinds_step show ?case by blast
qed

text \<open>
  When the process of a shell task closes, after whatever else the executor did, the
  task's promise settles with exactly the bytes that process wrote to its two streams, in
  order; the exit code is the process's, 128 for one ended by a signal and -1 otherwise;
  and the task counts as a success exactly when that code is 0 and it was not cancelled.
\<close>

theorem shell_result_exact:
  assumes "run exec_step acts (new_TaskExecutor mx dock key sandbox env) = Some ex"
    and "exec_step (ProcClose a code signalled now) ex = Some ex'" and "active (tx_objects ex ! a)"
  shows "\<exists>r. ru_phase (tx_objects ex' ! a) = Settled (Inr r)
    \<and> er_taskId r = xt_taskId (ru_spec (tx_objects ex ! a))
    \<and> er_stdout r = concat (written a False acts) \<and> er_stderr r = concat (written a True acts)
    \<and> er_exitCode r = (case code of Some c \<Rightarrow> c | None \<Rightarrow> if signalled then 128 else -1)
    \<and> (er_success r \<longleftrightarrow> er_exitCode r = 0 \<and> \<not> ru_cancelled (tx_objects ex ! a))
    \<and> (er_error r = None \<longleftrightarrow> \<not> ru_cancelled (tx_objects ex ! a))"
proof -
  have a: "a < length (tx_objects ex)" "ru_process (obj ex a) \<noteq> None" "ex' = onClose a code signalled now ex"
    using assms(2) by (auto split: if_splits option.splits)
  have "collected acts ex" using collected_run [OF assms(1)] by simp
  then have "ru_stdout (obj ex a) = written a False acts" "ru_stderr (obj ex a) = written a True acts"
    using a by (auto simp: collected_def chunks_nth split: if_splits dest!: spec [of _ a])
  moreover have "active (obj (upd a (\<lambda>u. u\<lparr>ru_timer := False\<rparr>) ex) a)" using assms(3) a(1) by (simp add: active_waiting)
  ultimately show ?thesis
    using a by (simp add: onClose_def Let_def settle_simps exitResult_def exitCodeOf_def nullish_def split: option.split)
qed

definition echoWrites :: "ExecAct list" where
  "echoWrites = [Execute 0 (echoTask ''a'') True, ProcData 0 False ''he'', Execute 1 (echoTask ''b'') True, ProcData 1 False ''no'',
     ProcData 0 True ''eek'', ProcData 0 False ''llo'', CancelTask ''a'', ProcExit 0]"

lemma echo_writes:
  "\<exists>ex ex'. run exec_step echoWrites (new_TaskExecutor None True None None []) = Some ex
     \<and> exec_step (ProcClose 0 (Some 0) False 9) ex = Some ex' \<and> active (tx_objects ex ! 0) \<and> ru_cancelled (tx_objects ex ! 0)"
proof -
  have "(case run exec_step echoWrites (new_TaskExecutor None True None None []) of None \<Rightarrow> False
     | Some ex \<Rightarrow> exec_step (ProcClose 0 (Some 0) False 9) ex \<noteq> None \<and> active (tx_objects ex ! 0) \<and> ru_cancelled (tx_objects ex ! 0))"
    by code_simp
  then show ?thesis by (auto split: option.splits)
qed

theorem shell_result_exact_witness:
  "\<exists>ex ex' r. run exec_step (echoWrites @ [ProcClose 0 (Some 0) False 9]) (new_TaskExecutor None True None None []) = Some ex'
     \<and> ru_phase (tx_objects ex' ! 0) = Settled (Inr r) \<and> er_stdout r = ''hello'' \<and> er_stderr r = ''eek'' \<and> \<not> er_success r"
proof -
  obtain ex ex' where run: "run exec_step echoWrites (new_TaskExecutor None True None None []) = Some ex"
    and close: "exec_step (ProcClose 0 (Some 0) False 9) ex = Some ex'" and act: "active (tx_objects ex ! 0)" "ru_cancelled (tx_objects ex ! 0)"
    using echo_writes by blast
  moreover have "concat (written 0 False echoWrites) = ''hello''" "concat (written 0 True echoWrites) = ''eek''" by code_simp+
  ultimately show ?thesis
    using shell_result_exact [OF run close act(1)] by (auto simp: run_append)
qed

section \<open>Container output\<close>

text \<open>The frames of the container engine: stream, three zero bytes, the length of the payload in four bytes, the payload.\<close>

definition be32 :: "nat \<Rightarrow> string" where
  "be32 n = [char_of (n div 16777216 mod 256), char_of (n div 65536 mod 256), char_of (n div 256 mod 256), char_of (n mod 256)]"

definition dockerFrame :: "nat \<times> string \<Rightarrow> string" where
  "dockerFrame f = [char_of (fst f), CHR 0x00, CHR 0x00, CHR 0x00] @ be32 (length (snd f)) @ snd f"

definition frame_ok :: "nat \<times> string \<Rightarrow> bool" where
  "frame_ok f \<longleftrightarrow> fst f < 256 \<and> length (snd f) < 2 ^ 32"

lemma be32_value: "n < 2 ^ 32 \<Longrightarrow> foldl (\<lambda>n c. 256 * n + of_char c) 0 (be32 n) = n"
proof -
  assume n: "n < 2 ^ 32"
  have "n div 16777216 mod 256 = n div 16777216" using n by simp
  moreover have "256 * (n div 16777216) + n div 65536 mod 256 = n div 65536" "256 * (n div 65536) + n div 256 mod 256 = n div 256"
    using mult_div_mod_eq [of 256 "n div 65536"] mult_div_mod_eq [of 256 "n div 256"] by (simp_all flip: div_mult2_eq)
  ultimately show ?thesis using mult_div_mod_eq [of 256 n] by (simp add: be32_def del: mult_div_mod_eq)
qed

lemma length_dockerFrame: "length (dockerFrame f) = 8 + length (snd f)"
  by (simp add: dockerFrame_def be32_def)

lemma demuxFrom_frames:
  "list_all frame_ok fs \<Longrightarrow> demuxFrom (pre @ concat (map dockerFrame fs)) (length pre) = (fs, True)"
proof (induction fs arbitrary: pre)
  case Nil
  then show ?case by (simp add: demuxFrom.simps)
next
  case (Cons f fs)
  let ?d = "pre @ concat (map dockerFrame (f # fs))"
  have f: "fst f < 256" "length (snd f) < 2 ^ 32" using Cons.prems by (simp_all add: frame_ok_def)
  have l: "length (be32 n) = 4" for n by (simp add: be32_def)
  have "take 4 (drop (length pre + 4) ?d) = be32 (length (snd f))" by (simp add: dockerFrame_def l)
  then have size: "readUInt32BE ?d (length pre + 4) = Some (length (snd f))"
    using be32_value [OF f(2)] by (simp add: readUInt32BE_def dockerFrame_def l)
  have rest: "demuxFrom ?d (length pre + 8 + length (snd f)) = (fs, True)"
    using Cons.IH [of "pre @ dockerFrame f"] Cons.prems by (simp add: length_dockerFrame add.assoc)
  have "?d ! length pre = char_of (fst f)" "take (length (snd f)) (drop (length pre + 8) ?d) = snd f" "length pre < length ?d"
    by (simp_all add: dockerFrame_def l)
  then show ?case using size rest f(1) by (subst demuxFrom.simps) (simp add: Let_def)
qed

text \<open>A chunk of fewer than eight bytes, the tail of a frame for instance, makes the listener throw.\<close>

lemma demux_short: "0 < length d \<Longrightarrow> length d < 8 \<Longrightarrow> demux d = ([], False)"
  by (simp add: demux_def demuxFrom.simps readUInt32BE_def)

lemma attached_frame [simp]:
  "length (tx_objects (onAttached a d ex)) = length (tx_objects ex)"
  using length_map [of ru_process "tx_objects (onAttached a d ex)"] onAttached_frame(2) [of ex a d]
  by (metis length_map proc_frame_def procs_def)

lemma uncaught_frames: "tx_uncaught (fold (onFrame a) fs ex) = tx_uncaught ex"
  by (induction fs arbitrary: ex) (simp_all add: onFrame_def procData_def upd_def emitOutput_def)

text \<open>
  C18. If the container engine's stream arrives in chunks of whole frames, each of at most
  2^32 - 1 bytes, the executor takes it apart exactly: the standard output of the task
  grows by the payloads of stream 1, its error output by those of stream 2, in order,
  payloads of other streams are dropped, and no exception escapes.
\<close>

theorem container_output_demuxed:
  assumes "list_all (list_all frame_ok) fss" and "a < length (tx_objects ex)"
  shows "(let ex' = fold (\<lambda>fs. onAttached a (concat (map dockerFrame fs))) fss ex in
      ru_stdout (tx_objects ex' ! a) = ru_stdout (tx_objects ex ! a) @ map snd (filter (\<lambda>f. fst f = 1) (concat fss))
    \<and> ru_stderr (tx_objects ex' ! a) = ru_stderr (tx_objects ex ! a) @ map snd (filter (\<lambda>f. fst f = 2) (concat fss))
    \<and> tx_uncaught ex' = tx_uncaught ex)"
  using assms
proof (induction fss arbitrary: ex)
  case (Cons fs fss)
  let ?ex1 = "onAttached a (concat (map dockerFrame fs)) ex"
  have d: "demux (concat (map dockerFrame fs)) = (fs, True)"
    using demuxFrom_frames [of fs "[]"] Cons.prems by (simp add: demux_def)
  have a: "a < length (tx_objects ?ex1)" using Cons.prems by simp
  have "chunks ?ex1 ! a = (case chunks ex ! a of (n, xs, ys) \<Rightarrow> (n, xs @ payloads 1 fs, ys @ payloads 2 fs))"
    using Cons.prems by (simp add: chunks_onAttached d)
  then have "ru_stdout (obj ?ex1 a) = ru_stdout (obj ex a) @ payloads 1 fs" "ru_stderr (obj ?ex1 a) = ru_stderr (obj ex a) @ payloads 2 fs"
    using a Cons.prems(2) by (simp_all add: chunks_nth)
  moreover have "tx_uncaught ?ex1 = tx_uncaught ex" by (simp add: onAttached_def d uncaught_frames)
  ultimately show ?case using Cons.IH [OF _ a] Cons.prems by (simp add: Let_def payloads_def)
qed simp

definition boxTask :: ExecTask where
  "boxTask = stubborn\<lparr>xt_type := ''container'', xt_shell := None,
     xt_container := Some \<lparr>co_image = ''alpine'', co_command = Some [''ls''], co_args = Some [''-l''], co_labels = None, co_mounts = None\<rparr>\<rparr>"

definition boxState :: TaskExecutor where
  "boxState = fst (execute 0 boxTask True (new_TaskExecutor None True None None []))"

theorem container_output_demuxed_witness:
  "ru_stdout (tx_objects (fold (\<lambda>fs. onAttached 0 (concat (map dockerFrame fs))) [[(1, ''a''), (2, ''e'')], [(1, ''b'')]] boxState) ! 0) = [''a'', ''b'']"
proof -
  have "list_all (list_all frame_ok) [[(1, ''a''), (2, ''e'')], [(1, ''b'')]]" by (simp add: frame_ok_def)
  moreover have "0 < length (tx_objects boxState)" "ru_stdout (tx_objects boxState ! 0) = []" by code_simp+
  ultimately show ?thesis using container_output_demuxed [of "[[(1, ''a''), (2, ''e'')], [(1, ''b'')]]" 0 boxState] by (simp add: Let_def)
qed

text \<open>
  The engine does not cut its stream at frames: the same bytes cut in the middle of a
  payload make the listener throw, and part of the output is lost.
\<close>

theorem split_frame_loses_output:
  "demux (dockerFrame (1, ''hello'')) = ([(1, ''hello'')], True)
   \<and> demux (take 10 (dockerFrame (1, ''hello''))) = ([(1, ''he'')], True) \<and> demux (drop 10 (dockerFrame (1, ''hello''))) = ([], False)"
proof (intro conjI)
  show "demux (dockerFrame (1, ''hello'')) = ([(1, ''hello'')], True)"
    using demuxFrom_frames [of "[(1, ''hello'')]" "[]"] by (simp add: demux_def frame_ok_def)
  have "dockerFrame (1, ''hello'') = [CHR 0x01, CHR 0x00, CHR 0x00, CHR 0x00, CHR 0x00, CHR 0x00, CHR 0x00, CHR 0x05] @ ''hello''"
    by (simp add: dockerFrame_def be32_def char_of_def bit_Suc_0_iff)
  then have t: "take 10 (dockerFrame (1, ''hello'')) = [CHR 0x01, CHR 0x00, CHR 0x00, CHR 0x00, CHR 0x00, CHR 0x00, CHR 0x00, CHR 0x05] @ ''he''"
    "drop 10 (dockerFrame (1, ''hello'')) = ''llo''" by simp_all
  let ?cut = "[CHR 0x01, CHR 0x00, CHR 0x00, CHR 0x00, CHR 0x00, CHR 0x00, CHR 0x00, CHR 0x05] @ ''he''"
  have "demuxFrom ?cut 13 = ([], True)" by (subst demuxFrom.simps) simp
  then show "demux (take 10 (dockerFrame (1, ''hello''))) = ([(1, ''he'')], True)"
    unfolding t demux_def by (subst demuxFrom.simps) (simp add: readUInt32BE_def)
  show "demux (drop 10 (dockerFrame (1, ''hello''))) = ([], False)" unfolding t by (simp add: demux_short)
qed

text \<open>The command of the specification becomes the container's arguments and its arguments the entry point.\<close>

lemma command_and_args_swapped:
  "map_option (\<lambda>ex. map (\<lambda>o'. (op_Entrypoint o', op_Cmd o')) (tx_created ex)) (exec_step (EngineAnswers 0 EngineOk 1) boxState)
     = Some [(Some [''-l''], Some [''ls''])]"
  by code_simp

section \<open>Subagent tasks\<close>

text \<open>
  All calls share one subagent executor and each listens to all its events: a text of one
  subagent is reported as output of every subagent task that runs at the time.
\<close>

lemma forward_outputs: "tx_objects (forwardEvent ev b ex) = tx_objects ex"
  by (simp add: forwardEvent_def Let_def split: SubEvent.split)

theorem subagent_text_reported_to_all:
  "tx_outputs (onSubEvent (TextEvent t) ex)
     = tx_outputs ex @ map (\<lambda>b. (xt_taskId (ru_spec (tx_objects ex ! b)), OutStdout, OutBytes t)) (tx_listeners ex)"
proof -
  have "tx_outputs (fold (forwardEvent (TextEvent t)) bs ex)
      = tx_outputs ex @ map (\<lambda>b. (xt_taskId (ru_spec (obj ex b)), OutStdout, OutBytes t)) bs" for bs
  proof (induction bs arbitrary: ex)
    case (Cons b bs)
    show ?case by (simp add: Cons forward_outputs) (simp add: forwardEvent_def emitOutput_def)
  qed simp
  then show ?thesis by (simp add: onSubEvent_def)
qed

text \<open>Cancelling a subagent task has no effect on its run or on its result.\<close>

theorem cancelled_subagent_succeeds:
  assumes "ru_phase (tx_objects ex ! a) = AwaitSubagent" and "a < length (tx_objects ex)" and "sr_success r"
  shows "\<exists>res. ru_phase (tx_objects (afterSubagent a r now ex) ! a) = Settled (Inr res) \<and> er_success res \<and> er_stdout res = sr_response r"
  using assms by (simp add: afterSubagent_def Let_def settle_simps active_waiting)

end
