(* ===== verification/MemoryDb.thy ===== *)
theory MemoryDb
  imports MemoryProps
begin

text \<open>
  The shared memory database (\<open>src/memory/shared-memory-db.ts\<close>): the tables of the timeline
  domain with the constraints of their schema, the statements the program itself writes to
  them and those of callers, the snapshot file written after such a statement, and the inspection of the schema.

  A table is the list of its rows in the order of their row ids; \<open>datetime('now')\<close> is the
  clock of the machine that runs the statement. Rows of the other domains are not looked
  at by the program; the schema inspection sees their names and sizes. Where \<open>ORDER BY\<close>
  leaves the order of equal rows open it is that of the row ids. Texts are ASCII apart from
  the dash the snapshot contains.
\<close>

section \<open>Rows\<close>

record ThreadRow =
  th_id :: int
  th_name :: string
  th_description :: "string option"
  th_project_id :: "int option"
  th_status :: "string option"
  th_created_at :: int
  th_updated_at :: int

record ThoughtRow =
  tt_id :: int
  tt_thread_id :: int
  tt_parent :: "int option"
  tt_content :: string
  tt_type :: string
  tt_metadata :: string
  tt_created_at :: int

record PositionRow =
  po_thread_id :: int
  po_current :: "int option"
  po_updated_at :: int

record ContextRow =
  cx_key :: string
  cx_value :: string
  cx_category :: "string option"
  cx_label :: "string option"
  cx_source :: "string option"
  cx_pinned :: "int option"
  cx_created_at :: int
  cx_updated_at :: int

record ClassRow =
  cl_table :: string
  cl_classification :: Classification
  cl_domain :: string

record MemDb =
  db_projects :: "(int \<times> string) list"
  db_threads :: "ThreadRow list"
  db_thoughts :: "ThoughtRow list"
  db_seq :: int
  db_positions :: "PositionRow list"
  db_context :: "ContextRow list"
  db_classes :: "ClassRow list"
  db_others :: "(string \<times> nat) list"
  db_whereami :: "string option"

text \<open>\<open>initializeSchema\<close> on an empty file: the tables and the default classifications.\<close>

definition defaultClassifications :: "ClassRow list" where
  "defaultClassifications = map (\<lambda>(t, c, d). \<lparr>cl_table = t, cl_classification = c, cl_domain = d\<rparr>)
     [(''timeline_projects'', Public, ''timeline''), (''timeline_threads'', Public, ''timeline''),
      (''timeline_thoughts'', Public, ''timeline''), (''timeline_thread_position'', Public, ''timeline''),
      (''timeline_context'', Internal, ''timeline''), (''network_clients'', Public, ''network''),
      (''network_networks'', Public, ''network''), (''infra_builds'', Public, ''infra''),
      (''infra_configs'', Public, ''infra''), (''infra_events'', Public, ''infra''),
      (''infra_sessions'', Public, ''infra''), (''infra_secrets'', Internal, ''infra''), (''task_agent_tasks'', Public, ''task'')]"

definition insertOrIgnore :: "ClassRow \<Rightarrow> ClassRow list \<Rightarrow> ClassRow list" where
  "insertOrIgnore c cs = (if cl_table c \<in> cl_table ` set cs then cs else cs @ [c])"

definition registerClassifications :: "MemDb \<Rightarrow> MemDb" where
  "registerClassifications d = d\<lparr>db_classes := fold insertOrIgnore defaultClassifications (db_classes d)\<rparr>"

definition emptyDb :: MemDb where
  "emptyDb = \<lparr>db_projects = [], db_threads = [], db_thoughts = [], db_seq = 0, db_positions = [], db_context = [], db_classes = [],
     db_others = [(''network_clients'', 0), (''network_networks'', 0), (''infra_builds'', 0), (''infra_configs'', 0), (''infra_events'', 0),
       (''infra_sessions'', 0), (''infra_secrets'', 0), (''task_agent_tasks'', 0)], db_whereami = None\<rparr>"

definition initializeSchema :: MemDb where
  "initializeSchema = registerClassifications emptyDb"

section \<open>Statements\<close>

text \<open>
  The statements the tools themselves write, with their parameters, and \<open>SqlStmt\<close>, the
  text and the parameters a caller gives to \<open>memory_write\<close>.
\<close>

datatype MemStmt =
    InsertThought int "int option" string string string
  | UpsertPosition int int
  | TouchThread int
  | SetThreadStatus string int
  | UpsertContext string string string "string option" "string option" int
  | SqlStmt string "string list"

text \<open>
  What SQLite does with the text of a caller, at a time, is a parameter: it may change any
  table, and it may be an expression such as \<open>random()\<close> or one that compares times.
\<close>

type_synonym free_sql = "int \<Rightarrow> string \<Rightarrow> string list \<Rightarrow> MemDb \<Rightarrow> string + nat \<times> MemDb"

definition categories :: "string list" where
  "categories = [''project'', ''pr'', ''machine'', ''waiting'', ''fact'', ''reminder'']"

text \<open>\<open>INSERT \<dots> ON CONFLICT(key) DO UPDATE\<close> on one row of the context.\<close>

definition mergeContext :: "int \<Rightarrow> ContextRow \<Rightarrow> ContextRow \<Rightarrow> ContextRow" where
  "mergeContext now new old = old\<lparr>cx_value := cx_value new, cx_category := cx_category new,
     cx_label := (if cx_label new = None then cx_label old else cx_label new), cx_source := cx_source new,
     cx_pinned := (if cx_pinned new = None then cx_pinned old else cx_pinned new), cx_updated_at := now\<rparr>"

definition fkError :: string where
  "fkError = ''FOREIGN KEY constraint failed''"

text \<open>A statement at a time: the error, or the number of changed rows and the new database.\<close>

fun execStmt :: "free_sql \<Rightarrow> int \<Rightarrow> MemStmt \<Rightarrow> MemDb \<Rightarrow> string + nat \<times> MemDb" where
  "execStmt eng now (InsertThought t par c ty md) d =
     (if t \<notin> th_id ` set (db_threads d) \<or> (par \<noteq> None \<and> the par \<notin> tt_id ` set (db_thoughts d)) then Inl fkError
      else Inr (1, d\<lparr>db_thoughts := db_thoughts d @ [\<lparr>tt_id = db_seq d + 1, tt_thread_id = t, tt_parent = par, tt_content = c,
             tt_type = ty, tt_metadata = md, tt_created_at = now\<rparr>], db_seq := db_seq d + 1\<rparr>))"
| "execStmt eng now (UpsertPosition t i) d =
     (if t \<notin> th_id ` set (db_threads d) \<or> i \<notin> tt_id ` set (db_thoughts d) then Inl fkError
      else Inr (1, d\<lparr>db_positions :=
             (if t \<in> po_thread_id ` set (db_positions d)
              then map (\<lambda>p. if po_thread_id p = t then p\<lparr>po_current := Some i, po_updated_at := now\<rparr> else p) (db_positions d)
              else db_positions d @ [\<lparr>po_thread_id = t, po_current = Some i, po_updated_at = now\<rparr>])\<rparr>))"
| "execStmt eng now (TouchThread t) d =
     Inr (length (filter (\<lambda>r. th_id r = t) (db_threads d)),
          d\<lparr>db_threads := map (\<lambda>r. if th_id r = t then r\<lparr>th_updated_at := now\<rparr> else r) (db_threads d)\<rparr>)"
| "execStmt eng now (SetThreadStatus s t) d =
     Inr (length (filter (\<lambda>r. th_id r = t) (db_threads d)),
          d\<lparr>db_threads := map (\<lambda>r. if th_id r = t then r\<lparr>th_status := Some s, th_updated_at := now\<rparr> else r) (db_threads d)\<rparr>)"
| "execStmt eng now (UpsertContext k v cat lb src pin) d =
     (let new = \<lparr>cx_key = k, cx_value = v, cx_category = Some cat, cx_label = lb, cx_source = src, cx_pinned = Some pin,
                 cx_created_at = now, cx_updated_at = now\<rparr>
      in if cat \<notin> set categories then Inl ''CHECK constraint failed''
         else Inr (1, d\<lparr>db_context :=
                (if k \<in> cx_key ` set (db_context d)
                 then map (\<lambda>r. if cx_key r = k then mergeContext now new r else r) (db_context d)
                 else db_context d @ [new])\<rparr>))"
| "execStmt eng now (SqlStmt sql ps) d = eng now sql ps d"

definition shouldSnapshot :: "string \<Rightarrow> bool" where
  "shouldSnapshot sql =
     (let lower = map asciiLower sql in str_includes lower ''timeline_'' \<or> str_includes lower ''_context'')"

text \<open>Whether \<open>shouldSnapshot\<close> holds of the statement's text: the tools' own ones name a timeline table.\<close>

fun mentionsTimeline :: "MemStmt \<Rightarrow> bool" where
  "mentionsTimeline (SqlStmt sql ps) = shouldSnapshot sql"
| "mentionsTimeline _ = True"

section \<open>The snapshot file\<close>

definition dash :: string where
  "dash = [CHR 0xE2, CHR 0x80, CHR 0x94]"

definition clip :: "nat \<Rightarrow> string \<Rightarrow> string" where
  "clip n s = (if length s > n then take n s @ ''...'' else s)"

definition thoughtOf :: "MemDb \<Rightarrow> int option \<Rightarrow> ThoughtRow option" where
  "thoughtOf d i = Option.bind i (\<lambda>j. find (\<lambda>t. tt_id t = j) (db_thoughts d))"

definition positionOf :: "MemDb \<Rightarrow> int \<Rightarrow> PositionRow option" where
  "positionOf d t = find (\<lambda>p. po_thread_id p = t) (db_positions d)"

definition thoughtCount :: "MemDb \<Rightarrow> int \<Rightarrow> nat" where
  "thoughtCount d t = length (filter (\<lambda>x. tt_thread_id x = t) (db_thoughts d))"

text \<open>The rows the queries of \<open>generateWhereami\<close> and of \<open>memory_whereami\<close> and \<open>memory_list_threads\<close> select.\<close>

record ThreadView =
  tv_thread :: ThreadRow
  tv_current :: "int option"
  tv_content :: "string option"
  tv_type :: "string option"
  tv_project :: "string option"
  tv_count :: nat

definition threadView :: "MemDb \<Rightarrow> ThreadRow \<Rightarrow> ThreadView" where
  "threadView d t =
     (let cur = Option.bind (positionOf d (th_id t)) po_current; ct = thoughtOf d cur
      in \<lparr>tv_thread = t, tv_current = cur, tv_content = map_option tt_content ct, tv_type = map_option tt_type ct,
          tv_project = Option.bind (th_project_id t) (map_of (db_projects d)), tv_count = thoughtCount d (th_id t)\<rparr>)"

definition activeThreads :: "MemDb \<Rightarrow> ThreadView list" where
  "activeThreads d = map (threadView d)
     (sort_desc th_updated_at (filter (\<lambda>t. th_status t = Some ''active'' \<or> th_status t = Some ''paused'') (db_threads d)))"

definition threadLines :: "ThreadView \<Rightarrow> string list" where
  "threadLines v =
     (let t = tv_thread v
      in (''- **#'' @ show_int (th_id t) @ '' '' @ th_name t @ ''**''
            @ (if truthy (tv_project v) then '' (project: '' @ the (tv_project v) @ '')'' else [])
            @ (if th_status t = Some ''paused'' then '' [PAUSED]'' else [])
            @ '' '' @ dash @ '' '' @ show_nat (tv_count v) @ '' thoughts'')
         # (if truthy (tv_content v)
            then [''  Position: thought #'' @ (case tv_current v of Some i \<Rightarrow> show_int i | None \<Rightarrow> ''null'') @ '' '' @ dash @ '' ''
                    @ [CHR 0x22] @ clip 200 (the (tv_content v)) @ [CHR 0x22]]
            else []))"

definition contextLine :: "ContextRow \<Rightarrow> string" where
  "contextLine c = ''- '' @ [CHR 0x60] @ cx_key c @ [CHR 0x60] @ (if truthy (cx_label c) then '' ('' @ the (cx_label c) @ '')'' else [])
     @ '': '' @ clip 150 (cx_value c)"

definition recentThoughts :: "MemDb \<Rightarrow> (ThoughtRow \<times> string) list" where
  "recentThoughts d = take 5 (sort_desc (\<lambda>(t, _). tt_id t)
     (List.map_filter (\<lambda>t. map_option (\<lambda>th. (t, th_name th)) (find (\<lambda>th. th_id th = tt_thread_id t) (db_threads d))) (db_thoughts d)))"

definition recentLine :: "ThoughtRow \<times> string \<Rightarrow> string" where
  "recentLine r = (case r of (t, name) \<Rightarrow> show_int (tt_id t) @ ''. #'' @ show_int (tt_id t) @ '' ('' @ tt_type t @ '', thread #''
     @ show_int (tt_thread_id t) @ '' '' @ name @ ''): '' @ clip 200 (tt_content t))"

definition listSection :: "string \<Rightarrow> string \<Rightarrow> string list \<Rightarrow> string list" where
  "listSection title none ls = title # (if ls = [] then [none, []] else ls @ [[]])"

text \<open>The lines of the file; \<open>toIso\<close> is the time as text.\<close>

definition whereamiLines :: "string \<Rightarrow> MemDb \<Rightarrow> string list" where
  "whereamiLines toIso d =
     [''# Cortex State '' @ dash @ '' '' @ toIso, []]
     @ listSection ''## Active Threads'' ''No active threads.'' (concat (map threadLines (activeThreads d)))
     @ listSection ''## Pinned Context'' ''No pinned context.''
         (map contextLine (sort_desc cx_updated_at (filter (\<lambda>c. cx_pinned c = Some 1) (db_context d))))
     @ listSection ''## Recent Thoughts'' ''No thoughts yet.'' (map recentLine (recentThoughts d))"

definition generateWhereami :: "string \<Rightarrow> MemDb \<Rightarrow> MemDb" where
  "generateWhereami toIso d = d\<lparr>db_whereami := Some (join_with [CHR 0x0A] (whereamiLines toIso d))\<rparr>"

section \<open>Running statements\<close>

text \<open>\<open>run\<close> and \<open>runInTransaction\<close>, which changes nothing when a statement fails. \<open>toIso\<close> turns a time into text.\<close>

definition db_exec :: "free_sql \<Rightarrow> (int \<Rightarrow> string) \<Rightarrow> int \<Rightarrow> MemStmt \<Rightarrow> MemDb \<Rightarrow> string + nat \<times> MemDb" where
  "db_exec eng toIso now s d =
     (case execStmt eng now s d of
        Inl e \<Rightarrow> Inl e
      | Inr (k, d') \<Rightarrow> Inr (k, if mentionsTimeline s then generateWhereami (toIso now) d' else d'))"

fun execAll :: "free_sql \<Rightarrow> int \<Rightarrow> MemStmt list \<Rightarrow> MemDb \<Rightarrow> string + MemDb" where
  "execAll eng now [] d = Inr d"
| "execAll eng now (s # ss) d = (case execStmt eng now s d of Inl e \<Rightarrow> Inl e | Inr (_, d') \<Rightarrow> execAll eng now ss d')"

definition runInTransaction :: "free_sql \<Rightarrow> (int \<Rightarrow> string) \<Rightarrow> int \<Rightarrow> MemStmt list \<Rightarrow> MemDb \<Rightarrow> MemDb \<times> string option" where
  "runInTransaction eng toIso now ss d =
     (case execAll eng now ss d of
        Inl e \<Rightarrow> (d, Some e)
      | Inr d' \<Rightarrow> (if list_ex mentionsTimeline ss then generateWhereami (toIso now) d' else d', None))"

section \<open>Inspection\<close>

definition getTableClassification :: "MemDb \<Rightarrow> string \<Rightarrow> Classification option" where
  "getTableClassification d t = map_option cl_classification (find (\<lambda>c. cl_table c = t) (db_classes d))"

text \<open>\<open>ORDER BY domain, table_name\<close>, comparing texts byte by byte.\<close>

fun textLe :: "string \<Rightarrow> string \<Rightarrow> bool" where
  "textLe [] t = True"
| "textLe (a # s) [] = False"
| "textLe (a # s) (b # t) = ((of_char a :: nat) < of_char b \<or> a = b \<and> textLe s t)"

fun insertClass :: "ClassRow \<Rightarrow> ClassRow list \<Rightarrow> ClassRow list" where
  "insertClass c [] = [c]"
| "insertClass c (x # xs) =
     (if cl_domain c = cl_domain x \<and> textLe (cl_table c) (cl_table x) \<or> cl_domain c \<noteq> cl_domain x \<and> textLe (cl_domain c) (cl_domain x)
      then c # x # xs else x # insertClass c xs)"

definition getTableClassifications :: "MemDb \<Rightarrow> ClassRow list" where
  "getTableClassifications d = foldr insertClass (db_classes d) []"

text \<open>\<open>LIKE\<close> of SQLite: \<open>%\<close> stands for any text, \<open>_\<close> for any one character; ASCII letters match in either case.\<close>

fun like :: "string \<Rightarrow> string \<Rightarrow> bool" where
  "like [] s = (s = [])"
| "like (p # ps) s =
     (if p = CHR ''%'' then list_ex (\<lambda>i. like ps (drop i s)) [0..<Suc (length s)]
      else case s of [] \<Rightarrow> False | c # cs \<Rightarrow> (p = CHR ''_'' \<or> asciiLower p = asciiLower c) \<and> like ps cs)"

text \<open>The tables of the file with their sizes, the program's own ones first.\<close>

definition allTables :: "MemDb \<Rightarrow> (string \<times> nat) list" where
  "allTables d = [(''_table_classification'', length (db_classes d)), (''timeline_projects'', length (db_projects d)),
     (''timeline_threads'', length (db_threads d)), (''timeline_thoughts'', length (db_thoughts d)),
     (''timeline_thread_position'', length (db_positions d)), (''timeline_context'', length (db_context d))] @ db_others d"

record DbStats =
  ds_tableCount :: nat
  ds_rowCounts :: "(string \<times> nat) list"
  ds_classificationCounts :: "Classification \<Rightarrow> nat"

definition getStats :: "MemDb \<Rightarrow> DbStats" where
  "getStats d =
     (let tables = filter (\<lambda>(t, _). \<not> like ''sqlite_%'' t \<and> \<not> like ''_%'' t) (allTables d)
      in \<lparr>ds_tableCount = length tables, ds_rowCounts = tables,
          ds_classificationCounts = (\<lambda>c. length (filter (\<lambda>r. cl_classification r = c) (db_classes d)))\<rparr>)"

end
