(* ===== verification/MemoryTools.thy ===== *)
theory MemoryTools
  imports MemoryDb
begin

text \<open>
  The tools over the shared memory (\<open>src/memory/memory-tools.ts\<close>): the checks on SQL given
  by the caller, and the shortcuts for threads, thoughts and context entries.

  A tool reads the local replica (\<open>view r\<close>) and writes through the replicator: \<open>wr\<close> takes
  the statement, the table and the classification given, and returns the local state when
  the write's promise has settled, with its result. Whether the statement has been applied
  to the local replica by then is up to \<open>wr\<close>.
\<close>

section \<open>SQL given by the caller\<close>

definition normalizedSql :: "string \<Rightarrow> string" where
  "normalizedSql sql = map asciiUpper (trim sql)"

text \<open>\<open>memory_query\<close>: the error thrown, or the text that is run on the local database.\<close>

definition memoryQuery :: "string \<Rightarrow> int option \<Rightarrow> string + string" where
  "memoryQuery sql limit =
     (let n = normalizedSql sql
      in if \<not> startsWith n ''SELECT'' \<and> \<not> startsWith n ''PRAGMA'' \<and> \<not> startsWith n ''WITH''
         then Inl ''memory_query only accepts SELECT, PRAGMA, or WITH (CTE) queries. Use memory_write for mutations.''
         else Inr (if str_includes n ''LIMIT'' then sql else sql @ '' LIMIT '' @ show_int (nullish limit 100)))"

definition isWordChar :: "char \<Rightarrow> bool" where
  "isWordChar c \<longleftrightarrow> (let n = (of_char c :: nat) in 48 \<le> n \<and> n \<le> 57 \<or> 65 \<le> n \<and> n \<le> 90 \<or> 97 \<le> n \<and> n \<le> 122 \<or> n = 95)"

text \<open>Pieces of regular expressions, each with what is left of the text: a word in either case, \<open>\s+\<close>, \<open>"?(\w+)\<close>.\<close>

definition reWord :: "string \<Rightarrow> string \<Rightarrow> string option" where
  "reWord w s = (if length w \<le> length s \<and> map asciiUpper (take (length w) s) = w then Some (drop (length w) s) else None)"

definition reSpaces :: "string \<Rightarrow> string option" where
  "reSpaces s = (case s of c # _ \<Rightarrow> if is_space c then Some (dropWhile is_space s) else None | [] \<Rightarrow> None)"

definition reName :: "string \<Rightarrow> string option" where
  "reName s =
     (let t = (case s of c # cs \<Rightarrow> if c = CHR 0x22 then cs else s | [] \<Rightarrow> s); w = takeWhile isWordChar t
      in if w = [] then None else Some w)"

definition reOr :: "string \<Rightarrow> string option" where
  "reOr s = Option.bind (reWord ''OR'' s) (\<lambda>s. Option.bind (reSpaces s) (\<lambda>s.
     if takeWhile isWordChar s = [] then None else reSpaces (dropWhile isWordChar s)))"

definition matchInsert :: "string \<Rightarrow> string option" where
  "matchInsert s = Option.bind (reWord ''INSERT'' s) (\<lambda>s. Option.bind (reSpaces s) (\<lambda>s.
     let into = (\<lambda>s. Option.bind (reWord ''INTO'' s) (\<lambda>s. Option.bind (reSpaces s) reName))
     in case Option.bind (reOr s) into of Some n \<Rightarrow> Some n | None \<Rightarrow> into s))"

definition matchUpdate :: "string \<Rightarrow> string option" where
  "matchUpdate s = Option.bind (reWord ''UPDATE'' s) (\<lambda>s. Option.bind (reSpaces s) reName)"

definition matchDelete :: "string \<Rightarrow> string option" where
  "matchDelete s = Option.bind (reWord ''DELETE'' s) (\<lambda>s. Option.bind (reSpaces s) (\<lambda>s.
     Option.bind (reWord ''FROM'' s) (\<lambda>s. Option.bind (reSpaces s) reName)))"

definition matchFrom :: "string \<Rightarrow> string option" where
  "matchFrom s = Option.bind (reWord ''FROM'' s) (\<lambda>s. Option.bind (reSpaces s) reName)"

text \<open>\<open>s.match(re)\<close>: the first position at which the expression matches.\<close>

fun firstMatch :: "(string \<Rightarrow> string option) \<Rightarrow> string \<Rightarrow> string option" where
  "firstMatch re [] = re []"
| "firstMatch re (c # s) = (case re (c # s) of Some n \<Rightarrow> Some n | None \<Rightarrow> firstMatch re s)"

definition extractTableName :: "string \<Rightarrow> string option" where
  "extractTableName sql =
     (let n = normalizedSql sql
      in if startsWith n ''INSERT'' then firstMatch matchInsert sql
         else if startsWith n ''UPDATE'' then firstMatch matchUpdate sql
         else if startsWith n ''DELETE'' then firstMatch matchDelete sql
         else if startsWith n ''SELECT'' then firstMatch matchFrom sql
         else None)"

text \<open>\<open>memory_write\<close>: the error thrown, or the result of the replicated write; \<open>wsql\<close> is \<open>replicator.write\<close>.\<close>

definition memoryWrite :: "(string \<Rightarrow> 'p list \<Rightarrow> Classification option \<Rightarrow> string option \<Rightarrow> 'r \<Rightarrow> 'r \<times> WriteResult)
    \<Rightarrow> string \<Rightarrow> 'p list option \<Rightarrow> Classification option \<Rightarrow> 'r \<Rightarrow> 'r \<times> (string + WriteResult)" where
  "memoryWrite wsql sql params cls r =
     (let n = normalizedSql sql
      in if startsWith n ''SELECT'' then (r, Inl ''memory_write does not accept SELECT queries. Use memory_query instead.'')
         else if startsWith n ''DROP'' \<or> startsWith n ''ALTER''
         then (r, Inl ''DDL statements (DROP, ALTER) are not allowed through memory_write. Modify the schema in the source code.'')
         else let (r', res) = wsql sql (nullish params []) cls (extractTableName sql) r in (r', Inr res))"

section \<open>Credentials\<close>

definition isAlnum :: "char \<Rightarrow> bool" where
  "isAlnum c \<longleftrightarrow> isWordChar c \<and> c \<noteq> CHR ''_''"

definition isUpperAlnum :: "char \<Rightarrow> bool" where
  "isUpperAlnum c \<longleftrightarrow> (let n = (of_char c :: nat) in 48 \<le> n \<and> n \<le> 57 \<or> 65 \<le> n \<and> n \<le> 90)"

definition somewhere :: "(string \<Rightarrow> bool) \<Rightarrow> string \<Rightarrow> bool" where
  "somewhere re s \<longleftrightarrow> list_ex (\<lambda>i. re (drop i s)) [0..<Suc (length s)]"

text \<open>\<open>\S+:\S+@\<close> at the start of a text.\<close>

definition reUserinfo :: "string \<Rightarrow> bool" where
  "reUserinfo s =
     (let w = takeWhile (\<lambda>c. \<not> is_space c) s
      in list_ex (\<lambda>i. 0 < i \<and> w ! i = CHR '':'' \<and> list_ex (\<lambda>j. i + 1 < j \<and> w ! j = CHR ''@'') [0..<length w]) [0..<length w])"

definition rePassword :: "string \<Rightarrow> bool" where
  "rePassword s =
     (case reWord ''PASSWORD'' s of
        None \<Rightarrow> False
      | Some t \<Rightarrow> (case dropWhile is_space t of
                    c # u \<Rightarrow> (c = CHR '':'' \<or> c = CHR ''='') \<and> dropWhile is_space u \<noteq> []
                  | [] \<Rightarrow> False))"

definition reBase64 :: "string \<Rightarrow> bool" where
  "reBase64 s =
     (let isB = (\<lambda>c. isAlnum c \<or> c = CHR ''+'' \<or> c = CHR ''/''); rest = dropWhile isB s
      in 40 \<le> length (takeWhile isB s) \<and> length rest \<le> 2 \<and> list_all (\<lambda>c. c = CHR ''='') rest)"

definition rePem :: "string \<Rightarrow> bool" where
  "rePem s \<longleftrightarrow> list_ex (\<lambda>k. startsWith s (''-----BEGIN '' @ k @ ''PRIVATE KEY-----'')) [[], ''RSA '', ''EC '', ''DSA '']"

definition looksLikeCredential :: "string \<Rightarrow> bool" where
  "looksLikeCredential v \<longleftrightarrow>
     startsWith v ''sk-'' \<and> 20 \<le> length (drop 3 v) \<and> list_all isAlnum (drop 3 v)
   \<or> startsWith v ''xoxb-'' \<or> startsWith v ''ghp_'' \<or> startsWith v ''glpat-''
   \<or> somewhere rePassword v
   \<or> reBase64 v
   \<or> somewhere (\<lambda>s. startsWith s ''postgresql://'' \<and> reUserinfo (drop 13 s)) v
   \<or> somewhere (\<lambda>s. startsWith s ''mongodb://'' \<and> reUserinfo (drop 10 s) \<or> startsWith s ''mongodb+srv://'' \<and> reUserinfo (drop 14 s)) v
   \<or> startsWith v ''AKIA'' \<and> length v = 20 \<and> list_all isUpperAlnum (drop 4 v)
   \<or> rePem v"

section \<open>Threads and thoughts\<close>

type_synonym 'r stmt_writer = "MemStmt \<Rightarrow> string \<Rightarrow> Classification option \<Rightarrow> 'r \<Rightarrow> 'r \<times> WriteResult"

text \<open>\<open>SELECT id \<dots> WHERE thread_id = ? ORDER BY id DESC LIMIT 1\<close>.\<close>

definition latestThought :: "MemDb \<Rightarrow> int \<Rightarrow> int option" where
  "latestThought d t =
     (case map tt_id (filter (\<lambda>x. tt_thread_id x = t) (db_thoughts d)) of [] \<Rightarrow> None | i # is \<Rightarrow> Some (fold max is i))"

record ThoughtLogged =
  tl_thought_id :: "int option"
  tl_thread_id :: int
  tl_type :: string

definition logThought :: "('r \<Rightarrow> MemDb) \<Rightarrow> 'r stmt_writer \<Rightarrow> int \<Rightarrow> string \<Rightarrow> string option \<Rightarrow> string option \<Rightarrow> 'r
    \<Rightarrow> 'r \<times> (string option + ThoughtLogged)" where
  "logThought view wr t content ty metadata r =
     (let parent = Option.bind (positionOf (view r) t) po_current; ty = nullish ty ''progress'';
          (r1, res) = wr (InsertThought t parent content ty (nullish metadata ''{}'')) ''timeline_thoughts'' None r
      in if \<not> wr_success res then (r1, Inl (wr_error res))
         else case latestThought (view r1) t of
                None \<Rightarrow> (r1, Inr \<lparr>tl_thought_id = None, tl_thread_id = t, tl_type = ty\<rparr>)
              | Some i \<Rightarrow>
                  (let (r2, _) = wr (UpsertPosition t i) ''timeline_thread_position'' None r1;
                       (r3, _) = wr (TouchThread t) ''timeline_threads'' None r2
                   in (r3, Inr \<lparr>tl_thought_id = Some i, tl_thread_id = t, tl_type = ty\<rparr>)))"

definition bullets :: "string list \<Rightarrow> string" where
  "bullets xs = join_with [CHR 0x0A] (map (\<lambda>x. ''- '' @ x) xs)"

definition bulletsOrNone :: "string list option \<Rightarrow> string" where
  "bulletsOrNone xs = nullish (orElse (map_option bullets xs) None) ''- None''"

definition handoffContent :: "string list \<Rightarrow> string list option \<Rightarrow> string list option \<Rightarrow> string list \<Rightarrow> string" where
  "handoffContent don pending blockers next =
     (let nl = [CHR 0x0A]
      in ''## Session Handoff'' @ nl @ nl @ ''**Done:**'' @ nl @ bullets don @ nl @ nl
         @ ''**Pending:**'' @ nl @ bulletsOrNone pending @ nl @ nl @ ''**Blockers:**'' @ nl @ bulletsOrNone blockers @ nl @ nl
         @ ''**Next Steps:**'' @ nl @ bullets next)"

text \<open>\<open>md\<close> is the text of the handoff's metadata.\<close>

definition handoff :: "('r \<Rightarrow> MemDb) \<Rightarrow> 'r stmt_writer \<Rightarrow> string \<Rightarrow> int \<Rightarrow> string list \<Rightarrow> string list option \<Rightarrow> string list option \<Rightarrow> string list
    \<Rightarrow> string option \<Rightarrow> 'r \<Rightarrow> 'r \<times> (string option + ThoughtLogged) \<times> string" where
  "handoff view wr md t don pending blockers next newStatus r =
     (let (r1, res) = logThought view wr t (handoffContent don pending blockers next) (Some ''handoff'') (Some md) r;
          r2 = (if truthy newStatus then fst (wr (SetThreadStatus (the newStatus) t) ''timeline_threads'' None r1) else r1)
      in (r2, res, if truthy newStatus then the newStatus else ''unchanged''))"

text \<open>\<open>LIMIT\<close> and the order of context entries; pinned entries carry 1, a missing value comes last.\<close>

definition sqlLimit :: "int \<Rightarrow> 'a list \<Rightarrow> 'a list" where
  "sqlLimit n xs = (if n < 0 then xs else take (nat n) xs)"

definition byPinned :: "ContextRow list \<Rightarrow> ContextRow list" where
  "byPinned cs = sort_desc (\<lambda>c. nullish (cx_pinned c) (-1)) (sort_desc cx_updated_at cs)"

definition memoryWhereami :: "int \<Rightarrow> MemDb \<Rightarrow> ThreadView list \<times> ContextRow list" where
  "memoryWhereami now d =
     (activeThreads d,
      take 20 (byPinned
        (filter (\<lambda>c. cx_pinned c = Some 1 \<or> cx_category c = Some ''waiting'' \<or> cx_updated_at c > now - 7 * 86400000) (db_context d))))"

definition listThreads :: "string option \<Rightarrow> int option \<Rightarrow> MemDb \<Rightarrow> ThreadView list" where
  "listThreads newStatus project d =
     map (threadView d) (sort_desc th_updated_at (filter (\<lambda>t. (truthy newStatus \<longrightarrow> th_status t = newStatus)
        \<and> (nullish project 0 \<noteq> 0 \<longrightarrow> th_project_id t = project)) (db_threads d)))"

section \<open>Context entries\<close>

record ContextSet =
  cs_result :: WriteResult
  cs_key :: string
  cs_category :: string
  cs_warning :: bool

text \<open>\<open>memory_set_context\<close>; \<open>json\<close> is the text of the value. The warning is the text on credentials.\<close>

definition setContext :: "'r stmt_writer \<Rightarrow> string \<Rightarrow> string \<Rightarrow> string \<Rightarrow> string option \<Rightarrow> bool option \<Rightarrow> string option \<Rightarrow> 'r \<Rightarrow> 'r \<times> ContextSet" where
  "setContext wr key json category lb pin src r =
     (let (r', res) = wr (UpsertContext key json category lb src (if nullish pin False then 1 else 0)) ''timeline_context'' (Some Internal) r
      in (r', \<lparr>cs_result = res, cs_key = key, cs_category = category, cs_warning = looksLikeCredential json\<rparr>))"

text \<open>\<open>memory_get_context\<close> (\<open>Inl\<close>: it throws); a negative number of days makes no valid date.\<close>

definition getContext :: "int \<Rightarrow> string option \<Rightarrow> string option \<Rightarrow> bool \<Rightarrow> int option \<Rightarrow> int option \<Rightarrow> MemDb
    \<Rightarrow> string + ContextRow + ContextRow list" where
  "getContext now key category pinnedOnly sinceDays limit d =
     (if truthy key
      then case find (\<lambda>c. cx_key c = the key) (db_context d) of
             None \<Rightarrow> Inl (''Context key not found: '' @ the key) | Some c \<Rightarrow> Inr (Inl c)
      else let days = nullish sinceDays 7
           in Inr (Inr (sqlLimit (nullish limit 50) (byPinned (filter (\<lambda>c.
                (0 \<le> days \<and> cx_updated_at c > now - days * 86400000 \<or> cx_pinned c = Some 1)
                \<and> (truthy category \<longrightarrow> cx_category c = category) \<and> (pinnedOnly \<longrightarrow> cx_pinned c = Some 1)) (db_context d))))))"

definition likeOpt :: "string \<Rightarrow> string option \<Rightarrow> bool" where
  "likeOpt p s = (case s of None \<Rightarrow> False | Some t \<Rightarrow> like p t)"

definition searchMemory :: "string \<Rightarrow> int option \<Rightarrow> int option \<Rightarrow> MemDb \<Rightarrow> ThoughtRow list \<times> ContextRow list" where
  "searchMemory query thread limit d =
     (let n = nullish limit 20; p = ''%'' @ query @ ''%''
      in (sqlLimit n (sort_desc tt_created_at (filter (\<lambda>t. like p (tt_content t) \<and> (nullish thread 0 \<noteq> 0 \<longrightarrow> Some (tt_thread_id t) = thread)) (db_thoughts d))),
          sqlLimit n (sort_desc cx_updated_at (filter (\<lambda>c. like p (cx_value c) \<or> like p (cx_key c) \<or> likeOpt p (cx_label c)) (db_context d)))))"

record DeviceRow =
  dv_hostname :: "string option"
  dv_ip_address :: "string option"
  dv_mac_address :: "string option"

text \<open>The devices \<open>memory_network_lookup\<close> selects, before they are ordered by name.\<close>

definition networkMatches :: "string \<Rightarrow> DeviceRow list \<Rightarrow> DeviceRow list" where
  "networkMatches query rows =
     (let p = ''%'' @ map asciiLower query @ ''%''
      in filter (\<lambda>v. likeOpt p (map_option (map asciiLower) (dv_hostname v)) \<or> likeOpt p (dv_ip_address v)
           \<or> likeOpt p (map_option (map asciiLower) (dv_mac_address v))) rows)"

section \<open>Inspection\<close>

text \<open>\<open>memory_schema\<close> without a table: the tables of a domain.\<close>

definition schemaTables :: "string option \<Rightarrow> MemDb \<Rightarrow> ClassRow list" where
  "schemaTables domain d =
     (let cs = getTableClassifications d
      in if truthy domain then filter (\<lambda>c. startsWith (cl_table c) (the domain @ ''_'')) cs else cs)"

record MemoryStats =
  sx_nodeId :: string
  sx_raftRole :: RaftState
  sx_leaderId :: "nid option"
  sx_dbSizeBytes :: int
  sx_dbSizeMb :: string
  sx_stats :: DbStats

definition memoryStats :: "string \<Rightarrow> RaftNode \<Rightarrow> int \<Rightarrow> MemDb \<Rightarrow> MemoryStats" where
  "memoryStats node n bytes d =
     \<lparr>sx_nodeId = node, sx_raftRole = state n, sx_leaderId = leaderId n, sx_dbSizeBytes = bytes,
      sx_dbSizeMb = toFixed 2 (of_int bytes / (1024 * 1024)), sx_stats = getStats d\<rparr>"

end
