(* ===== verification/MemoryToolsProps.thy ===== *)
theory MemoryToolsProps
  imports MemoryTools
begin

text \<open>
  The replicas of the shared memory agree up to their clocks as long as the statements of
  callers do not depend on a clock or on chance, and what the tools for threads and context
  entries do.
\<close>

section \<open>Consistency of the tables\<close>

definition thought_ok :: "int set \<Rightarrow> int set \<Rightarrow> int \<Rightarrow> ThoughtRow \<Rightarrow> bool" where
  "thought_ok T I q t \<longleftrightarrow> tt_id t \<le> q \<and> tt_thread_id t \<in> T \<and> (\<forall>p. tt_parent t = Some p \<longrightarrow> p < tt_id t \<and> p \<in> I)"

definition position_ok :: "int set \<Rightarrow> int set \<Rightarrow> PositionRow \<Rightarrow> bool" where
  "position_ok T I p \<longleftrightarrow> po_thread_id p \<in> T \<and> (\<forall>i. po_current p = Some i \<longrightarrow> i \<in> I)"

definition threadIds :: "MemDb \<Rightarrow> int set" where
  "threadIds d = th_id ` set (db_threads d)"

definition thoughtIds :: "MemDb \<Rightarrow> int set" where
  "thoughtIds d = tt_id ` set (db_thoughts d)"

definition db_ok :: "MemDb \<Rightarrow> bool" where
  "db_ok d \<longleftrightarrow>
     distinct (map tt_id (db_thoughts d)) \<and> distinct (map po_thread_id (db_positions d)) \<and> distinct (map cx_key (db_context d))
   \<and> (\<forall>t \<in> set (db_thoughts d). thought_ok (threadIds d) (thoughtIds d) (db_seq d) t)
   \<and> (\<forall>p \<in> set (db_positions d). position_ok (threadIds d) (thoughtIds d) p)"

text \<open>Running a statement on a replica; one that fails changes nothing.\<close>

definition applyStmt :: "free_sql \<Rightarrow> (int \<Rightarrow> string) \<Rightarrow> int \<Rightarrow> MemStmt \<Rightarrow> MemDb \<Rightarrow> MemDb" where
  "applyStmt eng toIso now s d = (case db_exec eng toIso now s d of Inl _ \<Rightarrow> d | Inr (_, d') \<Rightarrow> d')"


definition demoDb :: MemDb where
  "demoDb = initializeSchema\<lparr>db_threads := [\<lparr>th_id = 1, th_name = ''work'', th_description = None, th_project_id = None,
     th_status = Some ''active'', th_created_at = 0, th_updated_at = 0\<rparr>]\<rparr>"

lemma demo_db_ok: "db_ok demoDb"
  by (simp add: demoDb_def initializeSchema_def registerClassifications_def emptyDb_def db_ok_def)

section \<open>Replicas\<close>

text \<open>The tables without the times and without the snapshot file.\<close>

definition untimed :: "MemDb \<Rightarrow> MemDb" where
  "untimed d = d\<lparr>db_threads := map (\<lambda>t. t\<lparr>th_created_at := 0, th_updated_at := 0\<rparr>) (db_threads d),
     db_thoughts := map (\<lambda>t. t\<lparr>tt_created_at := 0\<rparr>) (db_thoughts d),
     db_positions := map (\<lambda>p. p\<lparr>po_updated_at := 0\<rparr>) (db_positions d),
     db_context := map (\<lambda>c. c\<lparr>cx_created_at := 0, cx_updated_at := 0\<rparr>) (db_context d), db_whereami := None\<rparr>"

lemma untimed_ids [simp]:
  "th_id ` set (db_threads (untimed d)) = th_id ` set (db_threads d)" "tt_id ` set (db_thoughts (untimed d)) = tt_id ` set (db_thoughts d)"
  "po_thread_id ` set (db_positions (untimed d)) = po_thread_id ` set (db_positions d)" "cx_key ` set (db_context (untimed d)) = cx_key ` set (db_context d)"
  by (simp_all add: untimed_def image_image)



lemma untimed_whereami [simp]: "untimed (d\<lparr>db_whereami := x\<rparr>) = untimed d"
  by (simp add: untimed_def)



text \<open>The database engine of the replicator with the statements of this program.\<close>

definition memEngine :: "free_sql \<Rightarrow> (int \<Rightarrow> string) \<Rightarrow> int \<Rightarrow> (MemStmt, MemDb) sql_engine" where
  "memEngine eng toIso now sql ps d = (case ps of [s] \<Rightarrow> db_exec eng toIso now s d | _ \<Rightarrow> Inl [])"







instance MemStmt :: countable
  by countable_datatype

text \<open>An engine that knows one statement besides those of the tools.\<close>

definition demoSql :: free_sql where
  "demoSql now sql ps d = (if sql = ''DELETE FROM timeline_context'' then Inr (length (db_context d), d\<lparr>db_context := []\<rparr>)
     else Inl ''syntax error'')"

definition demoLeader :: "MemDb MemoryReplicator" where
  "demoLeader = (new_MemoryReplicator None demoDb [] (ex_member ''l''))\<lparr>mr_membership := (ex_member ''l'')\<lparr>raft := ex_leads\<rparr>\<rparr>"




text \<open>The times are those of the replica that applies the statement, so the rows themselves differ.\<close>

theorem replica_times_differ:
  assumes "now \<noteq> now'" and "t \<in> threadIds d"
  shows "db_thoughts (applyStmt eng toIso now (InsertThought t None c ty md) d) \<noteq> db_thoughts (applyStmt eng toIso now' (InsertThought t None c ty md) d)"
  using assms by (simp add: applyStmt_def db_exec_def generateWhereami_def threadIds_def)

section \<open>Logging a thought\<close>

text \<open>The statements the tools write themselves.\<close>

fun toolStmt :: "MemStmt \<Rightarrow> bool" where
  "toolStmt (SqlStmt sql ps) = False"
| "toolStmt _ = True"

text \<open>
  A writer whose statement has been applied to the local replica when the promise settles.
\<close>

lemma find_append: "find P (xs @ ys) = (case find P xs of None \<Rightarrow> find P ys | Some x \<Rightarrow> Some x)"
  by (induction xs) auto

lemma find_moved:
  "find (\<lambda>p. po_thread_id p = t') (map (\<lambda>p. if po_thread_id p = t then p\<lparr>po_current := i, po_updated_at := now\<rparr> else p) ps)
     = (if t' = t then map_option (\<lambda>p. p\<lparr>po_current := i, po_updated_at := now\<rparr>) (find (\<lambda>p. po_thread_id p = t) ps)
        else find (\<lambda>p. po_thread_id p = t') ps)"
  by (induction ps) auto

lemma positionOf_upsert:
  assumes "execStmt eng now (UpsertPosition t i) d = Inr (k, d')"
  shows "positionOf d' t' = (if t' = t then Some \<lparr>po_thread_id = t, po_current = Some i, po_updated_at = now\<rparr> else positionOf d t')"
proof (cases "t \<in> po_thread_id ` set (db_positions d)")
  case True
  then obtain p where "find (\<lambda>p. po_thread_id p = t) (db_positions d) = Some p"
    by (cases "find (\<lambda>p. po_thread_id p = t) (db_positions d)") (auto simp: find_None_iff)
  moreover from this have "po_thread_id p = t" by (auto simp: find_Some_iff)
  ultimately show ?thesis using assms True by (auto simp: positionOf_def find_moved split: if_splits)
next
  case False
  then have "find (\<lambda>p. po_thread_id p = t) (db_positions d) = None" by (auto simp: find_None_iff)
  with assms False show ?thesis by (auto simp: positionOf_def find_append split: if_splits option.split)
qed

lemma fold_max_le: "i \<le> m \<Longrightarrow> \<forall>j \<in> set js. j \<le> m \<Longrightarrow> fold max js i \<le> (m :: int)"
  by (induction js arbitrary: i) auto

locale prompt_writer =
  fixes view :: "'r \<Rightarrow> MemDb"
    and wr :: "'r stmt_writer"
    and ok :: "'r \<Rightarrow> bool"
    and eng :: free_sql
    and now :: int
  assumes wr_applies: "ok r \<Longrightarrow> toolStmt s \<Longrightarrow> cls \<noteq> Some LocalOnly \<Longrightarrow> execStmt eng now s (view r) = Inr (k, d) \<Longrightarrow>
    \<exists>r' res x. wr s tbl cls r = (r', res) \<and> wr_success res \<and> ok r' \<and> view r' = d\<lparr>db_whereami := x\<rparr>"
begin

lemma log_thought:
  assumes "ok r" and db: "db_ok (view r)" and t: "t \<in> threadIds (view r)"
  shows "\<exists>r'. logThought view wr t c ty md r =
      (r', Inr \<lparr>tl_thought_id = Some (db_seq (view r) + 1), tl_thread_id = t, tl_type = nullish ty ''progress''\<rparr>) \<and> ok r'
    \<and> db_thoughts (view r') = db_thoughts (view r) @ [\<lparr>tt_id = db_seq (view r) + 1, tt_thread_id = t,
        tt_parent = Option.bind (positionOf (view r) t) po_current, tt_content = c, tt_type = nullish ty ''progress'',
        tt_metadata = nullish md ''{}'', tt_created_at = now\<rparr>]
    \<and> Option.bind (positionOf (view r') t) po_current = Some (db_seq (view r) + 1)
    \<and> (\<forall>t'. t' \<noteq> t \<longrightarrow> positionOf (view r') t' = positionOf (view r) t')"
proof -
  let ?d = "view r" and ?i = "db_seq (view r) + 1"
  define par where "par = Option.bind (positionOf ?d t) po_current"
  define new where "new = \<lparr>tt_id = ?i, tt_thread_id = t, tt_parent = par, tt_content = c, tt_type = nullish ty ''progress'',
     tt_metadata = nullish md ''{}'', tt_created_at = now\<rparr>"
  have par: "the par \<in> tt_id ` set (db_thoughts ?d)" if h: "par \<noteq> None"
  proof -
    obtain p where p: "positionOf ?d t = Some p" "po_current p = par" using h by (cases "positionOf ?d t") (auto simp: par_def)
    then have "p \<in> set (db_positions ?d)" by (auto simp: positionOf_def find_Some_iff)
    with db p h show ?thesis by (auto simp: db_ok_def position_ok_def thoughtIds_def)
  qed
  define d1 where "d1 = ?d\<lparr>db_thoughts := db_thoughts ?d @ [new], db_seq := ?i\<rparr>"
  have "execStmt eng now (InsertThought t par c (nullish ty ''progress'') (nullish md ''{}'')) ?d = Inr (1, d1)"
    using par t by (cases par) (auto simp: threadIds_def new_def d1_def)
  from wr_applies [OF assms(1) _ _ this, of None "''timeline_thoughts''"]
  obtain r1 res1 x1 where w1: "wr (InsertThought t par c (nullish ty ''progress'') (nullish md ''{}'')) ''timeline_thoughts'' None r = (r1, res1)"
    "wr_success res1" "ok r1" "view r1 = d1\<lparr>db_whereami := x1\<rparr>" by auto
  have old: "j \<le> db_seq ?d" if "j \<in> tt_id ` set (db_thoughts ?d)" for j using db that by (auto simp: db_ok_def thought_ok_def)
  have "\<forall>j \<in> set (map tt_id (filter (\<lambda>x. tt_thread_id x = t) (db_thoughts ?d))). j \<le> ?i" using old by fastforce
  then have latest: "latestThought (view r1) t = Some ?i"
    using fold_max_le
    by (cases "map tt_id (filter (\<lambda>x. tt_thread_id x = t) (db_thoughts ?d))") (auto simp: latestThought_def w1(4) d1_def new_def)
  obtain d2 where ex2: "execStmt eng now (UpsertPosition t ?i) (view r1) = Inr (1, d2)" and d2: "db_thoughts d2 = db_thoughts (view r1)"
    using t by (auto simp: w1(4) d1_def new_def threadIds_def)
  from wr_applies [OF w1(3) _ _ ex2, of None "''timeline_thread_position''"]
  obtain r2 res2 x2 where w2: "wr (UpsertPosition t ?i) ''timeline_thread_position'' None r1 = (r2, res2)" "ok r2" "view r2 = d2\<lparr>db_whereami := x2\<rparr>"
    by auto
  obtain k d3 where "execStmt eng now (TouchThread t) (view r2) = Inr (k, d3)" and d3: "db_thoughts d3 = db_thoughts d2" "db_positions d3 = db_positions d2"
    by (simp add: w2(3))
  from wr_applies [OF w2(2) _ _ this(1), of None "''timeline_threads''"]
  obtain r3 res3 x3 where w3: "wr (TouchThread t) ''timeline_threads'' None r2 = (r3, res3)" "ok r3" "view r3 = d3\<lparr>db_whereami := x3\<rparr>" by auto
  have run: "logThought view wr t c ty md r = (r3, Inr \<lparr>tl_thought_id = Some ?i, tl_thread_id = t, tl_type = nullish ty ''progress''\<rparr>)"
    using w1 w2 w3 latest by (simp add: logThought_def Let_def flip: par_def)
  have pos: "positionOf (view r3) t' = (if t' = t then Some \<lparr>po_thread_id = t, po_current = Some ?i, po_updated_at = now\<rparr> else positionOf ?d t')" for t'
    using positionOf_upsert [OF ex2, of t'] by (simp add: positionOf_def w3(3) d3 w1(4) d1_def)
  have "db_thoughts (view r3) = db_thoughts ?d @ [new]" by (simp add: w3(3) d3 d2 w1(4) d1_def)
  with run w3(2) pos show ?thesis by (auto simp: new_def par_def)
qed

end

text \<open>The replicator on a node that applies its writes itself.\<close>

definition localWriter :: "free_sql \<Rightarrow> (int \<Rightarrow> string) \<Rightarrow> int \<Rightarrow> MemDb MemoryReplicator stmt_writer" where
  "localWriter eng toIso now s tbl cls r = applyLocally (memEngine eng toIso now) [] [s] r"

interpretation local_writer: prompt_writer mr_db "localWriter eng toIso now" mr_open eng now for eng toIso now
proof unfold_locales
  fix r :: "MemDb MemoryReplicator" and cls s k d tbl
  assume "mr_open r" "execStmt eng now s (mr_db r) = Inr (k, d)"
  then show "\<exists>r' res x. localWriter eng toIso now s tbl cls r = (r', res) \<and> wr_success res \<and> mr_open r' \<and> mr_db r' = d\<lparr>db_whereami := x\<rparr>"
    by (auto simp: localWriter_def applyLocally_def db_run_def memEngine_def db_exec_def generateWhereami_def intro: exI [of _ "db_whereami d"])
qed

text \<open>
  The replicator on a leader whose entry is committed, and so applied, before the write's
  promise settles.
\<close>

definition leaderWriter :: "free_sql \<Rightarrow> (int \<Rightarrow> string) \<Rightarrow> int \<Rightarrow> (string \<Rightarrow> string) \<Rightarrow> (MemStmt list \<Rightarrow> string) \<Rightarrow> (MemStmt MemoryPayload \<Rightarrow> string)
    \<Rightarrow> (string \<Rightarrow> MemStmt MemoryPayload option) \<Rightarrow> MemDb MemoryReplicator stmt_writer" where
  "leaderWriter eng toIso now sha json enc dec s tbl cls r =
     (let (r1, res) = mem_write (memEngine eng toIso now) getTableClassification sha json enc (\<lambda>_. mr_membership r) (\<lambda>_ _ _. None) [] [] [s] cls (Some tbl) r
      in (mem_handleCommittedEntry (memEngine eng toIso now) sha json dec (last (rlog (raft (mr_membership r1)))) r1, res))"

definition leading :: "MemDb MemoryReplicator \<Rightarrow> bool" where
  "leading r \<longleftrightarrow> mr_open r \<and> mr_listening r \<and> state (raft (mr_membership r)) = Leader \<and> (\<forall>t. getTableClassification (mr_db r) t \<noteq> Some LocalOnly)"

lemma classes_same: "toolStmt s \<Longrightarrow> execStmt eng now s d = Inr (k, d') \<Longrightarrow> db_classes d' = db_classes d"
  by (cases s) (auto simp: Let_def split: if_splits)

lemma leader_writer:
  assumes "\<And>p. dec (enc p) = Some p"
  shows "prompt_writer mr_db (leaderWriter eng toIso now sha json enc dec) leading eng now"
proof
  fix r :: "MemDb MemoryReplicator" and cls s k d tbl
  assume r: "leading r" and tool: "toolStmt s" and cls: "cls \<noteq> Some LocalOnly" and ex: "execStmt eng now s (mr_db r) = Inr (k, d)"
  define c where "c = nullish cls (getClassificationForTable getTableClassification (Some tbl) r)"
  have c: "c \<noteq> LocalOnly"
    using r cls by (cases cls) (auto simp: c_def leading_def getClassificationForTable_def nullish_def split: option.splits)
  define x where "x = (if mentionsTimeline s then db_whereami (generateWhereami (toIso now) d) else db_whereami d)"
  have dx: "db_exec eng toIso now s (mr_db r) = Inr (k, d\<lparr>db_whereami := x\<rparr>)"
    by (simp add: db_exec_def ex x_def generateWhereami_def)
  obtain r' res where w: "leaderWriter eng toIso now sha json enc dec s tbl cls r = (r', res)" by fastforce
  have "wr_success res \<and> mr_db r' = d\<lparr>db_whereami := x\<rparr> \<and> mr_open r' \<and> mr_listening r' \<and> state (raft (mr_membership r')) = Leader"
    using w r c dx assms
    by (auto simp: leaderWriter_def mem_write_def writeAsLeader_def appendEntry_def mem_handleCommittedEntry_def leading_def Let_def db_run_def
        memEngine_def simp flip: c_def split: if_splits)
  moreover have "\<forall>t. getTableClassification (d\<lparr>db_whereami := x\<rparr>) t \<noteq> Some LocalOnly"
    using r classes_same [OF tool ex] by (simp add: leading_def getTableClassification_def)
  ultimately show "\<exists>r' res x. leaderWriter eng toIso now sha json enc dec s tbl cls r = (r', res) \<and> wr_success res \<and> leading r'
      \<and> mr_db r' = d\<lparr>db_whereami := x\<rparr>"
    using w by (auto simp: leading_def)
qed

text \<open>
  On a leader whose writes are committed before they return, logging a thought to an
  existing thread answers with the id of a new thought with that content, which follows
  the thought the thread stood at, and moves the thread's position to it, while every
  other thought and every other thread's position stays as it was.
\<close>

theorem log_thought_on_leader:
  assumes "\<And>p. dec (enc p) = Some p" and "leading r" and "db_ok (mr_db r)" and "t \<in> threadIds (mr_db r)"
  shows "\<exists>r'. logThought mr_db (leaderWriter eng toIso now sha json enc dec) t c ty md r =
      (r', Inr \<lparr>tl_thought_id = Some (db_seq (mr_db r) + 1), tl_thread_id = t, tl_type = nullish ty ''progress''\<rparr>) \<and> leading r'
    \<and> db_thoughts (mr_db r') = db_thoughts (mr_db r) @ [\<lparr>tt_id = db_seq (mr_db r) + 1, tt_thread_id = t,
        tt_parent = Option.bind (positionOf (mr_db r) t) po_current, tt_content = c, tt_type = nullish ty ''progress'',
        tt_metadata = nullish md ''{}'', tt_created_at = now\<rparr>]
    \<and> Option.bind (positionOf (mr_db r') t) po_current = Some (db_seq (mr_db r) + 1)
    \<and> (\<forall>t'. t' \<noteq> t \<longrightarrow> positionOf (mr_db r') t' = positionOf (mr_db r) t')"
  by (rule prompt_writer.log_thought [OF leader_writer [OF assms(1)] assms(2-4)])

lemma demo_leading: "leading demoLeader"
proof -
  have "list_all (\<lambda>c. cl_classification c \<noteq> LocalOnly) (db_classes demoDb)" by code_simp
  then have "find (\<lambda>c. cl_table c = t) (db_classes demoDb) = Some c \<Longrightarrow> cl_classification c \<noteq> LocalOnly" for t c
    by (auto simp: find_Some_iff list_all_length)
  then show ?thesis
    by (auto simp: leading_def demoLeader_def new_MemoryReplicator_def ex_leads_def getTableClassification_def)
qed

theorem log_thought_on_leader_witness:
  "\<exists>r'. logThought mr_db (leaderWriter demoSql show_int 7 id (\<lambda>_. []) ex_menc ex_mdec) 1 ''begin'' None None demoLeader
     = (r', Inr \<lparr>tl_thought_id = Some 1, tl_thread_id = 1, tl_type = ''progress''\<rparr>) \<and> map tt_content (db_thoughts (mr_db r')) = [''begin'']"
proof -
  have db: "mr_db demoLeader = demoDb" by (simp add: demoLeader_def new_MemoryReplicator_def)
  have "db_seq demoDb = 0" "db_thoughts demoDb = []" "1 \<in> threadIds demoDb"
    by (simp_all add: demoDb_def initializeSchema_def registerClassifications_def emptyDb_def threadIds_def)
  with log_thought_on_leader [OF ex_roundtrip demo_leading, of 1 demoSql show_int 7 id "\<lambda>_. []" "''begin''" None None] demo_db_ok
  show ?thesis by (auto simp: db nullish_def)
qed

text \<open>
  On a follower the write only reaches the leader: its own replica is as before when the
  promise settles. The tool then takes the latest thought it knows for the new one: it
  reports that thought's id and moves the thread's position to it.
\<close>

theorem follower_logs_old_thought:
  assumes "state (raft (mr_membership r)) \<noteq> Leader" and "\<And>t. getTableClassification (mr_db r) t \<noteq> Some LocalOnly"
    and "\<And>p. wr_success (snd (mem_forwardToLeader ms rpc why p))"
  shows "logThought mr_db (\<lambda>s tbl cls. mem_write eng getTableClassification sha json enc ms rpc why [] [s] cls (Some tbl)) t c ty md r
    = (r, Inr \<lparr>tl_thought_id = latestThought (mr_db r) t, tl_thread_id = t, tl_type = nullish ty ''progress''\<rparr>)"
proof -
  have "nullish None (getClassificationForTable getTableClassification (Some tbl) r) \<noteq> LocalOnly" for tbl
    using assms(2) by (auto simp: getClassificationForTable_def nullish_def split: option.splits)
  then have "\<exists>res. mem_write eng getTableClassification sha json enc ms rpc why [] [s] None (Some tbl) r = (r, res) \<and> wr_success res" for s tbl
    using assms(1,3) by (simp add: mem_write_def Let_def)
  then obtain res where "\<And>s tbl. mem_write eng getTableClassification sha json enc ms rpc why [] [s] None (Some tbl) r = (r, res s tbl)"
    "\<And>s tbl. wr_success (res s tbl)" by metis
  then show ?thesis by (simp add: logThought_def Let_def split: option.split)
qed

section \<open>Context entries\<close>

text \<open>
  Setting an entry again without saying whether it is pinned unpins it, although its label
  survives in the same way of calling: the pinned value written is never missing.
\<close>

theorem set_context_unpins:
  assumes "mr_open r" and "category \<in> set categories" and "find (\<lambda>c. cx_key c = key) (db_context (mr_db r)) = Some c" and "cx_pinned c = Some 1"
  shows "\<exists>c'. find (\<lambda>c. cx_key c = key) (db_context (mr_db (fst (setContext (localWriter eng toIso now) key v category None None None r)))) = Some c'
    \<and> cx_value c' = v \<and> cx_label c' = cx_label c \<and> cx_pinned c' = Some 0"
proof -
  let ?new = "\<lparr>cx_key = key, cx_value = v, cx_category = Some category, cx_label = None, cx_source = None, cx_pinned = Some 0,
                 cx_created_at = now, cx_updated_at = now\<rparr>"
  have k: "cx_key c = key" "key \<in> cx_key ` set (db_context (mr_db r))" using assms(3) by (auto simp: find_Some_iff)
  have f: "find (\<lambda>c. cx_key c = key) (map (\<lambda>r. if cx_key r = key then mergeContext now ?new r else r) cs)
      = map_option (mergeContext now ?new) (find (\<lambda>c. cx_key c = key) cs)" for cs
    by (induction cs) (auto simp: mergeContext_def)
  have ctx: "db_context (mr_db (fst (setContext (localWriter eng toIso now) key v category None None None r)))
      = map (\<lambda>r. if cx_key r = key then mergeContext now ?new r else r) (db_context (mr_db r))"
    using assms(1,2) k(2) by (simp add: setContext_def localWriter_def applyLocally_def db_run_def memEngine_def db_exec_def generateWhereami_def
        nullish_def Let_def)
  show ?thesis unfolding ctx f assms(3) using k(1) by (simp add: mergeContext_def)
qed

text \<open>
  The detection of credentials looks at the JSON text of an object, which starts with a
  brace: the patterns that are anchored at the start never match, whatever the values are.
\<close>

lemma anchored_patterns_dead:
  "looksLikeCredential (CHR 0x7B # s) \<longleftrightarrow> somewhere rePassword (CHR 0x7B # s)
     \<or> somewhere (\<lambda>s. startsWith s ''postgresql://'' \<and> reUserinfo (drop 13 s)) (CHR 0x7B # s)
     \<or> somewhere (\<lambda>s. startsWith s ''mongodb://'' \<and> reUserinfo (drop 10 s) \<or> startsWith s ''mongodb+srv://'' \<and> reUserinfo (drop 14 s)) (CHR 0x7B # s)"
  by (simp add: looksLikeCredential_def startsWith_def reBase64_def rePem_def isAlnum_def isWordChar_def Let_def)

text \<open>The text of an object with an API key, and that of one with a password, raise no warning.\<close>

lemma credentials_undetected:
  "\<not> looksLikeCredential (''{'' @ [CHR 0x22] @ ''key'' @ [CHR 0x22] @ '':'' @ [CHR 0x22] @ ''ghp_0123456789'' @ [CHR 0x22] @ ''}'')"
  "\<not> looksLikeCredential (''{'' @ [CHR 0x22] @ ''password'' @ [CHR 0x22] @ '':'' @ [CHR 0x22] @ ''hunter2'' @ [CHR 0x22] @ ''}'')"
  by code_simp+

section \<open>Inspection and SQL of the caller\<close>

text \<open>
  The statistics never list a table: in \<open>LIKE\<close> the underscore of the pattern \<open>_%\<close> stands for
  any character, so the condition meant to hide internal tables hides all of them.
\<close>

theorem stats_list_no_table:
  assumes "\<forall>t \<in> set (db_others d). fst t \<noteq> []"
  shows "ds_tableCount (getStats d) = 0 \<and> ds_rowCounts (getStats d) = []"
proof -
  have any: "like ''%'' s" for s by (auto simp: list_ex_iff intro: bexI [of _ "length s"])
  have "like ''_%'' t" if "t \<noteq> []" for t using that any by (cases t) auto
  moreover have "\<forall>t \<in> set (allTables d). fst t \<noteq> []" using assms by (auto simp: allTables_def)
  ultimately have "filter (\<lambda>(t, _). \<not> like ''sqlite_%'' t \<and> \<not> like ''_%'' t) (allTables d) = []" by (auto simp: filter_empty_conv)
  then show ?thesis by (simp add: getStats_def)
qed

text \<open>
  What \<open>memory_query\<close> lets through: exactly the texts that start with one of three words, and
  it adds a limit exactly when the word does not occur anywhere in the text.
\<close>

lemma query_guard:
  "memoryQuery sql limit = Inr sql' \<longleftrightarrow>
     (startsWith (normalizedSql sql) ''SELECT'' \<or> startsWith (normalizedSql sql) ''PRAGMA'' \<or> startsWith (normalizedSql sql) ''WITH'')
     \<and> sql' = (if str_includes (normalizedSql sql) ''LIMIT'' then sql else sql @ '' LIMIT '' @ show_int (nullish limit 100))"
  by (auto simp: memoryQuery_def Let_def)

text \<open>Statements that change the database pass as queries; a pragma gets a limit it does not take.\<close>

lemma query_examples:
  "memoryQuery ''WITH x AS (SELECT 1 LIMIT 1) INSERT INTO t SELECT * FROM x RETURNING 1'' None
     = Inr ''WITH x AS (SELECT 1 LIMIT 1) INSERT INTO t SELECT * FROM x RETURNING 1''"
  "memoryQuery ''PRAGMA table_info(t)'' None = Inr ''PRAGMA table_info(t) LIMIT 100''"
  "memoryQuery ''select rate_limit from big'' (Some 5) = Inr ''select rate_limit from big''"
  by code_simp+

text \<open>\<open>memory_write\<close> reaches the replicator with the table the statement names.\<close>

lemma table_examples:
  "extractTableName ''INSERT OR IGNORE INTO infra_secrets (name) VALUES (?)'' = Some ''infra_secrets''"
  "extractTableName ''  update timeline_threads SET x = 1'' = Some ''timeline_threads''"
  "extractTableName ''DELETE FROM network_clients'' = Some ''network_clients''"
  "extractTableName ''REPLACE INTO infra_secrets VALUES (1)'' = None"
  by code_simp+

end
