(* ===== verification/Discovery.thy ===== *)
theory Discovery
  imports Prelude
begin

text \<open>
  Discovery of the nodes of the tailnet (\<open>src/discovery/tailscale.ts\<close>): what
  \<open>tailscale status --json\<close> says, turned into nodes, and each poll turned into events.

  The command's answer is an argument of \<open>ts_poll\<close> (\<open>Inl\<close>: the command failed or its output
  is not JSON; otherwise the object's keys, an absent key being \<open>None\<close>), with the current
  time and \<open>dateOf\<close>, which stands for the \<open>Date\<close> constructor on a text. Listeners are taken
  not to throw. \<open>toLowerCase\<close> is that of ASCII.
\<close>

section \<open>State\<close>

record TailscaleNode =
  tn_id :: string
  tn_hostname :: string
  tn_ip :: string
  tn_online :: bool
  tn_os :: string
  tn_tags :: "string list"
  tn_lastSeen :: int
  tn_self :: bool

record TailscaleStatus =
  st_selfIP :: string
  st_selfHostname :: string
  st_tailnetName :: string
  st_magicDNSSuffix :: string
  st_nodes :: "TailscaleNode list"

record PeerJson =
  pj_ID :: "string option"
  pj_HostName :: "string option"
  pj_TailscaleIPs :: "string list option"
  pj_Online :: "bool option"
  pj_OS :: "string option"
  pj_Tags :: "string list option"
  pj_LastSeen :: "string option"

record StatusJson =
  sj_Self :: "PeerJson option"
  sj_Peer :: "PeerJson list option"
  sj_tailnetName :: "string option"
  sj_MagicDNSSuffix :: "string option"

datatype DiscoveryEvent = NodeDiscovered TailscaleNode | NodeOnline TailscaleNode
  | NodeOffline TailscaleNode | NodeRemoved TailscaleNode | PollError string

record TailscaleDiscovery =
  ts_polling :: bool
  ts_lastStatus :: "TailscaleStatus option"
  ts_knownNodes :: "(string, TailscaleNode) jsmap"
  ts_clusterTag :: string
  ts_errorListener :: bool

definition new_TailscaleDiscovery :: "string option \<Rightarrow> TailscaleDiscovery" where
  "new_TailscaleDiscovery tag =
     \<lparr>ts_polling = False, ts_lastStatus = None, ts_knownNodes = [], ts_clusterTag = nullish tag ''cortex'', ts_errorListener = False\<rparr>"

section \<open>Reading the status\<close>

definition firstOf :: "string list option \<Rightarrow> string" where
  "firstOf ips = (case ips of Some (i # _) \<Rightarrow> i | _ \<Rightarrow> [])"

definition parseNode :: "(string \<Rightarrow> int) \<Rightarrow> int \<Rightarrow> bool \<Rightarrow> PeerJson \<Rightarrow> TailscaleNode" where
  "parseNode dateOf now self d =
     \<lparr>tn_id = nullish (pj_ID d) [], tn_hostname = nullish (pj_HostName d) [], tn_ip = firstOf (pj_TailscaleIPs d),
      tn_online = nullish (pj_Online d) False, tn_os = nullish (pj_OS d) [],
      tn_tags = map (map asciiLower) (nullish (pj_Tags d) []),
      tn_lastSeen = (if truthy (pj_LastSeen d) then dateOf (the (pj_LastSeen d)) else now), tn_self = self\<rparr>"

definition fetchStatus :: "(string \<Rightarrow> int) \<Rightarrow> int \<Rightarrow> StatusJson \<Rightarrow> TailscaleStatus" where
  "fetchStatus dateOf now d =
     \<lparr>st_selfIP = firstOf (Option.bind (sj_Self d) pj_TailscaleIPs),
      st_selfHostname = nullish (Option.bind (sj_Self d) pj_HostName) [],
      st_tailnetName = nullish (sj_tailnetName d) [], st_magicDNSSuffix = nullish (sj_MagicDNSSuffix d) [],
      st_nodes = (case sj_Self d of None \<Rightarrow> [] | Some s \<Rightarrow> [parseNode dateOf now True s])
        @ map (parseNode dateOf now False) (nullish (sj_Peer d) [])\<rparr>"

section \<open>Polling\<close>

definition hasTag :: "string \<Rightarrow> TailscaleNode \<Rightarrow> bool" where
  "hasTag tag n \<longleftrightarrow> ''tag:'' @ tag \<in> set (tn_tags n)"

definition clusterNode :: "string \<Rightarrow> TailscaleNode \<Rightarrow> bool" where
  "clusterNode tag n \<longleftrightarrow> hasTag tag n \<and> \<not> tn_self n"

text \<open>One turn of the loop over the cluster's nodes.\<close>

definition seeNode :: "TailscaleNode \<Rightarrow> (string, TailscaleNode) jsmap \<Rightarrow> (string, TailscaleNode) jsmap \<times> DiscoveryEvent list" where
  "seeNode n known =
     (case jm_get known (tn_id n) of
        None \<Rightarrow> (jm_set (tn_id n) n known, if tn_online n then [NodeDiscovered n] else [])
      | Some old \<Rightarrow>
          if \<not> tn_online old \<and> tn_online n then (jm_set (tn_id n) n known, [NodeOnline n])
          else if tn_online old \<and> \<not> tn_online n then (jm_set (tn_id n) n known, [NodeOffline n])
          else (known, []))"

fun seeNodes :: "TailscaleNode list \<Rightarrow> (string, TailscaleNode) jsmap \<Rightarrow> (string, TailscaleNode) jsmap \<times> DiscoveryEvent list" where
  "seeNodes [] known = (known, [])"
| "seeNodes (n # ns) known = (let (k1, e1) = seeNode n known; (k2, e2) = seeNodes ns k1 in (k2, e1 @ e2))"

text \<open>The loop over the known nodes; the map is iterated in its order while entries are deleted.\<close>

fun dropGone :: "string list \<Rightarrow> (string, TailscaleNode) jsmap \<Rightarrow> (string, TailscaleNode) jsmap \<Rightarrow> (string, TailscaleNode) jsmap \<times> DiscoveryEvent list" where
  "dropGone ids [] known = (known, [])"
| "dropGone ids ((i, n) # es) known =
     (if i \<in> set ids then dropGone ids es known
      else let (k, e) = dropGone ids es (jm_delete i known) in (k, NodeRemoved n # e))"

definition pollStatus :: "TailscaleStatus \<Rightarrow> TailscaleDiscovery \<Rightarrow> TailscaleDiscovery \<times> DiscoveryEvent list" where
  "pollStatus s t =
     (let (k1, e1) = seeNodes (filter (clusterNode (ts_clusterTag t)) (st_nodes s)) (ts_knownNodes t);
          (k2, e2) = dropGone (map tn_id (st_nodes s)) k1 k1
      in (t\<lparr>ts_lastStatus := Some s, ts_knownNodes := k2\<rparr>, e1 @ e2))"

text \<open>
  \<open>poll\<close>: the new state, the events in order, and the rejection, if there is one: emitting
  \<open>error\<close> with no listener throws.
\<close>

definition ts_poll :: "(string \<Rightarrow> int) \<Rightarrow> int \<Rightarrow> string + StatusJson \<Rightarrow> TailscaleDiscovery \<Rightarrow> TailscaleDiscovery \<times> DiscoveryEvent list \<times> string option" where
  "ts_poll dateOf now answer t =
     (case answer of
        Inr d \<Rightarrow> (case pollStatus (fetchStatus dateOf now d) t of (t', es) \<Rightarrow> (t', es, None))
      | Inl e \<Rightarrow> (t, [PollError e], if ts_errorListener t then None else Some e))"

definition ts_start :: "(string \<Rightarrow> int) \<Rightarrow> int \<Rightarrow> string + StatusJson \<Rightarrow> TailscaleDiscovery \<Rightarrow> TailscaleDiscovery \<times> DiscoveryEvent list \<times> string option" where
  "ts_start dateOf now answer t =
     (case ts_poll dateOf now answer t of
        (t', es, Some e) \<Rightarrow> (t', es, Some e)
      | (t', es, None) \<Rightarrow> (t'\<lparr>ts_polling := True\<rparr>, es, None))"

definition ts_stop :: "TailscaleDiscovery \<Rightarrow> TailscaleDiscovery" where
  "ts_stop t = t\<lparr>ts_polling := False\<rparr>"

section \<open>Queries\<close>

definition ts_getSelfIP :: "TailscaleDiscovery \<Rightarrow> string option" where
  "ts_getSelfIP t = map_option st_selfIP (ts_lastStatus t)"

definition ts_getSelfHostname :: "TailscaleDiscovery \<Rightarrow> string option" where
  "ts_getSelfHostname t = map_option st_selfHostname (ts_lastStatus t)"

definition getClusterNodes :: "TailscaleDiscovery \<Rightarrow> TailscaleNode list" where
  "getClusterNodes t =
     (case ts_lastStatus t of None \<Rightarrow> []
      | Some s \<Rightarrow> filter (\<lambda>n. hasTag (ts_clusterTag t) n \<and> tn_online n \<and> \<not> tn_self n) (st_nodes s))"

definition lookupHostname :: "string \<Rightarrow> TailscaleDiscovery \<Rightarrow> string option" where
  "lookupHostname h t =
     Option.bind (ts_lastStatus t) (\<lambda>s. map_option tn_ip (find (\<lambda>n. map asciiLower (tn_hostname n) = map asciiLower h) (st_nodes s)))"

text \<open>\<open>resolveHostname\<close> polls when there is no status yet; \<open>Inl\<close> is the poll's rejection.\<close>

definition resolveHostname :: "(string \<Rightarrow> int) \<Rightarrow> int \<Rightarrow> string + StatusJson \<Rightarrow> string \<Rightarrow> TailscaleDiscovery
    \<Rightarrow> TailscaleDiscovery \<times> DiscoveryEvent list \<times> (string + string option)" where
  "resolveHostname dateOf now answer h t =
     (if ts_lastStatus t = None
      then (case ts_poll dateOf now answer t of
              (t', es, Some e) \<Rightarrow> (t', es, Inl e)
            | (t', es, None) \<Rightarrow> (t', es, Inr (lookupHostname h t')))
      else (t, [], Inr (lookupHostname h t)))"

section \<open>What a listener knows\<close>

text \<open>
  The abstract view: a listener that keeps the identifiers of the nodes it believes to be
  online, changed by nothing but the events.
\<close>

fun hear :: "DiscoveryEvent \<Rightarrow> string set \<Rightarrow> string set" where
  "hear (NodeDiscovered n) v = insert (tn_id n) v"
| "hear (NodeOnline n) v = insert (tn_id n) v"
| "hear (NodeOffline n) v = v - {tn_id n}"
| "hear (NodeRemoved n) v = v - {tn_id n}"
| "hear (PollError _) v = v"

definition onlineIn :: "(string, TailscaleNode) jsmap \<Rightarrow> string set" where
  "onlineIn known = {i. \<exists>n. jm_get known i = Some n \<and> tn_online n}"

text \<open>Every entry is filed under its own identifier, and no identifier twice.\<close>

definition known_ok :: "(string, TailscaleNode) jsmap \<Rightarrow> bool" where
  "known_ok known \<longleftrightarrow> jm_wf known \<and> (\<forall>(i, n) \<in> set known. tn_id n = i)"

lemma known_okD: "known_ok known \<Longrightarrow> jm_get known i = Some n \<Longrightarrow> tn_id n = i"
  by (auto simp: known_ok_def jm_get_def dest: map_of_SomeD)

lemma known_ok_iff: "known_ok known \<longleftrightarrow> jm_wf known \<and> (\<forall>i n. jm_get known i = Some n \<longrightarrow> tn_id n = i)"
  by (auto simp: known_ok_def jm_get_def jm_wf_def dest: map_of_SomeD)

lemma known_ok_set: "known_ok known \<Longrightarrow> known_ok (jm_set (tn_id n) n known)"
  by (auto simp: known_ok_iff jm_laws split: if_splits)

lemma known_ok_delete: "known_ok known \<Longrightarrow> known_ok (jm_delete i known)"
  by (auto simp: known_ok_iff jm_laws split: if_splits)

lemma seeNode_tracks:
  "known_ok known \<Longrightarrow> seeNode n known = (k, es) \<Longrightarrow> known_ok k \<and> fold hear es (onlineIn known) = onlineIn k"
  by (auto simp: seeNode_def onlineIn_def jm_laws known_ok_set split: option.splits if_splits)

lemma seeNodes_tracks:
  "known_ok known \<Longrightarrow> seeNodes ns known = (k, es) \<Longrightarrow> known_ok k \<and> fold hear es (onlineIn known) = onlineIn k"
proof (induction ns arbitrary: known k es)
  case (Cons n ns)
  obtain k1 e1 where 1: "seeNode n known = (k1, e1)" by fastforce
  obtain k2 e2 where 2: "seeNodes ns k1 = (k2, e2)" by fastforce
  from Cons.prems(2) 1 2 have "k = k2" "es = e1 @ e2" by auto
  with seeNode_tracks [OF Cons.prems(1) 1] Cons.IH [OF _ 2] show ?case by simp
qed simp

lemma onlineIn_delete: "onlineIn (jm_delete i known) = onlineIn known - {i}"
  by (auto simp: onlineIn_def jm_laws)

lemma dropGone_tracks:
  "known_ok known \<Longrightarrow> \<forall>(i, n) \<in> set es. tn_id n = i \<Longrightarrow> dropGone ids es known = (k, evs)
   \<Longrightarrow> known_ok k \<and> fold hear evs (onlineIn known) = onlineIn k
     \<and> (\<forall>i. jm_get k i = (if i \<in> fst ` set es - set ids then None else jm_get known i))"
proof (induction ids es known arbitrary: k evs rule: dropGone.induct)
  case (2 ids i n es known)
  show ?case
  proof (cases "i \<in> set ids")
    case True
    with 2 show ?thesis by auto
  next
    case False
    obtain k1 e1 where r: "dropGone ids es (jm_delete i known) = (k1, e1)" by fastforce
    with 2(5) False have k: "k = k1" "evs = NodeRemoved n # e1" by auto
    from 2(2) [OF False known_ok_delete [OF 2(3)] _ r] 2(4) have IH: "known_ok k1"
      "fold hear e1 (onlineIn (jm_delete i known)) = onlineIn k1"
      "\<forall>j. jm_get k1 j = (if j \<in> fst ` set es - set ids then None else jm_get (jm_delete i known) j)" by auto
    from IH(3) False have "\<forall>j. jm_get k1 j = (if j \<in> fst ` set ((i, n) # es) - set ids then None else jm_get known j)"
      by (auto simp: jm_laws)
    with IH(1,2) k 2(4) show ?thesis by (simp add: onlineIn_delete)
  qed
qed simp

lemma pollStatus_tracks:
  assumes "known_ok (ts_knownNodes t)" and "pollStatus s t = (t', es)"
  shows "known_ok (ts_knownNodes t')" "fold hear es (onlineIn (ts_knownNodes t)) = onlineIn (ts_knownNodes t')"
proof -
  obtain k1 e1 where 1: "seeNodes (filter (clusterNode (ts_clusterTag t)) (st_nodes s)) (ts_knownNodes t) = (k1, e1)" by fastforce
  obtain k2 e2 where 2: "dropGone (map tn_id (st_nodes s)) k1 k1 = (k2, e2)" by fastforce
  from seeNodes_tracks [OF assms(1) 1] have k1: "known_ok k1" "fold hear e1 (onlineIn (ts_knownNodes t)) = onlineIn k1" by auto
  then have "\<forall>(i, n) \<in> set k1. tn_id n = i" by (simp add: known_ok_def)
  from dropGone_tracks [OF k1(1) this 2] k1(2) assms(2) 1 2
  show "known_ok (ts_knownNodes t')" "fold hear es (onlineIn (ts_knownNodes t)) = onlineIn (ts_knownNodes t')"
    by (auto simp: pollStatus_def)
qed

section \<open>Runs of polls\<close>

fun ts_polls :: "(string \<Rightarrow> int) \<Rightarrow> (int \<times> (string + StatusJson)) list \<Rightarrow> TailscaleDiscovery \<Rightarrow> TailscaleDiscovery \<times> DiscoveryEvent list" where
  "ts_polls dateOf [] t = (t, [])"
| "ts_polls dateOf ((now, a) # qs) t =
     (case ts_poll dateOf now a t of (t1, e1, _) \<Rightarrow> (case ts_polls dateOf qs t1 of (t2, e2) \<Rightarrow> (t2, e1 @ e2)))"

lemma ts_poll_tracks:
  "known_ok (ts_knownNodes t) \<Longrightarrow> ts_poll dateOf now a t = (t', es, r)
   \<Longrightarrow> known_ok (ts_knownNodes t') \<and> fold hear es (onlineIn (ts_knownNodes t)) = onlineIn (ts_knownNodes t')"
  by (auto simp: ts_poll_def split: sum.splits prod.splits dest: pollStatus_tracks)

lemma ts_polls_tracks:
  "known_ok (ts_knownNodes t) \<Longrightarrow> ts_polls dateOf qs t = (t', es)
   \<Longrightarrow> known_ok (ts_knownNodes t') \<and> fold hear es (onlineIn (ts_knownNodes t)) = onlineIn (ts_knownNodes t')"
proof (induction dateOf qs t arbitrary: t' es rule: ts_polls.induct)
  case (2 dateOf now a qs t)
  obtain t1 e1 r where 1: "ts_poll dateOf now a t = (t1, e1, r)" by (cases "ts_poll dateOf now a t")
  obtain t2 e2 where rest: "ts_polls dateOf qs t1 = (t2, e2)" by fastforce
  from 2(3) 1 rest have "t' = t2" "es = e1 @ e2" by auto
  with ts_poll_tracks [OF 2(2) 1] 2(1) [OF 1 [symmetric] refl _ rest] show ?case by simp
qed simp

lemma known_ok_new [simp]: "known_ok (ts_knownNodes (new_TailscaleDiscovery tag))" "onlineIn (ts_knownNodes (new_TailscaleDiscovery tag)) = {}"
  by (simp_all add: known_ok_def onlineIn_def new_TailscaleDiscovery_def)

lemma seeNode_get:
  "seeNode n known = (k, es) \<Longrightarrow> (i \<in> onlineIn k \<longleftrightarrow> (if i = tn_id n then tn_online n else i \<in> onlineIn known))
     \<and> (jm_get k i = None \<longleftrightarrow> i \<noteq> tn_id n \<and> jm_get known i = None)"
  by (auto simp: seeNode_def onlineIn_def jm_laws split: option.splits if_splits)

lemma seeNodes_get:
  "distinct (map tn_id ns) \<Longrightarrow> seeNodes ns known = (k, es)
   \<Longrightarrow> (i \<in> onlineIn k \<longleftrightarrow> (if i \<in> tn_id ` set ns then \<exists>n \<in> set ns. tn_id n = i \<and> tn_online n else i \<in> onlineIn known))
     \<and> (jm_get k i = None \<longleftrightarrow> i \<notin> tn_id ` set ns \<and> jm_get known i = None)"
proof (induction ns arbitrary: known k es)
  case (Cons n ns)
  obtain k1 e1 where 1: "seeNode n known = (k1, e1)" by fastforce
  obtain k2 e2 where 2: "seeNodes ns k1 = (k2, e2)" by fastforce
  from Cons.prems(2) 1 2 have "k = k2" by auto
  moreover have "tn_id n \<notin> tn_id ` set ns" using Cons.prems(1) by simp
  then have "m \<in> set ns \<Longrightarrow> tn_id m \<noteq> tn_id n" for m by (metis image_eqI)
  ultimately show ?case using Cons.IH [OF _ 2] Cons.prems(1) seeNode_get [OF 1, of i] by (cases "i = tn_id n") auto
qed simp

lemma pollStatus_online:
  assumes known: "known_ok (ts_knownNodes t)" and poll: "pollStatus s t = (t', es)" and ids: "distinct (map tn_id (st_nodes s))"
    and kept: "\<forall>n \<in> set (st_nodes s). jm_get (ts_knownNodes t) (tn_id n) \<noteq> None \<longrightarrow> clusterNode (ts_clusterTag t) n"
  shows "onlineIn (ts_knownNodes t') = tn_id ` set (getClusterNodes t')"
proof -
  let ?ns = "filter (clusterNode (ts_clusterTag t)) (st_nodes s)"
  obtain k1 e1 where 1: "seeNodes ?ns (ts_knownNodes t) = (k1, e1)" by fastforce
  obtain k2 e2 where 2: "dropGone (map tn_id (st_nodes s)) k1 k1 = (k2, e2)" by fastforce
  from seeNodes_tracks [OF known 1] have k1: "known_ok k1" by auto
  then have "\<forall>(i, n) \<in> set k1. tn_id n = i" by (simp add: known_ok_def)
  from dropGone_tracks [OF k1 this 2]
  have get: "jm_get k2 i = (if i \<in> tn_id ` set (st_nodes s) then jm_get k1 i else None)" for i
    by (auto simp: jm_get_def map_of_eq_None_iff image_iff)
  have t': "t' = t\<lparr>ts_lastStatus := Some s, ts_knownNodes := k2\<rparr>" using poll 1 2 by (simp add: pollStatus_def)
  have "distinct (map tn_id ?ns)" using ids by (simp add: distinct_map inj_on_def)
  note see = seeNodes_get [OF this 1]
  have "i \<in> onlineIn k2 \<longleftrightarrow> i \<in> tn_id ` set (st_nodes s) \<and> i \<in> onlineIn k1" for i by (auto simp: onlineIn_def get)
  moreover have "i \<in> tn_id ` set ?ns" if "i \<in> tn_id ` set (st_nodes s)" "i \<in> onlineIn k1" for i
    using that see [of i] kept by (auto simp: onlineIn_def)
  ultimately have "i \<in> onlineIn k2 \<longleftrightarrow> (\<exists>n \<in> set ?ns. tn_id n = i \<and> tn_online n)" for i
    using see [of i] by auto
  then show ?thesis by (auto simp: t' getClusterNodes_def clusterNode_def)
qed

text \<open>
  C17. Events and queries agree: whatever polls came before, failed ones included, a listener
  that only follows the events knows after a successful poll exactly the nodes that
  \<open>getClusterNodes\<close> returns, provided that identifiers are distinct and that no known node
  has lost its tag.
\<close>

theorem listener_view_exact:
  assumes "ts_polls dateOf qs (new_TailscaleDiscovery tag) = (t, es)" and "ts_poll dateOf now (Inr d) t = (t', es', r)"
    and "distinct (map tn_id (st_nodes (fetchStatus dateOf now d)))"
    and "\<forall>n \<in> set (st_nodes (fetchStatus dateOf now d)). jm_get (ts_knownNodes t) (tn_id n) \<noteq> None \<longrightarrow> clusterNode (ts_clusterTag t) n"
  shows "r = None \<and> fold hear (es @ es') {} = tn_id ` set (getClusterNodes t')"
proof -
  from ts_polls_tracks [OF _ assms(1)] have t: "known_ok (ts_knownNodes t)" "fold hear es {} = onlineIn (ts_knownNodes t)" by auto
  obtain p: "pollStatus (fetchStatus dateOf now d) t = (t', es')" and r: "r = None"
    using assms(2) by (auto simp: ts_poll_def split: prod.splits)
  show ?thesis using pollStatus_tracks [OF t(1) p] pollStatus_online [OF t(1) p assms(3,4)] t(2) r by simp
qed

definition ex_peer :: "string \<Rightarrow> string list \<Rightarrow> bool \<Rightarrow> PeerJson" where
  "ex_peer i tags on = \<lparr>pj_ID = Some i, pj_HostName = Some i, pj_TailscaleIPs = Some [''100.64.0.'' @ i], pj_Online = Some on,
     pj_OS = Some ''linux'', pj_Tags = Some tags, pj_LastSeen = None\<rparr>"

definition ex_tailnet :: "PeerJson list \<Rightarrow> StatusJson" where
  "ex_tailnet ps = \<lparr>sj_Self = Some (ex_peer ''1'' [''tag:cortex''] True), sj_Peer = Some ps, sj_tailnetName = None, sj_MagicDNSSuffix = None\<rparr>"

lemmas discovery_eval = ts_poll_def pollStatus_def fetchStatus_def parseNode_def firstOf_def seeNode_def clusterNode_def hasTag_def
  new_TailscaleDiscovery_def getClusterNodes_def nullish_def truthy_def jm_get_def jm_set_def jm_delete_def asciiLower_def
  ex_peer_def ex_tailnet_def

lemma listener_view_exact_witness:
  "\<exists>t es t' es'. ts_polls (\<lambda>_. 0) [(1, Inr (ex_tailnet [ex_peer ''2'' [''tag:cortex''] True, ex_peer ''3'' [''tag:cortex''] False])), (2, Inl ''down'')]
       (new_TailscaleDiscovery None) = (t, es)
     \<and> ts_poll (\<lambda>_. 0) 3 (Inr (ex_tailnet [ex_peer ''3'' [''tag:cortex''] True, ex_peer ''4'' [] True])) t = (t', es', None)
     \<and> fold hear (es @ es') {} = {''3''} \<and> map tn_id (getClusterNodes t') = [''3'']"
proof -
  let ?qs = "[(1, Inr (ex_tailnet [ex_peer ''2'' [''tag:cortex''] True, ex_peer ''3'' [''tag:cortex''] False])), (2, Inl ''down'')]"
  let ?d = "ex_tailnet [ex_peer ''3'' [''tag:cortex''] True, ex_peer ''4'' [] True]"
  obtain t es where 1: "ts_polls (\<lambda>_. 0) ?qs (new_TailscaleDiscovery None) = (t, es)" by fastforce
  obtain t' es' r where 2: "ts_poll (\<lambda>_. 0) 3 (Inr ?d) t = (t', es', r)" by (cases "ts_poll (\<lambda>_. 0) 3 (Inr ?d) t")
  from 1 have t: "map_option tn_online (jm_get (ts_knownNodes t) ''4'') = None" "jm_get (ts_knownNodes t) ''1'' = None" "ts_clusterTag t = ''cortex''"
    by (auto simp: discovery_eval)
  have kept: "\<forall>n \<in> set (st_nodes (fetchStatus (\<lambda>_. 0) 3 ?d)). jm_get (ts_knownNodes t) (tn_id n) \<noteq> None \<longrightarrow> clusterNode (ts_clusterTag t) n"
    using t by (simp add: fetchStatus_def parseNode_def ex_tailnet_def ex_peer_def clusterNode_def hasTag_def nullish_def asciiLower_def)
  have nodes: "map tn_id (getClusterNodes t') = [''3'']" using 1 2 by (auto simp: discovery_eval)
  then have "tn_id ` set (getClusterNodes t') = {''3''}" by (metis set_map list.simps(15) list.set(1))
  moreover have "r = None \<and> fold hear (es @ es') {} = tn_id ` set (getClusterNodes t')"
    by (rule listener_view_exact [OF 1 2 _ kept]) (simp add: fetchStatus_def parseNode_def ex_tailnet_def ex_peer_def nullish_def)
  ultimately show ?thesis using 1 2 nodes by metis
qed

section \<open>Where the view is wrong\<close>

text \<open>
  A known node that is online and loses its tag stays known and online for every listener:
  the poll reports nothing about it, although \<open>getClusterNodes\<close> no longer returns it.
\<close>

lemma seeNodes_other: "i \<notin> tn_id ` set ns \<Longrightarrow> seeNodes ns known = (k, es) \<Longrightarrow> jm_get k i = jm_get known i"
proof (induction ns arbitrary: known k es)
  case (Cons n ns)
  obtain k1 e1 where 1: "seeNode n known = (k1, e1)" by fastforce
  obtain k2 e2 where 2: "seeNodes ns k1 = (k2, e2)" by fastforce
  from Cons.prems(2) 1 2 have "k = k2" by auto
  moreover have "jm_get k1 i = jm_get known i"
    using 1 Cons.prems(1) by (auto simp: seeNode_def jm_laws split: option.splits if_splits)
  ultimately show ?case using Cons.IH [OF _ 2] Cons.prems(1) by simp
qed simp

theorem lost_tag_unnoticed:
  assumes "known_ok (ts_knownNodes t)" and "jm_get (ts_knownNodes t) (tn_id n) = Some old" and "tn_online old"
    and "n \<in> set (st_nodes s)" and "distinct (map tn_id (st_nodes s))" and "\<not> hasTag (ts_clusterTag t) n"
    and "pollStatus s t = (t', es)"
  shows "tn_id n \<in> fold hear es (onlineIn (ts_knownNodes t)) \<and> tn_id n \<notin> tn_id ` set (getClusterNodes t')"
proof -
  let ?ns = "filter (clusterNode (ts_clusterTag t)) (st_nodes s)"
  obtain k1 e1 where 1: "seeNodes ?ns (ts_knownNodes t) = (k1, e1)" by fastforce
  obtain k2 e2 where 2: "dropGone (map tn_id (st_nodes s)) k1 k1 = (k2, e2)" by fastforce
  have t': "t' = t\<lparr>ts_lastStatus := Some s, ts_knownNodes := k2\<rparr>" using assms(7) 1 2 by (simp add: pollStatus_def)
  have own: "m = n" if "m \<in> set (st_nodes s)" "tn_id m = tn_id n" for m
    using that assms(4,5) by (simp add: distinct_map inj_on_def)
  with assms(6) have "tn_id n \<notin> tn_id ` set ?ns" by (auto simp: clusterNode_def)
  from seeNodes_other [OF this 1] assms(2) have "jm_get k1 (tn_id n) = Some old" by simp
  moreover from seeNodes_tracks [OF assms(1) 1] have k1: "known_ok k1" by simp
  then have "\<forall>(i, n) \<in> set k1. tn_id n = i" by (simp add: known_ok_def)
  from dropGone_tracks [OF k1 this 2] assms(4) have "jm_get k2 (tn_id n) = jm_get k1 (tn_id n)" by auto
  ultimately have "tn_id n \<in> onlineIn (ts_knownNodes t')" using assms(3) by (simp add: onlineIn_def t')
  moreover have "tn_id n \<notin> tn_id ` set (getClusterNodes t')" using own assms(6) by (auto simp: getClusterNodes_def t')
  ultimately show ?thesis using pollStatus_tracks(2) [OF assms(1,7)] by simp
qed

text \<open>
  The tags of a node are lowered, the configured tag is not: with a capital in it no node
  of any status belongs to the cluster.
\<close>

lemma asciiLower_idem [simp]: "asciiLower (asciiLower c) = asciiLower c"
proof (cases "65 \<le> (of_char c :: nat) \<and> (of_char c :: nat) \<le> 90")
  case True
  then have "(of_char (char_of ((of_char c :: nat) + 32) :: char) :: nat) = of_char c + 32" by (simp add: of_char_of)
  with True show ?thesis by (simp add: asciiLower_def)
qed (auto simp: asciiLower_def)

theorem capital_tag_finds_nothing:
  assumes "map asciiLower (ts_clusterTag t) \<noteq> ts_clusterTag t" and "ts_poll dateOf now (Inr d) t = (t', es, r)"
  shows "getClusterNodes t' = []"
proof -
  have "\<not> hasTag (ts_clusterTag t) (parseNode dateOf now b p)" for b p
  proof
    assume "hasTag (ts_clusterTag t) (parseNode dateOf now b p)"
    then have "ts_clusterTag t \<in> range (map asciiLower)" by (auto simp: hasTag_def parseNode_def)
    then have "map asciiLower (ts_clusterTag t) = ts_clusterTag t" by auto
    with assms(1) show False by simp
  qed
  then have "\<forall>n \<in> set (st_nodes (fetchStatus dateOf now d)). \<not> hasTag (ts_clusterTag t) n"
    by (auto simp: fetchStatus_def split: option.splits)
  with assms(2) show ?thesis
    by (auto simp: ts_poll_def pollStatus_def getClusterNodes_def filter_empty_conv split: prod.splits)
qed

text \<open>
  A poll that fails while nobody listens for errors is a rejected promise, and a failed
  first poll prevents the timer from being set up.
\<close>

theorem failed_first_poll_stops_discovery:
  "ts_start dateOf now (Inl e) (new_TailscaleDiscovery tag) = (new_TailscaleDiscovery tag, [PollError e], Some e)
   \<and> \<not> ts_polling (new_TailscaleDiscovery tag)"
  by (simp add: ts_start_def ts_poll_def new_TailscaleDiscovery_def)

end
