(* ===== verification/GrpcClient.thy ===== *)
theory GrpcClient
  imports Prelude
begin

text \<open>
  The client side of the node-to-node calls (\<open>src/grpc/client.ts\<close>): the pool that keeps one
  connection per address, the calls with their deadlines, and the generator over the
  answers of a remote execution.

  A connection object holds three client channels; channels are identified by the object's
  address (its position in \<open>gp_objects\<close>) and the service. \<open>waitForReady\<close> keeps the object it
  started with, so its answer can reach an object that was closed meanwhile.
\<close>

section \<open>The pool\<close>

datatype Service = ClusterService | RaftService | AgentService

record ClientConnection =
  cc_address :: string
  cc_connected :: bool
  cc_lastError :: "string option"

record GrpcClientPool =
  gp_loaded :: bool
  gp_defaultTimeoutMs :: "int option"
  gp_objects :: "ClientConnection list"
  gp_connections :: "(string, nat) jsmap"
  gp_closed :: "(nat \<times> Service) list"

definition new_GrpcClientPool :: "int option \<Rightarrow> GrpcClientPool" where
  "new_GrpcClientPool timeout = \<lparr>gp_loaded = False, gp_defaultTimeoutMs = timeout, gp_objects = [], gp_connections = [], gp_closed = []\<rparr>"

definition loadProto :: "GrpcClientPool \<Rightarrow> GrpcClientPool" where
  "loadProto p = p\<lparr>gp_loaded := True\<rparr>"

text \<open>\<open>Inl\<close>: it throws.\<close>

definition ensureProtoLoaded :: "GrpcClientPool \<Rightarrow> string + unit" where
  "ensureProtoLoaded p = (if \<not> gp_loaded p then Inl ''Proto not loaded. Call loadProto() first.'' else Inr ())"

definition getConnection :: "string \<Rightarrow> GrpcClientPool \<Rightarrow> GrpcClientPool \<times> (string + nat)" where
  "getConnection addr p =
     (case jm_get (gp_connections p) addr of
        Some c \<Rightarrow> (p, Inr c)
      | None \<Rightarrow>
          (case ensureProtoLoaded p of
             Inl e \<Rightarrow> (p, Inl e)
           | Inr _ \<Rightarrow> (let c = length (gp_objects p)
                        in (p\<lparr>gp_objects := gp_objects p @ [\<lparr>cc_address = addr, cc_connected = False, cc_lastError = None\<rparr>],
                              gp_connections := jm_set addr c (gp_connections p)\<rparr>, Inr c))))"

text \<open>The callback of \<open>waitForReady\<close> on the object it captured, and the answer of the call.\<close>

definition onReady :: "nat \<Rightarrow> string option \<Rightarrow> GrpcClientPool \<Rightarrow> GrpcClientPool \<times> bool" where
  "onReady c err p =
     (p\<lparr>gp_objects := (gp_objects p)[c := (gp_objects p ! c)\<lparr>cc_connected := (err = None), cc_lastError := err\<rparr>]\<rparr>, err = None)"

text \<open>\<open>waitForReady\<close> when nothing else happens meanwhile: \<open>answer\<close> is the channel's error, if any.\<close>

definition waitForReady :: "string \<Rightarrow> string option \<Rightarrow> GrpcClientPool \<Rightarrow> GrpcClientPool \<times> (string + bool)" where
  "waitForReady addr answer p =
     (case getConnection addr p of
        (p1, Inl e) \<Rightarrow> (p1, Inl e)
      | (p1, Inr c) \<Rightarrow> (let (p2, ok) = onReady c answer p1 in (p2, Inr ok)))"

definition closeConnection :: "string \<Rightarrow> GrpcClientPool \<Rightarrow> GrpcClientPool" where
  "closeConnection addr p =
     (case jm_get (gp_connections p) addr of
        None \<Rightarrow> p
      | Some c \<Rightarrow> p\<lparr>gp_closed := gp_closed p @ [(c, ClusterService), (c, RaftService), (c, AgentService)],
                    gp_connections := jm_delete addr (gp_connections p)\<rparr>)"

text \<open>The iteration over \<open>keys()\<close> visits every address once, although entries are deleted on the way.\<close>

definition closeAll :: "GrpcClientPool \<Rightarrow> GrpcClientPool" where
  "closeAll p = fold closeConnection (jm_keys (gp_connections p)) p"

section \<open>Calls\<close>

text \<open>The methods of the services, from \<open>cluster.proto\<close>: a client object has exactly these.\<close>

fun serviceMethods :: "Service \<Rightarrow> string list" where
  "serviceMethods ClusterService = [''RegisterNode'', ''DeregisterNode'', ''Heartbeat'', ''GetClusterState'', ''SubmitTask'',
     ''GetTaskStatus'', ''CancelTask'', ''StreamTaskOutput'', ''RegisterSession'', ''QuerySessions'', ''RelayToSession'',
     ''PublishContext'', ''QueryContext'', ''ForwardMemoryWrite'', ''RequestMemorySnapshot'', ''TransferLeadership'']"
| "serviceMethods RaftService = [''RequestVote'', ''AppendEntries'', ''InstallSnapshot'', ''TimeoutNow'']"
| "serviceMethods AgentService = [''ExecuteTask'', ''GetResources'', ''HealthCheck'', ''CancelExecution'']"

text \<open>A call that goes out: the channel, the method and the deadline (none for a stream).\<close>

record 'm RpcCall =
  rc_channel :: "nat \<times> Service"
  rc_method :: string
  rc_request :: 'm
  rc_deadline :: "int option"

definition call :: "int \<Rightarrow> nat \<times> Service \<Rightarrow> string \<Rightarrow> 'm \<Rightarrow> int option \<Rightarrow> GrpcClientPool \<Rightarrow> string + 'm RpcCall" where
  "call now ch mth req timeoutMs p =
     (let timeout = nullish timeoutMs (nullish (gp_defaultTimeoutMs p) 30000)
      in if mth \<notin> set (serviceMethods (snd ch)) then Inl (''Unknown method: '' @ mth)
         else Inr \<lparr>rc_channel = ch, rc_method = mth, rc_request = req, rc_deadline = Some (now + timeout)\<rparr>)"

definition callStream :: "nat \<times> Service \<Rightarrow> string \<Rightarrow> 'm \<Rightarrow> GrpcClientPool \<Rightarrow> string + 'm RpcCall" where
  "callStream ch mth req p =
     (if mth \<notin> set (serviceMethods (snd ch)) then Inl (''Unknown method: '' @ mth)
      else Inr \<lparr>rc_channel = ch, rc_method = mth, rc_request = req, rc_deadline = None\<rparr>)"

text \<open>The methods of \<open>ClusterClient\<close> and \<open>RaftClient\<close>: what they call, and with which timeout of their own.\<close>

datatype ClientCall = CRegisterNode | CDeregisterNode | CHeartbeat | CGetClusterState | CSubmitTask | CGetTaskStatus | CCancelTask
  | CStreamTaskOutput | CRegisterSession | CQuerySessions | CRelayToSession | CPublishContext | CQueryContext
  | CForwardMemoryWrite | CRequestMemorySnapshot
  | RRequestVote | RAppendEntries | RInstallSnapshot | RTimeoutNow
  | AExecuteTask | AGetResources | AHealthCheck | ACancelExecution

fun clientCall :: "ClientCall \<Rightarrow> Service \<times> string \<times> int option" where
  "clientCall CRegisterNode = (ClusterService, ''RegisterNode'', None)"
| "clientCall CDeregisterNode = (ClusterService, ''DeregisterNode'', None)"
| "clientCall CHeartbeat = (ClusterService, ''Heartbeat'', Some 5000)"
| "clientCall CGetClusterState = (ClusterService, ''GetClusterState'', None)"
| "clientCall CSubmitTask = (ClusterService, ''SubmitTask'', None)"
| "clientCall CGetTaskStatus = (ClusterService, ''GetTaskStatus'', None)"
| "clientCall CCancelTask = (ClusterService, ''CancelTask'', None)"
| "clientCall CStreamTaskOutput = (ClusterService, ''StreamTaskOutput'', None)"
| "clientCall CRegisterSession = (ClusterService, ''RegisterSession'', None)"
| "clientCall CQuerySessions = (ClusterService, ''QuerySessions'', None)"
| "clientCall CRelayToSession = (ClusterService, ''RelayToSession'', None)"
| "clientCall CPublishContext = (ClusterService, ''PublishContext'', None)"
| "clientCall CQueryContext = (ClusterService, ''QueryContext'', None)"
| "clientCall CForwardMemoryWrite = (ClusterService, ''ForwardMemoryWrite'', None)"
| "clientCall CRequestMemorySnapshot = (ClusterService, ''RequestMemorySnapshot'', None)"
| "clientCall RRequestVote = (RaftService, ''RequestVote'', Some 1000)"
| "clientCall RAppendEntries = (RaftService, ''AppendEntries'', Some 2000)"
| "clientCall RInstallSnapshot = (RaftService, ''InstallSnapshot'', Some 60000)"
| "clientCall RTimeoutNow = (RaftService, ''TimeoutNow'', Some 2000)"
| "clientCall AExecuteTask = (AgentService, ''ExecuteTask'', None)"
| "clientCall AGetResources = (AgentService, ''GetResources'', None)"
| "clientCall AHealthCheck = (AgentService, ''HealthCheck'', Some 5000)"
| "clientCall ACancelExecution = (AgentService, ''CancelExecution'', None)"

definition streaming :: "ClientCall \<Rightarrow> bool" where
  "streaming k \<longleftrightarrow> k \<in> {CStreamTaskOutput, CRequestMemorySnapshot, AExecuteTask}"

text \<open>Each client looks the connection up again for every call.\<close>

definition performCall :: "int \<Rightarrow> string \<Rightarrow> ClientCall \<Rightarrow> 'm \<Rightarrow> GrpcClientPool \<Rightarrow> GrpcClientPool \<times> (string + 'm RpcCall)" where
  "performCall now addr k req p =
     (case (getConnection addr p, clientCall k) of
        ((p1, Inl e), _) \<Rightarrow> (p1, Inl e)
      | ((p1, Inr c), (s, mth, t)) \<Rightarrow>
          (p1, if streaming k then callStream (c, s) mth req p1 else call now (c, s) mth req t p1))"

text \<open>
  The calls of \<open>AgentClient\<close> wait for the channel first; an execution is not started on a
  channel that is not ready, the other calls are made all the same.
\<close>

definition agentCall :: "int \<Rightarrow> string \<Rightarrow> string option \<Rightarrow> ClientCall \<Rightarrow> 'm \<Rightarrow> GrpcClientPool \<Rightarrow> GrpcClientPool \<times> (string + 'm RpcCall)" where
  "agentCall now addr answer k req p =
     (case waitForReady addr answer p of
        (p1, Inl e) \<Rightarrow> (p1, Inl e)
      | (p1, Inr ready) \<Rightarrow>
          if k = AExecuteTask \<and> \<not> ready then (p1, Inl (''Failed to connect to agent at '' @ addr))
          else performCall now addr k req p1)"

section \<open>Messages\<close>

text \<open>
  The fields of a message as the loader with \<open>keepCase\<close> sees them: a field the message type
  does not name is dropped, one that is not set arrives as its default.
\<close>

definition wireField :: "string list \<Rightarrow> (string \<times> string) list \<Rightarrow> string \<Rightarrow> string option" where
  "wireField known msg f = (if f \<in> set known then Some (nullish (map_of msg f) []) else None)"

text \<open>The one field of the requests that name a task, and the object the clients send.\<close>

definition taskIdFields :: "string list" where
  "taskIdFields = [''task_id'']"

definition taskIdRequest :: "string \<Rightarrow> (string \<times> string) list" where
  "taskIdRequest i = [(''taskId'', i)]"

section \<open>The answers of a remote execution\<close>

text \<open>
  The generator of \<open>executeTask\<close>: the listeners collect, the loop hands out; \<open>ge_done\<close> is the
  end of the generator, with the error it throws, if any.
\<close>

record 'r Gen =
  ge_responses :: "'r list"
  ge_error :: "string option"
  ge_ended :: bool
  ge_yielded :: "'r list"
  ge_done :: "string option option"

definition newGen :: "'r Gen" where
  "newGen = \<lparr>ge_responses = [], ge_error = None, ge_ended = False, ge_yielded = [], ge_done = None\<rparr>"

datatype 'r GenAct = GData 'r | GError string | GEnd | GLoop

fun gen_step :: "'r GenAct \<Rightarrow> 'r Gen \<Rightarrow> 'r Gen option" where
  "gen_step (GData r) g = Some (g\<lparr>ge_responses := ge_responses g @ [r]\<rparr>)"
| "gen_step (GError e) g = Some (g\<lparr>ge_error := Some e, ge_ended := True\<rparr>)"
| "gen_step GEnd g = Some (g\<lparr>ge_ended := True\<rparr>)"
| "gen_step GLoop g =
     (if ge_done g \<noteq> None then None
      else if ge_ended g \<and> ge_responses g = [] then Some (g\<lparr>ge_done := Some (ge_error g)\<rparr>)
      else case ge_responses g of
             r # rs \<Rightarrow> Some (g\<lparr>ge_responses := rs, ge_yielded := ge_yielded g @ [r]\<rparr>)
           | [] \<Rightarrow> Some g)"

section \<open>Connections\<close>

text \<open>The pool's entries are open connections to their addresses, every other one is closed altogether.\<close>

definition pool_inv :: "GrpcClientPool \<Rightarrow> bool" where
  "pool_inv p \<longleftrightarrow> jm_wf (gp_connections p)
     \<and> (\<forall>addr c. jm_get (gp_connections p) addr = Some c \<longrightarrow> c < length (gp_objects p) \<and> cc_address (gp_objects p ! c) = addr)
     \<and> (\<forall>c s. (c, s) \<in> set (gp_closed p) \<longleftrightarrow> c < length (gp_objects p) \<and> (\<forall>addr. jm_get (gp_connections p) addr \<noteq> Some c))"

datatype PoolOp = PLoad | PGet string | PReady nat "string option" | PClose string | PCloseAll

text \<open>What the rest of the program does with the pool; an answer can come for any object that was made.\<close>

fun pool_step :: "PoolOp \<Rightarrow> GrpcClientPool \<Rightarrow> GrpcClientPool option" where
  "pool_step PLoad p = Some (loadProto p)"
| "pool_step (PGet addr) p = Some (fst (getConnection addr p))"
| "pool_step (PReady c err) p = (if c < length (gp_objects p) then Some (fst (onReady c err p)) else None)"
| "pool_step (PClose addr) p = Some (closeConnection addr p)"
| "pool_step PCloseAll p = Some (closeAll p)"

lemma pool_new: "pool_inv (new_GrpcClientPool t)"
  by (simp add: new_GrpcClientPool_def pool_inv_def)

lemma pool_get:
  assumes "pool_inv p"
  shows "pool_inv (fst (getConnection addr p))"
proof (cases "jm_get (gp_connections p) addr = None \<and> gp_loaded p")
  case True
  let ?p = "fst (getConnection addr p)"
  have p: "gp_objects ?p = gp_objects p @ [\<lparr>cc_address = addr, cc_connected = False, cc_lastError = None\<rparr>]"
    "gp_connections ?p = jm_set addr (length (gp_objects p)) (gp_connections p)" "gp_closed ?p = gp_closed p"
    using True by (simp_all add: getConnection_def ensureProtoLoaded_def Let_def)
  show ?thesis using assms True unfolding pool_inv_def p
    by (auto simp: nth_append less_Suc_eq split: if_splits)
next
  case False
  with assms show ?thesis by (auto simp: getConnection_def ensureProtoLoaded_def split: option.split)
qed

lemma pool_ready: "pool_inv p \<Longrightarrow> c < length (gp_objects p) \<Longrightarrow> pool_inv (fst (onReady c err p))"
  by (auto simp: onReady_def pool_inv_def nth_list_update)

lemma pool_close: "pool_inv p \<Longrightarrow> pool_inv (closeConnection addr p)"
proof (cases "jm_get (gp_connections p) addr")
  case (Some c)
  assume inv: "pool_inv p"
  then have one: "jm_get (gp_connections p) addr' = Some c \<Longrightarrow> addr' = addr" for addr'
    using Some unfolding pool_inv_def by metis
  let ?p = "closeConnection addr p"
  have p: "gp_objects ?p = gp_objects p" "gp_connections ?p = jm_delete addr (gp_connections p)"
    using Some by (simp_all add: closeConnection_def)
  have closed: "(b, s) \<in> set (gp_closed ?p) \<longleftrightarrow> b = c \<or> (b, s) \<in> set (gp_closed p)" for b s
    using Some by (cases s) (auto simp: closeConnection_def)
  have c: "c < length (gp_objects p)" using inv Some by (simp add: pool_inv_def)
  have left: "(\<forall>addr'. jm_get (jm_delete addr (gp_connections p)) addr' \<noteq> Some b) \<longleftrightarrow> b = c \<or> (\<forall>addr'. jm_get (gp_connections p) addr' \<noteq> Some b)" for b
    using one Some by (metis jm.get_del option.distinct(1) option.inject)
  from inv c show ?thesis unfolding pool_inv_def p closed left by (auto split: if_splits)
qed (simp add: closeConnection_def)

lemma pool_closes: "pool_inv p \<Longrightarrow> pool_inv (fold closeConnection addrs p)"
  by (induction addrs arbitrary: p) (simp_all add: pool_close)

lemma pool_load: "pool_inv (loadProto p) = pool_inv p"
  by (simp add: loadProto_def pool_inv_def)

interpretation pool_run: invariant_of pool_step pool_inv
proof unfold_locales
  fix s s' :: GrpcClientPool and a
  assume "pool_inv s" "pool_step a s = Some s'"
  then show "pool_inv s'"
    by (cases a) (auto simp: pool_get pool_ready pool_close pool_closes closeAll_def pool_load split: if_splits)
qed

lemma closeAll_empty: "jm_get (gp_connections (closeAll p)) addr = None"
proof -
  have "jm_get (gp_connections (fold closeConnection addrs p)) addr = (if addr \<in> set addrs then None else jm_get (gp_connections p) addr)" for addrs
    by (induction addrs arbitrary: p) (auto simp: closeConnection_def split: option.split)
  moreover have "addr \<notin> set (jm_keys (gp_connections p)) \<Longrightarrow> jm_get (gp_connections p) addr = None" by (simp add: jm.keys_get)
  ultimately show ?thesis by (simp add: closeAll_def)
qed

text \<open>
  Whatever was connected and closed before, a call of one of the clients to an address
  fails with an error only if the interface was never loaded, and otherwise goes to a
  method its service has, on a channel to that address that has not been closed, with a
  deadline unless it is a stream.
\<close>

theorem calls_reach_open_channel:
  assumes "run pool_step ops (new_GrpcClientPool timeout) = Some p" and "performCall now addr k req p = (p', out)"
  shows "case out of
      Inl e \<Rightarrow> \<not> gp_loaded p \<and> p' = p
    | Inr rc \<Rightarrow> rc_channel rc \<notin> set (gp_closed p') \<and> cc_address (gp_objects p' ! fst (rc_channel rc)) = addr
        \<and> rc_method rc \<in> set (serviceMethods (snd (rc_channel rc))) \<and> rc_request rc = req
        \<and> (rc_deadline rc = None \<longleftrightarrow> streaming k)"
proof -
  have inv: "pool_inv p" using pool_run.run_inv [OF pool_new assms(1)] .
  obtain p1 c where g: "getConnection addr p = (p1, c)" by fastforce
  obtain s mth t where k: "clientCall k = (s, mth, t)" by (metis prod_cases3)
  have known: "mth \<in> set (serviceMethods s)" using k by (cases k) auto
  show ?thesis
  proof (cases c)
    case (Inl e)
    with g have "p1 = p \<and> \<not> gp_loaded p"
      by (auto simp: getConnection_def ensureProtoLoaded_def Let_def split: option.splits if_splits)
    with Inl g k assms(2) show ?thesis by (auto simp: performCall_def)
  next
    case (Inr b)
    have inv1: "pool_inv p1" using pool_get [OF inv, of addr] g by simp
    have "jm_get (gp_connections p1) addr = Some b"
      using g Inr by (auto simp: getConnection_def ensureProtoLoaded_def Let_def split: option.splits if_splits)
    with inv1 have "(b, s) \<notin> set (gp_closed p1)" "cc_address (gp_objects p1 ! b) = addr" by (auto simp: pool_inv_def)
    with Inr g k known assms(2) show ?thesis by (auto simp: performCall_def call_def callStream_def Let_def)
  qed
qed

theorem calls_reach_open_channel_witness:
  "case snd (performCall 7 ''n2:50051'' CHeartbeat () (closeConnection ''n2:50051'' (fst (getConnection ''n2:50051'' (loadProto (new_GrpcClientPool None)))))) of
     Inl _ \<Rightarrow> False | Inr rc \<Rightarrow> rc_channel rc = (1, ClusterService) \<and> rc_deadline rc \<noteq> None"
proof -
  let ?p = "closeConnection ''n2:50051'' (fst (getConnection ''n2:50051'' (loadProto (new_GrpcClientPool None))))"
  have "run pool_step [PLoad, PGet ''n2:50051'', PClose ''n2:50051''] (new_GrpcClientPool None) = Some ?p" by simp
  from calls_reach_open_channel [OF this, of 7 "''n2:50051''" CHeartbeat "()"]
  have "case snd (performCall 7 ''n2:50051'' CHeartbeat () ?p) of Inl e \<Rightarrow> \<not> gp_loaded ?p | Inr rc \<Rightarrow> rc_deadline rc \<noteq> None"
    by (cases "performCall 7 ''n2:50051'' CHeartbeat () ?p") (auto simp: streaming_def split: sum.splits)
  moreover have "gp_loaded ?p" "map_sum (\<lambda>e. e) rc_channel (snd (performCall 7 ''n2:50051'' CHeartbeat () ?p)) = Inr (1, ClusterService)"
    by code_simp+
  ultimately show ?thesis by (auto split: sum.splits)
qed

text \<open>
  The clients name a task by \<open>taskId\<close>, the messages by \<open>task_id\<close>: the id of
  \<open>getTaskStatus\<close>, \<open>cancelTask\<close>, \<open>streamTaskOutput\<close> and \<open>cancelExecution\<close> never arrives.
\<close>

lemma task_id_lost: "wireField taskIdFields (taskIdRequest i) ''task_id'' = Some []"
  by (simp add: wireField_def taskIdFields_def taskIdRequest_def nullish_def)

section \<open>The generator\<close>

definition received :: "'r GenAct list \<Rightarrow> 'r list" where
  "received acts = List.map_filter (\<lambda>x. case x of GData r \<Rightarrow> Some r | _ \<Rightarrow> None) acts"

lemma gen_keeps:
  "run gen_step acts g = Some g' \<Longrightarrow> ge_yielded g' @ ge_responses g' = ge_yielded g @ ge_responses g @ received acts"
proof (induction acts arbitrary: g)
  case (Cons x acts)
  then obtain h where h: "gen_step x g = Some h" "run gen_step acts h = Some g'" by (auto split: option.splits)
  from Cons.IH [OF h(2)] h(1) show ?case
    by (cases x) (auto simp: received_def List.map_filter_def split: if_splits list.splits)
qed (simp add: received_def List.map_filter_def)

text \<open>
  The generator hands out the answers in the order they came and stops only when the stream
  ended and nothing is left; an error of the stream is thrown after the answers before it.
\<close>

theorem generator_loses_nothing:
  assumes "run gen_step (acts @ [GLoop]) newGen = Some g" and "ge_done g = Some e" and "\<forall>h. run gen_step acts newGen = Some h \<longrightarrow> ge_done h = None"
  shows "ge_yielded g = received acts \<and> ge_responses g = [] \<and> ge_ended g"
proof -
  obtain h where h: "run gen_step acts newGen = Some h" "gen_step GLoop h = Some g"
    using assms(1) by (auto simp: run_append bind_eq_Some_conv split: option.splits if_splits)
  with assms(2,3) have "ge_responses h = []" "ge_ended h" "ge_responses g = []" "ge_ended g" "ge_yielded g = ge_yielded h"
    by (auto split: if_splits list.splits)
  with gen_keeps [OF h(1)] show ?thesis by (simp add: newGen_def)
qed

text \<open>Once the stream has ended the loop comes to its end: one turn for each answer left and one more.\<close>

theorem generator_ends:
  "ge_ended g \<Longrightarrow> ge_done g = None \<Longrightarrow>
     \<exists>g'. run gen_step (replicate (Suc (length (ge_responses g))) GLoop) g = Some g' \<and> ge_done g' = Some (ge_error g)
       \<and> ge_yielded g' = ge_yielded g @ ge_responses g"
proof (induction "ge_responses g" arbitrary: g)
  case Nil
  then show ?case by simp
next
  case (Cons r rs)
  let ?h = "g\<lparr>ge_responses := rs, ge_yielded := ge_yielded g @ [r]\<rparr>"
  have "gen_step GLoop g = Some ?h" using Cons.prems Cons.hyps(2) [symmetric] by simp
  with Cons.hyps(1) [of ?h] Cons.prems Cons.hyps(2) [symmetric] show ?case by simp
qed

end
