(* ===== verification/Startup.thy ===== *)
theory Startup
  imports Discovery Membership RaftSafety GrpcClient
begin

text \<open>
  How a node starts, joins a cluster and rejoins it (class \<open>Cortex\<close> and \<open>main\<close> of
  \<open>src/index.ts\<close>): its identity, the wait for the network, the addresses it tries, the
  attempts with growing pauses, and elections held back meanwhile.

  What the outside answers is an argument: the state of discovery at each attempt, the
  answers of \<open>RegisterNode\<close> at each attempt, and how long each check of a port takes. While
  one of these functions waits, the messages other nodes send are handled as well; for
  the Raft node that is the subject of \<open>paused_stays_quiet\<close>.
\<close>

section \<open>Identity\<close>

text \<open>The two files a node's identifier may be in, \<open>~/.cortex/node-id\<close> and the older \<open>~/.claudecluster/node-id\<close>.\<close>

record NodeIdFiles =
  nf_new :: "string option"
  nf_old :: "string option"

definition hostOf :: "string \<Rightarrow> string" where
  "hostOf h = takeWhile (\<lambda>c. c \<noteq> CHR ''.'') h"

definition idName :: "bool \<Rightarrow> string \<Rightarrow> string \<Rightarrow> string" where
  "idName mcp host i = hostOf host @ ''-'' @ i @ (if mcp then ''-mcp'' else [])"

text \<open>\<open>writable\<close>: whether the new directory can be written to.\<close>

definition getOrCreateNodeId :: "bool \<Rightarrow> bool \<Rightarrow> string \<Rightarrow> string \<Rightarrow> NodeIdFiles \<Rightarrow> NodeIdFiles \<times> string" where
  "getOrCreateNodeId writable mcp host uuid f =
     (let save = (\<lambda>i. if writable then f\<lparr>nf_new := Some i\<rparr> else f)
      in if truthy (map_option trim (nf_new f)) then (f, idName mcp host (trim (the (nf_new f))))
         else if truthy (map_option trim (nf_old f)) then (save (trim (the (nf_old f))), idName mcp host (trim (the (nf_old f))))
         else (save (take 8 uuid), idName mcp host (take 8 uuid)))"

section \<open>The command line\<close>

record StartConfig =
  sc_grpcPort :: "int option"
  sc_seeds :: "string list option"
  sc_loggingFile :: "string option"
  sc_loggingLevel :: string
  sc_invisible :: bool
  sc_isolated :: bool

record StartOptions =
  so_mcp :: bool
  so_invisible :: "bool option"
  so_isolated :: "bool option"
  so_port :: "string option"
  so_seed :: "string option"
  so_verbose :: bool

text \<open>A port that is no number is NaN, \<open>None\<close> here.\<close>

definition applyOptions :: "StartOptions \<Rightarrow> StartConfig \<Rightarrow> StartConfig" where
  "applyOptions opts c =
     c\<lparr>sc_invisible := nullish (so_invisible opts) False, sc_isolated := nullish (so_isolated opts) False,
       sc_grpcPort := (if truthy (so_port opts) then parseInt (the (so_port opts)) else sc_grpcPort c),
       sc_seeds := (if truthy (so_seed opts) then Some [the (so_seed opts)] else sc_seeds c),
       sc_loggingLevel := (if so_verbose opts then ''debug'' else sc_loggingLevel c)\<rparr>"

definition runMcpServer :: "StartOptions \<Rightarrow> StartConfig \<Rightarrow> StartConfig" where
  "runMcpServer opts c =
     c\<lparr>sc_loggingFile := Some ''/tmp/cortex-mcp.log'',
       sc_grpcPort := (if truthy (so_port opts) then parseInt (the (so_port opts)) else Some 50052),
       sc_seeds := (if truthy (so_seed opts) then Some [the (so_seed opts)] else sc_seeds c),
       sc_loggingLevel := (if so_verbose opts then ''debug'' else sc_loggingLevel c),
       sc_invisible := True, sc_isolated := False\<rparr>"

text \<open>\<open>main\<close> without a subcommand: the configuration the node runs with, and whether in MCP mode.\<close>

definition mainConfig :: "StartOptions \<Rightarrow> StartConfig \<Rightarrow> StartConfig \<times> bool" where
  "mainConfig opts c =
     (let c1 = applyOptions opts c in if so_mcp opts then (runMcpServer opts c1, True) else (c1, False))"

definition CLI_COMMANDS :: "string list" where
  "CLI_COMMANDS = [''status'', ''switch-leader'', ''squelch'', ''deploy'', ''test'', ''events'', ''top'', ''run'', ''ssh'', ''logs'',
     ''drain'', ''cordon'', ''uncordon'', ''tasks'', ''snapshot'', ''diag'', ''config'', ''help'']"

definition isCliCommand :: "string option \<Rightarrow> bool" where
  "isCliCommand arg \<longleftrightarrow> arg \<in> {Some ''--help'', Some ''-h'', Some ''help''} \<or> truthy arg \<and> the arg \<in> set CLI_COMMANDS"

section \<open>Providers\<close>

record ProviderSettings =
  pv_primary :: string
  pv_fallback :: "string list option"
  pv_anthropicKey :: "string option"
  pv_openaiKey :: "string option"
  pv_ollama :: bool

definition configuredProviders :: "string option \<Rightarrow> ProviderSettings \<Rightarrow> string list" where
  "configuredProviders envKey p =
     (if truthy (pv_anthropicKey p) \<or> truthy envKey then [''anthropic''] else [])
     @ (if truthy (pv_openaiKey p) then [''openai''] else []) @ (if pv_ollama p then [''ollama''] else [])"

text \<open>The router's primary provider and its fallbacks, by name; \<open>None\<close>: there is no router.\<close>

definition initializeProviders :: "string option \<Rightarrow> ProviderSettings option \<Rightarrow> (string \<times> string list) option" where
  "initializeProviders envKey conf =
     (case conf of None \<Rightarrow> None
      | Some p \<Rightarrow>
          (let ps = configuredProviders envKey p
           in if pv_primary p \<in> set ps then Some (pv_primary p, filter (\<lambda>n. n \<in> set ps) (nullish (pv_fallback p) [])) else None))"

section \<open>Waiting for the network\<close>

text \<open>
  The checks of the seeds in one turn of the loop: \<open>probe\<close> says whether a seed's port was
  reached and how many milliseconds that took.
\<close>

fun probeSeeds :: "(string \<Rightarrow> bool \<times> nat) \<Rightarrow> string list \<Rightarrow> bool \<times> nat" where
  "probeSeeds probe [] = (False, 0)"
| "probeSeeds probe (s # ss) =
     (case probe s of
        (True, d) \<Rightarrow> (True, d)
      | (False, d) \<Rightarrow> (case probeSeeds probe ss of (r, d') \<Rightarrow> (r, d + d')))"

text \<open>
  The loop, from turn \<open>i\<close> with \<open>t\<close> milliseconds passed: whether it returned because the
  network was ready, and the time when it did. \<open>late\<close> is how much longer than asked the
  pause of a turn lasted.
\<close>

function waitLoop :: "(nat \<Rightarrow> bool) \<Rightarrow> (nat \<Rightarrow> string \<Rightarrow> bool \<times> nat) \<Rightarrow> (nat \<Rightarrow> nat) \<Rightarrow> string list \<Rightarrow> nat \<Rightarrow> nat \<Rightarrow> bool \<times> nat" where
  "waitLoop nodes probe late seeds i t =
     (if t < 30000
      then if nodes i then (True, t)
           else (case probeSeeds (probe i) seeds of
                   (True, d) \<Rightarrow> (True, t + d)
                 | (False, d) \<Rightarrow> waitLoop nodes probe late seeds (Suc i) (t + d + 1000 + late i))
      else (False, t))"
  by pat_completeness auto

termination waitLoop
  by (relation "measure (\<lambda>(_, _, _, _, _, t). 30000 - t)") auto

declare waitLoop.simps [simp del]

definition waitForNetworkReady :: "(nat \<Rightarrow> TailscaleDiscovery option) \<Rightarrow> (nat \<Rightarrow> string \<Rightarrow> bool \<times> nat) \<Rightarrow> (nat \<Rightarrow> nat) \<Rightarrow> string list option \<Rightarrow> bool \<times> nat" where
  "waitForNetworkReady ts probe late seeds =
     waitLoop (\<lambda>i. case ts i of None \<Rightarrow> False | Some t \<Rightarrow> getClusterNodes t \<noteq> []) probe late (nullish seeds []) 0 0"

section \<open>Joining\<close>

record JoinSettings =
  jo_seeds :: "string list option"
  jo_port :: int
  jo_osHostname :: string

text \<open>An address and where it came from.\<close>

type_synonym candidate = "string \<times> string"

definition isSelfSeed :: "JoinSettings \<Rightarrow> string \<Rightarrow> string \<Rightarrow> bool" where
  "isSelfSeed c selfIp a =
     (case splitAddress a of
        (h, p) \<Rightarrow> (h = ''127.0.0.1'' \<or> h = ''localhost'' \<or> h = selfIp \<or> h = hostOf (jo_osHostname c))
                 \<and> (if truthy p then the p else ''50051'') = show_int (jo_port c))"

definition selfIpOf :: "TailscaleDiscovery option \<Rightarrow> string" where
  "selfIpOf ts = nullish (Option.bind ts ts_getSelfIP) ''127.0.0.1''"

definition otherNodes :: "JoinSettings \<Rightarrow> TailscaleDiscovery option \<Rightarrow> TailscaleNode list" where
  "otherNodes c ts = (case ts of None \<Rightarrow> [] | Some t \<Rightarrow> filter (\<lambda>n. tn_hostname n \<noteq> jo_osHostname c) (getClusterNodes t))"

definition sourceOf :: "TailscaleNode \<Rightarrow> string" where
  "sourceOf n = ''tailscale:'' @ tn_hostname n"

definition joinCandidates :: "JoinSettings \<Rightarrow> TailscaleDiscovery option \<Rightarrow> candidate list" where
  "joinCandidates c ts =
     map (\<lambda>a. (a, ''seed'')) (filter (\<lambda>a. \<not> isSelfSeed c (selfIpOf ts) a) (nullish (jo_seeds c) []))
     @ map (\<lambda>n. (tn_ip n @ '':50051'', sourceOf n)) (otherNodes c ts)"

text \<open>The refresh between two attempts, which uses the node's own port.\<close>

definition addLate :: "JoinSettings \<Rightarrow> TailscaleNode \<Rightarrow> candidate list \<Rightarrow> candidate list" where
  "addLate c n as =
     (let a = tn_ip n @ '':'' @ show_int (jo_port c) in if list_ex (\<lambda>x. fst x = a) as then as else as @ [(a, sourceOf n)])"

definition refreshCandidates :: "JoinSettings \<Rightarrow> TailscaleDiscovery option \<Rightarrow> candidate list \<Rightarrow> candidate list" where
  "refreshCandidates c ts cs = fold (addLate c) (otherNodes c ts) cs"

text \<open>One round over the addresses: the addresses tried and whether the last of them let the node in.\<close>

fun tryAddresses :: "(string \<Rightarrow> NodeProto \<Rightarrow> RegisterResponse option) \<Rightarrow> string list \<Rightarrow> MembershipManager \<Rightarrow> MembershipManager \<times> bool \<times> string list" where
  "tryAddresses rpc [] m = (m, False, [])"
| "tryAddresses rpc (a # as) m =
     (case joinCluster rpc a m of
        (m1, True) \<Rightarrow> (m1, True, [a])
      | (m1, False) \<Rightarrow> (case tryAddresses rpc as m1 of (m2, ok, ts) \<Rightarrow> (m2, ok, a # ts)))"

definition joinDelay :: "nat \<Rightarrow> nat" where
  "joinDelay attempt = min (1000 * 2 ^ (attempt - 1)) 10000"

record JoinRun =
  jr_membership :: MembershipManager
  jr_joined :: bool
  jr_tried :: "(nat \<times> string) list"
  jr_delays :: "nat list"

definition maxAttempts :: nat where
  "maxAttempts = 5"

text \<open>The attempts; \<open>k\<close> of them are left.\<close>

fun joinLoop :: "JoinSettings \<Rightarrow> (nat \<Rightarrow> TailscaleDiscovery option) \<Rightarrow> (nat \<Rightarrow> string \<Rightarrow> NodeProto \<Rightarrow> RegisterResponse option)
    \<Rightarrow> nat \<Rightarrow> candidate list \<Rightarrow> MembershipManager \<Rightarrow> JoinRun" where
  "joinLoop c ts rpc 0 cs m = \<lparr>jr_membership = m, jr_joined = False, jr_tried = [], jr_delays = []\<rparr>"
| "joinLoop c ts rpc (Suc k) cs m =
     (let attempt = maxAttempts - k
      in case tryAddresses (rpc attempt) (map fst cs) m of
           (m1, True, tr) \<Rightarrow> \<lparr>jr_membership = m1, jr_joined = True, jr_tried = map (Pair attempt) tr, jr_delays = []\<rparr>
         | (m1, False, tr) \<Rightarrow>
             if k = 0 then \<lparr>jr_membership = m1, jr_joined = False, jr_tried = map (Pair attempt) tr, jr_delays = []\<rparr>
             else (let r = joinLoop c ts rpc k (refreshCandidates c (ts (Suc attempt)) cs) m1
                   in r\<lparr>jr_tried := map (Pair attempt) tr @ jr_tried r, jr_delays := joinDelay attempt # jr_delays r\<rparr>))"

definition joinClusterWithRetry :: "JoinSettings \<Rightarrow> (nat \<Rightarrow> TailscaleDiscovery option)
    \<Rightarrow> (nat \<Rightarrow> string \<Rightarrow> NodeProto \<Rightarrow> RegisterResponse option) \<Rightarrow> MembershipManager \<Rightarrow> JoinRun" where
  "joinClusterWithRetry c ts rpc m =
     (let cs = joinCandidates c (ts 1)
      in if cs = [] then \<lparr>jr_membership = m, jr_joined = False, jr_tried = [], jr_delays = []\<rparr>
         else joinLoop c ts rpc maxAttempts cs m)"

definition onRaft :: "(RaftNode \<Rightarrow> RaftNode) \<Rightarrow> MembershipManager \<Rightarrow> MembershipManager" where
  "onRaft f m = m\<lparr>raft := f (raft m)\<rparr>"

text \<open>
  \<open>joinOrCreateCluster\<close>; \<open>bind\<close> is the error of the server's start, if there is one. The
  scheduler and the approval workflow, which it starts too, have states of their own.
\<close>

definition joinOrCreateCluster :: "string option \<Rightarrow> JoinSettings \<Rightarrow> (nat \<Rightarrow> TailscaleDiscovery option)
    \<Rightarrow> (nat \<Rightarrow> string \<Rightarrow> NodeProto \<Rightarrow> RegisterResponse option) \<Rightarrow> MembershipManager \<Rightarrow> string + MembershipManager \<times> bool" where
  "joinOrCreateCluster bind c ts rpc m =
     (case bind of
        Some e \<Rightarrow> Inl e
      | None \<Rightarrow>
          (let m1 = m_start (onRaft (start \<circ> pauseElections) m);
               r = joinClusterWithRetry c ts rpc m1
           in Inr (onRaft resumeElections (jr_membership r), jr_joined r)))"

text \<open>\<open>rejoinCluster\<close>, with the pool of connections; nothing in its \<open>try\<close> throws in this model.\<close>

definition rejoinCluster :: "JoinSettings \<Rightarrow> (nat \<Rightarrow> TailscaleDiscovery option)
    \<Rightarrow> (nat \<Rightarrow> string \<Rightarrow> NodeProto \<Rightarrow> RegisterResponse option) \<Rightarrow> MembershipManager \<times> GrpcClientPool \<Rightarrow> MembershipManager \<times> GrpcClientPool" where
  "rejoinCluster c ts rpc = (\<lambda>(m, pool).
     (let r = joinClusterWithRetry c ts rpc (onRaft pauseElections (setRejoinInProgress True m));
          m1 = onRaft resumeElections (jr_membership r)
      in (setRejoinInProgress False (if jr_joined r then resetHeartbeatFailures m1 else m1), closeAll pool)))"

section \<open>Following the leader's build\<close>

record VersionCheck =
  vk_commands :: "string list"
  vk_exits :: bool

definition rsyncCommand :: "string \<Rightarrow> string \<Rightarrow> string" where
  "rsyncCommand ip dir = ''rsync -az --delete -e 'ssh -o StrictHostKeyChecking=no' '' @ ip @ '':'' @ dir @ ''/ '' @ dir @ ''/''"

text \<open>
  \<open>localHash\<close> is what \<open>version.json\<close> says (\<open>None\<close>: it cannot be read), \<open>works\<close> says which of
  the commands succeed, \<open>project\<close> is the parent of \<open>dist\<close>.
\<close>

definition handleVersionCheck :: "(string \<Rightarrow> bool) \<Rightarrow> string option \<Rightarrow> string \<Rightarrow> string \<Rightarrow> string \<Rightarrow> string \<Rightarrow> VersionCheck" where
  "handleVersionCheck works localHash distDir project leaderHash leaderAddr =
     (let h = nullish localHash []; ip = fst (splitAddress leaderAddr);
          c1 = rsyncCommand ip distDir; c2 = rsyncCommand ip (project @ ''/proto'')
      in if h = [] \<or> h = leaderHash then \<lparr>vk_commands = [], vk_exits = False\<rparr>
         else if \<not> works c1 then \<lparr>vk_commands = [c1], vk_exits = False\<rparr>
         else \<lparr>vk_commands = [c1, c2], vk_exits = works c2\<rparr>)"

section \<open>The order of starting and stopping\<close>

datatype StartPhase = PhTransport | PhSecurity | PhTailscale | PhGrpc | PhCluster | PhAnnouncements | PhAgent
  | PhProviders | PhPlugins | PhVersionHook | PhPublishTools | PhRejoinHook | PhJoin | PhStartPlugins | PhMcp

definition commonPhases :: "StartPhase list" where
  "commonPhases = [PhSecurity, PhTailscale, PhGrpc, PhCluster, PhAnnouncements, PhAgent, PhProviders, PhPlugins, PhVersionHook]"

text \<open>What \<open>start\<close> itself waits for; in MCP mode the join and the plugins' start follow in the background.\<close>

definition startPhases :: "bool \<Rightarrow> StartPhase list" where
  "startPhases mcp =
     (if mcp then PhTransport # commonPhases @ [PhPublishTools, PhRejoinHook]
      else commonPhases @ [PhJoin, PhStartPlugins, PhRejoinHook, PhMcp])"

definition backgroundPhases :: "bool \<Rightarrow> StartPhase list" where
  "backgroundPhases mcp = (if mcp then [PhJoin, PhStartPlugins] else [])"

text \<open>The phases that ran, the failing one included, and the error.\<close>

fun runPhases :: "('p \<Rightarrow> string option) \<Rightarrow> 'p list \<Rightarrow> 'p list \<times> string option" where
  "runPhases throws [] = ([], None)"
| "runPhases throws (p # ps) =
     (case throws p of Some e \<Rightarrow> ([p], Some e) | None \<Rightarrow> (case runPhases throws ps of (r, e) \<Rightarrow> (p # r, e)))"

datatype StopPhase = StTasks | StMcp | StPlugins | StReplicator | StDatabase | StScheduler | StMembership | StRaft
  | StResources | StTailscale | StApproval | StGrpc | StPool

definition stopPhases :: "StopPhase list" where
  "stopPhases = [StTasks, StMcp, StPlugins, StReplicator, StDatabase, StScheduler, StMembership, StRaft,
     StResources, StTailscale, StApproval, StGrpc, StPool]"

record CortexRun =
  cr_running :: bool
  cr_started :: "StartPhase list"
  cr_background :: "StartPhase list"
  cr_stopped :: "StopPhase list"

text \<open>\<open>present\<close> says which components exist; a stop that throws leaves the rest running.\<close>

definition cortexStop :: "(StopPhase \<Rightarrow> string option) \<Rightarrow> (StopPhase \<Rightarrow> bool) \<Rightarrow> CortexRun \<Rightarrow> CortexRun \<times> string option" where
  "cortexStop throws present r =
     (case runPhases throws (filter present stopPhases) of
        (ps, None) \<Rightarrow> (r\<lparr>cr_running := False, cr_stopped := cr_stopped r @ ps\<rparr>, None)
      | (ps, Some e) \<Rightarrow> (r\<lparr>cr_stopped := cr_stopped r @ ps\<rparr>, Some e))"

definition cortexStart :: "(StartPhase \<Rightarrow> string option) \<Rightarrow> (StopPhase \<Rightarrow> string option) \<Rightarrow> (StopPhase \<Rightarrow> bool) \<Rightarrow> bool \<Rightarrow> bool \<Rightarrow> CortexRun
    \<Rightarrow> CortexRun \<times> string option" where
  "cortexStart throws stopThrows present isolated mcp r =
     (if cr_running r then (r, None)
      else if isolated then (r\<lparr>cr_running := True\<rparr>, None)
      else case runPhases throws (startPhases mcp) of
             (ps, None) \<Rightarrow> (r\<lparr>cr_running := True, cr_started := ps, cr_background := fst (runPhases throws (backgroundPhases mcp))\<rparr>, None)
           | (ps, Some e) \<Rightarrow> (case cortexStop stopThrows present (r\<lparr>cr_started := ps\<rparr>) of
                                (r', Some e') \<Rightarrow> (r', Some e')
                              | (r', None) \<Rightarrow> (r', Some e)))"

end
