(* ===== verification/StartupProps.thy ===== *)
theory StartupProps
  imports Startup
begin

text \<open>
  Properties of starting and joining: the identifier survives restarts, the wait for the
  network is bounded, every candidate is tried at every attempt and the pauses are fixed,
  a candidate that answers is joined, and no election starts while joining.
\<close>

section \<open>Identity\<close>

text \<open>
  A node keeps its identifier: once a start could write the file, every later start on
  that host gives the same identifier, whatever random number it draws, and the daemon
  and the MCP process share it up to the suffix.
\<close>

theorem node_id_stable:
  assumes "getOrCreateNodeId True mcp host uuid f = (f', i)" and "trim (take 8 uuid) = take 8 uuid" and "uuid \<noteq> []"
  shows "\<exists>j. i = idName mcp host j \<and> (\<forall>w mcp' uuid'. getOrCreateNodeId w mcp' host uuid' f' = (f', idName mcp' host j))"
  using assms by (auto simp: getOrCreateNodeId_def Let_def truthy_def split: if_splits)

lemma node_id_stable_witness:
  "\<exists>f'. getOrCreateNodeId True False ''rog2.lan'' ''8e800054-aaaa'' \<lparr>nf_new = None, nf_old = Some '' \<newline>''\<rparr> = (f', ''rog2-8e800054'')
     \<and> getOrCreateNodeId False True ''rog2.lan'' ''ffffffff-bbbb'' f' = (f', ''rog2-8e800054-mcp'')"
proof -
  let ?f = "\<lparr>nf_new = None, nf_old = Some '' \<newline>''\<rparr>"
  have i: "getOrCreateNodeId True False ''rog2.lan'' ''8e800054-aaaa'' ?f = (?f\<lparr>nf_new := Some ''8e800054''\<rparr>, ''rog2-8e800054'')"
    by (simp add: getOrCreateNodeId_def idName_def hostOf_def truthy_def trim_def is_space_def)
  moreover have "trim (take 8 ''8e800054-aaaa'') = take 8 ''8e800054-aaaa''" by (simp add: trim_def is_space_def)
  ultimately obtain j where "''rog2-8e800054'' = idName False ''rog2.lan'' j"
    "\<forall>w mcp' uuid'. getOrCreateNodeId w mcp' ''rog2.lan'' uuid' (?f\<lparr>nf_new := Some ''8e800054''\<rparr>)
       = (?f\<lparr>nf_new := Some ''8e800054''\<rparr>, idName mcp' ''rog2.lan'' j)"
    using node_id_stable [OF i] by auto
  then show ?thesis using i by (simp add: idName_def hostOf_def)
qed

section \<open>The wait for the network\<close>

lemma probeSeeds_bound:
  assumes "\<And>s. s \<in> set ss \<Longrightarrow> snd (probe s) \<le> b" and "probeSeeds probe ss = (r, d)"
  shows "d \<le> b * length ss"
  using assms
proof (induction ss arbitrary: r d)
  case (Cons s ss)
  obtain r1 d1 where 1: "probe s = (r1, d1)" by fastforce
  obtain r2 d2 where 2: "probeSeeds probe ss = (r2, d2)" by fastforce
  have "d1 \<le> b" using Cons.prems(1) [of s] 1 by simp
  moreover have "d2 \<le> b * length ss" using Cons.IH [OF _ 2] Cons.prems(1) by simp
  ultimately show ?case using Cons.prems(2) 1 2 by (auto split: bool.splits)
qed simp

lemma waitLoop_bound:
  assumes "\<And>i s. s \<in> set seeds \<Longrightarrow> snd (probe i s) \<le> b" and "\<And>i. late i \<le> l"
    and "waitLoop nodes probe late seeds i t = (ready, t')" and "t \<le> 31000 + b * length seeds + l"
  shows "t' \<le> 31000 + b * length seeds + l \<and> (\<not> ready \<longrightarrow> 30000 \<le> t')"
  using assms
proof (induction nodes probe late seeds i t rule: waitLoop.induct)
  case (1 nodes probe late seeds i t)
  obtain r d where p: "probeSeeds (probe i) seeds = (r, d)" by fastforce
  have "d \<le> b * length seeds" by (rule probeSeeds_bound [OF _ p]) (rule "1.prems"(1))
  moreover have "late i \<le> l" by (rule "1.prems"(2))
  ultimately have "t + d + 1000 + late i \<le> 31000 + b * length seeds + l" "t + d \<le> 31000 + b * length seeds + l" if "t < 30000"
    using that by linarith+
  then show ?case using "1.IH" [OF _ _ p [symmetric]] "1.prems" p
    by (subst (asm) (2) waitLoop.simps) (auto split: if_splits bool.splits)
qed

text \<open>
  The wait for the network ends: the loop gives up once thirty seconds have passed, but a
  turn is never cut short, so that with checks of at most two seconds each the wait lasts
  at most thirty-one seconds and two more for every seed.
\<close>

theorem wait_bounded:
  assumes "\<And>i s. snd (probe i s) \<le> 2000" and "waitForNetworkReady ts probe (\<lambda>_. 0) seeds = (ready, t)"
  shows "t \<le> 31000 + 2000 * length (nullish seeds []) \<and> (\<not> ready \<longrightarrow> 30000 \<le> t)"
  using waitLoop_bound [of "nullish seeds []" probe 2000 "\<lambda>_. 0" 0] assms by (simp add: waitForNetworkReady_def)

lemma probeSeeds_replicate: "probeSeeds (\<lambda>_. (False, b)) (replicate n s) = (False, n * b)"
  by (induction n) auto

lemma wait_bounded_witness:
  "\<exists>t. waitForNetworkReady (\<lambda>_. None) (\<lambda>_ _. (False, 2000)) (\<lambda>_. 0) (Some (replicate 14 ''10.0.0.9:50051'')) = (False, t)
     \<and> t \<le> 59000 \<and> t = 58000"
proof -
  have w: "waitForNetworkReady (\<lambda>_. None) (\<lambda>_ _. (False, 2000)) (\<lambda>_. 0) (Some (replicate 14 ''10.0.0.9:50051'')) = (False, 58000)"
    by (simp add: waitForNetworkReady_def nullish_def waitLoop.simps probeSeeds_replicate)
  from wait_bounded [OF _ w] w show ?thesis by (simp add: nullish_def)
qed

section \<open>Attempts\<close>

lemma joinCluster_failed: "joinClusterWithRedirect rpc a k m = (m', False) \<Longrightarrow> m' = m"
proof (induction rpc a k m rule: joinClusterWithRedirect.induct)
  case (2 rpc seed k m)
  then show ?case
    by (auto simp: onRegisterResponse_def Let_def split: option.splits prod.splits sum.splits if_splits)
qed simp

lemma tryAddresses_failed:
  "tryAddresses rpc as m = (m', False, tr) \<Longrightarrow> m' = m \<and> tr = as \<and> (\<forall>a \<in> set as. \<not> snd (joinCluster rpc a m))"
proof (induction as arbitrary: m m' tr)
  case (Cons a as)
  obtain m1 ok where 1: "joinCluster rpc a m = (m1, ok)" by fastforce
  with Cons.prems have "\<not> ok" by (auto split: prod.splits)
  with 1 have "m1 = m" using joinCluster_failed by (auto simp: joinCluster_def)
  with Cons 1 \<open>\<not> ok\<close> show ?case by (auto split: prod.splits)
qed simp

lemma tryAddresses_ok:
  "tryAddresses rpc as m = (m', True, tr) \<Longrightarrow> tr \<noteq> [] \<and> last tr \<in> set as \<and> joinCluster rpc (last tr) m = (m', True)"
proof (induction as arbitrary: m m' tr)
  case (Cons a as)
  obtain m1 ok where 1: "joinCluster rpc a m = (m1, ok)" by fastforce
  show ?case
  proof (cases ok)
    case False
    with 1 have "m1 = m" using joinCluster_failed by (auto simp: joinCluster_def)
    with Cons 1 False show ?thesis by (fastforce split: prod.splits)
  qed (use Cons 1 in auto)
qed simp

lemma refresh_keeps: "set cs \<subseteq> set (refreshCandidates c t cs)"
proof -
  have "set cs \<subseteq> set (fold (addLate c) ns cs)" for ns
  proof (induction ns arbitrary: cs)
    case (Cons n ns)
    have "set cs \<subseteq> set (addLate c n cs)" by (auto simp: addLate_def Let_def)
    with Cons [of "addLate c n cs"] show ?case by simp
  qed simp
  then show ?thesis by (simp add: refreshCandidates_def)
qed

lemma joinLoop_exact:
  assumes "k \<le> maxAttempts"
  shows "let r = joinLoop c ts rpc k cs m
         in if jr_joined r
            then \<exists>j a. Suc maxAttempts - k \<le> j \<and> j \<le> maxAttempts \<and> jr_tried r \<noteq> [] \<and> last (jr_tried r) = (j, a) \<and> joinCluster (rpc j) a m = (jr_membership r, True)
              \<and> jr_delays r = map joinDelay [Suc maxAttempts - k..<j]
            else jr_membership r = m \<and> jr_delays r = map joinDelay [Suc maxAttempts - k..<maxAttempts]
              \<and> (\<forall>j a. Suc maxAttempts - k \<le> j \<and> j \<le> maxAttempts \<and> a \<in> fst ` set cs \<longrightarrow> (j, a) \<in> set (jr_tried r) \<and> \<not> snd (joinCluster (rpc j) a m))"
  using assms
proof (induction k arbitrary: cs)
  case 0
  then show ?case by simp
next
  case (Suc k)
  let ?att = "maxAttempts - k"
  let ?cs = "refreshCandidates c (ts (Suc ?att)) cs"
  obtain m1 ok tr where t: "tryAddresses (rpc ?att) (map fst cs) m = (m1, ok, tr)" by (cases "tryAddresses (rpc ?att) (map fst cs) m")
  have att: "Suc maxAttempts - Suc k = ?att" "1 \<le> ?att" "?att \<le> maxAttempts" using Suc.prems by auto
  show ?case
  proof (cases ok)
    case True
    from t True have "tryAddresses (rpc ?att) (map fst cs) m = (m1, True, tr)" by simp
    from tryAddresses_ok [OF this] have "tr \<noteq> []" "joinCluster (rpc ?att) (last tr) m = (m1, True)" by auto
    with t True att show ?thesis by (simp add: Let_def last_map)
  next
    case ok: False
    from t ok have "tryAddresses (rpc ?att) (map fst cs) m = (m1, False, tr)" by simp
    from tryAddresses_failed [OF this] have f: "m1 = m" "tr = map fst cs" "\<forall>a \<in> set (map fst cs). \<not> snd (joinCluster (rpc ?att) a m)" by auto
    show ?thesis
    proof (cases "k = 0")
      case True
      with t ok f att show ?thesis by (auto simp: Let_def)
    next
      case False
      let ?r = "joinLoop c ts rpc k ?cs m"
      have r: "joinLoop c ts rpc (Suc k) cs m = ?r\<lparr>jr_tried := map (Pair ?att) tr @ jr_tried ?r, jr_delays := joinDelay ?att # jr_delays ?r\<rparr>"
        using t ok f(1) False by (simp add: Let_def)
      have lo: "Suc maxAttempts - k = Suc ?att" using Suc.prems by simp
      note IH = Suc.IH [of ?cs, unfolded lo Let_def]
      show ?thesis
      proof (cases "jr_joined ?r")
        case True
        with IH Suc.prems obtain j a where j: "Suc ?att \<le> j" "j \<le> maxAttempts" "jr_tried ?r \<noteq> []" "last (jr_tried ?r) = (j, a)"
          "joinCluster (rpc j) a m = (jr_membership ?r, True)" "jr_delays ?r = map joinDelay [Suc ?att..<j]" by auto
        from j(1) have "joinDelay ?att # map joinDelay [Suc ?att..<j] = map joinDelay [?att..<j]" by (simp add: upt_conv_Cons)
        with j True show ?thesis unfolding r att(1) by (auto simp: Let_def)
      next
        case not: False
        have "joinDelay ?att # map joinDelay [Suc ?att..<maxAttempts] = map joinDelay [?att..<maxAttempts]"
          using False Suc.prems by (simp add: upt_conv_Cons)
        moreover have "(j, a) \<in> set (map (Pair ?att) tr @ jr_tried ?r) \<and> \<not> snd (joinCluster (rpc j) a m)"
          if "?att \<le> j" "j \<le> maxAttempts" "a \<in> fst ` set cs" for j a
        proof (cases "j = ?att")
          case True
          with f that show ?thesis by auto
        next
          case False
          have "a \<in> fst ` set ?cs" using that(3) refresh_keeps [of cs c "ts (Suc ?att)"] by blast
          with IH not that(1,2) False Suc.prems show ?thesis by auto
        qed
        ultimately show ?thesis using IH not Suc.prems unfolding r att(1) by (simp add: Let_def)
      qed
    qed
  qed
qed

text \<open>
  C12. What the attempts to join amount to. A node that is let in was let in by the address it
  tried last, after the pauses of one, two, four and eight seconds that come before that
  attempt. A node that is not has tried every candidate at each of the five attempts, has
  paused for fifteen seconds in all, and its membership is as it was.
\<close>

theorem join_attempts_exact:
  assumes "joinCandidates c (ts 1) \<noteq> []" and "joinClusterWithRetry c ts rpc m = r"
  shows "if jr_joined r
         then \<exists>j a. 1 \<le> j \<and> j \<le> 5 \<and> last (jr_tried r) = (j, a) \<and> joinCluster (rpc j) a m = (jr_membership r, True)
           \<and> jr_delays r = take (j - 1) [1000, 2000, 4000, 8000]
         else jr_membership r = m \<and> jr_delays r = [1000, 2000, 4000, 8000]
           \<and> (\<forall>j a. 1 \<le> j \<and> j \<le> 5 \<and> a \<in> fst ` set (joinCandidates c (ts 1)) \<longrightarrow> (j, a) \<in> set (jr_tried r))"
proof -
  have delays: "map joinDelay [Suc 0..<j] = take (j - 1) [1000, 2000, 4000, 8000]" if "1 \<le> j" "j \<le> 5" for j
  proof -
    have "j \<in> {1, 2, 3, 4, 5}" using that by auto
    then show ?thesis by (auto simp: joinDelay_def upt_conv_Cons)
  qed
  have r: "r = joinLoop c ts rpc 5 (joinCandidates c (ts 1)) m" using assms by (simp add: joinClusterWithRetry_def maxAttempts_def)
  note e = joinLoop_exact [of 5 c ts rpc "joinCandidates c (ts 1)" m, unfolded Let_def maxAttempts_def, folded r, simplified]
  show ?thesis
  proof (cases "jr_joined r")
    case True
    with e obtain j a where "Suc 0 \<le> j" "j \<le> 5" "last (jr_tried r) = (j, a)" "joinCluster (rpc j) a m = (jr_membership r, True)"
      "jr_delays r = map joinDelay [Suc 0..<j]" by auto
    with True delays show ?thesis by auto
  next
    case False
    with e delays [of 5] show ?thesis by auto
  qed
qed

definition ex_settings :: JoinSettings where
  "ex_settings = \<lparr>jo_seeds = Some [''127.0.0.1:7'', ''10.0.0.2:50051''], jo_port = 7, jo_osHostname = ''rog2.lan''\<rparr>"

lemma show_7: "show_nat 7 = ''7''"
  by code_simp

lemma ex_candidates: "joinCandidates ex_settings None = [(''10.0.0.2:50051'', ''seed'')]"
  by (simp add: ex_settings_def joinCandidates_def otherNodes_def isSelfSeed_def splitAddress_def selfIpOf_def nullish_def truthy_def
      hostOf_def show_int_def show_7)

definition ex_joiner :: MembershipManager where
  "ex_joiner = new_MembershipManager 0 ''rog2-1'' ''rog2'' ''10.0.0.1'' 50051 None False
     (new_RaftNode \<lparr>c_nodeId = ''rog2-1'', c_maxLogEntriesPerAppend = None, c_nonVoting = False, c_dataDir = None, c_writable = False\<rparr> NoFile)"

lemma join_attempts_exact_witness:
  "\<exists>r. joinClusterWithRetry ex_settings (\<lambda>_. None) (\<lambda>_ _ _. None) ex_joiner = r \<and> \<not> jr_joined r \<and> jr_membership r = ex_joiner
     \<and> jr_delays r = [1000, 2000, 4000, 8000] \<and> (3, ''10.0.0.2:50051'') \<in> set (jr_tried r)"
proof -
  let ?r = "joinClusterWithRetry ex_settings (\<lambda>_. None) (\<lambda>_ _ _. None) ex_joiner"
  have c: "joinCandidates ex_settings ((\<lambda>_. None) (1::nat)) \<noteq> []" by (simp add: ex_candidates)
  have "joinCluster (\<lambda>_ _. None) a ex_joiner = (ex_joiner, False)" for a
    by (simp add: joinCluster_def numeral_3_eq_3 split: option.split)
  then have "\<not> jr_joined ?r"
    using join_attempts_exact [OF c refl, of "\<lambda>_ _ _. None" ex_joiner] by auto
  then show ?thesis using join_attempts_exact [OF c refl, of "\<lambda>_ _ _. None" ex_joiner] by (auto simp: ex_candidates)
qed

section \<open>A candidate that answers is joined\<close>

text \<open>
  If at one of the five attempts one of the candidates accepts the node, or keeps it
  waiting for approval, then the node joins, at that attempt or before.
\<close>

theorem answering_candidate_joined:
  assumes "(a, src) \<in> set (joinCandidates c (ts 1))" and "1 \<le> k" "k \<le> 5" and "getSelfNode m \<noteq> None"
    and "\<And>p. \<exists>x. rpc k a p = Some x \<and> (rr_approved x \<or> rr_pending_approval x)"
  shows "jr_joined (joinClusterWithRetry c ts rpc m)"
proof (rule ccontr)
  let ?cs = "joinCandidates c (ts 1)"
  assume not: "\<not> jr_joined (joinClusterWithRetry c ts rpc m)"
  have a: "a \<in> fst ` set ?cs" using assms(1) by force
  then have "?cs \<noteq> []" by auto
  then have "joinClusterWithRetry c ts rpc m = joinLoop c ts rpc 5 ?cs m" by (simp add: joinClusterWithRetry_def maxAttempts_def)
  with not joinLoop_exact [of 5 c ts rpc ?cs m, unfolded Let_def maxAttempts_def] a assms(2,3)
  have fails: "\<not> snd (joinCluster (rpc k) a m)" by auto
  from assms(4) obtain me where me: "getSelfNode m = Some me" by auto
  from assms(5) [of "nodeToProto me"] obtain x where "rpc k a (nodeToProto me) = Some x" "rr_approved x \<or> rr_pending_approval x" by auto
  with me have "snd (joinCluster (rpc k) a m)"
    by (auto simp: joinCluster_def numeral_3_eq_3 onRegisterResponse_def Let_def)
  with fails show False ..
qed

section \<open>Elections while joining\<close>

definition quiet :: "RaftNode \<Rightarrow> bool" where
  "quiet n \<longleftrightarrow> electionsPaused n \<and> \<not> electionTimeout n \<and> state n = Follower"

definition disturbs :: "RaftOp \<Rightarrow> bool" where
  "disturbs a \<longleftrightarrow> a \<in> {OpResume, OpDelayNextElection, OpTriggerElection}"

lemma quiet_resets [simp]: "electionsPaused n \<Longrightarrow> \<not> electionTimeout (resetElectionTimeout n)"
  by (simp add: resetElectionTimeout_def clearElectionTimeout_def Let_def)

lemma quiet_handlers:
  assumes "quiet n"
  shows "quiet (fst (handleRequestVote q n))" "quiet (fst (handleAppendEntries now r n))" "quiet (updateCommitIndex n)"
    "quiet (onAppendReply i ob ar n)" "quiet (fst (onVoteReply vr n))"
  using assms by (auto simp: quiet_def handleRequestVote_def handleAppendEntries_def updateCommitIndex_def onAppendReply_def
      onVoteReply_def Let_def split: option.splits)

lemma quiet_op: "quiet n \<Longrightarrow> \<not> disturbs a \<Longrightarrow> quiet (raft_op a n)"
  using quiet_handlers by (cases a)
    (auto simp: quiet_def disturbs_def start_def stop_def loadState_def addPeer_def removePeer_def appendEntry_def finishElection_def
      pauseElections_def clearElectionTimeout_def stepDown_def Let_def split: StateFile.splits option.splits)

text \<open>
  C13. While a node joins, it starts no election: from the pause on, whatever its handlers are
  asked meanwhile (votes, entries, replies, peers, its own start), it stays a follower and
  its election timer is not running, until elections are resumed, delayed or forced.
\<close>

theorem paused_stays_quiet:
  assumes "state n = Follower" and "\<forall>a \<in> set ops. \<not> disturbs a"
  shows "state (fold raft_op ops (pauseElections n)) = Follower \<and> \<not> electionTimeout (fold raft_op ops (pauseElections n))"
proof -
  have "quiet n' \<Longrightarrow> \<forall>a \<in> set ops. \<not> disturbs a \<Longrightarrow> quiet (fold raft_op ops n')" for n' ops
    by (induction ops arbitrary: n') (auto simp: quiet_op)
  moreover have "quiet (pauseElections n)" using assms(1) by (simp add: quiet_def pauseElections_def clearElectionTimeout_def)
  ultimately show ?thesis using assms(2) by (simp add: quiet_def)
qed

lemma paused_stays_quiet_witness:
  "state (fold raft_op [OpStart, OpRequestVote \<lparr>vq_term = 4, vq_candidateId = ''a'', vq_lastLogIndex = 0, vq_lastLogTerm = 0\<rparr>, OpTimerFires]
       (pauseElections (raft ex_joiner))) = Follower
   \<and> \<not> electionTimeout (fold raft_op [OpStart, OpRequestVote \<lparr>vq_term = 4, vq_candidateId = ''a'', vq_lastLogIndex = 0, vq_lastLogTerm = 0\<rparr>, OpTimerFires]
       (pauseElections (raft ex_joiner)))"
  by (rule paused_stays_quiet) (auto simp: disturbs_def ex_joiner_def new_MembershipManager_def new_RaftNode_def)

lemma answering_candidate_joined_witness:
  "jr_joined (joinClusterWithRetry ex_settings (\<lambda>_. None)
     (\<lambda>k a p. if k = 4 \<and> a = ''10.0.0.2:50051''
              then Some \<lparr>rr_pending_approval = False, rr_approved = True, rr_leader_address = a, rr_peers = [], rr_cluster_id = ''c'', rr_build_hash = []\<rparr>
              else None) ex_joiner)"
  by (rule answering_candidate_joined [where k = 4 and a = "''10.0.0.2:50051''" and src = "''seed''"])
    (auto simp: ex_candidates ex_joiner_def new_MembershipManager_def getSelfNode_def jm_laws)

text \<open>
  What joining does to the Raft node: its peers change and the timer may be armed; its
  configuration, its state and the pause do not change.
\<close>

definition raft_same :: "RaftNode \<Rightarrow> RaftNode \<Rightarrow> bool" where
  "raft_same n n' \<longleftrightarrow> config n' = config n \<and> state n' = state n \<and> running n' = running n \<and> electionsPaused n' = electionsPaused n"

lemma addJoinPeers_raft: "raft_same n (raft m) \<Longrightarrow> raft_same n (raft (fold addJoinPeer ps m))"
  by (induction ps arbitrary: m) (auto simp: addJoinPeer_def raft_same_def addPeer_def)

lemma joinCluster_raft: "joinClusterWithRedirect rpc a k m = (m', ok) \<Longrightarrow> raft_same (raft m) (raft m')"
proof (induction rpc a k m rule: joinClusterWithRedirect.induct)
  case (2 rpc seed k m)
  have "raft_same (raft m) (raft (fst (onRegisterResponse seed x m)))" for x
    using addJoinPeers_raft [of "raft m" "setSelfStatus Active (m\<lparr>leaderAddress := Some (rr_leader_address x)\<rparr>)" "rr_peers x"]
    by (auto simp: onRegisterResponse_def Let_def m_emit_def setSelfStatus_def raft_same_def delayNextElection_def clearElectionTimeout_def)
  then show ?case using 2 by (auto split: option.splits prod.splits sum.splits simp: raft_same_def) (metis fst_conv)+
qed (simp add: raft_same_def)

lemma joinRetry_raft: "raft_same (raft m) (raft (jr_membership (joinClusterWithRetry c ts rpc m)))"
proof (cases "joinCandidates c (ts 1) = []")
  case False
  then have "joinClusterWithRetry c ts rpc m = joinLoop c ts rpc 5 (joinCandidates c (ts 1)) m"
    by (simp add: joinClusterWithRetry_def maxAttempts_def)
  with joinLoop_exact [of 5 c ts rpc "joinCandidates c (ts 1)" m, unfolded Let_def maxAttempts_def]
  show ?thesis using joinCluster_raft by (auto simp: joinCluster_def raft_same_def split: if_splits)
qed (simp add: joinClusterWithRetry_def raft_same_def)

text \<open>
  After the join phase elections are possible again in every case, whether the node was
  let in or not: it runs as a follower, no pause is left, and its election timer runs
  unless it is a non-voting observer.
\<close>

theorem elections_resume_after_join:
  assumes "\<not> running (raft m)" and "joinOrCreateCluster None c ts rpc m = Inr (m', joined)"
  shows "running (raft m') \<and> state (raft m') = Follower \<and> \<not> electionsPaused (raft m')
    \<and> (electionTimeout (raft m') \<longleftrightarrow> \<not> c_nonVoting (config (raft m)))"
proof -
  let ?m1 = "m_start (onRaft (start \<circ> pauseElections) m)"
  let ?m2 = "jr_membership (joinClusterWithRetry c ts rpc ?m1)"
  have "raft_same (raft ?m1) (raft ?m2)" by (rule joinRetry_raft)
  moreover have "running (raft ?m1)" "state (raft ?m1) = Follower" "config (raft ?m1) = config (raft m)"
    using assms(1) by (auto simp: m_start_def onRaft_def start_def pauseElections_def clearElectionTimeout_def loadState_def Let_def
        split: StateFile.splits option.splits)
  moreover have "m' = onRaft resumeElections ?m2" using assms(2) by (simp add: joinOrCreateCluster_def Let_def)
  ultimately show ?thesis by (simp add: onRaft_def resumeElections_def raft_same_def Let_def)
qed

lemma elections_resume_after_join_witness:
  "\<exists>m' joined. joinOrCreateCluster None ex_settings (\<lambda>_. None) (\<lambda>_ _ _. None) ex_joiner = Inr (m', joined)
     \<and> state (raft m') = Follower \<and> electionTimeout (raft m')"
proof -
  obtain m' joined where j: "joinOrCreateCluster None ex_settings (\<lambda>_. None) (\<lambda>_ _ _. None) ex_joiner = Inr (m', joined)"
    by (simp add: joinOrCreateCluster_def Let_def)
  from elections_resume_after_join [OF _ j] j show ?thesis
    by (auto simp: ex_joiner_def new_MembershipManager_def new_RaftNode_def)
qed

text \<open>
  The ten seconds by which a node that was let in delays its next election, so that the
  leader can bring its log up to date, are lost: resuming elections right after sets the
  timer anew, as if there had been no delay.
\<close>

theorem delay_undone:
  "running n \<Longrightarrow> state n \<noteq> Leader \<Longrightarrow> resumeElections (delayNextElection n) = resumeElections n"
  by (simp add: resumeElections_def delayNextElection_def resetElectionTimeout_def clearElectionTimeout_def Let_def)

section \<open>Addresses found late\<close>

text \<open>
  An address that is added between two attempts has the node's own port. The MCP process
  listens on 50052 and the nodes on 50051, so that it never tries a node that it first
  discovers after the first attempt.
\<close>

theorem late_candidates_use_own_port:
  assumes "x \<in> set (refreshCandidates c t cs)" and "x \<notin> set cs"
  shows "\<exists>ip. fst x = ip @ '':'' @ show_int (jo_port c)"
proof -
  have "x \<in> set (fold (addLate c) ns cs) \<Longrightarrow> x \<in> set cs \<or> (\<exists>ip. fst x = ip @ '':'' @ show_int (jo_port c))" for ns
  proof (induction ns arbitrary: cs)
    case (Cons n ns)
    then have "x \<in> set (addLate c n cs) \<or> (\<exists>ip. fst x = ip @ '':'' @ show_int (jo_port c))" by simp
    then show ?case by (auto simp: addLate_def Let_def split: if_splits)
  qed simp
  with assms show ?thesis by (auto simp: refreshCandidates_def)
qed

section \<open>Rejoining and stopping\<close>

text \<open>
  A rejoin leaves no connection behind, ends the rejoin in every case, and clears the count
  of failed heartbeats exactly when it succeeded.
\<close>

theorem rejoin_result:
  assumes "rejoinCluster c ts rpc (m, pool) = (m', pool')"
  shows "jm_get (gp_connections pool') addr = None \<and> \<not> rejoinInProgress m' \<and> \<not> electionsPaused (raft m')"
  using assms by (auto simp: rejoinCluster_def Let_def closeAll_empty setRejoinInProgress_def resetHeartbeatFailures_def onRaft_def
      resumeElections_def split: if_splits)

lemma runPhases_ok: "runPhases throws ps = (r, None) \<Longrightarrow> r = ps"
  by (induction ps arbitrary: r) (auto split: option.splits prod.splits)

text \<open>
  A start either succeeds in all its phases, or, when stopping does not fail as well, ends
  with its error and every component that existed stopped in the fixed order.
\<close>

theorem start_all_or_stopped:
  assumes "cortexStart throws (\<lambda>_. None) present False mcp r = (r', e)" and "\<not> cr_running r" and "cr_stopped r = []"
  shows "if e = None then cr_running r' \<and> cr_started r' = startPhases mcp
         else \<not> cr_running r' \<and> cr_stopped r' = filter present stopPhases"
proof -
  have all: "runPhases (\<lambda>_. None) ps = (ps, None)" for ps :: "StopPhase list" by (induction ps) auto
  show ?thesis using assms
    by (auto simp: cortexStart_def cortexStop_def all split: prod.splits option.splits dest: runPhases_ok)
qed

end
