(* ===== verification/Skills.thy ===== *)
theory Skills
  imports Prelude
begin

text \<open>
  The skill files (\<open>src/skills/loader.ts\<close>, \<open>src/mcp/skill-tools.ts\<close>): a block between two fences
  of dashes, read line by line, and the text after it.

  The regular expressions are the functions \<open>splitFence\<close> and \<open>keyValue\<close>. Reading a directory
  or a file is a parameter of the loader. A path is joined with one slash; keys of the
  block that every JavaScript object has (such as \<open>constructor\<close>) are not considered.
\<close>

section \<open>The block\<close>

datatype FmVal = FmText string | FmArray "string list"

text \<open>The first \<open>newline---\<close>: what is before it and what is after it.\<close>

definition fence :: string where
  "fence = CHR ''\<newline>'' # ''---''"

fun splitFence :: "string \<Rightarrow> (string \<times> string) option" where
  "splitFence [] = None"
| "splitFence (c # s) =
     (if startsWith (c # s) fence then Some ([], drop 4 (c # s))
      else map_option (\<lambda>(a, b). (c # a, b)) (splitFence s))"

definition dropNewline :: "string \<Rightarrow> string" where
  "dropNewline s = (case s of c # t \<Rightarrow> if c = CHR ''\<newline>'' then t else s | [] \<Rightarrow> [])"

definition matchFrontmatter :: "string \<Rightarrow> (string \<times> string) option" where
  "matchFrontmatter raw =
     (if startsWith raw (''---'' @ [CHR ''\<newline>'']) then map_option (\<lambda>(a, b). (a, dropNewline b)) (splitFence (drop 4 raw)) else None)"

fun splitLines :: "string \<Rightarrow> string list" where
  "splitLines [] = [[]]"
| "splitLines (c # s) =
     (if c = CHR ''\<newline>'' then [] # splitLines s
      else case splitLines s of l # ls \<Rightarrow> (c # l) # ls | [] \<Rightarrow> [[c]])"

definition isWord :: "char \<Rightarrow> bool" where
  "isWord c \<longleftrightarrow> is_digit c \<or> (97 \<le> (of_char c :: nat) \<and> (of_char c :: nat) \<le> 122) \<or> (65 \<le> (of_char c :: nat) \<and> (of_char c :: nat) \<le> 90) \<or> c = CHR ''_''"

text \<open>A word, a colon, white space and the rest; the dot does not match a line end.\<close>

definition keyValue :: "string \<Rightarrow> (string \<times> string) option" where
  "keyValue l =
     (let k = takeWhile isWord l; r = dropWhile isWord l
      in if k \<noteq> [] \<and> r \<noteq> [] \<and> hd r = CHR '':''
         then let v = dropWhile is_space (tl r)
              in if (\<exists>c \<in> set v. (of_char c :: nat) \<in> {10, 13}) then None else Some (k, v)
         else None)"

record FmState =
  fs_map :: "(string, FmVal) jsmap"
  fs_currentKey :: string
  fs_inArray :: bool
  fs_items :: "string list"

definition closeArray :: "FmState \<Rightarrow> FmState" where
  "closeArray f =
     (if fs_inArray f then f\<lparr>fs_map := jm_set (fs_currentKey f) (FmArray (fs_items f)) (fs_map f), fs_items := [], fs_inArray := False\<rparr> else f)"

definition fmLine :: "string \<Rightarrow> FmState \<Rightarrow> FmState" where
  "fmLine line f =
     (let t = trim line
      in if t = [] then f
         else if fs_inArray f \<and> startsWith t ''- '' then f\<lparr>fs_items := fs_items f @ [trim (drop 2 t)]\<rparr>
         else let f1 = closeArray f
              in case keyValue t of
                   None \<Rightarrow> f1
                 | Some (k, v) \<Rightarrow> if v = [] then f1\<lparr>fs_currentKey := k, fs_inArray := True\<rparr>
                                 else f1\<lparr>fs_map := jm_set k (FmText v) (fs_map f1)\<rparr>)"

definition parseFrontmatter :: "string \<Rightarrow> ((string, FmVal) jsmap \<times> string) option" where
  "parseFrontmatter raw =
     (case matchFrontmatter raw of
        None \<Rightarrow> None
      | Some (block, content) \<Rightarrow>
          Some (fs_map (closeArray (fold fmLine (splitLines block) \<lparr>fs_map = [], fs_currentKey = [], fs_inArray = False, fs_items = []\<rparr>)), content))"

section \<open>The loader\<close>

text \<open>
  The keys of the map of skills: a text is equal to the same text, an array only to itself,
  so that an array key carries a number of its own.
\<close>

datatype SkillKey = TextKey string | ArrayKey nat

record Skill =
  sk_name :: FmVal
  sk_description :: FmVal
  sk_content :: string
  sk_triggers :: "FmVal option"
  sk_filePath :: string

record SkillLoader =
  sl_directories :: "string list"
  sl_skills :: "(SkillKey, Skill) jsmap"
  sl_arrays :: nat

definition new_SkillLoader :: "string list \<Rightarrow> SkillLoader" where
  "new_SkillLoader dirs = \<lparr>sl_directories = dirs, sl_skills = [], sl_arrays = 0\<rparr>"

text \<open>A value that is absent is falsy; a text never is empty and an array is an object.\<close>

definition fmTruthy :: "FmVal option \<Rightarrow> bool" where
  "fmTruthy v = (case v of None \<Rightarrow> False | Some (FmText s) \<Rightarrow> s \<noteq> [] | Some (FmArray _) \<Rightarrow> True)"

definition skillKey :: "FmVal \<Rightarrow> SkillLoader \<Rightarrow> SkillKey" where
  "skillKey v l = (case v of FmText s \<Rightarrow> TextKey s | FmArray _ \<Rightarrow> ArrayKey (sl_arrays l))"

definition loadSkillFile :: "string \<Rightarrow> string \<Rightarrow> SkillLoader \<Rightarrow> SkillLoader" where
  "loadSkillFile path raw l =
     (case parseFrontmatter raw of
        None \<Rightarrow> l
      | Some (fm, content) \<Rightarrow>
          if \<not> fmTruthy (jm_get fm ''name'') \<or> \<not> fmTruthy (jm_get fm ''description'') then l
          else let n = the (jm_get fm ''name'')
               in l\<lparr>sl_skills := jm_set (skillKey n l)
                      \<lparr>sk_name = n, sk_description = the (jm_get fm ''description''), sk_content = trim content,
                       sk_triggers = jm_get fm ''triggers'', sk_filePath = path\<rparr> (sl_skills l),
                    sl_arrays := Suc (sl_arrays l)\<rparr>)"

text \<open>Errors of the file system, by their code.\<close>

datatype FsError = ENOENT | OtherError string

record SkillFs =
  fs_readdir :: "string \<Rightarrow> FsError + string list"
  fs_readFile :: "string \<Rightarrow> FsError + string"

fun loadFiles :: "SkillFs \<Rightarrow> string \<Rightarrow> string list \<Rightarrow> SkillLoader \<Rightarrow> SkillLoader \<times> FsError option" where
  "loadFiles fs dir [] l = (l, None)"
| "loadFiles fs dir (f # files) l =
     (if \<not> endsWith f ''.md'' then loadFiles fs dir files l
      else let path = dir @ ''/'' @ f
           in case fs_readFile fs path of
                Inl e \<Rightarrow> (l, Some e)
              | Inr raw \<Rightarrow> loadFiles fs dir files (loadSkillFile path raw l))"

definition loadDir :: "SkillFs \<Rightarrow> string \<Rightarrow> SkillLoader \<Rightarrow> SkillLoader \<times> FsError option" where
  "loadDir fs dir l = (case fs_readdir fs dir of Inl e \<Rightarrow> (l, Some e) | Inr files \<Rightarrow> loadFiles fs dir files l)"

text \<open>\<open>Some\<close> error: the loader throws.\<close>

fun loadDirs :: "SkillFs \<Rightarrow> string list \<Rightarrow> SkillLoader \<Rightarrow> SkillLoader \<times> FsError option" where
  "loadDirs fs [] l = (l, None)"
| "loadDirs fs (d # ds) l =
     (case loadDir fs d l of
        (l1, Some (OtherError e)) \<Rightarrow> (l1, Some (OtherError e))
      | (l1, _) \<Rightarrow> loadDirs fs ds l1)"

definition skillsLoadAll :: "SkillFs \<Rightarrow> SkillLoader \<Rightarrow> SkillLoader \<times> FsError option" where
  "skillsLoadAll fs l = loadDirs fs (sl_directories l) (l\<lparr>sl_skills := []\<rparr>)"

definition listSkills :: "SkillLoader \<Rightarrow> Skill list" where
  "listSkills l = jm_values (sl_skills l)"

definition getSkill :: "string \<Rightarrow> SkillLoader \<Rightarrow> Skill option" where
  "getSkill name l = jm_get (sl_skills l) (TextKey name)"

section \<open>The tools\<close>

record SkillInfo =
  si_name :: FmVal
  si_description :: FmVal
  si_triggers :: "FmVal option"
  si_filePath :: string

definition list_skills :: "SkillLoader \<Rightarrow> SkillInfo list \<times> nat" where
  "list_skills l =
     (map (\<lambda>s. \<lparr>si_name = sk_name s, si_description = sk_description s, si_triggers = sk_triggers s, si_filePath = sk_filePath s\<rparr>) (listSkills l),
      length (listSkills l))"

definition get_skill :: "string \<Rightarrow> SkillLoader \<Rightarrow> (string \<times> FmVal list) + Skill" where
  "get_skill name l =
     (case getSkill name l of
        None \<Rightarrow> Inl (''Skill not found: '' @ name, map sk_name (listSkills l))
      | Some s \<Rightarrow> Inr s)"

definition createSkillTools :: "SkillFs \<Rightarrow> string list \<Rightarrow> FsError + SkillLoader" where
  "createSkillTools fs dirs = (case skillsLoadAll fs (new_SkillLoader dirs) of (l, None) \<Rightarrow> Inr l | (_, Some e) \<Rightarrow> Inl e)"

text \<open>The plugin's directories; the tilde of the default is taken literally by the file system.\<close>

definition skillDirectories :: "string list option \<Rightarrow> string list" where
  "skillDirectories conf = nullish conf [''~/.cortex/skills'']"

section \<open>Writing a skill file and reading it\<close>

definition newlineChar :: char where
  "newlineChar = CHR ''\<newline>''"

text \<open>A value that stands on one line: not empty, no white space at its ends, no line end in it.\<close>

definition oneLine :: "string \<Rightarrow> bool" where
  "oneLine v \<longleftrightarrow> v \<noteq> [] \<and> \<not> is_space (hd v) \<and> \<not> is_space (last v) \<and> list_all (\<lambda>c. (of_char c :: nat) \<notin> {10, 13}) v"

definition skillLines :: "string \<Rightarrow> string \<Rightarrow> string list option \<Rightarrow> string list" where
  "skillLines name desc triggers =
     [''name: '' @ name, ''description: '' @ desc] @ (case triggers of None \<Rightarrow> [] | Some ts \<Rightarrow> ''triggers:'' # map (\<lambda>t. ''  - '' @ t) ts)"

fun joinLines :: "string list \<Rightarrow> string" where
  "joinLines [] = []"
| "joinLines [l] = l"
| "joinLines (l # ls) = l @ newlineChar # joinLines ls"

definition renderSkill :: "string \<Rightarrow> string \<Rightarrow> string list option \<Rightarrow> string \<Rightarrow> string" where
  "renderSkill name desc triggers content =
     ''---'' @ [newlineChar] @ joinLines (skillLines name desc triggers) @ [newlineChar] @ ''---'' @ [newlineChar] @ content"

definition noNewline :: "string \<Rightarrow> bool" where
  "noNewline l \<longleftrightarrow> newlineChar \<notin> set l"

lemma splitFence_plain: "noNewline l \<Longrightarrow> splitFence (l @ s) = map_option (\<lambda>(a, b). (l @ a, b)) (splitFence s)"
proof (induction l)
  case Nil
  then show ?case by (cases "splitFence s") auto
next
  case (Cons c l)
  then have "\<not> startsWith (c # l @ s) fence" by (auto simp: noNewline_def fence_def startsWith_def newlineChar_def)
  moreover have "noNewline l" using Cons.prems by (simp add: noNewline_def)
  ultimately show ?case using Cons.IH by (cases "splitFence s") (auto simp: case_prod_unfold)
qed

lemma splitFence_newline: "\<not> startsWith s ''---'' \<Longrightarrow> splitFence (newlineChar # s) = map_option (\<lambda>(a, b). (newlineChar # a, b)) (splitFence s)"
  by (simp add: fence_def startsWith_def newlineChar_def)

lemma splitFence_fence: "splitFence (newlineChar # ''---'' @ s) = Some ([], s)"
  by (simp add: fence_def startsWith_def newlineChar_def)

lemma splitFence_lines:
  assumes "list_all noNewline ls" and "ls \<noteq> []" and "list_all (\<lambda>l. l \<noteq> [] \<and> hd l \<noteq> CHR ''-'') (tl ls)"
  shows "splitFence (joinLines ls @ newlineChar # ''---'' @ s) = Some (joinLines ls, s)"
  using assms
proof (induction ls rule: joinLines.induct)
  case (3 l l' ls)
  have "splitFence (joinLines (l' # ls) @ newlineChar # ''---'' @ s) = Some (joinLines (l' # ls), s)"
    using 3 by (cases ls) auto
  moreover have "l' \<noteq> []" "hd l' \<noteq> CHR ''-''" using 3(4) by auto
  then have "\<not> startsWith (joinLines (l' # ls) @ newlineChar # ''---'' @ s) ''---''"
    by (cases l'; cases ls) (auto simp: startsWith_def)
  ultimately show ?case using 3(2) splitFence_plain [of l] splitFence_newline by simp
qed (use splitFence_fence splitFence_plain in \<open>auto simp: case_prod_unfold\<close>)

lemma splitLines_join: "list_all noNewline ls \<Longrightarrow> ls \<noteq> [] \<Longrightarrow> splitLines (joinLines ls) = ls"
proof (induction ls rule: joinLines.induct)
  case (2 l)
  then show ?case by (induction l) (auto simp: noNewline_def newlineChar_def)
next
  case (3 l l' ls)
  have "noNewline m \<Longrightarrow> splitLines (m @ newlineChar # s) = m # splitLines s" for m s
    by (induction m) (auto simp: noNewline_def newlineChar_def)
  with 3 show ?case by simp
qed simp

lemma oneLine_noNewline: "oneLine v \<Longrightarrow> noNewline v"
  by (auto simp: oneLine_def noNewline_def newlineChar_def list_all_iff)

lemma keyValue_field:
  assumes "oneLine v" and "k \<noteq> []" and "list_all isWord k"
  shows "trim (k @ '': '' @ v) = k @ '': '' @ v" "keyValue (k @ '': '' @ v) = Some (k, v)"
proof -
  have "\<not> is_space c" if "isWord c" for c using that by (auto simp: isWord_def is_digit_def is_space_def)
  then have "\<not> is_space (hd (k @ '': '' @ v))" using assms(2,3) by (cases k) auto
  moreover have "\<not> is_space (last (k @ '': '' @ v))" using assms(1) by (simp add: oneLine_def)
  ultimately show "trim (k @ '': '' @ v) = k @ '': '' @ v" by (rule trim_fixed)
  have w: "\<not> isWord (CHR '':'')" by (simp add: isWord_def is_digit_def)
  have "takeWhile isWord (k @ '': '' @ v) = k" "dropWhile isWord (k @ '': '' @ v) = '': '' @ v"
    using assms(3) w by (induction k) auto
  moreover have "dropWhile is_space ('' '' @ v) = v" using assms(1) by (cases v) (auto simp: oneLine_def is_space_def)
  moreover have "\<not> (\<exists>c \<in> set v. (of_char c :: nat) \<in> {10, 13})" using assms(1) by (auto simp: oneLine_def list_all_iff)
  ultimately show "keyValue (k @ '': '' @ v) = Some (k, v)" using assms(2) by (simp add: keyValue_def Let_def)
qed

lemma fmLine_field:
  "oneLine v \<Longrightarrow> k \<noteq> [] \<Longrightarrow> list_all isWord k \<Longrightarrow> \<not> fs_inArray f
   \<Longrightarrow> fmLine (k @ '': '' @ v) f = f\<lparr>fs_map := jm_set k (FmText v) (fs_map f)\<rparr>"
  using keyValue_field [of v k] by (simp add: fmLine_def Let_def closeArray_def oneLine_def)

lemma fmLine_item:
  assumes "oneLine t" and "fs_inArray f"
  shows "fmLine (''  - '' @ t) f = f\<lparr>fs_items := fs_items f @ [t]\<rparr>"
proof -
  have "trim (''  - '' @ t) = trim (''- '' @ t)" by (simp add: trim_def is_space_def)
  also have "\<dots> = ''- '' @ t" using assms(1) by (intro trim_fixed) (auto simp: is_space_def oneLine_def)
  finally have "trim (''  - '' @ t) = ''- '' @ t" .
  moreover have "trim t = t" using assms(1) by (intro trim_fixed) (auto simp: oneLine_def)
  ultimately show ?thesis using assms(2) by (simp add: fmLine_def Let_def startsWith_def)
qed

lemma fmLine_items:
  "list_all oneLine ts \<Longrightarrow> fs_inArray f \<Longrightarrow> fold fmLine (map (\<lambda>t. ''  - '' @ t) ts) f = f\<lparr>fs_items := fs_items f @ ts\<rparr>"
proof (induction ts arbitrary: f)
  case (Cons t ts)
  then show ?case using fmLine_item [of t f] by simp
qed simp

lemma fmLine_triggers: "\<not> fs_inArray f \<Longrightarrow> fmLine ''triggers:'' f = f\<lparr>fs_currentKey := ''triggers'', fs_inArray := True\<rparr>"
proof -
  assume "\<not> fs_inArray f"
  moreover have "trim ''triggers:'' = ''triggers:''" by (rule trim_fixed) (simp_all add: is_space_def)
  moreover have "keyValue ''triggers:'' = Some (''triggers'', [])" by (simp add: keyValue_def isWord_def is_digit_def)
  ultimately show ?thesis by (simp add: fmLine_def Let_def closeArray_def startsWith_def)
qed

lemma parse_render:
  assumes "oneLine name" and "oneLine desc" and "list_all oneLine (nullish triggers [])"
  shows "\<exists>fm. parseFrontmatter (renderSkill name desc triggers content) = Some (fm, content)
     \<and> jm_get fm ''name'' = Some (FmText name) \<and> jm_get fm ''description'' = Some (FmText desc)
     \<and> jm_get fm ''triggers'' = map_option FmArray triggers"
proof -
  let ?ls = "skillLines name desc triggers"
  have "noNewline name" "noNewline desc" "\<And>ts t. triggers = Some ts \<Longrightarrow> t \<in> set ts \<Longrightarrow> noNewline t"
    using assms oneLine_noNewline by (auto simp: nullish_def list_all_iff)
  then have plain: "list_all noNewline ?ls"
    by (auto simp: skillLines_def noNewline_def newlineChar_def list_all_iff split: option.splits)
  have heads: "?ls \<noteq> []" "list_all (\<lambda>l. l \<noteq> [] \<and> hd l \<noteq> CHR ''-'') (tl ?ls)"
    by (auto simp: skillLines_def list_all_iff split: option.splits)
  have "matchFrontmatter (renderSkill name desc triggers content) = Some (joinLines ?ls, content)"
    using splitFence_lines [OF plain heads, of "newlineChar # content"]
    by (simp add: matchFrontmatter_def renderSkill_def startsWith_def newlineChar_def dropNewline_def)
  moreover have "splitLines (joinLines ?ls) = ?ls" by (rule splitLines_join [OF plain heads(1)])
  moreover have "list_all isWord ''name''" "list_all isWord ''description''" by (simp_all add: isWord_def)
  ultimately show ?thesis using assms
    by (cases triggers) (simp_all add: parseFrontmatter_def skillLines_def fmLine_field [where k = "''name''", simplified]
        fmLine_field [where k = "''description''", simplified] fmLine_triggers fmLine_items closeArray_def nullish_def jm_laws)
qed

text \<open>
  C21. A skill written to a file is the skill that is loaded: for a name, a description and
  triggers that each stand on one line and any content without white space at its ends,
  loading the file makes \<open>getSkill\<close> return exactly that skill.
\<close>

theorem skill_file_roundtrip:
  assumes "oneLine name" and "oneLine desc" and "list_all oneLine (nullish triggers [])" and "trim content = content"
  shows "getSkill name (loadSkillFile path (renderSkill name desc triggers content) l)
     = Some \<lparr>sk_name = FmText name, sk_description = FmText desc, sk_content = content, sk_triggers = map_option FmArray triggers, sk_filePath = path\<rparr>"
proof -
  from parse_render [OF assms(1-3)] obtain fm where "parseFrontmatter (renderSkill name desc triggers content) = Some (fm, content)"
    "jm_get fm ''name'' = Some (FmText name)" "jm_get fm ''description'' = Some (FmText desc)" "jm_get fm ''triggers'' = map_option FmArray triggers"
    by blast
  with assms show ?thesis by (simp add: loadSkillFile_def getSkill_def skillKey_def fmTruthy_def oneLine_def Let_def jm_laws)
qed

lemma skill_file_roundtrip_witness:
  "getSkill ''greeting'' (loadSkillFile ''s/g.md'' (renderSkill ''greeting'' ''Greet: the user'' (Some [''hello'', ''hi - you'']) ''# Hi'') (new_SkillLoader []))
     = Some \<lparr>sk_name = FmText ''greeting'', sk_description = FmText ''Greet: the user'', sk_content = ''# Hi'',
             sk_triggers = Some (FmArray [''hello'', ''hi - you'']), sk_filePath = ''s/g.md''\<rparr>"
  using skill_file_roundtrip [of "''greeting''" "''Greet: the user''" "Some [''hello'', ''hi - you'']" "''# Hi''" "''s/g.md''" "new_SkillLoader []"]
  by (simp add: oneLine_def nullish_def is_space_def trim_def)

section \<open>The map of skills\<close>

text \<open>No key twice, a skill with a text for its name filed under it, the others under a key that is no text.\<close>

definition skills_ok :: "SkillLoader \<Rightarrow> bool" where
  "skills_ok l \<longleftrightarrow> jm_wf (sl_skills l)
     \<and> (\<forall>k s. jm_get (sl_skills l) k = Some s \<longrightarrow> (case sk_name s of FmText n \<Rightarrow> k = TextKey n | FmArray _ \<Rightarrow> \<exists>i. k = ArrayKey i))"

lemma skills_okD:
  "skills_ok l \<Longrightarrow> jm_get (sl_skills l) k = Some s \<Longrightarrow> (case sk_name s of FmText n \<Rightarrow> k = TextKey n | FmArray _ \<Rightarrow> \<exists>i. k = ArrayKey i)"
  by (simp add: skills_ok_def)

lemma skills_ok_file: "skills_ok l \<Longrightarrow> skills_ok (loadSkillFile path raw l)"
  by (auto simp: skills_ok_def loadSkillFile_def skillKey_def Let_def jm_laws split: option.splits prod.splits FmVal.splits)

lemma skills_ok_files: "skills_ok l \<Longrightarrow> loadFiles fs dir files l = (l', e) \<Longrightarrow> skills_ok l'"
  by (induction fs dir files l rule: loadFiles.induct) (auto simp: Let_def skills_ok_file split: if_splits sum.splits)

lemma skills_ok_dirs: "skills_ok l \<Longrightarrow> loadDirs fs ds l = (l', e) \<Longrightarrow> skills_ok l'"
proof (induction ds arbitrary: l)
  case (Cons d ds)
  obtain l1 e1 where d: "loadDir fs d l = (l1, e1)" by fastforce
  with Cons.prems(1) have "skills_ok l1" by (auto simp: loadDir_def skills_ok_files split: sum.splits)
  with Cons d show ?case by (auto split: option.splits FsError.splits)
qed simp

text \<open>
  After loading, whatever the files hold and whether or not it stopped with an error,
  \<open>get_skill\<close> finds every listed skill whose name is a text, by that name, and finds nothing
  that is not listed.
\<close>

theorem listed_skills_found:
  "get_skill name (fst (skillsLoadAll fs l)) = Inr s
   \<longleftrightarrow> s \<in> set (listSkills (fst (skillsLoadAll fs l))) \<and> sk_name s = FmText name"
proof -
  obtain l' e where l': "skillsLoadAll fs l = (l', e)" by fastforce
  have "skills_ok (l\<lparr>sl_skills := []\<rparr>)" by (simp add: skills_ok_def)
  with l' have ok: "skills_ok l'" using skills_ok_dirs by (auto simp: skillsLoadAll_def)
  have "s \<in> set (listSkills l') \<longleftrightarrow> (\<exists>k. jm_get (sl_skills l') k = Some s)"
    using ok by (simp add: listSkills_def skills_ok_def jm_values_get)
  moreover have "get_skill name l' = Inr s \<longleftrightarrow> jm_get (sl_skills l') (TextKey name) = Some s"
    by (auto simp: get_skill_def getSkill_def split: option.splits)
  moreover have "jm_get (sl_skills l') (TextKey name) = Some s \<longleftrightarrow> (\<exists>k. jm_get (sl_skills l') k = Some s) \<and> sk_name s = FmText name"
  proof -
    have "sk_name s = FmText name" if "jm_get (sl_skills l') (TextKey name) = Some s"
      using skills_okD [OF ok that] by (cases "sk_name s") auto
    moreover have "k = TextKey name" if "jm_get (sl_skills l') k = Some s" "sk_name s = FmText name" for k
      using skills_okD [OF ok that(1)] that(2) by simp
    ultimately show ?thesis by metis
  qed
  ultimately show ?thesis using l' by simp
qed

section \<open>Files that are misread\<close>

text \<open>
  A file whose \<open>name\<close> has no value is registered under an empty array: it is listed, and no
  name finds it.
\<close>

theorem nameless_skill_unreachable:
  assumes "parseFrontmatter raw = Some (fm, content)" and "jm_get fm ''name'' = Some (FmArray xs)" and "fmTruthy (jm_get fm ''description'')"
  shows "getSkill name (loadSkillFile path raw l) = getSkill name l \<and> (\<exists>s \<in> set (listSkills (loadSkillFile path raw l)). sk_filePath s = path)"
proof -
  let ?s = "\<lparr>sk_name = FmArray xs, sk_description = the (jm_get fm ''description''), sk_content = trim content,
             sk_triggers = jm_get fm ''triggers'', sk_filePath = path\<rparr>"
  have load: "sl_skills (loadSkillFile path raw l) = jm_set (ArrayKey (sl_arrays l)) ?s (sl_skills l)"
    using assms by (simp add: loadSkillFile_def fmTruthy_def skillKey_def Let_def)
  then have "?s \<in> set (listSkills (loadSkillFile path raw l))"
    by (metis jm_get_in_values jm.get_put listSkills_def)
  then show ?thesis using load by (force simp: getSkill_def jm_laws)
qed

lemma nameless_skill_example:
  "parseFrontmatter (''---'' @ [newlineChar] @ ''name:'' @ [newlineChar] @ ''description: d'' @ [newlineChar] @ ''---'')
     = Some ([(''name'', FmArray []), (''description'', FmText ''d'')], [])"
  by (simp add: parseFrontmatter_def matchFrontmatter_def startsWith_def fence_def newlineChar_def dropNewline_def fmLine_def closeArray_def
      trim_def is_space_def keyValue_def isWord_def is_digit_def Let_def jm_set_def)

text \<open>A file with carriage returns at its line ends is passed over.\<close>

theorem crlf_skill_ignored: "startsWith raw (''---'' @ [char_of (13 :: nat)]) \<Longrightarrow> loadSkillFile path raw l = l"
proof -
  assume "startsWith raw (''---'' @ [char_of (13 :: nat)])"
  then obtain t where "raw = ''---'' @ [char_of (13 :: nat)] @ t" by (auto simp: startsWith_iff)
  moreover have "char_of (13 :: nat) \<noteq> CHR ''\<newline>''" by code_simp
  ultimately have "matchFrontmatter raw = None" by (simp add: matchFrontmatter_def startsWith_def)
  then show ?thesis by (simp add: loadSkillFile_def parseFrontmatter_def)
qed

text \<open>A list written on one line is a text, and quotes stay part of a value.\<close>

lemma inline_values:
  "keyValue ''triggers: [a, b]'' = Some (''triggers'', ''[a, b]'')"
  "keyValue (''name: '' @ [CHR 0x22] @ ''x'' @ [CHR 0x22]) = Some (''name'', [CHR 0x22] @ ''x'' @ [CHR 0x22])"
  by (simp_all add: keyValue_def isWord_def is_digit_def is_space_def)

end
