(* ===== verification/Kubernetes.thy ===== *)
theory Kubernetes
  imports Prelude
begin

text \<open>
  The adapter for Kubernetes (\<open>src/kubernetes/adapter.ts\<close>): quantities as Kubernetes writes
  them, the resources of a cluster added up, and the job object that is submitted.

  The Kubernetes interface is a parameter: \<open>kube\<close> says, for a configuration and a request,
  what the answer is (\<open>Inl\<close>: the call is rejected). Configurations are opaque (\<open>'k\<close>).
  \<open>None\<close> as a number is NaN, which every sum it enters becomes.
\<close>

section \<open>Quantities\<close>

text \<open>
  \<open>parseFloat\<close>: white space, a sign, digits with a fraction, an exponent; \<open>None\<close> is NaN.
  (The word Infinity is not considered.)
\<close>

definition digitsOf :: "string \<Rightarrow> string" where
  "digitsOf s = takeWhile is_digit s"

definition parseExponent :: "string \<Rightarrow> int" where
  "parseExponent s =
     (case s of
        c # t \<Rightarrow> if c = CHR ''e'' \<or> c = CHR ''E''
                then (case t of
                        d # u \<Rightarrow> if d = CHR ''-'' then - int (digits_value (digitsOf u))
                                else if d = CHR ''+'' then int (digits_value (digitsOf u)) else int (digits_value (digitsOf t))
                      | [] \<Rightarrow> 0)
                else 0
      | [] \<Rightarrow> 0)"

definition pow10 :: "int \<Rightarrow> rat" where
  "pow10 e = (if 0 \<le> e then 10 ^ nat e else 1 / 10 ^ nat (- e))"

definition parseMantissa :: "string \<Rightarrow> rat option" where
  "parseMantissa s =
     (let a = digitsOf s; r = drop (length a) s
      in case r of
           c # t \<Rightarrow> if c = CHR ''.''
                   then let b = digitsOf t
                        in if a = [] \<and> b = [] then None
                           else Some ((of_nat (digits_value a) + of_nat (digits_value b) / 10 ^ length b) * pow10 (parseExponent (drop (length b) t)))
                   else if a = [] then None else Some (of_nat (digits_value a) * pow10 (parseExponent r))
         | [] \<Rightarrow> if a = [] then None else Some (of_nat (digits_value a)))"

definition parseFloat :: "string \<Rightarrow> rat option" where
  "parseFloat s =
     (case dropWhile is_space s of
        [] \<Rightarrow> None
      | c # t \<Rightarrow> if c = CHR ''-'' then map_option uminus (parseMantissa t)
                else if c = CHR ''+'' then parseMantissa t else parseMantissa (c # t))"

definition parseCpu :: "string \<Rightarrow> rat option" where
  "parseCpu cpu =
     (if endsWith cpu ''m'' then map_option (\<lambda>i. of_int i / 1000) (parseInt (take (length cpu - 1) cpu))
      else Some (nullish (parseFloat cpu) 0))"

definition memoryUnits :: "(string \<times> int) list" where
  "memoryUnits = [(''Ki'', 1024), (''Mi'', 1024 ^ 2), (''Gi'', 1024 ^ 3), (''Ti'', 1024 ^ 4),
     (''K'', 1000), (''M'', 1000 ^ 2), (''G'', 1000 ^ 3), (''T'', 1000 ^ 4)]"

definition parseMemory :: "string \<Rightarrow> int option" where
  "parseMemory m =
     (case find (\<lambda>(u, _). endsWith m u) memoryUnits of
        Some (u, f) \<Rightarrow> map_option (\<lambda>i. i * f) (parseInt (take (length m - length u) m))
      | None \<Rightarrow> Some (nullish (parseInt m) 0))"

section \<open>Nodes and resources\<close>

record ApiNode =
  an_name :: "string option"
  an_capacity :: "(string \<times> string) list"
  an_allocatable :: "(string \<times> string) list"
  an_conditions :: "(string \<times> string) list"
  an_labels :: "(string \<times> string) list"

record K8sNode =
  kn_name :: string
  kn_ready :: bool
  kn_cpuCapacity :: "rat option"
  kn_memoryCapacity :: "int option"
  kn_cpuAllocatable :: "rat option"
  kn_memoryAllocatable :: "int option"
  kn_hasGpu :: bool
  kn_gpuCount :: "int option"
  kn_labels :: "(string \<times> string) list"

definition quantity :: "(string \<times> string) list \<Rightarrow> string \<Rightarrow> string" where
  "quantity m k = nullish (map_of m k) ''0''"

definition gpuKey :: string where
  "gpuKey = ''nvidia.com/gpu''"

definition toK8sNode :: "ApiNode \<Rightarrow> K8sNode" where
  "toK8sNode n =
     \<lparr>kn_name = nullish (an_name n) ''unknown'', kn_ready = list_ex (\<lambda>(t, s). t = ''Ready'' \<and> s = ''True'') (an_conditions n),
      kn_cpuCapacity = parseCpu (quantity (an_capacity n) ''cpu''), kn_memoryCapacity = parseMemory (quantity (an_capacity n) ''memory''),
      kn_cpuAllocatable = parseCpu (quantity (an_allocatable n) ''cpu''), kn_memoryAllocatable = parseMemory (quantity (an_allocatable n) ''memory''),
      kn_hasGpu = truthy (map_of (an_capacity n) gpuKey), kn_gpuCount = parseInt (quantity (an_capacity n) gpuKey), kn_labels = an_labels n\<rparr>"

text \<open>A sum in which one NaN makes the whole NaN.\<close>

definition numSum :: "('a::comm_monoid_add) option list \<Rightarrow> 'a option" where
  "numSum xs = (if None \<in> set xs then None else Some (sum_list (map the xs)))"

datatype ClusterType = Gke | PlainK8s | K3s | UnknownCluster

definition detectClusterType :: "string \<Rightarrow> string \<Rightarrow> K8sNode list \<Rightarrow> ClusterType" where
  "detectClusterType context server nodes =
     (if str_includes server ''.gke.'' \<or> str_includes server ''container.googleapis.com'' then Gke
      else if list_ex (\<lambda>n. (case map_of (kn_labels n) ''node.kubernetes.io/instance-type'' of None \<Rightarrow> False | Some v \<Rightarrow> str_includes v ''k3s'')
                \<or> map_of (kn_labels n) ''k3s.io/hostname'' \<noteq> None) nodes
              \<or> str_includes (map asciiLower context) ''k3s'' then K3s
      else if nodes \<noteq> [] then PlainK8s else UnknownCluster)"

record K8sCluster =
  kc_name :: string
  kc_type :: ClusterType
  kc_server :: string
  kc_nodes :: "K8sNode list"
  kc_totalCpu :: "rat option"
  kc_totalMemory :: "int option"
  kc_gpuNodes :: nat

record K8sResources =
  kr_totalCpu :: "rat option"
  kr_totalMemory :: "int option"
  kr_allocatableCpu :: "rat option"
  kr_allocatableMemory :: "int option"
  kr_gpuCount :: "int option"
  kr_runningPods :: nat

section \<open>Jobs\<close>

record K8sJobSpec =
  js_name :: string
  js_namespace :: "string option"
  js_image :: string
  js_command :: "string list option"
  js_args :: "string list option"
  js_env :: "(string \<times> string) list option"
  js_cpuRequest :: "string option"
  js_memoryRequest :: "string option"
  js_cpuLimit :: "string option"
  js_memoryLimit :: "string option"
  js_gpuLimit :: "int option"
  js_labels :: "(string, string) jsmap option"
  js_annotations :: "(string \<times> string) list option"
  js_ttl :: "int option"
  js_backoffLimit :: "int option"

record V1Job =
  vj_name :: string
  vj_namespace :: string
  vj_labels :: "(string, string) jsmap"
  vj_annotations :: "(string \<times> string) list option"
  vj_ttl :: int
  vj_backoffLimit :: int
  vj_restartPolicy :: string
  vj_image :: string
  vj_command :: "string list option"
  vj_args :: "string list option"
  vj_env :: "(string \<times> string) list option"
  vj_requests :: "(string \<times> string) list"
  vj_limits :: "(string \<times> string) list"

definition ifTruthy :: "string \<Rightarrow> string option \<Rightarrow> (string \<times> string) list" where
  "ifTruthy k v = (if truthy v then [(k, the v)] else [])"

definition jobObject :: "K8sJobSpec \<Rightarrow> V1Job" where
  "jobObject s =
     \<lparr>vj_name = js_name s, vj_namespace = nullish (js_namespace s) ''default'',
      vj_labels = fold (\<lambda>(k, v) m. jm_set k v m) (nullish (js_labels s) []) [(''app.kubernetes.io/managed-by'', ''cortex'')],
      vj_annotations = js_annotations s, vj_ttl = nullish (js_ttl s) 3600, vj_backoffLimit = nullish (js_backoffLimit s) 3,
      vj_restartPolicy = ''Never'', vj_image = js_image s, vj_command = js_command s, vj_args = js_args s, vj_env = js_env s,
      vj_requests = ifTruthy ''cpu'' (js_cpuRequest s) @ ifTruthy ''memory'' (js_memoryRequest s),
      vj_limits = ifTruthy ''cpu'' (js_cpuLimit s) @ ifTruthy ''memory'' (js_memoryLimit s)
        @ (if nullish (js_gpuLimit s) 0 \<noteq> 0 then [(gpuKey, show_int (nullish (js_gpuLimit s) 0))] else [])\<rparr>"

record K8sJobStatus =
  jst_name :: string
  jst_namespace :: string
  jst_active :: int
  jst_succeeded :: int
  jst_failed :: int
  jst_startTime :: "int option"
  jst_completionTime :: "int option"
  jst_conditions :: "(string \<times> string \<times> string option \<times> string option) list"

record ApiJob =
  aj_name :: "string option"
  aj_namespace :: "string option"
  aj_active :: "int option"
  aj_succeeded :: "int option"
  aj_failed :: "int option"
  aj_startTime :: "int option"
  aj_completionTime :: "int option"
  aj_conditions :: "(string \<times> string \<times> string option \<times> string option) list option"

section \<open>The adapter\<close>

text \<open>
  The outside: the kubeconfig file (the contexts, the clusters and users they name, and
  \<open>ka_load\<close>, the configuration made from a cluster, a user and a context) and the interface
  of a cluster. Points in time are numbers; a user is his name.
\<close>

record KubeCluster =
  kcl_name :: string
  kcl_server :: "string option"

record 'k KubeApi =
  ka_contexts :: "string list option"
  ka_context :: "string \<Rightarrow> (string \<times> string) option"
  ka_cluster :: "string \<Rightarrow> KubeCluster option"
  ka_user :: "string \<Rightarrow> string option"
  ka_load :: "KubeCluster \<Rightarrow> string \<Rightarrow> string \<Rightarrow> 'k"
  ka_nodes :: "'k \<Rightarrow> string + ApiNode list"
  ka_podPhases :: "'k \<Rightarrow> string + string option list"
  ka_createJob :: "'k \<Rightarrow> string \<Rightarrow> V1Job \<Rightarrow> string + string option"
  ka_readJob :: "'k \<Rightarrow> string \<Rightarrow> string \<Rightarrow> string + ApiJob"
  ka_jobPods :: "'k \<Rightarrow> string \<Rightarrow> string \<Rightarrow> string + string option list"
  ka_podLog :: "'k \<Rightarrow> string \<Rightarrow> string \<Rightarrow> string + string"
  ka_deleteJob :: "'k \<Rightarrow> string \<Rightarrow> string \<Rightarrow> string option"
  ka_scale :: "'k \<Rightarrow> string \<Rightarrow> string \<Rightarrow> int \<Rightarrow> string option"

record 'k KubernetesAdapter =
  ad_kubeconfigs :: "(string, 'k) jsmap"
  ad_clusters :: "(string, K8sCluster) jsmap"

definition new_KubernetesAdapter :: "'k KubernetesAdapter" where
  "new_KubernetesAdapter = \<lparr>ad_kubeconfigs = [], ad_clusters = []\<rparr>"

definition createContextConfig :: "'k KubeApi \<Rightarrow> string \<Rightarrow> string + 'k" where
  "createContextConfig api c =
     (case ka_context api c of
        None \<Rightarrow> Inl (''Context not found: '' @ c)
      | Some (cn, u) \<Rightarrow>
          (case ka_cluster api cn of
             None \<Rightarrow> Inl (''Cluster not found for context: '' @ c)
           | Some cl \<Rightarrow> Inr (ka_load api cl (nullish (ka_user api u) ''default'') c)))"

definition serverOf :: "'k KubeApi \<Rightarrow> string \<Rightarrow> string" where
  "serverOf api c = nullish (Option.bind (ka_context api c) (\<lambda>(cn, _). if cn = [] then None else Option.bind (ka_cluster api cn) kcl_server)) []"

definition probeCluster :: "'k KubeApi \<Rightarrow> string \<Rightarrow> string + K8sCluster" where
  "probeCluster api c =
     (case createContextConfig api c of
        Inl e \<Rightarrow> Inl e
      | Inr k \<Rightarrow>
          (case ka_nodes api k of
             Inl e \<Rightarrow> Inl e
           | Inr ns \<Rightarrow>
               (let nodes = map toK8sNode ns; server = serverOf api c
                in Inr \<lparr>kc_name = c, kc_type = detectClusterType c server nodes, kc_server = server, kc_nodes = nodes,
                        kc_totalCpu = numSum (map kn_cpuCapacity nodes), kc_totalMemory = numSum (map kn_memoryCapacity nodes),
                        kc_gpuNodes = length (filter kn_hasGpu nodes)\<rparr>)))"

text \<open>The loop over the contexts; a cluster that cannot be probed is passed over.\<close>

fun probeAll :: "'k KubeApi \<Rightarrow> string list \<Rightarrow> 'k KubernetesAdapter \<Rightarrow> 'k KubernetesAdapter \<times> K8sCluster list" where
  "probeAll api [] ad = (ad, [])"
| "probeAll api (c # cs) ad =
     (case (probeCluster api c, createContextConfig api c) of
        (Inr cl, Inr k) \<Rightarrow>
          (let (ad', r) = probeAll api cs (ad\<lparr>ad_clusters := jm_set c cl (ad_clusters ad), ad_kubeconfigs := jm_set c k (ad_kubeconfigs ad)\<rparr>)
           in (ad', cl # r))
      | _ \<Rightarrow> probeAll api cs ad)"

definition discoverClusters :: "'k KubeApi \<Rightarrow> 'k KubernetesAdapter \<Rightarrow> 'k KubernetesAdapter \<times> K8sCluster list" where
  "discoverClusters api ad = (case ka_contexts api of None \<Rightarrow> (ad, []) | Some cs \<Rightarrow> probeAll api cs ad)"

definition getClusterResources :: "'k KubeApi \<Rightarrow> string \<Rightarrow> 'k KubernetesAdapter \<Rightarrow> K8sResources option" where
  "getClusterResources api c ad =
     (case jm_get (ad_kubeconfigs ad) c of
        None \<Rightarrow> None
      | Some k \<Rightarrow>
          (case (ka_nodes api k, ka_podPhases api k) of
             (Inr ns, Inr ps) \<Rightarrow>
               (let nodes = map toK8sNode ns
                in Some \<lparr>kr_totalCpu = numSum (map kn_cpuCapacity nodes), kr_totalMemory = numSum (map kn_memoryCapacity nodes),
                         kr_allocatableCpu = numSum (map kn_cpuAllocatable nodes), kr_allocatableMemory = numSum (map kn_memoryAllocatable nodes),
                         kr_gpuCount = numSum (map kn_gpuCount nodes), kr_runningPods = length (filter (\<lambda>p. p = Some ''Running'') ps)\<rparr>)
           | _ \<Rightarrow> None))"

text \<open>\<open>Inl\<close>: it throws.\<close>

definition submitJob :: "'k KubeApi \<Rightarrow> string \<Rightarrow> K8sJobSpec \<Rightarrow> 'k KubernetesAdapter \<Rightarrow> string + string" where
  "submitJob api c s ad =
     (case jm_get (ad_kubeconfigs ad) c of
        None \<Rightarrow> Inl (''Unknown cluster context: '' @ c)
      | Some k \<Rightarrow> (case ka_createJob api k (nullish (js_namespace s) ''default'') (jobObject s) of
                    Inl e \<Rightarrow> Inl e | Inr n \<Rightarrow> Inr (nullish n (js_name s))))"

definition getJobStatus :: "'k KubeApi \<Rightarrow> string \<Rightarrow> string \<Rightarrow> string option \<Rightarrow> 'k KubernetesAdapter \<Rightarrow> K8sJobStatus option" where
  "getJobStatus api c name ns ad =
     (let n = nullish ns ''default''
      in case jm_get (ad_kubeconfigs ad) c of
           None \<Rightarrow> None
         | Some k \<Rightarrow> (case ka_readJob api k n name of
                       Inl _ \<Rightarrow> None
                     | Inr j \<Rightarrow> Some \<lparr>jst_name = nullish (aj_name j) name, jst_namespace = nullish (aj_namespace j) n,
                                     jst_active = nullish (aj_active j) 0, jst_succeeded = nullish (aj_succeeded j) 0, jst_failed = nullish (aj_failed j) 0,
                                     jst_startTime = aj_startTime j, jst_completionTime = aj_completionTime j, jst_conditions = nullish (aj_conditions j) []\<rparr>))"

definition getJobLogs :: "'k KubeApi \<Rightarrow> string \<Rightarrow> string \<Rightarrow> string option \<Rightarrow> 'k KubernetesAdapter \<Rightarrow> string option" where
  "getJobLogs api c name ns ad =
     (let n = nullish ns ''default''
      in case jm_get (ad_kubeconfigs ad) c of
           None \<Rightarrow> None
         | Some k \<Rightarrow> (case ka_jobPods api k n (''job-name='' @ name) of
                       Inr (p # _) \<Rightarrow> if truthy p then (case ka_podLog api k n (the p) of Inr l \<Rightarrow> Some l | Inl _ \<Rightarrow> None) else None
                     | _ \<Rightarrow> None))"

definition deleteJob :: "'k KubeApi \<Rightarrow> string \<Rightarrow> string \<Rightarrow> string option \<Rightarrow> 'k KubernetesAdapter \<Rightarrow> bool" where
  "deleteJob api c name ns ad =
     (case jm_get (ad_kubeconfigs ad) c of None \<Rightarrow> False | Some k \<Rightarrow> ka_deleteJob api k (nullish ns ''default'') name = None)"

definition scaleDeployment :: "'k KubeApi \<Rightarrow> string \<Rightarrow> string \<Rightarrow> int \<Rightarrow> string option \<Rightarrow> 'k KubernetesAdapter \<Rightarrow> bool" where
  "scaleDeployment api c name replicas ns ad =
     (case jm_get (ad_kubeconfigs ad) c of None \<Rightarrow> False | Some k \<Rightarrow> ka_scale api k (nullish ns ''default'') name replicas = None)"

definition getCluster :: "string \<Rightarrow> 'k KubernetesAdapter \<Rightarrow> K8sCluster option" where
  "getCluster c ad = jm_get (ad_clusters ad) c"

definition listClusters :: "'k KubernetesAdapter \<Rightarrow> K8sCluster list" where
  "listClusters ad = jm_values (ad_clusters ad)"

section \<open>Properties\<close>

lemma takeWhile_digits: "list_all is_digit ds \<Longrightarrow> \<not> is_digit c \<Longrightarrow> takeWhile is_digit (ds @ c # s) = ds"
  by (induction ds) auto

lemma parseInt_digits_then: "\<not> is_digit c \<Longrightarrow> parseInt (show_nat n @ c # s) = Some (int n)"
proof -
  assume c: "\<not> is_digit c"
  obtain d ds where s: "show_nat n = d # ds" and d: "is_digit d"
    using show_nat_digits [of n] by (cases "show_nat n") auto
  then have "\<not> is_space d" "d \<noteq> CHR ''-''" "d \<noteq> CHR ''+''" by (auto simp: is_digit_def is_space_def)
  moreover have "parseDigits (show_nat n @ c # s') = Some n" for s'
    using show_nat_digits [of n] takeWhile_digits [OF _ c] by (simp add: parseDigits_def Let_def)
  ultimately show ?thesis using s by (simp add: parseInt_def)
qed

lemma parseInt_show_nat': "parseInt (show_nat n) = Some (int n)"
  using parseInt_show [of "int n"] by (simp add: show_int_def)

lemma endsWith_last: "endsWith s u \<Longrightarrow> u \<noteq> [] \<Longrightarrow> s \<noteq> [] \<and> last s = last u"
  unfolding endsWith_def by (metis last_drop append_Nil drop_eq_Nil2 le_zero_eq length_0_conv list.size(3) not_less_eq_eq drop_Nil linorder_not_less)

lemma endsWith_two [simp]: "endsWith (s @ [a, b]) [c, d] \<longleftrightarrow> a = c \<and> b = d"
  by (auto simp: endsWith_def)

lemma endsWith_one [simp]: "endsWith (s @ [a]) [c] \<longleftrightarrow> a = c"
  by (auto simp: endsWith_def)

lemma endsWith_differs: "a \<noteq> d \<Longrightarrow> \<not> endsWith (s @ [a]) [c, d]" "b \<noteq> d \<Longrightarrow> \<not> endsWith (s @ [a, b]) [d]"
  by (auto dest: endsWith_last)

text \<open>
  The quantities Kubernetes gives as whole numbers are read exactly: a plain number is
  itself, a number with one of the eight units the adapter knows is that many bytes, and
  thousandths of a processor are divided by a thousand.
\<close>

theorem quantities_exact:
  "parseMemory (show_nat n) = Some (int n)
   \<and> list_all (\<lambda>(u, f). parseMemory (show_nat n @ u) = Some (int n * f)) memoryUnits
   \<and> parseCpu (show_nat n) = Some (of_nat n) \<and> parseCpu (show_nat n @ ''m'') = Some (of_nat n / 1000)"
proof -
  have ds: "list_all is_digit (show_nat n)" "show_nat n \<noteq> []" "digits_value (show_nat n) = n" using show_nat_digits [of n] by auto
  then have "is_digit (last (show_nat n))" by (simp add: list_all_iff)
  then have no: "\<not> endsWith (show_nat n) u" if "u \<noteq> []" "\<not> is_digit (last u)" for u using that endsWith_last by metis
  have "parseMemory (show_nat n) = Some (int n)"
    using no by (simp add: parseMemory_def memoryUnits_def parseInt_show_nat' nullish_def is_digit_def)
  moreover have "list_all (\<lambda>(u, f). parseMemory (show_nat n @ u) = Some (int n * f)) memoryUnits"
    by (simp add: parseMemory_def memoryUnits_def endsWith_differs parseInt_show_nat')
  moreover have "parseCpu (show_nat n @ ''m'') = Some (of_nat n / 1000)"
    by (simp add: parseCpu_def parseInt_show_nat')
  moreover have "parseCpu (show_nat n) = Some (of_nat n)"
  proof -
    obtain d t where s: "show_nat n = d # t" and d: "is_digit d" using ds by (cases "show_nat n") auto
    have "takeWhile is_digit (show_nat n) = show_nat n" using ds(1) by (simp add: list_all_iff)
    then have "parseMantissa (show_nat n) = Some (of_nat n)"
      unfolding parseMantissa_def digitsOf_def Let_def by (simp only: drop_all le_refl list.case ds(2,3) if_False)
    moreover have "parseFloat (show_nat n) = parseMantissa (show_nat n)"
      using d by (auto simp: parseFloat_def s is_digit_def is_space_def)
    ultimately show ?thesis using no [of "''m''"] by (simp add: parseCpu_def nullish_def is_digit_def)
  qed
  ultimately show ?thesis by blast
qed

text \<open>Fractions, exponents and the lower-case unit of a thousand, which Kubernetes also writes, are misread.\<close>

lemma quantities_misread:
  "parseMemory ''1.5Gi'' = Some 1073741824" "parseMemory ''1e9'' = Some 1" "parseMemory ''64k'' = Some 64"
  by (simp_all add: parseMemory_def memoryUnits_def endsWith_def parseInt_def is_space_def parseDigits_def is_digit_def digits_value_def nullish_def)

text \<open>One node whose quantity is no number makes the totals of the whole cluster NaN.\<close>

lemma unreadable_quantity_poisons:
  assumes "jm_get (ad_kubeconfigs ad) c = Some k" and "ka_nodes api k = Inr ns" and "ka_podPhases api k = Inr ps"
    and "n \<in> set ns" and "map_of (an_capacity n) ''memory'' = Some ''Gi''"
  shows "map_option kr_totalMemory (getClusterResources api c ad) = Some None"
proof -
  have "parseMemory ''Gi'' = None"
    by (simp add: parseMemory_def memoryUnits_def endsWith_def parseInt_def)
  then have "kn_memoryCapacity (toK8sNode n) = None" using assms(5) by (simp add: toK8sNode_def quantity_def nullish_def)
  with assms(4) have "None \<in> set (map kn_memoryCapacity (map toK8sNode ns))" by force
  with assms(1-3) show ?thesis by (simp add: getClusterResources_def numSum_def Let_def image_image)
qed

text \<open>
  The clusters reported are those that could be probed, in the order of the contexts, and
  each of them can be used afterwards: it is listed and jobs can be submitted to it.
\<close>

lemma probeAll_keeps:
  "jm_get (ad_kubeconfigs ad) c \<noteq> None \<Longrightarrow> jm_get (ad_kubeconfigs (fst (probeAll api cs ad))) c \<noteq> None"
  by (induction api cs ad rule: probeAll.induct) (auto simp: Let_def case_prod_unfold split: sum.splits)

lemma probeCluster_config: "probeCluster api c = Inr cl \<Longrightarrow> kc_name cl = c \<and> (\<exists>k. createContextConfig api c = Inr k)"
  by (auto simp: probeCluster_def Let_def split: sum.splits)

lemma probeAll_usable:
  "map kc_name (snd (probeAll api cs ad)) = filter (\<lambda>c. \<not> isl (probeCluster api c)) cs
   \<and> (\<forall>cl \<in> set (snd (probeAll api cs ad)). jm_get (ad_kubeconfigs (fst (probeAll api cs ad))) (kc_name cl) \<noteq> None)"
proof (induction cs arbitrary: ad)
  case (Cons c cs)
  show ?case
  proof (cases "probeCluster api c")
    case (Inl e)
    with Cons show ?thesis by simp
  next
    case (Inr cl)
    then obtain k where k: "kc_name cl = c" "createContextConfig api c = Inr k" using probeCluster_config by blast
    let ?ad = "ad\<lparr>ad_clusters := jm_set c cl (ad_clusters ad), ad_kubeconfigs := jm_set c k (ad_kubeconfigs ad)\<rparr>"
    have "jm_get (ad_kubeconfigs (fst (probeAll api cs ?ad))) c \<noteq> None" by (rule probeAll_keeps) simp
    with Cons [of ?ad] Inr k show ?thesis by (auto simp: case_prod_unfold Let_def)
  qed
qed simp

theorem discovered_clusters_usable:
  assumes "ka_contexts api = Some cs" and "discoverClusters api ad = (ad', r)"
  shows "map kc_name r = filter (\<lambda>c. \<not> isl (probeCluster api c)) cs \<and> (\<forall>cl \<in> set r. jm_get (ad_kubeconfigs ad') (kc_name cl) \<noteq> None)"
  using probeAll_usable [of api cs ad] assms by (simp add: discoverClusters_def)

end
