(* ===== verification/McpTools.thy ===== *)
theory McpTools
  imports HandlersProps Kubernetes
begin

text \<open>
  The tools a Claude session calls (\<open>src/mcp/tools.ts\<close>, the Kubernetes tools of
  \<open>src/plugins/kubernetes\<close>, \<open>src/plugins/cluster-tools\<close>) and the server that runs them
  (\<open>src/mcp/server.ts\<close>).

  A tool is a function of the components it reads and of its arguments; \<open>Inl\<close> is an
  exception, which the server turns into an error text. \<open>rpc\<close> is what \<open>GetClusterState\<close> at an
  address answers. Identifiers drawn at random are arguments. Points in time are given as
  numbers where the code prints them.
\<close>

section \<open>The leader's view\<close>

record LeaderState =
  ls_nodes :: "NodeInfo list"
  ls_leaderId :: "string option"
  ls_term :: int
  ls_clusterId :: string
  ls_activeTasks :: int
  ls_queuedTasks :: int

text \<open>A node of the answer; \<open>None\<close> when a number does not parse.\<close>

definition leaderNode :: "NodeProto \<Rightarrow> NodeInfo option" where
  "leaderNode p =
     (case np_resources p of
        None \<Rightarrow> protoToNode p
      | Some r \<Rightarrow> (case (protoToNode p, protoToResources r) of (Some n, Some x) \<Rightarrow> Some (n\<lparr>resources := Some x\<rparr>) | _ \<Rightarrow> None))"

definition parseLeaderState :: "ClusterProto \<Rightarrow> LeaderState option" where
  "parseLeaderState p =
     map_option (\<lambda>ns. \<lparr>ls_nodes = ns, ls_leaderId = (if cp_leader_id p = [] then None else Some (cp_leader_id p)),
       ls_term = nullish (parseInt (cp_term p)) 0, ls_clusterId = cp_cluster_id p, ls_activeTasks = cp_active_tasks p,
       ls_queuedTasks = cp_queued_tasks p\<rparr>) (those (map leaderNode (cp_nodes p)))"

text \<open>\<open>None\<close>: the local state is to be used. A node that is not in its own member list throws.\<close>

definition fetchLeaderState :: "(string \<Rightarrow> ClusterProto option) \<Rightarrow> MembershipManager \<Rightarrow> string + LeaderState option" where
  "fetchLeaderState rpc m =
     (if \<not> truthy (leaderAddress m) then Inr None
      else case getSelfNode m of
        None \<Rightarrow> Inl ''Cannot read properties of undefined''
      | Some me \<Rightarrow>
          if leaderAddress m = Some (address_of (tailscaleIp me) (grpcPort me)) then Inr None
          else Inr (Option.bind (rpc (the (leaderAddress m))) parseLeaderState))"

definition isMcpNode :: "NodeInfo \<Rightarrow> bool" where
  "isMcpNode n \<longleftrightarrow> endsWith (nodeId n) ''-mcp''"

text \<open>The sums of \<open>cluster_status\<close>; unlike those of \<open>state.ts\<close> they count every card and do not stop at zero.\<close>

definition toolTotal :: "NodeInfo list \<Rightarrow> ClusterResources" where
  "toolTotal ns = fold addTotal ns noResources"

definition addToolAvailable :: "NodeInfo \<Rightarrow> ClusterResources \<Rightarrow> ClusterResources" where
  "addToolAvailable n c =
     (case resources n of None \<Rightarrow> c
      | Some r \<Rightarrow> if status n \<noteq> Active then c
                  else \<lparr>cr_cpuCores = cr_cpuCores c + of_int (cpuCores r) * (1 - cpuUsagePercent r / 100),
                        cr_memoryBytes = cr_memoryBytes c + memoryAvailableBytes r,
                        cr_gpuCount = cr_gpuCount c + length (gpus r),
                        cr_gpuMemoryBytes = cr_gpuMemoryBytes c + fold (\<lambda>g s. s + gpu_memoryAvailableBytes g) (gpus r) 0\<rparr>)"

definition toolAvailable :: "NodeInfo list \<Rightarrow> ClusterResources" where
  "toolAvailable ns = fold addToolAvailable ns noResources"

definition cluster_status :: "(string \<Rightarrow> ClusterProto option) \<Rightarrow> ClusterStateManager \<Rightarrow> ClusterStateManager \<times> (string + ClusterView)" where
  "cluster_status rpc s =
     (case fetchLeaderState rpc (cs_membership s) of
        Inl e \<Rightarrow> (s, Inl e)
      | Inr (Some l) \<Rightarrow>
          (let ns = filter (\<lambda>n. \<not> isMcpNode n) (ls_nodes l)
           in (s, Inr \<lparr>cv_clusterId = ls_clusterId l, cv_leaderId = ls_leaderId l, cv_term = ls_term l, cv_nodes = ns,
                       cv_total = toolTotal ns, cv_available = toolAvailable ns,
                       cv_activeTasks = ls_activeTasks l, cv_queuedTasks = ls_queuedTasks l\<rparr>))
      | Inr None \<Rightarrow> (case getState s of (s', v) \<Rightarrow> (s', Inr v)))"

section \<open>Listing nodes\<close>

record ListedGpu =
  lg_name :: string
  lg_memoryGb :: string
  lg_utilization :: rat
  lg_gamingActive :: bool

record ListedResources =
  lr_cpuCores :: int
  lr_memoryGb :: string
  lr_memoryAvailableGb :: string
  lr_cpuUsagePercent :: string
  lr_gpus :: "ListedGpu list"
  lr_gamingDetected :: bool

record ListedNode =
  ln_nodeId :: string
  ln_hostname :: string
  ln_ip :: string
  ln_role :: string
  ln_status :: string
  ln_resources :: "ListedResources option"

definition gigabytes :: "int \<Rightarrow> string" where
  "gigabytes b = toFixed 1 (of_int b / 1024 ^ 3)"

definition listedNode :: "NodeInfo \<Rightarrow> ListedNode" where
  "listedNode n =
     \<lparr>ln_nodeId = nodeId n, ln_hostname = hostname n, ln_ip = tailscaleIp n, ln_role = roleName (role n), ln_status = statusName (status n),
      ln_resources = map_option (\<lambda>r.
        \<lparr>lr_cpuCores = cpuCores r, lr_memoryGb = gigabytes (memoryBytes r), lr_memoryAvailableGb = gigabytes (memoryAvailableBytes r),
         lr_cpuUsagePercent = toFixed 1 (cpuUsagePercent r),
         lr_gpus = map (\<lambda>g. \<lparr>lg_name = gpu_name g, lg_memoryGb = gigabytes (gpu_memoryBytes g), lg_utilization = utilizationPercent g,
                             lg_gamingActive = inUseForGaming g\<rparr>) (gpus r),
         lr_gamingDetected = gamingDetected r\<rparr>) (resources n)\<rparr>"

definition hasStatus :: "string option \<Rightarrow> NodeInfo \<Rightarrow> bool" where
  "hasStatus arg n \<longleftrightarrow> truthy arg \<longrightarrow> Some (statusName (status n)) = arg"

definition list_nodes :: "(string \<Rightarrow> ClusterProto option) \<Rightarrow> string option \<Rightarrow> MembershipManager \<Rightarrow> string + ListedNode list" where
  "list_nodes rpc arg m =
     (case fetchLeaderState rpc m of
        Inl e \<Rightarrow> Inl e
      | Inr (Some l) \<Rightarrow> Inr (map listedNode (filter (hasStatus arg) (filter (\<lambda>n. \<not> isMcpNode n) (ls_nodes l))))
      | Inr None \<Rightarrow> Inr (map listedNode (filter (\<lambda>n. \<not> isMcpNode n) (filter (hasStatus arg) (getAllNodes m)))))"

section \<open>Tasks\<close>

abbreviation noScheduler :: string where
  "noScheduler \<equiv> ''Legacy TaskScheduler disabled - use the task-engine plugin instead''"

record SubmitArgs =
  sm_type :: string
  sm_command :: "string option"
  sm_image :: "string option"
  sm_prompt :: "string option"
  sm_workingDirectory :: "string option"
  sm_targetNode :: "string option"
  sm_priority :: "int option"
  sm_requiresGpu :: "bool option"
  sm_avoidGamingNodes :: "bool option"

text \<open>The node and the session that submit.\<close>

type_synonym submitter = "string \<times> string"

definition blankTask :: "submitter \<Rightarrow> string \<Rightarrow> string \<Rightarrow> SchedTask" where
  "blankTask me i ty =
     \<lparr>st_taskId = i, st_type = ty, st_submitterNode = fst me, st_submitterSession = Some (snd me), st_shell = None, st_container = None,
      st_subagent = None, st_k8sJob = None, st_claudeRelay = None, st_requirements = None, st_constraints = None, st_priority = None,
      st_timeoutMs = None, st_environment = None, st_targetNodes = None\<rparr>"

definition submitSpec :: "submitter \<Rightarrow> string \<Rightarrow> SubmitArgs \<Rightarrow> string + SchedTask" where
  "submitSpec me i a =
     (let t = (blankTask me i (sm_type a))\<lparr>st_priority := Some (nullish (sm_priority a) 5),
            st_requirements := Some \<lparr>rq_cpuCores = None, rq_memoryBytes = None, rq_requiresGpu = nullish (sm_requiresGpu a) False, rq_gpuMemoryBytes = None\<rparr>,
            st_constraints := Some \<lparr>allowedNodes = None, excludedNodes = None, preferLocal = False, avoidGamingNodes = nullish (sm_avoidGamingNodes a) False\<rparr>,
            st_targetNodes := (if truthy (sm_targetNode a) then Some [the (sm_targetNode a)] else None)\<rparr>
      in if sm_type a = ''shell''
         then (if \<not> truthy (sm_command a) then Inl ''Shell task requires command''
               else Inr (t\<lparr>st_shell := Some \<lparr>sh_command = the (sm_command a), sh_workingDirectory = sm_workingDirectory a, sh_sandboxed = None\<rparr>\<rparr>))
         else if sm_type a = ''container''
         then (if \<not> truthy (sm_image a) then Inl ''Container task requires image''
               else Inr (t\<lparr>st_container := Some \<lparr>co_image = the (sm_image a),
                      co_command = (if truthy (sm_command a) then Some [the (sm_command a)] else None), co_args = None, co_labels = None, co_mounts = None\<rparr>\<rparr>))
         else if sm_type a = ''subagent''
         then (if \<not> truthy (sm_prompt a) then Inl ''Subagent task requires prompt''
               else Inr (t\<lparr>st_subagent := Some \<lparr>sa_prompt = the (sm_prompt a), sa_model = None, sa_tools = None, sa_contextSummary = None, sa_maxTurns = None\<rparr>\<rparr>))
         else Inr t)"

text \<open>The scheduler with what it needs from outside, as a function from a task to its reply.\<close>

type_synonym submitter_fn = "SchedTask \<Rightarrow> TaskScheduler \<Rightarrow> TaskScheduler \<times> SubmitReply option"

datatype ToolError = Thrown string | ErrorResult string

definition submit_task :: "submitter_fn \<Rightarrow> submitter \<Rightarrow> string \<Rightarrow> SubmitArgs \<Rightarrow> TaskScheduler option \<Rightarrow> TaskScheduler option \<times> (ToolError + SubmitReply)" where
  "submit_task sub me i a sch =
     (case submitSpec me i a of
        Inl e \<Rightarrow> (sch, Inl (Thrown e))
      | Inr t \<Rightarrow>
          (case sch of
             None \<Rightarrow> (None, Inl (ErrorResult noScheduler))
           | Some s \<Rightarrow> (case sub t s of
                          (s', None) \<Rightarrow> (Some s', Inl (Thrown ''Cannot read properties of undefined''))
                        | (s', Some r) \<Rightarrow> (Some s', Inr (r\<lparr>sr_taskId := i\<rparr>)))))"

definition get_task_result :: "string \<Rightarrow> TaskScheduler option \<Rightarrow> ToolError + SchedStatus" where
  "get_task_result i sch =
     (case sch of
        None \<Rightarrow> Inl (ErrorResult noScheduler)
      | Some s \<Rightarrow> (case getStatus i s of None \<Rightarrow> Inl (ErrorResult ''Task not found'') | Some x \<Rightarrow> Inr x))"

text \<open>Submissions one after the other, with the replies in order; \<open>None\<close>: one of the promises is rejected.\<close>

fun submitAll :: "submitter_fn \<Rightarrow> SchedTask list \<Rightarrow> TaskScheduler \<Rightarrow> TaskScheduler \<times> SubmitReply list option" where
  "submitAll sub [] s = (s, Some [])"
| "submitAll sub (t # ts) s =
     (case sub t s of
        (s1, r) \<Rightarrow> (case submitAll sub ts s1 of
                      (s2, rs) \<Rightarrow> (s2, (case (r, rs) of (Some x, Some xs) \<Rightarrow> Some (x # xs) | _ \<Rightarrow> None))))"

definition distributedTasks :: "submitter \<Rightarrow> (nat \<Rightarrow> string) \<Rightarrow> string \<Rightarrow> string list \<Rightarrow> SchedTask list" where
  "distributedTasks me uuid command nodes =
     map (\<lambda>(k, n). (blankTask me (uuid k) ''shell'')\<lparr>st_shell := Some \<lparr>sh_command = command, sh_workingDirectory = None, sh_sandboxed = None\<rparr>,
            st_targetNodes := Some [n]\<rparr>) (enumerate 0 nodes)"

definition targetNodesOf :: "string list option \<Rightarrow> MembershipManager \<Rightarrow> string list" where
  "targetNodesOf nodes m = (if nullish nodes [] = [] then map nodeId (getActiveNodes m) else the nodes)"

definition run_distributed :: "submitter_fn \<Rightarrow> submitter \<Rightarrow> (nat \<Rightarrow> string) \<Rightarrow> string \<Rightarrow> string list option \<Rightarrow> TaskScheduler option
    \<Rightarrow> TaskScheduler option \<times> (ToolError + (string \<times> string \<times> bool) list)" where
  "run_distributed sub me uuid command nodes sch =
     (case sch of
        None \<Rightarrow> (None, Inl (ErrorResult noScheduler))
      | Some s \<Rightarrow>
          (let ns = targetNodesOf nodes (membership s); ts = distributedTasks me uuid command ns
           in case submitAll sub ts s of
                (s', None) \<Rightarrow> (Some s', Inl (Thrown ''Cannot read properties of undefined''))
              | (s', Some rs) \<Rightarrow> (Some s', Inr (zip ns (zip (map st_taskId ts) (map sr_accepted rs))))))"

definition agentTasks :: "submitter \<Rightarrow> (nat \<Rightarrow> string) \<Rightarrow> string \<Rightarrow> nat \<Rightarrow> string option \<Rightarrow> SchedTask list" where
  "agentTasks me uuid prompt n summary =
     map (\<lambda>k. (blankTask me (uuid k) ''subagent'')\<lparr>st_subagent := Some \<lparr>sa_prompt = ''Agent '' @ show_nat (k + 1) @ ''/'' @ show_nat n @ '': '' @ prompt,
            sa_model = None, sa_tools = None, sa_contextSummary = summary, sa_maxTurns = None\<rparr>\<rparr>) [0..<n]"

definition dispatch_subagents :: "submitter_fn \<Rightarrow> submitter \<Rightarrow> (nat \<Rightarrow> string) \<Rightarrow> string \<Rightarrow> nat \<Rightarrow> string option \<Rightarrow> TaskScheduler option
    \<Rightarrow> TaskScheduler option \<times> (ToolError + nat \<times> SubmitReply list)" where
  "dispatch_subagents sub me uuid prompt n summary sch =
     (case sch of
        None \<Rightarrow> (None, Inl (ErrorResult noScheduler))
      | Some s \<Rightarrow>
          (case submitAll sub (agentTasks me uuid prompt n summary) s of
             (s', None) \<Rightarrow> (Some s', Inl (Thrown ''Cannot read properties of undefined''))
           | (s', Some rs) \<Rightarrow> (Some s', Inr (length (filter sr_accepted rs), rs))))"

definition relay_to_session :: "submitter_fn \<Rightarrow> submitter \<Rightarrow> string \<Rightarrow> string \<Rightarrow> string \<Rightarrow> bool \<Rightarrow> ClusterStateManager \<Rightarrow> TaskScheduler option
    \<Rightarrow> TaskScheduler option \<times> (ToolError + string \<times> bool)" where
  "relay_to_session sub me i target message withContext cs sch =
     (case sch of
        None \<Rightarrow> (None, Inl (ErrorResult noScheduler))
      | Some s \<Rightarrow>
          (let t = (blankTask me i ''claude_relay'')\<lparr>st_claudeRelay := Some \<lparr>cr_targetSessionId = target, cr_prompt = message,
                 cr_fullContext = (if withContext then Option.bind (getSession (snd me) cs) contextSummary else None), cr_awaitResponse = Some True\<rparr>\<rparr>
           in case sub t s of
                (s', None) \<Rightarrow> (Some s', Inl (Thrown ''Cannot read properties of undefined''))
              | (s', Some r) \<Rightarrow> (Some s', Inr (i, sr_accepted r))))"

section \<open>Nodes, sessions and context\<close>

datatype ScaleReply = HowToAdd | Removal bool string bool

definition scale_cluster :: "(MembershipEntry \<Rightarrow> string) \<Rightarrow> string \<Rightarrow> string option \<Rightarrow> MembershipManager \<Rightarrow> MembershipManager \<times> (string + ScaleReply)" where
  "scale_cluster json action node m =
     (if action = ''add'' then (m, Inr HowToAdd)
      else if action = ''remove'' \<or> action = ''drain''
      then (if \<not> truthy node then (m, Inl (action @ '' requires nodeId''))
            else case removeNode json (the node) (action = ''drain'') m of
                   (m', ok) \<Rightarrow> (m', Inr (Removal ok (the node) (action = ''drain''))))
      else (m, Inl (''Unknown action: '' @ action)))"

record ListedSession =
  lse_sessionId :: string
  lse_nodeId :: string
  lse_project :: string
  lse_workingDirectory :: string
  lse_startedAt :: int
  lse_lastActive :: int
  lse_contextSummary :: "string option"

definition list_sessions :: "string option \<Rightarrow> string option \<Rightarrow> ClusterStateManager \<Rightarrow> ListedSession list" where
  "list_sessions project node s =
     map (\<lambda>x. \<lparr>lse_sessionId = sessionId x, lse_nodeId = s_nodeId x, lse_project = s_project x, lse_workingDirectory = workingDirectory x,
               lse_startedAt = startedAt x, lse_lastActive = lastActive x, lse_contextSummary = contextSummary x\<rparr>) (getSessions project node True s)"

definition publish_context :: "submitter \<Rightarrow> string \<Rightarrow> int \<Rightarrow> ContextType \<Rightarrow> string \<Rightarrow> string \<Rightarrow> ContextVisibility option
    \<Rightarrow> ClusterStateManager \<Rightarrow> ClusterStateManager \<times> string" where
  "publish_context me i now ty k v vis s =
     (publishContext \<lparr>entryId = i, ce_sessionId = snd me, ce_nodeId = fst me, ce_project = nullish (map_option s_project (getSession (snd me) s)) [],
        ce_type = ty, ce_key = k, ce_value = v, ce_timestamp = now, vectorClock = now, visibility = nullish vis VisCluster\<rparr> s, i)"

record ListedContext =
  lc_entryId :: string
  lc_type :: ContextType
  lc_key :: string
  lc_value :: string
  lc_project :: string
  lc_sessionId :: string
  lc_timestamp :: int

definition query_context :: "submitter \<Rightarrow> string option \<Rightarrow> ContextType list option \<Rightarrow> int option \<Rightarrow> ClusterStateManager \<Rightarrow> ListedContext list" where
  "query_context me project types lmt s =
     map (\<lambda>e. \<lparr>lc_entryId = entryId e, lc_type = ce_type e, lc_key = ce_key e, lc_value = ce_value e, lc_project = ce_project e,
               lc_sessionId = ce_sessionId e, lc_timestamp = ce_timestamp e\<rparr>)
       (queryContext \<lparr>projectFilter = project, typeFilter = types, sinceTimestamp = None, limit = Some (nullish lmt 20), q_sessionId = Some (snd me)\<rparr> s)"

datatype TransferReply = NotLeader "string option" | SteppedDown int | StepDownFailed

definition transfer_leadership :: "RaftNode \<Rightarrow> RaftNode \<times> TransferReply" where
  "transfer_leadership n =
     (if \<not> isLeader n then (n, NotLeader (leaderId n))
      else case Raft.stepDown n of (n', ok) \<Rightarrow> (n', if ok then SteppedDown (currentTerm n) else StepDownFailed))"

section \<open>Kubernetes\<close>

record ListedCluster =
  lk_name :: string
  lk_type :: ClusterType
  lk_nodes :: nat
  lk_totalCpu :: "rat option"
  lk_totalMemoryGb :: string
  lk_gpuNodes :: nat

definition gigabytesOf :: "int option \<Rightarrow> string" where
  "gigabytesOf b = (case b of None \<Rightarrow> ''NaN'' | Some x \<Rightarrow> gigabytes x)"

definition k8s_list_clusters :: "'k KubernetesAdapter \<Rightarrow> ListedCluster list" where
  "k8s_list_clusters ad =
     map (\<lambda>c. \<lparr>lk_name = kc_name c, lk_type = kc_type c, lk_nodes = length (kc_nodes c), lk_totalCpu = kc_totalCpu c,
               lk_totalMemoryGb = gigabytesOf (kc_totalMemory c), lk_gpuNodes = kc_gpuNodes c\<rparr>) (listClusters ad)"

record JobArgs =
  ja_cluster :: string
  ja_image :: string
  ja_command :: "string list option"
  ja_namespace :: "string option"
  ja_cpuLimit :: "string option"
  ja_memoryLimit :: "string option"
  ja_gpuLimit :: "int option"

definition jobSpec :: "int \<Rightarrow> JobArgs \<Rightarrow> K8sJobSpec" where
  "jobSpec now a =
     \<lparr>js_name = ''cortex-'' @ show_int now, js_namespace = ja_namespace a, js_image = ja_image a, js_command = ja_command a, js_args = None,
      js_env = None, js_cpuRequest = None, js_memoryRequest = None, js_cpuLimit = ja_cpuLimit a, js_memoryLimit = ja_memoryLimit a,
      js_gpuLimit = ja_gpuLimit a, js_labels = None, js_annotations = None, js_ttl = None, js_backoffLimit = None\<rparr>"

definition k8s_submit_job :: "'k KubeApi \<Rightarrow> int \<Rightarrow> JobArgs \<Rightarrow> 'k KubernetesAdapter \<Rightarrow> string + string \<times> string \<times> string" where
  "k8s_submit_job api now a ad =
     (case submitJob api (ja_cluster a) (jobSpec now a) ad of
        Inl e \<Rightarrow> Inl e
      | Inr n \<Rightarrow> Inr (n, ja_cluster a, nullish (ja_namespace a) ''default''))"

definition k8s_get_resources :: "'k KubeApi \<Rightarrow> string \<Rightarrow> 'k KubernetesAdapter \<Rightarrow> string + rat option \<times> string \<times> rat option \<times> string \<times> int option \<times> nat" where
  "k8s_get_resources api c ad =
     (case getClusterResources api c ad of
        None \<Rightarrow> Inl ''Cluster not found or inaccessible''
      | Some r \<Rightarrow> Inr (kr_totalCpu r, gigabytesOf (kr_totalMemory r), kr_allocatableCpu r, gigabytesOf (kr_allocatableMemory r), kr_gpuCount r, kr_runningPods r))"

definition k8s_scale :: "'k KubeApi \<Rightarrow> string \<Rightarrow> string \<Rightarrow> int \<Rightarrow> string option \<Rightarrow> 'k KubernetesAdapter \<Rightarrow> bool \<times> string \<times> int" where
  "k8s_scale api c d replicas ns ad = (scaleDeployment api c d replicas ns ad, d, replicas)"

section \<open>The server\<close>

text \<open>
  A tool of the server acts on a world \<open>'w\<close> and returns the text of its result, or throws;
  a resource is read from the world.
\<close>

record 'w McpTool =
  mt_description :: string
  mt_run :: "string \<Rightarrow> 'w \<Rightarrow> 'w \<times> (string + string)"

record 'w McpResource =
  mr_uri :: string
  mr_name :: string
  mr_mimeType :: string
  mr_read :: "'w \<Rightarrow> 'w \<times> (string + string)"

record 'w McpServer =
  ms_tools :: "(string, 'w McpTool) jsmap"
  ms_resources :: "(string, 'w McpResource) jsmap"

record CallReply =
  cl_text :: string
  cl_isError :: bool

definition listTools :: "'w McpServer \<Rightarrow> (string \<times> string) list" where
  "listTools s = map (\<lambda>(n, t). (n, mt_description t)) (ms_tools s)"

definition callTool :: "string \<Rightarrow> string option \<Rightarrow> 'w McpServer \<Rightarrow> 'w \<Rightarrow> 'w \<times> CallReply" where
  "callTool name args s w =
     (case jm_get (ms_tools s) name of
        None \<Rightarrow> (w, \<lparr>cl_text = ''Unknown tool: '' @ name, cl_isError = True\<rparr>)
      | Some t \<Rightarrow> (case mt_run t (nullish args ''{}'') w of
                     (w', Inr r) \<Rightarrow> (w', \<lparr>cl_text = r, cl_isError = False\<rparr>)
                   | (w', Inl e) \<Rightarrow> (w', \<lparr>cl_text = ''Error: '' @ e, cl_isError = True\<rparr>)))"

definition listResources :: "'w McpServer \<Rightarrow> (string \<times> string \<times> string) list" where
  "listResources s = map (\<lambda>(_, r). (mr_uri r, mr_name r, mr_mimeType r)) (ms_resources s)"

text \<open>The media type and the text; \<open>Inl\<close>: the request fails.\<close>

definition readResource :: "string \<Rightarrow> 'w McpServer \<Rightarrow> 'w \<Rightarrow> 'w \<times> (string + string \<times> string)" where
  "readResource uri s w =
     (case jm_get (ms_resources s) uri of
        None \<Rightarrow> (w, Inr (''text/plain'', ''Unknown resource: '' @ uri))
      | Some r \<Rightarrow> (case mr_read r w of (w', Inl e) \<Rightarrow> (w', Inl e) | (w', Inr x) \<Rightarrow> (w', Inr (mr_mimeType r, x))))"

definition updateToolsAndResources :: "(string, 'w McpTool) jsmap \<Rightarrow> (string, 'w McpResource) jsmap \<Rightarrow> 'w McpServer \<Rightarrow> 'w McpServer" where
  "updateToolsAndResources ts rs s =
     s\<lparr>ms_tools := fold (\<lambda>(n, t). jm_set n t) ts (ms_tools s), ms_resources := fold (\<lambda>(u, r). jm_set u r) rs (ms_resources s)\<rparr>"

end
