(* ===== verification/McpToolsProps.thy ===== *)
theory McpToolsProps
  imports McpTools
begin

text \<open>
  Properties of the tools: a follower that asks the leader answers as the leader would,
  published context can be queried by those who may see it, a command run everywhere is
  queued once for every active node, and the server answers every call.
\<close>

section \<open>Asking the leader\<close>

lemma leaderNode_toProto: "known n \<Longrightarrow> leaderNode (nodeToProto n) = Some n"
proof -
  assume k: "known n"
  then have "protoToNode (nodeToProto n) = Some (n\<lparr>resources := None\<rparr>)"
    using proto_known by (simp add: protoToNode_resources)
  then show ?thesis
  proof (cases "resources n")
    case None
    then have "np_resources (nodeToProto n) = None" "n\<lparr>resources := None\<rparr> = n" by (simp_all add: nodeToProto_def)
    with \<open>protoToNode (nodeToProto n) = _\<close> show ?thesis by (simp add: leaderNode_def)
  next
    case (Some r)
    then have "np_resources (nodeToProto n) = Some (resourcesToProto r)" "n\<lparr>resources := Some r\<rparr> = n" by (simp_all add: nodeToProto_def)
    with \<open>protoToNode (nodeToProto n) = _\<close> show ?thesis by (simp add: leaderNode_def protoToResources_toProto)
  qed
qed

lemma those_known: "\<forall>n \<in> set ns. known n \<Longrightarrow> those (map leaderNode (map nodeToProto ns)) = Some ns"
  by (induction ns) (auto simp: leaderNode_toProto)

text \<open>
  The leader's list as its answer over the wire shows it: \<open>GetClusterState\<close> reports as active
  every node that Raft replication shows alive, whatever its status is.
\<close>

definition corrected :: "ClusterStateManager \<Rightarrow> NodeInfo \<Rightarrow> NodeInfo" where
  "corrected s n = (if nodeId n \<in> set (raftAlive (raft (cs_membership s))) then n\<lparr>status := Active\<rparr> else n)"

definition knownView :: "ClusterStateManager \<Rightarrow> bool" where
  "knownView s \<longleftrightarrow> list_all known (cv_nodes (snd (getState s)))"

text \<open>No status is corrected: the nodes alive for replication are active in the leader's own list.\<close>

definition settled :: "ClusterStateManager \<Rightarrow> bool" where
  "settled s \<longleftrightarrow> (\<forall>n \<in> set (cv_nodes (snd (getState s))). nodeId n \<in> set (raftAlive (raft (cs_membership s))) \<longrightarrow> status n = Active)"

lemma settled_corrected: "settled s \<Longrightarrow> map (corrected s) (cv_nodes (snd (getState s))) = cv_nodes (snd (getState s))"
  by (auto simp: settled_def corrected_def intro!: map_idI)

lemma corrected_sel [simp]:
  "nodeId (corrected s n) = nodeId n" "resources (corrected s n) = resources n" "isMcpNode (corrected s n) = isMcpNode n"
  by (simp_all add: corrected_def isMcpNode_def)

lemma leader_answer:
  assumes "knownView s"
  shows "parseLeaderState (snd (GetClusterState s)) =
    (let v = snd (getState s)
     in Some \<lparr>ls_nodes = map (corrected s) (cv_nodes v), ls_leaderId = (if truthy (cv_leaderId v) then cv_leaderId v else None),
              ls_term = cv_term v, ls_clusterId = cv_clusterId v, ls_activeTasks = cv_activeTasks v, ls_queuedTasks = cv_queuedTasks v\<rparr>)"
proof -
  let ?v = "snd (getState s)"
  have "cp_nodes (snd (GetClusterState s)) = map nodeToProto (map (corrected s) (cv_nodes ?v))"
    by (simp add: GetClusterState_def corrected_def Let_def case_prod_unfold)
  moreover have "\<forall>n \<in> set (map (corrected s) (cv_nodes ?v)). known n"
    using assms by (auto simp: knownView_def corrected_def known_def list_all_iff)
  ultimately have "those (map leaderNode (cp_nodes (snd (GetClusterState s)))) = Some (map (corrected s) (cv_nodes ?v))"
    by (simp only: those_known)
  moreover have "cp_leader_id (snd (GetClusterState s)) = nullish (cv_leaderId ?v) []" "cp_term (snd (GetClusterState s)) = show_int (cv_term ?v)"
    "cp_cluster_id (snd (GetClusterState s)) = cv_clusterId ?v" "cp_active_tasks (snd (GetClusterState s)) = cv_activeTasks ?v"
    "cp_queued_tasks (snd (GetClusterState s)) = cv_queuedTasks ?v"
    by (simp_all add: GetClusterState_def Let_def case_prod_unfold)
  ultimately show ?thesis
    by (auto simp: parseLeaderState_def Let_def parseInt_show nullish_def truthy_def split: option.splits)
qed

text \<open>A follower: it knows another node's address as the leader's, and the leader answers there.\<close>

definition asks :: "(string \<Rightarrow> ClusterProto option) \<Rightarrow> MembershipManager \<Rightarrow> ClusterStateManager \<Rightarrow> bool" where
  "asks rpc m s \<longleftrightarrow> (\<exists>a me. leaderAddress m = Some a \<and> a \<noteq> [] \<and> getSelfNode m = Some me
     \<and> a \<noteq> address_of (tailscaleIp me) (grpcPort me) \<and> rpc a = Some (snd (GetClusterState s)))"

lemma asks_fetch: "asks rpc m s \<Longrightarrow> fetchLeaderState rpc m = Inr (parseLeaderState (snd (GetClusterState s)))"
  by (auto simp: asks_def fetchLeaderState_def truthy_def)

text \<open>The leader: the leader's address it knows is its own, or it knows none.\<close>

definition isOwnLeader :: "MembershipManager \<Rightarrow> bool" where
  "isOwnLeader m \<longleftrightarrow> \<not> truthy (leaderAddress m)
     \<or> (\<exists>me. getSelfNode m = Some me \<and> leaderAddress m = Some (address_of (tailscaleIp me) (grpcPort me)))"

lemma own_fetch: "isOwnLeader m \<Longrightarrow> fetchLeaderState rpc m = Inr None"
  by (auto simp: isOwnLeader_def fetchLeaderState_def truthy_def)

lemma addAvailable_plain:
  assumes "\<And>r. resources n = Some r \<Longrightarrow> 0 \<le> cpuCores r \<and> cpuUsagePercent r \<le> 100 \<and> (\<forall>g \<in> set (gpus r). \<not> inUseForGaming g)"
  shows "addToolAvailable n c = addAvailable n c"
proof (cases "resources n")
  case (Some r)
  have sum_acc: "fold (\<lambda>g s. s + gpu_memoryAvailableBytes g) gs (x + y) = x + fold (\<lambda>g s. s + gpu_memoryAvailableBytes g) gs y" for gs x y
    by (induction gs arbitrary: y) (auto simp: add.assoc)
  have "fold addGpu gs d = d\<lparr>cr_gpuCount := cr_gpuCount d + length gs,
      cr_gpuMemoryBytes := cr_gpuMemoryBytes d + fold (\<lambda>g s. s + gpu_memoryAvailableBytes g) gs 0\<rparr>"
    if "\<forall>g \<in> set gs. \<not> inUseForGaming g" for gs d
    using that
  proof (induction gs arbitrary: d)
    case (Cons g gs)
    then show ?case using sum_acc [of gs "gpu_memoryAvailableBytes g" 0] by (cases d) (simp add: addGpu_def)
  qed simp
  moreover have "0 \<le> of_int (cpuCores r) * (1 - cpuUsagePercent r / 100)" using assms [OF Some] by (intro mult_nonneg_nonneg) auto
  ultimately show ?thesis using Some assms [OF Some] by (cases c) (simp add: addToolAvailable_def addAvailable_def max_def)
qed (simp add: addToolAvailable_def addAvailable_def)

lemma toolAvailable_plain:
  assumes "\<forall>n \<in> set ns. \<forall>r. resources n = Some r \<longrightarrow> 0 \<le> cpuCores r \<and> cpuUsagePercent r \<le> 100 \<and> (\<forall>g \<in> set (gpus r). \<not> inUseForGaming g)"
  shows "toolAvailable ns = calculateAvailableResources ns"
proof -
  have "fold addToolAvailable ns c = fold addAvailable ns c" for c
    by (rule fold_cong) (auto intro!: ext addAvailable_plain simp: assms)
  then show ?thesis by (simp add: toolAvailable_def calculateAvailableResources_def)
qed

text \<open>
  C15. What a follower's \<open>cluster_status\<close>, taken from the leader over the wire, is compared
  with the leader's own at that moment, for a leader that is told to be the leader by its
  consensus module and knows no other leader's address, and whose list has only roles and
  statuses the wire format knows: cluster, leader, term and task counts are the same; the
  nodes are the same, in the same order, except that those alive for replication are shown
  as active whatever their status is and that processes of sessions (\<open>-mcp\<close>) are left out;
  and the resource sums are those of the nodes shown. So the two answers are equal when
  the nodes alive are active, no session's process is listed, no card is in use for a game
  and no processor is reported busier than it can be.
\<close>

theorem cluster_status_agrees:
  assumes "knownView s" and "asks rpc (cs_membership f) s" and "isOwnLeader (cs_membership s)" and "truthy (leaderId (raft (cs_membership s)))"
  shows "\<exists>v. snd (cluster_status rpc' s) = Inr v
    \<and> (let shown = filter (\<lambda>n. \<not> isMcpNode n) (map (corrected s) (cv_nodes v))
       in snd (cluster_status rpc f) = Inr (v\<lparr>cv_nodes := shown, cv_total := toolTotal shown, cv_available := toolAvailable shown\<rparr>))
    \<and> (settled s \<and> (\<forall>n \<in> set (cv_nodes v). \<not> isMcpNode n \<and> (\<forall>r. resources n = Some r \<longrightarrow>
           0 \<le> cpuCores r \<and> cpuUsagePercent r \<le> 100 \<and> (\<forall>g \<in> set (gpus r). \<not> inUseForGaming g)))
       \<longrightarrow> snd (cluster_status rpc f) = Inr v)"
proof (intro exI conjI impI)
  let ?v = "snd (getState s)"
  let ?shown = "filter (\<lambda>n. \<not> isMcpNode n) (map (corrected s) (cv_nodes ?v))"
  have lead: "cv_leaderId ?v = leaderId (raft (cs_membership s))" by (simp add: getState_def Let_def)
  show own: "snd (cluster_status rpc' s) = Inr ?v" by (simp add: cluster_status_def own_fetch [OF assms(3)] case_prod_unfold)
  have "snd (cluster_status rpc f) = Inr (?v\<lparr>cv_nodes := ?shown, cv_total := toolTotal ?shown, cv_available := toolAvailable ?shown\<rparr>)"
    using assms(4) by (simp add: cluster_status_def asks_fetch [OF assms(2)] leader_answer [OF assms(1)] Let_def lead)
  then show fol: "let shown = ?shown in
      snd (cluster_status rpc f) = Inr (?v\<lparr>cv_nodes := shown, cv_total := toolTotal shown, cv_available := toolAvailable shown\<rparr>)"
    by (simp only: Let_def)
  assume plain: "settled s \<and> (\<forall>n \<in> set (cv_nodes ?v). \<not> isMcpNode n \<and> (\<forall>r. resources n = Some r \<longrightarrow>
           0 \<le> cpuCores r \<and> cpuUsagePercent r \<le> 100 \<and> (\<forall>g \<in> set (gpus r). \<not> inUseForGaming g)))"
  then have "?shown = cv_nodes ?v" by (simp add: settled_corrected filter_id_conv)
  moreover have "cv_available ?v = toolAvailable (cv_nodes ?v)" using plain toolAvailable_plain [of "cv_nodes ?v"]
    by (simp add: getState_def Let_def)
  moreover have "cv_total ?v = toolTotal (cv_nodes ?v)" by (simp add: getState_def Let_def toolTotal_def calculateTotalResources_def)
  ultimately show "snd (cluster_status rpc f) = Inr ?v" using fol by (cases ?v) (simp add: Let_def)
qed

definition ex_follower :: MembershipManager where
  "ex_follower = (new_MembershipManager 0 ''f'' ''h'' ''10.0.0.2'' 7 None True (new_RaftNode
     \<lparr>c_nodeId = ''f'', c_maxLogEntriesPerAppend = None, c_nonVoting = False, c_dataDir = None, c_writable = True\<rparr> NoFile))\<lparr>leaderAddress := Some ''10.0.0.1:7''\<rparr>"

lemma ex_view_nodes: "cv_nodes (snd (getState ex_view)) = [(freshNode 0 ''l'' ''h'' ''10.0.0.1'' 7 [])\<lparr>role := RoleLeader\<rparr>]"
  by (simp add: getState_def ex_view_def new_ClusterStateManager_def new_MembershipManager_def new_RaftNode_def truthy_def Let_def getAllNodes_def
      jm_values_def jm_map_def jm_set_def reconcileRole_def freshNode_def)

lemma show_seven: "show_nat 7 = ''7''"
  by code_simp

lemma cluster_status_agrees_witness:
  "\<exists>v. snd (cluster_status (\<lambda>a. if a = ''10.0.0.1:7'' then Some (snd (GetClusterState ex_view)) else None) (new_ClusterStateManager ''c'' ex_follower)) = Inr v
     \<and> snd (cluster_status (\<lambda>_. None) ex_view) = Inr v"
proof -
  let ?rpc = "\<lambda>a. if a = ''10.0.0.1:7'' then Some (snd (GetClusterState ex_view)) else None"
  let ?f = "new_ClusterStateManager ''c'' ex_follower"
  have "knownView ex_view" by (simp add: knownView_def ex_view_nodes known_def freshNode_def)
  moreover have "asks ?rpc (cs_membership ?f) ex_view"
    by (simp add: asks_def new_ClusterStateManager_def ex_follower_def new_MembershipManager_def getSelfNode_def jm_laws freshNode_def address_of_def)
  moreover have own: "isOwnLeader (cs_membership ex_view)"
    by (simp add: isOwnLeader_def ex_view_def new_ClusterStateManager_def new_MembershipManager_def truthy_def)
  moreover have "truthy (leaderId (raft (cs_membership ex_view)))"
    by (simp add: ex_view_def new_ClusterStateManager_def new_MembershipManager_def truthy_def)
  ultimately obtain v where v: "snd (cluster_status (\<lambda>_. None) ex_view) = Inr v"
    "settled ex_view \<and> (\<forall>n \<in> set (cv_nodes v). \<not> isMcpNode n \<and> (\<forall>r. resources n = Some r \<longrightarrow>
           0 \<le> cpuCores r \<and> cpuUsagePercent r \<le> 100 \<and> (\<forall>g \<in> set (gpus r). \<not> inUseForGaming g)))
       \<longrightarrow> snd (cluster_status ?rpc ?f) = Inr v"
    using cluster_status_agrees [of ex_view ?rpc ?f "\<lambda>_. None"] by blast
  have "v = snd (getState ex_view)" using v(1) own by (simp add: cluster_status_def own_fetch case_prod_unfold)
  moreover have "settled ex_view" by (simp add: settled_def ex_view_nodes freshNode_def)
  ultimately show ?thesis using v by (auto simp: ex_view_nodes isMcpNode_def endsWith_def freshNode_def)
qed

text \<open>A card in use for a game is available for a follower and not for the leader.\<close>

theorem gaming_card_counted:
  assumes "resources n = Some r" and "status n = Active" and "gpus r = [g]" and "inUseForGaming g"
  shows "cr_gpuCount (toolAvailable [n]) = 1 \<and> cr_gpuCount (calculateAvailableResources [n]) = 0"
  using assms by (simp add: toolAvailable_def addToolAvailable_def calculateAvailableResources_def addAvailable_def addGpu_def noResources_def)

text \<open>The same for \<open>list_nodes\<close>, with no condition on the resources.\<close>

theorem list_nodes_agrees:
  assumes "knownView s" and "settled s" and "asks rpc m s" and "isOwnLeader (cs_membership (fst (getState s)))"
  shows "list_nodes rpc arg m = list_nodes rpc' arg (cs_membership (fst (getState s)))"
proof -
  have "getAllNodes (cs_membership (fst (getState s))) = cv_nodes (snd (getState s))" by (simp add: getState_def Let_def)
  then show ?thesis
    by (simp add: list_nodes_def asks_fetch [OF assms(3)] leader_answer [OF assms(1)] settled_corrected [OF assms(2)] own_fetch [OF assms(4)] Let_def conj_commute)
qed

section \<open>Context\<close>

lemma jm_values_set_new: "jm_get m i = None \<Longrightarrow> jm_values (jm_set i e m) = jm_values m @ [e]"
  by (induction m) (auto simp: jm_get_def jm_set_def jm_values_def split: if_splits)

lemma js_slice_first: "0 < k \<Longrightarrow> js_slice (x # xs) 0 k = x # take (nat k - 1) xs"
  by (cases "nat k") (auto simp: js_slice_def js_rel_def Let_def min_def)

text \<open>Who the entry that a session publishes is for.\<close>

definition may_read :: "submitter \<Rightarrow> submitter \<Rightarrow> ContextVisibility option \<Rightarrow> ClusterStateManager \<Rightarrow> bool" where
  "may_read me reader vis s \<longleftrightarrow>
     (case vis of
        Some VisSession \<Rightarrow> snd reader = snd me
      | Some VisProject \<Rightarrow> (\<exists>x y. getSession (snd me) s = Some x \<and> getSession (snd reader) s = Some y \<and> s_project x = s_project y)
      | _ \<Rightarrow> True)"

text \<open>
  What a session publishes, the others can query: right after the publication, the first
  entry of an unfiltered query by a session that may read it is the published one, with
  its type, key and value, whatever positive number of entries is asked for.
\<close>

theorem published_context_found:
  assumes "jm_wf (contextStore s)" and "jm_get (contextStore s) i = None" and "\<forall>e \<in> set (jm_values (contextStore s)). ce_timestamp e < now"
    and "snd reader \<noteq> []" and "may_read me reader vis s" and "0 < nullish lmt 20"
  shows "\<exists>rest. query_context reader None None lmt (fst (publish_context me i now ty k v vis s))
    = \<lparr>lc_entryId = i, lc_type = ty, lc_key = k, lc_value = v, lc_project = nullish (map_option s_project (getSession (snd me) s)) [],
       lc_sessionId = snd me, lc_timestamp = now\<rparr> # rest"
proof -
  let ?e = "\<lparr>entryId = i, ce_sessionId = snd me, ce_nodeId = fst me, ce_project = nullish (map_option s_project (getSession (snd me) s)) [],
        ce_type = ty, ce_key = k, ce_value = v, ce_timestamp = now, vectorClock = now, visibility = nullish vis VisCluster\<rparr>"
  let ?s = "fst (publish_context me i now ty k v vis s)"
  let ?q = "\<lparr>projectFilter = None, typeFilter = None, sinceTimestamp = None, limit = Some (nullish lmt 20), q_sessionId = Some (snd reader)\<rparr>"
  have s: "contextStore ?s = jm_set i ?e (contextStore s)" "sessions ?s = sessions s"
    by (simp_all add: publish_context_def publishContext_def cs_emit_def)
  obtain es where es: "queryContext ?q ?s = js_slice es 0 (nullish lmt 20)" "sorted (map (\<lambda>e. - ce_timestamp e) es)"
    "set es = {e \<in> set (jm_values (contextStore ?s)). visible ?s (Some (snd reader)) e \<and> matches ?q e}"
    using queryContext_sorted [of ?q ?s] assms(6) by auto
  have "visible ?s (Some (snd reader)) ?e"
    using assms(4,5) by (auto simp: visible_def may_read_def getSession_def s nullish_def split: option.splits ContextVisibility.splits)
  then have e: "?e \<in> set es" using assms(2) by (auto simp: es(3) s jm_values_set_new matches_def)
  then obtain x xs where x: "es = x # xs" by (cases es) auto
  with es(2) e have "now \<le> ce_timestamp x" by auto
  moreover have "x = ?e \<or> x \<in> set (jm_values (contextStore s))"
    using es(3) x assms(2) by (auto simp: s jm_values_set_new)
  ultimately have "x = ?e" using assms(3) by force
  then have "queryContext ?q ?s = ?e # take (nat (nullish lmt 20) - 1) xs"
    using js_slice_first [OF assms(6), of x xs] es(1) x by simp
  then show ?thesis by (simp add: query_context_def)
qed

definition ex_shared :: ClusterStateManager where
  "ex_shared = (new_ClusterStateManager ''c'' ex_follower)\<lparr>contextStore := [(''a'', (ClusterState.ex_entry ''a'' VisCluster)\<lparr>ce_timestamp := 3\<rparr>)]\<rparr>"

lemma published_context_found_witness:
  "\<exists>rest. query_context (''n2'', ''s2'') None None (Some 1)
      (fst (publish_context (''n1'', ''s1'') ''e'' 5 Decision ''db'' ''use sqlite'' None ex_shared))
    = \<lparr>lc_entryId = ''e'', lc_type = Decision, lc_key = ''db'', lc_value = ''use sqlite'', lc_project = [], lc_sessionId = ''s1'', lc_timestamp = 5\<rparr> # rest"
proof -
  have 1: "jm_wf (contextStore ex_shared)" "jm_get (contextStore ex_shared) ''e'' = None" "getSession ''s1'' ex_shared = None"
    "\<forall>x \<in> set (jm_values (contextStore ex_shared)). ce_timestamp x < 5"
    by (simp_all add: ex_shared_def new_ClusterStateManager_def getSession_def jm_get_def jm_values_def jm_wf_def)
  have 2: "may_read (''n1'', ''s1'') (''n2'', ''s2'') None ex_shared" "0 < nullish (Some 1) (20::int)" "snd (''n2'', ''s2'') \<noteq> []"
    by (simp_all add: may_read_def nullish_def)
  from published_context_found [OF 1(1,2,4) 2(3,1,2), of Decision "''db''" "''use sqlite''"]
  show ?thesis by (simp add: 1(3) nullish_def)
qed

text \<open>
  No code registers a session with the state manager. Then an entry published for a
  project is returned to nobody, not even to the session that published it.
\<close>

theorem project_context_unseen:
  assumes "sessions s = []" and "jm_get (contextStore s) i = None" and "snd reader \<noteq> []"
  shows "query_context reader p ts lmt (fst (publish_context me i now ty k v (Some VisProject) s)) = query_context reader p ts lmt s"
  using assms by (simp add: query_context_def publish_context_def publishContext_def cs_emit_def queryContext_def jm_values_set_new
      seenBy_def truthy_def nullish_def)

section \<open>Running a command everywhere\<close>

definition queuedAs :: "int \<Rightarrow> SchedTask \<Rightarrow> QueuedTask" where
  "queuedAs now t = \<lparr>q_spec = t, q_queuedAt = now, q_attempts = 0\<rparr>"

lemma submit_accepts:
  assumes "isLeader (raft (membership s))" and "validateTask t = None" and "jm_size (taskQueue s) < maxQueueSize s"
  shows "\<exists>s' r. submit json rpc engine now t s = (s', Some r) \<and> sr_accepted r \<and> isLeader (raft (membership s'))
     \<and> maxQueueSize s' = maxQueueSize s \<and> taskQueue s' = jm_set (st_taskId t) (queuedAs now t) (taskQueue s)"
  using assms by (simp add: submit_def appendEntry_def isLeader_def enqueue_def sched_emit_def Let_def queuedAs_def)

lemma submitAll_accepts:
  assumes "isLeader (raft (membership s))" and "\<forall>t \<in> set ts. validateTask t = None" and "jm_wf (taskQueue s)"
    and "jm_size (taskQueue s) + length ts \<le> maxQueueSize s"
  shows "\<exists>s' rs. submitAll (submit json rpc engine now) ts s = (s', Some rs) \<and> map sr_accepted rs = replicate (length ts) True
     \<and> taskQueue s' = fold (\<lambda>t. jm_set (st_taskId t) (queuedAs now t)) ts (taskQueue s)"
  using assms
proof (induction ts arbitrary: s)
  case (Cons t ts)
  from submit_accepts [of s t json rpc engine now] Cons.prems obtain s1 r where 1: "submit json rpc engine now t s = (s1, Some r)" "sr_accepted r"
    "isLeader (raft (membership s1))" "maxQueueSize s1 = maxQueueSize s" "taskQueue s1 = jm_set (st_taskId t) (queuedAs now t) (taskQueue s)" by auto
  have "jm_wf (taskQueue s1)" using 1(5) Cons.prems(3) by (simp add: jm_laws)
  moreover have "jm_size (taskQueue s1) + length ts \<le> maxQueueSize s1"
    using Cons.prems(3,4) by (auto simp: 1(4,5) jm.size_put split: if_splits)
  ultimately obtain s' rs where "submitAll (submit json rpc engine now) ts s1 = (s', Some rs)" "map sr_accepted rs = replicate (length ts) True"
    "taskQueue s' = fold (\<lambda>t. jm_set (st_taskId t) (queuedAs now t)) ts (taskQueue s1)"
    using Cons.IH [of s1] Cons.prems(2) 1(3) by auto
  with 1 show ?case by simp
qed simp

lemma get_fold_queue:
  "distinct (map st_taskId ts) \<Longrightarrow> t \<in> set ts
   \<Longrightarrow> jm_get (fold (\<lambda>t. jm_set (st_taskId t) (queuedAs now t)) ts q) (st_taskId t) = Some (queuedAs now t)"
proof (induction ts arbitrary: q)
  case (Cons u ts)
  have other: "i \<notin> st_taskId ` set us \<Longrightarrow> jm_get (fold (\<lambda>t. jm_set (st_taskId t) (queuedAs now t)) us q) i = jm_get q i" for i us q
    by (induction us arbitrary: q) (auto simp: jm_laws)
  show ?case
  proof (cases "t = u")
    case True
    with Cons.prems show ?thesis by (simp add: other jm_laws)
  qed (use Cons in auto)
qed simp

text \<open>
  C16. \<open>run_distributed\<close> with no nodes given, on a leader whose queue has room: it reports one
  accepted task per active node, and for each of them the queue holds the command,
  targeted at exactly that node.
\<close>

theorem run_distributed_everywhere:
  assumes "isLeader (raft (membership s))" and "jm_wf (taskQueue s)" and "command \<noteq> []" and "inj uuid" and "\<forall>k. uuid k \<noteq> []"
    and "jm_size (taskQueue s) + length (getActiveNodes (membership s)) \<le> maxQueueSize s"
  shows "\<exists>s'. run_distributed (submit json rpc engine now) me uuid command None (Some s)
      = (Some s', Inr (map (\<lambda>(k, n). (nodeId n, uuid k, True)) (enumerate 0 (getActiveNodes (membership s)))))
    \<and> (\<forall>k < length (getActiveNodes (membership s)).
         \<exists>q. jm_get (taskQueue s') (uuid k) = Some q \<and> st_targetNodes (q_spec q) = Some [nodeId (getActiveNodes (membership s) ! k)]
           \<and> map_option sh_command (st_shell (q_spec q)) = Some command)"
proof -
  let ?ns = "map nodeId (getActiveNodes (membership s))"
  let ?ts = "distributedTasks me uuid command ?ns"
  let ?n = "length (getActiveNodes (membership s))"
  have len: "length ?ts = ?n" by (simp add: distributedTasks_def)
  have nth: "?ts ! k = (blankTask me (uuid k) ''shell'')\<lparr>st_shell := Some \<lparr>sh_command = command, sh_workingDirectory = None, sh_sandboxed = None\<rparr>,
      st_targetNodes := Some [?ns ! k]\<rparr>" if "k < ?n" for k
    using that by (simp add: distributedTasks_def nth_enumerate_eq)
  have ids: "map st_taskId ?ts = map uuid [0..<?n]"
    by (rule nth_equalityI) (simp_all add: len nth blankTask_def)
  have "validateTask t = None" if "t \<in> set ?ts" for t
    using that assms(3,5) by (auto simp: distributedTasks_def validateTask_def blankTask_def truthy_def)
  then obtain s' rs where sub: "submitAll (submit json rpc engine now) ?ts s = (s', Some rs)" "map sr_accepted rs = replicate ?n True"
    "taskQueue s' = fold (\<lambda>t. jm_set (st_taskId t) (queuedAs now t)) ?ts (taskQueue s)"
    using submitAll_accepts [of s ?ts json rpc engine now] assms(1,2,6) len by auto
  have "zip ?ns (zip (map uuid [0..<?n]) (replicate ?n True)) = map (\<lambda>(k, n). (nodeId n, uuid k, True)) (enumerate 0 (getActiveNodes (membership s)))"
    by (rule nth_equalityI) (simp_all add: nth_enumerate_eq)
  then have "run_distributed (submit json rpc engine now) me uuid command None (Some s)
      = (Some s', Inr (map (\<lambda>(k, n). (nodeId n, uuid k, True)) (enumerate 0 (getActiveNodes (membership s)))))"
    using sub(1,2) ids by (simp add: run_distributed_def targetNodesOf_def nullish_def Let_def)
  moreover have "jm_get (taskQueue s') (uuid k) = Some (queuedAs now (?ts ! k))" if "k < ?n" for k
  proof -
    have "distinct (map st_taskId ?ts)" using assms(4) by (simp add: ids distinct_map inj_on_def inj_def)
    from get_fold_queue [OF this nth_mem [of k ?ts]] that len show ?thesis by (simp add: sub(3) nth blankTask_def)
  qed
  ultimately show ?thesis by (auto simp: nth queuedAs_def)
qed

lemma run_distributed_everywhere_witness:
  "\<exists>s'. run_distributed (submit (\<lambda>_. ''j'') (\<lambda>_ _. None) (\<lambda>_. 0) 9) (''f'', ''s'') (\<lambda>k. replicate (Suc k) CHR ''x'') ''uptime'' None
        (Some (new_TaskScheduler None None (ex_follower\<lparr>raft := (raft ex_follower)\<lparr>state := Leader\<rparr>\<rparr>)))
      = (Some s', Inr [(''f'', ''x'', True)])"
proof -
  let ?s = "new_TaskScheduler None None (ex_follower\<lparr>raft := (raft ex_follower)\<lparr>state := Leader\<rparr>\<rparr>)"
  have n: "getActiveNodes (membership ?s) = [freshNode 0 ''f'' ''h'' ''10.0.0.2'' 7 []]"
    by (simp add: new_TaskScheduler_def ex_follower_def new_MembershipManager_def getActiveNodes_def getAllNodes_def jm_values_def jm_set_def freshNode_def)
  have 1: "isLeader (raft (membership ?s))" "jm_wf (taskQueue ?s)" by (simp_all add: new_TaskScheduler_def isLeader_def)
  have 2: "''uptime'' \<noteq> []" "inj (\<lambda>k. replicate (Suc k) CHR ''x'')" "\<forall>k. replicate (Suc k) CHR ''x'' \<noteq> []"
    by (auto simp: inj_def dest: arg_cong [where f = length])
  have 3: "jm_size (taskQueue ?s) + length (getActiveNodes (membership ?s)) \<le> maxQueueSize ?s"
    unfolding n by (simp add: new_TaskScheduler_def jm_size_def nullish_def)
  from run_distributed_everywhere [OF 1 2 3, of "\<lambda>_. ''j''" "\<lambda>_ _. None" "\<lambda>_. 0" 9 "(''f'', ''s'')"]
  show ?thesis unfolding n by (auto simp: freshNode_def enumerate_eq_zip)
qed

section \<open>The server\<close>

lemma jm_get_fold_set: "distinct (map fst ts) \<Longrightarrow> jm_get (fold (\<lambda>(n, t). jm_set n t) ts m) k = (case jm_get ts k of Some t \<Rightarrow> Some t | None \<Rightarrow> jm_get m k)"
proof (induction ts arbitrary: m)
  case (Cons a ts)
  obtain n t where a: "a = (n, t)" by fastforce
  with Cons.prems have "jm_get ts n = None" by (auto simp: jm_get_def map_of_eq_None_iff)
  with Cons a show ?case by (auto simp: jm_get_def [of "(n, t) # ts"] jm_laws split: option.splits) (simp_all add: jm_get_def)
qed simp

text \<open>
  The tools that arrive after the handshake can be called at once: a call finds the tool
  loaded last, and the ones the server already had stay.
\<close>

theorem late_tools_callable:
  "jm_wf ts \<Longrightarrow> jm_get (ms_tools (updateToolsAndResources ts rs s)) n = (case jm_get ts n of Some t \<Rightarrow> Some t | None \<Rightarrow> jm_get (ms_tools s) n)"
  by (simp add: updateToolsAndResources_def jm_get_fold_set jm_wf_keys jm_keys_def)

end
