(* ===== verification/Providers.thy ===== *)
theory Providers
  imports MessagingProps
begin

text \<open>
  The language-model providers (\<open>src/providers/anthropic.ts\<close>, \<open>openai.ts\<close>, \<open>ollama.ts\<close>) behind
  the conversations of \<open>Messaging\<close>, and their choice at startup (\<open>initializeProviders\<close> of
  \<open>src/index.ts\<close>): how each turns a history into its request and the reply into a response,
  with properties. The services themselves act on an outside world; a call gives the reply
  or the message of the error it threw. The input of a tool is its JSON text.
\<close>

section \<open>Requests and responses\<close>

record ToolDefinition =
  td_name :: string
  td_description :: string
  td_inputSchema :: string

record ChatOptions =
  co_model :: "string option"
  co_maxTokens :: "int option"
  co_temperature :: "rat option"
  co_systemPrompt :: "string option"
  co_tools :: "ToolDefinition list option"

record TokenUsage =
  inputTokens :: int
  outputTokens :: int

record ProviderResponse =
  pr_content :: string
  pr_model :: string
  pr_usage :: TokenUsage
  pr_stopReason :: "string option"
  pr_toolCalls :: "ToolCall list option"

record StreamChunk =
  sc_content :: string
  sc_done :: bool

text \<open>What the conversation reads of a response.\<close>

definition asChatResponse :: "ProviderResponse \<Rightarrow> ChatResponse" where
  "asChatResponse r = \<lparr>rp_content = pr_content r, rp_toolCalls = nullish (pr_toolCalls r) []\<rparr>"

definition textOf :: "ContentBlock \<Rightarrow> string option" where
  "textOf b = (case b of TextBlock t \<Rightarrow> Some t | _ \<Rightarrow> None)"

fun contentToString :: "Content \<Rightarrow> string" where
  "contentToString (PlainText s) = s"
| "contentToString (Blocks bs) = concat (List.map_filter textOf bs)"

section \<open>Anthropic\<close>

record Provider =
  pv_apiKey :: "string option"
  pv_defaultModel :: string

definition new_Anthropic :: "string option \<Rightarrow> string option \<Rightarrow> string option \<Rightarrow> Provider" where
  "new_Anthropic env key model =
     \<lparr>pv_apiKey = (case key of None \<Rightarrow> env | k \<Rightarrow> k), pv_defaultModel = nullish model ''claude-sonnet-4-6''\<rparr>"

record AnthropicRequest =
  an_model :: string
  an_max_tokens :: int
  an_system :: "string option"
  an_messages :: history
  an_tools :: "ToolDefinition list option"

datatype ReplyBlock = ReplyText string | ReplyToolUse ToolCall | ReplyOther

record AnthropicReply =
  ay_content :: "ReplyBlock list"
  ay_model :: string
  ay_usage :: TokenUsage
  ay_stop_reason :: "string option"

definition anthropic_system :: "history \<Rightarrow> ChatOptions \<Rightarrow> string option" where
  "anthropic_system h opts =
     (case co_systemPrompt opts of Some s \<Rightarrow> Some s
      | None \<Rightarrow> (case find (\<lambda>m. cm_role m = SystemRole) h of None \<Rightarrow> None
          | Some m \<Rightarrow> (case cm_content m of PlainText s \<Rightarrow> Some s | Blocks _ \<Rightarrow> None)))"

definition anthropic_request :: "Provider \<Rightarrow> history \<Rightarrow> ChatOptions \<Rightarrow> AnthropicRequest" where
  "anthropic_request pv h opts =
     \<lparr>an_model = nullish (co_model opts) (pv_defaultModel pv), an_max_tokens = nullish (co_maxTokens opts) 4096,
      an_system = anthropic_system h opts, an_messages = filter (\<lambda>m. cm_role m \<noteq> SystemRole) h,
      an_tools = (case co_tools opts of None \<Rightarrow> None | Some ts \<Rightarrow> if ts \<noteq> [] then Some ts else None)\<rparr>"

definition anthropic_response :: "AnthropicReply \<Rightarrow> ProviderResponse" where
  "anthropic_response y =
     (let calls = List.map_filter (\<lambda>b. case b of ReplyToolUse tc \<Rightarrow> Some tc | _ \<Rightarrow> None) (ay_content y)
      in \<lparr>pr_content = concat (List.map_filter (\<lambda>b. case b of ReplyText t \<Rightarrow> Some t | _ \<Rightarrow> None) (ay_content y)),
          pr_model = ay_model y, pr_usage = ay_usage y, pr_stopReason = ay_stop_reason y,
          pr_toolCalls = (if calls \<noteq> [] then Some calls else None)\<rparr>)"

definition anthropic_chat :: "(AnthropicRequest \<Rightarrow> 'w \<Rightarrow> 'w \<times> (string + AnthropicReply)) \<Rightarrow> Provider \<Rightarrow> history \<Rightarrow> ChatOptions
    \<Rightarrow> 'w \<Rightarrow> 'w \<times> (string + ProviderResponse)" where
  "anthropic_chat api pv h opts w =
     (if \<not> truthy (pv_apiKey pv) then (w, Inl ''Anthropic API key not configured'')
      else case api (anthropic_request pv h opts) w of
             (w1, Inl e) \<Rightarrow> (w1, Inl e) | (w1, Inr y) \<Rightarrow> (w1, Inr (anthropic_response y)))"

text \<open>
  \<open>stream\<close>: the events of the service, \<open>Some\<close> for a piece of text; the error it ends with,
  if any, ends the stream.
\<close>

definition anthropic_stream :: "(AnthropicRequest \<Rightarrow> 'w \<Rightarrow> 'w \<times> string option list \<times> string option) \<Rightarrow> Provider \<Rightarrow> history
    \<Rightarrow> ChatOptions \<Rightarrow> 'w \<Rightarrow> 'w \<times> StreamChunk list \<times> string option" where
  "anthropic_stream api pv h opts w =
     (if \<not> truthy (pv_apiKey pv) then (w, [], Some ''Anthropic API key not configured'')
      else let (w1, evs, err) = api ((anthropic_request pv h opts)\<lparr>an_tools := None\<rparr>) w;
               cs = map (\<lambda>t. \<lparr>sc_content = t, sc_done = False\<rparr>) (List.map_filter id evs)
           in (w1, cs @ (if err = None then [\<lparr>sc_content = [], sc_done = True\<rparr>] else []), err))"

definition anthropic_models :: "string list" where
  "anthropic_models = [''claude-opus-4-6'', ''claude-sonnet-4-6'', ''claude-haiku-4-5'']"

definition key_isAvailable :: "Provider \<Rightarrow> bool" where
  "key_isAvailable pv \<longleftrightarrow> truthy (pv_apiKey pv)"

section \<open>OpenAI\<close>

definition new_OpenAI :: "string option \<Rightarrow> string option \<Rightarrow> string option \<Rightarrow> Provider" where
  "new_OpenAI env key model =
     \<lparr>pv_apiKey = (case key of None \<Rightarrow> env | k \<Rightarrow> k), pv_defaultModel = nullish model ''gpt-4o''\<rparr>"

record OpenAIRequest =
  oa_model :: string
  oa_max_tokens :: int
  oa_temperature :: "rat option"
  oa_messages :: "(ChatRole \<times> string) list"

text \<open>The first choice of the reply, if there is one: its text and why it ended.\<close>

record OpenAIReply =
  oy_choice :: "(string option \<times> string option) option"
  oy_model :: string
  oy_usage :: "TokenUsage option"

definition openai_request :: "Provider \<Rightarrow> history \<Rightarrow> ChatOptions \<Rightarrow> OpenAIRequest" where
  "openai_request pv h opts =
     \<lparr>oa_model = nullish (co_model opts) (pv_defaultModel pv), oa_max_tokens = nullish (co_maxTokens opts) 4096,
      oa_temperature = co_temperature opts, oa_messages = map (\<lambda>m. (cm_role m, contentToString (cm_content m))) h\<rparr>"

definition openai_response :: "OpenAIReply \<Rightarrow> ProviderResponse" where
  "openai_response y =
     \<lparr>pr_content = nullish (Option.bind (oy_choice y) fst) [], pr_model = oy_model y,
      pr_usage = nullish (oy_usage y) \<lparr>inputTokens = 0, outputTokens = 0\<rparr>,
      pr_stopReason = Option.bind (oy_choice y) snd, pr_toolCalls = None\<rparr>"

definition openai_chat :: "(OpenAIRequest \<Rightarrow> 'w \<Rightarrow> 'w \<times> (string + OpenAIReply)) \<Rightarrow> Provider \<Rightarrow> history \<Rightarrow> ChatOptions
    \<Rightarrow> 'w \<Rightarrow> 'w \<times> (string + ProviderResponse)" where
  "openai_chat api pv h opts w =
     (if \<not> truthy (pv_apiKey pv) then (w, Inl ''OpenAI API key not configured'')
      else case api (openai_request pv h opts) w of
             (w1, Inl e) \<Rightarrow> (w1, Inl e) | (w1, Inr y) \<Rightarrow> (w1, Inr (openai_response y)))"

definition openai_stream :: "(OpenAIRequest \<Rightarrow> 'w \<Rightarrow> 'w \<times> string option list \<times> string option) \<Rightarrow> Provider \<Rightarrow> history
    \<Rightarrow> ChatOptions \<Rightarrow> 'w \<Rightarrow> 'w \<times> StreamChunk list \<times> string option" where
  "openai_stream api pv h opts w =
     (if \<not> truthy (pv_apiKey pv) then (w, [], Some ''OpenAI API key not configured'')
      else let (w1, deltas, err) = api ((openai_request pv h opts)\<lparr>oa_temperature := None\<rparr>) w;
               cs = map (\<lambda>t. \<lparr>sc_content = t, sc_done = False\<rparr>) (filter (\<lambda>t. t \<noteq> []) (List.map_filter id deltas))
           in (w1, cs @ (if err = None then [\<lparr>sc_content = [], sc_done = True\<rparr>] else []), err))"

definition openai_models :: "('w \<Rightarrow> 'w \<times> (string + string list)) \<Rightarrow> Provider \<Rightarrow> 'w \<Rightarrow> 'w \<times> (string + string list)" where
  "openai_models list_api pv w = (if \<not> truthy (pv_apiKey pv) then (w, Inr []) else list_api w)"

section \<open>Ollama\<close>

record OllamaProvider =
  ol_baseUrl :: string
  ol_defaultModel :: string

definition new_Ollama :: "string option \<Rightarrow> string option \<Rightarrow> OllamaProvider" where
  "new_Ollama url model = \<lparr>ol_baseUrl = nullish url ''http://localhost:11434'', ol_defaultModel = nullish model ''llama3''\<rparr>"

datatype OllamaRole = OlSystem | OlUser | OlAssistant | OlTool

record OllamaMessage =
  om_role :: OllamaRole
  om_content :: string
  om_tool_calls :: "(string \<times> string) list option"

definition ollama_role :: "ChatRole \<Rightarrow> OllamaRole" where
  "ollama_role r = (case r of UserRole \<Rightarrow> OlUser | AssistantRole \<Rightarrow> OlAssistant | SystemRole \<Rightarrow> OlSystem)"

definition plainMessage :: "OllamaRole \<Rightarrow> string \<Rightarrow> OllamaMessage" where
  "plainMessage r s = \<lparr>om_role = r, om_content = s, om_tool_calls = None\<rparr>"

definition toolUseOf :: "ContentBlock \<Rightarrow> (string \<times> string) option" where
  "toolUseOf b = (case b of ToolUse _ n inp \<Rightarrow> Some (n, inp) | _ \<Rightarrow> None)"

definition toolResultOf :: "ContentBlock \<Rightarrow> string option" where
  "toolResultOf b = (case b of ToolResultBlock _ c \<Rightarrow> Some c | _ \<Rightarrow> None)"

text \<open>One message of the loop in \<open>convertMessages\<close>; \<open>sys\<close>: a system prompt was given.\<close>

definition convertMessage :: "bool \<Rightarrow> ChatMessage \<Rightarrow> OllamaMessage list" where
  "convertMessage sys m =
     (if cm_role m = SystemRole then (if \<not> sys then [plainMessage OlSystem (contentToString (cm_content m))] else [])
      else case cm_content m of
        PlainText s \<Rightarrow> [plainMessage (ollama_role (cm_role m)) s]
      | Blocks bs \<Rightarrow>
          (let txt = concat (List.map_filter textOf bs); uses = List.map_filter toolUseOf bs; results = List.map_filter toolResultOf bs
           in if cm_role m = AssistantRole \<and> uses \<noteq> [] then [\<lparr>om_role = OlAssistant, om_content = txt, om_tool_calls = Some uses\<rparr>]
              else if results \<noteq> [] then map (plainMessage OlTool) results
              else [plainMessage (ollama_role (cm_role m)) txt]))"

definition convertMessages :: "history \<Rightarrow> string option \<Rightarrow> OllamaMessage list" where
  "convertMessages h sys =
     (if truthy sys then [plainMessage OlSystem (the sys)] else []) @ concat (map (convertMessage (truthy sys)) h)"

record OllamaRequest =
  or_model :: string
  or_messages :: "OllamaMessage list"
  or_stream :: bool
  or_tools :: "ToolDefinition list option"

text \<open>A reply with its status; arguments of a call come parsed, or as a text that is parsed now.\<close>

datatype OllamaArguments = ParsedArguments string | TextArguments string

record OllamaReply =
  oll_ok :: bool
  oll_status :: string
  oll_content :: "string option"
  oll_tool_calls :: "(string \<times> OllamaArguments) list option"
  oll_model :: string
  oll_eval_count :: "int option"
  oll_prompt_eval_count :: "int option"

definition ollama_request :: "OllamaProvider \<Rightarrow> history \<Rightarrow> ChatOptions \<Rightarrow> OllamaRequest" where
  "ollama_request pv h opts =
     \<lparr>or_model = nullish (co_model opts) (ol_defaultModel pv), or_messages = convertMessages h (co_systemPrompt opts),
      or_stream = False, or_tools = (case co_tools opts of None \<Rightarrow> None | Some ts \<Rightarrow> if ts \<noteq> [] then Some ts else None)\<rparr>"

text \<open>\<open>parse\<close> is \<open>JSON.parse\<close> and \<open>JSON.stringify\<close> again, which throws for what is not JSON.\<close>

fun parseCalls :: "(string \<Rightarrow> string option) \<Rightarrow> (nat \<Rightarrow> string) \<Rightarrow> nat \<Rightarrow> (string \<times> OllamaArguments) list \<Rightarrow> ToolCall list option" where
  "parseCalls parse uuid k [] = Some []"
| "parseCalls parse uuid k ((n, a) # cs) =
     Option.bind (case a of ParsedArguments x \<Rightarrow> Some x | TextArguments t \<Rightarrow> parse t)
       (\<lambda>x. map_option (\<lambda>tcs. \<lparr>tc_id = uuid k, tc_name = n, tc_input = x\<rparr> # tcs) (parseCalls parse uuid (Suc k) cs))"

definition ollama_chat :: "(string \<Rightarrow> OllamaRequest \<Rightarrow> 'w \<Rightarrow> 'w \<times> (string + OllamaReply)) \<Rightarrow> (string \<Rightarrow> string option) \<Rightarrow> (nat \<Rightarrow> string)
    \<Rightarrow> OllamaProvider \<Rightarrow> history \<Rightarrow> ChatOptions \<Rightarrow> 'w \<Rightarrow> 'w \<times> (string + ProviderResponse)" where
  "ollama_chat fetch parse uuid pv h opts w =
     (case fetch (ol_baseUrl pv @ ''/api/chat'') (ollama_request pv h opts) w of
        (w1, Inl e) \<Rightarrow> (w1, Inl e)
      | (w1, Inr y) \<Rightarrow>
          if \<not> oll_ok y then (w1, Inl (''Ollama API error: '' @ oll_status y))
          else (case (case oll_tool_calls y of None \<Rightarrow> Some None
                      | Some cs \<Rightarrow> if cs = [] then Some None else map_option Some (parseCalls parse uuid 0 cs)) of
                  None \<Rightarrow> (w1, Inl ''SyntaxError'')
                | Some calls \<Rightarrow>
                    (w1, Inr \<lparr>pr_content = nullish (oll_content y) [], pr_model = oll_model y,
                       pr_usage = \<lparr>inputTokens = nullish (oll_prompt_eval_count y) 0, outputTokens = nullish (oll_eval_count y) 0\<rparr>,
                       pr_stopReason = None, pr_toolCalls = calls\<rparr>)))"

text \<open>
  \<open>stream\<close>: the texts of successive reads, each split into lines; \<open>line\<close> parses one line into
  the text it carries, if any, and whether it is the last. The result says how it ended.
\<close>

fun splitAtNewline :: "string \<Rightarrow> string list" where
  "splitAtNewline [] = [[]]"
| "splitAtNewline (c # s) =
     (if c = newline then [] # splitAtNewline s
      else case splitAtNewline s of l # ls \<Rightarrow> (c # l) # ls | [] \<Rightarrow> [[c]])"

datatype StreamEnd = ReadOn | StreamDone | ParseError

fun streamLines :: "(string \<Rightarrow> (string option \<times> bool) option) \<Rightarrow> string list \<Rightarrow> StreamChunk list \<times> StreamEnd" where
  "streamLines line [] = ([], ReadOn)"
| "streamLines line (l # ls) =
     (case line l of
        None \<Rightarrow> ([], ParseError)
      | Some (txt, fin) \<Rightarrow>
          let c = (if truthy txt then [\<lparr>sc_content = the txt, sc_done = fin\<rparr>] else [])
          in if fin then (c @ [\<lparr>sc_content = [], sc_done = True\<rparr>], StreamDone)
             else let (cs, e) = streamLines line ls in (c @ cs, e))"

fun streamReads :: "(string \<Rightarrow> (string option \<times> bool) option) \<Rightarrow> string list \<Rightarrow> StreamChunk list \<times> StreamEnd" where
  "streamReads line [] = ([], ReadOn)"
| "streamReads line (r # rs) =
     (case streamLines line (filter (\<lambda>l. l \<noteq> []) (splitAtNewline r)) of
        (cs, ReadOn) \<Rightarrow> (let (ds, e) = streamReads line rs in (cs @ ds, e))
      | (cs, e) \<Rightarrow> (cs, e))"

definition ollama_stream :: "(string \<Rightarrow> OllamaRequest \<Rightarrow> 'w \<Rightarrow> 'w \<times> (string + (bool \<times> string \<times> string list option)))
    \<Rightarrow> (string \<Rightarrow> (string option \<times> bool) option) \<Rightarrow> OllamaProvider \<Rightarrow> history \<Rightarrow> ChatOptions \<Rightarrow> 'w \<Rightarrow> 'w \<times> StreamChunk list \<times> string option" where
  "ollama_stream fetch line pv h opts w =
     (case fetch (ol_baseUrl pv @ ''/api/chat'') ((ollama_request pv h opts)\<lparr>or_stream := True, or_tools := None\<rparr>) w of
        (w1, Inl e) \<Rightarrow> (w1, [], Some e)
      | (w1, Inr (ok, st, body)) \<Rightarrow>
          (case (if ok then body else None) of
             None \<Rightarrow> (w1, [], Some (''Ollama API error: '' @ st))
           | Some reads \<Rightarrow> (let (cs, e) = streamReads line reads in (w1, cs, if e = ParseError then Some ''SyntaxError'' else None))))"

definition ollama_models :: "(string \<Rightarrow> 'w \<Rightarrow> 'w \<times> (string + (bool \<times> string list))) \<Rightarrow> OllamaProvider \<Rightarrow> 'w \<Rightarrow> 'w \<times> (string + string list)" where
  "ollama_models get pv w = (case get (ol_baseUrl pv @ ''/api/tags'') w of
     (w1, Inl e) \<Rightarrow> (w1, Inl e) | (w1, Inr (ok, ms)) \<Rightarrow> (w1, Inr (if ok then ms else [])))"

definition ollama_isAvailable :: "(string \<Rightarrow> 'w \<Rightarrow> 'w \<times> (string + (bool \<times> string list))) \<Rightarrow> OllamaProvider \<Rightarrow> 'w \<Rightarrow> 'w \<times> bool" where
  "ollama_isAvailable get pv w = (case get (ol_baseUrl pv @ ''/api/tags'') w of (w1, Inl e) \<Rightarrow> (w1, False) | (w1, Inr (ok, _)) \<Rightarrow> (w1, ok))"

section \<open>Choice at startup\<close>

datatype AnyProvider = AnthropicP Provider | OpenAIP Provider | OllamaP OllamaProvider

record ProvidersConfig =
  pc_primary :: string
  pc_fallback :: "string list option"
  pc_anthropic :: "(string option \<times> string option) option"
  pc_openai :: "(string option \<times> string option) option"
  pc_ollama :: "(string option \<times> string option) option"

text \<open>\<open>env\<close> reads an environment variable. The result: the primary provider and the fallbacks.\<close>

definition constructedProviders :: "(string \<Rightarrow> string option) \<Rightarrow> ProvidersConfig \<Rightarrow> (string, AnyProvider) jsmap" where
  "constructedProviders env cfg =
     (let akey = Option.bind (pc_anthropic cfg) fst; okey = Option.bind (pc_openai cfg) fst
      in (if truthy akey \<or> truthy (env ''ANTHROPIC_API_KEY'')
          then [(''anthropic'', AnthropicP (new_Anthropic (env ''ANTHROPIC_API_KEY'') (if truthy akey then akey else None)
                                              (Option.bind (pc_anthropic cfg) snd)))] else [])
       @ (if truthy okey then [(''openai'', OpenAIP (new_OpenAI (env ''OPENAI_API_KEY'') okey (Option.bind (pc_openai cfg) snd)))] else [])
       @ (case pc_ollama cfg of None \<Rightarrow> [] | Some (url, model) \<Rightarrow> [(''ollama'', OllamaP (new_Ollama url model))]))"

definition routedProviders :: "(string \<Rightarrow> string option) \<Rightarrow> ProvidersConfig option \<Rightarrow> (AnyProvider \<times> AnyProvider list) option" where
  "routedProviders env cfg =
     (case cfg of None \<Rightarrow> None
      | Some c \<Rightarrow> (let ps = constructedProviders env c
                   in case jm_get ps (pc_primary c) of None \<Rightarrow> None
                      | Some p \<Rightarrow> Some (p, List.map_filter (jm_get ps) (nullish (pc_fallback c) []))))"

section \<open>Conversations over a provider\<close>

text \<open>A provider as the service the conversation calls, with the options it passes each time.\<close>

definition services_of :: "(history \<Rightarrow> ChatOptions \<Rightarrow> 'w \<Rightarrow> 'w \<times> (string + ProviderResponse)) \<Rightarrow> ChatOptions
    \<Rightarrow> (string \<Rightarrow> (string \<Rightarrow> 'w \<Rightarrow> 'w \<times> (string + string)) option) \<Rightarrow> (string \<Rightarrow> string) \<Rightarrow> 'w Services" where
  "services_of chat opts tool err =
     \<lparr>sv_chat = (\<lambda>h w. case chat h opts w of (w1, Inl _) \<Rightarrow> (w1, None) | (w1, Inr r) \<Rightarrow> (w1, Some (asChatResponse r))),
      sv_tool = tool, sv_error = err\<rparr>"

text \<open>
  The dialogue Ollama expects: after an assistant message with \<open>n\<close> tool calls come exactly
  \<open>n\<close> tool messages, and there are no others.
\<close>

fun dialogue :: "nat \<Rightarrow> OllamaMessage list \<Rightarrow> bool" where
  "dialogue n [] \<longleftrightarrow> n = 0"
| "dialogue 0 (m # ms) \<longleftrightarrow> om_role m \<noteq> OlTool \<and> dialogue (length (nullish (om_tool_calls m) [])) ms"
| "dialogue (Suc n) (m # ms) \<longleftrightarrow> om_role m = OlTool \<and> dialogue n ms"

text \<open>The results of tools in a history, in order, and those an Ollama request carries.\<close>

definition resultsIn :: "history \<Rightarrow> string list" where
  "resultsIn h = concat (map (\<lambda>m. case cm_content m of PlainText _ \<Rightarrow> [] | Blocks bs \<Rightarrow>
     if cm_role m = UserRole then List.map_filter toolResultOf bs else []) h)"

definition toolMessages :: "OllamaMessage list \<Rightarrow> string list" where
  "toolMessages ms = map om_content (filter (\<lambda>m. om_role m = OlTool) ms)"

lemma toolMessages_append: "toolMessages (a @ b) = toolMessages a @ toolMessages b"
  by (simp add: toolMessages_def)

lemma dialogue_results: "dialogue (length rs) (map (plainMessage OlTool) rs @ ms) \<longleftrightarrow> dialogue 0 ms"
  by (induction rs) (auto simp: plainMessage_def)

lemma toolMessages_results: "toolMessages (map (plainMessage OlTool) rs) = rs"
  by (induction rs) (auto simp: toolMessages_def plainMessage_def)

definition pending :: "Expects \<Rightarrow> nat" where
  "pending e = (case e of Results ids \<Rightarrow> length ids | _ \<Rightarrow> 0)"

lemma length_toolUses: "length (toolUses bs) = length (List.map_filter toolUseOf bs)"
  by (induction bs) (auto simp: toolUses_def toolUseOf_def List.map_filter_simps split: ContentBlock.splits)

lemma toolUses_empty: "toolUses bs = [] \<longleftrightarrow> List.map_filter toolUseOf bs = []"
  using length_toolUses [of bs] by (metis length_0_conv)

lemma length_toolResults: "length (toolResults bs) = length (List.map_filter toolResultOf bs)"
  by (induction bs) (auto simp: toolResults_def toolResultOf_def List.map_filter_simps split: ContentBlock.splits)

lemma toolMessages_one: "om_role m \<noteq> OlTool \<Longrightarrow> toolMessages [m] = []"
  by (simp add: toolMessages_def)

text \<open>One message of the turn grammar moves the two automata together.\<close>

lemma convert_step:
  assumes "next_turn e m = Some e'" and "dialogue (pending e') rest"
  shows "dialogue (pending e) (convertMessage sys m @ rest)" and "toolMessages (convertMessage sys m) = resultsIn [m]"
proof -
  have "dialogue (pending e) (convertMessage sys m @ rest) \<and> toolMessages (convertMessage sys m) = resultsIn [m]"
  proof (cases e)
    case Opening
    with assms show ?thesis
      by (auto simp: pending_def convertMessage_def plainMessage_def ollama_role_def nullish_def toolMessages_def resultsIn_def
          split: ChatRole.splits Content.splits)
  next
    case Answer
    with assms show ?thesis
      by (auto simp: pending_def convertMessage_def plainMessage_def ollama_role_def nullish_def toolMessages_def resultsIn_def
          length_toolUses toolUses_empty Let_def split: ChatRole.splits Content.splits if_splits)
  next
    case (Results ids)
    then obtain bs where m: "cm_role m = UserRole" "cm_content m = Blocks bs" "toolResults bs = ids" "length bs = length ids" "e' = Answer"
      using assms(1) by (auto split: ChatRole.splits Content.splits if_splits)
    let ?rs = "List.map_filter toolResultOf bs"
    show ?thesis
    proof (cases "?rs = []")
      case True
      then have "bs = []" using m(3,4) length_toolResults [of bs] by simp
      with True m Results assms(2) show ?thesis
        by (auto simp: pending_def convertMessage_def plainMessage_def ollama_role_def nullish_def toolMessages_def resultsIn_def
            List.map_filter_simps)
    next
      case False
      with m Results assms(2) length_toolResults [of bs] show ?thesis
        by (auto simp: pending_def convertMessage_def dialogue_results toolMessages_results resultsIn_def Let_def)
    qed
  qed
  then show "dialogue (pending e) (convertMessage sys m @ rest)" "toolMessages (convertMessage sys m) = resultsIn [m]" by auto
qed

lemma convert_history:
  "turns e h = Some Answer \<Longrightarrow>
     dialogue (pending e) (concat (map (convertMessage sys) h)) \<and> toolMessages (concat (map (convertMessage sys) h)) = resultsIn h"
proof (induction h arbitrary: e)
  case (Cons m h)
  then obtain e' where e': "next_turn e m = Some e'" "turns e' h = Some Answer" by (auto simp: bind_eq_Some_conv)
  have "resultsIn (m # h) = resultsIn [m] @ resultsIn h" by (simp add: resultsIn_def)
  with Cons.IH [OF e'(2)] convert_step [OF e'(1) conjunct1 [OF Cons.IH [OF e'(2)]]] show ?case by (simp add: toolMessages_append)
qed (simp add: pending_def toolMessages_def resultsIn_def)

text \<open>
  C34. Every request a conversation makes reaches an Ollama model as a well-formed dialogue:
  the system prompt first, each group of tool calls followed by exactly its results, and
  no result is dropped, repeated or reordered.
\<close>

theorem ollama_dialogue:
  assumes "run (\<lambda>a s. Some (conv_op sv a s)) ops (new_ConversationHandler mh mi st, w) = Some (c, w')" and "st \<in> {None, Some []}"
    and "handleMessage sv chat msg c w' = (c'', w'', requests, answer)" and "q \<in> set requests"
    and prompt: "co_systemPrompt opts = Some p" "p \<noteq> []"
  shows "\<exists>ms. or_messages (ollama_request pv q opts) = plainMessage OlSystem p # ms \<and> dialogue 0 ms \<and> toolMessages ms = resultsIn q"
proof -
  have "conv_inv (nullish mh 20) (nullish mi 5) c" using reachable_conversation [OF assms(1)] assms(2) by blast
  from handleMessage_ok [OF this assms(3)] assms(4) have "turns Opening q = Some Answer"
    by (auto simp: list_all_iff awaiting_answer_def)
  from convert_history [OF this, of True] prompt show ?thesis
    by (simp add: ollama_request_def convertMessages_def truthy_def pending_def)
qed

text \<open>A conversation whose model asks for the tool \<open>t\<close> once.\<close>

definition ex_ollama_options :: ChatOptions where
  "ex_ollama_options = \<lparr>co_model = None, co_maxTokens = None, co_temperature = None, co_systemPrompt = Some ''s'', co_tools = None\<rparr>"

lemma requests_nonempty: "handleMessage sv chat msg c w = (c', w', qs, a) \<Longrightarrow> qs \<noteq> []"
  by (auto simp: handleMessage_def Let_def split: prod.splits option.splits)

theorem ollama_dialogue_witness:
  "\<exists>c w q r answer ms. handleMessage ex_services ''c'' ''again'' (fst ex_handled) (snd ex_handled) = (c, w, q # r, answer)
     \<and> or_messages (ollama_request (new_Ollama None None) q ex_ollama_options) = plainMessage OlSystem ''s'' # ms
     \<and> dialogue 0 ms \<and> toolMessages ms = resultsIn q"
proof -
  have run: "run (\<lambda>a s. Some (conv_op ex_services a s)) [Incoming ''c'' ''hi''] (new_ConversationHandler (Some 4) None None, 0)
      = Some (fst ex_handled, snd ex_handled)" by simp
  obtain c w q r answer where h: "handleMessage ex_services ''c'' ''again'' (fst ex_handled) (snd ex_handled) = (c, w, q # r, answer)"
    by (metis requests_nonempty prod_cases4 neq_Nil_conv)
  from ollama_dialogue [OF run _ h, of q ex_ollama_options "''s''" "new_Ollama None None"] h
  show ?thesis by (auto simp: ex_ollama_options_def)
qed

section \<open>What OpenAI is not told\<close>

text \<open>
  Neither the system prompt nor the tools of the options reach the OpenAI service, and its
  responses carry no tool calls: a conversation over it makes one request per message and
  runs no tool.
\<close>

lemma openai_ignores_prompt_and_tools:
  "openai_request pv h (opts\<lparr>co_systemPrompt := s, co_tools := ts\<rparr>) = openai_request pv h opts"
  by (simp add: openai_request_def)

lemma openai_never_uses_tools:
  assumes "handleMessage (services_of (openai_chat api pv) opts tool err) chat msg c w = (c', w', requests, answer)"
  shows "\<exists>q. requests = [q] \<and> w' = (if truthy (pv_apiKey pv) then fst (api (openai_request pv q opts) w) else w)"
proof -
  have none: "rp_toolCalls r = []" if "sv_chat (services_of (openai_chat api pv) opts tool err) h w = (w1, Some r)" for h w w1 r
    using that by (auto simp: services_of_def openai_chat_def asChatResponse_def openai_response_def nullish_def split: if_splits prod.splits sum.splits)
  have one: "toolLoop sv n h r w = (w, [], Some (h, r))" if "rp_toolCalls r = []" for sv :: "'a Services" and n h r w
    using that by (cases n) auto
  obtain c1 h0 where load: "loadHistory chat c = (c1, h0)" by fastforce
  let ?h = "h0 @ [\<lparr>cm_role = UserRole, cm_content = PlainText msg\<rparr>]"
  obtain w1 res where call: "sv_chat (services_of (openai_chat api pv) opts tool err) ?h w = (w1, res)" by fastforce
  have "requests = [?h] \<and> w' = w1"
    using assms load call none [of ?h w w1] by (cases res) (auto simp: handleMessage_def one)
  with call have "requests = [?h] \<and> fst (sv_chat (services_of (openai_chat api pv) opts tool err) ?h w) = w'" by simp
  then show ?thesis by (auto simp: services_of_def openai_chat_def split: prod.splits sum.splits)
qed

section \<open>Streams\<close>

definition unlinesNl :: "string list \<Rightarrow> string" where
  "unlinesNl ls = concat (map (\<lambda>l. l @ [newline]) ls)"

lemma splitAtNewline_line: "newline \<notin> set l \<Longrightarrow> splitAtNewline (l @ newline # s) = l # splitAtNewline s"
  by (induction l) auto

lemma splitAtNewline_lines: "list_all (\<lambda>l. newline \<notin> set l) ls \<Longrightarrow> splitAtNewline (unlinesNl ls) = ls @ [[]]"
  by (induction ls) (auto simp: unlinesNl_def splitAtNewline_line)

lemma streamLines_append:
  "streamLines line (xs @ ys) =
     (case streamLines line xs of (cs, ReadOn) \<Rightarrow> (let (ds, e) = streamLines line ys in (cs @ ds, e)) | (cs, e) \<Rightarrow> (cs, e))"
  by (induction xs) (auto simp: Let_def split: option.splits prod.splits StreamEnd.splits)

text \<open>
  When every read of the stream consists of whole lines, however they are grouped into
  reads, the chunks passed on are those of the lines one after the other.
\<close>

theorem stream_grouping_irrelevant:
  assumes "list_all (list_all (\<lambda>l. newline \<notin> set l)) lss"
  shows "streamReads line (map unlinesNl lss) = streamLines line (filter (\<lambda>l. l \<noteq> []) (concat lss))"
  using assms
  by (induction lss) (auto simp: splitAtNewline_lines streamLines_append split: prod.splits StreamEnd.splits)

theorem stream_grouping_irrelevant_witness:
  "streamReads (\<lambda>l. Some (Some l, False)) [''a'' @ [newline] @ ''b'' @ [newline], ''c'' @ [newline]]
   = streamLines (\<lambda>l. Some (Some l, False)) [''a'', ''b'', ''c'']"
  using stream_grouping_irrelevant [of "[[''a'', ''b''], [''c'']]" "\<lambda>l. Some (Some l, False)"] by (simp add: unlinesNl_def)

text \<open>A line that arrives in two reads is parsed in two pieces: the stream throws although every line parses.\<close>

lemma split_line_breaks_stream:
  "streamReads (\<lambda>l. if l = ''ab'' then Some (Some l, False) else None) [''a'', ''b'' @ [newline]] = ([], ParseError)"
  by simp

section \<open>Providers at startup\<close>

text \<open>Every provider that startup puts behind the router has what its calls check for.\<close>

definition provider_usable :: "AnyProvider \<Rightarrow> bool" where
  "provider_usable p = (case p of AnthropicP q \<Rightarrow> key_isAvailable q | OpenAIP q \<Rightarrow> key_isAvailable q | OllamaP _ \<Rightarrow> True)"

lemma configured_usable: "jm_get (constructedProviders env cfg) n = Some p \<Longrightarrow> provider_usable p"
  by (auto simp: constructedProviders_def Let_def jm_get_def provider_usable_def key_isAvailable_def new_Anthropic_def new_OpenAI_def
      truthy_def split: if_splits option.splits)

text \<open>
  Startup routes requests only to providers that can be called: a provider of the router
  never fails for want of a key.
\<close>

theorem routed_providers_usable:
  assumes "routedProviders env cfg = Some (p, fallback)"
  shows "list_all provider_usable (p # fallback)"
  using assms configured_usable
  by (fastforce simp: routedProviders_def Let_def list_all_iff List.map_filter_def split: option.splits)

text \<open>The key of OpenAI in the environment alone, which the provider itself would read, is not considered.\<close>

lemma openai_environment_ignored:
  "routedProviders (\<lambda>v. if v = ''OPENAI_API_KEY'' then Some ''k'' else None)
     (Some \<lparr>pc_primary = ''openai'', pc_fallback = None, pc_anthropic = None, pc_openai = Some (None, None), pc_ollama = None\<rparr>) = None"
  "key_isAvailable (new_OpenAI (Some ''k'') None None)"
  by (simp_all add: routedProviders_def constructedProviders_def truthy_def key_isAvailable_def new_OpenAI_def)

end
