(* ===== verification/Markdown.thy ===== *)
theory Markdown
  imports MessagingProps
begin

text \<open>
  The converter from Markdown to the HTML that Telegram accepts (\<open>markdownToTelegramHtml\<close>
  of \<open>src/messaging/format.ts\<close>), with its properties. Each \<open>text.replace(/re/g, f)\<close> of the
  code is \<open>gsub\<close> with a matcher: given the character before and the rest of the text, the
  matcher returns the replacement and what is left, or nothing where the expression does
  not match at this place. The expressions are deterministic enough to need no search:
  what follows a greedy class begins with a character outside the class.
\<close>

section \<open>Global replacement\<close>

type_synonym matcher = "char option \<Rightarrow> string \<Rightarrow> (string \<times> string) option"

function gsub :: "matcher \<Rightarrow> char option \<Rightarrow> string \<Rightarrow> string" where
  "gsub m prev s =
     (case s of [] \<Rightarrow> []
      | c # cs \<Rightarrow>
          (case m prev s of
             Some (r, rest) \<Rightarrow>
               if length rest < length s then r @ gsub m (Some (s ! (length s - length rest - 1))) rest
               else c # gsub m (Some c) cs
           | None \<Rightarrow> c # gsub m (Some c) cs))"
  by pat_completeness auto

termination gsub
  by (relation "measure (\<lambda>(m, b, s). length s)") auto

declare gsub.simps [simp del]

text \<open>The same with the matches taken out of the text: each becomes a numbered placeholder.\<close>

function extractCode :: "(string \<Rightarrow> (string \<times> string) option) \<Rightarrow> (nat \<Rightarrow> string) \<Rightarrow> (string \<Rightarrow> string)
    \<Rightarrow> nat \<Rightarrow> string \<Rightarrow> string \<times> string list" where
  "extractCode m hole render k s =
     (case s of [] \<Rightarrow> ([], [])
      | c # cs \<Rightarrow>
          (case m s of
             Some (code, rest) \<Rightarrow>
               if length rest < length s
               then (let (t, xs) = extractCode m hole render (Suc k) rest in (hole k @ t, render code # xs))
               else (let (t, xs) = extractCode m hole render k cs in (c # t, xs))
           | None \<Rightarrow> (let (t, xs) = extractCode m hole render k cs in (c # t, xs))))"
  by pat_completeness auto

termination extractCode
  by (relation "measure (\<lambda>(m, h, f, k, s). length s)") auto

declare extractCode.simps [simp del]

text \<open>\<open>.*?p\<close> over characters satisfying \<open>ok\<close>: the shortest text before the next \<open>p\<close>.\<close>

fun upTo :: "(char \<Rightarrow> bool) \<Rightarrow> (string \<Rightarrow> bool) \<Rightarrow> string \<Rightarrow> (string \<times> string) option" where
  "upTo ok stop s =
     (if stop s then Some ([], s)
      else case s of [] \<Rightarrow> None
        | c # cs \<Rightarrow> if ok c then map_option (\<lambda>(a, b). (c # a, b)) (upTo ok stop cs) else None)"

declare upTo.simps [simp del]

text \<open>\<open>.+?p\<close>: the first character is taken whatever it starts.\<close>

definition upTo1 :: "(char \<Rightarrow> bool) \<Rightarrow> (string \<Rightarrow> bool) \<Rightarrow> string \<Rightarrow> (string \<times> string) option" where
  "upTo1 ok stop s =
     (case s of [] \<Rightarrow> None
      | c # cs \<Rightarrow> if ok c then map_option (\<lambda>(a, b). (c # a, b)) (upTo ok stop cs) else None)"

section \<open>The expressions\<close>

definition is_word :: "char \<Rightarrow> bool" where
  "is_word c \<longleftrightarrow> is_digit c \<or> c = CHR ''_''
     \<or> (97 \<le> (of_char (asciiLower c) :: nat) \<and> (of_char (asciiLower c) :: nat) \<le> 122)"

definition is_alnum :: "char \<Rightarrow> bool" where
  "is_alnum c \<longleftrightarrow> is_word c \<and> c \<noteq> CHR ''_''"

text \<open>What \<open>.\<close> matches.\<close>

definition dot :: "char \<Rightarrow> bool" where
  "dot c \<longleftrightarrow> c \<noteq> newline \<and> c \<noteq> CHR 0x0D"

definition fence :: string where
  "fence = ''```''"

definition nul :: char where
  "nul = CHR 0x00"

text \<open>\<^verbatim>\<open>/```(?:\w*)\n?([\s\S]*?)```/\<close>\<close>

definition codeBlock :: "string \<Rightarrow> (string \<times> string) option" where
  "codeBlock s =
     (if startsWith s fence
      then (let t = dropWhile is_word (drop 3 s);
                u = (case t of c # cs \<Rightarrow> if c = newline then cs else t | [] \<Rightarrow> [])
            in map_option (\<lambda>(a, b). (a, drop 3 b)) (upTo (\<lambda>_. True) (\<lambda>v. startsWith v fence) u))
      else None)"

text \<open>\<^verbatim>\<open>/`([^`]+)`/\<close>\<close>

definition inlineCodeSpan :: "string \<Rightarrow> (string \<times> string) option" where
  "inlineCodeSpan s =
     (case s of [] \<Rightarrow> None
      | c # cs \<Rightarrow> if c = CHR ''`'' then (let a = takeWhile (\<lambda>x. x \<noteq> CHR ''`'') cs; b = dropWhile (\<lambda>x. x \<noteq> CHR ''`'') cs
                                        in if a \<noteq> [] \<and> b \<noteq> [] then Some (a, tl b) else None)
                 else None)"

text \<open>\<open>mark(.+?)mark\<close>, for the marks of bold, bold italic and strikethrough.\<close>

definition paired :: "string \<Rightarrow> string \<Rightarrow> string \<Rightarrow> matcher" where
  "paired mark opn cls prev s =
     (if startsWith s mark
      then map_option (\<lambda>(a, b). (opn @ a @ cls, drop (length mark) b))
             (upTo1 dot (\<lambda>v. startsWith v mark) (drop (length mark) s))
      else None)"

text \<open>\<^verbatim>\<open>/(?<![a-zA-Z0-9])\*(.+?)\*(?![a-zA-Z0-9])/\<close>\<close>

definition italic :: matcher where
  "italic prev s =
     (if startsWith s ''*'' \<and> (case prev of None \<Rightarrow> True | Some c \<Rightarrow> \<not> is_alnum c)
      then map_option (\<lambda>(a, b). (''<i>'' @ a @ ''</i>'', drop 1 b))
             (upTo1 dot (\<lambda>v. startsWith v ''*'' \<and> (case drop 1 v of [] \<Rightarrow> True | c # _ \<Rightarrow> \<not> is_alnum c)) (drop 1 s))
      else None)"

text \<open>\<^verbatim>\<open>/\[([^\]]+)\]\(([^)]+)\)/\<close>\<close>

definition link :: matcher where
  "link prev s =
     (if startsWith s ''[''
      then let t = drop 1 s; a = takeWhile (\<lambda>c. c \<noteq> CHR '']'') t; b = dropWhile (\<lambda>c. c \<noteq> CHR '']'') t
           in if a \<noteq> [] \<and> startsWith b ''](''
              then let u = drop 2 b; x = takeWhile (\<lambda>c. c \<noteq> CHR '')'') u; y = dropWhile (\<lambda>c. c \<noteq> CHR '')'') u
                   in if x \<noteq> [] \<and> y \<noteq> []
                      then Some (''<a href='' @ [CHR 0x22] @ x @ [CHR 0x22] @ ''>'' @ a @ ''</a>'', drop 1 y) else None
              else None
      else None)"

text \<open>A placeholder, and the expression that finds it again; a number without an entry reads \<open>undefined\<close>.\<close>

definition placeholder :: "string \<Rightarrow> nat \<Rightarrow> string" where
  "placeholder tag k = [nul] @ tag @ show_nat k @ [nul]"

definition restored :: "string \<Rightarrow> string list \<Rightarrow> matcher" where
  "restored tag xs prev s =
     (if startsWith s (nul # tag)
      then let t = drop (1 + length tag) s; ds = takeWhile is_digit t; u = dropWhile is_digit t
           in if ds \<noteq> [] \<and> u \<noteq> [] \<and> hd u = nul
              then Some (if digits_value ds < length xs then xs ! digits_value ds else ''undefined'', tl u) else None
      else None)"

section \<open>The conversion\<close>

definition stripNewline :: "string \<Rightarrow> string" where
  "stripNewline code = (if code \<noteq> [] \<and> last code = newline then butlast code else code)"

definition renderBlock :: "string \<Rightarrow> string" where
  "renderBlock code = ''<pre><code>'' @ escapeHtml (stripNewline code) @ ''</code></pre>''"

definition renderInline :: "string \<Rightarrow> string" where
  "renderInline code = ''<code>'' @ escapeHtml code @ ''</code>''"

definition inlineFormat :: "string \<Rightarrow> string" where
  "inlineFormat s =
     gsub link None
      (gsub (paired ''~~'' ''<s>'' ''</s>'') None
        (gsub italic None
          (gsub (paired ''**'' ''<b>'' ''</b>'') None
            (gsub (paired ''***'' ''<b><i>'' ''</i></b>'') None s))))"

definition markdownToTelegramHtml :: "string \<Rightarrow> string" where
  "markdownToTelegramHtml markdown =
     (if markdown = [] then []
      else let (t1, codeBlocks) = extractCode codeBlock (placeholder ''CB'') renderBlock 0 markdown;
               (t2, inlineCode) = extractCode inlineCodeSpan (placeholder ''IC'') renderInline 0 t1;
               t3 = inlineFormat (escapeHtml t2)
           in gsub (restored ''CB'' codeBlocks) None (gsub (restored ''IC'' inlineCode) None t3))"

section \<open>No tag but the converter's own\<close>

definition tags :: "string list" where
  "tags = [''<b>'', ''</b>'', ''<i>'', ''</i>'', ''<s>'', ''</s>'', ''<pre>'', ''</pre>'', ''<code>'', ''</code>'',
           ''<a href='' @ [CHR 0x22], ''</a>'']"

definition opensTag :: "string \<Rightarrow> bool" where
  "opensTag s \<longleftrightarrow> list_ex (startsWith s) tags"

text \<open>Every \<open><\<close> of the text begins a tag that the converter writes.\<close>

fun safeHtml :: "string \<Rightarrow> bool" where
  "safeHtml [] \<longleftrightarrow> True"
| "safeHtml (c # cs) \<longleftrightarrow> (c = CHR ''<'' \<longrightarrow> opensTag (c # cs)) \<and> safeHtml cs"

text \<open>A character that occurs in no tag.\<close>

definition outside :: "char \<Rightarrow> bool" where
  "outside c \<longleftrightarrow> list_all (\<lambda>t. c \<notin> set t) tags"

lemma outside_marks:
  "outside (CHR ''*'')" "outside (CHR ''~'')" "outside (CHR ''['')" "outside (CHR '']'')" "outside (CHR ''('')"
  "outside (CHR '')'')" "outside nul"
  by (simp_all add: outside_def tags_def nul_def)

lemma opensTag_append: "opensTag a \<Longrightarrow> opensTag (a @ b)"
  unfolding opensTag_def list_ex_iff startsWith_iff by (metis append.assoc)

lemma safe_append: "safeHtml a \<Longrightarrow> safeHtml b \<Longrightarrow> safeHtml (a @ b)"
  by (induction a) (use opensTag_append in force)+

lemma safe_suffix: "safeHtml (a @ b) \<Longrightarrow> safeHtml b"
  by (induction a) auto

lemma prefix_before:
  assumes "c \<notin> set t" and "startsWith (a @ c # b) t"
  shows "startsWith a t"
proof -
  obtain u where u: "a @ c # b = t @ u" using assms(2) by (auto simp: startsWith_iff)
  then obtain us where "a = t @ us \<and> us @ c # b = u \<or> a @ us = t \<and> c # b = us @ u" by (auto simp: append_eq_append_conv2)
  with assms(1) show ?thesis by (cases us) (auto simp: startsWith_iff)
qed

lemma safe_prefix: "safeHtml (a @ c # b) \<Longrightarrow> outside c \<Longrightarrow> safeHtml a"
proof (induction a)
  case (Cons x a)
  have "opensTag (x # a)" if "x = CHR ''<''"
  proof -
    have "opensTag ((x # a) @ c # b)" using Cons.prems(1) that by simp
    then obtain t where "t \<in> set tags" "startsWith ((x # a) @ c # b) t"
      unfolding opensTag_def list_ex_iff by blast
    with Cons.prems(2) prefix_before [of c t "x # a" b] show ?thesis
      by (auto simp: opensTag_def outside_def list_all_iff list_ex_iff)
  qed
  with Cons show ?case by simp
qed simp

lemma safe_cut: "safeHtml (a @ c # b) \<Longrightarrow> outside c \<Longrightarrow> safeHtml a \<and> safeHtml b"
  using safe_prefix safe_suffix [of "a @ [c]" b] by simp

lemma safe_plain: "CHR ''<'' \<notin> set s \<Longrightarrow> safeHtml s"
  by (induction s) auto

lemma safe_escape: "safeHtml (escapeHtml s)"
proof (rule safe_plain)
  have "CHR ''<'' \<notin> set (escapeChar c)" for c by auto
  then show "CHR ''<'' \<notin> set (escapeHtml s)" by (auto simp: escapeHtml_def simp del: escapeChar.simps)
qed

lemma safe_tags: "safeHtml ''<b>''" "safeHtml ''</b>''" "safeHtml ''<i>''" "safeHtml ''</i>''" "safeHtml ''<s>''" "safeHtml ''</s>''"
  "safeHtml ''<b><i>''" "safeHtml ''</i></b>''" "safeHtml ''<code>''" "safeHtml ''</code>''"
  "safeHtml ''<pre><code>''" "safeHtml ''</code></pre>''" "safeHtml (''<a href='' @ [CHR 0x22])" "safeHtml ''</a>''"
  by (simp_all add: opensTag_def tags_def startsWith_def)

text \<open>
  The interface of the replacements: a match begins outside every tag, and what a match
  writes and leaves is safe when the text was.
\<close>

locale tag_matcher =
  fixes m :: matcher
  assumes starts: "m p (c # cs) \<noteq> None \<Longrightarrow> outside c"
    and keeps: "m p s = Some (r, rest) \<Longrightarrow> safeHtml s \<Longrightarrow> safeHtml r \<and> safeHtml rest"
begin

lemma gsub_skips: "\<not> outside c \<Longrightarrow> gsub m p (c # cs) = c # gsub m (Some c) cs"
  using starts [of p c cs] by (subst gsub.simps) (auto split: option.splits)

lemma gsub_tag: "list_all (\<lambda>c. \<not> outside c) t \<Longrightarrow> \<exists>q. gsub m p (t @ u) = t @ gsub m q u"
  by (induction t arbitrary: p) (auto simp: gsub_skips)

lemma gsub_safe: "safeHtml s \<Longrightarrow> safeHtml (gsub m p s)"
proof (induction s arbitrary: p rule: length_induct)
  case (1 s)
  show ?case
  proof (cases s)
    case Nil
    then show ?thesis by (simp add: gsub.simps)
  next
    case (Cons c cs)
    have skip: "safeHtml (c # gsub m (Some c) cs)"
    proof -
      have "opensTag (c # gsub m (Some c) cs)" if lt: "c = CHR ''<''"
      proof -
        have "opensTag (c # cs)" using 1(2) lt Cons by simp
        then obtain t u where t: "t \<in> set tags" "c # cs = t @ u"
          unfolding opensTag_def list_ex_iff startsWith_iff by blast
        have "list_all (\<lambda>x. \<not> outside x) t" using t(1) by (auto simp: outside_def list_all_iff)
        then obtain q where "gsub m p (c # cs) = t @ gsub m q u" using gsub_tag t(2) by metis
        moreover have "\<not> outside c" using t lt by (auto simp: outside_def list_all_iff tags_def)
        ultimately show ?thesis using t(1) by (auto simp: gsub_skips opensTag_def list_ex_iff startsWith_iff)
      qed
      moreover have "safeHtml (gsub m (Some c) cs)" using 1 Cons by simp
      ultimately show ?thesis by simp
    qed
    have "safeHtml (r @ gsub m q rest)" if "m p s = Some (r, rest)" "length rest < length s" for r q rest
      using keeps [OF that(1) 1(2)] 1(1) that(2) by (simp add: safe_append)
    with skip show ?thesis
      by (subst gsub.simps) (auto simp: Cons split: option.splits)
  qed
qed

end

lemma upTo_Some: "upTo ok stop s = Some (a, b) \<Longrightarrow> s = a @ b \<and> stop b"
proof (induction s arbitrary: a)
  case Nil
  then show ?case by (subst (asm) upTo.simps) (auto split: if_splits)
next
  case (Cons c cs)
  then show ?case by (subst (asm) upTo.simps) (auto split: if_splits)
qed

lemma upTo1_Some: "upTo1 ok stop s = Some (a, b) \<Longrightarrow> s = a @ b \<and> stop b"
  by (auto simp: upTo1_def split: list.splits if_splits dest!: upTo_Some)

text \<open>The shape of a match between two marks that begin with the same character.\<close>

lemma between_marks:
  assumes s: "s = (c # mark) @ a @ (c # mark) @ rest" and c: "outside c" "safeHtml s"
    and tags: "safeHtml x" "safeHtml y"
  shows "safeHtml (x @ a @ y) \<and> safeHtml rest"
proof -
  have "safeHtml (a @ c # mark @ rest)" using s c(2) safe_suffix [of "c # mark"] by simp
  then have "safeHtml a" "safeHtml rest" using safe_cut c(1) safe_suffix by blast+
  with tags show ?thesis by (simp add: safe_append)
qed

lemma paired_matcher:
  assumes "outside c" and "safeHtml opn" "safeHtml cls"
  shows "tag_matcher (paired (c # mark) opn cls)"
proof
  show "outside d" if "paired (c # mark) opn cls p (d # cs) \<noteq> None" for p d cs
    using that assms(1) by (auto simp: paired_def startsWith_def split: if_splits)
  show "safeHtml r \<and> safeHtml rest" if m: "paired (c # mark) opn cls p s = Some (r, rest)" and "safeHtml s" for p s r rest
  proof -
    obtain a b where ab: "upTo1 dot (\<lambda>v. startsWith v (c # mark)) (drop (length (c # mark)) s) = Some (a, b)"
      "r = opn @ a @ cls" "rest = drop (length (c # mark)) b" and st: "startsWith s (c # mark)"
      using m by (auto simp: paired_def split: if_splits)
    have "s = (c # mark) @ a @ (c # mark) @ rest"
      using upTo1_Some [OF ab(1)] st ab(3) by (metis append_take_drop_id startsWith_def)
    then show ?thesis using between_marks assms \<open>safeHtml s\<close> ab(2) by blast
  qed
qed

interpretation bold_italic: tag_matcher "paired ''***'' ''<b><i>'' ''</i></b>''"
  using paired_matcher [OF outside_marks(1) safe_tags(7,8)] .

interpretation bold: tag_matcher "paired ''**'' ''<b>'' ''</b>''"
  using paired_matcher [OF outside_marks(1) safe_tags(1,2)] .

interpretation strike: tag_matcher "paired ''~~'' ''<s>'' ''</s>''"
  using paired_matcher [OF outside_marks(2) safe_tags(5,6)] .

interpretation ital: tag_matcher italic
proof
  show "outside c" if "italic p (c # cs) \<noteq> None" for p c cs
    using that outside_marks(1) by (auto simp: italic_def startsWith_def split: if_splits)
  show "safeHtml r \<and> safeHtml rest" if m: "italic p s = Some (r, rest)" and "safeHtml s" for p s r rest
  proof -
    obtain a b where ab: "drop 1 s = a @ b" "startsWith b ''*''" "r = ''<i>'' @ a @ ''</i>''" "rest = drop 1 b"
      and st: "startsWith s ''*''"
      using m by (auto simp: italic_def split: if_splits dest!: upTo1_Some)
    have s: "s = [CHR ''*''] @ a @ [CHR ''*''] @ rest" using ab st by (auto simp: startsWith_iff)
    show ?thesis using between_marks [OF s outside_marks(1) \<open>safeHtml s\<close> safe_tags(3,4)] ab(3) by simp
  qed
qed

lemma takeWhile_stops: "dropWhile (\<lambda>x. x \<noteq> c) s \<noteq> [] \<Longrightarrow> s = takeWhile (\<lambda>x. x \<noteq> c) s @ c # tl (dropWhile (\<lambda>x. x \<noteq> c) s)"
  by (induction s) auto

lemma link_shape:
  assumes "link p s = Some (r, rest)"
  obtains a x where "s = ''['' @ a @ ''](''  @ x @ '')'' @ rest"
    and "r = (''<a href='' @ [CHR 0x22]) @ x @ [CHR 0x22, CHR ''>''] @ a @ ''</a>''"
proof -
  define t where "t = drop 1 s"
  define a where "a = takeWhile (\<lambda>c. c \<noteq> CHR '']'') t"
  define b where "b = dropWhile (\<lambda>c. c \<noteq> CHR '']'') t"
  define x where "x = takeWhile (\<lambda>c. c \<noteq> CHR '')'') (drop 2 b)"
  define y where "y = dropWhile (\<lambda>c. c \<noteq> CHR '')'') (drop 2 b)"
  have h: "startsWith s ''[''" "startsWith b ''](''" "y \<noteq> []" "rest = drop 1 y"
    "r = (''<a href='' @ [CHR 0x22]) @ x @ [CHR 0x22, CHR ''>''] @ a @ ''</a>''"
    using assms unfolding link_def Let_def t_def a_def b_def x_def y_def by (auto split: if_splits)
  have "s = ''['' @ t" using h(1) by (auto simp: startsWith_iff t_def)
  moreover have "t = a @ b" by (simp add: a_def b_def)
  moreover have "b = ''](''  @ drop 2 b" using h(2) by (auto simp: startsWith_iff)
  moreover have "drop 2 b = x @ '')'' @ rest"
    using takeWhile_stops [of "CHR '')''" "drop 2 b"] h(3,4) by (simp add: x_def y_def drop_Suc)
  ultimately show ?thesis using that h(5) by simp
qed

interpretation links: tag_matcher link
proof
  show "outside c" if "link p (c # cs) \<noteq> None" for p c cs
    using that outside_marks(3) by (auto simp: link_def startsWith_def split: if_splits)
  show "safeHtml r \<and> safeHtml rest" if m: "link p s = Some (r, rest)" and s: "safeHtml s" for p s r rest
  proof -
    obtain a x where sx: "s = ''['' @ a @ ''](''  @ x @ '')'' @ rest"
      and r: "r = (''<a href='' @ [CHR 0x22]) @ x @ [CHR 0x22, CHR ''>''] @ a @ ''</a>''"
      using link_shape [OF m] by metis
    have "safeHtml (a @ CHR '']'' # CHR ''('' # x @ CHR '')'' # rest)" using s sx by simp
    from safe_cut [OF this outside_marks(4)] have "safeHtml a" "safeHtml (x @ CHR '')'' # rest)" by simp_all
    moreover from this have "safeHtml x" "safeHtml rest" using safe_cut outside_marks(6) by blast+
    ultimately show ?thesis unfolding r by (intro conjI safe_append safe_tags) (simp_all add: safe_plain)
  qed
qed

lemma restored_matcher:
  assumes "list_all safeHtml xs"
  shows "tag_matcher (restored tag xs)"
proof
  show "outside c" if "restored tag xs p (c # cs) \<noteq> None" for p c cs
    using that outside_marks(7) by (auto simp: restored_def startsWith_def split: if_splits)
  show "safeHtml r \<and> safeHtml rest" if m: "restored tag xs p s = Some (r, rest)" and s: "safeHtml s" for p s r rest
  proof -
    let ?t = "drop (1 + length tag) s"
    have h: "rest = tl (dropWhile is_digit ?t)" "r \<in> insert ''undefined'' (set xs)"
      using m by (auto simp: restored_def Let_def split: if_splits)
    have "\<exists>u. s = u @ rest"
      unfolding h(1) by (metis append.assoc append_Nil2 append_take_drop_id drop_Suc drop0 takeWhile_dropWhile_id tl_Nil)
    then have "safeHtml rest" using s safe_suffix by blast
    moreover have "safeHtml ''undefined''" by (simp add: safe_plain)
    ultimately show ?thesis using h(2) assms by (auto simp: list_all_iff)
  qed
qed

lemma extractCode_renders: "(\<And>x. P (f x)) \<Longrightarrow> list_all P (snd (extractCode m h f k s))"
proof (induction m h f k s rule: extractCode.induct)
  case (1 m h f k s)
  show ?case
  proof (cases s)
    case (Cons c cs)
    with 1 show ?thesis
      by (subst extractCode.simps) (auto simp: case_prod_unfold Let_def split: option.splits)
  qed (simp add: extractCode.simps)
qed

lemma inlineFormat_safe: "safeHtml s \<Longrightarrow> safeHtml (inlineFormat s)"
  unfolding inlineFormat_def
  by (intro links.gsub_safe strike.gsub_safe ital.gsub_safe bold.gsub_safe bold_italic.gsub_safe)

text \<open>
  C20. Whatever the Markdown text, each \<open><\<close> in the HTML sent to Telegram begins one of the
  twelve tags the converter itself writes: the text of a user, a tool or a model cannot
  put any other tag into a message.
\<close>

theorem markdown_html_safe: "safeHtml (markdownToTelegramHtml md)"
proof -
  have "safeHtml (renderBlock c)" "safeHtml (renderInline c)" for c
    by (simp_all only: renderBlock_def renderInline_def safe_append safe_escape safe_tags)
  then have "tag_matcher (restored tag (snd (extractCode m h renderBlock k s)))"
      "tag_matcher (restored tag (snd (extractCode m h renderInline k s)))" for tag m h k s
    by (simp_all add: restored_matcher extractCode_renders)
  then show ?thesis
    by (auto simp: markdownToTelegramHtml_def case_prod_unfold Let_def
        intro!: tag_matcher.gsub_safe inlineFormat_safe safe_escape)
qed

section \<open>Plain text and code\<close>

text \<open>Characters with no meaning to the converter.\<close>

definition plainChar :: "char \<Rightarrow> bool" where
  "plainChar c \<longleftrightarrow> c \<notin> set ''`*~['' \<and> c \<noteq> nul"

lemma gsub_nowhere:
  "list_all (\<lambda>c. \<forall>p cs. m p (c # cs) = None) s \<Longrightarrow> \<exists>q. gsub m p (s @ t) = s @ gsub m q t"
proof (induction s arbitrary: p)
  case (Cons c cs)
  then have "gsub m p ((c # cs) @ t) = c # gsub m (Some c) (cs @ t)" by (subst gsub.simps) simp
  with Cons show ?case by auto
qed auto

lemma gsub_unchanged: "list_all (\<lambda>c. \<forall>p cs. m p (c # cs) = None) s \<Longrightarrow> gsub m p s = s"
  using gsub_nowhere [of m s p "[]"] by (auto simp: gsub.simps [of m _ "[]"])

lemma extractCode_nowhere:
  "(\<And>u v. s = u @ v \<Longrightarrow> v \<noteq> [] \<Longrightarrow> m (v @ t) = None) \<Longrightarrow>
   extractCode m h f k (s @ t) = (let (x, xs) = extractCode m h f k t in (s @ x, xs))"
proof (induction s)
  case (Cons c cs)
  have "m (c # cs @ t) = None" using Cons.prems [of "[]" "c # cs"] by simp
  then have "extractCode m h f k ((c # cs) @ t) = (let (x, xs) = extractCode m h f k (cs @ t) in (c # x, xs))"
    by (subst extractCode.simps) simp
  with Cons.IH Cons.prems show ?case by (auto simp: Let_def case_prod_unfold)
qed (simp add: Let_def)

lemma extractCode_unchanged: "(\<And>u v. s = u @ v \<Longrightarrow> m v = None) \<Longrightarrow> extractCode m h f k s = (s, [])"
  using extractCode_nowhere [of s m "[]" h f k] by (simp add: extractCode.simps [of m h f k "[]"])

lemma escape_append: "escapeHtml (a @ b) = escapeHtml a @ escapeHtml b"
  by (simp add: escapeHtml_def)

lemma escape_plain: "list_all plainChar s \<Longrightarrow> list_all plainChar (escapeHtml s)"
  by (induction s) (auto simp: escapeHtml_def plainChar_def nul_def)

text \<open>None of the inline expressions begins with a character outside its marks.\<close>

lemma inlineFormat_unchanged: "list_all (\<lambda>c. c \<notin> set ''*~['') s \<Longrightarrow> inlineFormat s = s"
  unfolding inlineFormat_def
  by (simp add: gsub_unchanged paired_def italic_def link_def startsWith_def list_all_iff)

lemma restored_nowhere: "c \<noteq> nul \<Longrightarrow> restored tag xs p (c # cs) = None"
  by (simp add: restored_def startsWith_def)

lemma no_holes: "nul \<notin> set s \<Longrightarrow> list_all (\<lambda>c. \<forall>p cs. restored tag xs p (c # cs) = None) s"
  unfolding list_all_iff by (metis restored_nowhere)

lemma few_ticks: "count_list s (CHR ''`'') < 3 \<Longrightarrow> s = u @ v \<Longrightarrow> codeBlock v = None"
  by (auto simp: codeBlock_def fence_def startsWith_iff)

lemma no_blocks: "count_list s (CHR ''`'') < 3 \<Longrightarrow> extractCode codeBlock h f k s = (s, [])"
  by (rule extractCode_unchanged) (rule few_ticks)

lemma span_nowhere: "CHR ''`'' \<notin> set y \<Longrightarrow> y \<noteq> [] \<Longrightarrow> inlineCodeSpan (y @ s) = None"
  by (cases y) (auto simp: inlineCodeSpan_def)

lemma no_spans: "CHR ''`'' \<notin> set s \<Longrightarrow> extractCode inlineCodeSpan h f k s = (s, [])"
proof (rule extractCode_unchanged)
  show "CHR ''`'' \<notin> set s \<Longrightarrow> inlineCodeSpan y = None" if "s = x @ y" for x y
    using span_nowhere [of y "[]"] that by (cases "y = []") (auto simp: inlineCodeSpan_def)
qed

lemma one_span:
  assumes "CHR ''`'' \<notin> set u" "CHR ''`'' \<notin> set v" "CHR ''`'' \<notin> set code" "code \<noteq> []"
  shows "extractCode inlineCodeSpan h f k (u @ ''`'' @ code @ ''`'' @ v) = (u @ h k @ v, [f code])"
proof -
  have "inlineCodeSpan (''`'' @ code @ ''`'' @ v) = Some (code, v)"
    using assms(3,4) by (auto simp: inlineCodeSpan_def takeWhile_append dropWhile_append Let_def)
  then have "extractCode inlineCodeSpan h f k (''`'' @ code @ ''`'' @ v) = (h k @ v, [f code])"
    by (subst extractCode.simps) (simp add: no_spans assms(2))
  moreover have "inlineCodeSpan (y @ s) = None" if "u = x @ y" "y \<noteq> []" for x y s
    using that assms(1) by (intro span_nowhere) auto
  ultimately show ?thesis
    using extractCode_nowhere [of u inlineCodeSpan "''`'' @ code @ ''`'' @ v" h f k] by (simp add: Let_def)
qed

text \<open>
  A text without backticks, asterisks, tildes, opening brackets and null characters is
  only escaped.
\<close>

theorem plain_text_escaped:
  assumes "list_all plainChar md"
  shows "markdownToTelegramHtml md = escapeHtml md"
proof -
  have tick: "CHR ''`'' \<notin> set md" using assms by (auto simp: list_all_iff plainChar_def)
  then have "count_list md (CHR ''`'') < 3" by (simp add: count_list_0_iff [THEN iffD2])
  note blocks = no_blocks [OF this] and spans = no_spans [OF tick]
  have e: "list_all plainChar (escapeHtml md)" using assms by (rule escape_plain)
  then have "inlineFormat (escapeHtml md) = escapeHtml md"
    by (intro inlineFormat_unchanged) (auto simp: list_all_iff plainChar_def)
  moreover have "gsub (restored tag []) None (escapeHtml md) = escapeHtml md" for tag
    using e by (intro gsub_unchanged no_holes) (auto simp: list_all_iff plainChar_def)
  ultimately show ?thesis by (simp add: markdownToTelegramHtml_def blocks spans escapeHtml_def)
qed

theorem plain_text_escaped_witness: "markdownToTelegramHtml ''a < b'' = ''a &lt; b''"
  using plain_text_escaped [of "''a < b''"] by (simp add: plainChar_def nul_def escapeHtml_def)

lemma restored_hole:
  assumes "k < length xs"
  shows "restored tag xs p (placeholder tag k @ t) = Some (xs ! k, t)"
proof -
  have d: "list_all is_digit (show_nat k)" "show_nat k \<noteq> []" "digits_value (show_nat k) = k" using show_nat_digits by auto
  have "\<not> is_digit nul" by (simp add: is_digit_def nul_def)
  with d(1) have "takeWhile is_digit (show_nat k @ nul # t) = show_nat k" "dropWhile is_digit (show_nat k @ nul # t) = nul # t"
    by (auto simp: list_all_iff takeWhile_append dropWhile_append)
  with d assms show ?thesis by (simp add: restored_def placeholder_def startsWith_def Let_def is_digit_def nul_def)
qed

lemma gsub_hole:
  assumes "k < length xs"
  shows "\<exists>q. gsub (restored tag xs) p (placeholder tag k @ t) = xs ! k @ gsub (restored tag xs) q t"
  using restored_hole [OF assms, of tag p t]
  by (subst gsub.simps) (auto simp: placeholder_def simp del: take_append)

text \<open>
  Code between backticks reaches the message as it is, only escaped: no asterisk, tilde
  or bracket in it is read as formatting.
\<close>

theorem inline_code_verbatim:
  assumes u: "list_all plainChar u" and v: "list_all plainChar v"
    and code: "code \<noteq> []" "CHR ''`'' \<notin> set code" "nul \<notin> set code"
  shows "markdownToTelegramHtml (u @ ''`'' @ code @ ''`'' @ v) = escapeHtml u @ ''<code>'' @ escapeHtml code @ ''</code>'' @ escapeHtml v"
proof -
  let ?md = "u @ ''`'' @ code @ ''`'' @ v"
  let ?t = "u @ placeholder ''IC'' 0 @ v"
  have ticks: "CHR ''`'' \<notin> set u" "CHR ''`'' \<notin> set v" using u v by (auto simp: list_all_iff plainChar_def)
  then have "count_list ?md (CHR ''`'') < 3" using code(2) by (simp add: count_list_0_iff [THEN iffD2])
  note blocks = no_blocks [OF this] and spans = one_span [OF ticks code(2,1)]
  have hole: "placeholder ''IC'' 0 = [nul, CHR ''I'', CHR ''C'', CHR ''0'', nul]" by code_simp
  have esc: "escapeHtml ?t = escapeHtml u @ placeholder ''IC'' 0 @ escapeHtml v"
    unfolding escape_append by (simp add: hole escapeHtml_def nul_def)
  have pu: "list_all plainChar (escapeHtml u)" and pv: "list_all plainChar (escapeHtml v)" using u v by (auto intro: escape_plain)
  have inline: "inlineFormat (escapeHtml ?t) = escapeHtml ?t"
    using pu pv unfolding esc by (intro inlineFormat_unchanged) (auto simp: hole list_all_iff plainChar_def nul_def)
  have nn: "nul \<notin> set (escapeHtml u)" "nul \<notin> set (escapeHtml v)" using pu pv by (auto simp: list_all_iff plainChar_def)
  have ic: "gsub (restored ''IC'' [renderInline code]) None (escapeHtml ?t) = escapeHtml u @ renderInline code @ escapeHtml v"
    using gsub_nowhere [OF no_holes [OF nn(1)]] gsub_hole [of 0 "[renderInline code]" "''IC''"] gsub_unchanged [OF no_holes [OF nn(2)]]
    unfolding esc by (metis length_Cons nth_Cons_0 zero_less_Suc)
  have "nul \<notin> set (renderInline code)"
    using code(3) by (auto simp: renderInline_def escapeHtml_def nul_def split: if_splits)
  then have "gsub (restored ''CB'' []) None (escapeHtml u @ renderInline code @ escapeHtml v) = escapeHtml u @ renderInline code @ escapeHtml v"
    using nn by (intro gsub_unchanged no_holes) simp
  then show ?thesis
    unfolding markdownToTelegramHtml_def blocks spans case_prod_conv Let_def inline ic by (simp add: renderInline_def)
qed

theorem inline_code_verbatim_witness: "markdownToTelegramHtml ''x `a*b*` y'' = ''x <code>a*b*</code> y''"
  using inline_code_verbatim [of "''x ''" "'' y''" "''a*b*''"] by (simp add: plainChar_def nul_def escapeHtml_def)

text \<open>Overlapping marks give tags that are not nested, which Telegram refuses.\<close>

lemma overlapping_marks_misnested: "markdownToTelegramHtml ''**a *b** c*'' = ''<b>a <i>b</b> c</i>''"
  by code_simp

text \<open>A word alone in a code block is taken for the name of a language, and lost.\<close>

lemma one_word_block_lost: "markdownToTelegramHtml ''```ls```'' = ''<pre><code></code></pre>''"
  by code_simp

text \<open>A text that contains a placeholder of its own shows \<open>undefined\<close>, or another part of the message.\<close>

lemma forged_placeholder: "markdownToTelegramHtml ([nul] @ ''IC0'' @ [nul]) = ''undefined''"
  by code_simp

text \<open>Marks within the address of a link put tags into its attribute.\<close>

lemma marks_in_address:
  "markdownToTelegramHtml ''[x](a**b**c)'' = ''<a href='' @ [CHR 0x22] @ ''a<b>b</b>c'' @ [CHR 0x22] @ ''>x</a>''"
  by code_simp

end
