(* ===== verification/MessagingPlugin.thy ===== *)
theory MessagingPlugin
  imports Markdown
begin

text \<open>
  The channels (\<open>src/messaging/channels/telegram.ts\<close>, \<open>discord.ts\<close>), the tools of the inbox
  (\<open>src/mcp/messaging-tools.ts\<close>) and the plugin that joins them to conversations and slash
  commands (\<open>src/plugins/messaging/index.ts\<close>), with properties.

  The bot library and the services act on an outside world: \<open>bt_send\<close> sends a text to a chat,
  as HTML or plain, and gives the message of the error it threw, if any. What the library
  recognises as a command of a message is its function \<open>command\<close>.
\<close>

section \<open>Channels\<close>

datatype ChannelType = DiscordChannel | TelegramChannel

datatype MediaType = MPhoto | MDocument | MVoice | MAudio | MVideo

record Media =
  md_type :: MediaType
  md_fileId :: string
  md_fileName :: "string option"
  md_mimeType :: "string option"
  md_fileSize :: "int option"

record ChannelMessage =
  ch_type :: ChannelType
  ch_id :: string
  ch_userId :: string
  ch_username :: string
  ch_content :: string
  ch_timestamp :: int
  ch_replyTo :: "string option"
  ch_media :: "Media list option"

text \<open>A message of Telegram: the sender with user name and first name, what it carries.\<close>

record TgFile =
  fi_id :: string
  fi_name :: "string option"
  fi_mime :: "string option"
  fi_size :: "int option"

datatype TgBody = TgText string | TgPhoto "TgFile list" | TgDocument TgFile | TgVoice TgFile | TgAudio TgFile | TgVideo TgFile

record TgMessage =
  tg_chat :: int
  tg_from :: "(int \<times> string option \<times> string) option"
  tg_body :: TgBody
  tg_caption :: "string option"
  tg_date :: int
  tg_replyTo :: "int option"

definition buildChannelMessage :: "TgMessage \<Rightarrow> ChannelMessage" where
  "buildChannelMessage m =
     \<lparr>ch_type = TelegramChannel, ch_id = show_int (tg_chat m),
      ch_userId = (case tg_from m of None \<Rightarrow> ''unknown'' | Some (i, _) \<Rightarrow> show_int i),
      ch_username = (case tg_from m of None \<Rightarrow> ''unknown'' | Some (_, u, f) \<Rightarrow> nullish u f),
      ch_content = (case tg_body m of TgText t \<Rightarrow> t | _ \<Rightarrow> nullish (tg_caption m) []),
      ch_timestamp = tg_date m * 1000, ch_replyTo = map_option show_int (tg_replyTo m), ch_media = None\<rparr>"

definition mediaOf :: "MediaType \<Rightarrow> TgFile \<Rightarrow> Media" where
  "mediaOf t f =
     \<lparr>md_type = t, md_fileId = fi_id f,
      md_fileName = (if t \<in> {MDocument, MAudio, MVideo} then fi_name f else None),
      md_mimeType = (if t = MPhoto then None else fi_mime f), md_fileSize = fi_size f\<rparr>"

text \<open>The message the handlers of the adapter get; a photo without sizes throws, which the bot logs.\<close>

definition telegramMessage :: "TgMessage \<Rightarrow> ChannelMessage option" where
  "telegramMessage m =
     (let c = buildChannelMessage m; with = (\<lambda>t f. Some (c\<lparr>ch_media := Some [mediaOf t f]\<rparr>))
      in case tg_body m of
           TgText t \<Rightarrow> if startsWith t ''/'' then None else Some c
         | TgPhoto ps \<Rightarrow> if ps = [] then None else with MPhoto (last ps)
         | TgDocument f \<Rightarrow> with MDocument f | TgVoice f \<Rightarrow> with MVoice f
         | TgAudio f \<Rightarrow> with MAudio f | TgVideo f \<Rightarrow> with MVideo f)"

record 'h TelegramAdapter =
  ta_connected :: bool
  ta_commands :: "(string \<times> string) list"
  commandHandlers :: "(string, 'h) jsmap"

definition new_TelegramAdapter :: "(string \<times> string) list \<Rightarrow> 'h TelegramAdapter" where
  "new_TelegramAdapter cmds = \<lparr>ta_connected = False, ta_commands = cmds, commandHandlers = []\<rparr>"

definition onCommand :: "string \<Rightarrow> 'h \<Rightarrow> 'h TelegramAdapter \<Rightarrow> 'h TelegramAdapter" where
  "onCommand n h a = a\<lparr>commandHandlers := jm_set n h (commandHandlers a)\<rparr>"

text \<open>What an update leads to: a command handler with its chat and arguments, or the message handlers.\<close>

datatype 'h Reaction = RunCommand 'h string string | Deliver ChannelMessage | Nothing

definition onUpdate :: "(TgMessage \<Rightarrow> (string \<times> string option) option) \<Rightarrow> TgMessage \<Rightarrow> 'h TelegramAdapter \<Rightarrow> 'h Reaction" where
  "onUpdate command m a =
     (case command m of
        Some (n, args) \<Rightarrow>
          if n \<in> set (map fst (ta_commands a))
          then (case jm_get (commandHandlers a) n of
                  Some h \<Rightarrow> RunCommand h (show_int (tg_chat m)) (case args of None \<Rightarrow> [] | Some s \<Rightarrow> trim s)
                | None \<Rightarrow> Nothing)
          else (case telegramMessage m of Some c \<Rightarrow> Deliver c | None \<Rightarrow> Nothing)
      | None \<Rightarrow> (case telegramMessage m of Some c \<Rightarrow> Deliver c | None \<Rightarrow> Nothing))"

text \<open>
  The bot: sending, the chat action, registering commands and polling. \<open>reply\<close> is the
  number of the message answered, \<open>Some None\<close> where it is not a number.
\<close>

record 'w Bot =
  bt_send :: "string \<Rightarrow> string \<Rightarrow> bool \<Rightarrow> int option option \<Rightarrow> 'w \<Rightarrow> 'w \<times> (string + unit)"
  bt_typing :: "string \<Rightarrow> 'w \<Rightarrow> 'w \<times> (string + unit)"
  bt_setCommands :: "(string \<times> string) list \<Rightarrow> 'w \<Rightarrow> 'w \<times> (string + unit)"
  bt_deleteCommands :: "'w \<Rightarrow> 'w \<times> (string + unit)"
  bt_stop :: "'w \<Rightarrow> 'w \<times> (string + unit)"

text \<open>
  Connecting and stopping wait for the service, and other events may come first. A call is
  cut there: its first part says which operations wait now, its second part runs when the
  service has answered. \<open>connect\<close> registers the commands and only then counts as
  connected; without commands it waits for nothing.
\<close>

datatype AdapterOp = Connecting | Stopping

definition telegram_connect :: "'h TelegramAdapter \<Rightarrow> 'h TelegramAdapter \<times> AdapterOp list" where
  "telegram_connect a = (if ta_commands a = [] then (a\<lparr>ta_connected := True\<rparr>, []) else (a, [Connecting]))"

definition telegram_connected :: "'w Bot \<Rightarrow> 'h TelegramAdapter \<Rightarrow> 'w \<Rightarrow> 'h TelegramAdapter \<times> 'w" where
  "telegram_connected b a w =
     (case bt_setCommands b (ta_commands a) (fst (bt_deleteCommands b w)) of
        (w1, Inl e) \<Rightarrow> (a, w1) | (w1, Inr _) \<Rightarrow> (a\<lparr>ta_connected := True\<rparr>, w1))"

definition telegram_disconnect :: "'h TelegramAdapter \<Rightarrow> 'h TelegramAdapter \<times> AdapterOp list" where
  "telegram_disconnect a = (a, [Stopping])"

definition telegram_disconnected :: "'w Bot \<Rightarrow> 'h TelegramAdapter \<Rightarrow> 'w \<Rightarrow> 'h TelegramAdapter \<times> 'w" where
  "telegram_disconnected b a w =
     (case bt_stop b w of (w1, Inl e) \<Rightarrow> (a, w1) | (w1, Inr _) \<Rightarrow> (a\<lparr>ta_connected := False\<rparr>, w1))"

text \<open>\<open>sendMessage\<close>: as HTML; where the service cannot parse it, once more as plain text.\<close>

definition cannotParse :: "string \<Rightarrow> bool" where
  "cannotParse e \<longleftrightarrow> str_includes (map asciiLower e) ''parse entities''"

definition telegram_send :: "'w Bot \<Rightarrow> string \<Rightarrow> string \<Rightarrow> string option \<Rightarrow> 'w \<Rightarrow> 'w \<times> (string + unit)" where
  "telegram_send b chan content replyTo w =
     (let reply = (if truthy replyTo then Some (parseInt (the replyTo)) else None)
      in case bt_send b chan content True reply w of
           (w1, Inr u) \<Rightarrow> (w1, Inr u)
         | (w1, Inl e) \<Rightarrow> if cannotParse e then bt_send b chan content False reply w1 else (w1, Inl e))"

text \<open>A file with its caption, if that is not empty; the address from which a file is fetched.\<close>

definition telegram_sendPhoto :: "(string \<Rightarrow> string \<Rightarrow> string option \<Rightarrow> 'w \<Rightarrow> 'w \<times> (string + unit)) \<Rightarrow> string \<Rightarrow> string \<Rightarrow> string option
    \<Rightarrow> 'w \<Rightarrow> 'w \<times> (string + unit)" where
  "telegram_sendPhoto api chan fileId caption w = api chan fileId (if truthy caption then caption else None) w"

definition telegram_sendDocument :: "(string \<Rightarrow> string \<Rightarrow> string option \<Rightarrow> 'w \<Rightarrow> 'w \<times> (string + unit)) \<Rightarrow> string \<Rightarrow> string \<Rightarrow> string option
    \<Rightarrow> 'w \<Rightarrow> 'w \<times> (string + unit)" where
  "telegram_sendDocument api chan fileId caption w = api chan fileId (if truthy caption then caption else None) w"

definition getFileUrl :: "(string \<Rightarrow> 'w \<Rightarrow> 'w \<times> (string + string option)) \<Rightarrow> string \<Rightarrow> string \<Rightarrow> 'w \<Rightarrow> 'w \<times> (string + string)" where
  "getFileUrl getFile token fileId w =
     (case getFile fileId w of
        (w1, Inl e) \<Rightarrow> (w1, Inl e)
      | (w1, Inr path) \<Rightarrow>
          if \<not> truthy path then (w1, Inl ''No file_path returned from Telegram'')
          else (w1, Inr (''https://api.telegram.org/file/bot'' @ token @ ''/'' @ the path)))"

text \<open>Discord: the author's mark as a bot, id and name; \<open>fetch\<close> finds a channel and says whether it takes text.\<close>

record DiscordMessage =
  dm_bot :: bool
  dm_channelId :: string
  dm_authorId :: string
  dm_authorName :: string
  dm_content :: string
  dm_createdAt :: int
  dm_reference :: "string option"

definition discordMessage :: "DiscordMessage \<Rightarrow> ChannelMessage option" where
  "discordMessage m =
     (if dm_bot m then None
      else Some \<lparr>ch_type = DiscordChannel, ch_id = dm_channelId m, ch_userId = dm_authorId m, ch_username = dm_authorName m,
                 ch_content = dm_content m, ch_timestamp = dm_createdAt m, ch_replyTo = dm_reference m, ch_media = None\<rparr>)"

definition discord_send :: "(string \<Rightarrow> 'w \<Rightarrow> 'w \<times> (string + bool option)) \<Rightarrow> (string \<Rightarrow> string \<Rightarrow> string option \<Rightarrow> 'w \<Rightarrow> 'w \<times> (string + unit))
    \<Rightarrow> string \<Rightarrow> string \<Rightarrow> string option \<Rightarrow> 'w \<Rightarrow> 'w \<times> (string + unit)" where
  "discord_send fetch send chan content replyTo w =
     (case fetch chan w of
        (w1, Inl e) \<Rightarrow> (w1, Inl e)
      | (w1, Inr ch) \<Rightarrow>
          if ch \<noteq> Some True then (w1, Inl (''Channel '' @ chan @ '' not found or not text-based''))
          else send chan content (if truthy replyTo then replyTo else None) w1)"

text \<open>The connection of the Discord client; a failed login leaves it as it was.\<close>

definition discord_connect :: "('w \<Rightarrow> 'w \<times> (string + unit)) \<Rightarrow> bool \<Rightarrow> 'w \<Rightarrow> bool \<times> 'w \<times> (string + unit)" where
  "discord_connect login conn w = (case login w of (w1, Inl e) \<Rightarrow> (conn, w1, Inl e) | (w1, Inr _) \<Rightarrow> (True, w1, Inr ()))"

definition discord_disconnect :: "('w \<Rightarrow> 'w) \<Rightarrow> bool \<Rightarrow> 'w \<Rightarrow> bool \<times> 'w" where
  "discord_disconnect destroy conn w = (False, destroy w)"

section \<open>Tools of the inbox\<close>

definition messaging_send :: "int \<Rightarrow> int \<Rightarrow> string \<Rightarrow> WriteMessageInput \<Rightarrow> Inbox \<Rightarrow> Inbox \<times> string \<times> string" where
  "messaging_send now stamp hex inp ib =
     (let (ib', i) = writeMessage now stamp hex (inp\<lparr>wi_context := None\<rparr>) ib in (ib', i, ''sent''))"

definition messaging_check :: "int \<Rightarrow> int option \<Rightarrow> Inbox \<Rightarrow> nat \<times> (InboxMessage \<times> bool) list" where
  "messaging_check now threshold ib =
     (let ms = getNewMessages ib
      in (length ms, map (\<lambda>m. (m, now - im_timestamp m > nullish threshold 30 * 60 * 1000)) ms))"

definition messaging_list :: "Inbox \<Rightarrow> string list \<times> nat" where
  "messaging_list ib = (listMessages ib, length (listMessages ib))"

definition messaging_get :: "string \<Rightarrow> Inbox \<Rightarrow> ReadError + InboxMessage" where
  "messaging_get i ib = readMessage i ib"

definition messaging_gateway_status :: "string \<times> string list \<times> string option" where
  "messaging_gateway_status = (''not_initialized'', [], None)"

section \<open>Results of tools as text\<close>

datatype Json = JNull | JBool bool | JNum string | JStr string | JArr "Json list" | JObj "(string \<times> Json) list"

definition isObject :: "Json \<Rightarrow> bool" where
  "isObject j = (case j of JArr _ \<Rightarrow> True | JObj _ \<Rightarrow> True | _ \<Rightarrow> False)"

text \<open>A value in a template literal.\<close>

fun jsonText :: "Json \<Rightarrow> string" where
  "jsonText JNull = ''null''"
| "jsonText (JBool b) = (if b then ''true'' else ''false'')"
| "jsonText (JNum t) = t"
| "jsonText (JStr s) = s"
| "jsonText (JArr js) = join_with '','' (map (\<lambda>j. if j = JNull then [] else jsonText j) js)"
| "jsonText (JObj _) = ''[object Object]''"

definition entriesOf :: "Json \<Rightarrow> (string \<times> Json) list" where
  "entriesOf j = (case j of JObj kvs \<Rightarrow> kvs | JArr js \<Rightarrow> map (\<lambda>(i, v). (show_nat i, v)) (enumerate 0 js) | _ \<Rightarrow> [])"

definition itemLine :: "string \<Rightarrow> Json \<Rightarrow> string" where
  "itemLine indent j =
     indent @ ''  - '' @
       (if isObject j
        then join_with '', '' (map (\<lambda>(k, v). k @ '': '' @ jsonText v) (filter (\<lambda>(k, v). v \<noteq> JNull \<and> \<not> isObject v) (entriesOf j)))
        else jsonText j)"

fun formatValue :: "string \<Rightarrow> string \<Rightarrow> Json \<Rightarrow> string list" where
  "formatValue indent k JNull = []"
| "formatValue indent k (JArr js) =
     (if js = [] then [indent @ ''**'' @ k @ '':** (none)'']
      else (indent @ ''**'' @ k @ '':**'') # map (itemLine indent) js)"
| "formatValue indent k (JObj kvs) =
     (indent @ ''**'' @ k @ '':**'') # concat (map (\<lambda>(k', v). formatValue (indent @ ''  '') k' v) kvs)"
| "formatValue indent k v = [indent @ ''**'' @ k @ '':** '' @ jsonText v]"

definition truthyJson :: "Json \<Rightarrow> bool" where
  "truthyJson j = (case j of JNull \<Rightarrow> False | JBool b \<Rightarrow> b | JNum t \<Rightarrow> t \<notin> {''0'', ''NaN''} | JStr s \<Rightarrow> s \<noteq> [] | _ \<Rightarrow> True)"

text \<open>\<open>None\<close>: the tool returned nothing.\<close>

definition formatToolResult :: "Json option \<Rightarrow> string" where
  "formatToolResult result =
     (case result of None \<Rightarrow> ''No data returned.''
      | Some JNull \<Rightarrow> ''No data returned.''
      | Some (JStr s) \<Rightarrow> s
      | Some j \<Rightarrow>
          (case (case j of JObj kvs \<Rightarrow> map_of kvs ''error'' | _ \<Rightarrow> None) of
             Some e \<Rightarrow> if truthyJson e then ''Error: '' @ jsonText e
                      else (let ls = concat (map (\<lambda>(k, v). formatValue [] k v) (entriesOf j)) in if ls \<noteq> [] then join_with [newline] ls else ''OK'')
           | None \<Rightarrow> (let ls = concat (map (\<lambda>(k, v). formatValue [] k v) (entriesOf j)) in if ls \<noteq> [] then join_with [newline] ls else ''OK'')))"

section \<open>The plugin\<close>

definition COMMANDS :: "(string \<times> string) list" where
  "COMMANDS =
     [(''status'', ''Cluster status overview''), (''health'', ''Detailed health report''), (''nodes'', ''List cluster nodes''),
      (''tasks'', ''List running tasks''), (''sessions'', ''Active Claude sessions''), (''new'', ''Clear conversation history''),
      (''help'', ''List available commands''), (''squelch'', ''Suppress alerts (minutes)''), (''whereami'', ''Show timeline state'')]"

definition COMMAND_TOOL_MAP :: "(string \<times> string) list" where
  "COMMAND_TOOL_MAP =
     [(''status'', ''cluster_status''), (''health'', ''cluster_health''), (''nodes'', ''list_nodes''), (''tasks'', ''list_tasks''),
      (''sessions'', ''list_sessions''), (''squelch'', ''squelch_alerts''), (''whereami'', ''memory_whereami'')]"

text \<open>
  \<open>sendReply\<close>: the chunks of the converted text one after the other, up to the first that
  cannot be sent. (\<open>smartChunk\<close> returns for this limit.)
\<close>

fun sendReplyChunks :: "'w Bot \<Rightarrow> string \<Rightarrow> string list \<Rightarrow> 'w \<Rightarrow> 'w \<times> (string + unit)" where
  "sendReplyChunks b chan [] w = (w, Inr ())"
| "sendReplyChunks b chan (c # cs) w =
     (case telegram_send b chan c None w of (w1, Inl e) \<Rightarrow> (w1, Inl e) | (w1, Inr _) \<Rightarrow> sendReplyChunks b chan cs w1)"

definition sendReply :: "'w Bot \<Rightarrow> string \<Rightarrow> string \<Rightarrow> 'w \<Rightarrow> 'w \<times> (string + unit)" where
  "sendReply b chan txt w = sendReplyChunks b chan (nullish (smartChunk (markdownToTelegramHtml txt) 4096) []) w"

text \<open>The tools by name; the argument is the number of minutes, for the tool that takes one.\<close>

type_synonym 'w commandTools = "(string, int option \<Rightarrow> 'w \<Rightarrow> 'w \<times> (string + Json option)) jsmap"

datatype CommandHandler = ToolCommand string string | SquelchCommand | NewCommand | HelpCommand

definition registerCommands :: "CommandHandler TelegramAdapter \<Rightarrow> CommandHandler TelegramAdapter" where
  "registerCommands a =
     onCommand ''help'' HelpCommand (onCommand ''new'' NewCommand (onCommand ''squelch'' SquelchCommand
       (fold (\<lambda>(c, t). if c = ''squelch'' then id else onCommand c (ToolCommand c t)) COMMAND_TOOL_MAP a)))"

definition sendTypingThen :: "'w Bot \<Rightarrow> string \<Rightarrow> ('w \<Rightarrow> 'w \<times> (string + 'r)) \<Rightarrow> 'w \<Rightarrow> 'w \<times> (string + 'r)" where
  "sendTypingThen b chat f w = (case bt_typing b chat w of (w1, Inl e) \<Rightarrow> (w1, Inl e) | (w1, Inr _) \<Rightarrow> f w1)"

definition toolCommand :: "'w Bot \<Rightarrow> 'w commandTools \<Rightarrow> string \<Rightarrow> string \<Rightarrow> string \<Rightarrow> 'w \<Rightarrow> 'w \<times> (string + unit)" where
  "toolCommand b tools c t chat w =
     (case jm_get tools t of
        None \<Rightarrow> sendReply b chat (''Tool `'' @ t @ ''` not available.'') w
      | Some f \<Rightarrow>
          (case sendTypingThen b chat (f None) w of
             (w1, Inl e) \<Rightarrow> sendReply b chat (''/'' @ c @ '' failed. Please try again later.'') w1
           | (w1, Inr r) \<Rightarrow>
               (case sendReply b chat (formatToolResult r) w1 of
                  (w2, Inl e) \<Rightarrow> sendReply b chat (''/'' @ c @ '' failed. Please try again later.'') w2
                | (w2, Inr u) \<Rightarrow> (w2, Inr u))))"

definition squelchReply :: "int \<Rightarrow> string" where
  "squelchReply minutes = (if minutes = 0 then ''Alerts re-enabled.'' else ''Alerts squelched for '' @ show_int minutes @ '' minutes.'')"

definition squelchCommand :: "'w Bot \<Rightarrow> 'w commandTools \<Rightarrow> string \<Rightarrow> string \<Rightarrow> 'w \<Rightarrow> 'w \<times> (string + unit)" where
  "squelchCommand b tools chat args w =
     (case jm_get tools ''squelch_alerts'' of
        None \<Rightarrow> sendReply b chat ''Squelch tool not available.'' w
      | Some f \<Rightarrow>
          (case (case (if args \<noteq> [] then parseInt args else Some 30) of
                   None \<Rightarrow> sendReply b chat ''Usage: /squelch [minutes] (default: 30, 0 to clear)'' w
                 | Some minutes \<Rightarrow>
                     if minutes < 0 then sendReply b chat ''Usage: /squelch [minutes] (default: 30, 0 to clear)'' w
                     else case sendTypingThen b chat (f (Some minutes)) w of
                            (w1, Inl e) \<Rightarrow> (w1, Inl e) | (w1, Inr _) \<Rightarrow> sendReply b chat (squelchReply minutes) w1) of
             (w1, Inl e) \<Rightarrow> sendReply b chat ''/squelch failed. Please try again later.'' w1
           | (w1, Inr u) \<Rightarrow> (w1, Inr u)))"

text \<open>The dash of the help text, as its bytes.\<close>

definition helpText :: string where
  "helpText = ''**Available commands:**'' @ [newline, newline]
     @ join_with [newline] (map (\<lambda>(c, d). ''/'' @ c @ [CHR '' '', CHR 0xE2, CHR 0x80, CHR 0x94, CHR '' ''] @ d) COMMANDS)"

definition runCommand :: "'w Bot \<Rightarrow> 'w commandTools \<Rightarrow> CommandHandler \<Rightarrow> string \<Rightarrow> string
    \<Rightarrow> ConversationHandler \<Rightarrow> 'w \<Rightarrow> ConversationHandler \<times> 'w \<times> (string + unit)" where
  "runCommand b tools h chat args c w =
     (case h of
        ToolCommand cmd t \<Rightarrow> (c, toolCommand b tools cmd t chat w)
      | SquelchCommand \<Rightarrow> (c, squelchCommand b tools chat args w)
      | NewCommand \<Rightarrow> (clearHistory chat c, sendReply b chat ''Conversation cleared.'' w)
      | HelpCommand \<Rightarrow> (c, sendReply b chat helpText w))"

text \<open>
  The plugin after \<open>start\<close>: the adapter, the chat of the tool \<open>messaging_notify\<close> if there is
  one, where there is a provider, the conversations and whether the gateway is active, and
  the operations of the adapter that wait for the service. The gateway and its adapter
  outlive \<open>stop\<close> (\<open>mp_stopped\<close>): they stay subscribed to the changes of role.
\<close>

record MessagingConfig =
  mc_enabled :: bool
  mc_token :: "string option"
  mc_alertChatId :: "string option"
  mc_agent :: "string option"

record MessagingPlugin =
  mp_adapter :: "CommandHandler TelegramAdapter option"
  mp_notify :: "string option"
  mp_agent :: string
  mp_gateway :: "(ConversationHandler \<times> bool) option"
  mp_pending :: "AdapterOp list"
  mp_stopped :: bool

definition gatewayActivate :: "MessagingPlugin \<Rightarrow> MessagingPlugin" where
  "gatewayActivate p =
     (case (mp_gateway p, mp_adapter p) of
        (Some (c, False), Some a) \<Rightarrow>
          (let (a1, ops) = telegram_connect a
           in p\<lparr>mp_gateway := Some (c, True), mp_adapter := Some a1, mp_pending := mp_pending p @ ops\<rparr>)
      | _ \<Rightarrow> p)"

definition gatewayDeactivate :: "MessagingPlugin \<Rightarrow> MessagingPlugin" where
  "gatewayDeactivate p =
     (case (mp_gateway p, mp_adapter p) of
        (Some (c, True), Some a) \<Rightarrow>
          (let (a1, ops) = (if ta_connected a then telegram_disconnect a else (a, []))
           in p\<lparr>mp_gateway := Some (c, False), mp_adapter := Some a1, mp_pending := mp_pending p @ ops\<rparr>)
      | _ \<Rightarrow> p)"

text \<open>The listener of the gateway on changes of role.\<close>

definition plugin_onStateChange :: "bool \<Rightarrow> MessagingPlugin \<Rightarrow> MessagingPlugin" where
  "plugin_onStateChange leads p = (if leads then gatewayActivate p else gatewayDeactivate p)"

text \<open>The service has answered the waiting operation at position \<open>k\<close>; a failure is swallowed.\<close>

definition gatewayFinish :: "'w Bot \<Rightarrow> nat \<Rightarrow> MessagingPlugin \<times> 'w \<Rightarrow> MessagingPlugin \<times> 'w" where
  "gatewayFinish b k = (\<lambda>(p, w).
     if k < length (mp_pending p)
     then (case mp_adapter p of None \<Rightarrow> (p, w)
           | Some a \<Rightarrow>
               (let (a1, w1) = (case mp_pending p ! k of Connecting \<Rightarrow> telegram_connected b a w | Stopping \<Rightarrow> telegram_disconnected b a w)
                in (p\<lparr>mp_adapter := Some a1, mp_pending := take k (mp_pending p) @ drop (Suc k) (mp_pending p)\<rparr>, w1)))
     else (p, w))"

datatype GatewayEvent = RoleChanged bool | OpFinished nat

definition gateway_step :: "'w Bot \<Rightarrow> GatewayEvent \<Rightarrow> MessagingPlugin \<times> 'w \<Rightarrow> MessagingPlugin \<times> 'w" where
  "gateway_step b e pw =
     (case e of RoleChanged leads \<Rightarrow> (plugin_onStateChange leads (fst pw), snd pw) | OpFinished k \<Rightarrow> gatewayFinish b k pw)"

definition plugin_start :: "(string \<Rightarrow> string option) \<Rightarrow> MessagingConfig \<Rightarrow> bool \<Rightarrow> (string, history) jsmap option \<Rightarrow> bool \<Rightarrow> MessagingPlugin" where
  "plugin_start env cfg provider store leads =
     (let none = \<lparr>mp_adapter = None, mp_notify = None, mp_agent = nullish (mc_agent cfg) ''Cipher'', mp_gateway = None, mp_pending = [],
                  mp_stopped = False\<rparr>
      in if \<not> mc_enabled cfg \<or> \<not> truthy (orElse (mc_token cfg) (env ''TELEGRAM_BOT_TOKEN'')) then none
         else let chat = orElse (mc_alertChatId cfg) (env ''CORTEX_ALERT_CHAT_ID'');
                  p = none\<lparr>mp_adapter := Some (new_TelegramAdapter COMMANDS), mp_notify := (if truthy chat then chat else None)\<rparr>
              in if \<not> provider then p
                 else let p1 = p\<lparr>mp_adapter := map_option registerCommands (mp_adapter p),
                                mp_gateway := Some (new_ConversationHandler None None store, False)\<rparr>
                      in if leads then gatewayActivate p1 else p1)"

text \<open>\<open>stop\<close> deactivates the gateway; when the adapter has stopped, it forgets it and the tools.\<close>

definition plugin_stop :: "MessagingPlugin \<Rightarrow> MessagingPlugin" where
  "plugin_stop p = gatewayDeactivate p"

definition plugin_stopped :: "MessagingPlugin \<Rightarrow> MessagingPlugin" where
  "plugin_stopped p = p\<lparr>mp_notify := None, mp_stopped := True\<rparr>"

text \<open>\<open>messaging_notify\<close>: \<open>None\<close> where the tool is not offered; the tool keeps the adapter it was made with.\<close>

definition messaging_notify :: "'w Bot \<Rightarrow> MessagingPlugin \<Rightarrow> string \<Rightarrow> 'w \<Rightarrow> ('w \<times> (string + bool)) option" where
  "messaging_notify b p msg w =
     (case (mp_notify p, mp_adapter p) of
        (Some chat, Some a) \<Rightarrow>
          Some (if \<not> ta_connected a then (w, Inr False)
                else case telegram_send b chat msg None w of (w1, Inl e) \<Rightarrow> (w1, Inl e) | (w1, Inr _) \<Rightarrow> (w1, Inr True))
      | _ \<Rightarrow> None)"

definition apology :: string where
  "apology = ''Sorry, I encountered an error processing your message.''"

text \<open>The gateway's \<open>onMessage\<close>; the typing action comes before the model is asked.\<close>

definition handleIncoming :: "'w Bot \<Rightarrow> 'w Services \<Rightarrow> ChannelMessage \<Rightarrow> ConversationHandler \<Rightarrow> 'w \<Rightarrow> ConversationHandler \<times> 'w" where
  "handleIncoming b sv m c w =
     (let apologise = (\<lambda>c w. (c, fst (telegram_send b (ch_id m) apology None w)))
      in case bt_typing b (ch_id m) w of
           (w1, Inl e) \<Rightarrow> apologise (fst (loadHistory (ch_id m) c)) w1
         | (w1, Inr _) \<Rightarrow>
             (case handleMessage sv (ch_id m) (ch_content m) c w1 of
                (c1, w2, _, None) \<Rightarrow> apologise c1 w2
              | (c1, w2, _, Some reply) \<Rightarrow>
                  (case sendReply b (ch_id m) reply w2 of (w3, Inr _) \<Rightarrow> (c1, w3) | (w3, Inl e) \<Rightarrow> apologise c1 w3)))"

end
