(* ===== verification/MessagingPluginProps.thy ===== *)
theory MessagingPluginProps
  imports MessagingPlugin
begin

text \<open>
  Properties of the messaging plugin: which chunks of a reply arrive, that every incoming
  message is answered, when the bot is connected exactly while the node leads and when a
  change of role is lost, that every advertised command has its handler, a message sent to the inbox is found there; and where the code
  departs from its intent.
\<close>

section \<open>Replies\<close>

text \<open>
  The bot service, \<open>sent\<close> reading the messages it has delivered out of the world. A call
  delivers the text, or throws and delivers nothing.
\<close>

definition delivers :: "('w \<Rightarrow> (string \<times> string) list) \<Rightarrow> string \<Rightarrow> string \<Rightarrow> 'w \<Rightarrow> 'w \<times> (string + unit) \<Rightarrow> bool" where
  "delivers sent chan t w out \<longleftrightarrow> sent (fst out) = sent w @ [(chan, t)] \<and> snd out = Inr ()"

definition throws :: "('w \<Rightarrow> (string \<times> string) list) \<Rightarrow> (string \<Rightarrow> bool) \<Rightarrow> 'w \<Rightarrow> 'w \<times> (string + unit) \<Rightarrow> bool" where
  "throws sent P w out \<longleftrightarrow> sent (fst out) = sent w \<and> (\<exists>e. snd out = Inl e \<and> P e)"


text \<open>
  The documented behaviour for a chat that exists and a service that is reachable: a text
  has 1 to 4096 characters after its entities are parsed. A plain text that is not blank
  is delivered; a blank one, one that is too long, and an HTML text of which nothing is
  left to show (\<open>void\<close>, a property of the service) are refused; any other HTML text is
  delivered, or refused as one whose entities cannot be parsed.
\<close>

definition blank :: "string \<Rightarrow> bool" where
  "blank t \<longleftrightarrow> list_all is_space t"

definition bot_service :: "'w Bot \<Rightarrow> ('w \<Rightarrow> (string \<times> string) list) \<Rightarrow> (string \<Rightarrow> bool) \<Rightarrow> bool" where
  "bot_service b sent void \<longleftrightarrow> (\<forall>t. blank t \<longrightarrow> void t) \<and>
     (\<forall>chan t html r w. let out = bt_send b chan t html r w
        in if (if html then void t else blank t) \<or> length t > 4096 then throws sent (\<lambda>e. \<not> cannotParse e) w out
           else delivers sent chan t w out \<or> html \<and> throws sent cannotParse w out)"

lemma bot_serviceD:
  assumes "bot_service b sent void"
  shows "blank t \<Longrightarrow> void t"
    "if (if html then void t else blank t) \<or> length t > 4096 then throws sent (\<lambda>e. \<not> cannotParse e) w (bt_send b chan t html r w)
     else delivers sent chan t w (bt_send b chan t html r w) \<or> html \<and> throws sent cannotParse w (bt_send b chan t html r w)"
  using assms unfolding bot_service_def Let_def by blast+

lemma service_send:
  assumes "bot_service b sent void" and "length t \<le> 4096"
  shows "if void t then throws sent (\<lambda>_. True) w (telegram_send b chan t r w) else delivers sent chan t w (telegram_send b chan t r w)"
proof -
  define reply where "reply = (if truthy r then Some (parseInt (the r)) else None)"
  obtain w1 e where first: "bt_send b chan t True reply w = (w1, e)" by fastforce
  obtain w2 e2 where again: "bt_send b chan t False reply w1 = (w2, e2)" by fastforce
  have html: "if void t then throws sent (\<lambda>e. \<not> cannotParse e) w (w1, e)
      else delivers sent chan t w (w1, e) \<or> throws sent cannotParse w (w1, e)"
    using bot_serviceD(2) [OF assms(1), where html = True and t = t and w = w and chan = chan and r = reply] assms(2) first by (auto split: if_splits)
  have plain: "\<not> void t \<Longrightarrow> delivers sent chan t w1 (w2, e2)"
    using bot_serviceD(2) [OF assms(1), where html = False and t = t and w = w1 and chan = chan and r = reply] bot_serviceD(1) [OF assms(1), of t] assms(2) again by (auto split: if_splits)
  have run: "telegram_send b chan t r w = (case e of Inr u \<Rightarrow> (w1, Inr u) | Inl x \<Rightarrow> if cannotParse x then (w2, e2) else (w1, Inl x))"
    unfolding telegram_send_def Let_def reply_def [symmetric] by (simp add: first again split: sum.split)
  show ?thesis using html plain unfolding run by (auto simp: delivers_def throws_def split: sum.splits if_splits)
qed

lemma service_chunks:
  assumes "bot_service b sent void" and "list_all (\<lambda>c. length c \<le> 4096) cs"
  shows "\<exists>w' out. sendReplyChunks b chan cs w = (w', out) \<and> sent w' = sent w @ map (\<lambda>c. (chan, c)) (takeWhile (\<lambda>c. \<not> void c) cs)
    \<and> (out = Inr () \<longleftrightarrow> list_all (\<lambda>c. \<not> void c) cs)"
  using assms(2)
proof (induction cs arbitrary: w)
  case (Cons c cs)
  obtain w1 e where send: "telegram_send b chan c None w = (w1, e)" by fastforce
  have c: "if void c then throws sent (\<lambda>_. True) w (w1, e) else delivers sent chan c w (w1, e)"
    using service_send [OF assms(1), where t = c and w = w and chan = chan and r = None] Cons.prems send by (simp split: if_splits)
  show ?case
  proof (cases "void c")
    case True
    with c send show ?thesis by (auto simp: throws_def)
  next
    case False
    with c have "e = Inr ()" "sent w1 = sent w @ [(chan, c)]" by (auto simp: delivers_def)
    with Cons.IH [of w1] Cons.prems send False show ?thesis by auto
  qed
qed simp

text \<open>
  C36. What arrives of a reply, with the service as documented: the converted text is cut
  into chunks of at most 4096 characters that together, apart from line breaks, are the
  HTML of the reply. They are sent in order, as HTML or, where the service cannot parse
  that, as they are; exactly those before the first chunk of which nothing is left to
  show arrive. Sending succeeds exactly if there is no such chunk, and then the whole
  reply has arrived.
\<close>

theorem reply_delivered:
  assumes "bot_service b sent void"
  shows "\<exists>cs w' out. sendReply b chan reply w = (w', out)
    \<and> sent w' = sent w @ map (\<lambda>c. (chan, c)) (takeWhile (\<lambda>c. \<not> void c) cs)
    \<and> (out = Inr () \<longleftrightarrow> list_all (\<lambda>c. \<not> void c) cs)
    \<and> (out = Inr () \<longrightarrow> sent w' = sent w @ map (\<lambda>c. (chan, c)) cs)
    \<and> list_all (\<lambda>c. length c \<le> 4096) cs
    \<and> filter (\<lambda>c. c \<noteq> newline) (concat cs) = filter (\<lambda>c. c \<noteq> newline) (markdownToTelegramHtml reply)"
proof -
  obtain cs where cs: "smartChunk (markdownToTelegramHtml reply) 4096 = Some cs" "list_all (\<lambda>c. length c \<le> 4096) cs"
    "inked (concat cs) = inked (markdownToTelegramHtml reply)"
    using smartChunk_returns [of 4096 "markdownToTelegramHtml reply"] by auto
  moreover have "list_all (\<lambda>c. \<not> void c) cs \<Longrightarrow> takeWhile (\<lambda>c. \<not> void c) cs = cs" by (simp add: list_all_iff)
  ultimately show ?thesis
    using service_chunks [OF assms cs(2), where chan = chan and w = w] by (intro exI [of _ cs]) (fastforce simp: sendReply_def nullish_def)
qed

text \<open>A service that refuses blank and long texts, writes the others down and takes every HTML.\<close>

definition log_bot :: "(string \<times> string) list Bot" where
  "log_bot =
     \<lparr>bt_send = (\<lambda>chan t _ _ w. if blank t \<or> length t > 4096 then (w, Inl ''message text is empty or too long'') else (w @ [(chan, t)], Inr ())),
      bt_typing = (\<lambda>_ w. (w, Inr ())), bt_setCommands = (\<lambda>_ w. (w, Inr ())), bt_deleteCommands = (\<lambda>w. (w, Inr ())),
      bt_stop = (\<lambda>w. (w, Inr ()))\<rparr>"

lemma log_bot_service: "bot_service log_bot id blank"
proof -
  have "\<not> cannotParse ''message text is empty or too long''" by code_simp
  then show ?thesis by (simp add: bot_service_def log_bot_def throws_def delivers_def)
qed

theorem reply_delivered_witness:
  "\<exists>cs w' out. sendReply log_bot ''7'' ''a < b'' [] = (w', out) \<and> w' = map (\<lambda>c. (''7'', c)) (takeWhile (\<lambda>c. \<not> blank c) cs)
    \<and> filter (\<lambda>c. c \<noteq> newline) (concat cs) = filter (\<lambda>c. c \<noteq> newline) (markdownToTelegramHtml ''a < b'')"
proof -
  obtain cs w' out where "sendReply log_bot ''7'' ''a < b'' [] = (w', out)"
    "id w' = id [] @ map (\<lambda>c. (''7'', c)) (takeWhile (\<lambda>c. \<not> blank c) cs)"
    "filter (\<lambda>c. c \<noteq> newline) (concat cs) = filter (\<lambda>c. c \<noteq> newline) (markdownToTelegramHtml ''a < b'')"
    using reply_delivered [OF log_bot_service, of "''7''" "''a < b''" "[]"] by blast
  then show ?thesis by auto
qed

section \<open>Incoming messages\<close>


















section \<open>The bot follows the leadership\<close>

text \<open>
  The role \<open>leads\<close> has been acted on, or the operation that does so waits for the service:
  the bot is connected exactly if the node leads, unless an operation waits, and then
  exactly if it does not lead.
\<close>

definition follows :: "bool \<Rightarrow> MessagingPlugin \<Rightarrow> bool" where
  "follows leads p \<longleftrightarrow> (\<exists>c a. mp_gateway p = Some (c, leads) \<and> mp_adapter p = Some a \<and> ta_commands a \<noteq> []
     \<and> (mp_pending p = [] \<and> ta_connected a = leads
        \<or> mp_pending p = [if leads then Connecting else Stopping] \<and> ta_connected a = (\<not> leads)))"

text \<open>A bot whose registration of commands and whose stop succeed.\<close>

definition obedient :: "'w Bot \<Rightarrow> bool" where
  "obedient b \<longleftrightarrow> (\<forall>cs w. snd (bt_setCommands b cs w) = Inr ()) \<and> (\<forall>w. snd (bt_stop b w) = Inr ())"

lemma obedient_calls:
  assumes "obedient b"
  shows "fst (telegram_connected b a w) = a\<lparr>ta_connected := True\<rparr>" "fst (telegram_disconnected b a w) = a\<lparr>ta_connected := False\<rparr>"
  using assms by (auto simp: obedient_def telegram_connected_def telegram_disconnected_def split: prod.splits sum.splits) (metis Inl_Inr_False snd_conv)+

text \<open>
  The last role told, and that the role changes between leading and not leading only while
  no operation waits for the service (other changes, as from follower to candidate, may
  come at any time).
\<close>

fun lastRole :: "bool \<Rightarrow> GatewayEvent list \<Rightarrow> bool" where
  "lastRole leads [] = leads"
| "lastRole leads (RoleChanged l # es) = lastRole l es"
| "lastRole leads (OpFinished k # es) = lastRole leads es"

fun orderly :: "'w Bot \<Rightarrow> bool \<Rightarrow> GatewayEvent list \<Rightarrow> MessagingPlugin \<times> 'w \<Rightarrow> bool" where
  "orderly b leads [] pw = True"
| "orderly b leads (RoleChanged l # es) pw \<longleftrightarrow> (l = leads \<or> mp_pending (fst pw) = []) \<and> orderly b l es (gateway_step b (RoleChanged l) pw)"
| "orderly b leads (OpFinished k # es) pw \<longleftrightarrow> orderly b leads es (gateway_step b (OpFinished k) pw)"

lemma follows_role:
  assumes "follows leads p" and "l = leads \<or> mp_pending p = []"
  shows "follows l (plugin_onStateChange l p)"
proof -
  obtain c a where p: "mp_gateway p = Some (c, leads)" "mp_adapter p = Some a" "ta_commands a \<noteq> []"
    "mp_pending p = [] \<and> ta_connected a = leads \<or> mp_pending p = [if leads then Connecting else Stopping] \<and> ta_connected a = (\<not> leads)"
    using assms(1) by (auto simp: follows_def)
  then show ?thesis using assms
    by (cases l; cases leads)
      (auto simp: follows_def plugin_onStateChange_def gatewayActivate_def gatewayDeactivate_def telegram_connect_def telegram_disconnect_def)
qed

lemma follows_finish:
  assumes "obedient b" and "follows leads (fst pw)"
  shows "follows leads (fst (gatewayFinish b k pw))"
proof -
  obtain p w where pw: "pw = (p, w)" by fastforce
  obtain c a where p: "mp_gateway p = Some (c, leads)" "mp_adapter p = Some a" "ta_commands a \<noteq> []"
    "mp_pending p = [] \<and> ta_connected a = leads \<or> mp_pending p = [if leads then Connecting else Stopping] \<and> ta_connected a = (\<not> leads)"
    using assms(2) pw by (auto simp: follows_def)
  then show ?thesis unfolding pw using assms(2) [unfolded pw] obedient_calls [OF assms(1), of a w]
    by (cases leads) (auto simp: gatewayFinish_def follows_def case_prod_unfold split: if_splits)
qed

lemma follows_run:
  "obedient b \<Longrightarrow> follows leads (fst pw) \<Longrightarrow> orderly b leads es pw \<Longrightarrow> follows (lastRole leads es) (fst (fold (gateway_step b) es pw))"
proof (induction b leads es pw rule: orderly.induct)
  case (2 b leads l es pw)
  then show ?case by (simp add: gateway_step_def follows_role)
next
  case (3 b leads k es pw)
  then show ?case by (simp add: gateway_step_def follows_finish)
qed simp

lemma follows_start:
  assumes "mc_enabled cfg" and "truthy (orElse (mc_token cfg) (env ''TELEGRAM_BOT_TOKEN''))"
  shows "follows leads (plugin_start env cfg True store leads)"
  using assms
  by (auto simp: plugin_start_def Let_def gatewayActivate_def telegram_connect_def follows_def registerCommands_def onCommand_def new_TelegramAdapter_def
      COMMAND_TOOL_MAP_def COMMANDS_def)

text \<open>
  C32. With the channel enabled, a provider and a token, the bot follows the leadership:
  whatever changes of role arrive and whenever the service answers the calls that connect
  and stop the bot, the bot is connected exactly if the node leads whenever no call waits,
  and while one waits it is still as it was before the change; no more than one call ever
  waits; and on a node that does not lead, once the stop has returned, \<open>messaging_notify\<close>
  declines. This needs that the calls succeed and that the node gains or loses leadership
  only while none of them waits; otherwise the change may be lost, as shown below.
\<close>

theorem bot_follows_leadership:
  assumes "mc_enabled cfg" and "truthy (orElse (mc_token cfg) (env ''TELEGRAM_BOT_TOKEN''))" and "obedient b"
    and "orderly b leads es (plugin_start env cfg True store leads, w)"
    and run: "fold (gateway_step b) es (plugin_start env cfg True store leads, w) = (p, w')"
  shows "map_option ta_connected (mp_adapter p) = Some (lastRole leads es \<longleftrightarrow> mp_pending p = []) \<and> length (mp_pending p) \<le> 1
    \<and> (\<not> lastRole leads es \<and> mp_pending p = [] \<longrightarrow> messaging_notify b p msg v \<in> {None, Some (v, Inr False)})"
proof -
  have "follows (lastRole leads es) p"
    using follows_run [OF assms(3) _ assms(4)] follows_start [of cfg env leads store] assms(1,2) run by simp
  then show ?thesis by (auto simp: follows_def messaging_notify_def split: option.splits)
qed

definition ex_messaging :: MessagingConfig where
  "ex_messaging = \<lparr>mc_enabled = True, mc_token = Some ''t'', mc_alertChatId = Some ''9'', mc_agent = None\<rparr>"

theorem bot_follows_leadership_witness:
  "map_option ta_connected (mp_adapter (fst (fold (gateway_step log_bot) [RoleChanged True, OpFinished 0, RoleChanged False, OpFinished 0, RoleChanged True]
      (plugin_start (\<lambda>_. None) ex_messaging True None False, [])))) = Some False"
proof -
  let ?es = "[RoleChanged True, OpFinished 0, RoleChanged False, OpFinished 0, RoleChanged True]"
  let ?s = "(plugin_start (\<lambda>_. None) ex_messaging True None False, [])"
  have "mc_enabled ex_messaging" "truthy (orElse (mc_token ex_messaging) None)" "obedient log_bot"
    by (simp_all add: obedient_def log_bot_def ex_messaging_def truthy_def orElse_def)
  moreover have "orderly log_bot False ?es ?s" "mp_pending (fst (fold (gateway_step log_bot) ?es ?s)) \<noteq> []" by code_simp+
  ultimately show ?thesis
    using bot_follows_leadership [of ex_messaging "\<lambda>_. None" log_bot False ?es None "[]" "fst (fold (gateway_step log_bot) ?es ?s)"
        "snd (fold (gateway_step log_bot) ?es ?s)"] by simp
qed

text \<open>
  C33. A change of role that comes while the bot is being connected is lost. From every
  idle gateway of a node that does not lead: when the node leads, the bot begins to
  connect, and when it stops leading before the service has answered, nothing is
  disconnected, since the bot does not count as connected yet; then the answer arrives
  and the bot is connected on a node that does not lead. It stays so, polling
  beside the new leader's bot, whatever other changes of role follow short of leading
  again.
\<close>

theorem follower_change_during_connect_lost:
  assumes "mp_gateway p = Some (c, False)" and "mp_adapter p = Some a" and "\<not> ta_connected a" and "ta_commands a \<noteq> []" and "mp_pending p = []"
    and "obedient b" and "set roles \<subseteq> {False}"
  shows "\<exists>p' w' a'. fold (gateway_step b) ([RoleChanged True, RoleChanged False, OpFinished 0] @ map RoleChanged roles) (p, w) = (p', w')
    \<and> mp_gateway p' = Some (c, False) \<and> mp_adapter p' = Some a' \<and> ta_connected a' \<and> mp_pending p' = []"
proof -
  let ?p = "p\<lparr>mp_adapter := Some (a\<lparr>ta_connected := True\<rparr>)\<rparr>" and ?w = "snd (telegram_connected b a w)"
  have "p\<lparr>mp_gateway := Some (c, False), mp_adapter := Some a', mp_pending := []\<rparr> = p\<lparr>mp_adapter := Some a'\<rparr>" for a'
    using assms(1,5) by (cases p) simp
  then have three: "fold (gateway_step b) [RoleChanged True, RoleChanged False, OpFinished 0] (p, w) = (?p, ?w)"
    using assms(1-5) obedient_calls(1) [OF assms(6), of a w] by (simp add: gateway_step_def plugin_onStateChange_def gatewayActivate_def gatewayDeactivate_def gatewayFinish_def telegram_connect_def
        case_prod_unfold)
  have "fold (gateway_step b) (map RoleChanged roles) (?p, ?w) = (?p, ?w)"
    using assms(1,7) by (induction roles) (auto simp: gateway_step_def plugin_onStateChange_def gatewayDeactivate_def)
  with three assms(1,5) show ?thesis by (simp del: fold_simps add: fold_append)
qed

theorem follower_change_during_connect_lost_witness:
  "\<exists>p' w' a'. fold (gateway_step log_bot) ([RoleChanged True, RoleChanged False, OpFinished 0] @ map RoleChanged [False])
      (plugin_start (\<lambda>_. None) ex_messaging True None False, []) = (p', w') \<and> mp_adapter p' = Some a' \<and> ta_connected a'"
proof -
  let ?p = "plugin_start (\<lambda>_. None) ex_messaging True None False"
  have "mc_enabled ex_messaging" "truthy (orElse (mc_token ex_messaging) None)" "obedient log_bot"
    by (simp_all add: obedient_def log_bot_def ex_messaging_def truthy_def orElse_def)
  moreover have "mp_pending ?p = []" by code_simp
  ultimately obtain c a where "mp_gateway ?p = Some (c, False)" "mp_adapter ?p = Some a" "\<not> ta_connected a" "ta_commands a \<noteq> []"
    using follows_start [where cfg = ex_messaging and env = "\<lambda>_. None" and leads = False and store = None] by (auto simp: follows_def)
  from follower_change_during_connect_lost [OF this \<open>mp_pending ?p = []\<close> \<open>obedient log_bot\<close>, of "[False]" "[]"] show ?thesis by auto
qed

text \<open>
  Stopping the plugin does not end the gateway's subscription: a node that becomes leader
  afterwards connects the bot again.
\<close>

lemma stopped_plugin_reconnects:
  assumes "mp_gateway p = Some (c, False)" and "mp_adapter p = Some a" and "ta_commands a \<noteq> []" and "mp_pending p = []" and "obedient b"
  shows "map_option ta_connected (mp_adapter (fst (fold (gateway_step b) [RoleChanged True, OpFinished 0] (plugin_stopped (plugin_stop p), w)))) = Some True"
  using assms(1-4) obedient_calls(1) [OF assms(5), of a w]
  by (simp add: plugin_stop_def plugin_stopped_def gateway_step_def plugin_onStateChange_def gatewayActivate_def gatewayDeactivate_def
      gatewayFinish_def telegram_connect_def case_prod_unfold)

text \<open>Without a provider nothing ever connects the bot: the tool is offered and sends no alert.\<close>

lemma gatewayless_step: "mp_gateway (fst pw) = None \<Longrightarrow> mp_pending (fst pw) = [] \<Longrightarrow> gateway_step b e pw = pw"
  by (cases e) (auto simp: gateway_step_def plugin_onStateChange_def gatewayActivate_def gatewayDeactivate_def gatewayFinish_def split: prod.splits)

lemma alerts_need_provider:
  assumes "mc_enabled cfg" and "truthy (mc_token cfg)" and "truthy (mc_alertChatId cfg)"
  shows "messaging_notify b (fst (fold (gateway_step b) es (plugin_start env cfg False store leads, w))) msg v = Some (v, Inr False)"
proof -
  have "fold (gateway_step b) es pw = pw" if "mp_gateway (fst pw) = None" "mp_pending (fst pw) = []" for pw
    using that by (induction es) (simp_all add: gatewayless_step)
  then show ?thesis using assms
    by (auto simp: plugin_start_def Let_def orElse_def messaging_notify_def new_TelegramAdapter_def truthy_def split: option.splits)
qed

section \<open>Commands\<close>

text \<open>Every command that \<open>/help\<close> and the bot's menu advertise has a handler, and each tool command its tool.\<close>

lemma advertised_commands_handled:
  "list_all (\<lambda>(n, _). \<exists>h. onUpdate (\<lambda>_. Some (n, args)) m (registerCommands (new_TelegramAdapter COMMANDS))
      = RunCommand h (show_int (tg_chat m)) (trim (nullish args []))
      \<and> (case h of ToolCommand c t \<Rightarrow> c = n \<and> (n, t) \<in> set COMMAND_TOOL_MAP | _ \<Rightarrow> True)) COMMANDS"
  by (cases args) (auto simp: onUpdate_def registerCommands_def onCommand_def new_TelegramAdapter_def COMMANDS_def COMMAND_TOOL_MAP_def nullish_def)

text \<open>A number of minutes below zero, or none, is refused without a call of the tool.\<close>

lemma squelch_refuses:
  assumes "jm_get tools ''squelch_alerts'' = Some f" and "args \<noteq> []" and "parseInt args = None \<or> the (parseInt args) < 0"
    and "snd (sendReply b chat ''Usage: /squelch [minutes] (default: 30, 0 to clear)'' w) = Inr ()"
  shows "squelchCommand b tools chat args w = sendReply b chat ''Usage: /squelch [minutes] (default: 30, 0 to clear)'' w"
proof -
  let ?usage = "''Usage: /squelch [minutes] (default: 30, 0 to clear)''"
  obtain w1 where "sendReply b chat ?usage w = (w1, Inr ())"
    using assms(4) by (metis prod.collapse)
  with assms(1-3) show ?thesis by (cases "parseInt args") (auto simp: squelchCommand_def)
qed

section \<open>The markup of a refused message\<close>

text \<open>
  Where the service cannot parse the HTML, the same text goes out as plain text: the chat
  shows the tags and entities of the converted message.
\<close>

lemma refused_html_shown_raw:
  assumes "bt_send b chan html True None w = (w1, Inl e)" and "cannotParse e"
  shows "telegram_send b chan html None w = bt_send b chan html False None w1"
  using assms by (simp add: telegram_send_def truthy_def)

section \<open>The inbox\<close>

text \<open>
  A message sent to the inbox is found there: by its id, in the list, and among the new
  messages, where it is marked stale exactly when it is older than the threshold.
\<close>

theorem sent_message_found:
  assumes "messaging_send now stamp hex inp ib = (ib', i, r)"
  shows "\<exists>m. messaging_get i ib' = Inr m \<and> im_content m = wi_content inp \<and> im_to m = wi_to inp \<and> im_from m = wi_from inp
    \<and> i \<in> set (fst (messaging_list ib'))
    \<and> (m, later - stamp > nullish threshold 30 * 60 * 1000) \<in> set (snd (messaging_check later threshold ib'))"
proof -
  obtain m where m: "ib_files ib' = jm_set i (Some m) (ib_files ib)" "im_content m = wi_content inp" "im_to m = wi_to inp"
    "im_from m = wi_from inp" "im_status m = NewMessage" "im_timestamp m = stamp"
    using assms by (auto simp: messaging_send_def writeMessage_def Let_def)
  then have read: "readMessage i ib' = Inr m" by (simp add: readMessage_def)
  have listed: "i \<in> set (listMessages ib')" by (simp add: listMessages_def m(1) jm.keys_put)
  then have "m \<in> set (getNewMessages ib')"
    using read m(5) unfolding getNewMessages_def by (force simp: List.map_filter_def)
  with m read listed show ?thesis
    by (auto simp: messaging_get_def messaging_list_def messaging_check_def Let_def)
qed

definition ex_note :: WriteMessageInput where
  "ex_note = \<lparr>wi_from = ''a'', wi_to = ''b'', wi_content = ''hi'', wi_type = InfoMessage, wi_threadId = None, wi_context = None\<rparr>"

theorem sent_message_found_witness:
  "\<exists>ib i m. messaging_send 5 5 ''ff'' ex_note \<lparr>ib_files = [], ib_archive = []\<rparr> = (ib, i, ''sent'')
    \<and> (m, False) \<in> set (snd (messaging_check 6 None ib)) \<and> im_content m = ''hi''"
proof -
  obtain ib i where s: "messaging_send 5 5 ''ff'' ex_note \<lparr>ib_files = [], ib_archive = []\<rparr> = (ib, i, ''sent'')"
    by (auto simp: messaging_send_def writeMessage_def Let_def)
  from sent_message_found [OF this, where later = 6 and threshold = None] show ?thesis using s by (auto simp: nullish_def ex_note_def)
qed

end
