(* ===== verification/Cli.thy ===== *)
theory Cli
  imports HandlersProps "HOL-Library.List_Lexorder"
begin

text \<open>
  The command line's operations on nodes (\<open>src/cli/node-ops.ts\<close>, \<open>run.ts\<close>), snapshots of the
  shared memory (\<open>snapshot.ts\<close>), the comparison of configurations (\<open>config.ts\<close>), the view of
  events and tasks (\<open>events.ts\<close>, \<open>tasks.ts\<close>) and the cluster tests (\<open>test-runner.ts\<close>), with
  properties. A command reads the cluster's state over the wire and ends with an exit code
  or goes on to a call. Colours and columns of the output are left out.
\<close>

section \<open>Nodes by name\<close>

text \<open>\<open>shortName\<close>: what comes before the last dash.\<close>

definition shortName :: "string \<Rightarrow> string" where
  "shortName i = (if CHR ''-'' \<in> set i then rev (tl (dropWhile (\<lambda>c. c \<noteq> CHR ''-'') (rev i))) else i)"

definition shownNodes :: "ClusterProto \<Rightarrow> NodeProto list" where
  "shownNodes st = filter (\<lambda>n. \<not> endsWith (np_node_id n) ''-mcp'') (cp_nodes st)"

definition isNamed :: "string \<Rightarrow> NodeProto \<Rightarrow> bool" where
  "isNamed name n \<longleftrightarrow> map asciiLower (shortName (np_node_id n)) = map asciiLower name \<or> map asciiLower (np_hostname n) = map asciiLower name"

definition findNode :: "NodeProto list \<Rightarrow> string \<Rightarrow> NodeProto option" where
  "findNode ns name = find (isNamed name) ns"

definition cliAddress :: "NodeProto \<Rightarrow> string" where
  "cliAddress n = np_tailscale_ip n @ '':'' @ show_int (if np_grpc_port n = 0 then 50051 else np_grpc_port n)"

definition leaderOf :: "ClusterProto \<Rightarrow> NodeProto option" where
  "leaderOf st = find (\<lambda>n. np_node_id n = cp_leader_id st) (cp_nodes st)"

section \<open>Drain, cordon, uncordon\<close>

datatype NodeRequest = DeregisterRequest string bool | RegisterRequest NodeProto

text \<open>A command ends with an exit code or calls the leader at an address.\<close>

datatype CliStep = CliExit int | CliCall string NodeRequest

definition askLeader :: "ClusterProto \<Rightarrow> NodeRequest \<Rightarrow> CliStep" where
  "askLeader st q = (case leaderOf st of None \<Rightarrow> CliExit 1 | Some l \<Rightarrow> CliCall (cliAddress l) q)"

definition runDrain :: "string \<Rightarrow> ClusterProto \<Rightarrow> CliStep" where
  "runDrain name st =
     (case findNode (shownNodes st) name of None \<Rightarrow> CliExit 1
      | Some n \<Rightarrow> askLeader st (DeregisterRequest (np_node_id n) True))"

definition runCordon :: "string \<Rightarrow> ClusterProto \<Rightarrow> CliStep" where
  "runCordon name st =
     (case findNode (shownNodes st) name of None \<Rightarrow> CliExit 1
      | Some n \<Rightarrow> if str_includes (np_status n) ''DRAINING'' then CliExit 0
                  else askLeader st (DeregisterRequest (np_node_id n) True))"

text \<open>Fields that the request does not set arrive with the defaults of the wire format.\<close>

definition runUncordon :: "string \<Rightarrow> ClusterProto \<Rightarrow> CliStep" where
  "runUncordon name st =
     (case findNode (shownNodes st) name of None \<Rightarrow> CliExit 1
      | Some n \<Rightarrow> if str_includes (np_status n) ''ACTIVE'' then CliExit 0
                  else askLeader st (RegisterRequest (n\<lparr>np_status := ''NODE_STATUS_ACTIVE'', np_resources := None,
                         np_joined_at := ''0'', np_last_seen := ''0''\<rparr>)))"

definition nodeOpExit :: "bool \<Rightarrow> int" where
  "nodeOpExit ok = (if ok then 0 else 1)"

section \<open>Running a command on nodes\<close>

record NodeTarget =
  nt_name :: string
  nt_ip :: string
  nt_isLocal :: bool

fun splitComma :: "string \<Rightarrow> string list" where
  "splitComma [] = [[]]"
| "splitComma (c # s) =
     (if c = CHR '','' then [] # splitComma s
      else case splitComma s of l # ls \<Rightarrow> (c # l) # ls | [] \<Rightarrow> [[c]])"

definition run_resolveNodes :: "string \<Rightarrow> string option \<Rightarrow> ClusterProto \<Rightarrow> NodeTarget list" where
  "run_resolveNodes local names st =
     (let ns = filter (\<lambda>n. str_includes (np_status n) ''ACTIVE'') (shownNodes st);
          ms = (if truthy names then filter (\<lambda>n. list_ex (\<lambda>x. isNamed (trim x) n) (splitComma (the names))) ns else ns)
      in map (\<lambda>n. \<lparr>nt_name = shortName (np_node_id n), nt_ip = np_tailscale_ip n, nt_isLocal = (np_hostname n = local)\<rparr>) ms)"

text \<open>\<open>quote\<close> is \<open>JSON.stringify\<close> of the command; \<open>exec\<close> runs a shell command and gives its exit code.\<close>

definition runOnNode :: "(string \<Rightarrow> string) \<Rightarrow> string \<Rightarrow> string \<Rightarrow> NodeTarget \<Rightarrow> string" where
  "runOnNode quote user cmd n =
     (if nt_isLocal n then cmd
      else ''ssh -o ConnectTimeout=5 -o StrictHostKeyChecking=no '' @ user @ ''@'' @ nt_ip n @ '' '' @ quote cmd)"

fun runSequence :: "(string \<Rightarrow> 'w \<Rightarrow> 'w \<times> int) \<Rightarrow> string list \<Rightarrow> 'w \<Rightarrow> 'w \<times> bool" where
  "runSequence exec [] w = (w, False)"
| "runSequence exec (c # cs) w = (let (w1, code) = exec c w; (w2, failed) = runSequence exec cs w1 in (w2, code \<noteq> 0 \<or> failed))"

definition runRun :: "(string \<Rightarrow> 'w \<Rightarrow> 'w \<times> int) \<Rightarrow> (string \<Rightarrow> string) \<Rightarrow> string \<Rightarrow> string \<Rightarrow> string option \<Rightarrow> string \<Rightarrow> ClusterProto \<Rightarrow> 'w \<Rightarrow> 'w \<times> int" where
  "runRun exec quote user local names cmd st w =
     (case run_resolveNodes local names st of [] \<Rightarrow> (w, 1)
      | ns \<Rightarrow> (let (w1, failed) = runSequence exec (map (runOnNode quote user cmd) ns) w in (w1, if failed then 1 else 0)))"

section \<open>Snapshots of the shared memory\<close>

text \<open>The database file, the files of the snapshot directory by name, and files elsewhere by path.\<close>

record 'c SnapFiles =
  sf_db :: "'c option"
  sf_snapshots :: "(string, 'c) jsmap"
  sf_other :: "string \<Rightarrow> 'c option"

definition runSnapshotCreate :: "string \<Rightarrow> string option \<Rightarrow> 'c SnapFiles \<Rightarrow> 'c SnapFiles \<times> int" where
  "runSnapshotCreate stamp name f =
     (case sf_db f of None \<Rightarrow> (f, 1)
      | Some c \<Rightarrow>
          let n = nullish name (''snapshot_'' @ stamp)
          in if jm_has (sf_snapshots f) n then (f, 1) else (f\<lparr>sf_snapshots := jm_set n c (sf_snapshots f)\<rparr>, 0))"

definition runSnapshotList :: "'c SnapFiles \<Rightarrow> string list" where
  "runSnapshotList f = rev (sort_key (map (of_char :: char \<Rightarrow> nat)) (jm_keys (sf_snapshots f)))"

datatype SnapSource = FromSnapshot string | FromPath string

definition readSource :: "SnapSource \<Rightarrow> 'c SnapFiles \<Rightarrow> 'c option" where
  "readSource s f = (case s of FromSnapshot n \<Rightarrow> jm_get (sf_snapshots f) n | FromPath p \<Rightarrow> sf_other f p)"

text \<open>The present database is copied away first, then the source over it.\<close>

definition doRestore :: "string \<Rightarrow> SnapSource \<Rightarrow> 'c SnapFiles \<Rightarrow> 'c SnapFiles" where
  "doRestore stamp s f =
     (case sf_db f of
        None \<Rightarrow> f\<lparr>sf_db := readSource s f\<rparr>
      | Some old \<Rightarrow>
          let f1 = f\<lparr>sf_snapshots := jm_set (''pre_restore_'' @ stamp) old (sf_snapshots f)\<rparr>
          in f1\<lparr>sf_db := readSource s f1\<rparr>)"

definition runSnapshotRestore :: "string \<Rightarrow> string \<Rightarrow> 'c SnapFiles \<Rightarrow> 'c SnapFiles \<times> int" where
  "runSnapshotRestore stamp name f =
     (if jm_has (sf_snapshots f) name then (doRestore stamp (FromSnapshot name) f, 0)
      else if sf_other f name \<noteq> None then (doRestore stamp (FromPath name) f, 0)
      else (f, 1))"

section \<open>Comparing configurations\<close>

text \<open>The configuration read from each node, by short name.\<close>

definition nodeConfigs :: "(NodeProto \<Rightarrow> string) \<Rightarrow> ClusterProto \<Rightarrow> (string, string) jsmap" where
  "nodeConfigs read st = fold (\<lambda>n m. jm_set (shortName (np_node_id n)) (read n) m) (shownNodes st) []"

definition addToGroup :: "string \<times> string \<Rightarrow> (string, string list) jsmap \<Rightarrow> (string, string list) jsmap" where
  "addToGroup = (\<lambda>(name, config) g. if jm_has g config then jm_modify config (\<lambda>ns. ns @ [name]) g else jm_set config [name] g)"

definition configGroups :: "(string, string) jsmap \<Rightarrow> (string, string list) jsmap" where
  "configGroups configs = fold addToGroup configs []"

definition allIdentical :: "(string, string) jsmap \<Rightarrow> bool" where
  "allIdentical configs \<longleftrightarrow> jm_size (configGroups configs) = 1"

section \<open>Events and tasks\<close>

record EventRow =
  ev_id :: int
  ev_type :: string
  ev_occurred_at :: int
  ev_source :: string
  ev_details :: string

definition unitMs :: "char \<Rightarrow> int option" where
  "unitMs c = (if c = CHR ''s'' then Some 1000 else if c = CHR ''m'' then Some 60000
     else if c = CHR ''h'' then Some 3600000 else if c = CHR ''d'' then Some 86400000 else None)"

text \<open>\<open>date\<close> reads a text as a date, \<open>None\<close> for an invalid one.\<close>

definition parseSince :: "(string \<Rightarrow> int option) \<Rightarrow> int \<Rightarrow> string \<Rightarrow> int" where
  "parseSince date now since =
     (case (if since \<noteq> [] \<and> butlast since \<noteq> [] \<and> list_all is_digit (butlast since) then unitMs (last since) else None) of
        Some ms \<Rightarrow> now - int (digits_value (butlast since)) * ms
      | None \<Rightarrow> nullish (date since) (now - 3600000))"

definition queryEvents :: "(string \<Rightarrow> int option) \<Rightarrow> int \<Rightarrow> string option \<Rightarrow> string option \<Rightarrow> nat \<Rightarrow> EventRow list \<Rightarrow> EventRow list" where
  "queryEvents date now since type mx rows =
     (let from = parseSince date now (if truthy since then the since else ''24h'');
          ms = filter (\<lambda>r. from \<le> ev_occurred_at r \<and> (truthy type \<and> type \<noteq> Some ''all'' \<longrightarrow> ev_type r = the type)) rows
      in rev (take mx (sort_desc ev_occurred_at ms)))"

section \<open>Cluster tests\<close>

record TestResult =
  ts_name :: string
  ts_passed :: bool
  ts_message :: string

definition testSingleLeader :: "ClusterProto \<Rightarrow> TestResult" where
  "testSingleLeader st =
     (let ls = filter (\<lambda>n. str_includes (np_role n) ''LEADER'') (shownNodes st)
      in \<lparr>ts_name = ''Single leader'', ts_passed = (length ls = 1),
          ts_message = (if length ls = 1 then shortName (np_node_id (hd ls)) else if ls = [] then ''no leader found''
            else show_nat (length ls) @ '' leaders: '' @ join_with '', '' (map (\<lambda>n. shortName (np_node_id n)) ls))\<rparr>)"

definition activeShown :: "ClusterProto \<Rightarrow> NodeProto list" where
  "activeShown st = filter (\<lambda>n. str_includes (np_status n) ''ACTIVE'') (shownNodes st)"

definition testPeerReplication :: "ClusterProto \<Rightarrow> TestResult" where
  "testPeerReplication st =
     (let a = show_nat (length (activeShown st)); t = show_nat (length (shownNodes st));
          stale = filter (\<lambda>n. \<not> str_includes (np_status n) ''ACTIVE'') (shownNodes st)
      in if length (activeShown st) = length (shownNodes st)
         then \<lparr>ts_name = ''Peer replication'', ts_passed = True, ts_message = a @ ''/'' @ t @ '' peers synced''\<rparr>
         else \<lparr>ts_name = ''Peer replication'', ts_passed = False,
               ts_message = a @ ''/'' @ t @ '' synced, stale: '' @ join_with '', '' (map (\<lambda>n. shortName (np_node_id n)) stale)\<rparr>)"

definition testQuorumHealth :: "ClusterProto \<Rightarrow> TestResult" where
  "testQuorumHealth st =
     (let need = length (shownNodes st) div 2 + 1
      in \<lparr>ts_name = ''Quorum health'', ts_passed = (length (activeShown st) \<ge> need),
          ts_message = show_nat (length (activeShown st)) @ ''/'' @ show_nat (length (shownNodes st)) @ '' voting, need '' @ show_nat need\<rparr>)"

text \<open>Two readings three seconds apart; a term that is not a number equals nothing. (The arrow is given as its bytes.)\<close>

definition testTermStability :: "ClusterProto \<Rightarrow> ClusterProto \<Rightarrow> TestResult" where
  "testTermStability st1 st2 =
     (let t1 = parseInt (cp_term st1); t2 = parseInt (cp_term st2); show_term = (\<lambda>t. case t of Some i \<Rightarrow> show_int i | None \<Rightarrow> ''NaN'');
          ok = (t1 \<noteq> None \<and> t1 = t2)
      in \<lparr>ts_name = ''Term stability'', ts_passed = ok,
          ts_message = (if ok then ''term '' @ show_term t1 @ '' stable over 3s'' else ''term changed '' @ show_term t1 @ [CHR 0xE2, CHR 0x86, CHR 0x92] @ show_term t2)\<rparr>)"

text \<open>The polls after a transfer of leadership (\<open>None\<close>: the call failed), at most fifteen.\<close>

fun awaitLeader :: "int \<Rightarrow> ClusterProto option list \<Rightarrow> (string \<times> int) option" where
  "awaitLeader oldTerm [] = None"
| "awaitLeader oldTerm (None # ps) = awaitLeader oldTerm ps"
| "awaitLeader oldTerm (Some st # ps) =
     (case parseInt (cp_term st) of
        Some t \<Rightarrow> if cp_leader_id st \<noteq> [] \<and> t > oldTerm then Some (cp_leader_id st, t) else awaitLeader oldTerm ps
      | None \<Rightarrow> awaitLeader oldTerm ps)"

definition failoverPassed :: "ClusterProto \<Rightarrow> ClusterProto option list \<Rightarrow> bool" where
  "failoverPassed st polls =
     (case (leaderOf st, parseInt (cp_term st)) of
        (Some _, Some t) \<Rightarrow> awaitLeader t (take 15 polls) \<noteq> None
      | _ \<Rightarrow> False)"

section \<open>Properties\<close>

text \<open>
  What \<open>drain\<close> and \<open>cordon\<close> do to the node they name: the request they send makes the leader
  mark it as draining and at once propose its departure, and when that entry is committed
  the node is neither a member nor a peer of the consensus module. Neither command is the
  pause of scheduling it announces.
\<close>

lemma deregister_removes:
  assumes "isLeader (raft m)" and "jm_get (m_nodes m) i = Some n"
  shows "\<exists>m' e. DeregisterNode json i (Some g) m = (m', True) \<and> rlog (raft m') = rlog (raft m) @ [e]
    \<and> e_type e = NodeLeave \<and> e_data e = json (NodeLeaveEntry i)
    \<and> jm_get (m_nodes (handleCommittedEntry now (NodeLeaveEntry i) m')) i = None
    \<and> jm_get (peers (raft (handleCommittedEntry now (NodeLeaveEntry i) m'))) i = None"
proof -
  have "state (raft m) = Leader" using assms(1) by (simp add: isLeader_def)
  with assms show ?thesis
    by (simp add: DeregisterNode_def nullish_def removeNode_def appendEntry_def Let_def handleNodeLeaveCommitted_def m_emit_def removePeer_def
        split: option.splits)
qed

lemma find_first: "\<forall>y \<in> set ys. \<not> P y \<Longrightarrow> P x \<Longrightarrow> find P (ys @ x # zs) = Some x"
  by (induction ys) auto

lemma leaderOf_unique:
  assumes "distinct (map np_node_id (cp_nodes st))" and "l \<in> set (cp_nodes st)" and "np_node_id l = cp_leader_id st"
  shows "leaderOf st = Some l"
proof (cases "leaderOf st")
  case None
  with assms show ?thesis by (auto simp: leaderOf_def find_None_iff)
next
  case (Some x)
  then have "x \<in> set (cp_nodes st)" "np_node_id x = np_node_id l" using assms(3) by (auto simp: leaderOf_def find_Some_iff)
  with Some assms(1,2) show ?thesis by (auto simp: distinct_map inj_on_def)
qed

text \<open>
  C30. \<open>cortex cordon\<close> removes the node it names. When \<open>n\<close> is the first shown node whose
  short name or host name is the given one in either case, is not yet draining, and the
  cluster's leader \<open>l\<close> is among the nodes, the command sends \<open>l\<close> a request to deregister
  exactly \<open>n\<close>; this makes the leader append the departure of \<open>n\<close>, and when that entry is
  committed \<open>n\<close> is neither a member nor a peer of the consensus module. The command
  announces only that no new tasks are scheduled there.
\<close>

theorem cordon_removes_node:
  assumes named: "shownNodes st = earlier @ n # later" "\<forall>n' \<in> set earlier. \<not> isNamed name n'" "isNamed name n"
    and active: "\<not> str_includes (np_status n) ''DRAINING''"
    and leader: "distinct (map np_node_id (cp_nodes st))" "l \<in> set (cp_nodes st)" "np_node_id l = cp_leader_id st"
    and member: "isLeader (raft m)" "jm_get (m_nodes m) (np_node_id n) = Some info"
  shows "runCordon name st = CliCall (cliAddress l) (DeregisterRequest (np_node_id n) True)
    \<and> (\<exists>m' e. DeregisterNode json (np_node_id n) (Some True) m = (m', True) \<and> rlog (raft m') = rlog (raft m) @ [e]
        \<and> e_type e = NodeLeave \<and> e_data e = json (NodeLeaveEntry (np_node_id n))
        \<and> jm_get (m_nodes (handleCommittedEntry now (NodeLeaveEntry (np_node_id n)) m')) (np_node_id n) = None
        \<and> jm_get (peers (raft (handleCommittedEntry now (NodeLeaveEntry (np_node_id n)) m'))) (np_node_id n) = None)"
proof -
  have "findNode (shownNodes st) name = Some n" unfolding findNode_def named(1) by (rule find_first [OF named(2,3)])
  with active leaderOf_unique [OF leader] deregister_removes [OF member] show ?thesis
    by (simp add: runCordon_def askLeader_def)
qed

definition ex_named :: "string \<Rightarrow> NodeInfo" where
  "ex_named i = \<lparr>nodeId = i, hostname = i, tailscaleIp = ''10.0.0.2'', grpcPort = 7, role = RoleFollower, status = Active,
     resources = None, tags = [], joinedAt = 0, lastSeen = 0\<rparr>"

definition ex_leading :: MembershipManager where
  "ex_leading = ex_leaderView\<lparr>raft := (raft ex_leaderView)\<lparr>state := Leader\<rparr>\<rparr>"

definition ex_cluster_state :: ClusterProto where
  "ex_cluster_state =
     \<lparr>cp_cluster_id = ''c'', cp_leader_id = ''a'', cp_term = ''1'', cp_nodes = map nodeToProto [ex_named ''a'', ex_named ''b''],
      cp_total_resources = \<lparr>tp_cpu_cores = 0, tp_memory_bytes = ''0'', tp_gpu_count = 0, tp_gpu_memory_bytes = ''0''\<rparr>,
      cp_available_resources = \<lparr>tp_cpu_cores = 0, tp_memory_bytes = ''0'', tp_gpu_count = 0, tp_gpu_memory_bytes = ''0''\<rparr>, cp_active_tasks = 0, cp_queued_tasks = 0\<rparr>"

theorem cordon_removes_node_witness:
  "runCordon ''B'' ex_cluster_state = CliCall ''10.0.0.2:7'' (DeregisterRequest ''b'' True)
   \<and> (\<exists>m'. DeregisterNode (\<lambda>_. []) ''b'' (Some True) ex_leading = (m', True)
        \<and> jm_get (m_nodes (handleCommittedEntry 0 (NodeLeaveEntry ''b'') m')) ''b'' = None)"
proof -
  let ?a = "nodeToProto (ex_named ''a'')" and ?b = "nodeToProto (ex_named ''b'')"
  have st: "shownNodes ex_cluster_state = [?a] @ ?b # []" "cp_nodes ex_cluster_state = [?a, ?b]" "cp_leader_id ex_cluster_state = ''a''" by code_simp+
  have ids: "np_node_id ?a = ''a''" "np_node_id ?b = ''b''" "cliAddress ?a = ''10.0.0.2:7''" by code_simp+
  have nm: "\<not> isNamed ''B'' ?a" "isNamed ''B'' ?b" "\<not> str_includes (np_status ?b) ''DRAINING''" by code_simp+
  have lead: "isLeader (raft ex_leading)" by (simp add: isLeader_def ex_leading_def)
  have "jm_get (m_nodes ex_leading) ''b'' \<noteq> None" by code_simp
  then obtain n where "jm_get (m_nodes ex_leading) ''b'' = Some n" by auto
  with cordon_removes_node [OF st(1), of "''B''" ?a ex_leading n "\<lambda>_. []" 0] st(2,3) ids nm lead show ?thesis by auto
qed

text \<open>The node to which a name belongs is the one the commands act on, whatever its case, unless several share it.\<close>

lemma named_node_found:
  assumes "n \<in> set (shownNodes st)" and "isNamed name n" and "\<And>n'. n' \<in> set (shownNodes st) \<Longrightarrow> isNamed name n' \<Longrightarrow> n' = n"
  shows "findNode (shownNodes st) name = Some n"
proof (cases "findNode (shownNodes st) name")
  case None
  with assms(1,2) show ?thesis by (auto simp: findNode_def find_None_iff)
next
  case (Some n')
  then have "n' \<in> set (shownNodes st)" "isNamed name n'" by (auto simp: findNode_def find_Some_iff)
  with assms(3) Some show ?thesis by blast
qed

text \<open>
  A snapshot brings back the database it was taken of: whatever happens to the database
  in between, restoring the snapshot gives the contents it had, and the contents it
  replaces are kept under the name of the backup.
\<close>

theorem snapshot_restores:
  assumes "runSnapshotCreate stamp (Some name) f = (f', 0)" and "name \<noteq> ''pre_restore_'' @ stamp'"
    and later: "sf_snapshots f'' = sf_snapshots f'" "sf_db f'' = Some changed"
  shows "\<exists>g. runSnapshotRestore stamp' name f'' = (g, 0) \<and> sf_db g = sf_db f
    \<and> jm_get (sf_snapshots g) (''pre_restore_'' @ stamp') = Some changed"
proof -
  obtain c where "sf_db f = Some c" "f' = f\<lparr>sf_snapshots := jm_set name c (sf_snapshots f)\<rparr>"
    using assms(1) by (auto simp: runSnapshotCreate_def Let_def nullish_def split: option.splits if_splits)
  with assms(2) later show ?thesis
    by (simp add: runSnapshotRestore_def jm_has_def doRestore_def readSource_def Let_def)
qed

theorem snapshot_restores_witness:
  "\<exists>g. runSnapshotRestore ''t'' ''s'' \<lparr>sf_db = Some (2 :: nat), sf_snapshots = [(''s'', 1)], sf_other = Map.empty\<rparr> = (g, 0)
    \<and> sf_db g = Some 1 \<and> jm_get (sf_snapshots g) ''pre_restore_t'' = Some 2"
  using snapshot_restores [of "''u''" "''s''" "\<lparr>sf_db = Some 1, sf_snapshots = [], sf_other = Map.empty\<rparr>"
      "\<lparr>sf_db = Some 1, sf_snapshots = [(''s'', 1)], sf_other = Map.empty\<rparr>" "''t''"
      "\<lparr>sf_db = Some (2 :: nat), sf_snapshots = [(''s'', 1)], sf_other = Map.empty\<rparr>" 2]
  by (simp add: runSnapshotCreate_def nullish_def jm_has_def jm_set_def Let_def)

text \<open>A restore from the backup that it makes itself (the same second) changes nothing.\<close>

lemma restore_of_own_backup:
  "sf_db f = Some c \<Longrightarrow> sf_db (doRestore stamp (FromSnapshot (''pre_restore_'' @ stamp)) f) = Some c"
  by (simp add: doRestore_def readSource_def Let_def)

text \<open>The groups of \<open>config diff\<close>: the members of a group are the nodes with that configuration, in order.\<close>

lemma group_members:
  "jm_wf g \<Longrightarrow> jm_wf (fold addToGroup cs g) \<and>
     jm_get (fold addToGroup cs g) x =
       (case jm_get g x of
          Some ns \<Rightarrow> Some (ns @ map fst (filter (\<lambda>c. snd c = x) cs))
        | None \<Rightarrow> if list_ex (\<lambda>c. snd c = x) cs then Some (map fst (filter (\<lambda>c. snd c = x) cs)) else None)"
proof (induction cs arbitrary: g)
  case (Cons c cs)
  have wf: "jm_wf (addToGroup c g)" using Cons.prems by (auto simp: addToGroup_def split: prod.splits)
  have get: "jm_get (addToGroup c g) x = (if snd c = x then Some (nullish (jm_get g x) [] @ [fst c]) else jm_get g x)"
    by (auto simp: addToGroup_def jm_has_def nullish_def split: prod.splits option.splits)
  show ?case using Cons.IH [OF wf] by (auto simp: get nullish_def split: option.splits)
qed (auto split: option.splits)

text \<open>
  The comparison of configurations is exact: a group lists precisely the nodes that have
  its configuration, and all nodes are reported identical only if any two of them are.
\<close>

theorem config_groups_exact:
  assumes "jm_wf configs"
  shows "name \<in> set (nullish (jm_get (configGroups configs) cfg) []) \<longleftrightarrow> jm_get configs name = Some cfg"
    and "allIdentical configs \<Longrightarrow> jm_get configs n1 = Some c1 \<Longrightarrow> jm_get configs n2 = Some c2 \<Longrightarrow> c1 = c2"
proof -
  have members: "jm_get (configGroups configs) x =
      (if list_ex (\<lambda>c. snd c = x) configs then Some (map fst (filter (\<lambda>c. snd c = x) configs)) else None)" for x
    using group_members [of "[]" configs x] by (simp add: configGroups_def)
  have in_configs: "jm_get configs n = Some c \<longleftrightarrow> (n, c) \<in> set configs" for n c
    using assms by (simp add: jm_get_def jm_wf_def)
  show "name \<in> set (nullish (jm_get (configGroups configs) cfg) []) \<longleftrightarrow> jm_get configs name = Some cfg"
    by (force simp: members in_configs nullish_def list_ex_iff)
  assume one: "allIdentical configs" and c: "jm_get configs n1 = Some c1" "jm_get configs n2 = Some c2"
  have "jm_get (configGroups configs) c1 \<noteq> None" "jm_get (configGroups configs) c2 \<noteq> None"
    using c by (force simp: members in_configs list_ex_iff)+
  then have "c1 \<in> set (jm_keys (configGroups configs))" "c2 \<in> set (jm_keys (configGroups configs))" by (simp_all add: jm.keys_get)
  with one show "c1 = c2" by (auto simp: allIdentical_def jm.size_keys length_Suc_conv)
qed

text \<open>
  \<open>cortex events\<close> shows the newest events that match, oldest first: no more than asked
  for, only matching ones, in the order of time, and no matching event that is left out is
  newer than one that is shown.
\<close>

definition eventMatches :: "(string \<Rightarrow> int option) \<Rightarrow> int \<Rightarrow> string option \<Rightarrow> string option \<Rightarrow> EventRow \<Rightarrow> bool" where
  "eventMatches date now since type r \<longleftrightarrow> parseSince date now (if truthy since then the since else ''24h'') \<le> ev_occurred_at r
     \<and> (truthy type \<and> type \<noteq> Some ''all'' \<longrightarrow> ev_type r = the type)"

theorem events_newest_in_order:
  assumes "queryEvents date now since type mx rows = shown"
  shows "length shown = min mx (length (filter (eventMatches date now since type) rows))
    \<and> sorted (map ev_occurred_at shown)
    \<and> (\<exists>rest. mset shown + mset rest = mset (filter (eventMatches date now since type) rows)
        \<and> (\<forall>r\<in>set rest. \<forall>x\<in>set shown. ev_occurred_at r \<le> ev_occurred_at x))"
proof -
  let ?ms = "filter (eventMatches date now since type) rows"
  let ?s = "sort_desc ev_occurred_at ?ms"
  have shown: "shown = rev (take mx ?s)" using assms by (simp add: queryEvents_def Let_def eventMatches_def [abs_def])
  have desc: "sorted_wrt (\<lambda>x y. ev_occurred_at y \<le> ev_occurred_at x) ?s"
    using sorted_sort_desc [of ev_occurred_at ?ms] by (simp add: sorted_wrt_map)
  then have pieces: "sorted_wrt (\<lambda>x y. ev_occurred_at y \<le> ev_occurred_at x) (take mx ?s @ drop mx ?s)" by simp
  have "mset shown + mset (drop mx ?s) = mset ?ms"
    unfolding shown by (metis append_take_drop_id mset_append mset_rev mset_sort_desc)
  moreover have "\<forall>r\<in>set (drop mx ?s). \<forall>x\<in>set shown. ev_occurred_at r \<le> ev_occurred_at x"
    using pieces unfolding sorted_wrt_append shown by auto
  moreover have "sorted (map ev_occurred_at shown)"
    using pieces unfolding sorted_wrt_append shown by (simp add: sorted_wrt_map sorted_wrt_rev)
  ultimately show ?thesis by (auto simp: shown min.commute)
qed

text \<open>
  The quorum test counts the nodes shown, not the members that vote: with three voters of
  which two are lost, and three active observers, it passes although there is no majority.
\<close>

lemma quorum_test_counts_observers:
  assumes "shownNodes st = voters @ observers" and "length voters = 3" and "length observers = 3"
    and "list_all (\<lambda>n. str_includes (np_status n) ''ACTIVE'') (last voters # observers)"
  shows "ts_passed (testQuorumHealth st)"
proof -
  obtain a b c where v: "voters = [a, b, c]" using assms(2) by (auto simp: length_Suc_conv numeral_3_eq_3)
  have "filter (\<lambda>n. str_includes (np_status n) ''ACTIVE'') observers = observers" using assms(4) by (simp add: filter_id_conv list_all_iff)
  with assms v show ?thesis by (simp add: testQuorumHealth_def activeShown_def Let_def)
qed

text \<open>The failover test passes only if some poll saw a leader of a higher term.\<close>

lemma failover_needs_higher_term:
  assumes "failoverPassed st polls"
  shows "\<exists>t st' t'. parseInt (cp_term st) = Some t \<and> Some st' \<in> set (take 15 polls) \<and> parseInt (cp_term st') = Some t' \<and> t < t'
    \<and> cp_leader_id st' \<noteq> []"
proof -
  have *: "awaitLeader t ps \<noteq> None \<Longrightarrow> \<exists>st' t'. Some st' \<in> set ps \<and> parseInt (cp_term st') = Some t' \<and> t < t' \<and> cp_leader_id st' \<noteq> []" for t ps
    by (induction t ps rule: awaitLeader.induct) (auto split: option.splits if_splits)
  from assms obtain t where "parseInt (cp_term st) = Some t" "awaitLeader t (take 15 polls) \<noteq> None"
    by (auto simp: failoverPassed_def split: option.splits)
  with * show ?thesis by blast
qed

text \<open>\<open>cortex run\<close> reports success exactly if it reached some node and the command succeeded on each of them.\<close>

fun runCodes :: "(string \<Rightarrow> 'w \<Rightarrow> 'w \<times> int) \<Rightarrow> string list \<Rightarrow> 'w \<Rightarrow> int list" where
  "runCodes exec [] w = []"
| "runCodes exec (c # cs) w = snd (exec c w) # runCodes exec cs (fst (exec c w))"

lemma run_exit_code:
  "snd (runRun exec quote user local names cmd st w) = 0 \<longleftrightarrow>
     run_resolveNodes local names st \<noteq> [] \<and>
     list_all (\<lambda>k. k = 0) (runCodes exec (map (runOnNode quote user cmd) (run_resolveNodes local names st)) w)"
proof -
  have "snd (runSequence exec cs w) \<longleftrightarrow> \<not> list_all (\<lambda>k. k = 0) (runCodes exec cs w)" for cs w
    by (induction cs arbitrary: w) (auto simp: case_prod_unfold Let_def)
  then show ?thesis
    by (cases "run_resolveNodes local names st") (simp_all add: runRun_def case_prod_unfold Let_def del: runCodes.simps runSequence.simps)
qed

end
