(* ===== verification/Spec2Isabelle.thy ===== *)
theory Spec2Isabelle
  imports RaftCluster RaftReplication TaskPluginProps ClusterSchedulerProps MemoryProps UpdaterProps HealthProps
    HandlersProps ResourceMonitor Plugins AccessProps MessagingProps SecretsProps SubagentProps TaskOutput
    MemoryToolsProps StartupProps Skills McpToolsProps Providers MessagingPluginProps Cli
begin

text \<open>
  Cortex (package \<open>claudecluster\<close>) joins machines into a compute mesh. Each machine
  runs one process with

  \<^item> a \<^emph>\<open>consensus node\<close> (\<open>RaftNode\<close>, \<open>src/cluster/raft.ts\<close>): elections, a replicated
    log, and an event for every committed entry;
  \<^item> a \<^emph>\<open>membership manager\<close> (\<open>src/cluster/membership.ts\<close>): who belongs to the cluster
    and who is alive; it maintains the peers of the consensus node from committed
    \<open>node_join\<close> and \<open>node_leave\<close> entries;
  \<^item> a \<^emph>\<open>task engine\<close> (\<open>src/plugins/task-engine\<close>): tools that append task and workflow
    entries to the log, a state machine that applies committed entries to SQLite tables
    on every replica, and on the leader a scheduling cycle that assigns queued tasks to
    active nodes, dispatches them and re-queues those of lost nodes;
  \<^item> an older in-memory \<^emph>\<open>cluster scheduler\<close> (\<open>src/cluster/scheduler.ts\<close>) on the leader,
    to which other nodes forward submissions;
  \<^item> a \<^emph>\<open>shared memory\<close> (\<open>src/memory/replication.ts\<close>): SQL statements that go through the
    log and are executed on every node, and snapshots of the database for new nodes;
  \<^item> the \<^emph>\<open>view of the cluster\<close> with sessions and shared context (\<open>src/cluster/state.ts\<close>),
    \<^emph>\<open>health alerts\<close> on the leader (\<open>src/plugins/cluster-health\<close>) and the health and
    resources of the own machine (\<open>src/agent\<close>), announcements, and a \<^emph>\<open>rolling updater\<close>
    (\<open>src/cluster/updater.ts\<close>) that replaces the program node by node;
  \<^item> \<^emph>\<open>access\<close>: approval of new nodes, join tokens and policies, secrets
    (\<open>src/discovery/approval.ts\<close>, \<open>src/security\<close>);
  \<^item> \<^emph>\<open>messaging\<close>: conversations with a language model and its tools, an inbox, a gateway
    that is active on the leader, channels and slash commands (\<open>src/messaging\<close>,
    \<open>src/providers\<close>, \<open>src/plugins/messaging\<close>);
  \<^item> the \<^emph>\<open>execution of tasks\<close> as processes, containers and subagents (\<open>src/agent\<close>), and
    their submission as Kubernetes jobs (\<open>src/kubernetes/adapter.ts\<close>);
  \<^item> the \<^emph>\<open>memory tools\<close> over the tables of the shared memory (\<open>src/memory\<close>), the
    \<^emph>\<open>cluster tools\<close> and the server that lists and calls tools (\<open>src/mcp\<close>), and \<^emph>\<open>skills\<close>
    read from files (\<open>src/skills\<close>);
  \<^item> the \<^emph>\<open>gRPC services\<close> (\<open>src/grpc/handlers.ts\<close>) through which the nodes call each other
    and the pool of connections to them (\<open>src/grpc/client.ts\<close>);
  \<^item> \<^emph>\<open>startup\<close> (\<open>src/index.ts\<close>): the identity of the node, the search for seeds on the
    tailnet (\<open>src/discovery/tailscale.ts\<close>), joining, leaving and joining again.

  \<^bold>\<open>Theories.\<close> Each component has a theory with its records, datatypes and one
  definition per method, in the order of the source; the properties follow in theories
  of their own. Paths are relative to the repository.

  \<^item> \<open>Prelude\<close>: JavaScript arrays, \<open>Map\<close>, strings and number parsing, stable sorting;
    runs of a step function; the interfaces \<open>keyed_store\<close> (laws of a \<open>Map\<close>),
    \<open>invariant_of\<close> and \<open>monotone_of\<close> (what every step keeps, every run keeps) and
    \<open>replicated_machine\<close> (steps that respect an equivalence make replicas agree).
  \<^item> \<open>Quorum\<close>: majorities and the interface \<open>quorum_system\<close> (two quorums meet).
  \<^item> \<open>Raft\<close>: \<open>RaftNode\<close>, every method. \<open>RaftLog\<close>: the append loop against a reference
    definition, log matching, the unapplied entries. \<open>RaftSafety\<close>: log matching under
    replication, commitment by majority, application of each index once and in order.
    \<open>RaftVote\<close>: terms, votes, timers. \<open>RaftCluster\<close>: many nodes and a network that
    delays, reorders and loses messages; election safety for a fixed membership. \<open>RaftReplication\<close>: the back-off
    of \<open>nextIndex\<close> as a loop with fuel, and the names of entry types on the wire
    (\<open>src/grpc/handlers.ts\<close>).
  \<^item> \<open>NodeTypes\<close>, \<open>Membership\<close>, \<open>MembershipProps\<close>: members, joins, heartbeats, failure
    detection and the wire format of a node. \<open>Membership\<close>'s state contains the
    \<open>RaftNode\<close> whose peers it edits.
  \<^item> \<open>TaskTypes\<close>, \<open>TaskEngine\<close>: the tables (interface \<open>keyed_table\<close>), the workflow
    engine, conditions, and the state machine. \<open>TaskEngineProps\<close>: the keys of the tables,
    agreement of replicas. \<open>TaskWorkflow\<close>: what \<open>workflow_advance\<close> decides.
    \<open>ResourceScheduler\<close>: filter, score and choice of a node (interface \<open>best_choice\<close>).
    \<open>TaskPlugin\<close>: tool handlers, commits, scheduling cycle, dispatch, over the interface
    \<open>entry_log\<close>, which the consensus node and the plugin's view of the log both satisfy.
    \<open>TaskPluginProps\<close>: retries end in a dead letter, a lost node keeps no task, what a
    cycle proposes.
  \<^item> \<open>ClusterScheduler\<close>, \<open>ClusterSchedulerProps\<close>: submission, queue, choice, retries.
  \<^item> \<open>MemoryReplication\<close>, \<open>MemoryProps\<close>: writes on the leader and forwarded ones, their
    application, snapshot transfer in chunks; an acknowledged write is in a leader's log,
    a snapshot arrives as it was sent.
  \<^item> \<open>ClusterState\<close>: sessions, context and its visibility, resource totals, with their
    properties. \<open>ClusterHealth\<close>, \<open>HealthProps\<close>: alerts with cool-down and squelch, the
    health of a node. \<open>ResourceMonitor\<close>: snapshots and the detection of games, with
    properties. \<open>Plugins\<close>: the plugin loader and the announcements, with properties.
  \<^item> \<open>Updater\<close>, \<open>UpdaterProps\<close>: preflight, the phases of one follower, rollback, the whole
    update as a function on an outside world; every shell command it sends is recorded.
  \<^item> \<open>Access\<close>, \<open>AccessProps\<close>: approval requests, tokens, policies. \<open>Secrets\<close>,
    \<open>SecretsProps\<close>: the encrypted store with its hexadecimal texts, which survives restarts
    under a key of 32 bytes, and placeholders in environment variables.
  \<^item> \<open>Messaging\<close>, \<open>MessagingProps\<close>: chunking of long texts, the tool loop and the kept
    histories (a turn grammar as an automaton), inbox and archive, provider fallback, gateway.
    \<open>Markdown\<close>: the conversion to HTML, over the interface \<open>tag_matcher\<close> of its replacements;
    no tag but the converter's own. \<open>Providers\<close>: requests and responses of the three
    services; a conversation reaches Ollama as a well-formed dialogue. \<open>MessagingPlugin\<close>,
    \<open>MessagingPluginProps\<close>: Telegram and Discord, commands, inbox tools, the plugin, with
    \<open>connect\<close> and \<open>stop\<close> of the bot cut where they wait for the service; which chunks of a
    reply arrive, every message is answered, when the bot follows the leadership and when
    a change of role is lost.
  \<^item> \<open>Handlers\<close>, \<open>HandlersProps\<close>: the services over the wire format; a Raft call over the
    wire is the call itself, leadership is handed over, a joining node learns the members,
    heartbeats keep a node active.
  \<^item> \<open>TaskExecution\<close>, \<open>TaskExecutionProps\<close>: the executor with its running tasks, processes
    and the escalation of signals, validation of commands, container options.
    \<open>TaskOutput\<close>: the multiplexed output of a container against an encoder of its frames.
    \<open>Subagent\<close>, \<open>SubagentProps\<close>: the loop of a subagent over a model and its tools.
  \<^item> \<open>GrpcClient\<close>: the connection pool, its calls and retries, with properties.
    \<open>Kubernetes\<close>: contexts, cluster sizes, jobs and their status, with properties.
  \<^item> \<open>MemoryDb\<close>, \<open>MemoryTools\<close>, \<open>MemoryToolsProps\<close>: the tables of the shared memory, the
    statements the tools send and those of callers; replicas that handle the same committed
    entries agree up to their clocks, if the statements of callers depend on none.
  \<^item> \<open>Discovery\<close>: polling the tailnet and the events of a node that comes or goes, with
    properties. \<open>Startup\<close>, \<open>StartupProps\<close>: the attempts to join, the pause of elections
    meanwhile, the start of all parts, joining again after an isolation.
  \<^item> \<open>Skills\<close>: skill files, their front matter and the loader, with properties.
  \<^item> \<open>McpTools\<close>, \<open>McpToolsProps\<close>: the handlers of the cluster tools over the scheduler,
    membership and state of the other theories, and the tool server.
  \<^item> \<open>Cli\<close>: commands of the command line (\<open>src/cli\<close>) on nodes, snapshots, configurations,
    events, and the tests that judge a cluster, with properties; a command that names a
    node is followed into the handlers of the leader.
  \<^item> this theory: the log of the consensus node drives the task tables, end to end.

  \<^bold>\<open>How state and effects are rendered.\<close> A class is a record holding its private
  fields; a method is a function from the record (and the clock, where it reads it) to
  the record, with its result. Emitted events are appended to a list of the record.
  An \<open>async\<close> method is cut at its \<open>await\<close>s, so that other methods may run in between;
  the answer of a remote call is an argument. Where a method holds an object across an
  \<open>await\<close> that another may replace (the peer of \<open>replicateToPeer\<close>), the object carries a
  number of its own. A raised exception is a value of a sum
  type. Terms, indices and counters are unbounded integers, since the code stays far
  below \<open>2 ^ 53\<close>; scores are rationals.

  \<^bold>\<open>Parameters.\<close> Node's \<open>vm\<close> (evaluation of a workflow condition) is \<open>vm\<close>, of which
  nothing is assumed; \<open>randomUUID()\<close> is \<open>uuid\<close>; the JSON text of an entry is \<open>json\<close>;
  the order in which an engine sorts with a comparator that is not an order is \<open>engine\<close>.
  The database engine is \<open>sql_run\<close>; over the tables of the timeline it is that of the
  tools' own statements with a parameter \<open>eng\<close> for SQL given to \<open>memory_write\<close>, of which only
  \<open>timeless\<close> statements are compared between replicas. The digest is \<open>sha\<close>, the keyed hash
  \<open>hmac\<close>, the cipher \<open>seal\<close>/\<open>unseal\<close> (it works with keys of 32 bytes and throws for others),
  texts of payloads \<open>enc\<close>/\<open>dec\<close>; where a theorem relies on one of them, the documented
  behaviour is a hypothesis (a text is read back as it was written, a message
  is deciphered with its key, two given tokens do not collide). Remote shells, providers,
  tools and plugins act on an outside world of any type. The updater's \<open>Env\<close> says how long
  each call and each sleep takes; a sleep lasts at least the time asked for, which makes
  its polling loops end. The subagent's model and tools, the Docker daemon, the answers of
  the Tailscale command and of remote nodes, the Kubernetes API, the services of the
  language models and the bot library are arguments of the definitions that call them.
  Of the bot service the theorems on replies assume what is documented (\<open>bot_service\<close>: texts
  of 1 to 4096 characters, HTML that may not parse), those on answers less (\<open>honest\<close>,
  \<open>takes_apology\<close>).

  \<^bold>\<open>Fuel and bounds.\<close> \<open>catchUp\<close> runs replication rounds with fuel; \<open>nat (nextIndex p)\<close>
  rounds are proved to be enough, since each refusal lowers \<open>nextIndex\<close> by one. A chain of
  join redirects is limited by the code itself. \<open>chunkLoop\<close> is a partial function, because
  the code does not end for a limit of zero; it is proved to return for every other.
  The turns of a subagent are bounded by the code; waiting for a Kubernetes job or a first
  seed is a recursion over the answers received.

  \<^bold>\<open>Where the code departs from its intent.\<close> Theorems state the behaviour of the code as
  it is: overlapping elections can give two leaders of one term, a restart and
  \<open>stepDown\<close> forget the vote, a capped batch commits a stale entry, \<open>workflow_submit\<close>
  makes replicas diverge, workflows are never advanced, a chain of skips leaves its
  workflow running, a cancelled task can be revived, the cluster scheduler retries
  without end, a joining node counts observers as voters, a peer that falls silent is
  never reported, one secret that does not decrypt costs the others, a rollback may
  remove a build of which there is no backup, a transfer of leadership may go to a
  node whose id only begins with the target's, the second signal is never sent to a
  process that ignores the first, a skill without a name is listed and cannot be loaded,
  a skill file with carriage returns is ignored, later join candidates are called on the
  own port, OpenAI is given neither prompt nor tools, without a provider alerts are
  lost, a change of role while the bot connects is lost, a chunk with nothing to show
  ends a reply, a key of the wrong size stores no secret, and to cordon a node removes it from the cluster. Election safety and agreement of replicas
  are stated with the conditions under which they do hold.

  \<^bold>\<open>Not modelled.\<close> Random timeout lengths and real time; sockets, the operating system's
  processes and files beyond what the definitions above read of them; JSON schemas of
  tools; logging and the banner; certificates (placeholders in the code); the gRPC
  server's binding to its port; the resources of \<open>src/mcp/resources.ts\<close>, which nothing
  calls; the benchmark; of the command line the output and the commands that only show
  something (\<open>top\<close>, \<open>logs\<close>, \<open>diag\<close>, \<open>tasks\<close>). The vendored code under \<open>src/openclaw\<close> and the bindings
  of external services are outside the development.
\<close>

section \<open>From the replicated log to the task tables\<close>

text \<open>
  The task tables of a node: the entries its consensus module has emitted as committed,
  read by \<open>dec\<close> (the parsing of an entry's type and data) and applied in order, each
  in the environment (clock and random identifiers) of that moment.
\<close>

definition taskTables :: "(LogEntry \<Rightarrow> TaskEntry) \<Rightarrow> vm_eval \<Rightarrow> string \<Rightarrow> (int \<times> (nat \<Rightarrow> string)) list \<Rightarrow> LogEntry list \<Rightarrow> TaskDB" where
  "taskTables dec vm me env es = applyLog vm me (zip env (map dec es)) empty_db"

lemma fresh_follower_applies:
  assumes L: "wf_log L" "request_from L q" "prevLogIndex q = 0"
    and n: "rlog n = []" "commitIndex n = 0" "lastApplied n = 0" "emitted n = []"
    and ok: "handleAppendEntries now q n = (n', r)" "ar_success r"
    and commit: "0 \<le> leaderCommit q" "leaderCommit q \<le> int (length (aq_entries q))"
  shows "applied n' = take (nat (leaderCommit q)) L"
proof -
  obtain m where m: "rlog m = appendLoop (prevLogIndex q) (aq_entries q) (rlog n)" "lastApplied m = lastApplied n"
      "applied m = applied n" "commitIndex m = commitIndex n"
    and n': "n' = (if leaderCommit q > commitIndex n
         then applyCommittedEntries (m\<lparr>commitIndex := min (leaderCommit q) (getLastLogIndex m)\<rparr>) else m)"
    using handleAppendEntries_shape [OF ok] by metis
  have log: "rlog m = aq_entries q"
    using appendLoop_reference [of 0 "[]" "aq_entries q"] m(1) n(1) L(3) by simp
  have wf: "wf_log (rlog m)"
    using request_from_wf [OF L(1,2)] L(3) by (simp add: log wf_request_def wf_log_def)
  obtain k where es: "aq_entries q = take k L" using L(2,3) by (auto simp: request_from_def)
  have pre: "take (nat (leaderCommit q)) (aq_entries q) = take (nat (leaderCommit q)) L"
  proof -
    have "nat (leaderCommit q) \<le> k" using commit(2) by (auto simp: es min_def split: if_splits)
    then show ?thesis by (simp add: es min_def)
  qed
  show ?thesis
  proof (cases "leaderCommit q > 0")
    case True
    have "min (leaderCommit q) (getLastLogIndex m) = leaderCommit q" using commit(2) wf log by (simp add: min_def)
    with True n n' m have "applied n' = unapplied (m\<lparr>commitIndex := leaderCommit q\<rparr>)"
      by (simp add: applied_def)
    also have "\<dots> = take (nat (leaderCommit q)) (aq_entries q)"
      using unapplied_take [of "m\<lparr>commitIndex := leaderCommit q\<rparr>"] m(2) n(3) commit(2) log by simp
    finally show ?thesis using pre by simp
  next
    case False
    with n n' m commit(1) show ?thesis by (simp add: applied_def)
  qed
qed

text \<open>
  C7. End to end: when one AppendEntries request from the leader's log brings a fresh
  follower up to the leader's commit index, the follower's task tables agree with those
  of any replica that applied the leader's committed entries, whatever the clocks and
  names, as long as those committed entries contain no \<open>workflow_submit\<close> (whose task ids
  each replica draws for itself).
\<close>

theorem follower_tables_agree:
  assumes L: "wf_log L" "request_from L q" "prevLogIndex q = 0"
    and n: "rlog n = []" "commitIndex n = 0" "lastApplied n = 0" "emitted n = []"
    and ok: "handleAppendEntries now q n = (n', r)" "ar_success r"
    and commit: "0 \<le> leaderCommit q" "leaderCommit q \<le> int (length (aq_entries q))"
    and entries: "list_all (\<lambda>e. replicable (dec e)) (take (nat (leaderCommit q)) L)"
    and env: "length L \<le> length env" "length L \<le> length env'"
  shows "shared (taskTables dec vm me env (applied n'))
       = shared (taskTables dec vm me' env' (take (nat (leaderCommit q)) L))"
proof -
  let ?es = "take (nat (leaderCommit q)) L"
  have snd: "map snd (zip e (map dec ?es)) = map dec ?es" if "length L \<le> length e" for e :: "(int \<times> (nat \<Rightarrow> string)) list"
    using that by (simp add: map_snd_zip_take min_def)
  have "list_all replicable (map dec ?es)"
    using entries by (simp add: list_all_iff)
  then show ?thesis
    unfolding taskTables_def fresh_follower_applies [OF L n ok commit]
    using snd [OF env(1)] snd [OF env(2)] by (intro applyLog_agree) simp_all
qed

definition ex_full :: AppendRequest where
  "ex_full = ex_request\<lparr>prevLogIndex := 0, aq_entries := ex_leaderLog, leaderCommit := 2\<rparr>"

definition ex_dec :: "LogEntry \<Rightarrow> TaskEntry" where
  "ex_dec e = ex_submit (e_data e)"

theorem follower_tables_agree_witness:
  "shared (taskTables ex_dec (\<lambda>_ _ _. None) ''f'' [(1, \<lambda>_. []), (2, \<lambda>_. [])] (applied (fst (handleAppendEntries 0 ex_full (ex_node ''f'')))))
   = shared (taskTables ex_dec (\<lambda>_ _ _. None) ''l'' [(5, \<lambda>_. []), (6, \<lambda>_. [])] ex_leaderLog)"
proof -
  have s: "ar_success (snd (handleAppendEntries 0 ex_full (ex_node ''f'')))"
    by (simp add: ex_full_def ex_request_def ex_defs handleAppendEntries_def Let_def consistent_def)
  have r: "request_from ex_leaderLog ex_full"
    by (auto simp: request_from_def ex_full_def ex_request_def ex_leaderLog_def intro!: exI [of _ 2])
  have "rlog (ex_node ''f'') = []" "commitIndex (ex_node ''f'') = 0" "lastApplied (ex_node ''f'') = 0" "emitted (ex_node ''f'') = []"
    "prevLogIndex ex_full = 0" "leaderCommit ex_full = 2" "length (aq_entries ex_full) = 2" "length ex_leaderLog = 2"
    by (simp_all add: ex_defs ex_full_def ex_leaderLog_def)
  moreover have "list_all (\<lambda>e. replicable (ex_dec e)) ex_leaderLog"
    by (simp add: ex_leaderLog_def ex_dec_def ex_submit_def)
  ultimately show ?thesis
    using follower_tables_agree [OF ex_logs(1) r _ _ _ _ _ surjective_pairing s, of ex_dec
        "[(1, \<lambda>_. []), (2, \<lambda>_. [])]" "[(5, \<lambda>_. []), (6, \<lambda>_. [])]" "\<lambda>_ _ _. None" "''f''" "''l''"]
    by simp
qed

end
